(* ===== verification/Prelude.thy ===== *)
theory Prelude
  imports Complex_Main "HOL-Library.Finite_Map" "HOL-Library.Multiset" "HOL-Library.Sublist" "HOL-Library.AList"
begin

text \<open>
  The shared vocabulary of the development.

  \<^item> Go's maps from strings to strings (labels, annotations, selectors) are finite maps
    \<open>labels\<close>; a missing key reads as the empty string (\<open>lget\<close>), as in Go.
  \<^item> A Go function that talks to the outside world (the Kubernetes API server, a state store, the
    clock, the file system) is a program \<open>('q, 'r, 'a) prog\<close>: it returns (\<open>Ret\<close>), panics
    (\<open>Panic\<close>), or makes a request and continues with the response (\<open>Call\<close>). Nothing is assumed
    of the responses: \<open>exec p t oc\<close> says that \<open>p\<close> can run with the request/response
    trace \<open>t\<close> to the outcome \<open>oc\<close>, for any responses at all.
  \<^item> \<open>wpre p Q\<close> says that every execution of \<open>p\<close> satisfies \<open>Q\<close>; its equations, one per
    combinator, are the collection \<open>wpre_simps\<close>, with which the component proofs run symbolically.
  \<^item> \<open>script p rs\<close> runs \<open>p\<close> against a given list of responses, which is how the concrete
    executions of the witnesses are computed.
\<close>

named_theorems wpre_simps \<open>equations of the weakest precondition, one per combinator\<close>
named_theorems only_intros \<open>rules for footprints, one per combinator\<close>
named_theorems consts_defs \<open>unfolding equations of the program's string constants\<close>

subsection \<open>Strings and string maps\<close>

type_synonym labels = "(string, string) fmap"

definition lget :: "labels \<Rightarrow> string \<Rightarrow> string" where
  "lget m k = (case fmlookup m k of None \<Rightarrow> '''' | Some v \<Rightarrow> v)"

fun join :: "string list \<Rightarrow> string \<Rightarrow> string" where
  "join [] sep = ''''"
| "join [x] sep = x"
| "join (x # y # ys) sep = x @ sep @ join (y # ys) sep"

text \<open>\<open>%q\<close> of a string without a character to escape, as names and labels are.\<close>

definition quoted :: "string \<Rightarrow> string" where "quoted s = CHR 0x22 # s @ [CHR 0x22]"

text \<open>\<open>%d\<close> of a natural number.\<close>

fun itoa :: "nat \<Rightarrow> string" where
  "itoa n = (if n < 10 then [char_of (48 + n)] else itoa (n div 10) @ [char_of (48 + n mod 10)])"

declare itoa.simps [simp del]

subsection \<open>Sorting\<close>

text \<open>
  A stable sort by a comparison, as \<open>sort.SliceStable\<close>: insertion from the right, where an element
  passes those that are less than it.
\<close>

primrec insert_stable :: "('a \<Rightarrow> 'a \<Rightarrow> bool) \<Rightarrow> 'a \<Rightarrow> 'a list \<Rightarrow> 'a list" where
  "insert_stable lt x [] = [x]"
| "insert_stable lt x (y # ys) = (if lt y x then y # insert_stable lt x ys else x # y # ys)"

primrec slice_stable :: "('a \<Rightarrow> 'a \<Rightarrow> bool) \<Rightarrow> 'a list \<Rightarrow> 'a list" where
  "slice_stable lt [] = []"
| "slice_stable lt (x # xs) = insert_stable lt x (slice_stable lt xs)"

subsection \<open>Programs\<close>

datatype (dead 'q, dead 'r, 'a) prog =
    Ret 'a
  | Panic string
  | Call 'q "'r \<Rightarrow> ('q, 'r, 'a) prog"

datatype 'a outcome = Returned 'a | Panicked string

type_synonym ('q, 'r) trace = "('q \<times> 'r) list"

primrec bnd :: "('q, 'r, 'a) prog \<Rightarrow> ('a \<Rightarrow> ('q, 'r, 'b) prog) \<Rightarrow> ('q, 'r, 'b) prog" where
  "bnd (Ret x) f = f x"
| "bnd (Panic m) f = Panic m"
| "bnd (Call q k) f = Call q (\<lambda>r. bnd (k r) f)"

text \<open>One pass of a loop body either goes on with the loop's variables or leaves the function.\<close>

datatype ('s, 'b) loop = Next 's | Leave 'b

primrec for_range ::
  "'x list \<Rightarrow> 's \<Rightarrow> ('x \<Rightarrow> 's \<Rightarrow> ('q, 'r, ('s, 'b) loop) prog) \<Rightarrow> ('q, 'r, ('s, 'b) loop) prog"
where
  "for_range [] s f = Ret (Next s)"
| "for_range (x # xs) s f =
     bnd (f x s) (\<lambda>l. case l of Next s' \<Rightarrow> for_range xs s' f | Leave b \<Rightarrow> Ret (Leave b))"

text \<open>What follows a loop: \<open>after_loop l k\<close> continues with the loop's variables, or has left already.\<close>

definition after_loop ::
  "('q, 'r, ('s, 'b) loop) prog \<Rightarrow> ('s \<Rightarrow> ('q, 'r, 'b) prog) \<Rightarrow> ('q, 'r, 'b) prog"
where
  "after_loop p k = bnd p (\<lambda>l. case l of Next s \<Rightarrow> k s | Leave b \<Rightarrow> Ret b)"

text \<open>Reading through a pointer.\<close>

definition deref :: "'a option \<Rightarrow> ('q, 'r, 'a) prog" where
  "deref x = (case x of None \<Rightarrow> Panic ''nil pointer dereference'' | Some v \<Rightarrow> Ret v)"

inductive exec :: "('q, 'r, 'a) prog \<Rightarrow> ('q, 'r) trace \<Rightarrow> 'a outcome \<Rightarrow> bool" where
  exec_Ret: "exec (Ret x) [] (Returned x)"
| exec_Panic: "exec (Panic m) [] (Panicked m)"
| exec_Call: "exec (k r) t oc \<Longrightarrow> exec (Call q k) ((q, r) # t) oc"

inductive_simps exec_Ret_iff: "exec (Ret x) t oc"
inductive_simps exec_Panic_iff: "exec (Panic m) t oc"
inductive_simps exec_Call_iff: "exec (Call q k) t oc"

primrec wpre :: "('q, 'r, 'a) prog \<Rightarrow> (('q, 'r) trace \<Rightarrow> 'a outcome \<Rightarrow> bool) \<Rightarrow> bool" where
  "wpre (Ret x) Q = Q [] (Returned x)"
| "wpre (Panic m) Q = Q [] (Panicked m)"
| "wpre (Call q k) Q = (\<forall>r. wpre (k r) (\<lambda>t. Q ((q, r) # t)))"

primrec script :: "('q, 'r, 'a) prog \<Rightarrow> 'r list \<Rightarrow> (('q, 'r) trace \<times> 'a outcome) option" where
  "script (Ret x) rs = Some ([], Returned x)"
| "script (Panic m) rs = Some ([], Panicked m)"
| "script (Call q k) rs =
     (case rs of [] \<Rightarrow> None
      | r # rs' \<Rightarrow> map_option (\<lambda>(t, oc). ((q, r) # t, oc)) (script (k r) rs'))"

subsection \<open>Facts about string maps\<close>

lemma lget_simps [simp]:
  "lget fmempty k = ''''"
  "lget (fmupd k v m) k' = (if k = k' then v else lget m k')"
  "lget (fmdrop k m) k' = (if k = k' then '''' else lget m k')"
  by (auto simp: lget_def)

lemma lget_fmadd [simp]:
  "lget (m ++\<^sub>f n) k = (case fmlookup n k of None \<Rightarrow> lget m k | Some v \<Rightarrow> v)"
  by (auto simp: lget_def split: option.splits)

lemma mset_map_of_keys:
  assumes "mset ks = mset (map fst m)" and "distinct (map fst m)"
  shows "mset (map (\<lambda>k. (k, the (map_of m k))) ks) = mset m"
proof -
  have "mset (map (\<lambda>k. (k, the (map_of m k))) ks) = image_mset (\<lambda>k. (k, the (map_of m k))) (mset (map fst m))"
    using assms(1) by (metis mset_map)
  also have "\<dots> = mset (map (\<lambda>kv. (fst kv, the (map_of m (fst kv)))) m)"
    by (simp add: image_mset.compositionality comp_def)
  also have "map (\<lambda>kv. (fst kv, the (map_of m (fst kv)))) m = m"
    using assms(2) by (intro map_idI) (auto simp: map_of_eq_Some_iff)
  finally show ?thesis .
qed

lemma fmupd_not_empty [simp]: "fmupd k v m \<noteq> fmempty" "fmempty \<noteq> fmupd k v m"
  by (metis fmempty_lookup fmupd_lookup option.distinct(1))+

subsection \<open>Facts about sorting\<close>

lemma mset_insert_stable: "mset (insert_stable lt x ys) = add_mset x (mset ys)"
  by (induction ys) auto

lemma mset_slice_stable: "mset (slice_stable lt xs) = mset xs"
  by (induction xs) (auto simp: mset_insert_stable)

lemma insert_stable_key: "insert_stable (\<lambda>a b. f a < f b) x ys = insort_key f x ys"
  for f :: "'a \<Rightarrow> 'b :: linorder"
  by (induction ys) auto

text \<open>Sorting by a comparison of keys is the library's stable sort by that key.\<close>

lemma slice_stable_key: "slice_stable (\<lambda>a b. f a < f b) xs = sort_key f xs"
  for f :: "'a \<Rightarrow> 'b :: linorder"
  by (induction xs) (auto simp: insert_stable_key)

lemma sorted_slice_stable: "sorted (map f (slice_stable (\<lambda>a b. f a < f b) xs))"
  for f :: "'a \<Rightarrow> 'b :: linorder"
  by (simp add: slice_stable_key)

subsection \<open>The calculus\<close>

lemma exec_wpre: "wpre p Q \<longleftrightarrow> (\<forall>t oc. exec p t oc \<longrightarrow> Q t oc)"
proof (induction p arbitrary: Q)
  case (Ret x)
  then show ?case by (auto simp: exec_Ret_iff)
next
  case (Panic m)
  then show ?case by (auto simp: exec_Panic_iff)
next
  case (Call q k)
  have "wpre (Call q k) Q \<longleftrightarrow> (\<forall>r. \<forall>t oc. exec (k r) t oc \<longrightarrow> Q ((q, r) # t) oc)"
    using Call by simp
  also have "\<dots> \<longleftrightarrow> (\<forall>t oc. exec (Call q k) t oc \<longrightarrow> Q t oc)"
    by (auto simp: exec_Call_iff)
  finally show ?case .
qed

lemma wpreD: "exec p t oc \<Longrightarrow> wpre p Q \<Longrightarrow> Q t oc"
  by (simp add: exec_wpre)

lemma wpreI: "(\<And>t oc. exec p t oc \<Longrightarrow> Q t oc) \<Longrightarrow> wpre p Q"
  by (simp add: exec_wpre)

lemma wpre_mono: "wpre p Q \<Longrightarrow> (\<And>t oc. Q t oc \<Longrightarrow> R t oc) \<Longrightarrow> wpre p R"
  by (simp add: exec_wpre)

lemma wpre_conj: "wpre p (\<lambda>t oc. Q t oc \<and> R t oc) \<longleftrightarrow> wpre p Q \<and> wpre p R"
  by (auto simp: exec_wpre)

lemma wpre_True [simp]: "wpre p (\<lambda>t oc. True)"
  by (simp add: exec_wpre)

lemma wpre_bnd [wpre_simps]:
  "wpre (bnd p f) Q =
     wpre p (\<lambda>t oc. case oc of Returned x \<Rightarrow> wpre (f x) (\<lambda>t'. Q (t @ t')) | Panicked m \<Rightarrow> Q t (Panicked m))"
  by (induction p arbitrary: Q) auto

lemma wpre_seq:
  assumes "wpre p P" and "\<And>t x. P t (Returned x) \<Longrightarrow> wpre (f x) (\<lambda>t'. Q (t @ t'))" and "\<And>t m. P t (Panicked m) \<Longrightarrow> Q t (Panicked m)"
  shows "wpre (bnd p f) Q"
  unfolding wpre_bnd by (rule wpre_mono [OF assms(1)]) (auto split: outcome.split intro: assms(2,3))

lemmas wpre_basic [wpre_simps] = wpre.simps

lemma wpre_if [wpre_simps]: "wpre (if b then p else q) Q = (if b then wpre p Q else wpre q Q)"
  by simp

lemma wpre_ifI: "(b \<Longrightarrow> wpre p Q) \<Longrightarrow> (\<not> b \<Longrightarrow> wpre q Q) \<Longrightarrow> wpre (if b then p else q) Q"
  by simp

lemma wpre_let [wpre_simps]: "wpre (let x = v in f x) Q = (let x = v in wpre (f x) Q)"
  by simp

lemma wpre_after_loop [wpre_simps]:
  "wpre (after_loop p k) Q =
     wpre p (\<lambda>t oc. case oc of
         Returned l \<Rightarrow> (case l of Next s \<Rightarrow> wpre (k s) (\<lambda>t'. Q (t @ t')) | Leave b \<Rightarrow> Q t (Returned b))
       | Panicked m \<Rightarrow> Q t (Panicked m))"
  unfolding after_loop_def wpre_bnd
  by (rule arg_cong [where f = "wpre p"]) (auto simp: fun_eq_iff split: outcome.splits loop.splits)

lemma wpre_deref [wpre_simps]:
  "wpre (deref x) Q = (case x of None \<Rightarrow> Q [] (Panicked ''nil pointer dereference'') | Some v \<Rightarrow> Q [] (Returned v))"
  by (simp add: deref_def split: option.split)

text \<open>
  The loop rule. The invariant relates the elements already passed, the requests made so far and
  the loop's variables; leaving early or panicking has to establish the goal.
\<close>

lemma wpre_for_range:
  assumes "I [] [] s"
    and "\<And>pre x rest s t. xs = pre @ x # rest \<Longrightarrow> I pre t s \<Longrightarrow>
      wpre (f x s) (\<lambda>t' oc. case oc of
          Returned (Next s') \<Rightarrow> I (pre @ [x]) (t @ t') s'
        | Returned (Leave b) \<Rightarrow> Q (t @ t') (Returned (Leave b))
        | Panicked m \<Rightarrow> Q (t @ t') (Panicked m))"
    and "\<And>t s. I xs t s \<Longrightarrow> Q t (Returned (Next s))"
  shows "wpre (for_range xs s f) Q"
proof -
  have "wpre (for_range rest s f) (\<lambda>t'. Q (t @ t'))"
    if "xs = pre @ rest" and "I pre t s" for pre rest s t
    using that
  proof (induction rest arbitrary: pre s t)
    case Nil
    then show ?case using assms(3) by simp
  next
    case (Cons x rest)
    show ?case
      unfolding for_range.simps wpre_bnd
    proof (rule wpre_mono [OF assms(2) [OF Cons.prems]])
      fix t' oc
      assume step: "case oc of Returned (Next s') \<Rightarrow> I (pre @ [x]) (t @ t') s'
        | Returned (Leave b) \<Rightarrow> Q (t @ t') (Returned (Leave b))
        | Panicked m \<Rightarrow> Q (t @ t') (Panicked m)"
      show "case oc of
          Returned l \<Rightarrow> wpre (case l of Next s' \<Rightarrow> for_range rest s' f | Leave b \<Rightarrow> Ret (Leave b))
            (\<lambda>t''. Q (t @ t' @ t''))
        | Panicked m \<Rightarrow> Q (t @ t') (Panicked m)"
        using step Cons.prems(1) Cons.IH [of "pre @ [x]" "t @ t'"]
        by (auto split: outcome.splits loop.splits)
    qed
  qed
  from this [of "[]" xs "[]" s] assms(1) show ?thesis by simp
qed

lemma script_exec: "script p rs = Some (t, oc) \<Longrightarrow> exec p t oc"
proof (induction p arbitrary: rs t)
  case (Ret x)
  then show ?case by (auto intro: exec.intros)
next
  case (Panic m)
  then show ?case by (auto intro: exec.intros)
next
  case (Call q k)
  then show ?case by (auto split: list.splits intro: exec.intros)
qed

lemma script_ex: "\<exists>t. script p rs = Some (t, oc) \<and> R t \<Longrightarrow> \<exists>t. exec p t oc \<and> R t"
  using script_exec by blast

lemma exec_bndI:
  "exec p t1 (Returned x) \<Longrightarrow> exec (f x) t2 oc \<Longrightarrow> exec (bnd p f) (t1 @ t2) oc"
proof (induction p t1 "Returned x" rule: exec.induct)
  case exec_Ret
  then show ?case by simp
next
  case (exec_Call k r t q)
  then show ?case by (simp add: exec.exec_Call)
qed

lemma exec_bndE:
  assumes "exec (bnd p f) t oc"
  obtains (Returned) t1 t2 x where "t = t1 @ t2" "exec p t1 (Returned x)" "exec (f x) t2 oc"
    | (Panicked) m where "oc = Panicked m" "exec p t (Panicked m)"
proof -
  have "wpre (bnd p f) (\<lambda>t oc. (\<exists>t1 t2 x. t = t1 @ t2 \<and> exec p t1 (Returned x) \<and> exec (f x) t2 oc) \<or>
      (\<exists>m. oc = Panicked m \<and> exec p t (Panicked m)))"
    unfolding wpre_bnd by (auto simp: exec_wpre split: outcome.splits)
  from wpreD [OF assms this] that show ?thesis by blast
qed

subsection \<open>The requests of a trace\<close>

primrec made :: "('q \<Rightarrow> 'x option) \<Rightarrow> ('q, 'r) trace \<Rightarrow> 'x list" where
  "made f [] = []"
| "made f (x # t) = (case f (fst x) of None \<Rightarrow> made f t | Some y \<Rightarrow> y # made f t)"

lemma made_append [simp]: "made f (t @ t') = made f t @ made f t'"
  by (induction t) (auto split: option.split)

lemma set_made: "x \<in> set (made f t) \<longleftrightarrow> (\<exists>q r. (q, r) \<in> set t \<and> f q = Some x)"
  by (induction t) (auto split: option.split)

lemma made_Nil: "made f t = [] \<longleftrightarrow> (\<forall>x\<in>set t. f (fst x) = None)"
  by (induction t) (auto split: option.splits)

subsection \<open>Footprints\<close>

text \<open>\<open>only P p\<close>: whatever the responses, \<open>p\<close> makes no request outside \<open>P\<close>.\<close>

definition only :: "('q \<Rightarrow> bool) \<Rightarrow> ('q, 'r, 'a) prog \<Rightarrow> bool" where
  "only P p = wpre p (\<lambda>t oc. \<forall>x\<in>set t. P (fst x))"

lemma onlyD: "only P p \<Longrightarrow> exec p t oc \<Longrightarrow> (q, r) \<in> set t \<Longrightarrow> P q"
  unfolding only_def by (drule (1) wpreD) auto

lemma only_made: "only (\<lambda>q. f q = None) p \<Longrightarrow> exec p t oc \<Longrightarrow> made f t = []"
  unfolding only_def made_Nil by (drule (1) wpreD)

lemma only_Ret [only_intros]: "only P (Ret x)"
  by (simp add: only_def)

lemma only_Panic [only_intros]: "only P (Panic m)"
  by (simp add: only_def)

lemma only_Call [only_intros]: "P q \<Longrightarrow> (\<And>r. only P (k r)) \<Longrightarrow> only P (Call q k)"
  by (simp add: only_def)

lemma only_bnd [only_intros]:
  assumes "only P p" and "\<And>x. only P (f x)"
  shows "only P (bnd p f)"
  unfolding only_def wpre_bnd
  by (rule wpre_mono [OF assms(1) [unfolded only_def]])
    (auto split: outcome.split intro: wpre_mono [OF assms(2) [unfolded only_def]])

lemma only_for_range [only_intros]:
  assumes "\<And>x s. x \<in> set xs \<Longrightarrow> only P (f x s)"
  shows "only P (for_range xs s f)"
  using assms by (induction xs arbitrary: s) (auto intro!: only_intros split: loop.splits)

lemma only_after_loop [only_intros]:
  assumes "only P p" and "\<And>s. only P (k s)"
  shows "only P (after_loop p k)"
  unfolding after_loop_def using assms by (auto intro!: only_intros split: loop.splits)

lemma only_if [only_intros]: "(b \<Longrightarrow> only P p) \<Longrightarrow> (\<not> b \<Longrightarrow> only P q) \<Longrightarrow> only P (if b then p else q)"
  by simp

lemma only_let [only_intros]: "only P (f v) \<Longrightarrow> only P (let x = v in f x)"
  by simp

lemma only_case_sum [only_intros]:
  "(\<And>e. x = Inl e \<Longrightarrow> only P (f e)) \<Longrightarrow> (\<And>v. x = Inr v \<Longrightarrow> only P (g v)) \<Longrightarrow>
   only P (case x of Inl e \<Rightarrow> f e | Inr v \<Rightarrow> g v)"
  by (cases x) auto

lemma only_case_option [only_intros]:
  "(x = None \<Longrightarrow> only P p) \<Longrightarrow> (\<And>v. x = Some v \<Longrightarrow> only P (g v)) \<Longrightarrow>
   only P (case x of None \<Rightarrow> p | Some v \<Rightarrow> g v)"
  by (cases x) auto

lemma only_case_prod [only_intros]:
  "(\<And>a b. x = (a, b) \<Longrightarrow> only P (f a b)) \<Longrightarrow> only P (case x of (a, b) \<Rightarrow> f a b)"
  by (cases x) auto

lemma only_case_list [only_intros]:
  "(xs = [] \<Longrightarrow> only P p) \<Longrightarrow> (\<And>y ys. xs = y # ys \<Longrightarrow> only P (f y ys)) \<Longrightarrow>
   only P (case xs of [] \<Rightarrow> p | y # ys \<Rightarrow> f y ys)"
  by (cases xs) auto

lemma only_deref [only_intros]: "only P (deref x)"
  unfolding deref_def by (auto intro!: only_intros split: option.splits)

lemma deref_Some [simp]: "deref (Some v) = Ret v"
  by (simp add: deref_def)

lemma only_mono: "only P p \<Longrightarrow> (\<And>q. P q \<Longrightarrow> P' q) \<Longrightarrow> only P' p"
  unfolding only_def by (erule wpre_mono) blast

subsection \<open>Results\<close>

text \<open>\<open>returns p R\<close>: whenever \<open>p\<close> returns, its result satisfies \<open>R\<close>, whatever the responses.\<close>

definition returns :: "('q, 'r, 'a) prog \<Rightarrow> ('a \<Rightarrow> bool) \<Rightarrow> bool" where
  "returns p R = wpre p (\<lambda>t oc. \<forall>x. oc = Returned x \<longrightarrow> R x)"

lemma returnsD: "returns p R \<Longrightarrow> exec p t (Returned x) \<Longrightarrow> R x"
  unfolding returns_def by (drule (1) wpreD) simp

lemma returnsI: "(\<And>t x. exec p t (Returned x) \<Longrightarrow> R x) \<Longrightarrow> returns p R"
  unfolding returns_def by (auto intro: wpreI)

lemma returns_mono: "returns p R \<Longrightarrow> (\<And>x. R x \<Longrightarrow> S x) \<Longrightarrow> returns p S"
  unfolding returns_def by (erule wpre_mono) blast

lemma returns_simps [simp]:
  "returns (Ret x) R = R x"
  "returns (Panic m) R = True"
  "returns (Call q k) R = (\<forall>r. returns (k r) R)"
  "returns (if b then p else p') R = (if b then returns p R else returns p' R)"
  by (simp_all add: returns_def)

lemma returns_bnd: "returns p R \<Longrightarrow> (\<And>x. R x \<Longrightarrow> returns (f x) S) \<Longrightarrow> returns (bnd p f) S"
  unfolding returns_def wpre_bnd by (erule wpre_mono) (auto split: outcome.split)

lemma returns_for_range:
  assumes "I [] s"
    and "\<And>pre x rest s. xs = pre @ x # rest \<Longrightarrow> I pre s \<Longrightarrow>
      returns (f x s) (\<lambda>l. case l of Next s' \<Rightarrow> I (pre @ [x]) s' | Leave b \<Rightarrow> R (Leave b))"
    and "\<And>s. I xs s \<Longrightarrow> R (Next s)"
  shows "returns (for_range xs s f) R"
  unfolding returns_def
proof (rule wpre_for_range [where I = "\<lambda>pre t s. I pre s"], goal_cases)
  case (2 pre x rest s t)
  show ?case
    by (rule wpre_mono [OF assms(2) [OF 2, unfolded returns_def]]) (auto split: outcome.splits loop.splits)
qed (use assms(1,3) in simp_all)

lemma returns_after_loop:
  "returns p (\<lambda>l. case l of Next s \<Rightarrow> returns (k s) R | Leave b \<Rightarrow> R b) \<Longrightarrow> returns (after_loop p k) R"
  unfolding after_loop_def by (erule returns_bnd) (auto split: loop.splits)

text \<open>A loop that ends without leaving has run its body on every element.\<close>

lemma for_range_every:
  assumes "exec (for_range xs s f) t (Returned (Next s'))" and "x \<in> set xs"
  shows "\<exists>t1 t2 t3 a b. t = t1 @ t2 @ t3 \<and> exec (f x a) t2 (Returned (Next b))"
  using assms
proof (induction xs arbitrary: s t)
  case (Cons y ys)
  from Cons.prems(1) obtain t1 t2 l where t: "t = t1 @ t2" and first: "exec (f y s) t1 (Returned l)"
    and rest: "exec (case l of Next s' \<Rightarrow> for_range ys s' f | Leave b \<Rightarrow> Ret (Leave b)) t2 (Returned (Next s'))"
    by (auto elim!: exec_bndE)
  then obtain s1 where l: "l = Next s1" by (cases l) (auto simp: exec_Ret_iff)
  show ?case
  proof (cases "x = y")
    case True
    then show ?thesis using first t l by (metis append_Nil)
  next
    case False
    with Cons.prems(2) Cons.IH [of s1 t2] rest l t show ?thesis by (auto, metis append_assoc)
  qed
qed simp

lemma after_loop_done:
  assumes "exec (after_loop p (\<lambda>s. Ret (g s))) t (Returned y)" and "\<And>b. exec p t (Returned (Leave b)) \<Longrightarrow> b \<noteq> y"
  shows "\<exists>s. exec p t (Returned (Next s)) \<and> y = g s"
  using assms by (fastforce simp: after_loop_def exec_Ret_iff elim!: exec_bndE split: loop.splits)

lemma returns_for_range_left:
  assumes "\<And>x s. returns (f x s) (\<lambda>l. \<forall>b. l = Leave b \<longrightarrow> R b)"
  shows "returns (for_range xs s f) (\<lambda>l. \<forall>b. l = Leave b \<longrightarrow> R b)"
proof (rule returns_for_range [where I = "\<lambda>_ _. True"], goal_cases)
  case (2 pre x rest s)
  show ?case by (rule returns_mono [OF assms]) (auto split: loop.splits)
qed auto

text \<open>A step that makes none of the requests in question can be skipped when only those matter.\<close>

lemma wpre_quiet_bnd:
  assumes "only (\<lambda>q. f q = None) p" and "\<And>x. wpre (k x) (\<lambda>t oc. Q (made f t) oc)" and "\<And>m. Q [] (Panicked m)"
  shows "wpre (bnd p k) (\<lambda>t oc. Q (made f t) oc)"
proof -
  have "wpre p (\<lambda>t oc. made f t = [])"
    by (rule wpreI) (rule only_made [OF assms(1)])
  then show ?thesis
    unfolding wpre_bnd
    by (rule wpre_mono) (auto split: outcome.split intro!: wpre_mono [OF assms(2)] simp: assms(3))
qed

lemma wpre_quiet:
  assumes "only (\<lambda>q. f q = None) p" and "\<And>oc. Q [] oc"
  shows "wpre p (\<lambda>t oc. Q (made f t) oc)"
  by (rule wpreI) (simp add: only_made [OF assms(1)] assms(2))

subsection \<open>Progress\<close>

text \<open>
  \<open>achieves C f p P\<close>: when every request is answered as \<open>C\<close> says, \<open>p\<close> returns (it does not panic), and the requests of the
  kind \<open>f\<close> that it made and its result satisfy \<open>P\<close>. Since a program runs to its end whatever the answers are, such a run exists
  as soon as \<open>C\<close> has an answer to every request.
\<close>

definition achieves ::
  "('q \<times> 'r \<Rightarrow> bool) \<Rightarrow> ('q \<Rightarrow> 'x option) \<Rightarrow> ('q, 'r, 'a) prog \<Rightarrow> ('x list \<Rightarrow> 'a \<Rightarrow> bool) \<Rightarrow> bool" where
  "achieves C f p P \<longleftrightarrow> wpre p (\<lambda>t oc. (\<forall>y\<in>set t. C y) \<longrightarrow> (\<exists>x. oc = Returned x \<and> P (made f t) x))"

lemma achieves_Ret: "P [] x \<Longrightarrow> achieves C f (Ret x) P"
  by (simp add: achieves_def)

lemma achieves_Call:
  assumes "\<And>r. C (q, r) \<Longrightarrow> achieves C f (k r) (\<lambda>ys. P ((case f q of None \<Rightarrow> [] | Some y \<Rightarrow> [y]) @ ys))"
  shows "achieves C f (Call q k) P"
  unfolding achieves_def wpre.simps
proof
  fix r
  show "wpre (k r) (\<lambda>t oc. (\<forall>y\<in>set ((q, r) # t). C y) \<longrightarrow> (\<exists>x. oc = Returned x \<and> P (made f ((q, r) # t)) x))"
  proof (cases "C (q, r)")
    case True
    from assms [OF this] show ?thesis unfolding achieves_def by (rule wpre_mono) (auto split: option.splits)
  qed (simp add: exec_wpre)
qed

lemma achieves_mono: "achieves C f p P \<Longrightarrow> (\<And>ys x. P ys x \<Longrightarrow> P' ys x) \<Longrightarrow> achieves C f p P'"
  unfolding achieves_def by (erule wpre_mono) blast

lemma achieves_bnd:
  assumes "achieves C f p P" and "\<And>ys x. P ys x \<Longrightarrow> achieves C f (k x) (\<lambda>zs. P' (ys @ zs))"
  shows "achieves C f (bnd p k) P'"
  unfolding achieves_def
proof (rule wpre_seq [OF assms(1) [unfolded achieves_def]], goal_cases)
  case (1 t x)
  show ?case
  proof (cases "\<forall>y\<in>set t. C y")
    case True
    with 1 have "achieves C f (k x) (\<lambda>zs. P' (made f t @ zs))" by (intro assms(2)) simp
    then show ?thesis unfolding achieves_def by (rule wpre_mono) auto
  qed (auto simp: exec_wpre)
qed auto

lemma achievesD: "achieves C f p P \<Longrightarrow> exec p t oc \<Longrightarrow> \<forall>y\<in>set t. C y \<Longrightarrow> \<exists>x. oc = Returned x \<and> P (made f t) x"
  unfolding achieves_def by (drule (1) wpreD) blast

lemma exec_answered: "\<exists>t oc. exec p t oc \<and> (\<forall>(q, r)\<in>set t. r = ans q)"
proof (induction p)
  case (Call q k)
  then obtain t oc where "exec (k (ans q)) t oc" "\<forall>(q, r)\<in>set t. r = ans q" by blast
  then have "exec (Call q k) ((q, ans q) # t) oc \<and> (\<forall>(q, r)\<in>set ((q, ans q) # t). r = ans q)" by (auto intro: exec.intros)
  then show ?case by blast
next
  case (Ret x)
  have "exec (Ret x) [] (Returned x)" by (rule exec.intros)
  then show ?case by (metis empty_iff list.set(1))
next
  case (Panic m)
  have "exec (Panic m) [] (Panicked m)" by (rule exec.intros)
  then show ?case by (metis empty_iff list.set(1))
qed

subsection \<open>What must come before a request\<close>

text \<open>
  A trace guard says of a request (with its response) which requests must have been made before it. When a guard
  that holds stays true with more requests before, it can be checked part by part: this is how \<open>no X without a Y
  before it\<close> is shown of a program.
\<close>

locale trace_guard =
  fixes ok :: "('q \<times> 'r) list \<Rightarrow> 'q \<times> 'r \<Rightarrow> bool"
  assumes ok_later: "ok t x \<Longrightarrow> ok (t' @ t) x"
begin

definition guarded :: "('q \<times> 'r) list \<Rightarrow> bool" where
  "guarded t \<longleftrightarrow> (\<forall>t1 x t2. t = t1 @ x # t2 \<longrightarrow> ok t1 x)"

definition keeps :: "('q, 'r, 'a) prog \<Rightarrow> bool" where
  "keeps p \<longleftrightarrow> wpre p (\<lambda>t oc. guarded t)"

lemma guarded_Nil: "guarded []"
  by (simp add: guarded_def)

lemma guarded_append:
  assumes "guarded t" and "guarded t'"
  shows "guarded (t @ t')"
  unfolding guarded_def
proof (intro allI impI)
  fix t1 x t2
  assume "t @ t' = t1 @ x # t2"
  then consider us where "t = t1 @ x # us" | us where "t1 = t @ us" "t' = us @ x # t2"
    by (auto simp: append_eq_append_conv2 append_eq_Cons_conv Cons_eq_append_conv)
  then show "ok t1 x"
    using assms unfolding guarded_def by cases (blast intro: ok_later)+
qed

lemma guarded_append_free:
  assumes "guarded t" and "\<And>u x. ok (t @ u) x"
  shows "guarded (t @ t')"
proof -
  have "ok t1 x" if "t @ t' = t1 @ x # t2" for t1 x t2
  proof -
    from that consider us where "t = t1 @ x # us" | us where "t1 = t @ us"
      by (auto simp: append_eq_append_conv2 append_eq_Cons_conv Cons_eq_append_conv)
    then show ?thesis using assms unfolding guarded_def by cases blast+
  qed
  then show ?thesis unfolding guarded_def by blast
qed

lemma guarded_snoc: "guarded t \<Longrightarrow> ok t x \<Longrightarrow> guarded (t @ [x])"
  unfolding guarded_def by (auto simp: append_eq_append_conv2 append_eq_Cons_conv Cons_eq_append_conv)

lemma guarded_free: "(\<And>t x. x \<in> set t0 \<Longrightarrow> ok t x) \<Longrightarrow> guarded t0"
  by (auto simp: guarded_def)

lemma keeps_free: "only (\<lambda>q. \<forall>r t. ok t (q, r)) p \<Longrightarrow> keeps p"
  unfolding keeps_def only_def by (erule wpre_mono) (rule guarded_free, metis surjective_pairing)

lemma keeps_Ret: "keeps (Ret x)" and keeps_Panic: "keeps (Panic m)"
  by (simp_all add: keeps_def guarded_Nil)

lemma keeps_bnd:
  assumes "keeps p" and "\<And>x. keeps (f x)"
  shows "keeps (bnd p f)"
  unfolding keeps_def wpre_bnd
  by (rule wpre_mono [OF assms(1) [unfolded keeps_def]])
    (auto split: outcome.split intro!: wpre_mono [OF assms(2) [unfolded keeps_def]] guarded_append)

lemma keeps_for_range:
  assumes "\<And>x s. x \<in> set xs \<Longrightarrow> keeps (f x s)"
  shows "keeps (for_range xs s f)"
  using assms by (induction xs arbitrary: s) (auto intro!: keeps_bnd keeps_Ret split: loop.splits)

lemma keeps_after_loop: "keeps p \<Longrightarrow> (\<And>s. keeps (k s)) \<Longrightarrow> keeps (after_loop p k)"
  unfolding after_loop_def by (auto intro!: keeps_bnd keeps_Ret split: loop.splits)

text \<open>With the requests made so far: a part that makes no guarded request, then the rest, knowing how that part ended.\<close>

definition unguarded :: "'q \<Rightarrow> bool" where
  "unguarded q \<longleftrightarrow> (\<forall>r t. ok t (q, r))"

lemma guarded_quiet: "only unguarded m \<Longrightarrow> exec m t' oc \<Longrightarrow> guarded t \<Longrightarrow> guarded (t @ t')"
  by (erule guarded_append, rule guarded_free) (auto dest!: onlyD simp: unguarded_def)

lemma guarded_seq:
  assumes "only unguarded m" and "guarded t"
    and "\<And>t' x. exec m t' (Returned x) \<Longrightarrow> guarded (t @ t') \<Longrightarrow> wpre (k x) (\<lambda>t'' oc. guarded ((t @ t') @ t''))"
  shows "wpre (bnd m k) (\<lambda>t' oc. guarded (t @ t'))"
proof (rule wpre_seq)
  show "wpre m (\<lambda>t' oc. exec m t' oc \<and> guarded (t @ t'))"
    using assms(1,2) by (auto intro!: wpreI dest: guarded_quiet)
qed (use assms(3) in auto)

lemma guarded_Ret: "guarded t \<Longrightarrow> wpre (Ret x) (\<lambda>t' oc. guarded (t @ t'))"
  by simp

lemma guarded_rest: "only unguarded m \<Longrightarrow> guarded t \<Longrightarrow> wpre m (\<lambda>t' oc. guarded (t @ t'))"
  by (rule wpreI) (rule guarded_quiet)

lemma guarded_end: "wpre m (\<lambda>t' oc. guarded (t @ t')) \<Longrightarrow> (\<And>x. \<exists>y. k x = Ret y) \<Longrightarrow> wpre (bnd m k) (\<lambda>t' oc. guarded (t @ t'))"
proof (erule wpre_seq)
  fix t' x assume "guarded (t @ t')" and "\<And>x. \<exists>y. k x = Ret y"
  then obtain y where "k x = Ret y" by blast
  with \<open>guarded (t @ t')\<close> show "wpre (k x) (\<lambda>t'' oc. guarded (t @ t' @ t''))" by simp
qed simp

lemma keepsI: "wpre m (\<lambda>t' oc. guarded ([] @ t')) \<Longrightarrow> keeps m"
  by (simp add: keeps_def)

lemma keepsD: "keeps p \<Longrightarrow> exec p (t1 @ x # t2) oc \<Longrightarrow> ok t1 x"
  unfolding keeps_def guarded_def by (drule (1) wpreD) blast

end

end
