(* ===== verification/ApiTypes.thy ===== *)
theory ApiTypes
  imports Prelude
begin

text \<open>
  The data the components exchange.

  The first part holds the Kubernetes types the sources use and do not define (object metadata,
  conditions, batch jobs, RBAC objects, the parts of a pod's template that Kratix fills in),
  reduced to the fields that some line of the sources reads or writes. The second part is the types of
  \<open>src/api/v1alpha1\<close>, field for field, with their accessors. Errors are values of
  \<open>err\<close>: an error of the API server carries its reason, an error made by \<open>fmt.Errorf\<close>
  its text, and one that wraps another (\<open>%w\<close>) keeps it, so that \<open>IsNotFound\<close> and
  \<open>errors.Is\<close> see through it as in Go. Times are nanoseconds.
\<close>

subsection \<open>Errors, results, time\<close>

datatype api_reason = ReasonNotFound | ReasonConflict | ReasonAlreadyExists | ReasonInvalid | ReasonOther

datatype err =
    EApi api_reason string
  | EFileNotFound
  | EOsNotExist
  | EStr string
  | EWrap string err

fun err_msg :: "err \<Rightarrow> string" where
  "err_msg (EApi r m) = m"
| "err_msg EFileNotFound = ''file not found''"
| "err_msg EOsNotExist = ''file does not exist''"
| "err_msg (EStr m) = m"
| "err_msg (EWrap p e) = p @ err_msg e"

fun IsNotFound :: "err \<Rightarrow> bool" where
  "IsNotFound (EApi r m) = (r = ReasonNotFound)"
| "IsNotFound (EWrap p e) = IsNotFound e"
| "IsNotFound e = False"

fun IsConflict :: "err \<Rightarrow> bool" where
  "IsConflict (EApi r m) = (r = ReasonConflict)"
| "IsConflict (EWrap p e) = IsConflict e"
| "IsConflict e = False"

fun IsAlreadyExists :: "err \<Rightarrow> bool" where
  "IsAlreadyExists (EApi r m) = (r = ReasonAlreadyExists)"
| "IsAlreadyExists (EWrap p e) = IsAlreadyExists e"
| "IsAlreadyExists e = False"

fun IsInvalid :: "err \<Rightarrow> bool" where
  "IsInvalid (EApi r m) = (r = ReasonInvalid)"
| "IsInvalid (EWrap p e) = IsInvalid e"
| "IsInvalid e = False"

type_synonym time = int
type_synonym duration = int

definition second :: duration where "second = 1000000000"

record ctrl_result =
  RequeueAfter :: duration

definition no_requeue :: ctrl_result where "no_requeue = \<lparr>RequeueAfter = 0\<rparr>"
definition fastRequeue :: ctrl_result where "fastRequeue = \<lparr>RequeueAfter = 5 * second\<rparr>"
definition defaultRequeue :: ctrl_result where "defaultRequeue = \<lparr>RequeueAfter = 15 * second\<rparr>"
definition slowRequeue :: ctrl_result where "slowRequeue = \<lparr>RequeueAfter = 60 * second\<rparr>"

subsection \<open>Kubernetes metadata and conditions\<close>

record object_meta =
  m_Name :: string
  m_Namespace :: string
  m_Labels :: labels
  m_Annotations :: labels
  m_Finalizers :: "string list"
  m_DeletionTimestamp :: "time option"
  m_CreationTimestamp :: time
  m_Generation :: int
  m_UID :: string
  m_OwnerReferences :: "string list"

definition empty_meta :: object_meta where
  "empty_meta = \<lparr>m_Name = '''', m_Namespace = '''', m_Labels = fmempty, m_Annotations = fmempty,
     m_Finalizers = [], m_DeletionTimestamp = None, m_CreationTimestamp = 0, m_Generation = 0,
     m_UID = '''', m_OwnerReferences = []\<rparr>"

record condition =
  c_Type :: string
  c_Status :: string
  c_Reason :: string
  c_Message :: string
  c_LastTransitionTime :: time

definition ConditionTrue :: string where [consts_defs]: "ConditionTrue = ''True''"
definition ConditionFalse :: string where [consts_defs]: "ConditionFalse = ''False''"
definition ConditionUnknown :: string where [consts_defs]: "ConditionUnknown = ''Unknown''"

text \<open>A condition literal without \<open>LastTransitionTime\<close> has the zero time there.\<close>

definition mk_cond :: "string \<Rightarrow> string \<Rightarrow> string \<Rightarrow> string \<Rightarrow> condition" where
  "mk_cond ty st rs ms = \<lparr>c_Type = ty, c_Status = st, c_Reason = rs, c_Message = ms, c_LastTransitionTime = 0\<rparr>"

subsection \<open>Batch jobs, RBAC objects, pod templates\<close>

record env_var =
  ev_Name :: string
  ev_Value :: string

record volume_mount =
  vm_MountPath :: string
  vm_Name :: string
  vm_ReadOnly :: bool

text \<open>
  A volume is named; its source is an empty directory, the item of a config map, or a source given by
  the pipeline's author, which Kratix passes through unread.
\<close>

datatype volume_source =
    EmptyDir
  | ConfigMapItem string string string
  | UserVolume string

record volume =
  v_Name :: string
  v_Source :: volume_source

text \<open>
  A security context is Kratix's own restricted one or one that is passed through unread.
\<close>

datatype security_context = KratixSecurityContext | OtherSecurityContext string

record k8s_container =
  k_Name :: string
  k_Image :: string
  k_Args :: "string list"
  k_Command :: "string list"
  k_Env :: "env_var list"
  k_EnvFrom :: "string list"
  k_VolumeMounts :: "volume_mount list"
  k_ImagePullPolicy :: string
  k_SecurityContext :: "security_context option"

record pod_template =
  pt_Labels :: labels
  pt_Annotations :: labels
  pt_RestartPolicy :: string
  pt_ServiceAccountName :: string
  pt_Containers :: "k8s_container list"
  pt_ImagePullSecrets :: "string list"
  pt_InitContainers :: "k8s_container list"
  pt_Volumes :: "volume list"
  pt_NodeSelector :: labels
  pt_Tolerations :: "string list"

record job_condition =
  jc_Type :: string
  jc_Status :: string

record job =
  j_meta :: object_meta
  j_Suspend :: "bool option"
  j_BackoffLimit :: "int option"
  j_Template :: pod_template
  j_Active :: int
  j_Succeeded :: int
  j_Failed :: int
  j_Conditions :: "job_condition list"

definition JobComplete :: string where [consts_defs]: "JobComplete = ''Complete''"
definition JobSuspended :: string where [consts_defs]: "JobSuspended = ''Suspended''"
definition JobFailed :: string where [consts_defs]: "JobFailed = ''Failed''"

record policy_rule =
  pr_APIGroups :: "string list"
  pr_Resources :: "string list"
  pr_Verbs :: "string list"
  pr_ResourceNames :: "string list"
  pr_NonResourceURLs :: "string list"

record subject =
  sb_Kind :: string
  sb_Namespace :: string
  sb_Name :: string

record role_ref =
  rr_Kind :: string
  rr_APIGroup :: string
  rr_Name :: string

text \<open>Roles and cluster roles have the same fields, as have their bindings.\<close>

record role =
  ro_meta :: object_meta
  ro_Rules :: "policy_rule list"

record role_binding =
  rb_meta :: object_meta
  rb_RoleRef :: role_ref
  rb_Subjects :: "subject list"

record service_account =
  sa_meta :: object_meta
  sa_Kind :: string

record config_map =
  cm_meta :: object_meta
  cm_Data :: labels

record secret =
  sec_meta :: object_meta
  sec_Data :: labels

subsection \<open>Unstructured objects\<close>

datatype json =
    JNull
  | JBool bool
  | JInt int
  | JFloat rat
  | JStr string
  | JList "json list"
  | JObj "(string \<times> json) list"

record gvk =
  g_Group :: string
  g_Version :: string
  g_Kind :: string

text \<open>
  An \<open>unstructured.Unstructured\<close>: its metadata, its group, version and kind, and the values
  under the keys \<open>spec\<close> and \<open>status\<close> of its object map (\<open>None\<close>: no such key).
\<close>

record unstructured =
  u_meta :: object_meta
  u_gvk :: gvk
  u_spec :: "json option"
  u_status :: "json option"

end
