(* ===== verification/V1alpha1.thy ===== *)
theory V1alpha1
  imports ApiTypes
begin

text \<open>
  The types of \<open>src/api/v1alpha1\<close> (\<open>const.go\<close>, \<open>work_types.go\<close>, \<open>workplacement_types.go\<close>,
  \<open>destination_types.go\<close>, the state stores, \<open>promise_types.go\<close>, \<open>pipeline_types.go\<close>), their
  constants, and the accessors that need nothing outside the package. A field with \<open>omitempty\<close> that is
  absent has the zero value, as after decoding in Go; a pointer field is an \<open>option\<close>.
\<close>

subsection \<open>Constants\<close>

definition SystemNamespace :: string where [consts_defs]: "SystemNamespace = ''kratix-platform-system''"
definition WorkflowActionConfigure :: string where [consts_defs]: "WorkflowActionConfigure = ''configure''"
definition WorkflowActionDelete :: string where [consts_defs]: "WorkflowActionDelete = ''delete''"
definition WorkflowTypeResource :: string where [consts_defs]: "WorkflowTypeResource = ''resource''"
definition WorkflowTypePromise :: string where [consts_defs]: "WorkflowTypePromise = ''promise''"
definition DefaultWorkloadGroupDirectory :: string where [consts_defs]: "DefaultWorkloadGroupDirectory = ''.''"
definition KratixPrefix :: string where [consts_defs]: "KratixPrefix = ''kratix.io/''"
definition PromiseVersionLabel :: string where [consts_defs]: "PromiseVersionLabel = ''kratix.io/promise-version''"
definition PromiseNameLabel :: string where [consts_defs]: "PromiseNameLabel = ''kratix.io/promise-name''"
definition ResourceNameLabel :: string where [consts_defs]: "ResourceNameLabel = ''kratix.io/resource-name''"
definition PipelineNameLabel :: string where [consts_defs]: "PipelineNameLabel = ''kratix.io/pipeline-name''"
definition PipelineNamespaceLabel :: string where [consts_defs]: "PipelineNamespaceLabel = ''kratix.io/pipeline-namespace''"
definition WorkTypeLabel :: string where [consts_defs]: "WorkTypeLabel = ''kratix.io/work-type''"
definition WorkActionLabel :: string where [consts_defs]: "WorkActionLabel = ''kratix.io/work-action''"
definition UserPermissionResourceNamespaceLabel :: string where
  [consts_defs]: "UserPermissionResourceNamespaceLabel = ''kratix.io/resource-namespace''"
definition WorkTypePromise :: string where [consts_defs]: "WorkTypePromise = ''promise''"
definition WorkTypeResource :: string where [consts_defs]: "WorkTypeResource = ''resource''"
definition WorkTypeStaticDependency :: string where [consts_defs]: "WorkTypeStaticDependency = ''static-dependency''"
definition KratixResourceHashLabel :: string where [consts_defs]: "KratixResourceHashLabel = ''kratix.io/hash''"
definition KratixPipelineHashLabel :: string where [consts_defs]: "KratixPipelineHashLabel = ''kratix.io/pipeline-hash''"
definition WorkflowTypeLabel :: string where [consts_defs]: "WorkflowTypeLabel = ''kratix.io/workflow-type''"
definition WorkflowActionLabel :: string where [consts_defs]: "WorkflowActionLabel = ''kratix.io/workflow-action''"
definition ManagedByLabel :: string where [consts_defs]: "ManagedByLabel = ''app.kubernetes.io/managed-by''"
definition ManagedByLabelValue :: string where [consts_defs]: "ManagedByLabelValue = ''Kratix''"
definition PromisePlural :: string where [consts_defs]: "PromisePlural = ''promises''"
definition userPermissionResourceNamespaceLabelAll :: string where
  [consts_defs]: "userPermissionResourceNamespaceLabelAll = ''kratix_all_namespaces''"
definition GroupVersionGroup :: string where [consts_defs]: "GroupVersionGroup = ''platform.kratix.io''"
definition FilepathModeNone :: string where [consts_defs]: "FilepathModeNone = ''none''"
definition FilepathModeNestedByMetadata :: string where [consts_defs]: "FilepathModeNestedByMetadata = ''nestedByMetadata''"
definition FilepathModeAggregatedYAML :: string where [consts_defs]: "FilepathModeAggregatedYAML = ''aggregatedYAML''"
definition DestinationCleanupAll :: string where [consts_defs]: "DestinationCleanupAll = ''all''"
definition DestinationCleanupNone :: string where [consts_defs]: "DestinationCleanupNone = ''none''"

subsection \<open>Works\<close>

record Workload =
  Filepath :: string
  Content :: string

record WorkloadGroupScheduling =
  wgs_MatchLabels :: labels
  wgs_Source :: string

record WorkloadGroup =
  wg_Workloads :: "Workload list"
  wg_Directory :: string
  wg_ID :: string
  wg_DestinationSelectors :: "WorkloadGroupScheduling list"

record WorkSpec =
  ws_WorkloadGroups :: "WorkloadGroup list"
  ws_PromiseName :: string
  ws_ResourceName :: string

record WorkStatus =
  wst_Conditions :: "condition list"
  wst_WorkPlacements :: int
  wst_WorkPlacementsCreated :: int

record Work =
  w_meta :: object_meta
  w_Spec :: WorkSpec
  w_Status :: WorkStatus

definition IsResourceRequest :: "Work \<Rightarrow> bool" where
  "IsResourceRequest w = (ws_ResourceName (w_Spec w) \<noteq> '''')"

definition IsDependency :: "Work \<Rightarrow> bool" where
  "IsDependency w = (ws_ResourceName (w_Spec w) = '''')"

text \<open>
  The first selector of the first workload group of that directory: both loops stop at the
  first match, and a group of that directory without such a selector ends the search.
\<close>

definition GetWorkloadGroupScheduling :: "Work \<Rightarrow> string \<Rightarrow> string \<Rightarrow> WorkloadGroupScheduling option" where
  "GetWorkloadGroupScheduling w source directory =
     (case find (\<lambda>wg. wg_Directory wg = directory) (ws_WorkloadGroups (w_Spec w)) of
        None \<Rightarrow> None
      | Some wg \<Rightarrow> find (\<lambda>s. wgs_Source s = source) (wg_DestinationSelectors wg))"

definition GetDefaultScheduling :: "Work \<Rightarrow> string \<Rightarrow> WorkloadGroupScheduling option" where
  "GetDefaultScheduling w source = GetWorkloadGroupScheduling w source DefaultWorkloadGroupDirectory"

subsection \<open>WorkPlacements\<close>

record WorkPlacementSpec =
  wps_TargetDestinationName :: string
  wps_Workloads :: "Workload list"
  wps_PromiseName :: string
  wps_ResourceName :: string
  wps_ID :: string

record WorkPlacementStatus =
  wpst_Conditions :: "condition list"
  wpst_VersionID :: string

record WorkPlacement =
  wp_meta :: object_meta
  wp_Spec :: WorkPlacementSpec
  wp_Status :: WorkPlacementStatus

definition empty_WorkPlacement :: WorkPlacement where
  "empty_WorkPlacement = \<lparr>wp_meta = empty_meta,
     wp_Spec = \<lparr>wps_TargetDestinationName = '''', wps_Workloads = [], wps_PromiseName = '''',
                wps_ResourceName = '''', wps_ID = ''''\<rparr>,
     wp_Status = \<lparr>wpst_Conditions = [], wpst_VersionID = ''''\<rparr>\<rparr>"

definition wp_labels :: "WorkPlacement \<Rightarrow> labels" where
  "wp_labels wp = m_Labels (wp_meta wp)"

definition set_wp_labels :: "WorkPlacement \<Rightarrow> labels \<Rightarrow> WorkPlacement" where
  "set_wp_labels wp l = wp\<lparr>wp_meta := (wp_meta wp)\<lparr>m_Labels := l\<rparr>\<rparr>"

definition wp_finalizers :: "WorkPlacement \<Rightarrow> string list" where
  "wp_finalizers wp = m_Finalizers (wp_meta wp)"

definition set_wp_finalizers :: "WorkPlacement \<Rightarrow> string list \<Rightarrow> WorkPlacement" where
  "set_wp_finalizers wp fs = wp\<lparr>wp_meta := (wp_meta wp)\<lparr>m_Finalizers := fs\<rparr>\<rparr>"

definition wp_conditions :: "WorkPlacement \<Rightarrow> condition list" where
  "wp_conditions wp = wpst_Conditions (wp_Status wp)"

definition set_wp_conditions :: "WorkPlacement \<Rightarrow> condition list \<Rightarrow> WorkPlacement" where
  "set_wp_conditions wp cs = wp\<lparr>wp_Status := (wp_Status wp)\<lparr>wpst_Conditions := cs\<rparr>\<rparr>"

definition SetPipelineName :: "WorkPlacement \<Rightarrow> Work \<Rightarrow> WorkPlacement" where
  "SetPipelineName wp work =
     (let pipelineName = lget (m_Labels (w_meta work)) PipelineNameLabel
      in set_wp_labels wp (fmupd PipelineNameLabel pipelineName (wp_labels wp)))"

definition PipelineName :: "WorkPlacement \<Rightarrow> string" where
  "PipelineName wp = lget (wp_labels wp) PipelineNameLabel"

definition GetUniqueID :: "WorkPlacement \<Rightarrow> string" where
  "GetUniqueID wp = m_Namespace (wp_meta wp) @ ''-'' @ m_Name (wp_meta wp)"

subsection \<open>Destinations and state stores\<close>

record StateStoreReference =
  ssr_Kind :: string
  ssr_Name :: string

record Destination =
  d_meta :: object_meta
  d_Path :: string
  d_StateStoreRef :: "StateStoreReference option"
  d_StrictMatchLabels :: bool
  d_FilepathMode :: string
  d_FilepathFilename :: string
  d_Cleanup :: string
  d_InitWorkloadsEnabled :: bool
  d_Conditions :: "condition list"

definition GetFilepathMode :: "Destination \<Rightarrow> string" where
  "GetFilepathMode d = (if d_FilepathMode d = '''' then FilepathModeNestedByMetadata else d_FilepathMode d)"

definition GetCleanup :: "Destination \<Rightarrow> string" where
  "GetCleanup d = (if d_Cleanup d = '''' then DestinationCleanupNone else d_Cleanup d)"

record secret_reference =
  sr_Name :: string
  sr_Namespace :: string

record StateStoreStatus =
  sst_Status :: string
  sst_Conditions :: "condition list"

text \<open>
  The two kinds of state store have the same status and secret reference; their specifications differ
  and are read by the writers.
\<close>

record BucketStateStoreSpec =
  bs_BucketName :: string
  bs_Endpoint :: string
  bs_Path :: string
  bs_SecretRef :: "secret_reference option"
  bs_Insecure :: bool
  bs_AuthMethod :: string

record GitStateStoreSpec =
  gs_URL :: string
  gs_Path :: string
  gs_SecretRef :: "secret_reference option"
  gs_Branch :: string
  gs_AuthMethod :: string
  gs_AuthorName :: string
  gs_AuthorEmail :: string

record BucketStateStore =
  b_Kind :: string
  b_meta :: object_meta
  b_Spec :: BucketStateStoreSpec
  b_Status :: StateStoreStatus

record GitStateStore =
  gt_Kind :: string
  gt_meta :: object_meta
  gt_Spec :: GitStateStoreSpec
  gt_Status :: StateStoreStatus

text \<open>The methods of the interface \<open>StateStore\<close>.\<close>

definition BucketGetSecretRef :: "BucketStateStore \<Rightarrow> secret_reference option" where
  "BucketGetSecretRef b = bs_SecretRef (b_Spec b)"

definition BucketGetStatus :: "BucketStateStore \<Rightarrow> StateStoreStatus" where
  "BucketGetStatus b = b_Status b"

definition BucketSetStatus :: "BucketStateStore \<Rightarrow> StateStoreStatus \<Rightarrow> BucketStateStore" where
  "BucketSetStatus b status = b\<lparr>b_Status := status\<rparr>"

definition GitGetSecretRef :: "GitStateStore \<Rightarrow> secret_reference option" where
  "GitGetSecretRef g = gs_SecretRef (gt_Spec g)"

definition GitGetStatus :: "GitStateStore \<Rightarrow> StateStoreStatus" where
  "GitGetStatus g = gt_Status g"

definition GitSetStatus :: "GitStateStore \<Rightarrow> StateStoreStatus \<Rightarrow> GitStateStore" where
  "GitSetStatus g status = g\<lparr>gt_Status := status\<rparr>"

definition AuthMethodAccessKey :: string where [consts_defs]: "AuthMethodAccessKey = ''accessKey''"

definition ValidateSecretRef :: "BucketStateStore \<Rightarrow> err option" where
  "ValidateSecretRef b =
     (if bs_AuthMethod (b_Spec b) = AuthMethodAccessKey then
        (case bs_SecretRef (b_Spec b) of
           None \<Rightarrow> Some (EStr ''spec.secretRef must be set when using authentication method accessKey'')
         | Some r \<Rightarrow>
             if sr_Name r = '''' then Some (EStr ''spec.secretRef must contain secret name'')
             else if sr_Namespace r = '''' then Some (EStr ''spec.secretRef must contain secret namespace'')
             else None)
      else None)"

end
