(* ===== verification/PromiseTypes.thy ===== *)
theory PromiseTypes
  imports V1alpha1
begin

text \<open>
  The types of \<open>src/api/v1alpha1/promise_types.go\<close> and \<open>pipeline_types.go\<close>, and of the custom
  resource definition that a promise's API field decodes to (the fields that the sources use; the
  rest of an OpenAPI schema is passed through unread).
\<close>

subsection \<open>Custom resource definitions\<close>

datatype schema_props =
  SchemaProps (sp_Type: string) (sp_Format: string) (sp_MaxLength: "int option") (sp_XPreserveUnknownFields: "bool option")
    (sp_Items: "schema_props option") (sp_Properties: "(string \<times> schema_props) list option") (sp_other: string)

text \<open>A schema literal has the zero value in every field it does not name.\<close>

definition schema_of :: "string \<Rightarrow> schema_props" where
  "schema_of ty = SchemaProps ty [] None None None None []"

primrec with_Format :: "string \<Rightarrow> schema_props \<Rightarrow> schema_props" where
  "with_Format f (SchemaProps ty g m x i ps oth) = SchemaProps ty f m x i ps oth"

primrec with_MaxLength :: "int \<Rightarrow> schema_props \<Rightarrow> schema_props" where
  "with_MaxLength n (SchemaProps ty f m x i ps oth) = SchemaProps ty f (Some n) x i ps oth"

primrec with_Items :: "schema_props \<Rightarrow> schema_props \<Rightarrow> schema_props" where
  "with_Items j (SchemaProps ty f m x i ps oth) = SchemaProps ty f m x (Some j) ps oth"

primrec with_PreserveUnknownFields :: "bool \<Rightarrow> schema_props \<Rightarrow> schema_props" where
  "with_PreserveUnknownFields b (SchemaProps ty f m x i ps oth) = SchemaProps ty f m (Some b) i ps oth"

primrec with_Properties :: "(string \<times> schema_props) list \<Rightarrow> schema_props \<Rightarrow> schema_props" where
  "with_Properties qs (SchemaProps ty f m x i ps oth) = SchemaProps ty f m x i (Some qs) oth"

lemma with_Properties_sel [simp]:
  "sp_Properties (with_Properties qs s) = Some qs" "sp_Type (with_Properties qs s) = sp_Type s"
  "sp_MaxLength (with_Properties qs s) = sp_MaxLength s"
  by (cases s; simp)+

lemma with_MaxLength_sel [simp]:
  "sp_MaxLength (with_MaxLength n s) = Some n" "sp_Type (with_MaxLength n s) = sp_Type s"
  "sp_Properties (with_MaxLength n s) = sp_Properties s"
  by (cases s; simp)+

lemma schema_of_sel [simp]:
  "sp_Type (schema_of ty) = ty" "sp_Properties (schema_of ty) = None" "sp_MaxLength (schema_of ty) = None"
  by (simp_all add: schema_of_def)

record crd_subresources =
  csr_Status :: bool
  csr_Scale :: "string option"

record crd_column =
  col_Name :: string
  col_Type :: string
  col_JSONPath :: string

text \<open>\<open>None\<close> as the schema of a version: its \<open>Schema\<close> or the schema's \<open>OpenAPIV3Schema\<close> is nil.\<close>

record crd_version =
  cv_Name :: string
  cv_Storage :: bool
  cv_Schema :: "schema_props option"
  cv_Subresources :: "crd_subresources option"
  cv_AdditionalPrinterColumns :: "crd_column list"

text \<open>
  \<open>crd_Kind\<close>, \<open>crd_Plural\<close>, \<open>crd_Singular\<close> and \<open>crd_OtherNames\<close> are \<open>spec.names\<close> (the last
  its list kind, short names and categories); \<open>crd_TypeKind\<close> and \<open>crd_APIVersion\<close> the object's own type.
\<close>

record crd =
  crd_meta :: object_meta
  crd_TypeKind :: string
  crd_APIVersion :: string
  crd_Group :: string
  crd_Kind :: string
  crd_Plural :: string
  crd_Singular :: string
  crd_OtherNames :: "string list"
  crd_Scope :: string
  crd_Versions :: "crd_version list"
  crd_Conversion :: "string option"
  crd_PreserveUnknownFields :: bool
  crd_Conditions :: "job_condition list"

subsection \<open>Promises\<close>

record RequiredPromise =
  rp_Name :: string
  rp_Version :: string

record WorkflowTriggers =
  wt_Configure :: "unstructured list"
  wt_Delete :: "unstructured list"

record PromiseScheduling =
  ps_MatchLabels :: labels

record WorkflowDestinationSelectors =
  wds_MatchLabels :: labels
  wds_Directory :: string

text \<open>\<open>API\<close> is the raw bytes of the field, \<open>None\<close> when the field or its bytes are missing.\<close>

record PromiseSpec =
  psp_API :: "string option"
  psp_WorkflowsResource :: WorkflowTriggers
  psp_WorkflowsPromise :: WorkflowTriggers
  psp_RequiredPromises :: "RequiredPromise list"
  psp_Dependencies :: "unstructured list"
  psp_DestinationSelectors :: "PromiseScheduling list"

record RequiredPromiseStatus =
  rps_Name :: string
  rps_Version :: string
  rps_State :: string

record RequiredBy =
  rby_PromiseName :: string
  rby_PromiseVersion :: string
  rby_RequiredVersion :: string

record PromiseStatus =
  pst_Conditions :: "condition list"
  pst_Version :: string
  pst_ObservedGeneration :: int
  pst_Kind :: string
  pst_APIVersion :: string
  pst_Status :: string
  pst_Workflows :: int
  pst_WorkflowsSucceeded :: int
  pst_WorkflowsFailed :: int
  pst_RequiredPromises :: "RequiredPromiseStatus list"
  pst_RequiredBy :: "RequiredBy list"
  pst_LastAvailableTime :: "time option"

record Promise =
  p_meta :: object_meta
  p_gvk :: gvk
  p_Spec :: PromiseSpec
  p_Status :: PromiseStatus

subsection \<open>Promise releases and health records\<close>

record SourceRef =
  src_Type :: string
  src_URL :: string
  src_SecretRef :: "secret_reference option"

record PromiseReleaseStatus =
  prs_Status :: string
  prs_Conditions :: "condition list"

record PromiseRelease =
  prl_meta :: object_meta
  prl_Version :: string
  prl_SourceRef :: SourceRef
  prl_Status :: PromiseReleaseStatus

record HealthRecordData =
  hr_PromiseName :: string
  hr_ResourceName :: string
  hr_ResourceNamespace :: string
  hr_State :: string
  hr_LastRun :: int
  hr_Details :: "string option"

record HealthRecord =
  hr_meta :: object_meta
  hr_Data :: HealthRecordData

subsection \<open>The controllers of resource requests\<close>

text \<open>
  \<open>DynamicResourceRequestController\<close> of \<open>src/internal/controller/dynamic_resource_request_controller.go\<close>: one is
  started for each Promise with an API. It is shared with the promise controller, which keeps it in a map and writes its fields.
\<close>

record DynamicResourceRequestController =
  rc_GVK :: gvk
  rc_CRD :: crd
  rc_PromiseIdentifier :: string
  rc_PromiseDestinationSelectors :: "PromiseScheduling list"
  rc_UID :: string
  rc_Enabled :: bool
  rc_CanCreateResources :: bool
  rc_NumberOfJobsToKeep :: int
  rc_ReconciliationInterval :: duration

subsection \<open>Pipelines\<close>

record Permission =
  pm_ResourceNamespace :: string
  pm_PolicyRule :: policy_rule

record Container =
  ct_Name :: string
  ct_Image :: string
  ct_Args :: "string list"
  ct_Command :: "string list"
  ct_Env :: "env_var list"
  ct_EnvFrom :: "string list"
  ct_VolumeMounts :: "volume_mount list"
  ct_ImagePullPolicy :: string
  ct_SecurityContext :: "security_context option"

record PipelineSpec =
  pl_Containers :: "Container list"
  pl_Volumes :: "volume list"
  pl_ImagePullSecrets :: "string list"
  pl_ServiceAccount :: string
  pl_Permissions :: "Permission list"
  pl_BackoffLimit :: "int option"
  pl_NodeSelector :: labels
  pl_Tolerations :: "string list"

record Pipeline =
  pi_meta :: object_meta
  pi_Spec :: PipelineSpec

record SharedPipelineResources =
  sh_ServiceAccount :: "service_account option"
  sh_ConfigMap :: "config_map option"
  sh_Roles :: "role list"
  sh_RoleBindings :: "role_binding list"
  sh_ClusterRoles :: "role list"
  sh_ClusterRoleBindings :: "role_binding list"

record PipelineJobResources =
  pj_Name :: string
  pj_PipelineID :: string
  pj_Job :: job
  pj_Shared :: SharedPipelineResources
  pj_WorkflowType :: string
  pj_WorkflowAction :: string

end
