(* ===== verification/World.thy ===== *)
theory World
  imports PromiseTypes
begin

text \<open>
  What lies outside the sources.

  \<^item> \<open>req\<close> and \<open>resp\<close>: the requests a controller sends to the API server, to a state store
    writer, to the clock, the random source, the environment, the event recorder and the file system, and
    their responses. A type \<open>'a go\<close> is a program over them. As in controller-runtime, a
    successful create or update answers with the stored object, which replaces the caller's copy.
  \<^item> \<open>lib\<close>: the functions of third-party packages that the sources call for their value (condition and
    finalizer helpers, label selectors, YAML and JSON codecs, MD5, gzip). They are parameters, passed
    as a record \<open>L\<close>; what a property relies on of them is one of the named laws at the end of this theory,
    which state the functions' documentation.
\<close>

subsection \<open>Objects of the API server\<close>

datatype kind =
    KWork | KWorkPlacement | KDestination | KJob | KBucketStateStore | KGitStateStore | KSecret
  | KRole | KRoleBinding | KClusterRole | KClusterRoleBinding | KServiceAccount | KConfigMap
  | KPromise | KPromiseRelease | KHealthRecord | KCRD | KUnstructured gvk

datatype kobj =
    OWork Work
  | OWorkPlacement WorkPlacement
  | ODestination Destination
  | OJob job
  | OBucketStateStore BucketStateStore
  | OGitStateStore GitStateStore
  | OSecret secret
  | ORole role
  | ORoleBinding role_binding
  | OClusterRole role
  | OClusterRoleBinding role_binding
  | OServiceAccount service_account
  | OConfigMap config_map
  | OPromise Promise
  | OPromiseRelease PromiseRelease
  | OHealthRecord HealthRecord
  | OCRD crd
  | ONamespace object_meta
  | OUnstructured unstructured

fun meta_of :: "kobj \<Rightarrow> object_meta" where
  "meta_of (OWork x) = w_meta x"
| "meta_of (OWorkPlacement x) = wp_meta x"
| "meta_of (ODestination x) = d_meta x"
| "meta_of (OJob x) = j_meta x"
| "meta_of (OBucketStateStore x) = b_meta x"
| "meta_of (OGitStateStore x) = gt_meta x"
| "meta_of (OSecret x) = sec_meta x"
| "meta_of (ORole x) = ro_meta x"
| "meta_of (ORoleBinding x) = rb_meta x"
| "meta_of (OClusterRole x) = ro_meta x"
| "meta_of (OClusterRoleBinding x) = rb_meta x"
| "meta_of (OServiceAccount x) = sa_meta x"
| "meta_of (OConfigMap x) = cm_meta x"
| "meta_of (OPromise x) = p_meta x"
| "meta_of (OPromiseRelease x) = prl_meta x"
| "meta_of (OHealthRecord x) = hr_meta x"
| "meta_of (OCRD x) = crd_meta x"
| "meta_of (ONamespace x) = x"
| "meta_of (OUnstructured x) = u_meta x"

subsection \<open>Requests and responses\<close>

text \<open>A selector of a list request; a missing one (a nil selector) matches everything.\<close>

datatype selector = Everything | MatchLabels labels | MatchField string string

datatype writer = WriterHandle string

datatype req =
    Get kind string string
  | ListObjs kind string "selector option"
  | Create kobj
  | Update kobj
  | StatusUpdate kobj
  | Delete kobj
  | Patch kobj
  | DryRunCreate kobj
  | DryRunUpdate kobj
  | CreateOrUpdateFetch kobj
  | CreateOrUpdateStore kobj
  | Event kobj string string string
  | Now
  | Sleep duration
  | RandIntn nat
  | NewUUID
  | Getenv string
  | RangeOrder "string list"
  | NewS3Writer BucketStateStoreSpec string "labels option"
  | NewGitWriter GitStateStoreSpec string labels
  | UpdateFiles writer string string "Workload list" "string list"
  | WriterReadFile writer string
  | ValidatePermissions writer
  | OsReadDir string
  | OsReadFile string
  | OsOpen string
  | IoReadAll string
  | HttpGet string string
  | LoadController string
  | StoreController string DynamicResourceRequestController
  | StartController DynamicResourceRequestController
  | RestartManager

datatype resp =
    RErr err
  | ROk
  | RObj kobj
  | RList "kobj list"
  | RStr string
  | RTime time
  | RInt nat
  | RDir "(string \<times> bool) list"
  | RWriter writer
  | RStored string kobj
  | RStrs "string list"
  | RHttp int string
  | RController DynamicResourceRequestController

text \<open>The object a request deletes.\<close>

fun deleted :: "req \<Rightarrow> kobj option" where
  "deleted (Delete x) = Some x"
| "deleted q = None"

type_synonym 'a go = "(req, resp, 'a) prog"
type_synonym gtrace = "(req, resp) trace"

subsection \<open>Typed access\<close>

definition decode_error :: err where "decode_error = EStr ''unexpected response''"

definition as_obj :: "(kobj \<Rightarrow> 'a option) \<Rightarrow> resp \<Rightarrow> err + 'a" where
  "as_obj sel r =
     (case r of RErr e \<Rightarrow> Inl e
      | RObj x \<Rightarrow> (case sel x of Some v \<Rightarrow> Inr v | None \<Rightarrow> Inl decode_error)
      | _ \<Rightarrow> Inl decode_error)"

definition as_list :: "(kobj \<Rightarrow> 'a option) \<Rightarrow> resp \<Rightarrow> err + 'a list" where
  "as_list sel r =
     (case r of RErr e \<Rightarrow> Inl e
      | RList xs \<Rightarrow> (case those (map sel xs) of Some vs \<Rightarrow> Inr vs | None \<Rightarrow> Inl decode_error)
      | _ \<Rightarrow> Inl decode_error)"

definition as_unit :: "resp \<Rightarrow> err option" where
  "as_unit r = (case r of RErr e \<Rightarrow> Some e | _ \<Rightarrow> None)"

definition as_str :: "resp \<Rightarrow> err + string" where
  "as_str r = (case r of RErr e \<Rightarrow> Inl e | RStr s \<Rightarrow> Inr s | _ \<Rightarrow> Inl decode_error)"

definition as_writer :: "resp \<Rightarrow> err + writer" where
  "as_writer r = (case r of RErr e \<Rightarrow> Inl e | RWriter w \<Rightarrow> Inr w | _ \<Rightarrow> Inl decode_error)"

definition as_time :: "resp \<Rightarrow> time" where
  "as_time r = (case r of RTime t \<Rightarrow> t | _ \<Rightarrow> 0)"

fun un_work :: "kobj \<Rightarrow> Work option" where "un_work (OWork x) = Some x" | "un_work _ = None"
fun un_wp :: "kobj \<Rightarrow> WorkPlacement option" where "un_wp (OWorkPlacement x) = Some x" | "un_wp _ = None"
fun un_dest :: "kobj \<Rightarrow> Destination option" where "un_dest (ODestination x) = Some x" | "un_dest _ = None"
fun un_job :: "kobj \<Rightarrow> job option" where "un_job (OJob x) = Some x" | "un_job _ = None"
fun un_bucket :: "kobj \<Rightarrow> BucketStateStore option" where "un_bucket (OBucketStateStore x) = Some x" | "un_bucket _ = None"
fun un_git :: "kobj \<Rightarrow> GitStateStore option" where "un_git (OGitStateStore x) = Some x" | "un_git _ = None"
fun un_secret :: "kobj \<Rightarrow> secret option" where "un_secret (OSecret x) = Some x" | "un_secret _ = None"
fun un_role :: "kobj \<Rightarrow> role option" where "un_role (ORole x) = Some x" | "un_role _ = None"
fun un_rolebinding :: "kobj \<Rightarrow> role_binding option" where "un_rolebinding (ORoleBinding x) = Some x" | "un_rolebinding _ = None"
fun un_clusterrole :: "kobj \<Rightarrow> role option" where "un_clusterrole (OClusterRole x) = Some x" | "un_clusterrole _ = None"
fun un_clusterrolebinding :: "kobj \<Rightarrow> role_binding option" where
  "un_clusterrolebinding (OClusterRoleBinding x) = Some x" | "un_clusterrolebinding _ = None"
fun un_sa :: "kobj \<Rightarrow> service_account option" where "un_sa (OServiceAccount x) = Some x" | "un_sa _ = None"
fun un_promise :: "kobj \<Rightarrow> Promise option" where "un_promise (OPromise x) = Some x" | "un_promise _ = None"
fun un_release :: "kobj \<Rightarrow> PromiseRelease option" where "un_release (OPromiseRelease x) = Some x" | "un_release _ = None"
fun un_health :: "kobj \<Rightarrow> HealthRecord option" where "un_health (OHealthRecord x) = Some x" | "un_health _ = None"
fun un_crd :: "kobj \<Rightarrow> crd option" where "un_crd (OCRD x) = Some x" | "un_crd _ = None"
fun un_unstructured :: "kobj \<Rightarrow> unstructured option" where "un_unstructured (OUnstructured x) = Some x" | "un_unstructured _ = None"

definition call_obj :: "req \<Rightarrow> (kobj \<Rightarrow> 'a option) \<Rightarrow> (err + 'a) go" where
  "call_obj q sel = Call q (\<lambda>r. Ret (as_obj sel r))"

definition call_list :: "req \<Rightarrow> (kobj \<Rightarrow> 'a option) \<Rightarrow> (err + 'a list) go" where
  "call_list q sel = Call q (\<lambda>r. Ret (as_list sel r))"

definition call_unit :: "req \<Rightarrow> (err option) go" where
  "call_unit q = Call q (\<lambda>r. Ret (as_unit r))"

definition call_str :: "req \<Rightarrow> (err + string) go" where
  "call_str q = Call q (\<lambda>r. Ret (as_str r))"

definition call_writer :: "req \<Rightarrow> (err + writer) go" where
  "call_writer q = Call q (\<lambda>r. Ret (as_writer r))"

definition call_now :: "time go" where
  "call_now = Call Now (\<lambda>r. Ret (as_time r))"

definition call_event :: "kobj \<Rightarrow> string \<Rightarrow> string \<Rightarrow> string \<Rightarrow> unit go" where
  "call_event obj ty reason msg = Call (Event obj ty reason msg) (\<lambda>r. Ret ())"

text \<open>
  Ranging over a Go map visits its entries in an order that the runtime chooses anew each time: a request,
  answered with a permutation of the keys (any other answer counts as the given order).
\<close>

definition range_map :: "(string \<times> 'v) list \<Rightarrow> ((string \<times> 'v) list) go" where
  "range_map m = Call (RangeOrder (map fst m)) (\<lambda>r. Ret
     (case r of
        RStrs ks \<Rightarrow> if mset ks = mset (map fst m) then map (\<lambda>k. (k, the (map_of m k))) ks else m
      | _ \<Rightarrow> m))"

text \<open>
  \<open>controllerutil.CreateOrUpdate\<close>: fetch the object (a missing one stays as given), apply the callback,
  and create or update it. The request \<open>CreateOrUpdateStore\<close> is not a write but the second half of the library's
  function, which is not code of this program: it compares the object with the fetched one, creates a missing
  one, updates one that differs and sends nothing for one that does not. Its answer says which of them happened
  (\<open>created\<close>, \<open>updated\<close>, \<open>unchanged\<close>), and after each of them the object in the cluster is the one given here.
\<close>

definition CreateOrUpdate ::
  "(kobj \<Rightarrow> 'a option) \<Rightarrow> ('a \<Rightarrow> kobj) \<Rightarrow> 'a \<Rightarrow> ('a \<Rightarrow> err + 'a) \<Rightarrow> (err + string \<times> 'a) go" where
  "CreateOrUpdate sel mk obj f =
     Call (CreateOrUpdateFetch (mk obj)) (\<lambda>r.
     let fetched = (case as_obj sel r of
                      Inr x \<Rightarrow> Inr x
                    | Inl e \<Rightarrow> if IsNotFound e then Inr obj else Inl e)
     in case fetched of
          Inl e \<Rightarrow> Ret (Inl e)
        | Inr x \<Rightarrow>
            (case f x of
               Inl e \<Rightarrow> Ret (Inl e)
             | Inr y \<Rightarrow>
                 Call (CreateOrUpdateStore (mk y)) (\<lambda>r.
                 Ret (case r of
                        RErr e \<Rightarrow> Inl e
                      | RStored op z \<Rightarrow> (case sel z of Some v \<Rightarrow> Inr (op, v) | None \<Rightarrow> Inl decode_error)
                      | _ \<Rightarrow> Inl decode_error))))"

definition EventTypeNormal :: string where [consts_defs]: "EventTypeNormal = ''Normal''"
definition EventTypeWarning :: string where [consts_defs]: "EventTypeWarning = ''Warning''"

subsection \<open>Third-party functions\<close>

record lib =
  L_SetStatusCondition :: "time \<Rightarrow> condition list \<Rightarrow> condition \<Rightarrow> condition list \<times> bool"
  L_FindStatusCondition :: "condition list \<Rightarrow> string \<Rightarrow> condition option"
  L_IsStatusConditionFalse :: "condition list \<Rightarrow> string \<Rightarrow> bool"
  L_ContainsFinalizer :: "string list \<Rightarrow> string \<Rightarrow> bool"
  L_AddFinalizer :: "string list \<Rightarrow> string \<Rightarrow> string list"
  L_RemoveFinalizer :: "string list \<Rightarrow> string \<Rightarrow> string list"
  L_FormatLabels :: "labels \<Rightarrow> string"
  L_ParseSelector :: "string \<Rightarrow> err + selector"
  L_SelectorFromSet :: "labels \<Rightarrow> selector"
  L_MergeLabels :: "labels \<Rightarrow> labels \<Rightarrow> labels"
  L_SetControllerReference :: "object_meta \<Rightarrow> object_meta \<Rightarrow> err + object_meta"
  L_ConditionsGet :: "unstructured \<Rightarrow> string \<Rightarrow> condition option"
  L_ConditionsSet :: "unstructured \<Rightarrow> condition \<Rightarrow> unstructured"
  L_MarshalStateFile :: "string list \<Rightarrow> err + string"
  L_UnmarshalStateFile :: "string \<Rightarrow> err + string list"
  L_UnmarshalCRD :: "string \<Rightarrow> err + crd"
  L_MarshalScheduling :: "WorkloadGroupScheduling list \<Rightarrow> err + string"
  L_UnmarshalScheduling :: "string \<Rightarrow> err + WorkloadGroupScheduling list"
  L_UnmarshalDestinationSelectors :: "string \<Rightarrow> err + WorkflowDestinationSelectors list"
  L_MarshalYAML :: "kobj \<Rightarrow> err + string"
  L_MarshalDependencies :: "unstructured list \<Rightarrow> err + string"
  L_ToUnstructured :: "Promise \<Rightarrow> err + unstructured"
  L_MarshalJSON :: "json option \<Rightarrow> err + string"
  L_MarshalUnstructured :: "unstructured \<Rightarrow> err + string"
  L_DecodePipeline :: "string \<Rightarrow> err + Pipeline"
  L_md5hex :: "string \<Rightarrow> string"
  L_gzip :: "string \<Rightarrow> err + string"
  L_gunzip :: "string \<Rightarrow> err + string"
  L_PolicyRuleString :: "policy_rule \<Rightarrow> string"
  L_SubjectString :: "subject \<Rightarrow> string"
  L_RoleRefString :: "role_ref \<Rightarrow> string"
  L_RFC3339 :: "time \<Rightarrow> string"
  L_TimeString :: "time \<Rightarrow> string"
  L_AddAnnotations :: "labels \<Rightarrow> labels \<Rightarrow> labels"
  L_IsValidLabelValue :: "string \<Rightarrow> string list"
  L_IsQualifiedName :: "string \<Rightarrow> string list"
  L_UnmarshalJSON :: "string \<Rightarrow> err + json"
  L_UnmarshalMap :: "string \<Rightarrow> err + (string \<times> json) list"
  L_NewRequest :: "string \<Rightarrow> err option"
  L_DecodeDocument :: "string \<Rightarrow> nat \<Rightarrow> err + unstructured"
  L_PromiseFromUnstructured :: "unstructured \<Rightarrow> err + Promise"
  L_SortSlice :: "(job \<Rightarrow> job \<Rightarrow> bool) \<Rightarrow> job list \<Rightarrow> job list"

text \<open>
  \<open>meta.SetStatusCondition\<close> reads the clock itself, hence the request before it.
\<close>

definition SetStatusCondition :: "lib \<Rightarrow> condition list \<Rightarrow> condition \<Rightarrow> (condition list \<times> bool) go" where
  "SetStatusCondition L cs c = bnd call_now (\<lambda>now. Ret (L_SetStatusCondition L now cs c))"

subsection \<open>The laws of the third-party functions that properties rely on\<close>

text \<open>Finalizers: the helpers test, add and remove one entry of the object's finalizers.\<close>

definition finalizer_laws :: "lib \<Rightarrow> bool" where
  "finalizer_laws L \<longleftrightarrow>
     (\<forall>fs f. L_ContainsFinalizer L fs f \<longleftrightarrow> f \<in> set fs) \<and>
     (\<forall>fs f. set (L_AddFinalizer L fs f) = insert f (set fs)) \<and>
     (\<forall>fs f. set (L_RemoveFinalizer L fs f) = set fs - {f})"

text \<open>
  Conditions: after \<open>SetStatusCondition\<close> the condition of that type has the new status, reason and
  message, the conditions of the other types are as before, and the result says whether anything
  changed; \<open>FindStatusCondition\<close> is the first condition of a type, \<open>IsStatusConditionFalse\<close> says
  that it is there with status \<open>False\<close>.
\<close>

definition same_condition :: "condition \<Rightarrow> condition \<Rightarrow> bool" where
  "same_condition c d \<longleftrightarrow> c_Type c = c_Type d \<and> c_Status c = c_Status d \<and>
     c_Reason c = c_Reason d \<and> c_Message c = c_Message d"

definition condition_laws :: "lib \<Rightarrow> bool" where
  "condition_laws L \<longleftrightarrow>
     (\<forall>cs ty. L_FindStatusCondition L cs ty = find (\<lambda>c. c_Type c = ty) cs) \<and>
     (\<forall>cs ty. L_IsStatusConditionFalse L cs ty \<longleftrightarrow>
        (\<exists>c. find (\<lambda>c. c_Type c = ty) cs = Some c \<and> c_Status c = ConditionFalse)) \<and>
     (\<forall>now cs c. \<exists>d. find (\<lambda>x. c_Type x = c_Type c) (fst (L_SetStatusCondition L now cs c)) = Some d \<and>
        same_condition d c) \<and>
     (\<forall>now cs c ty. ty \<noteq> c_Type c \<longrightarrow>
        find (\<lambda>x. c_Type x = ty) (fst (L_SetStatusCondition L now cs c)) = find (\<lambda>x. c_Type x = ty) cs) \<and>
     (\<forall>now cs c. \<not> snd (L_SetStatusCondition L now cs c) \<longleftrightarrow>
        (\<exists>d. find (\<lambda>x. c_Type x = c_Type c) cs = Some d \<and> same_condition d c))"

text \<open>Labels: merging gives the second map priority.\<close>

definition merge_laws :: "lib \<Rightarrow> bool" where
  "merge_laws L \<longleftrightarrow> (\<forall>a b. L_MergeLabels L a b = a ++\<^sub>f b)"

text \<open>
  Conditions of unstructured objects: they are kept under the key \<open>conditions\<close> of the status; setting one
  makes it the condition of its type, keeps the others, and touches nothing but the status, which is an object then.
\<close>

definition json_fields :: "json option \<Rightarrow> (string \<times> json) list" where
  "json_fields j = (case j of Some (JObj fs) \<Rightarrow> fs | _ \<Rightarrow> [])"

definition uconditions_laws :: "lib \<Rightarrow> bool" where
  "uconditions_laws L \<longleftrightarrow>
     (\<forall>u c. \<exists>d. L_ConditionsGet L (L_ConditionsSet L u c) (c_Type c) = Some d \<and> same_condition d c) \<and>
     (\<forall>u c ty. ty \<noteq> c_Type c \<longrightarrow> L_ConditionsGet L (L_ConditionsSet L u c) ty = L_ConditionsGet L u ty) \<and>
     (\<forall>u c. \<exists>fs. L_ConditionsSet L u c = u\<lparr>u_status := Some (JObj fs)\<rparr>) \<and>
     (\<forall>u v ty. map_of (json_fields (u_status u)) ''conditions'' = map_of (json_fields (u_status v)) ''conditions'' \<longrightarrow>
        L_ConditionsGet L u ty = L_ConditionsGet L v ty)"

text \<open>Compression: decompressing gives back what was compressed; it does not fail in memory.\<close>

definition gzip_laws :: "lib \<Rightarrow> bool" where
  "gzip_laws L \<longleftrightarrow> (\<forall>s. \<exists>z. L_gzip L s = Inr z \<and> L_gunzip L z = Inr s)"

text \<open>State files: reading a state file gives back the file names it was written from; the empty file has none.\<close>

definition statefile_laws :: "lib \<Rightarrow> bool" where
  "statefile_laws L \<longleftrightarrow> L_UnmarshalStateFile L [] = Inr [] \<and>
     (\<forall>fs s. L_MarshalStateFile L fs = Inr s \<longrightarrow> L_UnmarshalStateFile L s = Inr fs)"

text \<open>Ownership: \<open>SetControllerReference\<close> touches nothing but the owner references.\<close>

definition owner_laws :: "lib \<Rightarrow> bool" where
  "owner_laws L \<longleftrightarrow> (\<forall>owner m m'. L_SetControllerReference L owner m = Inr m' \<longrightarrow>
     (\<exists>rs. m' = m\<lparr>m_OwnerReferences := rs\<rparr>))"

text \<open>Conversion: the unstructured form of a Promise has the Promise's metadata.\<close>

definition unstructured_laws :: "lib \<Rightarrow> bool" where
  "unstructured_laws L \<longleftrightarrow> (\<forall>p u. L_ToUnstructured L p = Inr u \<longrightarrow> u_meta u = p_meta p)"

text \<open>
  Sorting: \<open>sort.Slice\<close> permutes the slice so that no element is less than an earlier one. It is not
  stable, so where elements tie nothing more is known.
\<close>

definition sort_laws :: "lib \<Rightarrow> bool" where
  "sort_laws L \<longleftrightarrow>
     (\<forall>lt xs. mset (L_SortSlice L lt xs) = mset xs) \<and>
     (\<forall>(f :: job \<Rightarrow> int) xs. sorted (map f (L_SortSlice L (\<lambda>a b. f a < f b) xs))) \<and>
     (\<forall>(f :: job \<Rightarrow> int) xs. sorted (rev (map f (L_SortSlice L (\<lambda>a b. f a > f b) xs))))"

subsection \<open>A concrete library\<close>

text \<open>
  One library that satisfies every law: conditions and finalizers kept as lists, selectors that match by label,
  a hash that pads its input and a compression that leaves it as it is. The witnesses of the properties
  use it; no property is about it.
\<close>

definition plain_SetStatusCondition :: "time \<Rightarrow> condition list \<Rightarrow> condition \<Rightarrow> condition list \<times> bool" where
  "plain_SetStatusCondition now cs c =
     (case find (\<lambda>x. c_Type x = c_Type c) cs of
        None \<Rightarrow> (cs @ [c\<lparr>c_LastTransitionTime := now\<rparr>], True)
      | Some d \<Rightarrow>
          if same_condition d c then (cs, False)
          else (map (\<lambda>x. if c_Type x = c_Type c then c\<lparr>c_LastTransitionTime := now\<rparr> else x) cs, True))"

definition plain_find :: "condition list \<Rightarrow> string \<Rightarrow> condition option" where
  "plain_find cs ty = find (\<lambda>c. c_Type c = ty) cs"

text \<open>Conditions of an unstructured object, kept under \<open>status.conditions\<close> as a list of objects.\<close>

definition json_str :: "(string \<times> json) list \<Rightarrow> string \<Rightarrow> string" where
  "json_str fs k = (case map_of fs k of Some (JStr s) \<Rightarrow> s | _ \<Rightarrow> [])"

definition cond_to_json :: "condition \<Rightarrow> json" where
  "cond_to_json c = JObj [(''type'', JStr (c_Type c)), (''status'', JStr (c_Status c)),
     (''reason'', JStr (c_Reason c)), (''message'', JStr (c_Message c)),
     (''lastTransitionTime'', JInt (c_LastTransitionTime c))]"

definition json_to_cond :: "json \<Rightarrow> condition" where
  "json_to_cond j = (let fs = json_fields (Some j) in
     \<lparr>c_Type = json_str fs ''type'', c_Status = json_str fs ''status'', c_Reason = json_str fs ''reason'',
      c_Message = json_str fs ''message'',
      c_LastTransitionTime = (case map_of fs ''lastTransitionTime'' of Some (JInt t) \<Rightarrow> t | _ \<Rightarrow> 0)\<rparr>)"

definition plain_uconds :: "unstructured \<Rightarrow> condition list" where
  "plain_uconds u =
     (case map_of (json_fields (u_status u)) ''conditions'' of
        Some (JList js) \<Rightarrow> map json_to_cond js | _ \<Rightarrow> [])"

definition plain_ConditionsGet :: "unstructured \<Rightarrow> string \<Rightarrow> condition option" where
  "plain_ConditionsGet u ty = plain_find (plain_uconds u) ty"

definition plain_ConditionsSet :: "unstructured \<Rightarrow> condition \<Rightarrow> unstructured" where
  "plain_ConditionsSet u c =
     (let cs = c # filter (\<lambda>d. c_Type d \<noteq> c_Type c) (plain_uconds u)
      in u\<lparr>u_status := Some (JObj ((''conditions'', JList (map cond_to_json cs)) #
            filter (\<lambda>kv. fst kv \<noteq> ''conditions'') (json_fields (u_status u))))\<rparr>)"

text \<open>A list of names as one string: every character escaped, every name terminated.\<close>

definition plain_statefile :: "string list \<Rightarrow> string" where
  "plain_statefile fs = concat (map (\<lambda>f. concat (map (\<lambda>c. [CHR 0x5C, c]) f) @ [CHR 0x0A]) fs)"

fun plain_filenames :: "string \<Rightarrow> string \<Rightarrow> string list" where
  "plain_filenames acc [] = []"
| "plain_filenames acc [c] = [acc]"
| "plain_filenames acc (c # d # s) = (if c = CHR 0x5C then plain_filenames (acc @ [d]) s else acc # plain_filenames [] (d # s))"

definition plain_lib :: lib where
  "plain_lib = \<lparr>
     L_SetStatusCondition = plain_SetStatusCondition,
     L_FindStatusCondition = plain_find,
     L_IsStatusConditionFalse = (\<lambda>cs ty. case plain_find cs ty of
        Some c \<Rightarrow> c_Status c = ConditionFalse | None \<Rightarrow> False),
     L_ContainsFinalizer = (\<lambda>fs f. f \<in> set fs),
     L_AddFinalizer = (\<lambda>fs f. if f \<in> set fs then fs else fs @ [f]),
     L_RemoveFinalizer = (\<lambda>fs f. filter (\<lambda>x. x \<noteq> f) fs),
     L_FormatLabels = (\<lambda>m. ''labels''),
     L_ParseSelector = (\<lambda>s. Inr Everything),
     L_SelectorFromSet = MatchLabels,
     L_MergeLabels = (\<lambda>a b. a ++\<^sub>f b),
     L_SetControllerReference = (\<lambda>o1 o2. Inr (o2\<lparr>m_OwnerReferences := [m_UID o1]\<rparr>)),
     L_ConditionsGet = plain_ConditionsGet,
     L_ConditionsSet = plain_ConditionsSet,
     L_MarshalStateFile = (\<lambda>fs. Inr (plain_statefile fs)),
     L_UnmarshalStateFile = (\<lambda>s. Inr (plain_filenames [] s)),
     L_UnmarshalCRD = (\<lambda>s. Inr \<lparr>crd_meta = empty_meta\<lparr>m_Name := s\<rparr>, crd_TypeKind = ''CustomResourceDefinition'',
        crd_APIVersion = ''apiextensions.k8s.io/v1'', crd_Group = ''example.com'', crd_Kind = ''Redis'',
        crd_Plural = ''redises'', crd_Singular = ''redis'', crd_OtherNames = [], crd_Scope = ''Namespaced'', crd_Versions =
          [\<lparr>cv_Name = ''v1'', cv_Storage = True, cv_Schema = Some (schema_of ''object''), cv_Subresources = None,
            cv_AdditionalPrinterColumns = []\<rparr>], crd_Conversion = None, crd_PreserveUnknownFields = False, crd_Conditions = []\<rparr>),
     L_MarshalScheduling = (\<lambda>ss. Inr ''scheduling''),
     L_UnmarshalScheduling = (\<lambda>s. Inr []),
     L_UnmarshalDestinationSelectors = (\<lambda>s. Inr []),
     L_MarshalYAML = (\<lambda>x. Inr (m_Name (meta_of x))),
     L_MarshalDependencies = (\<lambda>us. Inr ''dependencies''),
     L_ToUnstructured = (\<lambda>p. Inr \<lparr>u_meta = p_meta p, u_gvk = p_gvk p, u_spec = None, u_status = None\<rparr>),
     L_MarshalJSON = (\<lambda>j. Inr ''json''),
     L_MarshalUnstructured = (\<lambda>u. Inr (m_Name (u_meta u))),
     L_DecodePipeline = (\<lambda>s. Inr \<lparr>pi_meta = empty_meta\<lparr>m_Name := s\<rparr>, pi_Spec = \<lparr>pl_Containers =
        [\<lparr>ct_Name = ''main'', ct_Image = ''img'', ct_Args = [], ct_Command = [], ct_Env = [], ct_EnvFrom = [],
          ct_VolumeMounts = [], ct_ImagePullPolicy = [], ct_SecurityContext = None\<rparr>], pl_Volumes = [],
        pl_ImagePullSecrets = [], pl_ServiceAccount = [], pl_Permissions = [], pl_BackoffLimit = None,
        pl_NodeSelector = fmempty, pl_Tolerations = []\<rparr>\<rparr>),
     L_md5hex = (\<lambda>s. s @ ''00000''),
     L_gzip = Inr,
     L_gunzip = Inr,
     L_PolicyRuleString = (\<lambda>r. join (pr_Resources r @ pr_ResourceNames r) '',''),
     L_SubjectString = sb_Name,
     L_RoleRefString = rr_Name,
     L_RFC3339 = (\<lambda>t. []),
     L_TimeString = (\<lambda>t. []),
     L_AddAnnotations = (\<lambda>a b. a ++\<^sub>f b),
     L_IsValidLabelValue = (\<lambda>s. []),
     L_IsQualifiedName = (\<lambda>s. []),
     L_UnmarshalJSON = (\<lambda>s. Inr (JStr s)),
     L_UnmarshalMap = (\<lambda>s. Inr [(''message'', JStr s)]),
     L_NewRequest = (\<lambda>s. None),
     L_DecodeDocument = (\<lambda>s n. if n = 0 then Inr \<lparr>u_meta = empty_meta\<lparr>m_Name := s, m_Labels := fmupd ''kratix.io/promise-version'' ''v1.0.0'' fmempty\<rparr>,
        u_gvk = \<lparr>g_Group = ''platform.kratix.io'', g_Version = ''v1alpha1'', g_Kind = ''Promise''\<rparr>, u_spec = None, u_status = None\<rparr> else Inl (EStr ''EOF'')),
     L_PromiseFromUnstructured = (\<lambda>u. Inr \<lparr>p_meta = u_meta u, p_gvk = u_gvk u,
        p_Spec = \<lparr>psp_API = None, psp_WorkflowsResource = \<lparr>wt_Configure = [], wt_Delete = []\<rparr>, psp_WorkflowsPromise = \<lparr>wt_Configure = [], wt_Delete = []\<rparr>,
          psp_RequiredPromises = [], psp_Dependencies = [], psp_DestinationSelectors = []\<rparr>,
        p_Status = \<lparr>pst_Conditions = [], pst_Version = [], pst_ObservedGeneration = 0, pst_Kind = [], pst_APIVersion = [], pst_Status = [], pst_Workflows = 0,
          pst_WorkflowsSucceeded = 0, pst_WorkflowsFailed = 0, pst_RequiredPromises = [], pst_RequiredBy = [], pst_LastAvailableTime = None\<rparr>\<rparr>),
     L_SortSlice = slice_stable\<rparr>"

lemmas plain_lib_simps = plain_lib_def plain_SetStatusCondition_def plain_find_def

lemma json_to_cond_to_json: "json_to_cond (cond_to_json c) = c"
  by (simp add: json_to_cond_def cond_to_json_def json_fields_def json_str_def)

lemma plain_uconds_set: "plain_uconds (plain_ConditionsSet u c) =
    c # filter (\<lambda>d. c_Type d \<noteq> c_Type c) (plain_uconds u)"
  by (simp add: plain_ConditionsSet_def plain_uconds_def [of "u\<lparr>u_status := _\<rparr>"] json_fields_def
      json_to_cond_to_json comp_def Let_def)

lemma find_filter_other: "ty \<noteq> ty' \<Longrightarrow>
    find (\<lambda>x. c_Type x = ty) (filter (\<lambda>d. c_Type d \<noteq> ty') cs) = find (\<lambda>x. c_Type x = ty) cs"
  by (induction cs) auto

lemma find_append_None: "find P xs = None \<Longrightarrow> find P (xs @ ys) = find P ys"
  by (induction xs) (auto split: if_splits)

lemma find_append_other: "(\<And>y. y \<in> set ys \<Longrightarrow> \<not> P y) \<Longrightarrow> find P (xs @ ys) = find P xs"
  by (induction xs) (auto simp: find_None_iff)

lemma find_replace_same:
  "find (\<lambda>x. c_Type x = ty) cs = Some d \<Longrightarrow> c_Type c = ty \<Longrightarrow>
   find (\<lambda>x. c_Type x = ty) (map (\<lambda>x. if c_Type x = ty then c else x) cs) = Some c"
  by (induction cs) (auto split: if_splits)

lemma find_replace_other:
  "ty' \<noteq> ty \<Longrightarrow> c_Type c = ty \<Longrightarrow>
   find (\<lambda>x. c_Type x = ty') (map (\<lambda>x. if c_Type x = ty then c else x) cs) = find (\<lambda>x. c_Type x = ty') cs"
  by (induction cs) auto

lemma plain_condition_laws: "condition_laws plain_lib"
proof -
  have "\<exists>d. find (\<lambda>x. c_Type x = c_Type c) (fst (plain_SetStatusCondition now cs c)) = Some d \<and> same_condition d c"
    for now cs c
    by (auto simp: plain_SetStatusCondition_def find_append_None same_condition_def
        find_replace_same split: option.splits)
  moreover have "find (\<lambda>x. c_Type x = ty) (fst (plain_SetStatusCondition now cs c)) = find (\<lambda>x. c_Type x = ty) cs"
    if "ty \<noteq> c_Type c" for now cs c ty
    using that by (auto simp: plain_SetStatusCondition_def find_replace_other split: option.splits
        intro!: find_append_other)
  moreover have "\<not> snd (plain_SetStatusCondition now cs c) \<longleftrightarrow>
      (\<exists>d. find (\<lambda>x. c_Type x = c_Type c) cs = Some d \<and> same_condition d c)" for now cs c
    by (auto simp: plain_SetStatusCondition_def split: option.splits)
  ultimately show ?thesis
    unfolding condition_laws_def
    by (simp add: plain_lib_def plain_find_def split: option.splits)
qed

lemma plain_finalizer_laws: "finalizer_laws plain_lib"
  by (auto simp: finalizer_laws_def plain_lib_def)

lemma plain_merge_laws: "merge_laws plain_lib"
  by (simp add: merge_laws_def plain_lib_def)

lemma plain_uconditions_laws: "uconditions_laws plain_lib"
proof -
  have L: "L_ConditionsGet plain_lib = plain_ConditionsGet" "L_ConditionsSet plain_lib = plain_ConditionsSet"
    by (simp_all add: plain_lib_def)
  have "\<exists>d. plain_ConditionsGet (plain_ConditionsSet u c) (c_Type c) = Some d \<and> same_condition d c" for u c
    by (simp add: plain_ConditionsGet_def plain_find_def plain_uconds_set same_condition_def)
  moreover have "plain_ConditionsGet (plain_ConditionsSet u c) ty = plain_ConditionsGet u ty" if "ty \<noteq> c_Type c" for u c ty
    using that by (simp add: plain_ConditionsGet_def plain_find_def plain_uconds_set find_filter_other)
  moreover have "\<exists>fs. plain_ConditionsSet u c = u\<lparr>u_status := Some (JObj fs)\<rparr>" for u c
    unfolding plain_ConditionsSet_def Let_def by blast
  moreover have "plain_ConditionsGet u ty = plain_ConditionsGet v ty"
    if "map_of (json_fields (u_status u)) ''conditions'' = map_of (json_fields (u_status v)) ''conditions''" for u v ty
    unfolding plain_ConditionsGet_def plain_uconds_def that ..
  ultimately show ?thesis
    unfolding uconditions_laws_def L by blast
qed

lemma plain_filenames_name:
  "plain_filenames acc (concat (map (\<lambda>c. [CHR 0x5C, c]) f) @ CHR 0x0A # s) = (acc @ f) # plain_filenames [] s"
proof (induction f arbitrary: acc)
  case Nil
  then show ?case by (cases s) auto
next
  case (Cons c f)
  have "plain_filenames acc (CHR 0x5C # c # z) = plain_filenames (acc @ [c]) z" for z by simp
  with Cons show ?case by simp
qed

lemma plain_statefile_laws: "statefile_laws plain_lib"
proof -
  have "plain_filenames [] (plain_statefile fs) = fs" for fs
    by (induction fs) (auto simp: plain_statefile_def plain_filenames_name [where acc = "[]", simplified])
  then show ?thesis by (auto simp: statefile_laws_def plain_lib_def)
qed

lemma plain_gzip_laws: "gzip_laws plain_lib"
  by (simp add: gzip_laws_def plain_lib_def)

lemma plain_sort_laws: "sort_laws plain_lib"
proof -
  have "sorted (rev (map f (slice_stable (\<lambda>a b. f a > f b) xs)))" for f :: "job \<Rightarrow> int" and xs
    using sorted_slice_stable [of "\<lambda>x. - f x" xs] by (simp add: sorted_wrt_rev sorted_wrt_map)
  then show ?thesis by (simp add: sort_laws_def plain_lib_def mset_slice_stable sorted_slice_stable)
qed

lemma plain_owner_laws: "owner_laws plain_lib"
  by (auto simp: owner_laws_def plain_lib_def)

lemma plain_unstructured_laws: "unstructured_laws plain_lib"
  by (auto simp: unstructured_laws_def plain_lib_def)

lemmas plain_laws = plain_unstructured_laws plain_statefile_laws plain_owner_laws plain_sort_laws plain_condition_laws plain_finalizer_laws plain_merge_laws plain_uconditions_laws plain_gzip_laws

subsection \<open>Running programs\<close>

lemma wpre_calls [wpre_simps]:
  "wpre (call_obj q sel) Q = (\<forall>r. Q [(q, r)] (Returned (as_obj sel r)))"
  "wpre (call_list q sel') Q' = (\<forall>r. Q' [(q, r)] (Returned (as_list sel' r)))"
  "wpre (call_unit q) Q'' = (\<forall>r. Q'' [(q, r)] (Returned (as_unit r)))"
  "wpre (call_str q) Q3 = (\<forall>r. Q3 [(q, r)] (Returned (as_str r)))"
  "wpre (call_writer q) Q6 = (\<forall>r. Q6 [(q, r)] (Returned (as_writer r)))"
  "wpre call_now Q4 = (\<forall>r. Q4 [(Now, r)] (Returned (as_time r)))"
  "wpre (call_event x ty rs ms) Q5 = (\<forall>r. Q5 [(Event x ty rs ms, r)] (Returned ()))"
  by (simp_all add: call_obj_def call_list_def call_unit_def call_str_def call_writer_def call_now_def call_event_def)

lemma wpre_SetStatusCondition [wpre_simps]:
  "wpre (SetStatusCondition L cs c) Q =
     (\<forall>r. Q [(Now, r)] (Returned (L_SetStatusCondition L (as_time r) cs c)))"
  by (simp add: SetStatusCondition_def wpre_simps)

lemma only_calls [only_intros]:
  "P q \<Longrightarrow> only P (call_obj q sel)"
  "P q \<Longrightarrow> only P (call_list q sel')"
  "P q \<Longrightarrow> only P (call_unit q)"
  "P q \<Longrightarrow> only P (call_str q)"
  "P q \<Longrightarrow> only P (call_writer q)"
  "P Now \<Longrightarrow> only P call_now"
  "P (Event x ty rs ms) \<Longrightarrow> only P (call_event x ty rs ms)"
  by (simp_all add: call_obj_def call_list_def call_unit_def call_str_def call_writer_def call_now_def call_event_def
      only_intros)

lemma only_SetStatusCondition [only_intros]: "P Now \<Longrightarrow> only P (SetStatusCondition L cs c)"
  by (simp add: SetStatusCondition_def only_intros)

lemma only_range_map [only_intros]: "P (RangeOrder (map fst m)) \<Longrightarrow> only P (range_map m)"
  by (simp add: range_map_def only_intros)

lemma only_CreateOrUpdate [only_intros]:
  assumes "P (CreateOrUpdateFetch (mk obj))"
    and "\<And>x y. f x = Inr y \<Longrightarrow> P (CreateOrUpdateStore (mk y))"
  shows "only P (CreateOrUpdate sel mk obj f)"
  unfolding CreateOrUpdate_def Let_def using assms by (auto intro!: only_intros)

text \<open>
  A kind of object: how it is recognised among the API server's objects. A typed response is then a response with an
  object, or a list of objects, of that kind.
\<close>

locale api_kind =
  fixes sel :: "kobj \<Rightarrow> 'a option" and mk :: "'a \<Rightarrow> kobj"
  assumes sel_iff: "sel x = Some y \<longleftrightarrow> x = mk y"
begin

lemma sel_mk [simp]: "sel (mk y) = Some y"
  by (simp add: sel_iff)

lemma mk_inject [simp]: "mk y = mk z \<longleftrightarrow> y = z"
  by (metis sel_mk option.inject)

lemma as_obj_mk: "as_obj sel r = Inr y \<longleftrightarrow> r = RObj (mk y)"
  by (cases r) (auto simp: as_obj_def sel_iff split: option.splits)

lemma as_list_mk: "as_list sel r = Inr ys \<longleftrightarrow> r = RList (map mk ys)"
proof -
  have "those (map sel xs) = Some ys \<longleftrightarrow> xs = map mk ys" for xs
    by (induction xs arbitrary: ys) (auto simp: sel_iff split: option.splits)
  moreover have "those (map (sel \<circ> mk) ys) = Some ys" for ys
    by (induction ys) auto
  ultimately show ?thesis by (cases r) (auto simp: as_list_def split: option.splits)
qed

end

interpretation works: api_kind un_work OWork
  by unfold_locales (auto elim: un_work.elims)

interpretation placements: api_kind un_wp OWorkPlacement
  by unfold_locales (auto elim: un_wp.elims)

interpretation destinations: api_kind un_dest ODestination
  by unfold_locales (auto elim: un_dest.elims)

interpretation jobs: api_kind un_job OJob
  by unfold_locales (auto elim: un_job.elims)

interpretation buckets: api_kind un_bucket OBucketStateStore
  by unfold_locales (auto elim: un_bucket.elims)

interpretation gits: api_kind un_git OGitStateStore
  by unfold_locales (auto elim: un_git.elims)

interpretation secrets: api_kind un_secret OSecret
  by unfold_locales (auto elim: un_secret.elims)

interpretation role_kind: api_kind un_role ORole
  by unfold_locales (auto elim: un_role.elims)

interpretation role_binding_kind: api_kind un_rolebinding ORoleBinding
  by unfold_locales (auto elim: un_rolebinding.elims)

interpretation cluster_role_kind: api_kind un_clusterrole OClusterRole
  by unfold_locales (auto elim: un_clusterrole.elims)

interpretation cluster_role_binding_kind: api_kind un_clusterrolebinding OClusterRoleBinding
  by unfold_locales (auto elim: un_clusterrolebinding.elims)

interpretation service_accounts: api_kind un_sa OServiceAccount
  by unfold_locales (auto elim: un_sa.elims)

interpretation promises: api_kind un_promise OPromise
  by unfold_locales (auto elim: un_promise.elims)

interpretation releases: api_kind un_release OPromiseRelease
  by unfold_locales (auto elim: un_release.elims)

interpretation health_records: api_kind un_health OHealthRecord
  by unfold_locales (auto elim: un_health.elims)

interpretation crds: api_kind un_crd OCRD
  by unfold_locales (auto elim: un_crd.elims)

interpretation unstructureds: api_kind un_unstructured OUnstructured
  by unfold_locales (auto elim: un_unstructured.elims)

lemma range_map_result:
  "wpre (range_map m) (\<lambda>t oc. \<exists>m'. oc = Returned m' \<and> map fst t = [RangeOrder (map fst m)] \<and>
     (distinct (map fst m) \<longrightarrow> mset m' = mset m))"
  using mset_map_of_keys [of _ m] by (auto simp: range_map_def split: resp.splits)

lemma achieves_calls:
  "(\<And>r. C (q, r) \<Longrightarrow> achieves C f (k (as_list sel r)) (\<lambda>ys. P ((case f q of None \<Rightarrow> [] | Some y \<Rightarrow> [y]) @ ys))) \<Longrightarrow>
   achieves C f (bnd (call_list q sel) k) P"
  "(\<And>r. C (q, r) \<Longrightarrow> achieves C f (k' (as_obj sel' r)) (\<lambda>ys. P' ((case f q of None \<Rightarrow> [] | Some y \<Rightarrow> [y]) @ ys))) \<Longrightarrow>
   achieves C f (bnd (call_obj q sel') k') P'"
  "(\<And>r. C (q, r) \<Longrightarrow> achieves C f (k'' (as_unit r)) (\<lambda>ys. P'' ((case f q of None \<Rightarrow> [] | Some y \<Rightarrow> [y]) @ ys))) \<Longrightarrow>
   achieves C f (bnd (call_unit q) k'') P''"
  unfolding call_list_def call_obj_def call_unit_def by (simp_all add: achieves_Call)

lemma exec_bnd_calls:
  "exec (bnd (call_obj q sel) k) t oc \<longleftrightarrow> (\<exists>r t'. t = (q, r) # t' \<and> exec (k (as_obj sel r)) t' oc)"
  "exec (bnd (call_list q sel') k') t oc' \<longleftrightarrow> (\<exists>r t'. t = (q, r) # t' \<and> exec (k' (as_list sel' r)) t' oc')"
  "exec (bnd (call_unit q) k'') t oc'' \<longleftrightarrow> (\<exists>r t'. t = (q, r) # t' \<and> exec (k'' (as_unit r)) t' oc'')"
  "exec (bnd (call_str q) k3) t oc3 \<longleftrightarrow> (\<exists>r t'. t = (q, r) # t' \<and> exec (k3 (as_str r)) t' oc3)"
  "exec (bnd (call_writer q) k4) t oc4 \<longleftrightarrow> (\<exists>r t'. t = (q, r) # t' \<and> exec (k4 (as_writer r)) t' oc4)"
  "exec (bnd call_now k5) t oc5 \<longleftrightarrow> (\<exists>r t'. t = (Now, r) # t' \<and> exec (k5 (as_time r)) t' oc5)"
  "exec (bnd (call_event x ty rs ms) k6) t oc6 \<longleftrightarrow> (\<exists>r t'. t = (Event x ty rs ms, r) # t' \<and> exec (k6 ()) t' oc6)"
  by (auto simp: call_obj_def call_list_def call_unit_def call_str_def call_writer_def call_now_def call_event_def exec_Call_iff)

end
