(* ===== verification/ObjectUtil.thy ===== *)
theory ObjectUtil
  imports World
begin

text \<open>
  The leaf libraries: \<open>src/lib/objectutil/name.go\<close> (generated object names), \<open>src/lib/hash/hasher.go\<close>
  and \<open>src/lib/compression/compression.go\<close>.

  Go strings are byte strings, so \<open>len\<close> is the length of the character list, and indexing or slicing out
  of range panics. Standard Base64 is modelled in full; MD5 and gzip are parameters. The lemmas show that
  generated names are non-empty, end in a letter or digit and fit Kubernetes' 63 characters,
  exactly which names make the generator panic, and that decompression inverts compression.
\<close>

subsection \<open>Names\<close>

definition maxNameLength :: nat where "maxNameLength = 63 - 1 - 5"

definition isAlphanumeric :: "char \<Rightarrow> bool" where
  "isAlphanumeric c =
     (let n = of_char c :: nat
      in (97 \<le> n \<and> n \<le> 122) \<or> (65 \<le> n \<and> n \<le> 90) \<or> (48 \<le> n \<and> n \<le> 57))"

function trimName :: "string \<Rightarrow> ('q, 'r, string) prog" where
  "trimName name =
     (if name = [] then Panic ''index out of range [-1]''
      else if isAlphanumeric (last name) then Ret name
      else trimName (butlast name))"
  by pat_completeness auto
termination
  by (relation "measure length") auto

declare trimName.simps [simp del]

definition processName :: "string \<Rightarrow> ('q, 'r, string) prog" where
  "processName name =
     (let name = (if length name > maxNameLength then take (maxNameLength - 1) name else name)
      in trimName name)"

text \<open>\<open>s[0:n]\<close> of a string.\<close>

definition slice_to :: "string \<Rightarrow> nat \<Rightarrow> ('q, 'r, string) prog" where
  "slice_to s n = (if length s < n then Panic ''slice bounds out of range'' else Ret (take n s))"

definition GenerateObjectName :: "string \<Rightarrow> string go" where
  "GenerateObjectName name =
     bnd (processName name) (\<lambda>name.
     Call NewUUID (\<lambda>r.
     bnd (slice_to (case r of RStr u \<Rightarrow> u | _ \<Rightarrow> []) 5) (\<lambda>id5.
     Ret (name @ ''-'' @ id5))))"

subsection \<open>Hashes\<close>

definition ComputeHashForResource :: "lib \<Rightarrow> unstructured \<Rightarrow> err + string" where
  "ComputeHashForResource L u =
     (case L_MarshalJSON L (u_spec u) of Inl e \<Rightarrow> Inl e | Inr spec \<Rightarrow> Inr (L_md5hex L spec))"

definition ComputeHash :: "lib \<Rightarrow> string \<Rightarrow> string" where
  "ComputeHash L item = L_md5hex L item"

definition GenerateDeterministicObjectName :: "lib \<Rightarrow> string \<Rightarrow> ('q, 'r, string) prog" where
  "GenerateDeterministicObjectName L name =
     (let id = ComputeHash L name in
      bnd (processName name) (\<lambda>name.
      bnd (slice_to id 5) (\<lambda>id5.
      Ret (name @ ''-'' @ id5))))"

subsection \<open>Base64\<close>

definition b64_char :: "nat \<Rightarrow> char" where
  "b64_char i = char_of
     (if i < 26 then i + 65 else if i < 52 then i + 71 else if i < 62 then i - 4
      else if i = 62 then 43 else 47 :: nat)"

definition b64_val :: "char \<Rightarrow> nat option" where
  "b64_val c =
     (let n = of_char c :: nat in
      if 65 \<le> n \<and> n \<le> 90 then Some (n - 65)
      else if 97 \<le> n \<and> n \<le> 122 then Some (n - 71)
      else if 48 \<le> n \<and> n \<le> 57 then Some (n + 4)
      else if n = 43 then Some 62
      else if n = 47 then Some 63
      else None)"

fun b64_encode :: "string \<Rightarrow> string" where
  "b64_encode [] = []"
| "b64_encode [a] =
     (let n = of_char a * 65536 in
      [b64_char (n div 262144), b64_char (n div 4096 mod 64), CHR ''='', CHR ''=''])"
| "b64_encode [a, b] =
     (let n = of_char a * 65536 + of_char b * 256 in
      [b64_char (n div 262144), b64_char (n div 4096 mod 64), b64_char (n div 64 mod 64), CHR ''=''])"
| "b64_encode (a # b # c # xs) =
     (let n = of_char a * 65536 + of_char b * 256 + of_char c in
      b64_char (n div 262144) # b64_char (n div 4096 mod 64) # b64_char (n div 64 mod 64) #
      b64_char (n mod 64) # b64_encode xs)"

text \<open>
  Decoding takes four characters at a time, after the newline characters the decoder skips. Padding ends
  the input. The error does not carry the offset Go puts into its text.
\<close>

definition b64_error :: err where "b64_error = EStr ''illegal base64 data''"

fun b64_quads :: "string \<Rightarrow> err + string" where
  "b64_quads [] = Inr []"
| "b64_quads (a # b # c # d # xs) =
     (case (b64_val a, b64_val b) of
        (Some i, Some j) \<Rightarrow>
          if c = CHR ''='' then
            if d = CHR ''='' \<and> xs = [] then Inr [char_of ((i * 262144 + j * 4096) div 65536)]
            else Inl b64_error
          else (case b64_val c of
             None \<Rightarrow> Inl b64_error
           | Some k \<Rightarrow>
               if d = CHR ''='' then
                 if xs = [] then
                   (let n = i * 262144 + j * 4096 + k * 64
                    in Inr [char_of (n div 65536), char_of (n div 256 mod 256)])
                 else Inl b64_error
               else (case b64_val d of
                  None \<Rightarrow> Inl b64_error
                | Some l \<Rightarrow>
                    (case b64_quads xs of
                       Inl e \<Rightarrow> Inl e
                     | Inr ys \<Rightarrow>
                         (let n = i * 262144 + j * 4096 + k * 64 + l
                          in Inr (char_of (n div 65536) # char_of (n div 256 mod 256) #
                               char_of (n mod 256) # ys)))))
      | _ \<Rightarrow> Inl b64_error)"
| "b64_quads xs = Inl b64_error"

definition b64_decode :: "string \<Rightarrow> err + string" where
  "b64_decode s = b64_quads (filter (\<lambda>c. c \<noteq> CHR 0x0A \<and> c \<noteq> CHR 0x0D) s)"

subsection \<open>Compression\<close>

definition CompressContent :: "lib \<Rightarrow> string \<Rightarrow> err + string" where
  "CompressContent L content =
     (case L_gzip L content of Inl e \<Rightarrow> Inl e | Inr z \<Rightarrow> Inr (b64_encode z))"

definition DecompressContent :: "lib \<Rightarrow> string \<Rightarrow> err + string" where
  "DecompressContent L compressed =
     (case b64_decode compressed of Inl e \<Rightarrow> Inl e | Inr z \<Rightarrow> L_gunzip L z)"

definition InCompressedContents :: "lib \<Rightarrow> string \<Rightarrow> string \<Rightarrow> err + bool" where
  "InCompressedContents L compressed content =
     (case DecompressContent L compressed of
        Inl e \<Rightarrow> Inl (EWrap ''unable to decompress contents: '' e)
      | Inr s \<Rightarrow> Inr (sublist content s))"

subsection \<open>Generated names\<close>

text \<open>The trimming loop returns the longest prefix that ends in a letter or digit.\<close>

lemma trimName_result:
  "(trimName name :: ('q, 'r, string) prog) =
     (if filter isAlphanumeric name = [] then Panic ''index out of range [-1]''
      else Ret (rev (dropWhile (\<lambda>c. \<not> isAlphanumeric c) (rev name))))"
proof (induction name rule: trimName.induct)
  case (1 name)
  show ?case
  proof (cases name rule: rev_cases)
    case Nil
    then show ?thesis by (simp add: trimName.simps)
  next
    case (snoc xs c)
    show ?thesis
    proof (cases "isAlphanumeric c")
      case True
      with snoc show ?thesis by (simp add: trimName.simps [of "xs @ [c]"])
    next
      case False
      with snoc have "(trimName name :: ('q, 'r, string) prog) = trimName xs"
        by (simp add: trimName.simps [of "xs @ [c]"])
      moreover have "(trimName xs :: ('q, 'r, string) prog) =
          (if filter isAlphanumeric xs = [] then Panic ''index out of range [-1]''
           else Ret (rev (dropWhile (\<lambda>c. \<not> isAlphanumeric c) (rev xs))))"
        using "1.IH" False snoc by (simp split: if_splits)
      ultimately show ?thesis using snoc False by simp
    qed
  qed
qed

definition truncName :: "string \<Rightarrow> string" where
  "truncName name = (if length name > maxNameLength then take (maxNameLength - 1) name else name)"

lemma processName_result:
  "processName name =
     (if \<exists>c\<in>set (truncName name). isAlphanumeric c
      then Ret (rev (dropWhile (\<lambda>c. \<not> isAlphanumeric c) (rev (truncName name))))
      else Panic ''index out of range [-1]'')"
  by (auto simp: processName_def trimName_result truncName_def Let_def filter_empty_conv)

lemma dropWhile_rev_facts:
  assumes "\<exists>c\<in>set xs. P c"
  defines "ys \<equiv> rev (dropWhile (\<lambda>c. \<not> P c) (rev xs))"
  shows "ys \<noteq> []" and "P (last ys)" and "prefix ys xs" and "length ys \<le> length xs"
proof -
  have ne: "dropWhile (\<lambda>c. \<not> P c) (rev xs) \<noteq> []"
    using assms(1) by (simp add: dropWhile_eq_Nil_conv)
  then show "ys \<noteq> []" by (simp add: ys_def)
  show "P (last ys)"
    using hd_dropWhile [OF ne] ne by (simp add: ys_def last_rev)
  show pre: "prefix ys xs"
    unfolding ys_def by (metis rev_rev_ident suffix_dropWhile suffix_to_prefix)
  then show "length ys \<le> length xs" by (rule prefix_length_le)
qed

lemma truncName_length: "length (truncName name) \<le> maxNameLength"
  by (simp add: truncName_def maxNameLength_def)

lemma truncName_prefix: "prefix (truncName name) name"
  by (simp add: truncName_def take_is_prefix)

lemma processName_Ret:
  assumes "processName name = Ret n"
  shows "n \<noteq> []" "isAlphanumeric (last n)" "prefix n name" "length n \<le> maxNameLength"
proof -
  from assms have *: "\<exists>c\<in>set (truncName name). isAlphanumeric c"
    and n: "n = rev (dropWhile (\<lambda>c. \<not> isAlphanumeric c) (rev (truncName name)))"
    by (auto simp: processName_result split: if_splits)
  note facts = dropWhile_rev_facts [OF *, folded n]
  from facts(1,2) show "n \<noteq> []" "isAlphanumeric (last n)" .
  from facts(3) truncName_prefix show "prefix n name" by (rule prefix_order.trans)
  from facts(4) truncName_length show "length n \<le> maxNameLength" by (rule order_trans)
qed

subsection \<open>Base64 round trip\<close>

lemma of_char_bound: "(of_char c :: nat) < 256"
  using nat_of_char_less_256 [of c] by simp

lemma char_eq_of_char: "(c = d) \<longleftrightarrow> (of_char c :: nat) = of_char d"
  by (metis char_of_char)

lemma b64_val_char [simp]:
  assumes "i < 64"
  shows "b64_val (b64_char i) = Some i" "b64_char i \<noteq> CHR ''=''"
    "b64_char i \<noteq> CHR 0x0A" "b64_char i \<noteq> CHR 0x0D"
  using assms by (auto simp: b64_val_def b64_char_def char_eq_of_char Let_def)

lemma b64_quads_chars:
  assumes "i < 64" "j < 64" "k < 64" "l < 64"
  shows
    "b64_quads [b64_char i, b64_char j, CHR ''='', CHR ''=''] = Inr [char_of ((i * 262144 + j * 4096) div 65536)]"
    "b64_quads [b64_char i, b64_char j, b64_char k, CHR ''=''] =
       (let n = i * 262144 + j * 4096 + k * 64 in Inr [char_of (n div 65536), char_of (n div 256 mod 256)])"
    "b64_quads xs = Inr ys \<Longrightarrow> b64_quads (b64_char i # b64_char j # b64_char k # b64_char l # xs) =
       (let n = i * 262144 + j * 4096 + k * 64 + l
        in Inr (char_of (n div 65536) # char_of (n div 256 mod 256) # char_of (n mod 256) # ys))"
  using assms by simp_all

lemma digits64:
  "n div 262144 * 262144 + n div 4096 mod 64 * 4096 + n div 64 mod 64 * 64 + n mod 64 = (n :: nat)"
proof -
  have "n div 64 = n div 4096 * 64 + n div 64 mod 64"
    using div_mult_mod_eq [of "n div 64" 64] by (simp add: div_mult2_eq [symmetric])
  moreover have "n div 4096 = n div 262144 * 64 + n div 4096 mod 64"
    using div_mult_mod_eq [of "n div 4096" 64] by (simp add: div_mult2_eq [symmetric])
  ultimately show ?thesis using div_mult_mod_eq [of n 64] by linarith
qed

lemma digits256:
  assumes "a < 256" "b < 256" "c < (256 :: nat)"
  shows "(a * 65536 + b * 256 + c) div 65536 = a" "(a * 65536 + b * 256 + c) div 256 mod 256 = b"
    "(a * 65536 + b * 256 + c) mod 256 = c" "(a * 65536 + b * 256 + c) div 262144 < 64"
proof -
  let ?n = "a * 65536 + b * 256 + c"
  have n: "?n = (a * 256 + b) * 256 + c" by simp
  have h: "?n div 256 = a * 256 + b" unfolding n using assms(3) by simp
  have "?n div 65536 = ?n div 256 div 256" by (simp add: div_mult2_eq [symmetric])
  with h assms(2) show "?n div 65536 = a" by simp
  from h assms(2) show "?n div 256 mod 256 = b" by simp
  show "?n mod 256 = c" using div_mult_mod_eq [of ?n 256] h by linarith
  have "?n < 16777216" using assms by simp
  then show "?n div 262144 < 64" by (simp add: less_mult_imp_div_less)
qed

lemma b64_quads_encode: "b64_quads (b64_encode xs) = Inr xs"
proof (induction xs rule: b64_encode.induct)
  case 1
  show ?case by simp
next
  case (2 a)
  let ?n = "of_char a * 65536 :: nat"
  note d = digits256 [OF of_char_bound [of a], of 0 0, simplified]
  have "?n div 262144 * 262144 + ?n div 4096 mod 64 * 4096 = ?n"
    using digits64 [of ?n] by simp
  with d show ?case
    using b64_quads_chars(1) [of "?n div 262144" "?n div 4096 mod 64" 0 0]
    by (simp only: b64_encode.simps Let_def) simp
next
  case (3 a b)
  let ?n = "of_char a * 65536 + of_char b * 256 :: nat"
  note d = digits256 [OF of_char_bound [of a] of_char_bound [of b], of 0, simplified]
  have "?n mod 64 = 0" by simp
  then have "?n div 262144 * 262144 + ?n div 4096 mod 64 * 4096 + ?n div 64 mod 64 * 64 = ?n"
    using digits64 [of ?n] by linarith
  with d show ?case
    using b64_quads_chars(2) [of "?n div 262144" "?n div 4096 mod 64" "?n div 64 mod 64" 0]
    by (simp only: b64_encode.simps Let_def) simp
next
  case (4 a b c xs)
  let ?n = "of_char a * 65536 + of_char b * 256 + of_char c :: nat"
  note d = digits256 [OF of_char_bound [of a] of_char_bound [of b] of_char_bound [of c]]
  have "b64_quads (b64_encode (a # b # c # xs)) =
      Inr (char_of (?n div 65536) # char_of (?n div 256 mod 256) # char_of (?n mod 256) # xs)"
    using b64_quads_chars(3) [OF d(4) _ _ _ 4, of "?n div 4096 mod 64" "?n div 64 mod 64" "?n mod 64"]
    by (simp only: b64_encode.simps Let_def digits64 mod_less_divisor zero_less_numeral)
  then show ?case by (simp only: d) simp
qed

lemma b64_decode_encode: "b64_decode (b64_encode xs) = Inr xs"
proof -
  have "filter (\<lambda>c. c \<noteq> CHR 0x0A \<and> c \<noteq> CHR 0x0D) (b64_encode xs) = b64_encode xs"
  proof (induction xs rule: b64_encode.induct)
    case (2 a)
    then show ?case using of_char_bound [of a]
      by (simp add: Let_def less_mult_imp_div_less)
  next
    case (3 a b)
    then show ?case using digits256(4) [OF of_char_bound [of a] of_char_bound [of b], of 0]
      by (simp add: Let_def)
  next
    case (4 a b c xs)
    then show ?case using digits256(4) [OF of_char_bound [of a] of_char_bound [of b] of_char_bound [of c]]
      by (simp add: Let_def)
  qed simp
  then show ?thesis by (simp add: b64_decode_def b64_quads_encode)
qed

subsection \<open>Properties\<close>

text \<open>
  C37. A generated object name is a prefix of the requested name that ends in a letter or digit, a
  dash, and the first five characters of a fresh UUID; it has at most 63 characters, Kubernetes'
  limit for label values and most names. If no UUID shorter than five characters is ever drawn, the only
  way to fail is a requested name with no letter or digit among its first 56 (or, if it has at most 57,
  all of its) characters, on which the function panics.
\<close>

theorem GenerateObjectName_spec:
  assumes "exec (GenerateObjectName name) t oc"
  shows "case oc of
      Returned n \<Rightarrow> (\<exists>b u. t = [(NewUUID, RStr u)] \<and> n = b @ ''-'' @ take 5 u \<and> prefix b name \<and> b \<noteq> [] \<and>
        isAlphanumeric (last b) \<and> 5 \<le> length u \<and> length n \<le> 63)
    | Panicked m \<Rightarrow> (\<forall>c\<in>set (truncName name). \<not> isAlphanumeric c) \<or>
        (\<exists>r. t = [(NewUUID, r)] \<and> length (case r of RStr u \<Rightarrow> u | _ \<Rightarrow> []) < 5)"
proof (cases "processName name :: string go")
  case (Ret b)
  note facts = processName_Ret [OF Ret]
  have "wpre (GenerateObjectName name) (\<lambda>t oc. case oc of
      Returned n \<Rightarrow> (\<exists>b u. t = [(NewUUID, RStr u)] \<and> n = b @ ''-'' @ take 5 u \<and> prefix b name \<and> b \<noteq> [] \<and>
        isAlphanumeric (last b) \<and> 5 \<le> length u \<and> length n \<le> 63)
    | Panicked m \<Rightarrow> (\<forall>c\<in>set (truncName name). \<not> isAlphanumeric c) \<or>
        (\<exists>r. t = [(NewUUID, r)] \<and> length (case r of RStr u \<Rightarrow> u | _ \<Rightarrow> []) < 5))"
    using facts by (auto simp: GenerateObjectName_def Ret slice_to_def maxNameLength_def wpre_simps
        split: resp.splits)
  from wpreD [OF assms this] show ?thesis .
qed (use assms in \<open>auto simp: GenerateObjectName_def processName_result exec_Panic_iff split: if_splits\<close>)

theorem GenerateObjectName_spec_witness:
  "exec (GenerateObjectName ''kratix-redis-'') [(NewUUID, RStr ''0a1b2c3d'')] (Returned ''kratix-redis-0a1b2'') \<and>
   length ''kratix-redis-0a1b2'' \<le> 63"
proof -
  have "processName ''kratix-redis-'' = (Ret ''kratix-redis'' :: string go)"
    by (simp add: processName_def maxNameLength_def trimName.simps isAlphanumeric_def)
  then have e: "exec (GenerateObjectName ''kratix-redis-'') [(NewUUID, RStr ''0a1b2c3d'')]
      (Returned ''kratix-redis-0a1b2'')"
    by (intro script_exec [where rs = "[RStr ''0a1b2c3d'']"])
      (simp add: GenerateObjectName_def slice_to_def)
  with GenerateObjectName_spec [OF e] show ?thesis by simp
qed

text \<open>
  C36. Decompressing what \<open>CompressContent\<close> made of a workload's bytes gives these bytes back (the Base64 layer
  is modelled in full, gzip enters by its law).
\<close>

theorem Decompress_Compress:
  assumes "gzip_laws L"
  shows "\<exists>z. CompressContent L content = Inr z \<and> DecompressContent L z = Inr content"
proof -
  from assms obtain z where "L_gzip L content = Inr z" "L_gunzip L z = Inr content"
    unfolding gzip_laws_def by blast
  then show ?thesis
    by (simp add: CompressContent_def DecompressContent_def b64_decode_encode)
qed

theorem Decompress_Compress_witness:
  "gzip_laws plain_lib \<and> (\<exists>z. CompressContent plain_lib ''kind: Namespace'' = Inr z \<and>
     DecompressContent plain_lib z = Inr ''kind: Namespace'')"
  using plain_gzip_laws Decompress_Compress [OF plain_gzip_laws, of "''kind: Namespace''"] by simp

end
