(* ===== verification/ResourceUtil.thy ===== *)
theory ResourceUtil
  imports ObjectUtil "HOL-Library.List_Lexorder" "HOL-Library.Char_ord"
begin

text \<open>
  \<open>src/lib/resourceutil\<close>: status fields and conditions of unstructured objects (\<open>util.go\<close>,
  \<open>conditions.go\<close>), finalizer tests (\<open>finalizer.go\<close>), and the lookup of the works of a promise or
  resource (\<open>work.go\<close>).

  A status of an unstructured object is a JSON value; a type assertion (\<open>x.(string)\<close>) on a
  value of another type panics, and so does the model. The conditions are read and written by the cluster-api
  package, a parameter. Logging is left out.
\<close>

subsection \<open>Constants\<close>

definition ConfigureWorkflowCompletedCondition :: string where
  [consts_defs]: "ConfigureWorkflowCompletedCondition = ''ConfigureWorkflowCompleted''"
definition ConfigureWorkflowCompletedFailedReason :: string where
  [consts_defs]: "ConfigureWorkflowCompletedFailedReason = ''ConfigureWorkflowFailed''"
definition DeleteWorkflowCompletedCondition :: string where
  [consts_defs]: "DeleteWorkflowCompletedCondition = ''DeleteWorkflowCompleted''"
definition DeleteWorkflowCompletedFailedReason :: string where
  [consts_defs]: "DeleteWorkflowCompletedFailedReason = ''DeleteWorkflowFailed''"
definition ManualReconciliationLabel :: string where
  [consts_defs]: "ManualReconciliationLabel = ''kratix.io/manual-reconciliation''"
definition ReconcileResourcesLabel :: string where
  [consts_defs]: "ReconcileResourcesLabel = ''kratix.io/reconcile-resources''"
definition promiseAvailableCondition :: string where
  [consts_defs]: "promiseAvailableCondition = ''PromiseAvailable''"
definition WorksSucceededCondition :: string where
  [consts_defs]: "WorksSucceededCondition = ''WorksSucceeded''"
definition ReconciledCondition :: string where
  [consts_defs]: "ReconciledCondition = ''Reconciled''"
definition pausedReconciliationReason :: string where
  [consts_defs]: "pausedReconciliationReason = ''PausedReconciliation''"

subsection \<open>Finalizers\<close>

definition FinalizersAreMissing :: "lib \<Rightarrow> string list \<Rightarrow> string list \<Rightarrow> bool" where
  "FinalizersAreMissing L resource finalizers =
     list_ex (\<lambda>f. \<not> L_ContainsFinalizer L resource f) finalizers"

definition DoesNotContainFinalizer :: "lib \<Rightarrow> string list \<Rightarrow> string \<Rightarrow> bool" where
  "DoesNotContainFinalizer L resource finalizer = (\<not> L_ContainsFinalizer L resource finalizer)"

definition FinalizersAreDeleted :: "lib \<Rightarrow> string list \<Rightarrow> string list \<Rightarrow> bool" where
  "FinalizersAreDeleted L resource finalizers =
     (\<not> list_ex (\<lambda>f. L_ContainsFinalizer L resource f) finalizers)"

subsection \<open>Conditions\<close>

definition GetCondition :: "lib \<Rightarrow> unstructured \<Rightarrow> string \<Rightarrow> condition option" where
  "GetCondition L obj ty = L_ConditionsGet L obj ty"

definition HasCondition :: "lib \<Rightarrow> unstructured \<Rightarrow> string \<Rightarrow> bool" where
  "HasCondition L obj ty = (GetCondition L obj ty \<noteq> None)"

definition SetCondition :: "lib \<Rightarrow> unstructured \<Rightarrow> condition \<Rightarrow> unstructured" where
  "SetCondition L obj c = L_ConditionsSet L obj c"

definition GetConfigureWorkflowCompletedConditionStatus :: "lib \<Rightarrow> unstructured \<Rightarrow> string" where
  "GetConfigureWorkflowCompletedConditionStatus L obj =
     (case GetCondition L obj ConfigureWorkflowCompletedCondition of
        None \<Rightarrow> ConditionUnknown | Some c \<Rightarrow> c_Status c)"

text \<open>Each of the \<open>Mark\<close> functions stamps a condition with the current time and sets it.\<close>

definition mark :: "lib \<Rightarrow> unstructured \<Rightarrow> string \<Rightarrow> string \<Rightarrow> string \<Rightarrow> string \<Rightarrow> unstructured go" where
  "mark L obj ty status message reason =
     bnd call_now (\<lambda>now. Ret (SetCondition L obj
       \<lparr>c_Type = ty, c_Status = status, c_Reason = reason, c_Message = message, c_LastTransitionTime = now\<rparr>))"

definition MarkConfigureWorkflowAsRunning :: "lib \<Rightarrow> unstructured \<Rightarrow> unstructured go" where
  "MarkConfigureWorkflowAsRunning L obj =
     mark L obj ConfigureWorkflowCompletedCondition ConditionFalse
       ''Pipelines are still in progress'' ''PipelinesInProgress''"

definition MarkConfigureWorkflowAsFailed :: "lib \<Rightarrow> unstructured \<Rightarrow> string \<Rightarrow> unstructured go" where
  "MarkConfigureWorkflowAsFailed L obj failedPipeline =
     mark L obj ConfigureWorkflowCompletedCondition ConditionFalse
       (''A Configure Pipeline has failed: '' @ failedPipeline) ConfigureWorkflowCompletedFailedReason"

definition MarkResourceRequestAsWorksFailed :: "lib \<Rightarrow> unstructured \<Rightarrow> string list \<Rightarrow> unstructured go" where
  "MarkResourceRequestAsWorksFailed L obj works =
     mark L obj WorksSucceededCondition ConditionFalse
       (''Some works associated with this resource failed: ['' @ join works '','' @ '']'') ''WorksFailing''"

definition MarkResourceRequestAsWorksMisplaced :: "lib \<Rightarrow> unstructured \<Rightarrow> string list \<Rightarrow> unstructured go" where
  "MarkResourceRequestAsWorksMisplaced L obj works =
     mark L obj WorksSucceededCondition ConditionFalse
       (''Some works associated with this resource are misplaced: ['' @ join works '','' @ '']'') ''WorksMisplaced''"

definition MarkResourceRequestAsWorksPending :: "lib \<Rightarrow> unstructured \<Rightarrow> string list \<Rightarrow> unstructured go" where
  "MarkResourceRequestAsWorksPending L obj works =
     mark L obj WorksSucceededCondition ConditionUnknown
       (''Some works associated with this resource are not ready: ['' @ join works '','' @ '']'') ''WorksPending''"

definition MarkResourceRequestAsWorksSucceeded :: "lib \<Rightarrow> unstructured \<Rightarrow> unstructured go" where
  "MarkResourceRequestAsWorksSucceeded L obj =
     mark L obj WorksSucceededCondition ConditionTrue
       ''All works associated with this resource are ready'' ''WorksSucceeded''"

definition MarkReconciledPending :: "lib \<Rightarrow> unstructured \<Rightarrow> string \<Rightarrow> unstructured go" where
  "MarkReconciledPending L obj reason =
     mark L obj ReconciledCondition ConditionUnknown ''Pending'' reason"

definition MarkReconciledFailing :: "lib \<Rightarrow> unstructured \<Rightarrow> string \<Rightarrow> unstructured go" where
  "MarkReconciledFailing L obj reason =
     mark L obj ReconciledCondition ConditionFalse ''Failing'' reason"

definition MarkReconciledTrue :: "lib \<Rightarrow> unstructured \<Rightarrow> unstructured go" where
  "MarkReconciledTrue L obj =
     mark L obj ReconciledCondition ConditionTrue ''Reconciled'' ''Reconciled''"

definition MarkReconciledPaused :: "lib \<Rightarrow> unstructured \<Rightarrow> unstructured go" where
  "MarkReconciledPaused L obj =
     mark L obj ReconciledCondition ConditionUnknown ''Paused'' pausedReconciliationReason"

definition MarkDeleteWorkflowAsFailed :: "lib \<Rightarrow> unstructured \<Rightarrow> unstructured go" where
  "MarkDeleteWorkflowAsFailed L obj =
     mark L obj DeleteWorkflowCompletedCondition ConditionFalse
       ''The Delete Pipeline has failed'' DeleteWorkflowCompletedFailedReason"

lemmas mark_defs = MarkConfigureWorkflowAsRunning_def MarkConfigureWorkflowAsFailed_def
  MarkResourceRequestAsWorksFailed_def MarkResourceRequestAsWorksMisplaced_def
  MarkResourceRequestAsWorksPending_def MarkResourceRequestAsWorksSucceeded_def
  MarkReconciledPending_def MarkReconciledFailing_def MarkReconciledTrue_def MarkReconciledPaused_def
  MarkDeleteWorkflowAsFailed_def

subsection \<open>Status fields\<close>

text \<open>Writing a key of a JSON object: the entry is replaced, or added when there is none.\<close>

fun json_update :: "string \<Rightarrow> json \<Rightarrow> (string \<times> json) list \<Rightarrow> (string \<times> json) list" where
  "json_update k v [] = [(k, v)]"
| "json_update k v ((k', v') # fs) = (if k = k' then (k, v) # fs else (k', v') # json_update k v fs)"

text \<open>\<open>Object["status"] == nil\<close>: the key is missing or holds a null.\<close>

definition status_nil :: "unstructured \<Rightarrow> bool" where
  "status_nil rr = (u_status rr = None \<or> u_status rr = Some JNull)"

definition status_map :: "unstructured \<Rightarrow> ('q, 'r, (string \<times> json) list) prog" where
  "status_map rr =
     (case u_status rr of
        Some (JObj fs) \<Rightarrow> Ret fs
      | _ \<Rightarrow> Panic ''interface conversion: interface {} is not map[string]interface {}'')"

text \<open>A key that is not a string is skipped; the values come in pairs, checked before the loop.\<close>

fun set_pairs :: "(string \<times> json) list \<Rightarrow> json list \<Rightarrow> (string \<times> json) list" where
  "set_pairs fs (JStr k # v # rest) = set_pairs (json_update k v fs) rest"
| "set_pairs fs (k # v # rest) = set_pairs fs rest"
| "set_pairs fs rest = fs"

definition SetStatus :: "unstructured \<Rightarrow> json list \<Rightarrow> ('q, 'r, unstructured) prog" where
  "SetStatus rr statuses =
     (if length statuses = 0 then Ret rr
      else if length statuses mod 2 \<noteq> 0 then Ret rr
      else
        (let rr = (if status_nil rr then rr\<lparr>u_status := Some (JObj [])\<rparr> else rr) in
         bnd (status_map rr) (\<lambda>nestedMap.
           let nestedMap = set_pairs nestedMap statuses in
           if length nestedMap = 0 then Ret (rr\<lparr>u_status := None\<rparr>)
           else Ret (rr\<lparr>u_status := Some (JObj nestedMap)\<rparr>))))"

definition GetStatus :: "unstructured \<Rightarrow> string \<Rightarrow> ('q, 'r, string) prog" where
  "GetStatus rr key =
     (if status_nil rr then Ret []
      else bnd (status_map rr) (\<lambda>nestedMap.
        case map_of nestedMap key of
          None \<Rightarrow> Ret []
        | Some JNull \<Rightarrow> Ret []
        | Some (JStr s) \<Rightarrow> Ret s
        | Some _ \<Rightarrow> Panic ''interface conversion: interface {} is not string''))"

text \<open>Conversion of a float to an integer drops its fraction.\<close>

definition trunc_rat :: "rat \<Rightarrow> int" where
  "trunc_rat x = (if x < 0 then \<lceil>x\<rceil> else \<lfloor>x\<rfloor>)"

definition GetWorkflowsCounterStatus :: "unstructured \<Rightarrow> string \<Rightarrow> ('q, 'r, int) prog" where
  "GetWorkflowsCounterStatus rr key =
     (if status_nil rr then Ret (- 1)
      else bnd (status_map rr) (\<lambda>nestedMap.
        case map_of nestedMap key of
          Some (JFloat x) \<Rightarrow> Ret (trunc_rat x)
        | Some (JInt i) \<Rightarrow> Ret i
        | _ \<Rightarrow> Ret (- 1)))"

definition GetObservedGeneration :: "unstructured \<Rightarrow> ('q, 'r, int) prog" where
  "GetObservedGeneration rr =
     (if status_nil rr then Ret 0
      else bnd (status_map rr) (\<lambda>nestedMap.
        case map_of nestedMap ''observedGeneration'' of
          None \<Rightarrow> Ret 0
        | Some JNull \<Rightarrow> Ret 0
        | Some (JInt i) \<Rightarrow> Ret i
        | Some _ \<Rightarrow> Panic ''interface conversion: interface {} is not int64''))"

definition GetResourceNames :: "unstructured list \<Rightarrow> string list" where
  "GetResourceNames items =
     map (\<lambda>item. if m_Namespace (u_meta item) \<noteq> []
                 then m_Namespace (u_meta item) @ ''/'' @ m_Name (u_meta item)
                 else m_Name (u_meta item)) items"

definition MarkPromiseConditionAsNotAvailable :: "lib \<Rightarrow> unstructured \<Rightarrow> unstructured go" where
  "MarkPromiseConditionAsNotAvailable L obj =
     bnd (SetStatus obj [JStr ''message'', JStr ''Pending'']) (\<lambda>obj.
     mark L obj promiseAvailableCondition ConditionFalse
       ''Promise Requirements are not installed'' ''PromiseRequirementsNotInstalled'')"

definition MarkPromiseConditionAsAvailable :: "lib \<Rightarrow> unstructured \<Rightarrow> unstructured go" where
  "MarkPromiseConditionAsAvailable L obj =
     mark L obj promiseAvailableCondition ConditionTrue ''Promise Requirements are met'' ''PromiseAvailable''"

definition IsPromiseMarkedAsUnavailable :: "lib \<Rightarrow> unstructured \<Rightarrow> bool" where
  "IsPromiseMarkedAsUnavailable L obj =
     (case GetCondition L obj promiseAvailableCondition of
        None \<Rightarrow> False | Some c \<Rightarrow> c_Status c = ConditionFalse)"

subsection \<open>Jobs\<close>

definition created :: "job \<Rightarrow> time" where
  "created j = m_CreationTimestamp (j_meta j)"

definition SortJobsByCreationDateTime :: "lib \<Rightarrow> job list \<Rightarrow> bool \<Rightarrow> job list" where
  "SortJobsByCreationDateTime L jobs desc =
     (if desc then L_SortSlice L (\<lambda>a b. created a < created b) jobs
      else L_SortSlice L (\<lambda>a b. created a > created b) jobs)"

definition PipelineWithDesiredSpecExists :: "lib \<Rightarrow> unstructured \<Rightarrow> job list \<Rightarrow> err + job option" where
  "PipelineWithDesiredSpecExists L obj jobs =
     (if jobs = [] then Inr None
      else
        (let jobs = SortJobsByCreationDateTime L jobs True;
             mostRecentJob = last jobs;
             mostRecentHash = lget (m_Labels (j_meta mostRecentJob)) KratixResourceHashLabel
         in case ComputeHashForResource L obj of
              Inl e \<Rightarrow> Inl e
            | Inr currentRequestHash \<Rightarrow>
                if mostRecentHash = currentRequestHash then Inr (Some mostRecentJob) else Inr None))"

definition hasCondition :: "job \<Rightarrow> string \<Rightarrow> string \<Rightarrow> bool" where
  "hasCondition j ty st = list_ex (\<lambda>c. jc_Type c = ty \<and> jc_Status c = st) (j_Conditions j)"

definition IsThereAPipelineRunning :: "job list \<Rightarrow> bool" where
  "IsThereAPipelineRunning jobs =
     list_ex (\<lambda>j. j_Conditions j = [] \<or>
       \<not> (hasCondition j JobComplete ConditionTrue \<or> hasCondition j JobSuspended ConditionTrue \<or>
          hasCondition j JobFailed ConditionTrue)) jobs"

definition SuspendablePipelines :: "job list \<Rightarrow> job list" where
  "SuspendablePipelines jobs =
     filter (\<lambda>j. j_Suspend j \<noteq> Some True \<and> j_Active j = 0) jobs"

subsection \<open>Works\<close>

definition GetWorkLabels :: "string \<Rightarrow> string \<Rightarrow> string \<Rightarrow> string \<Rightarrow> labels" where
  "GetWorkLabels promiseName resourceName pipelineName workType =
     (let l = fmupd WorkTypeLabel workType (fmupd PromiseNameLabel promiseName fmempty);
          l = (if pipelineName \<noteq> [] then fmupd PipelineNameLabel pipelineName l else l)
      in if resourceName \<noteq> [] then fmupd ResourceNameLabel resourceName l else l)"

definition getExistingWorks :: "lib \<Rightarrow> string \<Rightarrow> labels \<Rightarrow> (err + Work list) go" where
  "getExistingWorks L ns workLabels =
     (case L_ParseSelector L (L_FormatLabels L workLabels) of
        Inl e \<Rightarrow> Ret (Inl e)
      | Inr selector \<Rightarrow> call_list (ListObjs KWork ns (Some selector)) un_work)"

definition GetAllWorksForResource :: "lib \<Rightarrow> string \<Rightarrow> string \<Rightarrow> string \<Rightarrow> (err + Work list) go" where
  "GetAllWorksForResource L ns promiseName resourceName =
     getExistingWorks L ns (fmupd ResourceNameLabel resourceName (fmupd PromiseNameLabel promiseName fmempty))"

definition GetWorksByType :: "lib \<Rightarrow> string \<Rightarrow> unstructured \<Rightarrow> (err + Work list) go" where
  "GetWorksByType L workflowType obj =
     (let ns = (if m_Namespace (u_meta obj) = [] then SystemNamespace else m_Namespace (u_meta obj));
          l = fmupd WorkTypeLabel workflowType fmempty
      in if workflowType = WorkflowTypeResource
         then getExistingWorks L ns
                (fmupd PromiseNameLabel (lget (m_Labels (u_meta obj)) PromiseNameLabel)
                  (fmupd ResourceNameLabel (m_Name (u_meta obj)) l))
         else getExistingWorks L ns (fmupd PromiseNameLabel (m_Name (u_meta obj)) l))"

text \<open>\<open>fmt\<close> prints a map with its keys in ascending order.\<close>

definition quoted_labels :: "labels \<Rightarrow> string" where
  "quoted_labels labels =
     ''map['' @ join (map (\<lambda>(k, v). quoted k @ '':'' @ quoted v) (sorted_list_of_fmap labels)) '' '' @ '']''"

definition more_than_one_work :: "labels \<Rightarrow> err" where
  "more_than_one_work labels =
     EStr (''more than 1 work exist with the matching labels: '' @ quoted_labels labels @ ''. Unable to update'')"

definition GetWork :: "lib \<Rightarrow> string \<Rightarrow> labels \<Rightarrow> (err + Work option) go" where
  "GetWork L ns labels =
     bnd (getExistingWorks L ns labels) (\<lambda>r.
     case r of
       Inl e \<Rightarrow> Ret (Inl e)
     | Inr works \<Rightarrow>
         if length works > 1 then Ret (Inl (more_than_one_work labels))
         else (case works of [] \<Rightarrow> Ret (Inr None) | w # _ \<Rightarrow> Ret (Inr (Some w))))"

subsection \<open>Lemmas\<close>

lemma wpre_mark [wpre_simps]:
  "wpre (mark L obj ty st ms rs) Q =
     (\<forall>r. Q [(Now, r)] (Returned (SetCondition L obj
        \<lparr>c_Type = ty, c_Status = st, c_Reason = rs, c_Message = ms, c_LastTransitionTime = as_time r\<rparr>)))"
  by (simp add: mark_def wpre_simps)

lemma map_of_json_update [simp]: "map_of (json_update k v fs) k' = (if k = k' then Some v else map_of fs k')"
  by (induction fs rule: json_update.induct) auto

lemma json_update_not_Nil [simp]: "json_update k v fs \<noteq> []"
  by (cases "(k, v, fs)" rule: json_update.cases) auto

lemma GetCondition_SetCondition:
  assumes "uconditions_laws L"
  shows "\<exists>d. GetCondition L (SetCondition L u c) (c_Type c) = Some d \<and> same_condition d c"
    and "ty \<noteq> c_Type c \<Longrightarrow> GetCondition L (SetCondition L u c) ty = GetCondition L u ty"
  using assms unfolding uconditions_laws_def GetCondition_def SetCondition_def by blast+

text \<open>A status whose value is an object, or missing: what the API server admits for the resources here.\<close>

definition status_ok :: "unstructured \<Rightarrow> bool" where
  "status_ok u = (case u_status u of None \<Rightarrow> True | Some JNull \<Rightarrow> True | Some (JObj fs) \<Rightarrow> True | _ \<Rightarrow> False)"

definition status_fields :: "unstructured \<Rightarrow> (string \<times> json) list" where
  "status_fields u = (case u_status u of Some (JObj fs) \<Rightarrow> fs | _ \<Rightarrow> [])"

lemma SetStatus_one:
  assumes "status_ok rr"
  shows "SetStatus rr [JStr k, v] = Ret (rr\<lparr>u_status := Some (JObj (json_update k v (status_fields rr)))\<rparr>)"
proof (cases "status_nil rr")
  case True
  then have "status_fields rr = []" by (auto simp: status_nil_def status_fields_def)
  with True show ?thesis by (simp add: SetStatus_def status_map_def Let_def)
next
  case False
  with assms obtain fs where "u_status rr = Some (JObj fs)"
    by (auto simp: status_ok_def status_nil_def split: option.splits json.splits)
  with False show ?thesis by (simp add: SetStatus_def status_map_def status_fields_def Let_def)
qed

end
