(* ===== verification/Examples.thy ===== *)
theory Examples
  imports World
begin

text \<open>
  Concrete objects for the witnesses of the properties: a Work with one workload group, a placement of it, a
  destination. No model of the program uses them.
\<close>

definition ex_meta :: "string \<Rightarrow> object_meta" where
  "ex_meta n = empty_meta\<lparr>m_Name := n, m_Namespace := ''default'', m_UID := ''u''\<rparr>"

definition ex_group :: WorkloadGroup where
  "ex_group = \<lparr>wg_Workloads = [\<lparr>Filepath = ''a.yaml'', Content = ''zip''\<rparr>], wg_Directory = ''.'',
     wg_ID = ''5058f1af8388633f609cadb75a75dc9d'', wg_DestinationSelectors = []\<rparr>"

definition ex_work :: "string \<Rightarrow> Work" where
  "ex_work rr = \<lparr>w_meta = ex_meta ''work'',
     w_Spec = \<lparr>ws_WorkloadGroups = [ex_group], ws_PromiseName = ''redis'', ws_ResourceName = rr\<rparr>,
     w_Status = \<lparr>wst_Conditions = [], wst_WorkPlacements = 0, wst_WorkPlacementsCreated = 0\<rparr>\<rparr>"

definition ex_destination :: "string \<Rightarrow> Destination" where
  "ex_destination n = \<lparr>d_meta = ex_meta n, d_Path = ''p'',
     d_StateStoreRef = Some \<lparr>ssr_Kind = ''BucketStateStore'', ssr_Name = ''store''\<rparr>,
     d_StrictMatchLabels = False, d_FilepathMode = ''nestedByMetadata'', d_FilepathFilename = [],
     d_Cleanup = ''none'', d_InitWorkloadsEnabled = True, d_Conditions = []\<rparr>"

definition ex_placement :: "string \<Rightarrow> string \<Rightarrow> WorkPlacement" where
  "ex_placement n dest = \<lparr>wp_meta = ex_meta n,
     wp_Spec = \<lparr>wps_TargetDestinationName = dest, wps_Workloads = [], wps_PromiseName = ''redis'',
        wps_ResourceName = ''rr'', wps_ID = ''5058f1af8388633f609cadb75a75dc9d''\<rparr>,
     wp_Status = \<lparr>wpst_Conditions = [], wpst_VersionID = []\<rparr>\<rparr>"

lemmas ex_defs = ex_meta_def ex_group_def ex_work_def ex_destination_def ex_placement_def empty_meta_def

text \<open>Evaluation of requests and their responses.\<close>

lemmas call_defs = call_obj_def call_list_def call_unit_def call_str_def call_writer_def call_now_def call_event_def
  as_obj_def as_list_def as_unit_def as_str_def as_writer_def as_time_def SetStatusCondition_def range_map_def
  CreateOrUpdate_def decode_error_def

end
