(* ===== verification/PipelineFactory.thy ===== *)
theory PipelineFactory
  imports ObjectUtil Examples
begin

text \<open>
  \<open>src/api/v1alpha1/pipeline_factory.go\<close>, the operations of \<open>pipeline_types.go\<close> and of
  \<open>promise_types.go\<close>: from a promise's workflows to the Kubernetes objects of each of their pipelines (a job,
  its service account, config map, roles and bindings).

  The package variables that \<open>main\<close> sets are the record \<open>PipelineDefaults\<close>. Ranging over the permissions'
  namespaces is in the order of the runtime (\<open>range_map\<close>); environment variables and
  UUIDs are requests. A pointer that may be nil is an \<open>option\<close>, and reading through a nil one panics.
\<close>

subsection \<open>Constants\<close>

definition kratixActionEnvVar :: string where [consts_defs]: "kratixActionEnvVar = ''KRATIX_WORKFLOW_ACTION''"
definition kratixTypeEnvVar :: string where [consts_defs]: "kratixTypeEnvVar = ''KRATIX_WORKFLOW_TYPE''"
definition KratixPromiseNameEnvVar :: string where [consts_defs]: "KratixPromiseNameEnvVar = ''KRATIX_PROMISE_NAME''"
definition kratixPipelineNameEnvVar :: string where [consts_defs]: "kratixPipelineNameEnvVar = ''KRATIX_PIPELINE_NAME''"
definition KratixObjectKindEnvVar :: string where [consts_defs]: "KratixObjectKindEnvVar = ''KRATIX_OBJECT_KIND''"
definition KratixObjectGroupEnvVar :: string where [consts_defs]: "KratixObjectGroupEnvVar = ''KRATIX_OBJECT_GROUP''"
definition KratixObjectVersionEnvVar :: string where [consts_defs]: "KratixObjectVersionEnvVar = ''KRATIX_OBJECT_VERSION''"
definition KratixObjectNameEnvVar :: string where [consts_defs]: "KratixObjectNameEnvVar = ''KRATIX_OBJECT_NAME''"
definition KratixObjectNamespaceEnvVar :: string where
  [consts_defs]: "KratixObjectNamespaceEnvVar = ''KRATIX_OBJECT_NAMESPACE''"
definition KratixCrdPluralEnvVar :: string where [consts_defs]: "KratixCrdPluralEnvVar = ''KRATIX_CRD_PLURAL''"
definition KratixClusterScopedEnvVar :: string where [consts_defs]: "KratixClusterScopedEnvVar = ''KRATIX_CLUSTER_SCOPED''"
definition MaxResourceNameLength :: int where "MaxResourceNameLength = 63"

record PipelineDefaults =
  DefaultUserProvidedContainersSecurityContext :: "security_context option"
  DefaultImagePullPolicy :: string
  DefaultJobBackoffLimit :: "int option"

record PipelineFactory =
  pf_ID :: string
  pf_Promise :: Promise
  pf_Pipeline :: Pipeline
  pf_Namespace :: string
  pf_ResourceRequest :: "unstructured option"
  pf_ResourceWorkflow :: bool
  pf_WorkflowAction :: string
  pf_WorkflowType :: string
  pf_ClusterScoped :: bool
  pf_CRDPlural :: string

definition formatBool :: "bool \<Rightarrow> string" where
  "formatBool b = (if b then ''true'' else ''false'')"

definition env :: "string \<Rightarrow> string \<Rightarrow> env_var" where
  "env n v = \<lparr>ev_Name = n, ev_Value = v\<rparr>"

definition getenv :: "string \<Rightarrow> string go" where
  "getenv n = Call (Getenv n) (\<lambda>r. Ret (case r of RStr s \<Rightarrow> s | _ \<Rightarrow> []))"

definition promise_name :: "Promise \<Rightarrow> string" where "promise_name p = m_Name (p_meta p)"
definition pipeline_name :: "Pipeline \<Rightarrow> string" where "pipeline_name p = m_Name (pi_meta p)"
definition u_name :: "unstructured \<Rightarrow> string" where "u_name u = m_Name (u_meta u)"

subsection \<open>Labels of a workflow's objects\<close>

definition promiseNameLabel :: "string \<Rightarrow> labels" where
  "promiseNameLabel promiseName = fmupd PromiseNameLabel promiseName fmempty"

definition resourceNameLabel :: "string \<Rightarrow> labels" where
  "resourceNameLabel rName = fmupd ResourceNameLabel rName fmempty"

definition managedByKratixLabel :: labels where
  "managedByKratixLabel = fmupd ManagedByLabel ManagedByLabelValue fmempty"

definition workflowLabels :: "lib \<Rightarrow> string \<Rightarrow> string \<Rightarrow> string \<Rightarrow> labels" where
  "workflowLabels L workflowType workflowAction pipelineName =
     (let ls = fmempty;
          ls = (if workflowType \<noteq> [] then L_MergeLabels L ls (fmupd WorkflowTypeLabel workflowType fmempty) else ls);
          ls = (if pipelineName \<noteq> [] then L_MergeLabels L ls (fmupd PipelineNameLabel pipelineName fmempty) else ls)
      in if workflowAction \<noteq> [] then L_MergeLabels L ls (fmupd WorkflowActionLabel workflowAction fmempty) else ls)"

definition workflowLegacyLabels :: "lib \<Rightarrow> string \<Rightarrow> string \<Rightarrow> string \<Rightarrow> labels" where
  "workflowLegacyLabels L workflowType workflowAction pipelineName =
     (let ls = fmempty;
          ls = (if workflowType \<noteq> [] then L_MergeLabels L ls (fmupd WorkTypeLabel workflowType fmempty) else ls);
          ls = (if pipelineName \<noteq> [] then L_MergeLabels L ls (fmupd PipelineNameLabel pipelineName fmempty) else ls)
      in if workflowAction \<noteq> [] then L_MergeLabels L ls (fmupd WorkActionLabel workflowAction fmempty) else ls)"

definition UserPermissionPipelineResourcesLabels ::
  "lib \<Rightarrow> string \<Rightarrow> string \<Rightarrow> string \<Rightarrow> string \<Rightarrow> string \<Rightarrow> labels" where
  "UserPermissionPipelineResourcesLabels L promiseName pipelineName pipelineNamespace workflowType workflowAction =
     fmupd PipelineNamespaceLabel pipelineNamespace
       (L_MergeLabels L (promiseNameLabel promiseName) (workflowLabels L workflowType workflowAction pipelineName))"

definition UserPermissionPipelineResourcesLegacyLabels ::
  "lib \<Rightarrow> string \<Rightarrow> string \<Rightarrow> string \<Rightarrow> string \<Rightarrow> string \<Rightarrow> labels" where
  "UserPermissionPipelineResourcesLegacyLabels L promiseName pipelineName pipelineNamespace workflowType workflowAction =
     fmupd PipelineNamespaceLabel pipelineNamespace
       (L_MergeLabels L (promiseNameLabel promiseName) (workflowLegacyLabels L workflowType workflowAction pipelineName))"

definition userPermissionPipelineLabels :: "lib \<Rightarrow> PipelineFactory \<Rightarrow> labels" where
  "userPermissionPipelineLabels L p =
     UserPermissionPipelineResourcesLabels L (promise_name (pf_Promise p)) (pipeline_name (pf_Pipeline p)) (pf_Namespace p)
       (pf_WorkflowType p) (pf_WorkflowAction p)"

subsection \<open>The promise's scheduling and API\<close>

definition SquashPromiseScheduling :: "PromiseScheduling list \<Rightarrow> labels option" where
  "SquashPromiseScheduling scheduling =
     (if length scheduling = 0 then None
      else Some (foldl (\<lambda>l s. l ++\<^sub>f ps_MatchLabels s) fmempty (rev scheduling)))"

definition generateLabelSelectorsFromScheduling :: "lib \<Rightarrow> PromiseScheduling list \<Rightarrow> labels" where
  "generateLabelSelectorsFromScheduling L scheduling =
     foldl (\<lambda>schedulingSelectors schedulingConfig. L_MergeLabels L (ps_MatchLabels schedulingConfig) schedulingSelectors)
       fmempty scheduling"

definition GetSchedulingSelectors :: "lib \<Rightarrow> Promise \<Rightarrow> labels" where
  "GetSchedulingSelectors L p = generateLabelSelectorsFromScheduling L (psp_DestinationSelectors (p_Spec p))"

text \<open>The scheduling of a promise as selectors of its works.\<close>

definition PromiseWorkloadGroupScheduling :: "Promise \<Rightarrow> WorkloadGroupScheduling list" where
  "PromiseWorkloadGroupScheduling p =
     map (\<lambda>scheduling. \<lparr>wgs_MatchLabels = ps_MatchLabels scheduling, wgs_Source = ''promise''\<rparr>)
       (psp_DestinationSelectors (p_Spec p))"

definition DoesNotContainAPI :: "Promise \<Rightarrow> bool" where
  "DoesNotContainAPI p = (psp_API (p_Spec p) = None)"

definition ContainsAPI :: "Promise \<Rightarrow> bool" where
  "ContainsAPI p = (\<not> DoesNotContainAPI p)"

definition ErrNoAPI :: err where "ErrNoAPI = EStr ''promise does not contain an API''"

text \<open>
  The maps of a schema are references: writing into a map that is there changes the schema, while a map made
  for a copy of the metadata schema is lost with the copy.
\<close>

definition ensureMetadataSchema :: "schema_props \<Rightarrow> schema_props" where
  "ensureMetadataSchema schema =
     (let props = (case sp_Properties schema of None \<Rightarrow> [] | Some m \<Rightarrow> m);
          props = (if map_of props ''metadata'' = None
                   then AList.update ''metadata'' (with_Properties [] (schema_of ''object'')) props else props);
          metadataSchema = the (map_of props ''metadata'');
          props = (case sp_Properties metadataSchema of
              None \<Rightarrow> props
            | Some mprops \<Rightarrow>
                let nameProp = (case map_of mprops ''name'' of None \<Rightarrow> schema_of [] | Some s \<Rightarrow> s);
                    nameProp = (if sp_Type nameProp = [] then schema_of ''string'' else nameProp);
                    nameProp = with_MaxLength MaxResourceNameLength nameProp
                in AList.update ''metadata''
                     (with_Properties (AList.update ''name'' nameProp mprops) metadataSchema) props)
      in with_Properties props schema)"

text \<open>The stored version: the first with the storage flag, else the first.\<close>

fun storedIndex :: "crd_version list \<Rightarrow> nat \<Rightarrow> nat" where
  "storedIndex [] i = 0"
| "storedIndex (v # vs) i = (if cv_Storage v then i else storedIndex vs (Suc i))"

definition GetAPI :: "lib \<Rightarrow> Promise \<Rightarrow> ('q, 'r, err + gvk \<times> crd) prog" where
  "GetAPI L p =
     (case psp_API (p_Spec p) of
        None \<Rightarrow> Ret (Inl ErrNoAPI)
      | Some raw \<Rightarrow>
          (case L_UnmarshalCRD L raw of
             Inl e \<Rightarrow> Ret (Inl (EWrap ''api is not a valid CRD: '' e))
           | Inr crd \<Rightarrow>
               if crd_Versions crd = [] then Panic ''index out of range''
               else
                 let i = storedIndex (crd_Versions crd) 0;
                     storedVersion = crd_Versions crd ! i;
                     gvk = \<lparr>g_Group = crd_Group crd, g_Version = cv_Name storedVersion, g_Kind = crd_Kind crd\<rparr>;
                     crd = (case cv_Schema storedVersion of
                              None \<Rightarrow> crd
                            | Some s \<Rightarrow> crd\<lparr>crd_Versions := (crd_Versions crd)
                                [i := storedVersion\<lparr>cv_Schema := Some (ensureMetadataSchema s)\<rparr>]\<rparr>)
                 in Ret (Inr (gvk, crd))))"

definition GenerateSharedLabelsForPromise :: "string \<Rightarrow> labels" where
  "GenerateSharedLabelsForPromise promiseName = fmupd PromiseNameLabel promiseName fmempty"

definition GenerateSharedLabels :: "Promise \<Rightarrow> labels" where
  "GenerateSharedLabels p = GenerateSharedLabelsForPromise (promise_name p)"

definition GetControllerResourceName :: "Promise \<Rightarrow> string" where
  "GetControllerResourceName p = promise_name p @ ''-promise-controller''"

definition GetPipelineResourceName :: "Promise \<Rightarrow> string" where
  "GetPipelineResourceName p = promise_name p @ ''-resource-pipeline''"

definition GetDynamicControllerName :: "lib \<Rightarrow> Promise \<Rightarrow> ('q, 'r, string) prog" where
  "GetDynamicControllerName L p =
     bnd (GetAPI L p) (\<lambda>r.
     case r of
       Inl e \<Rightarrow> Ret (promise_name p)
     | Inr (_, crd) \<Rightarrow> Ret (promise_name p @ ''_'' @ m_Name (crd_meta crd)))"

definition GenerateFullAccessForRR :: "string \<Rightarrow> string \<Rightarrow> policy_rule list" where
  "GenerateFullAccessForRR grp rrPluralName =
     [\<lparr>pr_APIGroups = [grp], pr_Resources = [rrPluralName], pr_Verbs = [''*''], pr_ResourceNames = [], pr_NonResourceURLs = []\<rparr>,
      \<lparr>pr_APIGroups = [grp], pr_Resources = [rrPluralName @ ''/finalizers''], pr_Verbs = [''update''], pr_ResourceNames = [], pr_NonResourceURLs = []\<rparr>,
      \<lparr>pr_APIGroups = [grp], pr_Resources = [rrPluralName @ ''/status''], pr_Verbs = [''get'', ''update'', ''patch''], pr_ResourceNames = [], pr_NonResourceURLs = []\<rparr>]"

definition PromiseGetCondition :: "Promise \<Rightarrow> string \<Rightarrow> condition option" where
  "PromiseGetCondition p conditionType = find (\<lambda>c. c_Type c = conditionType) (pst_Conditions (p_Status p))"

subsection \<open>Containers and volumes\<close>

definition factoryServiceAccount :: "PipelineFactory \<Rightarrow> service_account" where
  "factoryServiceAccount p =
     (let serviceAccountName = (if pl_ServiceAccount (pi_Spec (pf_Pipeline p)) \<noteq> []
                                then pl_ServiceAccount (pi_Spec (pf_Pipeline p)) else pf_ID p)
      in \<lparr>sa_meta = empty_meta\<lparr>m_Name := serviceAccountName, m_Namespace := pf_Namespace p,
             m_Labels := promiseNameLabel (promise_name (pf_Promise p))\<rparr>,
          sa_Kind = ''ServiceAccount''\<rparr>)"

definition configMap :: "lib \<Rightarrow> PipelineFactory \<Rightarrow> WorkloadGroupScheduling list \<Rightarrow> ('q, 'r, err + config_map option) prog" where
  "configMap L p workloadGroupScheduling =
     (if pf_WorkflowAction p \<noteq> WorkflowActionConfigure then Ret (Inr None)
      else
        let cmName = ''destination-selectors-'' @ promise_name (pf_Promise p) in
        bnd (if pf_WorkflowType p \<noteq> WorkflowTypePromise \<and> pf_WorkflowType p \<noteq> WorkflowTypeResource
             then GenerateDeterministicObjectName L (cmName @ ''-'' @ pf_WorkflowType p)
             else Ret cmName) (\<lambda>cmName.
        case L_MarshalScheduling L workloadGroupScheduling of
          Inl e \<Rightarrow> Ret (Inl (EWrap ''error marshalling destinationSelectors to yaml: '' e))
        | Inr schedulingYAML \<Rightarrow>
            Ret (Inr (Some \<lparr>cm_meta = empty_meta\<lparr>m_Name := cmName, m_Namespace := pf_Namespace p,
                   m_Labels := promiseNameLabel (promise_name (pf_Promise p))\<rparr>,
                 cm_Data = fmupd ''destinationSelectors'' schedulingYAML fmempty\<rparr>))))"

definition defaultVolumes :: "PipelineFactory \<Rightarrow> config_map option \<Rightarrow> ('q, 'r, volume list) prog" where
  "defaultVolumes p schedulingConfigMap =
     (if pf_WorkflowAction p \<noteq> WorkflowActionConfigure then Ret []
      else bnd (deref schedulingConfigMap) (\<lambda>cm.
        Ret [\<lparr>v_Name = ''promise-scheduling'',
               v_Source = ConfigMapItem (m_Name (cm_meta cm)) ''destinationSelectors'' ''promise-scheduling''\<rparr>]))"

definition mount :: "string \<Rightarrow> string \<Rightarrow> bool \<Rightarrow> volume_mount" where
  "mount path n ro = \<lparr>vm_MountPath = path, vm_Name = n, vm_ReadOnly = ro\<rparr>"

definition defaultPipelineVolumes :: "volume list \<times> volume_mount list" where
  "defaultPipelineVolumes =
     ([\<lparr>v_Name = ''shared-input'', v_Source = EmptyDir\<rparr>,
       \<lparr>v_Name = ''shared-output'', v_Source = EmptyDir\<rparr>,
       \<lparr>v_Name = ''shared-metadata'', v_Source = EmptyDir\<rparr>],
      [mount ''/kratix/input'' ''shared-input'' True,
       mount ''/kratix/output'' ''shared-output'' False,
       mount ''/kratix/metadata'' ''shared-metadata'' False])"

definition defaultEnvVars :: "PipelineFactory \<Rightarrow> ('q, 'r, env_var list) prog" where
  "defaultEnvVars p =
     bnd (if pf_ResourceWorkflow p then
            bnd (deref (pf_ResourceRequest p)) (\<lambda>rr. Ret (u_gvk rr, u_name rr, m_Namespace (u_meta rr)))
          else Ret (p_gvk (pf_Promise p), promise_name (pf_Promise p), [])) (\<lambda>(obj, objName, objNamespace).
     Ret [env kratixActionEnvVar (pf_WorkflowAction p),
          env kratixTypeEnvVar (pf_WorkflowType p),
          env KratixPromiseNameEnvVar (promise_name (pf_Promise p)),
          env kratixPipelineNameEnvVar (pipeline_name (pf_Pipeline p)),
          env KratixObjectKindEnvVar (g_Kind obj),
          env KratixObjectGroupEnvVar (g_Group obj),
          env KratixObjectVersionEnvVar (g_Version obj),
          env KratixObjectNameEnvVar objName,
          env KratixObjectNamespaceEnvVar objNamespace,
          env KratixCrdPluralEnvVar (pf_CRDPlural p),
          env KratixClusterScopedEnvVar (formatBool (pf_ClusterScoped p))])"

definition readerContainer :: "PipelineDefaults \<Rightarrow> PipelineFactory \<Rightarrow> k8s_container go" where
  "readerContainer D p =
     bnd (getenv ''PIPELINE_ADAPTER_IMG'') (\<lambda>img.
     bnd (defaultEnvVars p) (\<lambda>envs.
     Ret \<lparr>k_Name = ''reader'', k_Image = img, k_Args = [], k_Command = [''sh'', ''-c'', ''reader''],
          k_Env = envs, k_EnvFrom = [],
          k_VolumeMounts = [mount ''/kratix/input'' ''shared-input'' False, mount ''/kratix/output'' ''shared-output'' False],
          k_ImagePullPolicy = DefaultImagePullPolicy D, k_SecurityContext = Some KratixSecurityContext\<rparr>))"

definition workCreatorContainer :: "PipelineDefaults \<Rightarrow> PipelineFactory \<Rightarrow> k8s_container go" where
  "workCreatorContainer D p =
     (let args = [''-input-directory'', ''/work-creator-files'',
                  ''-promise-name'', promise_name (pf_Promise p),
                  ''-pipeline-name'', pipeline_name (pf_Pipeline p),
                  ''-namespace'', pf_Namespace p,
                  ''-workflow-type'', pf_WorkflowType p] in
      bnd (if pf_ResourceWorkflow p then
             bnd (deref (pf_ResourceRequest p)) (\<lambda>rr. Ret (args @ [''-resource-name'', u_name rr]))
           else Ret args) (\<lambda>args.
      bnd (getenv ''PIPELINE_ADAPTER_IMG'') (\<lambda>img.
      Ret \<lparr>k_Name = ''work-writer'', k_Image = img, k_Args = [],
           k_Command = [''sh'', ''-c'', ''work-creator '' @ join args '' ''],
           k_Env = [], k_EnvFrom = [],
           k_VolumeMounts = [mount ''/work-creator-files/input'' ''shared-output'' False,
             mount ''/work-creator-files/metadata'' ''shared-metadata'' False,
             mount ''/work-creator-files/kratix-system'' ''promise-scheduling'' False],
           k_ImagePullPolicy = DefaultImagePullPolicy D, k_SecurityContext = Some KratixSecurityContext\<rparr>)))"

definition pipelineContainers ::
  "PipelineDefaults \<Rightarrow> PipelineFactory \<Rightarrow> ('q, 'r, k8s_container list \<times> volume list) prog" where
  "pipelineContainers D p =
     (let (volumes, defaultVolumeMounts) = defaultPipelineVolumes;
          spec = pi_Spec (pf_Pipeline p);
          volumes = (if length (pl_Volumes spec) > 0 then volumes @ pl_Volumes spec else volumes) in
      bnd (defaultEnvVars p) (\<lambda>kratixEnvVars.
      Ret (map (\<lambda>c. \<lparr>k_Name = ct_Name c, k_Image = ct_Image c, k_Args = ct_Args c, k_Command = ct_Command c,
                  k_Env = kratixEnvVars @ ct_Env c, k_EnvFrom = ct_EnvFrom c,
                  k_VolumeMounts = defaultVolumeMounts @ ct_VolumeMounts c,
                  k_ImagePullPolicy = (if ct_ImagePullPolicy c = [] then DefaultImagePullPolicy D else ct_ImagePullPolicy c),
                  k_SecurityContext = (case ct_SecurityContext c of
                      None \<Rightarrow> DefaultUserProvidedContainersSecurityContext D | Some s \<Rightarrow> Some s)\<rparr>)
             (pl_Containers spec), volumes)))"

definition to_lower :: "string \<Rightarrow> string" where
  "to_lower s = map (\<lambda>c. let n = of_char c :: nat in if 65 \<le> n \<and> n \<le> 90 then char_of (n + 32) else c) s"

definition statusWriterContainer ::
  "PipelineDefaults \<Rightarrow> PipelineFactory \<Rightarrow> unstructured \<Rightarrow> env_var list \<Rightarrow> k8s_container go" where
  "statusWriterContainer D p obj envs =
     bnd (getenv ''PIPELINE_ADAPTER_IMG'') (\<lambda>img.
     Ret \<lparr>k_Name = ''status-writer'', k_Image = img, k_Args = [], k_Command = [''sh'', ''-c'', ''update-status''],
          k_Env = envs @
            [env KratixObjectKindEnvVar (to_lower (g_Kind (u_gvk obj))),
             env KratixObjectGroupEnvVar (g_Group (u_gvk obj)),
             env KratixObjectVersionEnvVar (g_Version (u_gvk obj)),
             env KratixObjectNameEnvVar (u_name obj),
             env KratixObjectNamespaceEnvVar (pf_Namespace p),
             env KratixCrdPluralEnvVar (pf_CRDPlural p),
             env KratixClusterScopedEnvVar (formatBool (pf_ClusterScoped p))],
          k_EnvFrom = [],
          k_VolumeMounts = [mount ''/work-creator-files/metadata'' ''shared-metadata'' False],
          k_ImagePullPolicy = DefaultImagePullPolicy D, k_SecurityContext = Some KratixSecurityContext\<rparr>)"

subsection \<open>The job\<close>

definition pipelineJobName :: "PipelineFactory \<Rightarrow> string go" where
  "pipelineJobName p =
     (let name = ''kratix-'' @ promise_name (pf_Promise p) in
      bnd (if pf_ResourceWorkflow p then
             bnd (deref (pf_ResourceRequest p)) (\<lambda>rr. Ret (name @ ''-'' @ u_name rr))
           else Ret name) (\<lambda>name.
      GenerateObjectName (name @ ''-'' @ pipeline_name (pf_Pipeline p))))"

definition pipelineJobLabels :: "lib \<Rightarrow> PipelineFactory \<Rightarrow> string \<Rightarrow> ('q, 'r, labels) prog" where
  "pipelineJobLabels L p requestSHA =
     (let ls = L_MergeLabels L (promiseNameLabel (promise_name (pf_Promise p)))
                 (workflowLabels L (pf_WorkflowType p) (pf_WorkflowAction p) (pipeline_name (pf_Pipeline p)));
          ls = L_MergeLabels L ls managedByKratixLabel in
      bnd (if pf_ResourceWorkflow p then
             bnd (deref (pf_ResourceRequest p)) (\<lambda>rr. Ret (L_MergeLabels L ls (resourceNameLabel (u_name rr))))
           else Ret ls) (\<lambda>ls.
      let ls = (if requestSHA \<noteq> [] then fmupd KratixResourceHashLabel requestSHA ls else ls)
      in Ret (L_MergeLabels L ls (m_Labels (pi_meta (pf_Pipeline p))))))"

definition getObjAndHash :: "lib \<Rightarrow> PipelineFactory \<Rightarrow> ('q, 'r, err + unstructured \<times> string) prog" where
  "getObjAndHash L p =
     (case L_ToUnstructured L (pf_Promise p) of
        Inl e \<Rightarrow> Ret (Inl e)
      | Inr uPromise \<Rightarrow>
          (case ComputeHashForResource L uPromise of
             Inl e \<Rightarrow> Ret (Inl e)
           | Inr promiseHash \<Rightarrow>
               if \<not> pf_ResourceWorkflow p then Ret (Inr (uPromise, promiseHash))
               else bnd (deref (pf_ResourceRequest p)) (\<lambda>rr.
                 case ComputeHashForResource L rr of
                   Inl e \<Rightarrow> Ret (Inl e)
                 | Inr resourceHash \<Rightarrow> Ret (Inr (rr, ComputeHash L (promiseHash @ ''-'' @ resourceHash))))))"

text \<open>Which containers run before the main one: \<open>xs[0:len(xs)-1]\<close> of an empty slice panics.\<close>

definition jobContainers ::
  "string \<Rightarrow> k8s_container \<Rightarrow> k8s_container list \<Rightarrow> k8s_container \<Rightarrow> k8s_container \<Rightarrow>
   ('q, 'r, k8s_container list \<times> k8s_container list) prog" where
  "jobContainers action reader pcs workCreator statusWriter =
     (if action = WorkflowActionConfigure then
        Ret ([reader] @ pcs @ [workCreator], [statusWriter])
      else if action = WorkflowActionDelete then
        (if pcs = [] then Panic ''slice bounds out of range''
         else Ret ([reader] @ butlast pcs, [last pcs]))
      else Ret ([reader], []))"

definition pipelineJob ::
  "lib \<Rightarrow> PipelineDefaults \<Rightarrow> PipelineFactory \<Rightarrow> config_map option \<Rightarrow> service_account \<Rightarrow> env_var list \<Rightarrow> (err + job) go" where
  "pipelineJob L D p schedulingConfigMap serviceAccount envs =
     bnd (getObjAndHash L p) (\<lambda>r.
     case r of
       Inl e \<Rightarrow> Ret (Inl e)
     | Inr (obj, objHash) \<Rightarrow>
         bnd (getenv ''PIPELINE_ADAPTER_PULL_SECRET'') (\<lambda>workCreatorPullSecrets.
         let spec = pi_Spec (pf_Pipeline p);
             imagePullSecrets = (if workCreatorPullSecrets \<noteq> [] then [workCreatorPullSecrets] else []) @ pl_ImagePullSecrets spec in
         bnd (readerContainer D p) (\<lambda>reader.
         bnd (pipelineContainers D p) (\<lambda>(pcs, pipelineVolumes).
         bnd (workCreatorContainer D p) (\<lambda>workCreator.
         bnd (statusWriterContainer D p obj envs) (\<lambda>statusWriter.
         bnd (defaultVolumes p schedulingConfigMap) (\<lambda>dvs.
         let volumes = dvs @ pipelineVolumes;
             backoffLimit = (case pl_BackoffLimit spec of None \<Rightarrow> DefaultJobBackoffLimit D | Some b \<Rightarrow> Some b) in
         bnd (jobContainers (pf_WorkflowAction p) reader pcs workCreator statusWriter) (\<lambda>(initContainers, containers).
         bnd (pipelineJobName p) (\<lambda>name.
         bnd (pipelineJobLabels L p objHash) (\<lambda>ls.
         let job = \<lparr>j_meta = empty_meta\<lparr>m_Name := name, m_Namespace := pf_Namespace p, m_Labels := ls\<rparr>,
                    j_Suspend = None, j_BackoffLimit = backoffLimit,
                    j_Template = \<lparr>pt_Labels = ls, pt_Annotations = m_Annotations (pi_meta (pf_Pipeline p)),
                      pt_RestartPolicy = ''OnFailure'', pt_ServiceAccountName = m_Name (sa_meta serviceAccount),
                      pt_Containers = containers, pt_ImagePullSecrets = imagePullSecrets,
                      pt_InitContainers = initContainers, pt_Volumes = volumes,
                      pt_NodeSelector = pl_NodeSelector spec, pt_Tolerations = pl_Tolerations spec\<rparr>,
                    j_Active = 0, j_Succeeded = 0, j_Failed = 0, j_Conditions = []\<rparr>
         in Ret (case L_SetControllerReference L (u_meta obj) (j_meta job) of
                   Inl e \<Rightarrow> Inl e
                 | Inr m \<Rightarrow> Inr (job\<lparr>j_meta := m\<rparr>))))))))))))"

subsection \<open>Roles and bindings\<close>

definition hasUserPermissions :: "Pipeline \<Rightarrow> bool" where
  "hasUserPermissions p = (length (pl_Permissions (pi_Spec p)) > 0)"

definition factoryRole :: "lib \<Rightarrow> PipelineFactory \<Rightarrow> ('q, 'r, err + role list) prog" where
  "factoryRole L p =
     bnd (if pf_ResourceWorkflow p then
            bnd (GetAPI L (pf_Promise p)) (\<lambda>r.
            case r of
              Inl e \<Rightarrow> Ret (Inl e)
            | Inr (_, crd) \<Rightarrow>
                Ret (Inr [\<lparr>ro_meta = empty_meta\<lparr>m_Name := pf_ID p, m_Labels := promiseNameLabel (promise_name (pf_Promise p)),
                              m_Namespace := pf_Namespace p\<rparr>,
                           ro_Rules =
                             [\<lparr>pr_APIGroups = [crd_Group crd], pr_Resources = [pf_CRDPlural p, pf_CRDPlural p @ ''/status''],
                               pr_Verbs = [''get'', ''list'', ''update'', ''create'', ''patch''], pr_ResourceNames = [], pr_NonResourceURLs = []\<rparr>,
                              \<lparr>pr_APIGroups = [GroupVersionGroup], pr_Resources = [''works''], pr_Verbs = [''*''], pr_ResourceNames = [], pr_NonResourceURLs = []\<rparr>]\<rparr>]))
          else Ret (Inr [])) (\<lambda>r.
     case r of
       Inl e \<Rightarrow> Ret (Inl e)
     | Inr roles \<Rightarrow>
         if hasUserPermissions (pf_Pipeline p) then
           let rules = map pm_PolicyRule (filter (\<lambda>r. pm_ResourceNamespace r = []) (pl_Permissions (pi_Spec (pf_Pipeline p)))) in
           if length rules > 0 then
             bnd (GenerateDeterministicObjectName L (pf_ID p)) (\<lambda>name.
             Ret (Inr (roles @ [\<lparr>ro_meta = empty_meta\<lparr>m_Name := name, m_Namespace := pf_Namespace p,
                                   m_Labels := userPermissionPipelineLabels L p\<rparr>,
                                 ro_Rules = rules\<rparr>])))
           else Ret (Inr roles)
         else Ret (Inr roles))"

definition sa_subject :: "service_account \<Rightarrow> subject" where
  "sa_subject sa = \<lparr>sb_Kind = ''ServiceAccount'', sb_Namespace = m_Namespace (sa_meta sa), sb_Name = m_Name (sa_meta sa)\<rparr>"

definition rbac_ref :: "string \<Rightarrow> string \<Rightarrow> role_ref" where
  "rbac_ref k n = \<lparr>rr_Kind = k, rr_APIGroup = ''rbac.authorization.k8s.io'', rr_Name = n\<rparr>"

definition factoryRoleBindings ::
  "lib \<Rightarrow> PipelineFactory \<Rightarrow> role list \<Rightarrow> role list \<Rightarrow> service_account \<Rightarrow> (role_binding list) go" where
  "factoryRoleBindings L p roles clusterRoles serviceAccount =
     (let bindings = map (\<lambda>role. \<lparr>rb_meta = empty_meta\<lparr>m_Name := m_Name (ro_meta role), m_Labels := m_Labels (ro_meta role),
                                     m_Namespace := pf_Namespace p\<rparr>,
                                  rb_RoleRef = rbac_ref ''Role'' (m_Name (ro_meta role)),
                                  rb_Subjects = [sa_subject serviceAccount]\<rparr>) roles in
      after_loop
        (for_range clusterRoles bindings (\<lambda>clusterRole bindings.
           let clusterRoleLabels = m_Labels (ro_meta clusterRole) in
           case fmlookup clusterRoleLabels UserPermissionResourceNamespaceLabel of
             None \<Rightarrow> Ret (Next bindings)
           | Some ns \<Rightarrow>
               if ns \<noteq> userPermissionResourceNamespaceLabelAll then
                 bnd (GenerateDeterministicObjectName L (pf_ID p @ ''-'' @ m_Namespace (sa_meta serviceAccount))) (\<lambda>name.
                 Ret (Next (bindings @ [\<lparr>rb_meta = empty_meta\<lparr>m_Name := name, m_Namespace := ns, m_Labels := clusterRoleLabels\<rparr>,
                                          rb_RoleRef = rbac_ref ''ClusterRole'' (m_Name (ro_meta clusterRole)),
                                          rb_Subjects = [sa_subject serviceAccount]\<rparr>])))
               else Ret (Next bindings)))
        (\<lambda>bindings. Ret bindings))"

text \<open>The rules of a pipeline's permissions by their namespace, those without one left out.\<close>

definition namespaceRules :: "Permission list \<Rightarrow> (string \<times> policy_rule list) list" where
  "namespaceRules permissions =
     foldl (\<lambda>m r. if pm_ResourceNamespace r \<noteq> []
                  then AList.update (pm_ResourceNamespace r)
                         ((case map_of m (pm_ResourceNamespace r) of None \<Rightarrow> [] | Some rs \<Rightarrow> rs) @ [pm_PolicyRule r]) m
                  else m) [] permissions"

definition kratixClusterRoles :: "PipelineFactory \<Rightarrow> role list" where
  "kratixClusterRoles p =
     (if \<not> pf_ResourceWorkflow p then
        [\<lparr>ro_meta = empty_meta\<lparr>m_Name := pf_ID p, m_Labels := promiseNameLabel (promise_name (pf_Promise p))\<rparr>,
          ro_Rules = [\<lparr>pr_APIGroups = [GroupVersionGroup],
             pr_Resources = [PromisePlural, PromisePlural @ ''/status'', ''works''],
             pr_Verbs = [''get'', ''list'', ''update'', ''create'', ''patch''], pr_ResourceNames = [], pr_NonResourceURLs = []\<rparr>]\<rparr>]
      else [])"

definition namespaceClusterRole :: "lib \<Rightarrow> PipelineFactory \<Rightarrow> string \<times> policy_rule list \<Rightarrow> role go" where
  "namespaceClusterRole L p nr =
     (case nr of (namespace, rules) \<Rightarrow>
      let (label, nameSuffix) = (if namespace = ''*'' then (userPermissionResourceNamespaceLabelAll, ''kratix-all-namespaces'')
                                 else (namespace, namespace));
          labels = fmupd UserPermissionResourceNamespaceLabel label (userPermissionPipelineLabels L p) in
      bnd (GenerateDeterministicObjectName L (pf_ID p @ ''-'' @ nameSuffix)) (\<lambda>generatedName.
      Ret \<lparr>ro_meta = empty_meta\<lparr>m_Name := generatedName, m_Labels := labels\<rparr>, ro_Rules = rules\<rparr>))"

definition factoryClusterRole :: "lib \<Rightarrow> PipelineFactory \<Rightarrow> (role list) go" where
  "factoryClusterRole L p =
     (if hasUserPermissions (pf_Pipeline p) then
        bnd (range_map (namespaceRules (pl_Permissions (pi_Spec (pf_Pipeline p))))) (\<lambda>namespaceRulesMap.
        after_loop
          (for_range namespaceRulesMap (kratixClusterRoles p) (\<lambda>nr clusterRoles.
             bnd (namespaceClusterRole L p nr) (\<lambda>clusterRole. Ret (Next (clusterRoles @ [clusterRole])))))
          (\<lambda>clusterRoles. Ret clusterRoles))
      else Ret (kratixClusterRoles p))"

definition factoryClusterRoleBinding ::
  "lib \<Rightarrow> PipelineFactory \<Rightarrow> role list \<Rightarrow> service_account \<Rightarrow> (role_binding list) go" where
  "factoryClusterRoleBinding L p clusterRoles serviceAccount =
     after_loop
       (for_range clusterRoles [] (\<lambda>r clusterRoleBindings.
          let ref = rbac_ref ''ClusterRole'' (m_Name (ro_meta r)) in
          case fmlookup (m_Labels (ro_meta r)) UserPermissionResourceNamespaceLabel of
            None \<Rightarrow>
              Ret (Next (clusterRoleBindings @
                [\<lparr>rb_meta = empty_meta\<lparr>m_Name := m_Name (ro_meta r), m_Labels := promiseNameLabel (promise_name (pf_Promise p))\<rparr>,
                  rb_RoleRef = ref, rb_Subjects = [sa_subject serviceAccount]\<rparr>]))
          | Some ns \<Rightarrow>
              if ns = userPermissionResourceNamespaceLabelAll then
                bnd (GenerateDeterministicObjectName L (pf_ID p @ ''-'' @ m_Namespace (sa_meta serviceAccount))) (\<lambda>name.
                Ret (Next (clusterRoleBindings @
                  [\<lparr>rb_meta = empty_meta\<lparr>m_Name := name, m_Labels := userPermissionPipelineLabels L p\<rparr>,
                    rb_RoleRef = ref, rb_Subjects = [sa_subject serviceAccount]\<rparr>])))
              else Ret (Next clusterRoleBindings)))
       (\<lambda>clusterRoleBindings. Ret clusterRoleBindings)"

subsection \<open>The objects of a pipeline\<close>

definition Resources :: "lib \<Rightarrow> PipelineDefaults \<Rightarrow> PipelineFactory \<Rightarrow> env_var list \<Rightarrow> (err + PipelineJobResources) go" where
  "Resources L D p jobEnv =
     (let wgScheduling = PromiseWorkloadGroupScheduling (pf_Promise p) in
      bnd (configMap L p wgScheduling) (\<lambda>r.
      case r of
        Inl e \<Rightarrow> Ret (Inl e)
      | Inr schedulingConfigMap \<Rightarrow>
          let sa = factoryServiceAccount p in
          bnd (pipelineJob L D p schedulingConfigMap sa jobEnv) (\<lambda>r.
          case r of
            Inl e \<Rightarrow> Ret (Inl e)
          | Inr job \<Rightarrow>
              bnd (factoryClusterRole L p) (\<lambda>clusterRoles.
              bnd (factoryClusterRoleBinding L p clusterRoles sa) (\<lambda>clusterRoleBindings.
              bnd (factoryRole L p) (\<lambda>r.
              case r of
                Inl e \<Rightarrow> Ret (Inl e)
              | Inr roles \<Rightarrow>
                  bnd (factoryRoleBindings L p roles clusterRoles sa) (\<lambda>roleBindings.
                  Ret (Inr \<lparr>pj_Name = pipeline_name (pf_Pipeline p), pj_PipelineID = pf_ID p, pj_Job = job,
                    pj_Shared = \<lparr>sh_ServiceAccount = Some sa, sh_ConfigMap = schedulingConfigMap, sh_Roles = roles,
                       sh_RoleBindings = roleBindings, sh_ClusterRoles = clusterRoles,
                       sh_ClusterRoleBindings = clusterRoleBindings\<rparr>,
                    pj_WorkflowType = pf_WorkflowType p, pj_WorkflowAction = pf_WorkflowAction p\<rparr>))))))))"

definition GetObjects :: "PipelineJobResources \<Rightarrow> kobj list" where
  "GetObjects p =
     (let sh = pj_Shared p in
      (case sh_ServiceAccount sh of None \<Rightarrow> [] | Some sa \<Rightarrow> [OServiceAccount sa]) @
      (case sh_ConfigMap sh of None \<Rightarrow> [] | Some cm \<Rightarrow> [OConfigMap cm]) @
      map ORole (sh_Roles sh) @ map ORoleBinding (sh_RoleBindings sh) @
      map OClusterRole (sh_ClusterRoles sh) @ map OClusterRoleBinding (sh_ClusterRoleBindings sh))"

definition api_version :: "gvk \<Rightarrow> string" where
  "api_version g = (if g_Group g = [] then g_Version g else g_Group g @ ''/'' @ g_Version g)"

fun PipelinesFromUnstructured :: "lib \<Rightarrow> unstructured list \<Rightarrow> err + Pipeline list" where
  "PipelinesFromUnstructured L [] = Inr []"
| "PipelinesFromUnstructured L (u # us) =
     (if g_Kind (u_gvk u) = ''Pipeline'' \<and> api_version (u_gvk u) = ''platform.kratix.io/v1alpha1'' then
        (case L_MarshalUnstructured L u of
           Inl e \<Rightarrow> Inl (EWrap (''failed marshalling pipeline '' @ u_name u @ '' to json: '') e)
         | Inr jsonPipeline \<Rightarrow>
             (case L_DecodePipeline L jsonPipeline of
                Inl e \<Rightarrow> Inl (EWrap (''failed unmarshalling pipeline '' @ u_name u @ '': '') e)
              | Inr p \<Rightarrow>
                  (case PipelinesFromUnstructured L us of
                     Inl e \<Rightarrow> Inl e
                   | Inr ps \<Rightarrow> Inr (p # ps))))
      else Inl (EStr (''unsupported pipeline '' @ u_name u @ '' with APIVersion '' @ g_Kind (u_gvk u) @ ''/'' @
                 api_version (u_gvk u))))"

definition ForPromise :: "Pipeline \<Rightarrow> Promise \<Rightarrow> string \<Rightarrow> PipelineFactory" where
  "ForPromise p promise action =
     \<lparr>pf_ID = promise_name promise @ ''-promise-'' @ action @ ''-'' @ pipeline_name p,
      pf_Promise = promise, pf_Pipeline = p, pf_Namespace = SystemNamespace, pf_ResourceRequest = None,
      pf_ResourceWorkflow = False, pf_WorkflowAction = action, pf_WorkflowType = WorkflowTypePromise,
      pf_ClusterScoped = True, pf_CRDPlural = ''promises''\<rparr>"

definition ForResource ::
  "lib \<Rightarrow> Pipeline \<Rightarrow> Promise \<Rightarrow> string \<Rightarrow> unstructured \<Rightarrow> ('q, 'r, PipelineFactory) prog" where
  "ForResource L p promise action resourceRequest =
     bnd (GetAPI L promise) (\<lambda>r.
     let (plural, clusterScoped) = (case r of
            Inl e \<Rightarrow> ([], False)
          | Inr (_, crd) \<Rightarrow> (crd_Plural crd, crd_Scope crd = ''Cluster'')) in
     Ret \<lparr>pf_ID = promise_name promise @ ''-resource-'' @ action @ ''-'' @ pipeline_name p,
          pf_Promise = promise, pf_Pipeline = p, pf_Namespace = m_Namespace (u_meta resourceRequest),
          pf_ResourceRequest = Some resourceRequest, pf_ResourceWorkflow = True, pf_WorkflowAction = action,
          pf_WorkflowType = WorkflowTypeResource, pf_ClusterScoped = clusterScoped, pf_CRDPlural = plural\<rparr>)"

text \<open>
  The four lists of pipelines are converted type by type and action by action, each in the order of the
  runtime; the order decides which error is reported when several lists are malformed.
\<close>

definition unstructuredMap :: "Promise \<Rightarrow> (string \<times> (string \<times> unstructured list) list) list" where
  "unstructuredMap promise =
     [(WorkflowTypeResource,
        [(WorkflowActionConfigure, wt_Configure (psp_WorkflowsResource (p_Spec promise))),
         (WorkflowActionDelete, wt_Delete (psp_WorkflowsResource (p_Spec promise)))]),
      (WorkflowTypePromise,
        [(WorkflowActionConfigure, wt_Configure (psp_WorkflowsPromise (p_Spec promise))),
         (WorkflowActionDelete, wt_Delete (psp_WorkflowsPromise (p_Spec promise)))])]"

type_synonym pipelineMap = "string \<Rightarrow> string \<Rightarrow> Pipeline list"

definition parseWorkflowAction ::
  "lib \<Rightarrow> string \<Rightarrow> string \<times> unstructured list \<Rightarrow> pipelineMap \<Rightarrow> ((pipelineMap, err + pipelineMap) loop) go" where
  "parseWorkflowAction L typ x pipelinesMap =
     (case x of (action, uPipeline) \<Rightarrow>
      Ret (case PipelinesFromUnstructured L uPipeline of
             Inl e \<Rightarrow> Leave (Inl (EWrap (''failed parsing '' @ typ @ ''.'' @ action @ '' pipeline: '') e))
           | Inr pipelines \<Rightarrow> Next (pipelinesMap(typ := (pipelinesMap typ)(action := pipelines)))))"

definition parseWorkflowActions ::
  "lib \<Rightarrow> string \<Rightarrow> (string \<times> unstructured list) list \<Rightarrow> pipelineMap \<Rightarrow> ((pipelineMap, err + pipelineMap) loop) go" where
  "parseWorkflowActions L typ actions pipelinesMap =
     bnd (range_map actions) (\<lambda>actions. for_range actions pipelinesMap (parseWorkflowAction L typ))"

definition NewPipelinesMap :: "lib \<Rightarrow> Promise \<Rightarrow> (err + pipelineMap) go" where
  "NewPipelinesMap L promise =
     bnd (range_map (unstructuredMap promise)) (\<lambda>types.
     after_loop
       (for_range types (\<lambda>_ _. []) (\<lambda>x. parseWorkflowActions L (fst x) (snd x)))
       (\<lambda>pipelinesMap. Ret (Inr pipelinesMap)))"

text \<open>The workflow's type is the resource's or the promise's: the two callers below.\<close>

definition pipelineFactoryFor :: "lib \<Rightarrow> Promise \<Rightarrow> string \<Rightarrow> string \<Rightarrow> unstructured option \<Rightarrow> Pipeline \<Rightarrow> PipelineFactory go" where
  "pipelineFactoryFor L p workflowType workflowAction resourceRequest pipe =
     (if workflowType = WorkflowTypeResource
      then bnd (deref resourceRequest) (\<lambda>rr. ForResource L pipe p workflowAction rr)
      else Ret (ForPromise pipe p workflowAction))"

definition generatePipelineObjects ::
  "lib \<Rightarrow> PipelineDefaults \<Rightarrow> Promise \<Rightarrow> string \<Rightarrow> string \<Rightarrow> unstructured option \<Rightarrow> nat \<Rightarrow> nat \<times> Pipeline \<Rightarrow>
   PipelineJobResources list \<Rightarrow> ((PipelineJobResources list, err + PipelineJobResources list) loop) go" where
  "generatePipelineObjects L D p workflowType workflowAction resourceRequest n x allResources =
     (case x of (i, pipe) \<Rightarrow>
      let lastIndex = int n - 1;
          isLast = (int i = lastIndex);
          additionalJobEnv = [env ''IS_LAST_PIPELINE'' (formatBool isLast)] in
      bnd (pipelineFactoryFor L p workflowType workflowAction resourceRequest pipe) (\<lambda>factory.
      bnd (Resources L D factory additionalJobEnv) (\<lambda>r.
      Ret (case r of Inl e \<Rightarrow> Leave (Inl e) | Inr resources \<Rightarrow> Next (allResources @ [resources])))))"

definition generatePipelinesObjects ::
  "lib \<Rightarrow> PipelineDefaults \<Rightarrow> Promise \<Rightarrow> string \<Rightarrow> string \<Rightarrow> unstructured option \<Rightarrow> (err + PipelineJobResources list) go" where
  "generatePipelinesObjects L D p workflowType workflowAction resourceRequest =
     bnd (NewPipelinesMap L p) (\<lambda>r.
     case r of
       Inl e \<Rightarrow> Ret (Inl e)
     | Inr promisePipelines \<Rightarrow>
         let pipelines = promisePipelines workflowType workflowAction in
         after_loop
           (for_range (zip [0..<length pipelines] pipelines) []
              (generatePipelineObjects L D p workflowType workflowAction resourceRequest (length pipelines)))
           (\<lambda>allResources. Ret (Inr allResources)))"

definition GeneratePromisePipelines :: "lib \<Rightarrow> PipelineDefaults \<Rightarrow> Promise \<Rightarrow> string \<Rightarrow> (err + PipelineJobResources list) go" where
  "GeneratePromisePipelines L D p workflowAction =
     generatePipelinesObjects L D p WorkflowTypePromise workflowAction None"

definition GenerateResourcePipelines ::
  "lib \<Rightarrow> PipelineDefaults \<Rightarrow> Promise \<Rightarrow> string \<Rightarrow> unstructured \<Rightarrow> (err + PipelineJobResources list) go" where
  "GenerateResourcePipelines L D p workflowAction resourceRequest =
     generatePipelinesObjects L D p WorkflowTypeResource workflowAction (Some resourceRequest)"

definition HasPipeline :: "Promise \<Rightarrow> string \<Rightarrow> string \<Rightarrow> bool" where
  "HasPipeline p workflowType workflowAction =
     (if workflowType = WorkflowTypeResource then
        (if workflowAction = WorkflowActionConfigure then length (wt_Configure (psp_WorkflowsResource (p_Spec p))) > 0
         else if workflowAction = WorkflowActionDelete then length (wt_Delete (psp_WorkflowsResource (p_Spec p))) > 0
         else False)
      else if workflowType = WorkflowTypePromise then
        (if workflowAction = WorkflowActionConfigure then length (wt_Configure (psp_WorkflowsPromise (p_Spec p))) > 0
         else if workflowAction = WorkflowActionDelete then length (wt_Delete (psp_WorkflowsPromise (p_Spec p))) > 0
         else False)
      else False)"

subsection \<open>The API\<close>

lemma GetAPI_cases:
  obtains (Panic) m where "GetAPI L p = (Panic m :: (err + gvk \<times> crd) go)" | (Ret) x where "GetAPI L p = (Ret x :: (err + gvk \<times> crd) go)"
proof -
  have "(\<exists>m. GetAPI L p = (Panic m :: (err + gvk \<times> crd) go)) \<or> (\<exists>x. GetAPI L p = (Ret x :: (err + gvk \<times> crd) go))"
    by (auto simp: GetAPI_def Let_def split: option.split sum.split)
  with that show ?thesis by blast
qed

subsection \<open>Scheduling selectors\<close>

lemma foldl_fmadd_front: "foldl (\<lambda>l s. f s ++\<^sub>f l) m xs = foldl (\<lambda>l s. f s ++\<^sub>f l) fmempty xs ++\<^sub>f m"
proof (induction xs arbitrary: m)
  case (Cons x xs)
  show ?case using Cons [of "f x ++\<^sub>f m"] Cons [of "f x"] by (simp add: fmadd_assoc)
qed simp

lemma foldl_rev_fmadd:
  "foldl (\<lambda>l s. l ++\<^sub>f f s) fmempty (rev xs) = foldl (\<lambda>l s. f s ++\<^sub>f l) fmempty xs"
proof (induction xs)
  case (Cons x xs)
  then show ?case using foldl_fmadd_front [of f "f x" xs] by simp
qed simp

text \<open>The two ways the API merges a promise's destination selectors agree: squashing them from the last to the
  first, and merging them from the first to the last with earlier entries winning.\<close>

lemma Squash_is_GetSchedulingSelectors:
  assumes "merge_laws L" and "psp_DestinationSelectors (p_Spec p) \<noteq> []"
  shows "SquashPromiseScheduling (psp_DestinationSelectors (p_Spec p)) = Some (GetSchedulingSelectors L p)"
  using assms by (simp add: SquashPromiseScheduling_def GetSchedulingSelectors_def
      generateLabelSelectorsFromScheduling_def merge_laws_def foldl_rev_fmadd)

definition ex_promise :: Promise where
  "ex_promise = \<lparr>p_meta = ex_meta ''redis'', p_gvk = \<lparr>g_Group = ''platform.kratix.io'', g_Version = ''v1alpha1'', g_Kind = ''Promise''\<rparr>,
     p_Spec = \<lparr>psp_API = Some ''crd'', psp_WorkflowsResource = \<lparr>wt_Configure = [], wt_Delete = []\<rparr>,
       psp_WorkflowsPromise = \<lparr>wt_Configure = [\<lparr>u_meta = ex_meta ''one'', u_gvk = \<lparr>g_Group = ''platform.kratix.io'',
           g_Version = ''v1alpha1'', g_Kind = ''Pipeline''\<rparr>, u_spec = None, u_status = None\<rparr>], wt_Delete = []\<rparr>,
       psp_RequiredPromises = [], psp_Dependencies = [],
       psp_DestinationSelectors = [\<lparr>ps_MatchLabels = fmupd ''env'' ''dev'' fmempty\<rparr>, \<lparr>ps_MatchLabels = fmupd ''env'' ''prod'' fmempty\<rparr>]\<rparr>,
     p_Status = \<lparr>pst_Conditions = [], pst_Version = [], pst_ObservedGeneration = 0, pst_Kind = [], pst_APIVersion = [],
       pst_Status = [], pst_Workflows = 0, pst_WorkflowsSucceeded = 0, pst_WorkflowsFailed = 0, pst_RequiredPromises = [],
       pst_RequiredBy = [], pst_LastAvailableTime = None\<rparr>\<rparr>"

theorem Squash_is_GetSchedulingSelectors_witness:
  "SquashPromiseScheduling (psp_DestinationSelectors (p_Spec ex_promise)) = Some (GetSchedulingSelectors plain_lib ex_promise) \<and>
   lget (GetSchedulingSelectors plain_lib ex_promise) ''env'' = ''dev''"
  using Squash_is_GetSchedulingSelectors [OF plain_merge_laws, of ex_promise]
  by (simp add: ex_promise_def GetSchedulingSelectors_def generateLabelSelectorsFromScheduling_def plain_lib_def)

subsection \<open>The length limit of resource names\<close>

definition metadata_schema :: "schema_props \<Rightarrow> schema_props option" where
  "metadata_schema s = (case sp_Properties s of None \<Rightarrow> None | Some m \<Rightarrow> map_of m ''metadata'')"

definition name_limit :: "schema_props \<Rightarrow> int option" where
  "name_limit s = (case metadata_schema s of
     None \<Rightarrow> None
   | Some md \<Rightarrow> (case sp_Properties md of None \<Rightarrow> None
       | Some m \<Rightarrow> (case map_of m ''name'' of None \<Rightarrow> None | Some n \<Rightarrow> sp_MaxLength n)))"

text \<open>C20. After \<open>ensureMetadataSchema\<close> names of resource requests are limited to 63 characters unless the schema
  declares its metadata without properties: then no limit is set, although the schema function means to add one.\<close>

theorem ensureMetadataSchema_limit:
  "name_limit (ensureMetadataSchema s) =
     (if \<exists>md. metadata_schema s = Some md \<and> sp_Properties md = None then None else Some MaxResourceNameLength)"
  by (auto simp: name_limit_def metadata_schema_def ensureMetadataSchema_def Let_def update_conv' split: option.splits)

subsection \<open>The shape of a pipeline's job\<close>

lemma returns_deref [simp]: "returns (deref x) R \<longleftrightarrow> (\<forall>v. x = Some v \<longrightarrow> R v)"
  by (simp add: deref_def split: option.split)

lemma returns_getenv: "returns (getenv n) (\<lambda>_. True)"
  by (simp add: getenv_def)

lemma returns_any: "returns p (\<lambda>_. True)"
  by (simp add: returns_def)

lemma container_names:
  "returns (readerContainer D p) (\<lambda>c. k_Name c = ''reader'')"
  "returns (workCreatorContainer D p) (\<lambda>c. k_Name c = ''work-writer'')"
  "returns (statusWriterContainer D p obj envs) (\<lambda>c. k_Name c = ''status-writer'' \<and> prefix envs (k_Env c))"
  unfolding readerContainer_def workCreatorContainer_def statusWriterContainer_def Let_def
  by (rule returns_bnd [OF returns_any] | simp (no_asm))+

text \<open>A user's container: Kratix's environment and mounts come before its own, and defaults fill what it leaves open.\<close>

definition user_container :: "PipelineDefaults \<Rightarrow> env_var list \<Rightarrow> Container \<Rightarrow> k8s_container" where
  "user_container D envs c =
     \<lparr>k_Name = ct_Name c, k_Image = ct_Image c, k_Args = ct_Args c, k_Command = ct_Command c,
      k_Env = envs @ ct_Env c, k_EnvFrom = ct_EnvFrom c,
      k_VolumeMounts = snd defaultPipelineVolumes @ ct_VolumeMounts c,
      k_ImagePullPolicy = (if ct_ImagePullPolicy c = [] then DefaultImagePullPolicy D else ct_ImagePullPolicy c),
      k_SecurityContext = (case ct_SecurityContext c of
          None \<Rightarrow> DefaultUserProvidedContainersSecurityContext D | Some s \<Rightarrow> Some s)\<rparr>"

lemma pipelineContainers_result:
  "returns (pipelineContainers D p) (\<lambda>(cs, vs). \<exists>envs. cs = map (user_container D envs) (pl_Containers (pi_Spec (pf_Pipeline p))) \<and>
     vs = fst defaultPipelineVolumes @ pl_Volumes (pi_Spec (pf_Pipeline p)))"
  unfolding pipelineContainers_def Let_def
  by (auto intro!: returns_bnd [OF returns_any] exI simp: split_beta user_container_def)

definition job_shape :: "PipelineDefaults \<Rightarrow> PipelineFactory \<Rightarrow> service_account \<Rightarrow> env_var list \<Rightarrow> job \<Rightarrow> bool" where
  "job_shape D p sa jobEnv job \<longleftrightarrow>
     (let tpl = j_Template job; cs = pl_Containers (pi_Spec (pf_Pipeline p)) in
      \<exists>envs reader writer status. k_Name reader = ''reader'' \<and> k_Name writer = ''work-writer'' \<and> k_Name status = ''status-writer'' \<and>
      prefix jobEnv (k_Env status) \<and>
      (pf_WorkflowAction p = WorkflowActionConfigure \<longrightarrow>
         pt_InitContainers tpl = reader # map (user_container D envs) cs @ [writer] \<and> pt_Containers tpl = [status]) \<and>
      (pf_WorkflowAction p = WorkflowActionDelete \<longrightarrow> cs \<noteq> [] \<and>
         pt_InitContainers tpl = reader # map (user_container D envs) (butlast cs) \<and>
         pt_Containers tpl = [user_container D envs (last cs)]) \<and>
      pt_ServiceAccountName tpl = m_Name (sa_meta sa) \<and> pt_Labels tpl = m_Labels (j_meta job) \<and>
      m_Namespace (j_meta job) = pf_Namespace p)"

lemma jobContainers_result:
  "returns (jobContainers action reader pcs workCreator statusWriter) (\<lambda>(ics, cs).
     (action = WorkflowActionConfigure \<longrightarrow> ics = reader # pcs @ [workCreator] \<and> cs = [statusWriter]) \<and>
     (action = WorkflowActionDelete \<longrightarrow> pcs \<noteq> [] \<and> ics = reader # butlast pcs \<and> cs = [last pcs]))"
  by (simp add: jobContainers_def consts_defs)

lemma owner_meta:
  assumes "owner_laws L" and "L_SetControllerReference L owner m = Inr m'"
  shows "m_Labels m' = m_Labels m" "m_Namespace m' = m_Namespace m" "m_Name m' = m_Name m" "m_Finalizers m' = m_Finalizers m"
  using assms unfolding owner_laws_def by fastforce+

lemma job_shapeI:
  assumes "owner_laws L" and "L_SetControllerReference L owner (empty_meta\<lparr>m_Name := n, m_Namespace := pf_Namespace p, m_Labels := ls\<rparr>) = Inr m"
    and "k_Name reader = ''reader''" "k_Name writer = ''work-writer''" "k_Name status = ''status-writer''" "prefix jobEnv (k_Env status)"
    and "pf_WorkflowAction p = WorkflowActionConfigure \<longrightarrow>
       ics = reader # map (user_container D envs) (pl_Containers (pi_Spec (pf_Pipeline p))) @ [writer] \<and> cs = [status]"
    and "pf_WorkflowAction p = WorkflowActionDelete \<longrightarrow> pl_Containers (pi_Spec (pf_Pipeline p)) \<noteq> [] \<and>
       ics = reader # butlast (map (user_container D envs) (pl_Containers (pi_Spec (pf_Pipeline p)))) \<and>
       cs = [last (map (user_container D envs) (pl_Containers (pi_Spec (pf_Pipeline p))))]"
    and "j_meta job = m" "pt_InitContainers (j_Template job) = ics" "pt_Containers (j_Template job) = cs"
      "pt_ServiceAccountName (j_Template job) = m_Name (sa_meta sa)" "pt_Labels (j_Template job) = ls"
  shows "job_shape D p sa jobEnv job"
  unfolding job_shape_def Let_def using assms(3-) owner_meta [OF assms(1,2)]
  by (intro exI [of _ envs] exI [of _ reader] exI [of _ writer] exI [of _ status]) (auto simp: map_butlast last_map)

lemma pipelineJob_result:
  assumes "owner_laws L"
  shows "returns (pipelineJob L D p cm sa envs) (\<lambda>r. \<forall>job. r = Inr job \<longrightarrow> job_shape D p sa envs job)"
  unfolding pipelineJob_def Let_def
  by (rule returns_bnd [OF container_names(1)] returns_bnd [OF pipelineContainers_result]
        returns_bnd [OF container_names(2)] returns_bnd [OF container_names(3)] returns_bnd [OF jobContainers_result]
      | rule returns_bnd [OF returns_any]
      | clarsimp split: sum.split split del: if_split
      | (rule job_shapeI [OF assms], assumption+, simp_all))+

lemma Resources_job:
  assumes "owner_laws L"
  shows "returns (Resources L D p jobEnv) (\<lambda>r. \<forall>res. r = Inr res \<longrightarrow>
    pj_Name res = pipeline_name (pf_Pipeline p) \<and> pj_WorkflowType res = pf_WorkflowType p \<and>
    pj_WorkflowAction res = pf_WorkflowAction p \<and> job_shape D p (factoryServiceAccount p) jobEnv (pj_Job res))"
  unfolding Resources_def Let_def
  by (rule returns_bnd [OF pipelineJob_result [OF assms]]
      | rule returns_bnd [OF returns_any]
      | clarsimp split: sum.split)+

subsection \<open>Permissions stay in their namespace\<close>

text \<open>The namespace a cluster role of a user's permissions is meant for (\<open>None\<close>: Kratix's own role).\<close>

definition role_namespace :: "role \<Rightarrow> string option" where
  "role_namespace r = fmlookup (m_Labels (ro_meta r)) UserPermissionResourceNamespaceLabel"

definition namespace_label :: "string \<Rightarrow> string" where
  "namespace_label ns = (if ns = ''*'' then userPermissionResourceNamespaceLabelAll else ns)"

lemma namespaceRules_lookup:
  "map_of (namespaceRules perms) ns =
     (let rs = map pm_PolicyRule (filter (\<lambda>r. pm_ResourceNamespace r = ns) perms)
      in if ns = [] \<or> rs = [] then None else Some rs)"
proof (induction perms rule: rev_induct)
  case Nil
  then show ?case by (simp add: namespaceRules_def)
next
  case (snoc r perms)
  then show ?case
    by (auto simp: namespaceRules_def update_conv' Let_def split: option.splits if_splits)
qed

lemma distinct_namespaceRules: "distinct (map fst (namespaceRules perms))"
proof (induction perms rule: rev_induct)
  case (snoc r perms)
  then show ?case by (auto simp: namespaceRules_def intro: distinct_update)
qed (simp add: namespaceRules_def)

text \<open>The cluster roles made from a pipeline's permissions are one per namespace named in them, with that
  namespace as its label and exactly the rules asked for there, beside Kratix's own role of a promise workflow.\<close>

definition permission_roles :: "PipelineFactory \<Rightarrow> role list \<Rightarrow> bool" where
  "permission_roles p crs \<longleftrightarrow>
     (\<forall>cr\<in>set crs. role_namespace cr \<noteq> None \<longrightarrow> (\<exists>ns. ns \<noteq> [] \<and> role_namespace cr = Some (namespace_label ns) \<and>
        ro_Rules cr = map pm_PolicyRule (filter (\<lambda>r. pm_ResourceNamespace r = ns) (pl_Permissions (pi_Spec (pf_Pipeline p)))))) \<and>
     (\<forall>r\<in>set (pl_Permissions (pi_Spec (pf_Pipeline p))). pm_ResourceNamespace r \<noteq> [] \<longrightarrow>
        (\<exists>cr\<in>set crs. role_namespace cr = Some (namespace_label (pm_ResourceNamespace r)) \<and>
           pm_PolicyRule r \<in> set (ro_Rules cr)))"

lemma range_map_returns: "distinct (map fst m) \<Longrightarrow> returns (range_map m) (\<lambda>m'. mset m' = mset m)"
  unfolding returns_def by (rule wpre_mono [OF range_map_result]) auto

lemma role_namespace_simps [simp]:
  "role_namespace \<lparr>ro_meta = m\<lparr>m_Labels := fmupd UserPermissionResourceNamespaceLabel ns l\<rparr>, ro_Rules = rs\<rparr> = Some ns"
  "role_namespace \<lparr>ro_meta = m\<lparr>m_Labels := promiseNameLabel n\<rparr>, ro_Rules = rs\<rparr> = None"
  by (simp_all add: role_namespace_def promiseNameLabel_def consts_defs)

definition role_for :: "string \<times> policy_rule list \<Rightarrow> role \<Rightarrow> bool" where
  "role_for nr cr \<longleftrightarrow> role_namespace cr = Some (namespace_label (fst nr)) \<and> ro_Rules cr = snd nr"

lemma namespaceClusterRole_result: "returns (namespaceClusterRole L p nr) (role_for nr)"
  unfolding namespaceClusterRole_def Let_def
  by (auto intro!: returns_bnd [OF returns_any] simp: role_for_def namespace_label_def split: prod.splits)

lemma kratixClusterRoles_namespace: "cr \<in> set (kratixClusterRoles p) \<Longrightarrow> role_namespace cr = None"
  by (auto simp: kratixClusterRoles_def split: if_splits)

lemma permission_roles_from:
  assumes "mset order = mset (namespaceRules (pl_Permissions (pi_Spec (pf_Pipeline p))))" and "list_all2 role_for order rs"
  shows "permission_roles p (kratixClusterRoles p @ rs)"
proof -
  let ?perms = "pl_Permissions (pi_Spec (pf_Pipeline p))"
  have in_order: "(ns, rules) \<in> set order \<longleftrightarrow> ns \<noteq> [] \<and> rules \<noteq> [] \<and>
      rules = map pm_PolicyRule (filter (\<lambda>r. pm_ResourceNamespace r = ns) ?perms)" for ns rules
    using mset_eq_setD [OF assms(1)] map_of_eq_Some_iff [OF distinct_namespaceRules, of ?perms ns rules]
    by (auto simp: namespaceRules_lookup Let_def split: if_splits)
  have some: "\<exists>cr\<in>set rs. role_for nr cr" if "nr \<in> set order" for nr
    using assms(2) that by (induction rule: list_all2_induct) auto
  have only: "\<exists>nr\<in>set order. role_for nr cr" if "cr \<in> set rs" for cr
    using assms(2) that by (induction rule: list_all2_induct) auto
  have "\<exists>cr\<in>set rs. role_namespace cr = Some (namespace_label (pm_ResourceNamespace r)) \<and> pm_PolicyRule r \<in> set (ro_Rules cr)"
    if "r \<in> set ?perms" "pm_ResourceNamespace r \<noteq> []" for r
  proof -
    have "(pm_ResourceNamespace r, map pm_PolicyRule (filter (\<lambda>x. pm_ResourceNamespace x = pm_ResourceNamespace r) ?perms)) \<in> set order"
      using that by (subst in_order) (auto simp: filter_empty_conv)
    from some [OF this] that(1) show ?thesis by (auto simp: role_for_def)
  qed
  moreover have "\<exists>ns. ns \<noteq> [] \<and> role_namespace cr = Some (namespace_label ns) \<and>
      ro_Rules cr = map pm_PolicyRule (filter (\<lambda>r. pm_ResourceNamespace r = ns) ?perms)" if "cr \<in> set rs" for cr
    using only [OF that] in_order by (auto simp: role_for_def)
  ultimately show ?thesis
    unfolding permission_roles_def by (auto dest: kratixClusterRoles_namespace)
qed

lemma factoryClusterRole_result: "returns (factoryClusterRole L p) (permission_roles p)"
proof (cases "hasUserPermissions (pf_Pipeline p)")
  case True
  have "returns (after_loop (for_range order (kratixClusterRoles p) (\<lambda>nr crs.
      bnd (namespaceClusterRole L p nr) (\<lambda>cr. Ret (Next (crs @ [cr]))))) (\<lambda>crs. Ret crs)) (permission_roles p)"
    if "mset order = mset (namespaceRules (pl_Permissions (pi_Spec (pf_Pipeline p))))" for order
    by (rule returns_after_loop, rule returns_for_range [where I = "\<lambda>pre crs. \<exists>rs. crs = kratixClusterRoles p @ rs \<and> list_all2 role_for pre rs"])
      (auto intro!: returns_bnd [OF namespaceClusterRole_result] list_all2_appendI permission_roles_from [OF that])
  then show ?thesis
    unfolding factoryClusterRole_def using True
    by (auto intro!: returns_bnd [OF range_map_returns [OF distinct_namespaceRules]])
next
  case False
  then show ?thesis
    by (auto simp: factoryClusterRole_def hasUserPermissions_def permission_roles_def dest: kratixClusterRoles_namespace)
qed

definition binds_cluster_role :: "service_account \<Rightarrow> role_binding \<Rightarrow> role \<Rightarrow> bool" where
  "binds_cluster_role sa b cr \<longleftrightarrow> rb_RoleRef b = rbac_ref ''ClusterRole'' (m_Name (ro_meta cr)) \<and> rb_Subjects b = [sa_subject sa]"

lemma factoryClusterRoleBinding_result:
  "returns (factoryClusterRoleBinding L p crs sa) (\<lambda>bs. \<forall>b\<in>set bs. \<exists>cr\<in>set crs. binds_cluster_role sa b cr \<and>
     role_namespace cr \<in> {None, Some userPermissionResourceNamespaceLabelAll})"
  unfolding factoryClusterRoleBinding_def Let_def
  by (rule returns_after_loop, rule returns_for_range [where I = "\<lambda>pre bs. \<forall>b\<in>set bs. \<exists>cr\<in>set crs. binds_cluster_role sa b cr \<and>
     role_namespace cr \<in> {None, Some userPermissionResourceNamespaceLabelAll}"])
    (fastforce intro!: returns_bnd [OF returns_any] simp: binds_cluster_role_def role_namespace_def split: option.splits)+

text \<open>What the role bindings of a pipeline bind: its roles in its own namespace, and each cluster role that is
  meant for one namespace there.\<close>

definition scoped_bindings :: "service_account \<Rightarrow> role list \<Rightarrow> role_binding list \<Rightarrow> bool" where
  "scoped_bindings sa crs bs \<longleftrightarrow>
     (\<forall>b\<in>set bs. rb_Subjects b = [sa_subject sa] \<and> (rr_Kind (rb_RoleRef b) = ''ClusterRole'' \<longrightarrow>
        (\<exists>cr\<in>set crs. binds_cluster_role sa b cr \<and> role_namespace cr = Some (m_Namespace (rb_meta b)) \<and>
           m_Namespace (rb_meta b) \<noteq> userPermissionResourceNamespaceLabelAll))) \<and>
     (\<forall>cr\<in>set crs. \<forall>ns. role_namespace cr = Some ns \<longrightarrow> ns \<noteq> userPermissionResourceNamespaceLabelAll \<longrightarrow>
        (\<exists>b\<in>set bs. binds_cluster_role sa b cr \<and> m_Namespace (rb_meta b) = ns))"

lemma scoped_bindings_snoc:
  assumes "scoped_bindings sa crs bs"
  shows "role_namespace cr = None \<Longrightarrow> scoped_bindings sa (crs @ [cr]) bs"
    and "role_namespace cr = Some userPermissionResourceNamespaceLabelAll \<Longrightarrow> scoped_bindings sa (crs @ [cr]) bs"
    and "role_namespace cr = Some ns \<Longrightarrow> ns \<noteq> userPermissionResourceNamespaceLabelAll \<Longrightarrow>
      binds_cluster_role sa b cr \<Longrightarrow> m_Namespace (rb_meta b) = ns \<Longrightarrow> scoped_bindings sa (crs @ [cr]) (bs @ [b])"
  using assms unfolding scoped_bindings_def binds_cluster_role_def by (auto 0 3)

lemma factoryRoleBindings_result: "returns (factoryRoleBindings L p roles crs sa) (scoped_bindings sa crs)"
  unfolding factoryRoleBindings_def Let_def
proof (rule returns_after_loop, rule returns_for_range [where I = "scoped_bindings sa"], goal_cases)
  case 1
  show ?case by (auto simp: scoped_bindings_def rbac_ref_def)
next
  case (2 pre cr rest bs)
  show ?case
  proof (cases "role_namespace cr")
    case None
    then show ?thesis using scoped_bindings_snoc(1) [OF 2(2)] by (simp add: role_namespace_def)
  next
    case (Some ns)
    then show ?thesis
      using scoped_bindings_snoc(2,3) [OF 2(2)]
      by (auto intro!: returns_bnd [OF returns_any] simp: role_namespace_def binds_cluster_role_def)
  qed
qed simp

text \<open>C32. A pipeline gets no more than it asks for: its permissions for a namespace end up in a cluster role with
  exactly these rules that is bound in this namespace only; nothing but Kratix's own role and the permissions for
  all namespaces is bound cluster-wide; every binding is for the pipeline's service account alone.\<close>

theorem Resources_permissions_scoped:
  assumes "exec (Resources L D p jobEnv) t (Returned (Inr res))"
  shows "\<exists>sa. sh_ServiceAccount (pj_Shared res) = Some sa \<and> sa = factoryServiceAccount p \<and>
    permission_roles p (sh_ClusterRoles (pj_Shared res)) \<and>
    scoped_bindings sa (sh_ClusterRoles (pj_Shared res)) (sh_RoleBindings (pj_Shared res)) \<and>
    (\<forall>b\<in>set (sh_ClusterRoleBindings (pj_Shared res)). \<exists>cr\<in>set (sh_ClusterRoles (pj_Shared res)).
       binds_cluster_role sa b cr \<and> role_namespace cr \<in> {None, Some userPermissionResourceNamespaceLabelAll})"
proof -
  have "returns (Resources L D p jobEnv) (\<lambda>r. \<forall>res. r = Inr res \<longrightarrow>
     sh_ServiceAccount (pj_Shared res) = Some (factoryServiceAccount p) \<and>
     permission_roles p (sh_ClusterRoles (pj_Shared res)) \<and>
     scoped_bindings (factoryServiceAccount p) (sh_ClusterRoles (pj_Shared res)) (sh_RoleBindings (pj_Shared res)) \<and>
     (\<forall>b\<in>set (sh_ClusterRoleBindings (pj_Shared res)). \<exists>cr\<in>set (sh_ClusterRoles (pj_Shared res)).
       binds_cluster_role (factoryServiceAccount p) b cr \<and>
       role_namespace cr \<in> {None, Some userPermissionResourceNamespaceLabelAll}))"
    unfolding Resources_def Let_def
    by (rule returns_bnd [OF factoryClusterRole_result] returns_bnd [OF factoryClusterRoleBinding_result]
          returns_bnd [OF factoryRoleBindings_result]
        | rule returns_bnd [OF returns_any]
        | clarsimp split: sum.split)+
  from returnsD [OF this assms] show ?thesis by simp
qed

subsection \<open>The pipelines of a workflow\<close>

lemma range_map_set: "distinct (map fst m) \<Longrightarrow> returns (range_map m) (\<lambda>m'. set m' = set m \<and> distinct (map fst m'))"
  by (rule returns_mono [OF range_map_returns]) (metis mset_map mset_eq_setD mset_eq_imp_distinct_iff)+

definition parsed :: "lib \<Rightarrow> (string \<times> unstructured list) list \<Rightarrow> (string \<Rightarrow> Pipeline list) \<Rightarrow> bool" where
  "parsed L actions m \<longleftrightarrow> (\<forall>x\<in>set actions. PipelinesFromUnstructured L (snd x) = Inr (m (fst x)))"

lemma parsed_snoc:
  "parsed L pre m \<Longrightarrow> PipelinesFromUnstructured L us = Inr ps \<Longrightarrow> a \<notin> fst ` set pre \<Longrightarrow>
   parsed L (pre @ [(a, us)]) (m(a := ps))"
  by (fastforce simp: parsed_def)

lemma parseWorkflowActions_result:
  assumes "distinct (map fst actions)"
  shows "returns (parseWorkflowActions L typ actions m) (\<lambda>l. case l of
      Next m' \<Rightarrow> parsed L actions (m' typ) \<and> (\<forall>t. t \<noteq> typ \<longrightarrow> m' t = m t)
    | Leave b \<Rightarrow> \<exists>e. b = Inl e)"
proof -
  have "returns (for_range order m (parseWorkflowAction L typ))
    (\<lambda>l. case l of Next m' \<Rightarrow> parsed L actions (m' typ) \<and> (\<forall>t. t \<noteq> typ \<longrightarrow> m' t = m t) | Leave b \<Rightarrow> \<exists>e. b = Inl e)"
    if "set order = set actions" "distinct (map fst order)" for order
    by (rule returns_for_range [where I = "\<lambda>pre m'. parsed L pre (m' typ) \<and> (\<forall>t. t \<noteq> typ \<longrightarrow> m' t = m t)"])
      (use that in \<open>auto simp: parsed_def [of L "[]"] parsed_def [of L order] parsed_def [of L actions] parseWorkflowAction_def
        intro!: parsed_snoc split: sum.splits\<close>)
  then show ?thesis
    unfolding parseWorkflowActions_def by (intro returns_bnd [OF range_map_set [OF assms]]) simp
qed

text \<open>The pipelines a promise declares for a workflow.\<close>

definition workflow_pipelines :: "Promise \<Rightarrow> string \<Rightarrow> string \<Rightarrow> unstructured list" where
  "workflow_pipelines p typ action =
     (let w = (if typ = WorkflowTypeResource then psp_WorkflowsResource (p_Spec p) else psp_WorkflowsPromise (p_Spec p))
      in if action = WorkflowActionConfigure then wt_Configure w else wt_Delete w)"

lemma NewPipelinesMap_result:
  "returns (NewPipelinesMap L p) (\<lambda>r. \<forall>m. r = Inr m \<longrightarrow> (\<forall>x\<in>set (unstructuredMap p). parsed L (snd x) (m (fst x))))"
proof -
  have types: "distinct (map fst (unstructuredMap p))"
    and acts: "\<And>x. x \<in> set (unstructuredMap p) \<Longrightarrow> distinct (map fst (snd x))"
    by (auto simp: unstructuredMap_def consts_defs)
  have "returns (after_loop
       (for_range order (\<lambda>_ _. []) (\<lambda>x. parseWorkflowActions L (fst x) (snd x)))
       (\<lambda>pipelinesMap. Ret (Inr pipelinesMap))) (\<lambda>r. \<forall>m. r = Inr m \<longrightarrow> (\<forall>x\<in>set order. parsed L (snd x) (m (fst x))))"
    if order: "set order = set (unstructuredMap p)" "distinct (map fst order)" for order
  proof (rule returns_after_loop, rule returns_for_range [where I = "\<lambda>pre m. \<forall>x\<in>set pre. parsed L (snd x) (m (fst x))"], goal_cases)
    case (2 pre x rest m)
    have x: "distinct (map fst (snd x))" using order(1) 2(1) acts [of x] by auto
    have "fst x \<notin> fst ` set pre" using order(2) 2(1) by auto
    then have old: "fst y \<noteq> fst x" if "y \<in> set pre" for y using that by (metis image_eqI)
    have "\<forall>y\<in>set (pre @ [x]). parsed L (snd y) (m' (fst y))"
      if "parsed L (snd x) (m' (fst x))" "\<forall>t. t \<noteq> fst x \<longrightarrow> m' t = m t" for m'
      using that 2(2) old by simp
    then show ?case
      by (intro returns_mono [OF parseWorkflowActions_result [OF x]]) (simp split: loop.splits, blast)
  qed auto
  then show ?thesis
    unfolding NewPipelinesMap_def by (auto intro!: returns_bnd [OF range_map_set [OF types]])
qed

text \<open>The objects made for the pipeline at one position of its workflow.\<close>

definition resources_for ::
  "PipelineDefaults \<Rightarrow> string \<Rightarrow> string \<Rightarrow> nat \<Rightarrow> nat \<times> Pipeline \<Rightarrow> PipelineJobResources \<Rightarrow> bool" where
  "resources_for D typ action n ip r \<longleftrightarrow>
     pj_Name r = pipeline_name (snd ip) \<and> pj_WorkflowType r = typ \<and> pj_WorkflowAction r = action \<and>
     (\<exists>f. pf_Pipeline f = snd ip \<and> pf_WorkflowAction f = action \<and>
        job_shape D f (factoryServiceAccount f) [env ''IS_LAST_PIPELINE'' (formatBool (Suc (fst ip) = n))] (pj_Job r))"

lemma pipelineFactoryFor_result:
  assumes "workflowType \<in> {WorkflowTypeResource, WorkflowTypePromise}"
  shows "returns (pipelineFactoryFor L p workflowType action rr pipe) (\<lambda>f. pf_Pipeline f = pipe \<and> pf_WorkflowAction f = action \<and>
    pf_WorkflowType f = workflowType)"
  using assms unfolding pipelineFactoryFor_def ForResource_def
  by (auto intro!: returns_bnd [OF returns_any] simp: ForPromise_def split_beta Let_def)

lemma generatePipelinesObjects_result:
  assumes "owner_laws L" and "exec (generatePipelinesObjects L D p typ action rr) t (Returned (Inr rs))"
    and "typ \<in> {WorkflowTypeResource, WorkflowTypePromise}" and "action \<in> {WorkflowActionConfigure, WorkflowActionDelete}"
  shows "\<exists>ps. PipelinesFromUnstructured L (workflow_pipelines p typ action) = Inr ps \<and>
    list_all2 (resources_for D typ action (length ps)) (zip [0..<length ps] ps) rs"
proof -
  have last: "(int i = int n - 1) = (Suc i = n)" for i n by auto
  have step: "returns (generatePipelineObjects L D p typ action rr n ip rs) (\<lambda>l. case l of
      Next rs' \<Rightarrow> \<exists>r. rs' = rs @ [r] \<and> resources_for D typ action n ip r | Leave b \<Rightarrow> \<exists>e. b = Inl e)" for n ip rs
    unfolding generatePipelineObjects_def Let_def
    by (cases ip, simp only: prod.case)
      (rule returns_bnd [OF pipelineFactoryFor_result [OF assms(3)]], rule returns_bnd [OF Resources_job [OF assms(1)]],
        auto simp: resources_for_def last split: sum.splits)
  have loop: "returns (after_loop (for_range (zip [0..<length ps] ps) [] (generatePipelineObjects L D p typ action rr (length ps)))
       (\<lambda>allResources. Ret (Inr allResources)))
     (\<lambda>r. \<forall>rs. r = Inr rs \<longrightarrow> list_all2 (resources_for D typ action (length ps)) (zip [0..<length ps] ps) rs)" for ps
    by (rule returns_after_loop, rule returns_for_range [where I = "list_all2 (resources_for D typ action (length ps))"])
      (auto intro!: returns_mono [OF step] list_all2_appendI split: loop.splits)
  have "(typ, [(WorkflowActionConfigure, workflow_pipelines p typ WorkflowActionConfigure),
      (WorkflowActionDelete, workflow_pipelines p typ WorkflowActionDelete)]) \<in> set (unstructuredMap p)"
    using assms(3) by (auto simp: unstructuredMap_def workflow_pipelines_def consts_defs)
  then have parse: "PipelinesFromUnstructured L (workflow_pipelines p typ action) = Inr (m typ action)"
    if "\<forall>x\<in>set (unstructuredMap p). parsed L (snd x) (m (fst x))" for m
    using that assms(4) unfolding parsed_def by fastforce
  have "returns (generatePipelinesObjects L D p typ action rr) (\<lambda>r. \<forall>rs. r = Inr rs \<longrightarrow>
     (\<exists>ps. PipelinesFromUnstructured L (workflow_pipelines p typ action) = Inr ps \<and>
       list_all2 (resources_for D typ action (length ps)) (zip [0..<length ps] ps) rs))"
    unfolding generatePipelinesObjects_def Let_def
    by (rule returns_bnd [OF NewPipelinesMap_result]) (auto intro!: returns_mono [OF loop] dest: parse split: sum.split)
  from returnsD [OF this assms(2)] show ?thesis by simp
qed

text \<open>C35. Generating the objects of a workflow keeps the promise's order: the result has one entry per pipeline of that workflow,
  in order, made from that pipeline, and only the job of the last one is told that it is the last.\<close>

theorem generatePipelinesObjects_ordered:
  assumes "owner_laws L" and "exec (generatePipelinesObjects L D p typ action rr) t (Returned (Inr rs))"
    and "typ \<in> {WorkflowTypeResource, WorkflowTypePromise}" and "action \<in> {WorkflowActionConfigure, WorkflowActionDelete}"
  shows "\<exists>ps. PipelinesFromUnstructured L (workflow_pipelines p typ action) = Inr ps \<and>
    list_all2 (resources_for D typ action (length ps)) (zip [0..<length ps] ps) rs"
  using assms by (rule generatePipelinesObjects_result)

lemma PipelinesFromUnstructured_Nil: "PipelinesFromUnstructured L us = Inr [] \<Longrightarrow> us = []"
  by (cases "(L, us)" rule: PipelinesFromUnstructured.cases) (auto split: if_splits sum.splits)

lemma generated_none:
  assumes "owner_laws L" and "exec (generatePipelinesObjects L D p typ action rr) t (Returned (Inr []))"
    and "typ \<in> {WorkflowTypeResource, WorkflowTypePromise}" and "action \<in> {WorkflowActionConfigure, WorkflowActionDelete}"
  shows "workflow_pipelines p typ action = []"
  using generatePipelinesObjects_result [OF assms] PipelinesFromUnstructured_Nil by auto

subsection \<open>Footprints\<close>

text \<open>Making the resources of a pipeline asks for names, environment variables and the order of maps only.\<close>

fun asks_locally :: "req \<Rightarrow> bool" where
  "asks_locally NewUUID = True"
| "asks_locally (Getenv v) = True"
| "asks_locally (RangeOrder ks) = True"
| "asks_locally q = False"

lemma only_trimName: "only P (trimName s)"
proof (induction s rule: trimName.induct)
  case (1 name)
  then show ?case unfolding trimName.simps [of name] by (auto intro!: only_intros)
qed

lemma local_names:
  "only asks_locally (GenerateObjectName s)" "only P (GenerateDeterministicObjectName L s)" "only P (GetAPI L p)"
  unfolding GenerateObjectName_def GenerateDeterministicObjectName_def GetAPI_def processName_def slice_to_def Let_def
  by (auto intro!: only_intros only_trimName split: sum.split option.split)

lemma local_parts:
  "only P (getObjAndHash L p)" "only P (defaultVolumes p cm)" "only P (defaultEnvVars p)" "only P (configMap L p s)"
  "only asks_locally (readerContainer D p)" "only asks_locally (workCreatorContainer D p)"
  "only P (pipelineContainers D p)" "only asks_locally (statusWriterContainer D p u vs)"
  "only asks_locally (pipelineJobName p)" "only P (pipelineJobLabels L p h)" "only P (jobContainers x a b c d)"
  "only P (factoryRole L p)" "only asks_locally (factoryRoleBindings L p rs cs sa)" "only asks_locally (namespaceClusterRole L p nr)"
  unfolding getObjAndHash_def defaultVolumes_def defaultEnvVars_def configMap_def readerContainer_def workCreatorContainer_def getenv_def
    pipelineContainers_def statusWriterContainer_def pipelineJobName_def pipelineJobLabels_def jobContainers_def factoryRole_def
    factoryRoleBindings_def namespaceClusterRole_def Let_def
  by (auto intro!: only_intros local_names split: sum.split option.split list.split prod.split)

lemma local_Resources: "only asks_locally (Resources L D p envs)"
  unfolding Resources_def pipelineJob_def factoryClusterRole_def factoryClusterRoleBinding_def Let_def
  by (auto intro!: only_intros local_parts local_names only_range_map simp: getenv_def split: sum.split option.split prod.split)

lemma local_generatePipelinesObjects: "only asks_locally (generatePipelinesObjects L D p ty ac rr)"
  unfolding generatePipelinesObjects_def NewPipelinesMap_def parseWorkflowActions_def parseWorkflowAction_def generatePipelineObjects_def
    pipelineFactoryFor_def ForResource_def Let_def
  by (auto intro!: only_intros local_Resources local_names only_range_map split: sum.split option.split prod.split)
definition ex_defaults :: PipelineDefaults where
  "ex_defaults = \<lparr>DefaultUserProvidedContainersSecurityContext = None, DefaultImagePullPolicy = ''Always'', DefaultJobBackoffLimit = None\<rparr>"

lemmas factory_eval = generatePipelinesObjects_def NewPipelinesMap_def unstructuredMap_def parseWorkflowActions_def
  parseWorkflowAction_def after_loop_def generatePipelineObjects_def pipelineFactoryFor_def Resources_def
  configMap_def factoryServiceAccount_def pipelineJob_def getObjAndHash_def ComputeHashForResource_def getenv_def
  readerContainer_def pipelineContainers_def workCreatorContainer_def statusWriterContainer_def defaultVolumes_def
  defaultPipelineVolumes_def defaultEnvVars_def jobContainers_def pipelineJobName_def pipelineJobLabels_def
  factoryClusterRole_def factoryClusterRoleBinding_def factoryRole_def factoryRoleBindings_def
  kratixClusterRoles_def hasUserPermissions_def GenerateObjectName_def slice_to_def api_version_def
  deref_def ForPromise_def promise_name_def pipeline_name_def u_name_def promiseNameLabel_def

theorem generatePipelinesObjects_ordered_witness:
  "\<exists>t r. exec (generatePipelinesObjects plain_lib ex_defaults ex_promise WorkflowTypePromise WorkflowActionConfigure None) t
       (Returned (Inr [r])) \<and>
     pj_Name r = ''one'' \<and> pj_WorkflowAction r = WorkflowActionConfigure"
proof -
  let ?p = "generatePipelinesObjects plain_lib ex_defaults ex_promise WorkflowTypePromise WorkflowActionConfigure None"
  have name: "(processName ''kratix-redis-one'' :: (req, resp, string) prog) = Ret ''kratix-redis-one''"
    by (simp add: processName_def maxNameLength_def trimName.simps isAlphanumeric_def)
  have "\<exists>rs t. script ?p ([RStrs [''resource'', ''promise''], RStrs [''configure'', ''delete''], RStrs [''configure'', ''delete''],
      RStr [], RStr ''img'', RStr ''img'', RStr ''img'', RStr ''0a1b2c3d'']) = Some (t, Returned (Inr rs))"
    by (simp add: factory_eval ex_promise_def ex_defs range_map_def plain_lib_def consts_defs name Let_def)
  then obtain rs t where e: "exec ?p t (Returned (Inr rs))" using script_exec by blast
  from generatePipelinesObjects_ordered [OF plain_owner_laws e] e show ?thesis
    by (auto simp: workflow_pipelines_def ex_promise_def ex_defs plain_lib_def consts_defs api_version_def list_all2_Cons1
        resources_for_def pipeline_name_def)
qed

definition ex_pipeline :: Pipeline where
  "ex_pipeline = \<lparr>pi_meta = ex_meta ''one'', pi_Spec = \<lparr>pl_Containers = [], pl_Volumes = [], pl_ImagePullSecrets = [],
     pl_ServiceAccount = ''robot'', pl_Permissions = [\<lparr>pm_ResourceNamespace = ''apps'',
       pm_PolicyRule = \<lparr>pr_APIGroups = [[]], pr_Resources = [''secrets''], pr_Verbs = [''get''], pr_ResourceNames = [], pr_NonResourceURLs = []\<rparr>\<rparr>],
     pl_BackoffLimit = None, pl_NodeSelector = fmempty, pl_Tolerations = []\<rparr>\<rparr>"

theorem Resources_permissions_scoped_witness:
  "\<exists>t res b. exec (Resources plain_lib ex_defaults (ForPromise ex_pipeline ex_promise WorkflowActionConfigure) []) t (Returned (Inr res)) \<and>
     b \<in> set (sh_RoleBindings (pj_Shared res)) \<and> m_Namespace (rb_meta b) = ''apps''"
proof -
  let ?f = "ForPromise ex_pipeline ex_promise WorkflowActionConfigure"
  let ?p = "Resources plain_lib ex_defaults ?f []"
  have names: "(processName ''kratix-redis-one'' :: (req, resp, string) prog) = Ret ''kratix-redis-one''"
    "(processName ''redis-promise-configure-one-apps'' :: (req, resp, string) prog) = Ret ''redis-promise-configure-one-apps''"
    "(processName ''redis-promise-configure-one-kratix-platform-system'' :: (req, resp, string) prog) =
       Ret ''redis-promise-configure-one-kratix-platform-system''"
    by (simp_all add: processName_def maxNameLength_def trimName.simps isAlphanumeric_def)
  have "\<exists>res t. script ?p [RStr [], RStr ''img'', RStr ''img'', RStr ''img'', RStr ''0a1b2c3d'', RStrs [''apps'']] =
      Some (t, Returned (Inr res))"
    by (simp add: factory_eval namespaceRules_def namespaceClusterRole_def GenerateDeterministicObjectName_def ComputeHash_def
        userPermissionPipelineLabels_def UserPermissionPipelineResourcesLabels_def workflowLabels_def
        ex_pipeline_def ex_promise_def ex_defs range_map_def plain_lib_def consts_defs names Let_def)
  then obtain res t where e: "exec ?p t (Returned (Inr res))" using script_exec by blast
  have perm: "pl_Permissions (pi_Spec (pf_Pipeline ?f)) = pl_Permissions (pi_Spec ex_pipeline)" by (simp add: ForPromise_def)
  from Resources_permissions_scoped [OF e] obtain cr where "cr \<in> set (sh_ClusterRoles (pj_Shared res))"
      "role_namespace cr = Some ''apps''"
      "scoped_bindings (factoryServiceAccount ?f) (sh_ClusterRoles (pj_Shared res)) (sh_RoleBindings (pj_Shared res))"
    unfolding permission_roles_def perm
    by (auto simp: ex_pipeline_def namespace_label_def)
  with e show ?thesis unfolding scoped_bindings_def by (fastforce simp: consts_defs)
qed

end
