(* ===== verification/Workflow.thy ===== *)
theory Workflow
  imports ResourceUtil PipelineFactory
begin

text \<open>
  \<open>src/lib/workflow/reconciler.go\<close> and \<open>rbac.go\<close>: running a workflow's pipelines one after the other as
  Kubernetes jobs, and removing the permissions that are no longer wanted.

  The parent object (a promise or a resource request) is a pointer that the functions write through; they return it
  beside their Go results \<open>(abort, err)\<close>. The map printed in the error text of \<open>getJobsWithLabels\<close> is left out.
\<close>

subsection \<open>Options\<close>

record Opts =
  o_parentObject :: unstructured
  o_Resources :: "PipelineJobResources list"
  o_workflowType :: string
  o_numberOfJobsToKeep :: int
  o_SkipConditions :: bool

definition NewOpts :: "unstructured \<Rightarrow> PipelineJobResources list \<Rightarrow> string \<Rightarrow> int \<Rightarrow> Opts" where
  "NewOpts parentObj resources workflowType numberOfJobsToKeep =
     \<lparr>o_parentObject = parentObj, o_Resources = resources, o_workflowType = workflowType,
      o_numberOfJobsToKeep = numberOfJobsToKeep, o_SkipConditions = False\<rparr>"

definition minimumPeriodBetweenCreatingPipelineResources :: duration where
  "minimumPeriodBetweenCreatingPipelineResources = 1100000000"

definition ErrDeletePipelineFailed :: err where "ErrDeletePipelineFailed = EStr ''Delete Pipeline Failed''"

type_synonym result = "(bool \<times> err option) \<times> unstructured"

subsection \<open>Labels\<close>

definition isLabelSetToTrue :: "labels \<Rightarrow> string \<Rightarrow> bool" where
  "isLabelSetToTrue labels labelKey = (fmlookup labels labelKey = Some ''true'')"

definition isManualReconciliation :: "labels \<Rightarrow> bool" where
  "isManualReconciliation labels = isLabelSetToTrue labels ManualReconciliationLabel"

definition labelsForJobs :: "Opts \<Rightarrow> labels" where
  "labelsForJobs opts =
     (let l = fmupd WorkflowTypeLabel (o_workflowType opts) fmempty;
          promiseName = m_Name (u_meta (o_parentObject opts))
      in if prefix WorkflowTypeResource (o_workflowType opts)
         then fmupd PromiseNameLabel (lget (m_Labels (u_meta (o_parentObject opts))) PromiseNameLabel)
                (fmupd ResourceNameLabel (m_Name (u_meta (o_parentObject opts))) l)
         else fmupd PromiseNameLabel promiseName l)"

definition legacyLabelsForJobs :: "Opts \<Rightarrow> labels" where
  "legacyLabelsForJobs opts =
     (let l = fmupd WorkTypeLabel (o_workflowType opts) fmempty;
          promiseName = m_Name (u_meta (o_parentObject opts))
      in if o_workflowType opts = WorkTypeResource
         then fmupd PromiseNameLabel (lget (m_Labels (u_meta (o_parentObject opts))) PromiseNameLabel)
                (fmupd ResourceNameLabel (m_Name (u_meta (o_parentObject opts))) l)
         else fmupd PromiseNameLabel promiseName l)"

definition job_labels :: "job \<Rightarrow> labels" where "job_labels j = m_Labels (j_meta j)"

definition getLabelsForPipelineJob :: "PipelineJobResources \<Rightarrow> labels" where
  "getLabelsForPipelineJob pipeline = job_labels (pj_Job pipeline)"

definition labelsForAllPipelineJobs :: "PipelineJobResources \<Rightarrow> labels" where
  "labelsForAllPipelineJobs pipeline =
     (let pipelineLabels = job_labels (pj_Job pipeline);
          labels = fmupd PromiseNameLabel (lget pipelineLabels PromiseNameLabel) fmempty
      in if lget pipelineLabels ResourceNameLabel \<noteq> []
         then fmupd ResourceNameLabel (lget pipelineLabels ResourceNameLabel) labels else labels)"

subsection \<open>Jobs\<close>

definition jobIsForPipeline :: "PipelineJobResources \<Rightarrow> job option \<Rightarrow> bool" where
  "jobIsForPipeline pipeline job =
     (case job of
        None \<Rightarrow> False
      | Some job \<Rightarrow>
          let jobLabels = job_labels job; pipelineLabels = job_labels (pj_Job pipeline) in
          if lget jobLabels KratixResourceHashLabel \<noteq> lget pipelineLabels KratixResourceHashLabel then False
          else if lget jobLabels WorkflowTypeLabel \<noteq> lget pipelineLabels WorkflowTypeLabel then False
          else if lget jobLabels WorkflowActionLabel \<noteq> lget pipelineLabels WorkflowActionLabel then False
          else if lget jobLabels KratixPipelineHashLabel \<noteq> lget pipelineLabels KratixPipelineHashLabel then False
          else lget jobLabels PipelineNameLabel = lget pipelineLabels PipelineNameLabel)"

definition isFailed :: "job option \<Rightarrow> bool" where
  "isFailed job =
     (case job of
        None \<Rightarrow> False
      | Some job \<Rightarrow> list_ex (\<lambda>c. jc_Type c = JobFailed \<or> jc_Type c = JobSuspended) (j_Conditions job))"

definition isRunning :: "job option \<Rightarrow> bool" where
  "isRunning job =
     (case job of
        None \<Rightarrow> False
      | Some job \<Rightarrow>
          if j_Active job > 0 then True
          else \<not> list_ex (\<lambda>c. jc_Type c = JobComplete \<or> jc_Type c = JobSuspended \<or> jc_Type c = JobFailed)
                 (j_Conditions job))"

text \<open>The loop from the last pipeline down; the argument is one more than the index \<open>i\<close> of the source.\<close>

fun nextPipelineIndexFrom :: "PipelineJobResources list \<Rightarrow> job \<Rightarrow> nat \<Rightarrow> nat" where
  "nextPipelineIndexFrom resources job 0 = 0"
| "nextPipelineIndexFrom resources job (Suc i) =
     (if jobIsForPipeline (resources ! i) (Some job)
      then if isFailed (Some job) \<or> isRunning (Some job) then i else Suc i
      else nextPipelineIndexFrom resources job i)"

definition nextPipelineIndex :: "Opts \<Rightarrow> job option \<Rightarrow> nat" where
  "nextPipelineIndex opts mostRecentJob =
     (case mostRecentJob of
        None \<Rightarrow> 0
      | Some job \<Rightarrow>
          if isManualReconciliation (m_Labels (u_meta (o_parentObject opts))) then 0
          else nextPipelineIndexFrom (o_Resources opts) job (length (o_Resources opts)))"

definition suspendJob :: "job \<Rightarrow> (err option) go" where
  "suspendJob job = call_unit (Patch (OJob (job\<lparr>j_Suspend := Some True\<rparr>)))"

definition getJobsWithLabels :: "lib \<Rightarrow> labels \<Rightarrow> string \<Rightarrow> (err + job list) go" where
  "getJobsWithLabels L jobLabels namespace =
     (case L_ParseSelector L (L_FormatLabels L jobLabels) of
        Inl e \<Rightarrow> Ret (Inl (EWrap ''error parsing labels: '' e))
      | Inr selector \<Rightarrow> call_list (ListObjs KJob namespace (Some selector)) un_job)"

definition getMostRecentDeletePipelineJob :: "lib \<Rightarrow> string \<Rightarrow> PipelineJobResources \<Rightarrow> (err + job option) go" where
  "getMostRecentDeletePipelineJob L namespace pipeline =
     bnd (getJobsWithLabels L (getLabelsForPipelineJob pipeline) namespace) (\<lambda>r.
     case r of
       Inl e \<Rightarrow> Ret (Inl e)
     | Inr jobs \<Rightarrow>
         if jobs = [] then Ret (Inr None)
         else Ret (Inr (Some (hd (SortJobsByCreationDateTime L jobs False)))))"

subsection \<open>Applying and deleting objects\<close>

text \<open>The kind in an object's type metadata, as far as \<open>applyResources\<close> asks for it.\<close>

definition is_service_account :: "kobj \<Rightarrow> bool" where
  "is_service_account x = (case x of OServiceAccount sa \<Rightarrow> sa_Kind sa = ''ServiceAccount'' | _ \<Rightarrow> False)"

definition updateResource :: "kobj \<Rightarrow> unit go" where
  "updateResource x = bnd (call_unit (Update x)) (\<lambda>_. Ret ())"

definition applyResource :: "kobj \<Rightarrow> unit go" where
  "applyResource resource =
     bnd (call_unit (Create resource)) (\<lambda>e.
     case e of
       None \<Rightarrow> Ret ()
     | Some e \<Rightarrow>
         if IsAlreadyExists e then
           if is_service_account resource then
             bnd (call_obj (Get KServiceAccount (m_Namespace (meta_of resource)) (m_Name (meta_of resource))) un_sa) (\<lambda>r.
             case r of
               Inl e \<Rightarrow> Ret ()
             | Inr serviceAccount \<Rightarrow>
                 if fmlookup (m_Labels (sa_meta serviceAccount)) PromiseNameLabel = None then Ret ()
                 else updateResource resource)
           else updateResource resource
         else Ret ())"

definition applyResources :: "kobj list \<Rightarrow> unit go" where
  "applyResources resources =
     bnd (for_range resources () (\<lambda>resource _.
            bnd (applyResource resource) (\<lambda>_. Ret (Next () :: (unit, unit) loop)))) (\<lambda>_.
     Call (Sleep minimumPeriodBetweenCreatingPipelineResources) (\<lambda>_. Ret ()))"

definition deleteResources :: "kobj list \<Rightarrow> unit go" where
  "deleteResources resources =
     bnd (for_range resources () (\<lambda>resource _.
            bnd (call_unit (Delete resource)) (\<lambda>_. Ret (Next () :: (unit, unit) loop)))) (\<lambda>_. Ret ())"

subsection \<open>Permissions no longer wanted (\<open>rbac.go\<close>)\<close>

text \<open>\<open>for i := range a\<close> with \<open>b[i]\<close>, after the lengths were compared.\<close>

definition same_strings :: "('a \<Rightarrow> string) \<Rightarrow> 'a list \<Rightarrow> 'a list \<Rightarrow> bool" where
  "same_strings str xs ys =
     (if length xs \<noteq> length ys then False else list_all (\<lambda>(x, y). str x = str y) (zip xs ys))"

definition rolesMatch :: "lib \<Rightarrow> role \<Rightarrow> role \<Rightarrow> bool" where
  "rolesMatch L existingRole desiredRole =
     same_strings (L_PolicyRuleString L) (ro_Rules existingRole) (ro_Rules desiredRole)"

definition clusterRolesMatch :: "lib \<Rightarrow> role \<Rightarrow> role \<Rightarrow> bool" where
  "clusterRolesMatch L existingClusterRole desiredClusterRole =
     same_strings (L_PolicyRuleString L) (ro_Rules existingClusterRole) (ro_Rules desiredClusterRole)"

definition roleBindingsMatch :: "lib \<Rightarrow> role_binding \<Rightarrow> role_binding \<Rightarrow> bool" where
  "roleBindingsMatch L existingRoleBinding desiredRoleBinding =
     (if \<not> same_strings (L_SubjectString L) (rb_Subjects existingRoleBinding) (rb_Subjects desiredRoleBinding) then False
      else L_RoleRefString L (rb_RoleRef existingRoleBinding) = L_RoleRefString L (rb_RoleRef desiredRoleBinding))"

definition clusterRoleBindingsMatch :: "lib \<Rightarrow> role_binding \<Rightarrow> role_binding \<Rightarrow> bool" where
  "clusterRoleBindingsMatch L existing desired =
     (if \<not> same_strings (L_SubjectString L) (rb_Subjects existing) (rb_Subjects desired) then False
      else L_RoleRefString L (rb_RoleRef existing) = L_RoleRefString L (rb_RoleRef desired))"

text \<open>The four listings have the same form: what exists and matches nothing desired is to be deleted.\<close>

definition objectsToDelete ::
  "req \<Rightarrow> (kobj \<Rightarrow> 'a option) \<Rightarrow> ('a \<Rightarrow> kobj) \<Rightarrow> ('a \<Rightarrow> 'a \<Rightarrow> bool) \<Rightarrow> 'a list \<Rightarrow> (err + kobj list) go" where
  "objectsToDelete q sel mk matches desired =
     bnd (call_list q sel) (\<lambda>r.
     Ret (case r of
            Inr existing \<Rightarrow> Inr (map mk (filter (\<lambda>x. \<not> list_ex (matches x) desired) existing))
          | Inl e \<Rightarrow> if IsNotFound e then Inr [] else Inl e))"

definition getRolesToDelete :: "lib \<Rightarrow> role list \<Rightarrow> selector \<Rightarrow> (err + kobj list) go" where
  "getRolesToDelete L desiredRoles s = objectsToDelete (ListObjs KRole [] (Some s)) un_role ORole (rolesMatch L) desiredRoles"

definition getClusterRolesToDelete :: "lib \<Rightarrow> role list \<Rightarrow> selector \<Rightarrow> (err + kobj list) go" where
  "getClusterRolesToDelete L desiredClusterRoles s =
     objectsToDelete (ListObjs KClusterRole [] (Some s)) un_clusterrole OClusterRole (clusterRolesMatch L) desiredClusterRoles"

definition getRoleBindingsToDelete :: "lib \<Rightarrow> role_binding list \<Rightarrow> selector \<Rightarrow> (err + kobj list) go" where
  "getRoleBindingsToDelete L desiredRoleBindings s =
     objectsToDelete (ListObjs KRoleBinding [] (Some s)) un_rolebinding ORoleBinding (roleBindingsMatch L) desiredRoleBindings"

definition getClusterRoleBindingsToDelete :: "lib \<Rightarrow> role_binding list \<Rightarrow> selector \<Rightarrow> (err + kobj list) go" where
  "getClusterRoleBindingsToDelete L desired s =
     objectsToDelete (ListObjs KClusterRoleBinding [] (Some s)) un_clusterrolebinding OClusterRoleBinding
       (clusterRoleBindingsMatch L) desired"

definition getPipelineResourcesLabels :: "lib \<Rightarrow> PipelineJobResources \<Rightarrow> labels" where
  "getPipelineResourcesLabels L pipeline =
     (let l = job_labels (pj_Job pipeline); ns = m_Namespace (j_meta (pj_Job pipeline));
          resourcesLegacyLabels = UserPermissionPipelineResourcesLegacyLabels L (lget l PromiseNameLabel) (pj_Name pipeline) ns
            (lget l WorkTypeLabel) (lget l WorkActionLabel)
      in if resourcesLegacyLabels \<noteq> fmempty then resourcesLegacyLabels
         else UserPermissionPipelineResourcesLabels L (lget l PromiseNameLabel) (pj_Name pipeline) ns
                (lget l WorkflowTypeLabel) (lget l WorkflowActionLabel))"

text \<open>Appending the next listing, unless it fails.\<close>

definition append_or_fail :: "kobj list \<Rightarrow> (err + kobj list) go \<Rightarrow> (kobj list \<Rightarrow> (err + kobj list) go) \<Rightarrow> (err + kobj list) go" where
  "append_or_fail toDelete p k = bnd p (\<lambda>r. case r of Inl e \<Rightarrow> Ret (Inl e) | Inr xs \<Rightarrow> k (toDelete @ xs))"

definition getObjectsToDelete :: "lib \<Rightarrow> PipelineJobResources \<Rightarrow> (err + kobj list) go" where
  "getObjectsToDelete L pipeline =
     (let sh = pj_Shared pipeline; s = L_SelectorFromSet L (getPipelineResourcesLabels L pipeline) in
      append_or_fail [] (getRolesToDelete L (sh_Roles sh) s) (\<lambda>toDelete.
      append_or_fail toDelete (getClusterRolesToDelete L (sh_ClusterRoles sh) s) (\<lambda>toDelete.
      append_or_fail toDelete (getRoleBindingsToDelete L (sh_RoleBindings sh) s) (\<lambda>toDelete.
      append_or_fail toDelete (getClusterRoleBindingsToDelete L (sh_ClusterRoleBindings sh) s) (\<lambda>toDelete.
      Ret (Inr toDelete))))))"

subsection \<open>Cleaning up after a workflow\<close>

definition cleanupJobs :: "lib \<Rightarrow> Opts \<Rightarrow> job list \<Rightarrow> (err option) go" where
  "cleanupJobs L opts pipelineJobsAtCurrentSpec =
     (if int (length pipelineJobsAtCurrentSpec) \<le> o_numberOfJobsToKeep opts then Ret None
      else
        let jobs = SortJobsByCreationDateTime L pipelineJobsAtCurrentSpec True in
        after_loop
          (for_range [0..<nat (int (length jobs) - o_numberOfJobsToKeep opts)] () (\<lambda>i _.
             if i < length jobs then
               bnd (call_unit (Delete (OJob (jobs ! i)))) (\<lambda>e.
               Ret (case e of
                      None \<Rightarrow> Next ()
                    | Some e \<Rightarrow> if IsNotFound e then Next () else Leave None))
             else Panic ''index out of range''))
          (\<lambda>_. Ret None))"

definition cleanupWorks :: "string list \<Rightarrow> Work list \<Rightarrow> (err option) go" where
  "cleanupWorks pipelineNames allPipelineWorks =
     after_loop
       (for_range allPipelineWorks () (\<lambda>work _.
          let workPipelineName = lget (m_Labels (w_meta work)) PipelineNameLabel in
          if workPipelineName \<notin> set pipelineNames then
            bnd (call_unit (Delete (OWork work))) (\<lambda>e.
            Ret (case e of None \<Rightarrow> Next () | Some e \<Rightarrow> Leave (Some e)))
          else Ret (Next ())))
       (\<lambda>_. Ret None)"

definition cleanup :: "lib \<Rightarrow> Opts \<Rightarrow> string \<Rightarrow> (err option) go" where
  "cleanup L opts namespace =
     after_loop
       (for_range (o_Resources opts) [] (\<lambda>pipeline pipelineNames.
          let l = fmupd PipelineNameLabel (pj_Name pipeline) (labelsForAllPipelineJobs pipeline) in
          bnd (getJobsWithLabels L l namespace) (\<lambda>r.
          bnd (cleanupJobs L opts (case r of Inl e \<Rightarrow> [] | Inr jobs \<Rightarrow> jobs)) (\<lambda>e.
          Ret (case e of Some e \<Rightarrow> Leave (Some e) | None \<Rightarrow> Next (pipelineNames @ [pj_Name pipeline]))))))
       (\<lambda>pipelineNames.
          bnd (GetWorksByType L (o_workflowType opts) (o_parentObject opts)) (\<lambda>r.
          case r of
            Inl e \<Rightarrow> Ret (Some e)
          | Inr allPipelineWorks \<Rightarrow> cleanupWorks pipelineNames allPipelineWorks))"

subsection \<open>Starting a pipeline\<close>

text \<open>Both return the parent object as it is afterwards.\<close>

definition removeLabel :: "unstructured \<Rightarrow> string \<Rightarrow> (err option \<times> unstructured) go" where
  "removeLabel parentObject labelKey =
     (let parentObject = parentObject\<lparr>u_meta := (u_meta parentObject)
            \<lparr>m_Labels := fmdrop labelKey (m_Labels (u_meta parentObject))\<rparr>\<rparr> in
      bnd (call_obj (Update (OUnstructured parentObject)) un_unstructured) (\<lambda>r.
      Ret (case r of Inl e \<Rightarrow> (Some e, parentObject) | Inr u \<Rightarrow> (None, u))))"

definition removeManualReconciliationLabel :: "unstructured \<Rightarrow> (err option \<times> unstructured) go" where
  "removeManualReconciliationLabel parentObject = removeLabel parentObject ManualReconciliationLabel"

definition setConfigureWorkflowCompletedConditionStatus ::
  "lib \<Rightarrow> Opts \<Rightarrow> bool \<Rightarrow> unstructured \<Rightarrow> result go" where
  "setConfigureWorkflowCompletedConditionStatus L opts isTheFirstPipeline obj =
     (if o_SkipConditions opts then Ret ((False, None), obj)
      else
        let status = GetConfigureWorkflowCompletedConditionStatus L obj in
        if status = ConditionTrue \<or> status = ConditionUnknown then
          bnd (GetStatus obj ''message'') (\<lambda>currentMessage.
          bnd (if isTheFirstPipeline \<or> currentMessage = [] \<or> currentMessage = ''Resource requested''
               then SetStatus obj [JStr ''message'', JStr ''Pending''] else Ret obj) (\<lambda>obj.
          bnd (MarkConfigureWorkflowAsRunning L obj) (\<lambda>obj.
          bnd (MarkReconciledPending L obj ''WorkflowPending'') (\<lambda>obj.
          bnd (call_obj (StatusUpdate (OUnstructured obj)) un_unstructured) (\<lambda>r.
          Ret (case r of Inl e \<Rightarrow> ((False, Some e), obj) | Inr u \<Rightarrow> ((True, None), u)))))))
        else Ret ((False, None), obj))"

definition startPipeline :: "string \<Rightarrow> PipelineJobResources \<Rightarrow> unstructured \<Rightarrow> unit go" where
  "startPipeline kindOfPipeline resources parentObject =
     bnd (applyResources (GetObjects resources @ [OJob (pj_Job resources)])) (\<lambda>_.
     call_event (OUnstructured parentObject) ''Normal'' ''PipelineStarted''
       (kindOfPipeline @ '' Pipeline started: '' @ pj_Name resources))"

definition createConfigurePipeline :: "lib \<Rightarrow> Opts \<Rightarrow> int \<Rightarrow> PipelineJobResources \<Rightarrow> result go" where
  "createConfigurePipeline L opts pipelineIndex resources =
     bnd (setConfigureWorkflowCompletedConditionStatus L opts (pipelineIndex = 0) (o_parentObject opts)) (\<lambda>((updated, err), parent).
     if err \<noteq> None \<or> updated then Ret ((updated, err), parent)
     else
       bnd (getObjectsToDelete L resources) (\<lambda>r.
       case r of
         Inl e \<Rightarrow> Ret ((False, Some e), parent)
       | Inr objectToDelete \<Rightarrow>
           bnd (if isManualReconciliation (m_Labels (u_meta parent)) then removeManualReconciliationLabel parent
                else Ret (None, parent)) (\<lambda>(e, parent).
           case e of
             Some e \<Rightarrow> Ret ((False, Some e), parent)
           | None \<Rightarrow>
               bnd (deleteResources objectToDelete) (\<lambda>_.
               bnd (startPipeline ''Configure'' resources parent) (\<lambda>_.
               Ret ((True, None), parent))))))"

definition createDeletePipeline :: "Opts \<Rightarrow> PipelineJobResources \<Rightarrow> result go" where
  "createDeletePipeline opts pipeline =
     (let parent = o_parentObject opts in
      bnd (if isManualReconciliation (m_Labels (u_meta parent)) then removeManualReconciliationLabel parent
           else Ret (None, parent)) (\<lambda>(e, parent).
      case e of
        Some e \<Rightarrow> Ret ((False, Some e), parent)
      | None \<Rightarrow>
          bnd (startPipeline ''Delete'' pipeline parent) (\<lambda>_.
          Ret ((True, None), parent))))"

subsection \<open>Reconciling a delete workflow\<close>

definition ReconcileDelete :: "lib \<Rightarrow> Opts \<Rightarrow> result go" where
  "ReconcileDelete L opts =
     (let parent = o_parentObject opts in
      case o_Resources opts of
        [] \<Rightarrow> Ret ((False, None), parent)
      | pipeline # _ \<Rightarrow>
          let manual = isManualReconciliation (m_Labels (u_meta parent)) in
          bnd (getMostRecentDeletePipelineJob L (m_Namespace (u_meta parent)) pipeline) (\<lambda>r.
          case r of
            Inl e \<Rightarrow> Ret ((False, Some e), parent)
          | Inr mostRecentJob \<Rightarrow>
              if isRunning mostRecentJob then
                if manual then
                  bnd (deref mostRecentJob) (\<lambda>job.
                  bnd (suspendJob job) (\<lambda>e.
                  bnd (call_event (OUnstructured parent) ''Normal'' ''PipelineSuspended''
                         (''Delete Pipeline suspended: '' @ pj_Name pipeline)) (\<lambda>_.
                  Ret ((True, e), parent))))
                else Ret ((True, None), parent)
              else
                (case mostRecentJob of
                   None \<Rightarrow> createDeletePipeline opts pipeline
                 | Some job \<Rightarrow>
                     if manual then createDeletePipeline opts pipeline
                     else if j_Succeeded job > 0 then Ret ((False, None), parent)
                     else if j_Failed job > 0 then Ret ((False, Some ErrDeletePipelineFailed), parent)
                     else Ret ((True, None), parent))))"

subsection \<open>Reconciling a configure workflow\<close>

definition mostRecent :: "lib \<Rightarrow> job list \<Rightarrow> job option" where
  "mostRecent L allJobs = (if length allJobs \<noteq> 0 then Some (hd (SortJobsByCreationDateTime L allJobs False)) else None)"

text \<open>The counters in the parent's status, written when they differ.\<close>

definition resetFailedCounter :: "unstructured \<Rightarrow> nat \<Rightarrow> (bool \<times> unstructured) go" where
  "resetFailedCounter parent pipelineIndex =
     (if pipelineIndex = 0 then
        bnd (GetWorkflowsCounterStatus parent ''workflowsFailed'') (\<lambda>workflowsFailed.
        if workflowsFailed \<noteq> 0 then
          bnd (SetStatus parent [JStr ''workflowsFailed'', JInt 0]) (\<lambda>parent. Ret (True, parent))
        else Ret (False, parent))
      else Ret (False, parent))"

definition setSucceededCounter :: "bool \<Rightarrow> unstructured \<Rightarrow> nat \<Rightarrow> (err option \<times> unstructured) go" where
  "setSucceededCounter updateStatus parent pipelineIndex =
     bnd (GetWorkflowsCounterStatus parent ''workflowsSucceeded'') (\<lambda>workflowsSucceededCount.
     if updateStatus \<or> workflowsSucceededCount \<noteq> int pipelineIndex then
       bnd (SetStatus parent [JStr ''workflowsSucceeded'', JInt (int pipelineIndex)]) (\<lambda>parent.
       bnd (call_obj (StatusUpdate (OUnstructured parent)) un_unstructured) (\<lambda>r.
       Ret (case r of Inl e \<Rightarrow> (Some e, parent) | Inr u \<Rightarrow> (None, u))))
     else Ret (None, parent))"

definition updateWorkflowCounters :: "unstructured \<Rightarrow> nat \<Rightarrow> (err option \<times> unstructured) go" where
  "updateWorkflowCounters parent pipelineIndex =
     bnd (resetFailedCounter parent pipelineIndex) (\<lambda>(updateStatus, parent).
     setSucceededCounter updateStatus parent pipelineIndex)"

text \<open>The job of the current pipeline has failed: the failure goes into the parent's status.\<close>

definition markWorkflowFailed :: "lib \<Rightarrow> unstructured \<Rightarrow> PipelineJobResources \<Rightarrow> result go" where
  "markWorkflowFailed L parent pipeline =
     bnd (MarkConfigureWorkflowAsFailed L parent (pj_Name pipeline)) (\<lambda>parent.
     bnd (MarkReconciledFailing L parent ConfigureWorkflowCompletedFailedReason) (\<lambda>parent.
     bnd (SetStatus parent [JStr ''workflowsFailed'', JInt 1]) (\<lambda>parent.
     bnd (call_obj (StatusUpdate (OUnstructured parent)) un_unstructured) (\<lambda>r.
     case r of
       Inl e \<Rightarrow> Ret ((False, Some e), parent)
     | Inr parent \<Rightarrow>
         bnd (call_event (OUnstructured parent) EventTypeWarning ConfigureWorkflowCompletedFailedReason
                (''A Configure Pipeline has failed: '' @ pj_Name pipeline)) (\<lambda>_.
         Ret ((True, None), parent))))))"

text \<open>What is done about the pipeline at the index, given the most recent job.\<close>

definition reconcilePipeline :: "lib \<Rightarrow> Opts \<Rightarrow> string \<Rightarrow> int \<Rightarrow> PipelineJobResources \<Rightarrow> job option \<Rightarrow> result go" where
  "reconcilePipeline L opts namespace pipelineIndex pipeline mostRecentJob =
     (let parent = o_parentObject opts;
          manual = isManualReconciliation (m_Labels (u_meta parent)) in
      if jobIsForPipeline pipeline mostRecentJob then
        if isRunning mostRecentJob then
          if manual then
            bnd (deref mostRecentJob) (\<lambda>job.
            bnd (suspendJob job) (\<lambda>e. Ret ((True, e), parent)))
          else Ret ((True, None), parent)
        else if manual then createConfigurePipeline L opts pipelineIndex pipeline
        else if isFailed mostRecentJob then markWorkflowFailed L parent pipeline
        else bnd (cleanup L opts namespace) (\<lambda>e. Ret ((False, e), parent))
      else if isRunning mostRecentJob then
        bnd (deref mostRecentJob) (\<lambda>job.
        bnd (suspendJob job) (\<lambda>_. Ret ((True, None), parent)))
      else createConfigurePipeline L opts pipelineIndex pipeline)"

text \<open>The pass over the jobs that were found.\<close>

definition reconcileConfigureJobs :: "lib \<Rightarrow> Opts \<Rightarrow> string \<Rightarrow> job list \<Rightarrow> result go" where
  "reconcileConfigureJobs L opts namespace allJobs =
     (let mostRecentJob = mostRecent L allJobs;
          pipelineIndex = nextPipelineIndex opts mostRecentJob in
      bnd (updateWorkflowCounters (o_parentObject opts) pipelineIndex) (\<lambda>(e, parent).
      case e of
        Some e \<Rightarrow> Ret ((False, Some e), parent)
      | None \<Rightarrow>
          let n = length (o_Resources opts);
              pipelineIndex = (if pipelineIndex \<ge> n then int n - 1 else int pipelineIndex) in
          if pipelineIndex < 0 then Ret ((False, None), parent)
          else reconcilePipeline L (opts\<lparr>o_parentObject := parent\<rparr>) namespace pipelineIndex
                 (o_Resources opts ! nat pipelineIndex) mostRecentJob))"

definition ReconcileConfigure :: "lib \<Rightarrow> Opts \<Rightarrow> result go" where
  "ReconcileConfigure L opts =
     (let parent = o_parentObject opts;
          namespace = (if m_Namespace (u_meta parent) = [] then SystemNamespace else m_Namespace (u_meta parent)) in
      bnd (getJobsWithLabels L (labelsForJobs opts) namespace) (\<lambda>r.
      case r of
        Inl e \<Rightarrow> Ret ((False, Some e), parent)
      | Inr allJobs \<Rightarrow>
          bnd (getJobsWithLabels L (legacyLabelsForJobs opts) namespace) (\<lambda>r.
          case r of
            Inl e \<Rightarrow> Ret ((False, Some e), parent)
          | Inr allLegacyJobs \<Rightarrow> reconcileConfigureJobs L opts namespace (allJobs @ allLegacyJobs))))"

subsection \<open>Which pipeline comes next\<close>

lemma nextPipelineIndexFrom_spec:
  assumes "n \<le> length rs"
  shows "nextPipelineIndexFrom rs job n =
    (if \<exists>i<n. jobIsForPipeline (rs ! i) (Some job)
     then let i = Max {i. i < n \<and> jobIsForPipeline (rs ! i) (Some job)}
          in if isFailed (Some job) \<or> isRunning (Some job) then i else Suc i
     else 0)"
  using assms
proof (induction n)
  case (Suc n)
  show ?case
  proof (cases "jobIsForPipeline (rs ! n) (Some job)")
    case True
    then have "Max {i. i < Suc n \<and> jobIsForPipeline (rs ! i) (Some job)} = n"
      by (intro Max_eqI) auto
    with True show ?thesis by (auto simp: Let_def)
  next
    case False
    then have "{i. i < Suc n \<and> jobIsForPipeline (rs ! i) (Some job)} = {i. i < n \<and> jobIsForPipeline (rs ! i) (Some job)}"
      and "(\<exists>i<Suc n. jobIsForPipeline (rs ! i) (Some job)) = (\<exists>i<n. jobIsForPipeline (rs ! i) (Some job))"
      using less_Suc_eq by auto
    with False Suc show ?thesis by auto
  qed
qed simp

text \<open>The next pipeline of a workflow: without a job, or on manual reconciliation, the first one. Otherwise, with the last
  pipeline that the most recent job is for: that one again if the job failed or still runs, else the one after it (one
  past the end when all are done); the first one if the job is for none of the pipelines, as after a change of the specification.\<close>

lemma nextPipelineIndex_spec:
  "nextPipelineIndex opts mostRecentJob =
     (let rs = o_Resources opts; matching = {i. i < length rs \<and> jobIsForPipeline (rs ! i) mostRecentJob} in
      if isManualReconciliation (m_Labels (u_meta (o_parentObject opts))) \<or> matching = {} then 0
      else if isFailed mostRecentJob \<or> isRunning mostRecentJob then Max matching else Suc (Max matching))"
proof (cases mostRecentJob)
  case None
  then show ?thesis by (simp add: nextPipelineIndex_def jobIsForPipeline_def)
next
  case (Some job)
  then show ?thesis
    using nextPipelineIndexFrom_spec [of "length (o_Resources opts)" "o_Resources opts" job]
    by (auto simp: nextPipelineIndex_def Let_def)
qed

subsection \<open>What a pass may write\<close>

text \<open>The jobs a request creates.\<close>

fun created_job :: "req \<Rightarrow> job option" where
  "created_job (Create (OJob j)) = Some j"
| "created_job q = None"

lemma created_job_obj: "(\<And>j. x \<noteq> OJob j) \<Longrightarrow> created_job (Create x) = None"
  by (cases x) auto

abbreviation makes_no_job :: "'a go \<Rightarrow> bool" where
  "makes_no_job p \<equiv> only (\<lambda>q. created_job q = None) p"

lemma created_job_None_simps [simp]:
  "created_job (Get k a b) = None" "created_job (ListObjs k a c) = None" "created_job (Update x) = None"
  "created_job (StatusUpdate x) = None" "created_job (Delete x) = None" "created_job (Patch x) = None"
  "created_job (Event x a b d) = None" "created_job Now = None" "created_job (Sleep i) = None"
  by simp_all

lemma only_GetStatus [only_intros]: "only P (GetStatus u k)"
  unfolding GetStatus_def status_map_def
  by (auto intro!: only_intros split: option.splits json.splits)

lemma only_SetStatus [only_intros]: "only P (SetStatus u ss)"
  unfolding SetStatus_def status_map_def Let_def
  by (auto intro!: only_intros split: option.splits json.splits)

lemma only_GetWorkflowsCounterStatus [only_intros]: "only P (GetWorkflowsCounterStatus u k)"
  unfolding GetWorkflowsCounterStatus_def status_map_def
  by (auto intro!: only_intros split: option.splits json.splits)

lemma only_mark [only_intros]: "P Now \<Longrightarrow> only P (mark L u ty st ms rs)"
  unfolding mark_def by (auto intro!: only_intros)

lemma only_getJobsWithLabels [only_intros]: "(\<And>s. P (ListObjs KJob ns (Some s))) \<Longrightarrow> only P (getJobsWithLabels L l ns)"
  unfolding getJobsWithLabels_def by (auto intro!: only_intros split: sum.splits)

text \<open>All but starting a pipeline: nothing is created, and nothing but the parent is updated.\<close>

fun benign :: "req \<Rightarrow> bool" where
  "benign (Create x) = False"
| "benign (Update (OUnstructured u)) = True"
| "benign (Update x) = False"
| "benign q = True"

lemma benign_parts:
  "only benign (updateWorkflowCounters u n)"
  "only benign (markWorkflowFailed L u pl)"
  "only benign (suspendJob j)"
  "only benign (cleanup L opts ns)"
  "only benign (removeManualReconciliationLabel u)"
  "only benign (setConfigureWorkflowCompletedConditionStatus L opts b u)"
  "only benign (getObjectsToDelete L pl)"
  "only benign (deleteResources xs)"
  unfolding updateWorkflowCounters_def resetFailedCounter_def setSucceededCounter_def markWorkflowFailed_def suspendJob_def cleanup_def removeManualReconciliationLabel_def
    removeLabel_def setConfigureWorkflowCompletedConditionStatus_def getObjectsToDelete_def append_or_fail_def
    getRolesToDelete_def getClusterRolesToDelete_def getRoleBindingsToDelete_def getClusterRoleBindingsToDelete_def
    objectsToDelete_def deleteResources_def cleanupWorks_def cleanupJobs_def GetWorksByType_def getExistingWorks_def
    mark_defs Let_def
  by (auto intro!: only_intros split: sum.splits option.splits prod.splits)

lemma benign_no_job: "benign q \<Longrightarrow> created_job q = None"
  by (cases q rule: created_job.cases) auto

lemmas makes_no_job_parts [only_intros] = benign_parts [THEN only_mono, OF benign_no_job]

lemma applyResource_jobs:
  "wpre (applyResource x) (\<lambda>t oc. oc = Returned () \<and> made created_job t = (case x of OJob j \<Rightarrow> [j] | _ \<Rightarrow> []))"
  unfolding applyResource_def updateResource_def
  by (auto simp: wpre_simps split: option.splits sum.splits kobj.splits)

lemma applyResources_jobs:
  "wpre (applyResources xs) (\<lambda>t oc. oc = Returned () \<and> made created_job t = concat (map (\<lambda>x. case x of OJob j \<Rightarrow> [j] | _ \<Rightarrow> []) xs))"
proof -
  have "wpre (for_range xs () (\<lambda>resource _. bnd (applyResource resource) (\<lambda>_. Ret (Next () :: (unit, unit) loop))))
     (\<lambda>t oc. oc = Returned (Next ()) \<and> made created_job t = concat (map (\<lambda>x. case x of OJob j \<Rightarrow> [j] | _ \<Rightarrow> []) xs))"
    by (rule wpre_for_range [where I = "\<lambda>pre t s. made created_job t = concat (map (\<lambda>x. case x of OJob j \<Rightarrow> [j] | _ \<Rightarrow> []) pre)"])
      (auto simp: wpre_bnd wpre_basic intro!: wpre_mono [OF applyResource_jobs])
  then show ?thesis
    unfolding applyResources_def wpre_bnd by (rule wpre_mono) (simp add: wpre_basic)
qed

lemma startPipeline_jobs:
  "wpre (startPipeline k res u) (\<lambda>t oc. oc = Returned () \<and> made created_job t = [pj_Job res])"
proof -
  have no: "concat (map (\<lambda>x. case x of OJob j \<Rightarrow> [j] | _ \<Rightarrow> []) (GetObjects res)) = []"
    by (auto simp: GetObjects_def Let_def split: option.splits)
  show ?thesis
    unfolding startPipeline_def wpre_bnd
    by (rule wpre_mono [OF applyResources_jobs]) (simp add: wpre_calls no)
qed

lemma createConfigurePipeline_jobs:
  "wpre (createConfigurePipeline L opts i res) (\<lambda>t oc.
     (made created_job t = [] \<or> made created_job t = [pj_Job res]) \<and> (\<forall>u. oc \<noteq> Returned ((False, None), u)))"
proof -
  define Q where "Q ms oc \<longleftrightarrow> (ms = [] \<or> ms = [pj_Job res]) \<and> (\<forall>u. oc \<noteq> Returned ((False, None), u))"
    for ms and oc :: "result outcome"
  note quiet = wpre_quiet_bnd [where f = created_job and Q = Q]
  have start: "wpre (bnd (startPipeline k res u) (\<lambda>_. Ret ((True, None), u))) (\<lambda>t oc. Q (made created_job t) oc)" for k u
    unfolding wpre_bnd by (rule wpre_mono [OF startPipeline_jobs]) (simp add: Q_def wpre_basic)
  have "wpre (createConfigurePipeline L opts i res) (\<lambda>t oc. Q (made created_job t) oc)"
    unfolding createConfigurePipeline_def
    by (auto intro!: quiet only_intros start simp: wpre_basic Q_def [of "[]"] split: sum.split prod.split option.split)
  then show ?thesis by (simp add: Q_def)
qed

subsection \<open>One pipeline after the other\<close>

text \<open>Whether the parent asks for manual reconciliation, and that no response of the pass says otherwise.\<close>

definition manual :: "unstructured \<Rightarrow> bool" where
  "manual u = isManualReconciliation (m_Labels (u_meta u))"

fun returned_parent :: "req \<times> resp \<Rightarrow> unstructured option" where
  "returned_parent (StatusUpdate x, RObj (OUnstructured u)) = Some u"
| "returned_parent x = None"

definition manual_stays :: "bool \<Rightarrow> gtrace \<Rightarrow> bool" where
  "manual_stays b t \<longleftrightarrow> (\<forall>x\<in>set t. \<forall>u. returned_parent x = Some u \<longrightarrow> manual u = b)"

lemma manual_stays_simps [simp]:
  "manual_stays b []"
  "manual_stays b (x # t) \<longleftrightarrow> (\<forall>u. returned_parent x = Some u \<longrightarrow> manual u = b) \<and> manual_stays b t"
  "manual_stays b (t @ t') \<longleftrightarrow> manual_stays b t \<and> manual_stays b t'"
  by (auto simp: manual_stays_def)

lemma SetStatus_meta: "returns (SetStatus u ss) (\<lambda>u'. u_meta u' = u_meta u)"
  by (auto simp: SetStatus_def status_map_def Let_def split: option.splits json.splits)

lemma SetStatus_quiet: "wpre (SetStatus u ss) (\<lambda>t oc. t = [] \<and> (\<forall>u'. oc = Returned u' \<longrightarrow> u_meta u' = u_meta u))"
  by (auto simp: SetStatus_def status_map_def Let_def wpre_simps split: option.splits json.splits)

lemma GetWorkflowsCounterStatus_quiet: "wpre (GetWorkflowsCounterStatus u k) (\<lambda>t oc. t = [])"
  by (auto simp: GetWorkflowsCounterStatus_def status_map_def wpre_simps split: option.splits json.splits)

lemma resetFailedCounter_quiet:
  "wpre (resetFailedCounter u n) (\<lambda>t oc. t = [] \<and> (\<forall>v. oc = Returned v \<longrightarrow> u_meta (snd v) = u_meta u))"
proof -
  have "wpre (bnd (SetStatus u ss :: unstructured go) (\<lambda>p. Ret (True, p))) (\<lambda>t oc. t = [] \<and> (\<forall>v. oc = Returned v \<longrightarrow> u_meta (snd v) = u_meta u))" for ss
    unfolding wpre_bnd
  proof (rule wpre_mono [OF SetStatus_quiet], goal_cases)
    case (1 t oc)
    then show ?case by (cases oc) (simp_all add: wpre_basic)
  qed
  then have "wpre (bnd (GetWorkflowsCounterStatus u k :: int go) (\<lambda>c. if c \<noteq> 0 then bnd (SetStatus u ss) (\<lambda>p. Ret (True, p)) else Ret (False, u)))
      (\<lambda>t oc. t = [] \<and> (\<forall>v. oc = Returned v \<longrightarrow> u_meta (snd v) = u_meta u))" for k ss
    unfolding wpre_bnd [where p = "GetWorkflowsCounterStatus u k"]
    by (intro wpre_mono [OF GetWorkflowsCounterStatus_quiet]) (simp add: wpre_basic split: outcome.split)
  then show ?thesis by (simp add: resetFailedCounter_def wpre_basic)
qed

lemma setSucceededCounter_keeps_manual:
  "wpre (setSucceededCounter b u n) (\<lambda>t oc. made created_job t = [] \<and>
     (\<forall>v. oc = Returned (None, v) \<longrightarrow> manual_stays (manual u) t \<longrightarrow> manual v = manual u))"
  unfolding setSucceededCounter_def wpre_bnd
  by (auto intro!: wpre_mono [OF GetWorkflowsCounterStatus_quiet] wpre_mono [OF SetStatus_quiet]
      simp: wpre_simps unstructureds.as_obj_mk manual_def split: outcome.splits sum.splits)

lemma updateWorkflowCounters_keeps_manual:
  "wpre (updateWorkflowCounters u n) (\<lambda>t oc. made created_job t = [] \<and>
     (\<forall>v. oc = Returned (None, v) \<longrightarrow> manual_stays (manual u) t \<longrightarrow> manual v = manual u))"
  unfolding updateWorkflowCounters_def wpre_bnd
proof (rule wpre_mono [OF resetFailedCounter_quiet], goal_cases)
  case (1 t oc)
  show ?case
  proof (cases oc)
    case (Returned r)
    with 1 have "manual (snd r) = manual u" "t = []" by (auto simp: manual_def)
    with Returned setSucceededCounter_keeps_manual [of "fst r" "snd r" n] show ?thesis by (simp add: split_beta)
  qed (use 1 in simp)
qed

lemma reconcilePipeline_jobs:
  "wpre (reconcilePipeline L opts ns i pl mr) (\<lambda>t oc.
     (made created_job t = [] \<or> made created_job t = [pj_Job pl] \<and> \<not> isRunning mr \<and>
        (manual (o_parentObject opts) \<or> \<not> jobIsForPipeline pl mr)) \<and>
     (\<forall>u. oc = Returned ((False, None), u) \<longrightarrow> jobIsForPipeline pl mr \<and> \<not> isRunning mr \<and> \<not> isFailed mr))"
proof -
  define Q where "Q ms oc \<longleftrightarrow> (ms = [] \<or> ms = [pj_Job pl] \<and> \<not> isRunning mr \<and>
        (manual (o_parentObject opts) \<or> \<not> jobIsForPipeline pl mr)) \<and>
     (\<forall>u. oc = Returned ((False, None), u) \<longrightarrow> jobIsForPipeline pl mr \<and> \<not> isRunning mr \<and> \<not> isFailed mr)"
    for ms and oc :: "result outcome"
  have suspend: "wpre (bnd (deref mr) (\<lambda>job. bnd (suspendJob job) (\<lambda>e. Ret ((True, f e), u)))) (\<lambda>t oc. Q (made created_job t) oc)" for f u
    by (auto intro!: wpre_quiet_bnd [where f = created_job and Q = Q] only_intros simp: wpre_basic Q_def [of "[]"])
  have failed: "wpre (markWorkflowFailed L u pl) (\<lambda>t oc. Q (made created_job t) oc)" for u
    unfolding markWorkflowFailed_def mark_defs
    by (auto intro!: wpre_quiet_bnd [where f = created_job and Q = Q] only_intros simp: wpre_basic Q_def [of "[]"] split: sum.split)
  have created: "wpre (createConfigurePipeline L opts i pl) (\<lambda>t oc. Q (made created_job t) oc)"
    if "\<not> isRunning mr" "manual (o_parentObject opts) \<or> \<not> jobIsForPipeline pl mr"
    by (rule wpre_mono [OF createConfigurePipeline_jobs]) (use that in \<open>auto simp: Q_def\<close>)
  have "wpre (reconcilePipeline L opts ns i pl mr) (\<lambda>t oc. Q (made created_job t) oc)"
    unfolding reconcilePipeline_def Let_def
    using suspend [of "\<lambda>e. e"] suspend [of "\<lambda>_. None"]
    by (auto intro!: wpre_quiet_bnd [where f = created_job and Q = Q and p = "cleanup L opts ns"] only_intros created failed
        simp: wpre_basic Q_def [of "[]"] manual_def)
  then show ?thesis by (simp add: Q_def)
qed

text \<open>The index after the bound check, as the pass uses it.\<close>

definition current_index :: "Opts \<Rightarrow> job option \<Rightarrow> nat" where
  "current_index opts mr = min (nextPipelineIndex opts mr) (length (o_Resources opts) - 1)"

lemma current_index_facts:
  fixes mr :: "job option"
  assumes "\<not> manual (o_parentObject opts)" and "o_Resources opts \<noteq> []"
  defines "rs \<equiv> o_Resources opts" and "i \<equiv> current_index opts mr"
  shows "jobIsForPipeline (rs ! i) mr \<Longrightarrow> \<not> isRunning mr \<Longrightarrow> \<not> isFailed mr \<Longrightarrow> i = length rs - 1"
    and "\<not> jobIsForPipeline (rs ! i) mr \<Longrightarrow> \<not> isRunning mr \<Longrightarrow>
      (i = 0 \<and> (\<forall>k<length rs. \<not> jobIsForPipeline (rs ! k) mr)) \<or>
      (0 < i \<and> jobIsForPipeline (rs ! (i - 1)) mr \<and> \<not> isFailed mr \<and> (\<forall>k<length rs. i \<le> k \<longrightarrow> \<not> jobIsForPipeline (rs ! k) mr))"
proof -
  define matching where "matching = {k. k < length rs \<and> jobIsForPipeline (rs ! k) mr}"
  have ix: "nextPipelineIndex opts mr = (if matching = {} then 0
      else if isFailed mr \<or> isRunning mr then Max matching else Suc (Max matching))"
    using nextPipelineIndexFrom_spec [of "length rs" rs "the mr"] assms(1)
    by (cases mr) (auto simp: nextPipelineIndex_def matching_def manual_def rs_def jobIsForPipeline_def [of _ None] Let_def)
  have fin: "finite matching" by (simp add: matching_def)
  have mx: "Max matching \<in> matching" "\<And>k. k \<in> matching \<Longrightarrow> k \<le> Max matching" if "matching \<noteq> {}"
    using Max_in [OF fin that] Max_ge [OF fin] by auto
  have len: "length rs > 0" using assms(2) by (simp add: rs_def)
  then have il: "i < length rs" unfolding i_def current_index_def rs_def by linarith
  {
    assume "jobIsForPipeline (rs ! i) mr" "\<not> isRunning mr" "\<not> isFailed mr"
    moreover from this il have "i \<in> matching" by (simp add: matching_def)
    ultimately show "i = length rs - 1"
      using mx(2) [of i] ix by (auto simp: i_def current_index_def rs_def min_def split: if_splits)
  next
    assume no: "\<not> jobIsForPipeline (rs ! i) mr" "\<not> isRunning mr"
    show "(i = 0 \<and> (\<forall>k<length rs. \<not> jobIsForPipeline (rs ! k) mr)) \<or>
      (0 < i \<and> jobIsForPipeline (rs ! (i - 1)) mr \<and> \<not> isFailed mr \<and> (\<forall>k<length rs. i \<le> k \<longrightarrow> \<not> jobIsForPipeline (rs ! k) mr))"
    proof (cases "matching = {}")
      case True
      then show ?thesis using ix by (auto simp: i_def current_index_def matching_def)
    next
      case False
      from mx(1) [OF False] have m: "Max matching < length rs" "jobIsForPipeline (rs ! Max matching) mr"
        by (auto simp: matching_def)
      have nf: "\<not> isFailed mr"
        using no m ix False by (auto simp: i_def current_index_def rs_def min_absorb1)
      have "Suc (Max matching) \<noteq> length rs"
      proof
        assume "Suc (Max matching) = length rs"
        then have "Max matching = length rs - 1" by simp
        with no m ix False nf show "False" by (simp add: i_def current_index_def rs_def)
      qed
      with m nf no(2) ix False have "i = Suc (Max matching)"
        by (simp add: i_def current_index_def rs_def min_absorb1)
      with m nf mx(2) [OF False] show ?thesis by (fastforce simp: matching_def)
    qed
  }
qed

lemma reconcileConfigureJobs_cases:
  fixes L opts jobs
  defines "rs \<equiv> o_Resources opts" and "mr \<equiv> mostRecent L jobs" and "i \<equiv> current_index opts (mostRecent L jobs)"
  shows "wpre (reconcileConfigureJobs L opts ns jobs) (\<lambda>t oc.
     (made created_job t = [] \<or> rs \<noteq> [] \<and> made created_job t = [pj_Job (rs ! i)] \<and> \<not> isRunning mr \<and>
        (manual_stays (manual (o_parentObject opts)) t \<longrightarrow> manual (o_parentObject opts) \<or> \<not> jobIsForPipeline (rs ! i) mr)) \<and>
     (\<forall>u. oc = Returned ((False, None), u) \<longrightarrow> rs = [] \<or> jobIsForPipeline (rs ! i) mr \<and> \<not> isRunning mr \<and> \<not> isFailed mr))"
proof -
  define k where "k = nextPipelineIndex opts mr"
  have ix: "(if k \<ge> length rs then int (length rs) - 1 else int k) = (if rs = [] then - 1 else int i)"
    by (cases "o_Resources opts") (auto simp: i_def current_index_def rs_def k_def mr_def min_def)
  show ?thesis
    unfolding reconcileConfigureJobs_def Let_def wpre_bnd
  proof (rule wpre_mono [OF updateWorkflowCounters_keeps_manual], goal_cases)
    case (1 t oc)
    show ?case
    proof (cases oc)
      case (Returned r)
      obtain e u where r: "r = (e, u)" by (cases r)
      show ?thesis
      proof (cases e)
        case None
        show ?thesis
        proof (cases "rs = []")
          case True
          with 1 None Returned r show ?thesis by (simp add: rs_def wpre_basic)
        next
          case False
          have "wpre (reconcilePipeline L (opts\<lparr>o_parentObject := u\<rparr>) ns (int i) (rs ! i) mr) (\<lambda>t' oc.
            (made created_job (t @ t') = [] \<or> rs \<noteq> [] \<and> made created_job (t @ t') = [pj_Job (rs ! i)] \<and> \<not> isRunning mr \<and>
              (manual_stays (manual (o_parentObject opts)) (t @ t') \<longrightarrow> manual (o_parentObject opts) \<or> \<not> jobIsForPipeline (rs ! i) mr)) \<and>
            (\<forall>u. oc = Returned ((False, None), u) \<longrightarrow> rs = [] \<or> jobIsForPipeline (rs ! i) mr \<and> \<not> isRunning mr \<and> \<not> isFailed mr))"
            by (rule wpre_mono [OF reconcilePipeline_jobs]) (use 1 Returned r None False in \<open>auto\<close>)
          with False ix Returned r None show ?thesis
            by (simp add: rs_def [symmetric] mr_def [symmetric] k_def [symmetric] cong: if_cong)
        qed
      qed (use 1 Returned r in \<open>simp add: wpre_basic\<close>)
    qed (use 1 in simp)
  qed
qed

lemma ReconcileConfigure_jobs:
  assumes "exec (ReconcileConfigure L opts) ((q1, r1) # (q2, r2) # t) oc"
    and "as_list un_job r1 = Inr jobs" and "as_list un_job r2 = Inr legacy"
  shows "\<exists>ns. exec (reconcileConfigureJobs L opts ns (jobs @ legacy)) t oc"
  using assms unfolding ReconcileConfigure_def getJobsWithLabels_def Let_def
  by (auto simp: exec_bnd_calls exec_Ret_iff split: sum.splits)

text \<open>C2. Pipelines run one at a time and in order. A pass over a configure workflow creates at most one job, and only when the
  most recent job is not running. On manual reconciliation it is the job of the first pipeline; otherwise it is the first
  pipeline's when the most recent job is for none of the current pipelines, or that of a later pipeline when the most recent
  job is for the pipeline just before it and has not failed.\<close>

theorem ReconcileConfigure_in_order:
  assumes "exec (ReconcileConfigure L opts) ((q1, r1) # (q2, r2) # t) oc"
    and "as_list un_job r1 = Inr jobs" and "as_list un_job r2 = Inr legacy"
    and "manual_stays (manual (o_parentObject opts)) t"
    and "made created_job t \<noteq> []"
  defines "rs \<equiv> o_Resources opts" and "mr \<equiv> mostRecent L (jobs @ legacy)"
  shows "\<exists>i<length rs. made created_job t = [pj_Job (rs ! i)] \<and> \<not> isRunning mr \<and>
    (if manual (o_parentObject opts) then i = 0
     else if i = 0 then \<forall>k<length rs. \<not> jobIsForPipeline (rs ! k) mr
     else jobIsForPipeline (rs ! (i - 1)) mr \<and> \<not> isFailed mr)"
proof -
  define i where "i = current_index opts mr"
  from ReconcileConfigure_jobs [OF assms(1-3)] obtain ns where
    run: "exec (reconcileConfigureJobs L opts ns (jobs @ legacy)) t oc" ..
  from wpreD [OF run reconcileConfigureJobs_cases] assms(4,5)
  have made: "rs \<noteq> []" "made created_job t = [pj_Job (rs ! i)]" "\<not> isRunning mr"
    "manual (o_parentObject opts) \<or> \<not> jobIsForPipeline (rs ! i) mr"
    by (auto simp: rs_def mr_def i_def)
  have "i < length rs" using made(1) by (auto simp: i_def current_index_def rs_def min_less_iff_disj)
  moreover have "if manual (o_parentObject opts) then i = 0
     else if i = 0 then \<forall>k<length rs. \<not> jobIsForPipeline (rs ! k) mr
     else jobIsForPipeline (rs ! (i - 1)) mr \<and> \<not> isFailed mr"
  proof (cases "manual (o_parentObject opts)")
    case True
    then show ?thesis by (auto simp: i_def current_index_def nextPipelineIndex_def manual_def split: option.split)
  next
    case False
    then show ?thesis
      using current_index_facts(2) [OF False made(1) [unfolded rs_def], of mr, folded rs_def i_def] made(3,4) by auto
  qed
  ultimately show ?thesis using made(2,3) by blast
qed

text \<open>C21. A configure workflow is reported as done (no abort, no error) only when there is no pipeline at all, or the most recent
  job is for the last pipeline of the workflow and has neither failed nor is still running.\<close>

theorem ReconcileConfigure_done:
  assumes "exec (ReconcileConfigure L opts) ((q1, r1) # (q2, r2) # t) (Returned ((False, None), u))"
    and "as_list un_job r1 = Inr jobs" and "as_list un_job r2 = Inr legacy"
    and "\<not> manual (o_parentObject opts)" and "o_Resources opts \<noteq> []"
  shows "jobIsForPipeline (last (o_Resources opts)) (mostRecent L (jobs @ legacy)) \<and>
    \<not> isRunning (mostRecent L (jobs @ legacy)) \<and> \<not> isFailed (mostRecent L (jobs @ legacy))"
proof -
  from ReconcileConfigure_jobs [OF assms(1-3)] obtain ns where
    run: "exec (reconcileConfigureJobs L opts ns (jobs @ legacy)) t (Returned ((False, None), u))" ..
  from wpreD [OF run reconcileConfigureJobs_cases] assms(5)
  have fin: "jobIsForPipeline (o_Resources opts ! current_index opts (mostRecent L (jobs @ legacy))) (mostRecent L (jobs @ legacy))"
    "\<not> isRunning (mostRecent L (jobs @ legacy))" "\<not> isFailed (mostRecent L (jobs @ legacy))" by simp_all
  with current_index_facts(1) [OF assms(4,5) fin] assms(5) show ?thesis by (simp add: last_conv_nth)
qed

subsection \<open>A failed pipeline\<close>

text \<open>What the parent's status says after a failure.\<close>

definition workflow_failed :: "lib \<Rightarrow> string \<Rightarrow> unstructured \<Rightarrow> bool" where
  "workflow_failed L pipelineName u \<longleftrightarrow>
     (\<exists>c. GetCondition L u ConfigureWorkflowCompletedCondition = Some c \<and> c_Status c = ConditionFalse \<and>
        c_Reason c = ConfigureWorkflowCompletedFailedReason \<and> c_Message c = ''A Configure Pipeline has failed: '' @ pipelineName) \<and>
     (\<exists>c. GetCondition L u ReconciledCondition = Some c \<and> c_Status c = ConditionFalse \<and>
        c_Reason c = ConfigureWorkflowCompletedFailedReason) \<and>
     map_of (status_fields u) ''workflowsFailed'' = Some (JInt 1)"

lemma ConditionsGet_SetStatus:
  assumes "uconditions_laws L" and "k \<noteq> ''conditions''"
  shows "GetCondition L (u\<lparr>u_status := Some (JObj (json_update k v (status_fields u)))\<rparr>) ty = GetCondition L u ty"
proof -
  have "map_of (json_fields (u_status (u\<lparr>u_status := Some (JObj (json_update k v (status_fields u)))\<rparr>))) ''conditions'' =
      map_of (json_fields (u_status u)) ''conditions''"
    using assms(2) by (simp add: json_fields_def status_fields_def)
  with assms(1) show ?thesis unfolding uconditions_laws_def GetCondition_def by blast
qed

lemma markWorkflowFailed_result:
  assumes "uconditions_laws L"
  shows "wpre (markWorkflowFailed L parent pipeline) (\<lambda>t oc.
    (\<exists>w r. (StatusUpdate (OUnstructured w), r) \<in> set t \<and> workflow_failed L (pj_Name pipeline) w) \<and>
    (\<forall>a u. oc = Returned ((a, None), u) \<longrightarrow> a))"
proof -
  define msg where "msg = ''A Configure Pipeline has failed: '' @ pj_Name pipeline"
  define c1 where "c1 r = \<lparr>c_Type = ConfigureWorkflowCompletedCondition, c_Status = ConditionFalse,
    c_Reason = ConfigureWorkflowCompletedFailedReason, c_Message = msg,
    c_LastTransitionTime = as_time r\<rparr>" for r
  define c2 where "c2 r = \<lparr>c_Type = ReconciledCondition, c_Status = ConditionFalse,
    c_Reason = ConfigureWorkflowCompletedFailedReason, c_Message = ''Failing'', c_LastTransitionTime = as_time r\<rparr>" for r
  define u2 where "u2 r r' = SetCondition L (SetCondition L parent (c1 r)) (c2 r')" for r r'
  have ok: "status_ok (u2 r r')" for r r'
  proof -
    obtain fs where "u2 r r' = (SetCondition L parent (c1 r))\<lparr>u_status := Some (JObj fs)\<rparr>"
      using assms unfolding uconditions_laws_def u2_def SetCondition_def by blast
    then show ?thesis by (simp add: status_ok_def)
  qed
  have get: "GetCondition L (u2 r r') ConfigureWorkflowCompletedCondition = GetCondition L (SetCondition L parent (c1 r)) ConfigureWorkflowCompletedCondition"
    "\<exists>d. GetCondition L (u2 r r') ReconciledCondition = Some d \<and> same_condition d (c2 r')"
    "\<exists>d. GetCondition L (SetCondition L parent (c1 r)) ConfigureWorkflowCompletedCondition = Some d \<and> same_condition d (c1 r)" for r r'
    using GetCondition_SetCondition(2) [OF assms, where ty = ConfigureWorkflowCompletedCondition and c = "c2 r'"
        and u = "SetCondition L parent (c1 r)"]
      GetCondition_SetCondition(1) [OF assms, where u = "SetCondition L parent (c1 r)" and c = "c2 r'"]
      GetCondition_SetCondition(1) [OF assms, where u = parent and c = "c1 r"]
    by (simp_all add: u2_def c1_def c2_def ConfigureWorkflowCompletedCondition_def ReconciledCondition_def)
  define w where "w r r' = (u2 r r')\<lparr>u_status := Some (JObj (json_update ''workflowsFailed'' (JInt 1) (status_fields (u2 r r'))))\<rparr>" for r r'
  have failed: "workflow_failed L (pj_Name pipeline) (w r r')" for r r'
    using get(1,2) [of r r'] get(3) [of r] unfolding workflow_failed_def w_def ConditionsGet_SetStatus [OF assms, where k = "''workflowsFailed''", simplified]
    by (auto simp: same_condition_def c1_def c2_def status_fields_def msg_def)
  show ?thesis
    unfolding markWorkflowFailed_def mark_defs msg_def [symmetric]
    by (auto simp: wpre_simps c1_def [symmetric] c2_def [symmetric] u2_def [symmetric] SetStatus_one [OF ok] w_def [symmetric]
        split: sum.splits intro!: exI [of _ "w _ _"] failed)
qed


lemma current_index_failed:
  fixes mr :: "job option"
  assumes "\<not> manual (o_parentObject opts)" and "isFailed mr" and "k < length (o_Resources opts)"
    and "jobIsForPipeline (o_Resources opts ! k) mr"
  defines "i \<equiv> Max {i. i < length (o_Resources opts) \<and> jobIsForPipeline (o_Resources opts ! i) mr}"
  shows "nextPipelineIndex opts mr = i" and "i < length (o_Resources opts)" and "jobIsForPipeline (o_Resources opts ! i) mr"
proof -
  let ?M = "{i. i < length (o_Resources opts) \<and> jobIsForPipeline (o_Resources opts ! i) mr}"
  have "i \<in> ?M" unfolding i_def by (rule Max_in) (use assms(3,4) in auto)
  then show "i < length (o_Resources opts)" "jobIsForPipeline (o_Resources opts ! i) mr" by simp_all
  obtain job where "mr = Some job" using assms(2) by (cases mr) (auto simp: isFailed_def)
  then show "nextPipelineIndex opts mr = i"
    using nextPipelineIndexFrom_spec [of "length (o_Resources opts)" "o_Resources opts" job] assms(1-4)
    by (auto simp: nextPipelineIndex_def manual_def i_def)
qed

text \<open>C20. When the most recent job is for one of the workflow's pipelines, has failed and is not running, and the parent has
  no manual-reconciliation label, neither as given nor when it is read again after an update of its counters (with the
  label the workflow starts over and creates a job), a pass that returns no error stops the caller, creates no job, and writes the failure to the parent's
  status: the workflow condition is False and names the failed pipeline, Reconciled is False, one workflow has failed.\<close>

theorem ReconcileConfigure_failed:
  assumes "uconditions_laws L"
    and "exec (ReconcileConfigure L opts) ((q1, r1) # (q2, r2) # t) (Returned ((abort, None), u))"
    and "as_list un_job r1 = Inr jobs" and "as_list un_job r2 = Inr legacy"
    and "\<not> manual (o_parentObject opts)" and "manual_stays False t"
  defines "rs \<equiv> o_Resources opts" and "mr \<equiv> mostRecent L (jobs @ legacy)"
  assumes "isFailed mr" and "\<not> isRunning mr" and "k < length rs" and "jobIsForPipeline (rs ! k) mr"
  shows "abort \<and> made created_job t = [] \<and>
    (\<exists>w r. (StatusUpdate (OUnstructured w), r) \<in> set t \<and>
       workflow_failed L (pj_Name (rs ! Max {i. i < length rs \<and> jobIsForPipeline (rs ! i) mr})) w)"
proof -
  note ix = current_index_failed [OF assms(5) assms(9) assms(11,12) [unfolded rs_def], folded rs_def]
  from ReconcileConfigure_jobs [OF assms(2-4)] obtain ns where
    "exec (reconcileConfigureJobs L opts ns (jobs @ legacy)) t (Returned ((abort, None), u))" ..
  then have "exec (bnd (updateWorkflowCounters (o_parentObject opts) (nextPipelineIndex opts mr)) (\<lambda>(e, parent).
      case e of Some e \<Rightarrow> Ret ((False, Some e), parent)
      | None \<Rightarrow> reconcilePipeline L (opts\<lparr>o_parentObject := parent\<rparr>) ns (int (nextPipelineIndex opts mr))
                 (rs ! nextPipelineIndex opts mr) mr)) t (Returned ((abort, None), u))"
    using ix(1,2) unfolding reconcileConfigureJobs_def mr_def [symmetric] Let_def rs_def [symmetric]
    by (simp cong: option.case_cong)
  then obtain t1 t2 parent where t: "t = t1 @ t2"
    and upd: "exec (updateWorkflowCounters (o_parentObject opts) (nextPipelineIndex opts mr)) t1 (Returned (None, parent))"
    and run: "exec (reconcilePipeline L (opts\<lparr>o_parentObject := parent\<rparr>) ns (int (nextPipelineIndex opts mr))
                 (rs ! nextPipelineIndex opts mr) mr) t2 (Returned ((abort, None), u))"
    by (elim exec_bndE) (auto simp: exec_Ret_iff split: option.splits)
  from wpreD [OF upd updateWorkflowCounters_keeps_manual] assms(5,6) t have "made created_job t1 = []" "\<not> manual parent"
    by (auto simp: manual_def)
  moreover from this run ix assms(9,10) have run': "exec (markWorkflowFailed L parent (rs ! nextPipelineIndex opts mr)) t2 (Returned ((abort, None), u))"
    by (simp add: reconcilePipeline_def manual_def)
  moreover have "made created_job t2 = []"
    by (rule only_made [OF _ run']) (rule makes_no_job_parts)
  ultimately show ?thesis
    using wpreD [OF run' markWorkflowFailed_result [OF assms(1)]] ix t by auto
qed

subsection \<open>Old jobs and works are removed\<close>

text \<open>No request failed, but for objects that were not there any more.\<close>

definition mild :: "gtrace \<Rightarrow> bool" where
  "mild t \<longleftrightarrow> (\<forall>x\<in>set t. \<forall>e. as_unit (snd x) = Some e \<longrightarrow> IsNotFound e)"

lemma mild_simps [simp]:
  "mild []"
  "mild (x # t) \<longleftrightarrow> (\<forall>e. as_unit (snd x) = Some e \<longrightarrow> IsNotFound e) \<and> mild t"
  "mild (t @ t') \<longleftrightarrow> mild t \<and> mild t'"
  by (auto simp: mild_def)

lemma cleanupJobs_deletes:
  assumes "0 \<le> o_numberOfJobsToKeep opts" and "int (length jobs) > o_numberOfJobsToKeep opts"
    and "mset (SortJobsByCreationDateTime L jobs True) = mset jobs"
  shows "wpre (cleanupJobs L opts jobs) (\<lambda>t oc. mild t \<longrightarrow> oc = Returned None \<and>
    made deleted t = map OJob (take (length jobs - nat (o_numberOfJobsToKeep opts)) (SortJobsByCreationDateTime L jobs True)))"
proof -
  define js where "js = SortJobsByCreationDateTime L jobs True"
  define n where "n = length jobs - nat (o_numberOfJobsToKeep opts)"
  have len: "length js = length jobs" using assms(3) by (metis js_def size_mset)
  then have n: "nat (int (length js) - o_numberOfJobsToKeep opts) = n" "n \<le> length js"
    using assms(1) by (auto simp: n_def)
  have "wpre (for_range [0..<n] () (\<lambda>i _.
             if i < length js then
               bnd (call_unit (Delete (OJob (js ! i)))) (\<lambda>e.
               Ret (case e of None \<Rightarrow> Next () | Some e \<Rightarrow> if IsNotFound e then Next () else Leave (None :: err option)))
             else Panic ''index out of range''))
     (\<lambda>t oc. mild t \<longrightarrow> oc = Returned (Next ()) \<and> made deleted t = map OJob (take n js))"
  proof (rule wpre_for_range [where I = "\<lambda>pre t s. mild t \<longrightarrow> made deleted t = map OJob (map ((!) js) pre)"], goal_cases)
    case (2 pre i rest s t)
    have "i \<in> set [0..<n]" unfolding 2(1) by simp
    with n(2) have "i < length js" by simp
    with 2 show ?case by (auto simp: wpre_simps split: option.split)
  next
    case (3 t s)
    have "map ((!) js) [0..<n] = take n js" using n(2) by (intro nth_equalityI) auto
    with 3 show ?case by simp
  qed simp
  then show ?thesis
    using assms(2) unfolding cleanupJobs_def js_def [symmetric] n_def [symmetric] Let_def n(1)
    by (auto simp: wpre_after_loop wpre_basic split: outcome.splits loop.splits elim!: wpre_mono)
qed

text \<open>Cleaning up the jobs of a pipeline splits them into deleted and kept ones: with no failure, exactly as many are kept
  as the options say (or all, if there are fewer), and no deleted job is younger than a kept one.\<close>

lemma cleanupJobs_keeps_youngest:
  assumes "sort_laws L" and "0 \<le> o_numberOfJobsToKeep opts"
    and "exec (cleanupJobs L opts jobs) t oc" and "mild t"
  shows "oc = Returned None \<and> (\<exists>gone kept. made deleted t = map OJob gone \<and> mset jobs = mset gone + mset kept \<and>
    length kept = min (length jobs) (nat (o_numberOfJobsToKeep opts)) \<and>
    (\<forall>g\<in>set gone. \<forall>k\<in>set kept. created g \<le> created k))"
proof (cases "int (length jobs) \<le> o_numberOfJobsToKeep opts")
  case True
  with assms(3) have "oc = Returned None" "t = []" by (auto simp: cleanupJobs_def exec_Ret_iff)
  with True show ?thesis by (intro conjI exI [of _ "[]"] exI [of _ jobs]) auto
next
  case False
  define js where "js = SortJobsByCreationDateTime L jobs True"
  define n where "n = length jobs - nat (o_numberOfJobsToKeep opts)"
  have perm: "mset js = mset jobs" using assms(1) by (simp add: js_def SortJobsByCreationDateTime_def sort_laws_def)
  then have len: "length js = length jobs" by (metis size_mset)
  have "sorted (map created js)" using assms(1) by (simp add: js_def SortJobsByCreationDateTime_def sort_laws_def)
  then have "sorted (map created (take n js @ drop n js))" by simp
  then have "\<forall>g\<in>set (take n js). \<forall>k\<in>set (drop n js). created g \<le> created k"
    unfolding map_append sorted_append by auto
  moreover have "mset jobs = mset (take n js) + mset (drop n js)" by (metis append_take_drop_id mset_append perm)
  moreover have "length (drop n js) = min (length jobs) (nat (o_numberOfJobsToKeep opts))"
    using False assms(2) by (auto simp: len n_def)
  moreover have "oc = Returned None" "made deleted t = map OJob (take n js)"
    using wpreD [OF assms(3) cleanupJobs_deletes [OF assms(2) _ perm [unfolded js_def]]] False assms(4)
    by (simp_all add: js_def n_def)
  ultimately show ?thesis by blast
qed

subsection \<open>Concrete passes\<close>

definition ex_job :: "string \<Rightarrow> job_condition list \<Rightarrow> time \<Rightarrow> job" where
  "ex_job n cs ts = \<lparr>j_meta = (ex_meta n)\<lparr>m_Labels := fmupd PipelineNameLabel n fmempty, m_CreationTimestamp := ts\<rparr>, j_Suspend = None,
     j_BackoffLimit = None, j_Template = \<lparr>pt_Labels = fmempty, pt_Annotations = fmempty, pt_RestartPolicy = [], pt_ServiceAccountName = [], pt_Containers = [],
       pt_ImagePullSecrets = [], pt_InitContainers = [], pt_Volumes = [], pt_NodeSelector = fmempty, pt_Tolerations = []\<rparr>,
     j_Active = 0, j_Succeeded = 0, j_Failed = 0, j_Conditions = cs\<rparr>"

definition ex_pipe :: "string \<Rightarrow> PipelineJobResources" where
  "ex_pipe n = \<lparr>pj_Name = n, pj_PipelineID = n, pj_Job = ex_job n [] 0, pj_Shared = \<lparr>sh_ServiceAccount = None, sh_ConfigMap = None,
     sh_Roles = [], sh_RoleBindings = [], sh_ClusterRoles = [], sh_ClusterRoleBindings = []\<rparr>,
     pj_WorkflowType = WorkflowTypePromise, pj_WorkflowAction = WorkflowActionConfigure\<rparr>"

definition ex_parent :: unstructured where
  "ex_parent = \<lparr>u_meta = ex_meta ''redis'', u_gvk = p_gvk ex_promise, u_spec = None, u_status = None\<rparr>"

definition ex_opts :: Opts where
  "ex_opts = (NewOpts ex_parent [ex_pipe ''one'', ex_pipe ''two''] WorkflowTypePromise 1)\<lparr>o_SkipConditions := True\<rparr>"

definition ex_complete :: job_condition where "ex_complete = \<lparr>jc_Type = JobComplete, jc_Status = ConditionTrue\<rparr>"
definition ex_failed :: job_condition where "ex_failed = \<lparr>jc_Type = JobFailed, jc_Status = ConditionTrue\<rparr>"

lemmas ex_workflow_defs = ex_job_def ex_pipe_def ex_parent_def ex_opts_def ex_complete_def ex_failed_def NewOpts_def

lemmas workflow_eval = ReconcileConfigure_def getJobsWithLabels_def reconcileConfigureJobs_def mostRecent_def
  nextPipelineIndex_def updateWorkflowCounters_def resetFailedCounter_def setSucceededCounter_def GetWorkflowsCounterStatus_def
  status_nil_def SetStatus_def status_map_def reconcilePipeline_def SortJobsByCreationDateTime_def

lemma ex_workflow_simps:
  "jobIsForPipeline (ex_pipe n) (Some (ex_job m cs ts)) \<longleftrightarrow> n = m"
  "isFailed (Some (ex_job n cs ts)) \<longleftrightarrow> list_ex (\<lambda>c. jc_Type c = JobFailed \<or> jc_Type c = JobSuspended) cs"
  "isRunning (Some (ex_job n cs ts)) \<longleftrightarrow> \<not> list_ex (\<lambda>c. jc_Type c = JobComplete \<or> jc_Type c = JobSuspended \<or> jc_Type c = JobFailed) cs"
  "pj_Name (ex_pipe n) = n" "created (ex_job n cs ts) = ts" "manual ex_parent \<longleftrightarrow> False"
  "isManualReconciliation (m_Labels (u_meta ex_parent)) \<longleftrightarrow> False" "u_status ex_parent = None"
  "o_parentObject ex_opts = ex_parent" "o_Resources ex_opts = [ex_pipe ''one'', ex_pipe ''two'']" "o_numberOfJobsToKeep ex_opts = 1"
  "o_SkipConditions ex_opts = True" "m_Namespace (u_meta ex_parent) = ''default''" "pj_Job (ex_pipe n) = ex_job n [] 0"
  "pj_Shared (ex_pipe n) = \<lparr>sh_ServiceAccount = None, sh_ConfigMap = None, sh_Roles = [], sh_RoleBindings = [],
     sh_ClusterRoles = [], sh_ClusterRoleBindings = []\<rparr>"
  by (auto simp: jobIsForPipeline_def isFailed_def isRunning_def created_def manual_def isManualReconciliation_def isLabelSetToTrue_def
      job_labels_def ex_workflow_defs ex_defs)

lemma plain_lib_requests:
  "L_ParseSelector plain_lib s = Inr Everything" "L_SortSlice plain_lib = slice_stable"
  by (simp_all add: plain_lib_def)

text \<open>The first pipeline's job is complete: the pass starts the second pipeline.\<close>

theorem ReconcileConfigure_in_order_witness:
  "\<exists>t u. exec (ReconcileConfigure plain_lib ex_opts) t (Returned ((True, None), u)) \<and>
     made created_job t = [pj_Job (ex_pipe ''two'')]"
proof -
  let ?jobs = "[ex_job ''one'' [ex_complete] 5]"
  have "\<exists>q1 q2 t u. script (ReconcileConfigure plain_lib ex_opts)
      [RList (map OJob ?jobs), RList [], RObj (OUnstructured ex_parent), RList [], RList [], RList [], RList [], ROk, ROk, ROk] =
      Some ((q1, RList (map OJob ?jobs)) # (q2, RList []) # t, Returned ((True, None), u)) \<and> manual_stays False t \<and> made created_job t \<noteq> []
      \<and> made created_job [(q1, ROk), (q2, ROk)] = []"
    by (simp add: workflow_eval ex_workflow_simps plain_lib_requests createConfigurePipeline_def setConfigureWorkflowCompletedConditionStatus_def
        getObjectsToDelete_def append_or_fail_def getRolesToDelete_def getClusterRolesToDelete_def getRoleBindingsToDelete_def
        getClusterRoleBindingsToDelete_def objectsToDelete_def deleteResources_def startPipeline_def applyResources_def
        applyResource_def is_service_account_def GetObjects_def ex_complete_def call_defs consts_defs Let_def)
  then obtain q1 q2 t u where e: "exec (ReconcileConfigure plain_lib ex_opts) ((q1, RList (map OJob ?jobs)) # (q2, RList []) # t) (Returned ((True, None), u))"
    and t: "manual_stays False t" "made created_job t \<noteq> []" "made created_job [(q1, ROk), (q2, ROk)] = []" using script_exec by blast
  have l: "as_list un_job (RList (map OJob ?jobs)) = Inr ?jobs" "as_list un_job (RList []) = Inr []"
    by (simp_all add: as_list_def)
  have m: "\<not> manual (o_parentObject ex_opts)" "mostRecent plain_lib (?jobs @ []) = Some (ex_job ''one'' [ex_complete] 5)"
    by (simp_all add: manual_def isManualReconciliation_def isLabelSetToTrue_def mostRecent_def SortJobsByCreationDateTime_def ex_workflow_defs ex_defs plain_lib_def)
  from ReconcileConfigure_in_order [OF e l _ t(2)] m t(1)
  have "made created_job t = [pj_Job (ex_pipe ''two'')]"
    by (auto simp: less_Suc_eq jobIsForPipeline_def job_labels_def ex_workflow_defs ex_defs consts_defs)
  with e t(3) show ?thesis by (auto split: option.splits)
qed

text \<open>Both jobs are complete: the workflow is done.\<close>

theorem ReconcileConfigure_done_witness:
  "\<exists>t u. exec (ReconcileConfigure plain_lib ex_opts) t (Returned ((False, None), u)) \<and>
     jobIsForPipeline (ex_pipe ''two'') (mostRecent plain_lib [ex_job ''one'' [ex_complete] 5, ex_job ''two'' [ex_complete] 9])"
proof -
  let ?jobs = "[ex_job ''one'' [ex_complete] 5, ex_job ''two'' [ex_complete] 9]"
  have "\<exists>q1 q2 t u. script (ReconcileConfigure plain_lib ex_opts)
      [RList (map OJob ?jobs), RList [], RObj (OUnstructured ex_parent), RList [], RList [], RList []] =
      Some ((q1, RList (map OJob ?jobs)) # (q2, RList []) # t, Returned ((False, None), u))"
    by (simp add: workflow_eval ex_workflow_simps plain_lib_requests cleanup_def cleanupJobs_def cleanupWorks_def after_loop_def
        GetWorksByType_def getExistingWorks_def call_defs ex_complete_def consts_defs Let_def)
  then obtain q1 q2 t u where e: "exec (ReconcileConfigure plain_lib ex_opts) ((q1, RList (map OJob ?jobs)) # (q2, RList []) # t) (Returned ((False, None), u))"
    using script_exec by blast
  have l: "as_list un_job (RList (map OJob ?jobs)) = Inr ?jobs" "as_list un_job (RList []) = Inr []"
    by (simp_all add: as_list_def)
  have m: "\<not> manual (o_parentObject ex_opts)" "o_Resources ex_opts \<noteq> []" "last (o_Resources ex_opts) = ex_pipe ''two''"
    by (simp_all add: manual_def isManualReconciliation_def isLabelSetToTrue_def ex_opts_def NewOpts_def ex_parent_def ex_defs)
  from ReconcileConfigure_done [OF e l m(1,2)] m(3) e show ?thesis by auto
qed

text \<open>The first pipeline's job has failed.\<close>

theorem ReconcileConfigure_failed_witness:
  "\<exists>t u w r. exec (ReconcileConfigure plain_lib ex_opts) t (Returned ((True, None), u)) \<and>
     (StatusUpdate (OUnstructured w), r) \<in> set t \<and> workflow_failed plain_lib ''one'' w"
proof -
  let ?jobs = "[ex_job ''one'' [ex_failed] 5]"
  have "\<exists>q1 q2 t u. script (ReconcileConfigure plain_lib ex_opts)
      [RList (map OJob ?jobs), RList [], RObj (OUnstructured ex_parent), RTime 1, RTime 2, RObj (OUnstructured ex_parent), ROk] =
      Some ((q1, RList (map OJob ?jobs)) # (q2, RList []) # t, Returned ((True, None), u)) \<and> manual_stays False t"
    by (simp add: workflow_eval ex_workflow_simps plain_lib_requests markWorkflowFailed_def mark_defs mark_def SetCondition_def plain_ConditionsSet_def json_fields_def
        plain_uconds_def ex_failed_def plain_lib_def call_defs consts_defs Let_def)
  then obtain q1 q2 t u where e: "exec (ReconcileConfigure plain_lib ex_opts) ((q1, RList (map OJob ?jobs)) # (q2, RList []) # t) (Returned ((True, None), u))"
    and t: "manual_stays False t" using script_exec by blast
  have l: "as_list un_job (RList (map OJob ?jobs)) = Inr ?jobs" "as_list un_job (RList []) = Inr []"
    by (simp_all add: as_list_def)
  have mr: "mostRecent plain_lib (?jobs @ []) = Some (ex_job ''one'' [ex_failed] 5)"
    by (simp add: mostRecent_def SortJobsByCreationDateTime_def plain_lib_def)
  have m: "\<not> manual (o_parentObject ex_opts)" "isFailed (Some (ex_job ''one'' [ex_failed] 5))"
    "\<not> isRunning (Some (ex_job ''one'' [ex_failed] 5))" "0 < length (o_Resources ex_opts)"
    "jobIsForPipeline (o_Resources ex_opts ! 0) (Some (ex_job ''one'' [ex_failed] 5))"
    by (simp_all add: manual_def isManualReconciliation_def isLabelSetToTrue_def isFailed_def isRunning_def jobIsForPipeline_def
        job_labels_def ex_workflow_defs ex_defs)
  have "{i. i < length (o_Resources ex_opts) \<and> jobIsForPipeline (o_Resources ex_opts ! i) (Some (ex_job ''one'' [ex_failed] 5))} = {0}"
    by (auto simp: less_Suc_eq jobIsForPipeline_def job_labels_def ex_workflow_defs ex_defs consts_defs)
  with ReconcileConfigure_failed [OF plain_uconditions_laws e l m(1) t, unfolded mr, OF m(2-5)] e
  show ?thesis by (fastforce simp: ex_opts_def NewOpts_def ex_pipe_def)
qed

text \<open>Two jobs, one to keep: the older one goes.\<close>

theorem cleanupJobs_keeps_youngest_witness:
  "\<exists>t. exec (cleanupJobs plain_lib ex_opts [ex_job ''one'' [] 9, ex_job ''one'' [] 5]) t (Returned None) \<and>
     made deleted t = [OJob (ex_job ''one'' [] 5)]"
proof -
  let ?jobs = "[ex_job ''one'' [] 9, ex_job ''one'' [] 5]"
  have "\<exists>t. script (cleanupJobs plain_lib ex_opts ?jobs) [ROk] = Some (t, Returned None) \<and> mild t"
    by (simp add: cleanupJobs_def after_loop_def SortJobsByCreationDateTime_def created_def ex_workflow_defs ex_defs plain_lib_def call_defs
        upt_rec mild_def)
  then obtain t where e: "exec (cleanupJobs plain_lib ex_opts ?jobs) t (Returned None)" and t: "mild t"
    using script_exec by blast
  have k: "0 \<le> o_numberOfJobsToKeep ex_opts" "nat (o_numberOfJobsToKeep ex_opts) = 1" by (simp_all add: ex_opts_def NewOpts_def)
  from cleanupJobs_keeps_youngest [OF plain_sort_laws k(1) e t] k(2) obtain gone x where g: "made deleted t = map OJob gone"
    "mset ?jobs = mset gone + mset [x]" "\<forall>y\<in>set gone. created y \<le> created x"
    by (auto simp: length_Suc_conv)
  from g(2) have "size (mset ?jobs) = size (mset gone + mset [x])" by simp
  then have "length gone = Suc 0" by simp
  then obtain y where y: "gone = [y]" by (auto simp: length_Suc_conv)
  with g have "y = ex_job ''one'' [] 5" by (auto simp: add_eq_conv_ex ex_job_def created_def)
  with y g(1) e show ?thesis by auto
qed

end
