(* ===== verification/WorkflowSafety.thy ===== *)
theory WorkflowSafety
  imports Workflow
begin

text \<open>
  What the workflow engine (\<^verbatim>\<open>Workflow\<close>) leaves alone: service accounts that Kratix did not create, permissions
  that are still wanted; and when a deletion may go on.
\<close>

subsection \<open>Foreign service accounts\<close>

text \<open>A service account is updated only after it was read and found to carry the label of a promise.\<close>

definition sa_ok :: "gtrace \<Rightarrow> req \<times> resp \<Rightarrow> bool" where
  "sa_ok t x = (case fst x of
     Update (OServiceAccount sa) \<Rightarrow> sa_Kind sa = ''ServiceAccount'' \<longrightarrow>
       (\<exists>r sa'. (Get KServiceAccount (m_Namespace (sa_meta sa)) (m_Name (sa_meta sa)), r) \<in> set t \<and> as_obj un_sa r = Inr sa' \<and>
          fmlookup (m_Labels (sa_meta sa')) PromiseNameLabel \<noteq> None)
   | _ \<Rightarrow> True)"

interpretation sa: trace_guard sa_ok
  by unfold_locales (fastforce simp: sa_ok_def split: req.splits kobj.splits)

lemma sa_benign: "benign q \<Longrightarrow> \<forall>r t. sa_ok t (q, r)"
  by (cases q rule: benign.cases) (auto simp: sa_ok_def)

lemmas sa_keeps_parts = benign_parts [THEN only_mono, OF sa_benign, THEN sa.keeps_free]

lemma sa_keeps_applyResource: "sa.keeps (applyResource x)"
proof (cases "is_service_account x")
  case True
  then obtain s where x: "x = OServiceAccount s" by (auto simp: is_service_account_def split: kobj.splits)
  show ?thesis
    unfolding applyResource_def updateResource_def sa.keeps_def x
    by (auto simp: wpre_simps is_service_account_def sa.guarded_def sa_ok_def append_eq_Cons_conv Cons_eq_append_conv
        split: option.splits sum.splits)
next
  case False
  then have "only (\<lambda>q. \<forall>r t. sa_ok t (q, r)) (applyResource x)"
    unfolding applyResource_def updateResource_def
    by (auto intro!: only_intros simp: sa_ok_def is_service_account_def split: kobj.splits)
  then show ?thesis by (rule sa.keeps_free)
qed

lemma sa_ok_other [simp]:
  "sa_ok t (ListObjs k ns s, r)" "sa_ok t (Sleep d, r)" "sa_ok t (Event x a b c, r)" "sa_ok t (Get k ns n, r)"
  "sa_ok t (Patch x, r)" "sa_ok t (Now, r)"
  by (simp_all add: sa_ok_def)

lemma sa_keeps_deref: "sa.keeps (deref x)" and sa_keeps_event: "sa.keeps (call_event obj a b c)"
  and sa_keeps_jobs: "sa.keeps (getJobsWithLabels L l ns)"
  by (auto intro!: sa.keeps_free only_intros)

lemmas sa_keeps = sa.keeps_bnd sa.keeps_Ret sa.keeps_Panic sa.keeps_for_range sa.keeps_after_loop sa_keeps_parts
  sa_keeps_applyResource sa_keeps_deref sa_keeps_event sa_keeps_jobs

lemma sa_keeps_startPipeline: "sa.keeps (startPipeline k res u)"
proof -
  have "sa.keeps (Call (Sleep d) (\<lambda>_. Ret ()) :: unit go)" for d
    by (auto intro!: sa.keeps_free only_intros)
  then show ?thesis unfolding startPipeline_def applyResources_def by (auto intro!: sa_keeps)
qed

lemma sa_keeps_createConfigurePipeline: "sa.keeps (createConfigurePipeline L opts i res)"
  unfolding createConfigurePipeline_def
  by (auto intro!: sa_keeps sa_keeps_startPipeline split: sum.split option.split prod.split)

lemma sa_keeps_createDeletePipeline: "sa.keeps (createDeletePipeline opts res)"
  unfolding createDeletePipeline_def Let_def
  by (auto intro!: sa_keeps sa_keeps_startPipeline split: option.split prod.split)

lemma sa_keeps_ReconcileConfigure: "sa.keeps (ReconcileConfigure L opts)"
  unfolding ReconcileConfigure_def reconcileConfigureJobs_def reconcilePipeline_def Let_def
  by (auto intro!: sa_keeps sa_keeps_createConfigurePipeline split: sum.split option.split prod.split)

lemma sa_keeps_ReconcileDelete: "sa.keeps (ReconcileDelete L opts)"
  unfolding ReconcileDelete_def getMostRecentDeletePipelineJob_def Let_def
  by (auto intro!: sa_keeps sa_keeps_createDeletePipeline split: sum.split option.split list.split)

text \<open>C31. A workflow pass, configure or delete, updates a service account only after it has read that very service account in the
  same pass and found the promise label on it: service accounts that Kratix did not create are left alone.\<close>

theorem workflow_spares_foreign_service_accounts:
  assumes "exec (ReconcileConfigure L opts) t oc \<or> exec (ReconcileDelete L opts) t oc"
    and "t = t1 @ (Update (OServiceAccount sa), r) # t2" and "sa_Kind sa = ''ServiceAccount''"
  shows "\<exists>r' sa'. (Get KServiceAccount (m_Namespace (sa_meta sa)) (m_Name (sa_meta sa)), r') \<in> set t1 \<and>
    as_obj un_sa r' = Inr sa' \<and> fmlookup (m_Labels (sa_meta sa')) PromiseNameLabel \<noteq> None"
proof -
  have "sa_ok t1 (Update (OServiceAccount sa), r)"
    using assms(1,2) sa.keepsD [OF sa_keeps_ReconcileConfigure] sa.keepsD [OF sa_keeps_ReconcileDelete] by blast
  with assms(3) show ?thesis by (simp add: sa_ok_def)
qed

subsection \<open>Permissions that are not wanted any more\<close>

text \<open>
  What the four kinds of permission objects have in common: they are recognised among the API server's objects, and every
  object matches itself.
\<close>

locale permission_kind = api_kind sel mk
  for sel :: "kobj \<Rightarrow> 'a option" and mk :: "'a \<Rightarrow> kobj" +
  fixes matches :: "'a \<Rightarrow> 'a \<Rightarrow> bool"
  assumes matches_self: "matches y y"
begin

definition unwanted :: "'a list \<Rightarrow> kobj \<Rightarrow> bool" where
  "unwanted desired x \<longleftrightarrow> (\<exists>y. x = mk y \<and> (\<forall>d\<in>set desired. \<not> matches y d))"

lemma objectsToDelete_result:
  "wpre (objectsToDelete q sel mk matches desired) (\<lambda>t oc. \<forall>xs. oc = Returned (Inr xs) \<longrightarrow>
     (\<exists>r. t = [(q, r)] \<and> ((\<exists>ys. r = RList (map mk ys) \<and> set xs = {x \<in> mk ` set ys. unwanted desired x}) \<or>
        (\<exists>e. r = RErr e) \<and> xs = [])))"
proof -
  have "\<exists>e. r = RErr e" if "as_list sel r = Inl e" "IsNotFound e" for r e
    using that by (auto simp: as_list_def decode_error_def split: resp.splits option.splits)
  then show ?thesis
    unfolding objectsToDelete_def
    by (fastforce simp: wpre_simps as_list_mk unwanted_def list_ex_iff split: sum.splits if_splits)
qed

lemma unwanted_desired: "y \<in> set desired \<Longrightarrow> \<not> unwanted desired (mk y)"
  using matches_self by (auto simp: unwanted_def)

end

lemma same_strings_refl: "same_strings f xs xs"
  by (auto simp: same_strings_def zip_same_conv_map list_all_iff)

interpretation roles: permission_kind un_role ORole "rolesMatch L"
  by unfold_locales (auto simp: rolesMatch_def same_strings_refl)

interpretation cluster_roles: permission_kind un_clusterrole OClusterRole "clusterRolesMatch L"
  by unfold_locales (auto simp: clusterRolesMatch_def same_strings_refl)

interpretation role_bindings: permission_kind un_rolebinding ORoleBinding "roleBindingsMatch L"
  by unfold_locales (auto simp: roleBindingsMatch_def same_strings_refl)

interpretation cluster_role_bindings: permission_kind un_clusterrolebinding OClusterRoleBinding "clusterRoleBindingsMatch L"
  by unfold_locales (auto simp: clusterRoleBindingsMatch_def same_strings_refl)

text \<open>Whether the pipeline still wants an object: one of its own objects of that kind matches it.\<close>

definition still_wanted :: "lib \<Rightarrow> SharedPipelineResources \<Rightarrow> kobj \<Rightarrow> bool" where
  "still_wanted L sh x = (case x of
     ORole r \<Rightarrow> list_ex (rolesMatch L r) (sh_Roles sh)
   | OClusterRole r \<Rightarrow> list_ex (clusterRolesMatch L r) (sh_ClusterRoles sh)
   | ORoleBinding b \<Rightarrow> list_ex (roleBindingsMatch L b) (sh_RoleBindings sh)
   | OClusterRoleBinding b \<Rightarrow> list_ex (clusterRoleBindingsMatch L b) (sh_ClusterRoleBindings sh)
   | _ \<Rightarrow> True)"

definition listed :: "gtrace \<Rightarrow> kobj set" where
  "listed t = (\<Union>x\<in>set t. case snd x of RList xs \<Rightarrow> set xs | _ \<Rightarrow> {})"

lemma listed_simps [simp]:
  "listed [] = {}" "listed (x # t) = (case snd x of RList xs \<Rightarrow> set xs | _ \<Rightarrow> {}) \<union> listed t" "listed (t @ t') = listed t \<union> listed t'"
  by (auto simp: listed_def)

definition unwanted_listed :: "lib \<Rightarrow> SharedPipelineResources \<Rightarrow> gtrace \<Rightarrow> kobj set" where
  "unwanted_listed L sh t = {x \<in> listed t. \<not> still_wanted L sh x}"

lemma unwanted_listed_append [simp]:
  "unwanted_listed L sh (t @ t') = unwanted_listed L sh t \<union> unwanted_listed L sh t'"
  by (auto simp: unwanted_listed_def)

lemma getToDelete_results:
  fixes L sh
  defines "exact t (oc :: (err + kobj list) outcome) \<equiv> \<forall>xs. oc = Returned (Inr xs) \<longrightarrow> set xs = unwanted_listed L sh t"
  shows "wpre (getRolesToDelete L (sh_Roles sh) s) exact"
    and "wpre (getClusterRolesToDelete L (sh_ClusterRoles sh) s) exact"
    and "wpre (getRoleBindingsToDelete L (sh_RoleBindings sh) s) exact"
    and "wpre (getClusterRoleBindingsToDelete L (sh_ClusterRoleBindings sh) s) exact"
  unfolding getRolesToDelete_def getClusterRolesToDelete_def getRoleBindingsToDelete_def getClusterRoleBindingsToDelete_def exact_def
  by (auto intro!: wpre_mono [OF roles.objectsToDelete_result] wpre_mono [OF cluster_roles.objectsToDelete_result]
      wpre_mono [OF role_bindings.objectsToDelete_result] wpre_mono [OF cluster_role_bindings.objectsToDelete_result]
      simp: unwanted_listed_def still_wanted_def roles.unwanted_def cluster_roles.unwanted_def role_bindings.unwanted_def
        cluster_role_bindings.unwanted_def list_ex_iff)

lemma append_or_fail_unwanted:
  assumes "wpre p (\<lambda>t oc. \<forall>xs. oc = Returned (Inr xs) \<longrightarrow> set xs = U t)"
    and "\<And>xs. wpre (k (acc @ xs)) (\<lambda>t oc. \<forall>ys. oc = Returned (Inr ys) \<longrightarrow> set ys = set (acc @ xs) \<union> U t)"
    and "\<And>t t'. U (t @ t') = U t \<union> U t'"
  shows "wpre (append_or_fail acc p k) (\<lambda>t oc. \<forall>ys. oc = Returned (Inr ys) \<longrightarrow> set ys = set acc \<union> U t)"
  unfolding append_or_fail_def wpre_bnd
  by (rule wpre_mono [OF assms(1)])
    (auto simp: wpre_basic assms(3) split: outcome.split sum.split intro!: wpre_mono [OF assms(2)])

lemma list_ex_self: "y \<in> set ys \<Longrightarrow> P y y \<Longrightarrow> list_ex (P y) ys"
  by (auto simp: list_ex_iff)

text \<open>C33. Before a pipeline starts, the objects to delete are exactly the listed roles, cluster roles and bindings that match
  nothing the pipeline wants now; what the pipeline itself wants is never among them.\<close>

theorem getObjectsToDelete_exact:
  assumes "exec (getObjectsToDelete L pipeline) t (Returned (Inr xs))"
  shows "set xs = unwanted_listed L (pj_Shared pipeline) t \<and> set xs \<inter> set (GetObjects pipeline) = {}"
proof -
  let ?sh = "pj_Shared pipeline"
  have "wpre (getObjectsToDelete L pipeline) (\<lambda>t oc. \<forall>xs. oc = Returned (Inr xs) \<longrightarrow> set xs = set [] \<union> unwanted_listed L ?sh t)"
    unfolding getObjectsToDelete_def Let_def
    by (intro append_or_fail_unwanted [where U = "unwanted_listed L ?sh"] getToDelete_results unwanted_listed_append)
      (simp add: wpre_basic unwanted_listed_def)
  from wpreD [OF assms this] have "set xs = unwanted_listed L ?sh t" by simp
  moreover have "still_wanted L ?sh x" if "x \<in> set (GetObjects pipeline)" for x
    using that
    by (auto simp: GetObjects_def Let_def still_wanted_def split: option.splits intro!: list_ex_self
        intro: roles.matches_self cluster_roles.matches_self role_bindings.matches_self cluster_role_bindings.matches_self)
  ultimately show ?thesis unfolding unwanted_listed_def by blast
qed

subsection \<open>When a deletion may go on\<close>

lemma hd_sorted_youngest:
  assumes "sort_laws L" and "jobs \<noteq> []"
  defines "j \<equiv> hd (SortJobsByCreationDateTime L jobs False)"
  shows "j \<in> set jobs" and "\<forall>k\<in>set jobs. created k \<le> created j"
proof -
  define js where "js = L_SortSlice L (\<lambda>a b. created a > created b) jobs"
  have js: "SortJobsByCreationDateTime L jobs False = js" by (simp add: SortJobsByCreationDateTime_def js_def)
  have perm: "mset js = mset jobs" and sorted: "sorted (rev (map created js))"
    using assms(1) by (simp_all add: sort_laws_def js_def)
  from perm assms(2) have set: "set js = set jobs" and "js \<noteq> []" by (auto dest: mset_eq_setD)
  then obtain y ys where ys: "js = y # ys" by (cases js) auto
  show "j \<in> set jobs" using set ys by (auto simp: j_def js)
  show "\<forall>k\<in>set jobs. created k \<le> created j"
    using sorted set by (auto simp: j_def js ys sorted_append)
qed

lemma ReconcileDelete_youngest:
  assumes "sort_laws L" and "exec (ReconcileDelete L opts) t (Returned ((False, None), u))" and "o_Resources opts \<noteq> []"
  shows "u = o_parentObject opts \<and> (\<exists>q jobs job. t = [(q, RList (map OJob jobs))] \<and> job \<in> set jobs \<and>
    (\<forall>k\<in>set jobs. created k \<le> created job) \<and> \<not> isRunning (Some job) \<and> 0 < j_Succeeded job)"
proof -
  obtain pl rest where rs: "o_Resources opts = pl # rest" using assms(3) by (cases "o_Resources opts") auto
  have create: "wpre (createDeletePipeline opts pl) (\<lambda>t oc. oc \<noteq> Returned ((False, None), u))"
    unfolding createDeletePipeline_def startPipeline_def Let_def
    by (auto simp: wpre_simps removeManualReconciliationLabel_def removeLabel_def split: sum.split option.split outcome.split
        intro!: wpre_mono [OF applyResources_jobs])
  have "wpre (ReconcileDelete L opts) (\<lambda>t oc. oc = Returned ((False, None), u) \<longrightarrow> u = o_parentObject opts \<and>
      (\<exists>q jobs. t = [(q, RList (map OJob jobs))] \<and> jobs \<noteq> [] \<and> \<not> isRunning (Some (hd (SortJobsByCreationDateTime L jobs False))) \<and>
         0 < j_Succeeded (hd (SortJobsByCreationDateTime L jobs False))))"
    unfolding ReconcileDelete_def getMostRecentDeletePipelineJob_def getJobsWithLabels_def rs Let_def
    by (auto simp: wpre_simps jobs.as_list_mk suspendJob_def deref_def split: sum.split option.split outcome.split
        intro!: wpre_mono [OF create])
  from wpreD [OF assms(2) this] show ?thesis
    using hd_sorted_youngest [OF assms(1)] by blast
qed

text \<open>C29. A delete workflow lets its caller go on (no abort, no error) only when there is no pipeline, or the youngest job of the
  delete pipeline has succeeded and is not running; nothing is written then.\<close>

theorem ReconcileDelete_done:
  assumes "sort_laws L" and "exec (ReconcileDelete L opts) t (Returned ((False, None), u))" and "o_Resources opts \<noteq> []"
  shows "u = o_parentObject opts \<and> (\<exists>q jobs job. t = [(q, RList (map OJob jobs))] \<and> job \<in> set jobs \<and>
    (\<forall>k\<in>set jobs. created k \<le> created job) \<and> \<not> isRunning (Some job) \<and> 0 < j_Succeeded job)"
  using assms by (rule ReconcileDelete_youngest)

subsection \<open>Concrete passes\<close>

text \<open>A delete pipeline with a service account that exists already.\<close>

definition ex_sa :: service_account where
  "ex_sa = \<lparr>sa_meta = (ex_meta ''robot'')\<lparr>m_Labels := fmupd PromiseNameLabel ''redis'' fmempty\<rparr>, sa_Kind = ''ServiceAccount''\<rparr>"

definition ex_sa_pipe :: PipelineJobResources where
  "ex_sa_pipe = (ex_pipe ''one'')\<lparr>pj_Shared := (pj_Shared (ex_pipe ''one''))\<lparr>sh_ServiceAccount := Some ex_sa\<rparr>\<rparr>"

lemmas delete_eval = ReconcileDelete_def getMostRecentDeletePipelineJob_def getJobsWithLabels_def createDeletePipeline_def
  startPipeline_def applyResources_def applyResource_def updateResource_def is_service_account_def GetObjects_def isRunning_def
  NewOpts_def call_defs Let_def

theorem workflow_spares_foreign_service_accounts_witness:
  "\<exists>t1 r t2 u r' sa'. exec (ReconcileDelete plain_lib (NewOpts ex_parent [ex_sa_pipe] WorkflowTypePromise 5))
      (t1 @ (Update (OServiceAccount ex_sa), r) # t2) (Returned ((True, None), u)) \<and>
     (Get KServiceAccount ''default'' ''robot'', r') \<in> set t1 \<and> as_obj un_sa r' = Inr sa' \<and>
     fmlookup (m_Labels (sa_meta sa')) PromiseNameLabel \<noteq> None"
proof -
  let ?p = "ReconcileDelete plain_lib (NewOpts ex_parent [ex_sa_pipe] WorkflowTypePromise 5)"
  have "\<exists>q1 r1 q2 r2 q3 r3 r t2 u. script ?p
      [RList [], RErr (EApi ReasonAlreadyExists ''exists''), RObj (OServiceAccount ex_sa), ROk, ROk, ROk, ROk] =
      Some ((q1, r1) # (q2, r2) # (q3, r3) # (Update (OServiceAccount ex_sa), r) # t2, Returned ((True, None), u))"
    by (simp add: delete_eval ex_workflow_simps plain_lib_requests ex_sa_pipe_def ex_sa_def)
  then obtain t1 r t2 u where e: "exec ?p (t1 @ (Update (OServiceAccount ex_sa), r) # t2) (Returned ((True, None), u))"
    using script_exec by (metis append.simps)
  from workflow_spares_foreign_service_accounts [OF disjI2 [OF e] refl] e show ?thesis
    by (auto simp: ex_sa_def ex_meta_def)
qed

text \<open>A role with rules that the pipeline does not ask for any more.\<close>

definition ex_role :: role where
  "ex_role = \<lparr>ro_meta = ex_meta ''old'', ro_Rules = [\<lparr>pr_APIGroups = [[]], pr_Resources = [''secrets''], pr_Verbs = [''get''], pr_ResourceNames = [], pr_NonResourceURLs = []\<rparr>]\<rparr>"

theorem getObjectsToDelete_exact_witness:
  "\<exists>t xs. exec (getObjectsToDelete plain_lib (ex_pipe ''one'')) t (Returned (Inr xs)) \<and> ORole ex_role \<in> set xs"
proof -
  have "\<exists>t xs. script (getObjectsToDelete plain_lib (ex_pipe ''one'')) [RList [ORole ex_role], RList [], RList [], RList []] =
      Some (t, Returned (Inr xs)) \<and> ORole ex_role \<in> unwanted_listed plain_lib (pj_Shared (ex_pipe ''one'')) t"
    by (simp add: getObjectsToDelete_def append_or_fail_def getRolesToDelete_def getClusterRolesToDelete_def getRoleBindingsToDelete_def
        getClusterRoleBindingsToDelete_def objectsToDelete_def call_defs ex_workflow_simps unwanted_listed_def still_wanted_def Let_def)
  then obtain t xs where e: "exec (getObjectsToDelete plain_lib (ex_pipe ''one'')) t (Returned (Inr xs))"
    and "ORole ex_role \<in> unwanted_listed plain_lib (pj_Shared (ex_pipe ''one'')) t" using script_exec by blast
  with getObjectsToDelete_exact [OF e] show ?thesis by blast
qed

text \<open>A delete pipeline whose job has succeeded.\<close>

theorem ReconcileDelete_done_witness:
  "\<exists>q jobs job. exec (ReconcileDelete plain_lib (NewOpts ex_parent [ex_pipe ''one''] WorkflowTypePromise 5))
      [(q, RList (map OJob jobs))] (Returned ((False, None), ex_parent)) \<and> job \<in> set jobs \<and> 0 < j_Succeeded job"
proof -
  let ?opts = "NewOpts ex_parent [ex_pipe ''one''] WorkflowTypePromise 5" and ?j = "(ex_job ''one'' [ex_complete] 5)\<lparr>j_Succeeded := 1\<rparr>"
  have "\<exists>t. script (ReconcileDelete plain_lib ?opts) [RList [OJob ?j]] = Some (t, Returned ((False, None), ex_parent))"
    by (simp add: delete_eval SortJobsByCreationDateTime_def ex_workflow_simps plain_lib_requests ex_job_def ex_complete_def)
  then obtain t where e: "exec (ReconcileDelete plain_lib ?opts) t (Returned ((False, None), ex_parent))"
    using script_exec by blast
  have "o_Resources ?opts \<noteq> []" by (simp add: NewOpts_def)
  from ReconcileDelete_done [OF plain_sort_laws e this] e show ?thesis by blast
qed

end
