(* ===== verification/Filepath.thy ===== *)
theory Filepath
  imports Prelude
begin

text \<open>
  What the sources use of Go's \<open>path/filepath\<close>: \<open>Join\<close> and the \<open>Clean\<close> it applies, on slash-separated paths.
\<close>

fun split_on :: "char \<Rightarrow> string \<Rightarrow> string list" where
  "split_on c [] = [[]]"
| "split_on c (x # xs) =
     (if x = c then [] # split_on c xs
      else case split_on c xs of [] \<Rightarrow> [[x]] | y # ys \<Rightarrow> (x # y) # ys)"

text \<open>One component on the stack of those kept so far (last first): dots go, a double dot takes back the component before it.\<close>

definition clean_step :: "bool \<Rightarrow> string list \<Rightarrow> string \<Rightarrow> string list" where
  "clean_step rooted stack part =
     (if part = [] \<or> part = ''.'' then stack
      else if part = ''..'' then
        (case stack of
           [] \<Rightarrow> if rooted then [] else [''..'']
         | lst # rest \<Rightarrow> if lst = ''..'' then ''..'' # stack else rest)
      else part # stack)"

definition Clean :: "string \<Rightarrow> string" where
  "Clean path =
     (let rooted = (prefix ''/'' path);
          body = join (rev (foldl (clean_step rooted) [] (split_on (CHR ''/'') path))) ''/''
      in if rooted then ''/'' @ body else if body = [] then ''.'' else body)"

definition Join :: "string list \<Rightarrow> string" where
  "Join elems =
     (let elems = filter (\<lambda>e. e \<noteq> []) elems
      in if elems = [] then [] else Clean (join elems ''/''))"

text \<open>\<open>Base\<close>: the last component, after trailing slashes.\<close>

definition Base :: "string \<Rightarrow> string" where
  "Base path =
     (if path = [] then ''.''
      else let lst = last (split_on (CHR ''/'') (rev (dropWhile (\<lambda>c. c = CHR ''/'') (rev path))))
           in if lst = [] then ''/'' else lst)"

text \<open>\<open>Rel\<close>: a path from the first to the second, by their components after the common ones. Both must be rooted or neither.\<close>

definition components :: "string \<Rightarrow> string list" where
  "components path = filter (\<lambda>c. c \<noteq> []) (split_on (CHR ''/'') path)"

fun after_common :: "string list \<Rightarrow> string list \<Rightarrow> string list \<times> string list" where
  "after_common (b # bs) (t # ts) = (if b = t then after_common bs ts else (b # bs, t # ts))"
| "after_common bs ts = (bs, ts)"

definition Rel :: "string \<Rightarrow> string \<Rightarrow> string option" where
  "Rel basepath targpath =
     (let base = Clean basepath; targ = Clean targpath in
      if targ = base then Some ''.''
      else let base = (if base = ''.'' then [] else base) in
           if prefix ''/'' base \<noteq> prefix ''/'' targ then None
           else case after_common (components base) (components targ) of (bs, ts) \<Rightarrow>
             if bs \<noteq> [] \<and> hd bs = ''..'' then None
             else Some (join (replicate (length bs) ''..'' @ ts) ''/''))"

subsection \<open>Paths of plain names\<close>

text \<open>A name that is one component of a path and stays there.\<close>

definition plain_name :: "string \<Rightarrow> bool" where
  "plain_name s \<longleftrightarrow> CHR ''/'' \<notin> set s \<and> s \<noteq> [] \<and> s \<noteq> ''.'' \<and> s \<noteq> ''..''"

lemma split_on_none: "c \<notin> set s \<Longrightarrow> split_on c s = [s]"
  by (induction s) auto

lemma split_on_append: "c \<notin> set s \<Longrightarrow> split_on c (s @ c # t) = s # split_on c t"
  by (induction s) auto

lemma split_on_join:
  assumes "xs \<noteq> []" and "\<forall>x\<in>set xs. CHR ''/'' \<notin> set x"
  shows "split_on (CHR ''/'') (join xs ''/'') = xs"
  using assms by (induction xs "''/''" rule: join.induct) (auto simp: split_on_none split_on_append)

lemma clean_plain:
  assumes "\<forall>x\<in>set xs. plain_name x"
  shows "foldl (clean_step rooted) acc xs = rev xs @ acc"
  using assms by (induction xs arbitrary: acc) (auto simp: clean_step_def plain_name_def)

lemma join_head: "xs \<noteq> [] \<Longrightarrow> hd xs \<noteq> [] \<Longrightarrow> join xs sep \<noteq> [] \<and> hd (join xs sep) = hd (hd xs)"
  by (induction xs sep rule: join.induct) auto

lemma Join_plain:
  assumes "xs \<noteq> []" and "\<forall>x\<in>set xs. plain_name x"
  shows "Join xs = join xs ''/''"
proof -
  have "filter (\<lambda>e. e \<noteq> []) xs = xs" using assms(2) by (auto simp: filter_id_conv plain_name_def)
  moreover have "\<not> prefix ''/'' (join xs ''/'')"
  proof -
    have "plain_name (hd xs)" using assms by simp
    then have "hd xs \<noteq> []" "hd (hd xs) \<noteq> CHR ''/''" by (auto simp: plain_name_def dest: hd_in_set)
    with join_head [of xs "''/''"] assms(1) show ?thesis by (cases "join xs ''/''") auto
  qed
  moreover have "rev (foldl (clean_step False) [] (split_on (CHR ''/'') (join xs ''/''))) = xs"
    using assms by (simp add: split_on_join clean_plain plain_name_def)
  moreover have "join xs ''/'' \<noteq> []"
    using join_head [of xs "''/''"] assms by (cases xs) (auto simp: plain_name_def)
  ultimately show ?thesis using assms(1) by (simp add: Join_def Clean_def Let_def)
qed

lemma Join_inject:
  assumes "xs \<noteq> []" "\<forall>x\<in>set xs. plain_name x" and "ys \<noteq> []" "\<forall>y\<in>set ys. plain_name y" and "Join xs = Join ys"
  shows "xs = ys"
proof -
  from assms have "join xs ''/'' = join ys ''/''" by (simp add: Join_plain)
  then have "split_on (CHR ''/'') (join xs ''/'') = split_on (CHR ''/'') (join ys ''/'')" by simp
  with assms show ?thesis by (simp add: split_on_join plain_name_def)
qed

lemma Join_skip_empty: "Join xs = Join (filter (\<lambda>x. x \<noteq> []) xs)"
  by (simp add: Join_def)

lemma join_append: "xs \<noteq> [] \<Longrightarrow> ys \<noteq> [] \<Longrightarrow> join (xs @ ys) sep = join xs sep @ sep @ join ys sep"
  by (induction xs sep rule: join.induct) (auto simp: neq_Nil_conv)

text \<open>A path below a directory has the directory's components first.\<close>

lemma join_prefix:
  assumes "prefix (join xs ''/'' @ ''/'') (join ys ''/'')" and "xs \<noteq> []" "ys \<noteq> []"
    and "\<forall>x\<in>set xs. CHR ''/'' \<notin> set x" "\<forall>y\<in>set ys. CHR ''/'' \<notin> set y"
  shows "strict_prefix xs ys"
proof -
  from assms(1) obtain s where s: "join ys ''/'' = join xs ''/'' @ CHR ''/'' # s" by (auto simp: prefix_def)
  have "split_on (CHR ''/'') (join xs ''/'' @ CHR ''/'' # s) = xs @ split_on (CHR ''/'') s"
    using assms(2,4) by (induction xs "''/''" rule: join.induct) (auto simp: split_on_append)
  with s assms have "ys = xs @ split_on (CHR ''/'') s" by (simp flip: s add: split_on_join)
  moreover have "split_on (CHR ''/'') s \<noteq> []" by (induction s) (auto split: list.splits)
  ultimately show ?thesis by (auto simp: strict_prefix_def)
qed

text \<open>Relative paths of plain components, and joining two of them.\<close>

definition plain_path :: "string \<Rightarrow> bool" where
  "plain_path s \<longleftrightarrow> list_all plain_name (split_on (CHR ''/'') s)"

lemma split_on_nonempty: "split_on c s \<noteq> []"
  by (induction s) (auto split: list.splits)

lemma join_split_on: "join (split_on c s) [c] = s"
proof (induction s)
  case (Cons x s)
  obtain y ys where "split_on c s = y # ys" using split_on_nonempty [of c s] by (cases "split_on c s") auto
  with Cons show ?case by (cases ys) auto
qed simp

lemma Join_plain_paths:
  assumes "plain_path p" and "plain_path f"
  shows "Join [p, f] = p @ ''/'' @ f"
proof -
  let ?ps = "split_on (CHR ''/'') p" and ?fs = "split_on (CHR ''/'') f"
  have ne: "?ps \<noteq> []" "?fs \<noteq> []" by (simp_all add: split_on_nonempty)
  have "p \<noteq> []" "f \<noteq> []" using assms by (auto simp: plain_path_def plain_name_def)
  have j: "join (?ps @ ?fs) ''/'' = p @ ''/'' @ f" using ne by (simp add: join_append join_split_on)
  have plain: "\<forall>x\<in>set (?ps @ ?fs). plain_name x" using assms by (auto simp: plain_path_def list_all_iff)
  then have "filter (\<lambda>e. e \<noteq> []) (?ps @ ?fs) = ?ps @ ?fs" by (metis (mono_tags, lifting) filter_True plain_name_def)
  then have "Join (?ps @ ?fs) = Clean (join (?ps @ ?fs) ''/'')" using ne unfolding Join_def Let_def by simp
  also have "Join (?ps @ ?fs) = join (?ps @ ?fs) ''/''" using ne plain by (intro Join_plain) auto
  finally have "Clean (p @ ''/'' @ f) = p @ ''/'' @ f" unfolding j by simp
  with \<open>p \<noteq> []\<close> \<open>f \<noteq> []\<close> show ?thesis by (simp add: Join_def Let_def)
qed

lemma split_on_snoc: "split_on c (s @ [c]) = split_on c s @ [[]]"
proof (induction s)
  case (Cons x s)
  obtain y ys where "split_on c s = y # ys" using split_on_nonempty [of c s] by (cases "split_on c s") auto
  with Cons show ?case by simp
qed simp

lemma Clean_slash: "s \<noteq> [] \<Longrightarrow> Clean (s @ ''/'') = Clean s"
proof -
  assume "s \<noteq> []"
  then have "prefix ''/'' (s @ ''/'') = prefix ''/'' s" by (cases s) auto
  then show ?thesis unfolding Clean_def split_on_snoc by (simp add: clean_step_def)
qed

lemma Join_plain_slash:
  assumes "plain_path p" and "plain_path f"
  shows "Join [p, f @ ''/''] = p @ ''/'' @ f"
proof -
  have "p \<noteq> []" "f \<noteq> []" using assms by (auto simp: plain_path_def plain_name_def)
  then have "Join [p, f @ ''/''] = Clean ((p @ ''/'' @ f) @ ''/'')" by (simp add: Join_def)
  also have "\<dots> = Clean (p @ ''/'' @ f)" by (rule Clean_slash) simp
  also have "\<dots> = Join [p, f]" using \<open>p \<noteq> []\<close> \<open>f \<noteq> []\<close> by (simp add: Join_def)
  finally show ?thesis using Join_plain_paths [OF assms] by simp
qed

lemma split_on_slash: "split_on c (s @ c # t) = split_on c s @ split_on c t"
proof (induction s)
  case (Cons x s)
  obtain y ys where "split_on c s = y # ys" using split_on_nonempty [of c s] by (cases "split_on c s") auto
  with Cons show ?case by simp
qed simp

lemma plain_path_append: "plain_path p \<Longrightarrow> plain_path f \<Longrightarrow> plain_path (p @ ''/'' @ f)"
  by (simp add: plain_path_def split_on_slash)

lemma Join_plain_paths3:
  assumes "plain_path p" "plain_path d" "plain_path f"
  shows "Join [p, d, f] = p @ ''/'' @ d @ ''/'' @ f"
proof -
  have "p \<noteq> []" "d \<noteq> []" "f \<noteq> []" using assms by (auto simp: plain_path_def plain_name_def)
  then have "Join [p, d, f] = Join [p, d @ ''/'' @ f]" by (simp add: Join_def)
  also have "\<dots> = p @ ''/'' @ d @ ''/'' @ f"
    using Join_plain_paths [OF assms(1) plain_path_append [OF assms(2,3)]] by simp
  finally show ?thesis .
qed

lemma plain_path_join: "xs \<noteq> [] \<Longrightarrow> list_all plain_name xs \<Longrightarrow> plain_path (join xs ''/'')"
  by (simp add: plain_path_def split_on_join list_all_iff plain_name_def)

text \<open>Comparing paths as strings: all but the last component must agree, the last one may be cut.\<close>

lemma split_on_prefix:
  assumes "prefix s t"
  shows "\<exists>xs x ys y. split_on c s = xs @ [x] \<and> split_on c t = xs @ y # ys \<and> prefix x y"
  using assms
proof (induction s arbitrary: t)
  case Nil
  obtain y ys where "split_on c t = y # ys" using split_on_nonempty [of c t] by (cases "split_on c t") auto
  then show ?case by (intro exI [of _ "[]"] exI [of _ ys] exI [of _ y]) simp
next
  case (Cons a s)
  then obtain t' where t: "t = a # t'" and "prefix s t'" by (cases t) auto
  with Cons.IH obtain xs x ys y where "split_on c s = xs @ [x]" "split_on c t' = xs @ y # ys" "prefix x y" by blast
  then show ?case
    by (cases xs; cases "a = c") (auto simp: t intro: exI [of _ "[] # xs" for xs] exI [of _ "[[]]"] exI [of _ "[]"])
qed

text \<open>Rooted paths of plain components.\<close>

definition rooted :: "string list \<Rightarrow> string" where
  "rooted xs = ''/'' @ join xs ''/''"

lemma split_on_rooted:
  assumes "xs \<noteq> []" and "list_all plain_name xs"
  shows "split_on (CHR ''/'') (rooted xs) = [] # xs"
  using assms split_on_join [of xs] by (auto simp: rooted_def list_all_iff plain_name_def)

lemma components_rooted: "xs \<noteq> [] \<Longrightarrow> list_all plain_name xs \<Longrightarrow> components (rooted xs) = xs"
  by (simp add: components_def split_on_rooted) (auto simp: filter_id_conv list_all_iff plain_name_def)

lemma Clean_rooted:
  assumes "xs \<noteq> []" and "list_all plain_name xs"
  shows "Clean (rooted xs) = rooted xs"
proof -
  have "foldl (clean_step True) [] ([] # xs) = rev xs"
    using clean_plain [of xs True "[]"] assms(2) by (simp add: clean_step_def list_all_iff)
  moreover have "prefix ''/'' (rooted xs)" by (simp add: rooted_def)
  ultimately show ?thesis by (simp add: Clean_def split_on_rooted [OF assms] del: foldl.simps) (simp add: rooted_def)
qed

text \<open>Cleaning an absolute path leaves a rooted path of plain names.\<close>

lemma split_on_free: "\<forall>x\<in>set (split_on c s). c \<notin> set x"
  by (induction s) (auto split: list.splits)

lemma clean_rooted_plain:
  "list_all plain_name acc \<Longrightarrow> \<forall>x\<in>set parts. CHR ''/'' \<notin> set x \<Longrightarrow> list_all plain_name (foldl (clean_step True) acc parts)"
proof (induction parts arbitrary: acc)
  case (Cons p parts)
  have "list_all plain_name (clean_step True acc p)"
    using Cons.prems by (cases acc) (auto simp: clean_step_def list_all_iff plain_name_def)
  with Cons show ?case by simp
qed simp

lemma Clean_absolute:
  assumes "prefix ''/'' s"
  shows "\<exists>xs. list_all plain_name xs \<and> Clean s = rooted xs"
  using clean_rooted_plain [of "[]" "split_on (CHR ''/'') s"] split_on_free [of "CHR ''/''" s] assms
  by (intro exI [of _ "rev (foldl (clean_step True) [] (split_on (CHR ''/'') s))"]) (auto simp: Clean_def rooted_def Let_def)

lemma rooted_append: "xs \<noteq> [] \<Longrightarrow> ys \<noteq> [] \<Longrightarrow> rooted (xs @ ys) = rooted xs @ ''/'' @ join ys ''/''"
  by (simp add: rooted_def join_append)

lemma Join_rooted:
  assumes "xs \<noteq> []" "list_all plain_name xs" "plain_name n"
  shows "Join [rooted xs, n] = rooted (xs @ [n])"
proof -
  have "rooted xs \<noteq> []" "n \<noteq> []" using assms by (auto simp: rooted_def plain_name_def)
  then have "Join [rooted xs, n] = Clean (rooted (xs @ [n]))" using assms(1) by (simp add: Join_def rooted_append)
  then show ?thesis using assms by (simp add: Clean_rooted)
qed

lemma after_common_append: "after_common xs (xs @ ys) = ([], ys)"
  by (induction xs) auto

text \<open>A file below a directory, relative to it.\<close>

lemma Rel_rooted:
  assumes "xs \<noteq> []" "list_all plain_name xs" "ys \<noteq> []" "list_all plain_name ys"
  shows "Rel (rooted xs) (rooted (xs @ ys)) = Some (join ys ''/'')"
proof -
  have c: "Clean (rooted xs) = rooted xs" "Clean (rooted (xs @ ys)) = rooted (xs @ ys)" using assms by (simp_all add: Clean_rooted)
  have comp: "components (rooted xs) = xs" "components (rooted (xs @ ys)) = xs @ ys" using assms by (simp_all add: components_rooted)
  have "rooted (xs @ ys) \<noteq> rooted xs" using comp assms(3) by (metis append_self_conv)
  moreover have "rooted xs \<noteq> ''.''" "prefix ''/'' (rooted zs)" for zs by (simp_all add: rooted_def)
  ultimately show ?thesis by (simp add: Rel_def c comp after_common_append Let_def)
qed

end
