(* ===== verification/Scheduler.thy ===== *)
theory Scheduler
  imports ResourceUtil Examples
begin

text \<open>
  \<open>src/internal/controller/scheduler.go\<close>: the scheduler that turns the workload groups of a Work into
  WorkPlacements on Destinations, and the two helpers of \<open>shared.go\<close> it uses.

  A selector set is resolved from its sources by priority, the matching destinations are listed, and for
  every target (one random destination for a resource request, all of them for a dependency) a
  WorkPlacement is created or updated; placements whose destination no longer matches are kept and marked as
  misplaced, those of workload groups that are gone are deleted. \<open>ReconcileWork\<close> returns the updated Work
  beside the Go result, since its caller goes on with it. The stable sort of a group's selectors is done in
  place in Go; the model sorts a copy, and the requests carry the group as it was.
\<close>

subsection \<open>Constants\<close>

definition workLabelKey :: string where [consts_defs]: "workLabelKey = ''kratix.io/work''"
definition workloadGroupIDKey :: string where [consts_defs]: "workloadGroupIDKey = ''kratix.io/workload-group-id''"
definition misscheduledLabel :: string where [consts_defs]: "misscheduledLabel = ''kratix.io/misplaced''"
definition TargetDestinationNameLabel :: string where
  [consts_defs]: "TargetDestinationNameLabel = ''kratix.io/targetDestinationName''"
definition scheduleSucceededConditionType :: string where
  [consts_defs]: "scheduleSucceededConditionType = ''ScheduleSucceeded''"
definition scheduleSucceededConditionMismatchReason :: string where
  [consts_defs]: "scheduleSucceededConditionMismatchReason = ''DestinationSelectorMismatch''"
definition scheduleSucceededConditionMismatchMsg :: string where
  [consts_defs]: "scheduleSucceededConditionMismatchMsg = ''Target destination no longer matches destinationSelectors''"
definition repoCleanupWorkPlacementFinalizer :: string where
  [consts_defs]: "repoCleanupWorkPlacementFinalizer = ''finalizers.workplacement.kratix.io/repo-cleanup''"

datatype schedulingStatus = scheduledStatus | unscheduledStatus | misplacedStatus

definition shortID :: "string \<Rightarrow> ('q, 'r, string) prog" where
  "shortID wid = slice_to wid 5"

subsection \<open>Selectors\<close>

definition lowestPriorityLess :: "WorkloadGroupScheduling \<Rightarrow> WorkloadGroupScheduling \<Rightarrow> bool" where
  "lowestPriorityLess si sj =
     (if wgs_Source si = ''promise'' then False
      else if wgs_Source sj = ''promise'' then True
      else if wgs_Source si = ''promise-workflow'' then False
      else if wgs_Source sj = ''promise-workflow'' then True
      else False)"

definition sortWorkloadGroupDestinationsByLowestPriority ::
  "WorkloadGroupScheduling list \<Rightarrow> WorkloadGroupScheduling list" where
  "sortWorkloadGroupDestinationsByLowestPriority selector = slice_stable lowestPriorityLess selector"

definition resolveDestinationSelectorsForWorkloadGroup :: "WorkloadGroup \<Rightarrow> labels" where
  "resolveDestinationSelectorsForWorkloadGroup wg =
     foldl (\<lambda>destinationSelectors scheduling. destinationSelectors ++\<^sub>f wgs_MatchLabels scheduling)
       fmempty (sortWorkloadGroupDestinationsByLowestPriority (wg_DestinationSelectors wg))"

text \<open>\<open>labels.Parse(labels.FormatLabels(m))\<close>, where an error is logged and leaves a nil selector.\<close>

definition selectorOrNil :: "lib \<Rightarrow> labels \<Rightarrow> selector option" where
  "selectorOrNil L m = (case L_ParseSelector L (L_FormatLabels L m) of Inl e \<Rightarrow> None | Inr s \<Rightarrow> Some s)"

subsection \<open>Destinations\<close>

definition selectable :: "labels \<Rightarrow> Destination \<Rightarrow> bool" where
  "selectable sel d =
     (\<not> (m_DeletionTimestamp (d_meta d) \<noteq> None \<or>
         (sel = fmempty \<and> (d_StrictMatchLabels d \<and> m_Labels (d_meta d) \<noteq> fmempty))))"

definition getDestinationsForWorkloadGroup :: "lib \<Rightarrow> labels \<Rightarrow> (Destination list) go" where
  "getDestinationsForWorkloadGroup L destinationSelectors =
     (let lo = (if destinationSelectors \<noteq> fmempty then selectorOrNil L destinationSelectors else None) in
      bnd (call_list (ListObjs KDestination [] lo) un_dest) (\<lambda>r.
        let items = (case r of Inl e \<Rightarrow> [] | Inr ds \<Rightarrow> ds)
        in Ret (filter (selectable destinationSelectors) items)))"

definition getTargetDestinationNames :: "lib \<Rightarrow> labels \<Rightarrow> Work \<Rightarrow> (string list) go" where
  "getTargetDestinationNames L destinationSelectors work =
     bnd (getDestinationsForWorkloadGroup L destinationSelectors) (\<lambda>destinations.
     if length destinations = 0 then Ret []
     else if IsResourceRequest work then
       Call (RandIntn (length destinations)) (\<lambda>r.
         case r of
           RInt i \<Rightarrow> if i < length destinations then Ret [m_Name (d_meta (destinations ! i))]
                     else Panic ''index out of range''
         | _ \<Rightarrow> Panic ''index out of range'')
     else if IsDependency work then Ret (map (\<lambda>d. m_Name (d_meta d)) destinations)
     else Ret [])"

subsection \<open>WorkPlacements of a Work\<close>

definition listWorkplacementWithLabels :: "lib \<Rightarrow> string \<Rightarrow> labels \<Rightarrow> (err + WorkPlacement list) go" where
  "listWorkplacementWithLabels L ns matchLabels =
     call_list (ListObjs KWorkPlacement ns (selectorOrNil L matchLabels)) un_wp"

definition getExistingWorkPlacementsForWorkloadGroup ::
  "lib \<Rightarrow> string \<Rightarrow> string \<Rightarrow> WorkloadGroup \<Rightarrow> (err + WorkPlacement list) go" where
  "getExistingWorkPlacementsForWorkloadGroup L ns workName wg =
     listWorkplacementWithLabels L ns
       (fmupd workloadGroupIDKey (wg_ID wg) (fmupd workLabelKey workName fmempty))"

definition getExistingWorkPlacementsForWork :: "lib \<Rightarrow> string \<Rightarrow> string \<Rightarrow> (err + WorkPlacement list) go" where
  "getExistingWorkPlacementsForWork L ns workName =
     listWorkplacementWithLabels L ns (fmupd workLabelKey workName fmempty)"

definition labelWorkplacementAsMisplaced :: "WorkPlacement \<Rightarrow> WorkPlacement" where
  "labelWorkplacementAsMisplaced wp = set_wp_labels wp (fmupd misscheduledLabel ''true'' (wp_labels wp))"

definition mismatchEventMsg :: "WorkPlacement \<Rightarrow> string" where
  "mismatchEventMsg wp = ''labels for destination: '' @ wps_TargetDestinationName (wp_Spec wp) @
     '' no longer match the expected labels, marking this workplacement as misplaced''"

definition updateWorkPlacementStatus :: "lib \<Rightarrow> WorkPlacement \<Rightarrow> bool \<Rightarrow> (err option) go" where
  "updateWorkPlacementStatus L workPlacement misplaced =
     bnd (call_obj (Get KWorkPlacement (m_Namespace (wp_meta workPlacement)) (m_Name (wp_meta workPlacement))) un_wp) (\<lambda>r.
     case r of
       Inl e \<Rightarrow> Ret (Some e)
     | Inr updatedwp \<Rightarrow>
         bnd (if misplaced then
                bnd call_now (\<lambda>now.
                bnd (call_event (OWorkPlacement updatedwp) EventTypeWarning scheduleSucceededConditionMismatchReason
                       (mismatchEventMsg updatedwp)) (\<lambda>_.
                Ret ((mk_cond scheduleSucceededConditionType ConditionFalse
                        scheduleSucceededConditionMismatchReason scheduleSucceededConditionMismatchMsg)
                          \<lparr>c_LastTransitionTime := now\<rparr>,
                     mk_cond ''Ready'' ConditionFalse ''Misplaced'' ''Misplaced'')))
              else
                bnd call_now (\<lambda>now.
                Ret ((mk_cond scheduleSucceededConditionType ConditionTrue
                        ''ScheduledToDestination'' ''Scheduled to correct Destination'')
                          \<lparr>c_LastTransitionTime := now\<rparr>,
                     mk_cond ''Ready'' ConditionTrue ''Ready'' ''Ready''))) (\<lambda>(desiredScheduleCond, desiredReadyCond).
         bnd (SetStatusCondition L (wp_conditions updatedwp) desiredScheduleCond) (\<lambda>(cs, changed).
         if changed then
           bnd (SetStatusCondition L cs desiredReadyCond) (\<lambda>(cs, _).
           call_unit (StatusUpdate (OWorkPlacement (set_wp_conditions updatedwp cs))))
         else Ret None)))"

definition updateWorkPlacement :: "lib \<Rightarrow> WorkloadGroup \<Rightarrow> WorkPlacement \<Rightarrow> (err + bool) go" where
  "updateWorkPlacement L workloadGroup workPlacement =
     bnd (getDestinationsForWorkloadGroup L (resolveDestinationSelectorsForWorkloadGroup workloadGroup)) (\<lambda>dests.
     let misplaced = (\<not> list_ex (\<lambda>d. m_Name (d_meta d) = wps_TargetDestinationName (wp_Spec workPlacement)) dests);
         workPlacement = (if misplaced then labelWorkplacementAsMisplaced workPlacement else workPlacement);
         workPlacement = workPlacement\<lparr>wp_Spec := (wp_Spec workPlacement)\<lparr>wps_Workloads := wg_Workloads workloadGroup\<rparr>\<rparr>
     in bnd (call_obj (Update (OWorkPlacement workPlacement)) un_wp) (\<lambda>r.
        case r of
          Inl e \<Rightarrow> Ret (Inl e)
        | Inr workPlacement \<Rightarrow>
            bnd (updateWorkPlacementStatus L workPlacement misplaced) (\<lambda>e.
            case e of Some e \<Rightarrow> Ret (Inl e) | None \<Rightarrow> Ret (Inr misplaced))))"

text \<open>
  The callback of \<open>CreateOrUpdate\<close>: everything but the status is set from the Work and its group. It starts
  with a fresh label map, so a misplaced label from an earlier pass is gone unless set again.
\<close>

definition mutateWorkPlacement ::
  "lib \<Rightarrow> WorkloadGroup \<Rightarrow> Work \<Rightarrow> string \<Rightarrow> bool \<Rightarrow> WorkPlacement \<Rightarrow> err + WorkPlacement" where
  "mutateWorkPlacement L workloadGroup work targetDestinationName misscheduled wp =
     (let wp = wp\<lparr>wp_Spec := (wp_Spec wp)\<lparr>wps_Workloads := wg_Workloads workloadGroup\<rparr>\<rparr>;
          wp = set_wp_labels wp
                 (fmupd TargetDestinationNameLabel targetDestinationName
                   (fmupd workloadGroupIDKey (wg_ID workloadGroup)
                     (fmupd workLabelKey (m_Name (w_meta work)) fmempty)));
          wp = wp\<lparr>wp_meta := (wp_meta wp)\<lparr>m_Annotations := m_Annotations (w_meta work)\<rparr>\<rparr>;
          wp = SetPipelineName wp work;
          wp = (if misscheduled then labelWorkplacementAsMisplaced wp else wp);
          wp = wp\<lparr>wp_Spec := (wp_Spec wp)\<lparr>wps_ID := wg_ID workloadGroup,
                    wps_PromiseName := ws_PromiseName (w_Spec work),
                    wps_ResourceName := ws_ResourceName (w_Spec work),
                    wps_TargetDestinationName := targetDestinationName\<rparr>\<rparr>;
          wp = set_wp_finalizers wp (L_AddFinalizer L (wp_finalizers wp) repoCleanupWorkPlacementFinalizer)
      in case L_SetControllerReference L (w_meta work) (wp_meta wp) of
           Inl e \<Rightarrow> Inl e
         | Inr m \<Rightarrow> Inr (wp\<lparr>wp_meta := m\<rparr>))"

text \<open>One pass of the loop over the targets.\<close>

definition applyWorkplacementForTargetDestination ::
  "lib \<Rightarrow> WorkloadGroup \<Rightarrow> Work \<Rightarrow> string \<times> bool \<Rightarrow> bool \<Rightarrow> ((bool, err + bool) loop) go" where
  "applyWorkplacementForTargetDestination L workloadGroup work target containsMischeduledWorkplacement =
     (case target of (targetDestinationName, misscheduled) \<Rightarrow>
      bnd (shortID (wg_ID workloadGroup)) (\<lambda>sid.
      let workPlacement = empty_WorkPlacement\<lparr>wp_meta := empty_meta\<lparr>
            m_Namespace := m_Namespace (w_meta work),
            m_Name := m_Name (w_meta work) @ ''.'' @ targetDestinationName @ ''-'' @ sid\<rparr>\<rparr>
      in bnd (CreateOrUpdate un_wp OWorkPlacement workPlacement
                (mutateWorkPlacement L workloadGroup work targetDestinationName misscheduled)) (\<lambda>r.
         case r of
           Inl e \<Rightarrow> Ret (Leave (Inl e))
         | Inr (op, workPlacement) \<Rightarrow>
             bnd (updateWorkPlacementStatus L workPlacement misscheduled) (\<lambda>e.
             case e of
               Some e \<Rightarrow> Ret (Leave (Inl e))
             | None \<Rightarrow>
                 bnd (call_event (OWork work) EventTypeNormal ''WorkplacementReconciled''
                        (''workplacement reconciled: '' @ m_Name (wp_meta workPlacement) @
                         '', operation: '' @ op)) (\<lambda>_.
                 Ret (Next (containsMischeduledWorkplacement \<or> misscheduled)))))))"

definition applyWorkplacementsForTargetDestinations ::
  "lib \<Rightarrow> WorkloadGroup \<Rightarrow> Work \<Rightarrow> (string \<times> bool) list \<Rightarrow> (err + bool) go" where
  "applyWorkplacementsForTargetDestinations L workloadGroup work targetDestinationNames =
     bnd (range_map targetDestinationNames) (\<lambda>targets.
     after_loop
       (for_range targets False (applyWorkplacementForTargetDestination L workloadGroup work))
       (\<lambda>containsMischeduledWorkplacement. Ret (Inr containsMischeduledWorkplacement)))"

subsection \<open>Reconciling a workload group\<close>

text \<open>The targets and whether each is misscheduled: the selected ones, then those of existing placements.\<close>

definition targetDestinationMap :: "string list \<Rightarrow> WorkPlacement list \<Rightarrow> (string \<times> bool) list" where
  "targetDestinationMap targetDestinationNames existingWorkplacements =
     (let m = foldl (\<lambda>m dest. AList.update dest False m) [] targetDestinationNames
      in foldl (\<lambda>m wp. let dest = wps_TargetDestinationName (wp_Spec wp)
                       in if map_of m dest = None then AList.update dest True m else m)
           m existingWorkplacements)"

text \<open>A resource request's placements are updated one by one; the errors are counted.\<close>

definition updateExistingWorkPlacements ::
  "lib \<Rightarrow> WorkloadGroup \<Rightarrow> WorkPlacement list \<Rightarrow> (err + schedulingStatus) go" where
  "updateExistingWorkPlacements L workloadGroup existingWorkplacements =
     after_loop
       (for_range existingWorkplacements (0 :: nat, scheduledStatus) (\<lambda>existingWorkplacement (errored, status).
          bnd (updateWorkPlacement L workloadGroup existingWorkplacement) (\<lambda>u.
          Ret (Next (case u of
                       Inl e \<Rightarrow> (Suc errored, status)
                     | Inr misplaced \<Rightarrow> (errored, if misplaced then misplacedStatus else status))))))
       (\<lambda>(errored, status).
          if errored > 0
          then Ret (Inl (EStr (''failed to update '' @ itoa errored @ '' of '' @
                 itoa (length existingWorkplacements) @ '' workplacements for work'')))
          else Ret (Inr status))"

definition scheduleToTargets ::
  "lib \<Rightarrow> WorkloadGroup \<Rightarrow> Work \<Rightarrow> (string \<times> bool) list \<Rightarrow> (err + schedulingStatus) go" where
  "scheduleToTargets L workloadGroup work targets =
     (if length targets = 0 then
        bnd (call_event (OWork work) EventTypeNormal ''NoMatchingDestination''
               (''waiting for a destination with labels for workloadGroup: '' @ wg_ID workloadGroup)) (\<lambda>_.
        Ret (Inr unscheduledStatus))
      else
        bnd (applyWorkplacementsForTargetDestinations L workloadGroup work targets) (\<lambda>r.
        case r of
          Inl e \<Rightarrow> Ret (Inl e)
        | Inr misplaced \<Rightarrow> Ret (Inr (if misplaced then misplacedStatus else scheduledStatus))))"

definition reconcileWorkloadGroup :: "lib \<Rightarrow> WorkloadGroup \<Rightarrow> Work \<Rightarrow> (err + schedulingStatus) go" where
  "reconcileWorkloadGroup L workloadGroup work =
     bnd (getExistingWorkPlacementsForWorkloadGroup L (m_Namespace (w_meta work)) (m_Name (w_meta work)) workloadGroup) (\<lambda>r.
     case r of
       Inl e \<Rightarrow> Ret (Inl e)
     | Inr existingWorkplacements \<Rightarrow>
         if IsResourceRequest work \<and> length existingWorkplacements > 0 then
           updateExistingWorkPlacements L workloadGroup existingWorkplacements
         else
           let destinationSelectors = resolveDestinationSelectorsForWorkloadGroup workloadGroup in
           bnd (getTargetDestinationNames L destinationSelectors work) (\<lambda>targetDestinationNames.
           scheduleToTargets L workloadGroup work (targetDestinationMap targetDestinationNames existingWorkplacements)))"

subsection \<open>Reconciling a Work\<close>

definition set_work_conditions :: "Work \<Rightarrow> condition list \<Rightarrow> Work" where
  "set_work_conditions w cs = w\<lparr>w_Status := (w_Status w)\<lparr>wst_Conditions := cs\<rparr>\<rparr>"

definition work_conditions :: "Work \<Rightarrow> condition list" where
  "work_conditions w = wst_Conditions (w_Status w)"

text \<open>The conditions (Ready, ScheduleSucceeded) that the outcome calls for.\<close>

definition desiredWorkConditions :: "Work \<Rightarrow> string list \<Rightarrow> string list \<Rightarrow> (condition \<times> condition) go" where
  "desiredWorkConditions w unscheduledWorkloadGroupIDs misplacedWorkloadGroupIDs =
     (if length unscheduledWorkloadGroupIDs > 0 then
        Ret (mk_cond ''Ready'' ConditionFalse ''UnscheduledWorkloads'' ''Pending'',
             mk_cond ''ScheduleSucceeded'' ConditionFalse ''UnscheduledWorkloads''
               (''No matching destination found for workloadGroups: ['' @
                join unscheduledWorkloadGroupIDs '','' @ '']''))
      else if length misplacedWorkloadGroupIDs > 0 then
        bnd call_now (\<lambda>now.
        bnd (call_event (OWork w) EventTypeWarning scheduleSucceededConditionMismatchReason
               (''Target destination no longer matches destinationSelectors for workloadGroups: ['' @
                join misplacedWorkloadGroupIDs '','' @ ''] '')) (\<lambda>_.
        Ret (mk_cond ''Ready'' ConditionFalse ''Misplaced'' ''Misplaced'',
             (mk_cond scheduleSucceededConditionType ConditionFalse scheduleSucceededConditionMismatchReason
               (''Target destination no longer matches destinationSelectors for workloadGroups: ['' @
                join misplacedWorkloadGroupIDs '','' @ '']''))\<lparr>c_LastTransitionTime := now\<rparr>)))
      else
        bnd (call_event (OWork w) EventTypeNormal ''AllWorkplacementsScheduled''
               ''All workplacements scheduled successfully'') (\<lambda>_.
        Ret (mk_cond ''Ready'' ConditionTrue ''AllWorkplacementsScheduled'' ''Ready'',
             mk_cond ''ScheduleSucceeded'' ConditionTrue ''AllWorkplacementsScheduled''
               ''All workplacements scheduled successfully'')))"

definition countWorkPlacements :: "Work \<Rightarrow> string list \<Rightarrow> bool \<times> Work" where
  "countWorkPlacements w unscheduledWorkloadGroupIDs =
     (let workPlacements = int (length (ws_WorkloadGroups (w_Spec w)));
          workPlacementsCreated = workPlacements - int (length unscheduledWorkloadGroupIDs)
      in if workPlacements \<noteq> wst_WorkPlacements (w_Status w) \<or>
            workPlacementsCreated \<noteq> wst_WorkPlacementsCreated (w_Status w)
         then (True, w\<lparr>w_Status := (w_Status w)\<lparr>wst_WorkPlacements := workPlacements,
                   wst_WorkPlacementsCreated := workPlacementsCreated\<rparr>\<rparr>)
         else (False, w))"

definition setWorkConditions :: "lib \<Rightarrow> bool \<Rightarrow> Work \<Rightarrow> condition \<Rightarrow> condition \<Rightarrow> (bool \<times> Work) go" where
  "setWorkConditions L updated w readyCond scheduleSucceededCond =
     bnd (SetStatusCondition L (work_conditions w) scheduleSucceededCond) (\<lambda>(cs, changed).
     if changed then
       bnd (SetStatusCondition L cs readyCond) (\<lambda>(cs, _). Ret (True, set_work_conditions w cs))
     else Ret (updated, set_work_conditions w cs))"

definition updateWorkStatus :: "lib \<Rightarrow> Work \<Rightarrow> string list \<Rightarrow> string list \<Rightarrow> (bool \<times> Work) go" where
  "updateWorkStatus L w unscheduledWorkloadGroupIDs misplacedWorkloadGroupIDs =
     (case countWorkPlacements w unscheduledWorkloadGroupIDs of (updated, w) \<Rightarrow>
      bnd (desiredWorkConditions w unscheduledWorkloadGroupIDs misplacedWorkloadGroupIDs)
        (\<lambda>(readyCond, scheduleSucceededCond). setWorkConditions L updated w readyCond scheduleSucceededCond))"

definition deleteDanglingWorkplacements :: "string list \<Rightarrow> WorkPlacement list \<Rightarrow> (err option) go" where
  "deleteDanglingWorkplacements workplacementsThatShouldExist allWorkplacementsForWork =
     after_loop
       (for_range allWorkplacementsForWork () (\<lambda>wp _.
          if m_Name (wp_meta wp) \<notin> set workplacementsThatShouldExist then
            bnd (call_unit (Delete (OWorkPlacement wp))) (\<lambda>e.
            Ret (case e of Some e \<Rightarrow> Leave (Some e) | None \<Rightarrow> Next ()))
          else Ret (Next ())))
       (\<lambda>_. Ret None)"

definition cleanupDanglingWorkplacements :: "lib \<Rightarrow> Work \<Rightarrow> (err option) go" where
  "cleanupDanglingWorkplacements L work =
     after_loop
       (for_range (ws_WorkloadGroups (w_Spec work)) [] (\<lambda>wg workplacementsThatShouldExist.
          bnd (getExistingWorkPlacementsForWorkloadGroup L (m_Namespace (w_meta work)) (m_Name (w_meta work)) wg) (\<lambda>r.
          case r of
            Inl e \<Rightarrow> Ret (Leave (Some e))
          | Inr wps \<Rightarrow> Ret (Next (workplacementsThatShouldExist @ map (\<lambda>wp. m_Name (wp_meta wp)) wps)))))
       (\<lambda>workplacementsThatShouldExist.
          bnd (getExistingWorkPlacementsForWork L (m_Namespace (w_meta work)) (m_Name (w_meta work))) (\<lambda>r.
          case r of
            Inl e \<Rightarrow> Ret (Some e)
          | Inr allWorkplacementsForWork \<Rightarrow>
              deleteDanglingWorkplacements workplacementsThatShouldExist allWorkplacementsForWork))"

text \<open>A group that cannot be reconciled: the failure goes into the Work's conditions and ends the pass.\<close>

definition failWork :: "lib \<Rightarrow> Work \<Rightarrow> WorkloadGroup \<Rightarrow> ((err + string list) \<times> Work) go" where
  "failWork L work wg =
     bnd (SetStatusCondition L (work_conditions work)
            (mk_cond ''ScheduleSucceeded'' ConditionFalse ''FailedToScheduleWorkloads''
               (''Failed to schedule or update for workloadGroups: ['' @ wg_ID wg @ '']''))) (\<lambda>(cs, _).
     bnd (SetStatusCondition L cs
            (mk_cond ''Ready'' ConditionFalse ''FailedToScheduleWorkloads'' ''Pending'')) (\<lambda>(cs, _).
     let work = set_work_conditions work cs in
     bnd (call_obj (StatusUpdate (OWork work)) un_work) (\<lambda>r.
     Ret (case r of Inl e \<Rightarrow> (Inl e, work) | Inr work \<Rightarrow> (Inr [], work)))))"

definition finishWork :: "lib \<Rightarrow> Work \<Rightarrow> string list \<Rightarrow> string list \<Rightarrow> ((err + string list) \<times> Work) go" where
  "finishWork L work unschedulable misplaced =
     bnd (updateWorkStatus L work unschedulable misplaced) (\<lambda>(updated, work).
     bnd (if updated then call_obj (StatusUpdate (OWork work)) un_work else Ret (Inr work)) (\<lambda>r.
     case r of
       Inl e \<Rightarrow> Ret (Inl e, work)
     | Inr work \<Rightarrow>
         bnd (cleanupDanglingWorkplacements L work) (\<lambda>e.
         Ret (case e of Some e \<Rightarrow> Inl e | None \<Rightarrow> Inr unschedulable, work))))"

definition ReconcileWork :: "lib \<Rightarrow> Work \<Rightarrow> ((err + string list) \<times> Work) go" where
  "ReconcileWork L work =
     after_loop
       (for_range (ws_WorkloadGroups (w_Spec work)) ([], []) (\<lambda>wg (unschedulable, misplaced).
          bnd (reconcileWorkloadGroup L wg work) (\<lambda>r.
          case r of
            Inl e \<Rightarrow> bnd (failWork L work wg) (\<lambda>res. Ret (Leave res))
          | Inr unscheduledStatus \<Rightarrow> Ret (Next (unschedulable @ [wg_ID wg], misplaced))
          | Inr misplacedStatus \<Rightarrow> Ret (Next (unschedulable, misplaced @ [wg_ID wg]))
          | Inr scheduledStatus \<Rightarrow> Ret (Next (unschedulable, misplaced)))))
       (\<lambda>(unschedulable, misplaced). finishWork L work unschedulable misplaced)"

subsection \<open>Selectors by priority\<close>

text \<open>The priority of a source: a later entry of the sorted list overrides an earlier one.\<close>

definition source_rank :: "WorkloadGroupScheduling \<Rightarrow> nat" where
  "source_rank s = (if wgs_Source s = ''promise'' then 2 else if wgs_Source s = ''promise-workflow'' then 1 else 0)"

definition merge_selectors :: "WorkloadGroupScheduling list \<Rightarrow> labels" where
  "merge_selectors ss = foldl (\<lambda>m s. m ++\<^sub>f wgs_MatchLabels s) fmempty ss"

lemma lowestPriorityLess_rank: "lowestPriorityLess = (\<lambda>a b. source_rank a < source_rank b)"
  by (auto simp: lowestPriorityLess_def source_rank_def fun_eq_iff)

lemma merge_selectors_append: "merge_selectors (xs @ ys) = merge_selectors xs ++\<^sub>f merge_selectors ys"
proof (induction ys rule: rev_induct)
  case Nil
  then show ?case by (simp add: merge_selectors_def)
next
  case (snoc y ys)
  then show ?case by (simp add: merge_selectors_def fmadd_assoc flip: append_assoc)
qed

lemma sorted_by_three:
  fixes f :: "'a \<Rightarrow> nat"
  assumes "\<And>x. x \<in> set xs \<Longrightarrow> f x \<le> 2"
  shows "sort_key f xs = filter (\<lambda>x. f x = 0) xs @ filter (\<lambda>x. f x = 1) xs @ filter (\<lambda>x. f x = 2) xs"
  using assms
proof (induction xs)
  case (Cons x xs)
  have skip: "insort_key f x (as @ bs) = as @ insort_key f x bs" if "\<forall>y\<in>set as. f y < f x" for as bs
    using that by (induction as) auto
  have front: "insort_key f x as = x # as" if "\<forall>y\<in>set as. f x \<le> f y" for as
    using that by (cases as) auto
  consider "f x = 0" | "f x = 1" | "f x = 2" using Cons.prems [of x] by fastforce
  moreover have "insort_key f x (filter (\<lambda>x. f x = 1) xs @ filter (\<lambda>x. f x = 2) xs) =
      x # filter (\<lambda>x. f x = 1) xs @ filter (\<lambda>x. f x = 2) xs" if "f x = 1"
    by (rule front) (use that in auto)
  ultimately show ?case using Cons by cases (simp_all add: skip front)
qed simp

text \<open>C28. Selector sources have a fixed priority: the label selectors that a workload group resolves to are
  those of the resource workflow (and of any unknown source), overridden by those of the promise workflow,
  overridden by those of the promise; among selectors of one source a later one overrides an earlier one.\<close>

theorem resolveDestinationSelectors_priority:
  "resolveDestinationSelectorsForWorkloadGroup wg =
     (let ss = wg_DestinationSelectors wg in
      merge_selectors (filter (\<lambda>s. wgs_Source s \<notin> {''promise'', ''promise-workflow''}) ss) ++\<^sub>f
      merge_selectors (filter (\<lambda>s. wgs_Source s = ''promise-workflow'') ss) ++\<^sub>f
      merge_selectors (filter (\<lambda>s. wgs_Source s = ''promise'') ss))"
proof -
  have "sort_key source_rank ss = filter (\<lambda>s. wgs_Source s \<notin> {''promise'', ''promise-workflow''}) ss @
      filter (\<lambda>s. wgs_Source s = ''promise-workflow'') ss @ filter (\<lambda>s. wgs_Source s = ''promise'') ss" for ss
    by (subst sorted_by_three) (auto simp: source_rank_def intro!: arg_cong2 [where f = append] filter_cong)
  moreover have "resolveDestinationSelectorsForWorkloadGroup wg =
      merge_selectors (sort_key source_rank (wg_DestinationSelectors wg))"
    by (simp add: resolveDestinationSelectorsForWorkloadGroup_def sortWorkloadGroupDestinationsByLowestPriority_def
        lowestPriorityLess_rank slice_stable_key merge_selectors_def)
  ultimately show ?thesis
    by (simp add: merge_selectors_append fmadd_assoc Let_def)
qed

subsection \<open>Choosing destinations\<close>

definition destination_options :: "lib \<Rightarrow> labels \<Rightarrow> selector option" where
  "destination_options L sel = (if sel \<noteq> fmempty then selectorOrNil L sel else None)"

definition listed_destinations :: "labels \<Rightarrow> resp \<Rightarrow> Destination list" where
  "listed_destinations sel r =
     filter (selectable sel) (case as_list un_dest r of Inl e \<Rightarrow> [] | Inr ds \<Rightarrow> ds)"

lemma wpre_getDestinations [wpre_simps]:
  "wpre (getDestinationsForWorkloadGroup L sel) Q =
     (\<forall>r. Q [(ListObjs KDestination [] (destination_options L sel), r)] (Returned (listed_destinations sel r)))"
  by (simp add: getDestinationsForWorkloadGroup_def destination_options_def listed_destinations_def wpre_simps Let_def)

lemma only_getDestinations [only_intros]:
  "P (ListObjs KDestination [] (destination_options L sel)) \<Longrightarrow> only P (getDestinationsForWorkloadGroup L sel)"
  by (simp add: only_def wpre_simps)

text \<open>C25. A workload group is only ever sent to destinations that the selectors' list request returned,
  that are not being deleted and, without selectors, do not insist on label matches: a resource
  request gets exactly one of them when there is any, a dependency gets all of them.\<close>

theorem getTargetDestinationNames_choice:
  assumes "exec (getTargetDestinationNames L sel work) t (Returned names)"
  shows "\<exists>r t'. t = (ListObjs KDestination [] (destination_options L sel), r) # t' \<and>
    (if IsResourceRequest work
     then length names = min 1 (length (listed_destinations sel r)) \<and>
          set names \<subseteq> (\<lambda>d. m_Name (d_meta d)) ` set (listed_destinations sel r)
     else names = map (\<lambda>d. m_Name (d_meta d)) (listed_destinations sel r)) \<and>
    (\<forall>d\<in>set (listed_destinations sel r). m_DeletionTimestamp (d_meta d) = None \<and>
       (sel = fmempty \<longrightarrow> \<not> d_StrictMatchLabels d \<or> m_Labels (d_meta d) = fmempty))"
proof -
  have "wpre (getTargetDestinationNames L sel work) (\<lambda>t oc. \<forall>names. oc = Returned names \<longrightarrow>
      (\<exists>r t'. t = (ListObjs KDestination [] (destination_options L sel), r) # t' \<and>
        (if IsResourceRequest work
         then length names = min 1 (length (listed_destinations sel r)) \<and>
              set names \<subseteq> (\<lambda>d. m_Name (d_meta d)) ` set (listed_destinations sel r)
         else names = map (\<lambda>d. m_Name (d_meta d)) (listed_destinations sel r))))"
    by (auto simp: getTargetDestinationNames_def wpre_simps IsResourceRequest_def IsDependency_def Suc_le_eq
        split: resp.splits)
  moreover have "m_DeletionTimestamp (d_meta d) = None \<and>
       (sel = fmempty \<longrightarrow> \<not> d_StrictMatchLabels d \<or> m_Labels (d_meta d) = fmempty)"
    if "d \<in> set (listed_destinations sel r)" for d r
    using that by (auto simp: listed_destinations_def selectable_def)
  ultimately show ?thesis using wpreD [OF assms] by blast
qed

theorem getTargetDestinationNames_choice_witness:
  "\<exists>t r t'. exec (getTargetDestinationNames plain_lib fmempty (ex_work ''rr'')) t (Returned [''d2'']) \<and>
     t = (ListObjs KDestination [] (destination_options plain_lib fmempty), r) # t' \<and>
     length [''d2''] = min 1 (length (listed_destinations fmempty r))"
proof -
  have "\<exists>t. exec (getTargetDestinationNames plain_lib fmempty (ex_work ''rr'')) t (Returned [''d2'']) \<and> t \<noteq> []"
    by (rule script_ex [where rs = "[RList [ODestination (ex_destination ''d1''), ODestination (ex_destination ''d2'')], RInt 1]"])
      (simp add: getTargetDestinationNames_def getDestinationsForWorkloadGroup_def call_defs ex_defs selectable_def
        IsResourceRequest_def)
  then obtain t where e: "exec (getTargetDestinationNames plain_lib fmempty (ex_work ''rr'')) t (Returned [''d2''])" by blast
  from getTargetDestinationNames_choice [OF e] e show ?thesis
    by (auto simp: ex_work_def IsResourceRequest_def)
qed

subsection \<open>Existing placements of a resource request\<close>

text \<open>The requests by which the scheduler changes the cluster.\<close>

fun is_write :: "req \<Rightarrow> bool" where
  "is_write (Create x) = True"
| "is_write (Update x) = True"
| "is_write (StatusUpdate x) = True"
| "is_write (Delete x) = True"
| "is_write (Patch x) = True"
| "is_write (CreateOrUpdateStore x) = True"
| "is_write q = False"

lemma only_updateWorkPlacementStatus:
  assumes "\<And>x. P (StatusUpdate (OWorkPlacement x))" and "\<And>q. \<not> is_write q \<Longrightarrow> P q"
  shows "only P (updateWorkPlacementStatus L wp misplaced)"
  unfolding updateWorkPlacementStatus_def by (auto intro!: only_intros assms split: prod.splits)

text \<open>What an update of an existing placement may write: its workloads and the misplaced label, never its target.\<close>

definition keeps_target :: "WorkloadGroup \<Rightarrow> WorkPlacement list \<Rightarrow> req \<Rightarrow> bool" where
  "keeps_target wg existing q =
     (case q of
        Update (OWorkPlacement wp) \<Rightarrow>
          list_ex (\<lambda>e. \<exists>lbl. wp = e\<lparr>wp_Spec := (wp_Spec e)\<lparr>wps_Workloads := wg_Workloads wg\<rparr>,
             wp_meta := (wp_meta e)\<lparr>m_Labels := lbl\<rparr>\<rparr>) existing
      | StatusUpdate (OWorkPlacement wp) \<Rightarrow> True
      | _ \<Rightarrow> \<not> is_write q)"

lemma only_updateWorkPlacement:
  assumes "e \<in> set existing"
  shows "only (keeps_target wg existing) (updateWorkPlacement L wg e)"
proof -
  have "\<And>q. \<not> is_write q \<Longrightarrow> keeps_target wg existing q"
    by (auto simp: keeps_target_def split: req.splits kobj.splits)
  moreover have "\<And>x. keeps_target wg existing (StatusUpdate (OWorkPlacement x))"
    by (simp add: keeps_target_def)
  moreover have "keeps_target wg existing (Update (OWorkPlacement ((if b then labelWorkplacementAsMisplaced e else e)
      \<lparr>wp_Spec := (wp_Spec (if b then labelWorkplacementAsMisplaced e else e))\<lparr>wps_Workloads := wg_Workloads wg\<rparr>\<rparr>)))" for b
    using assms
    by (auto simp: keeps_target_def list_ex_iff labelWorkplacementAsMisplaced_def set_wp_labels_def wp_labels_def
        intro!: bexI [of _ e] exI [of _ "if b then fmupd misscheduledLabel ''true'' (wp_labels e) else wp_labels e"])
  ultimately show ?thesis
    unfolding updateWorkPlacement_def Let_def
    by (auto intro!: only_intros only_updateWorkPlacementStatus split: option.splits)
qed

text \<open>C24. A placement once made is not moved: when a resource request's workload group already has
  placements, reconciling the group creates none and deletes none; it only updates those, keeping their
  target destination and everything else but the workloads (set to the group's) and the labels.\<close>

theorem reconcileWorkloadGroup_keeps_placements:
  assumes "exec (reconcileWorkloadGroup L wg work) ((q0, r0) # t) oc"
    and "IsResourceRequest work"
    and "as_list un_wp r0 = Inr existing" and "existing \<noteq> []"
    and "(q, r) \<in> set t"
  shows "keeps_target wg existing q"
proof -
  from assms have "exec (updateExistingWorkPlacements L wg existing) t oc"
    by (simp add: reconcileWorkloadGroup_def getExistingWorkPlacementsForWorkloadGroup_def
        listWorkplacementWithLabels_def exec_bnd_calls)
  moreover have "only (keeps_target wg existing) (updateExistingWorkPlacements L wg existing)"
    unfolding updateExistingWorkPlacements_def
    by (auto intro!: only_intros only_updateWorkPlacement split: prod.splits)
  ultimately show ?thesis by (rule onlyD [OF _ _ assms(5), rotated])
qed

lemmas wg_eval = reconcileWorkloadGroup_def updateExistingWorkPlacements_def after_loop_def
  getExistingWorkPlacementsForWorkloadGroup_def listWorkplacementWithLabels_def updateWorkPlacement_def
  updateWorkPlacementStatus_def getDestinationsForWorkloadGroup_def selectable_def IsResourceRequest_def
  set_wp_conditions_def wp_conditions_def SetStatusCondition_def getTargetDestinationNames_def
  IsDependency_def targetDestinationMap_def scheduleToTargets_def

theorem reconcileWorkloadGroup_keeps_placements_witness:
  "\<exists>t wp r. exec (reconcileWorkloadGroup plain_lib ex_group (ex_work ''rr'')) t (Returned (Inr misplacedStatus)) \<and>
     (Update (OWorkPlacement wp), r) \<in> set t \<and> wps_TargetDestinationName (wp_Spec wp) = ''d1'' \<and>
     keeps_target ex_group [ex_placement ''w'' ''d1''] (Update (OWorkPlacement wp))"
proof -
  let ?l = "RList [OWorkPlacement (ex_placement ''w'' ''d1'')]"
  have "\<exists>t. exec (reconcileWorkloadGroup plain_lib ex_group (ex_work ''rr'')) t (Returned (Inr misplacedStatus)) \<and>
     (\<exists>q0 t'. t = (q0, ?l) # t' \<and>
       (\<exists>wp r. (Update (OWorkPlacement wp), r) \<in> set t' \<and> wps_TargetDestinationName (wp_Spec wp) = ''d1''))"
    by (rule script_ex [where rs = "[?l, RList [ODestination (ex_destination ''d2'')],
          RObj (OWorkPlacement (ex_placement ''w'' ''d1'')), RObj (OWorkPlacement (ex_placement ''w'' ''d1'')),
          RTime 7, ROk, RTime 7, RTime 7, ROk]"])
      (simp add: wg_eval call_defs ex_defs plain_lib_simps mk_cond_def labelWorkplacementAsMisplaced_def set_wp_labels_def)
  then obtain t' q0 wp r where e: "exec (reconcileWorkloadGroup plain_lib ex_group (ex_work ''rr'')) ((q0, ?l) # t') (Returned (Inr misplacedStatus))"
    and u: "(Update (OWorkPlacement wp), r) \<in> set t'" "wps_TargetDestinationName (wp_Spec wp) = ''d1''" by blast
  from reconcileWorkloadGroup_keeps_placements [OF e _ _ _ u(1), of "[ex_placement ''w'' ''d1'']"]
  have "keeps_target ex_group [ex_placement ''w'' ''d1''] (Update (OWorkPlacement wp))"
    by (simp add: IsResourceRequest_def ex_work_def as_list_def)
  with e u show ?thesis by (intro exI [of _ "(q0, ?l) # t'"] exI [of _ wp] exI [of _ r]) simp
qed

subsection \<open>Placing a workload group\<close>

text \<open>A placement of a group on a destination, as the scheduler stores it.\<close>

definition placement_of :: "WorkloadGroup \<Rightarrow> Work \<Rightarrow> string \<Rightarrow> bool \<Rightarrow> WorkPlacement \<Rightarrow> bool" where
  "placement_of wg work dest misscheduled wp \<longleftrightarrow>
     wp_Spec wp = \<lparr>wps_TargetDestinationName = dest, wps_Workloads = wg_Workloads wg,
        wps_PromiseName = ws_PromiseName (w_Spec work), wps_ResourceName = ws_ResourceName (w_Spec work),
        wps_ID = wg_ID wg\<rparr> \<and>
     lget (wp_labels wp) workLabelKey = m_Name (w_meta work) \<and>
     lget (wp_labels wp) workloadGroupIDKey = wg_ID wg \<and>
     lget (wp_labels wp) TargetDestinationNameLabel = dest \<and>
     fmlookup (wp_labels wp) misscheduledLabel = (if misscheduled then Some ''true'' else None) \<and>
     repoCleanupWorkPlacementFinalizer \<in> set (wp_finalizers wp)"

fun stored_placement :: "req \<Rightarrow> WorkPlacement option" where
  "stored_placement (CreateOrUpdateStore (OWorkPlacement wp)) = Some wp"
| "stored_placement q = None"

lemma mutateWorkPlacement_result:
  assumes "finalizer_laws L" "owner_laws L"
    and "mutateWorkPlacement L wg work dest misscheduled wp = Inr wp'"
  shows "placement_of wg work dest misscheduled wp'"
proof -
  have "repoCleanupWorkPlacementFinalizer \<in> set (L_AddFinalizer L fs repoCleanupWorkPlacementFinalizer)" for fs
    using assms(1) by (simp add: finalizer_laws_def)
  moreover obtain rs where "wp_meta wp' = (wp_meta wp)\<lparr>m_Annotations := m_Annotations (w_meta work),
      m_Labels := (if misscheduled then fmupd misscheduledLabel ''true'' else (\<lambda>x. x))
        (fmupd PipelineNameLabel (lget (m_Labels (w_meta work)) PipelineNameLabel)
        (fmupd TargetDestinationNameLabel dest (fmupd workloadGroupIDKey (wg_ID wg)
          (fmupd workLabelKey (m_Name (w_meta work)) fmempty)))),
      m_Finalizers := L_AddFinalizer L (m_Finalizers (wp_meta wp)) repoCleanupWorkPlacementFinalizer,
      m_OwnerReferences := rs\<rparr>"
    "wp_Spec wp' = \<lparr>wps_TargetDestinationName = dest, wps_Workloads = wg_Workloads wg,
        wps_PromiseName = ws_PromiseName (w_Spec work), wps_ResourceName = ws_ResourceName (w_Spec work),
        wps_ID = wg_ID wg\<rparr>"
    using assms(2,3) unfolding owner_laws_def
    by (cases "wp_Spec wp")
      (fastforce simp: mutateWorkPlacement_def Let_def SetPipelineName_def labelWorkplacementAsMisplaced_def
        set_wp_labels_def set_wp_finalizers_def wp_labels_def wp_finalizers_def split: sum.splits if_splits)
  ultimately show ?thesis
    by (simp add: placement_of_def wp_labels_def wp_finalizers_def consts_defs)
qed

lemma updateWorkPlacementStatus_stores_nothing:
  "wpre (updateWorkPlacementStatus L wp misplaced) (\<lambda>t oc. made stored_placement t = [] \<and> (\<exists>e. oc = Returned e))"
  by (auto simp: updateWorkPlacementStatus_def wpre_simps split: sum.splits prod.splits)

lemma CreateOrUpdate_stores:
  assumes "\<And>x y. f x = Inr y \<Longrightarrow> R y"
  shows "wpre (CreateOrUpdate un_wp OWorkPlacement wp0 f) (\<lambda>t oc.
    (\<exists>e. oc = Returned (Inl e)) \<or> (\<exists>op wp y. oc = Returned (Inr (op, wp)) \<and> made stored_placement t = [y] \<and> R y))"
  using assms by (auto simp: CreateOrUpdate_def wpre_simps Let_def split: sum.splits resp.splits option.splits)

lemma applyWorkplacementForTargetDestination_step:
  assumes "finalizer_laws L" and "owner_laws L"
  shows "wpre (applyWorkplacementForTargetDestination L wg work target s) (\<lambda>t oc. case oc of
      Returned (Next s') \<Rightarrow> s' = (s \<or> snd target) \<and>
        (\<exists>wp. made stored_placement t = [wp] \<and> placement_of wg work (fst target) (snd target) wp)
    | Returned (Leave b) \<Rightarrow> \<exists>e. b = Inl e
    | Panicked msg \<Rightarrow> True)"
proof (cases target)
  case (Pair dest misscheduled)
  show ?thesis
    unfolding applyWorkplacementForTargetDestination_def shortID_def slice_to_def Let_def Pair prod.case
    by (auto simp: wpre_bnd wpre_basic wpre_calls split: if_split
        intro!: wpre_mono [OF CreateOrUpdate_stores [OF mutateWorkPlacement_result [OF assms]]]
          wpre_mono [OF updateWorkPlacementStatus_stores_nothing] split: outcome.splits option.splits)
qed

text \<open>Applying a group to its targets stores, for each target exactly once, a placement with the group's
  workloads and identifiers on that destination, carrying the cleanup finalizer, labelled as misplaced exactly
  when the target is; the result says whether any target is misplaced.\<close>

lemma applyWorkplacements_stores:
  assumes "finalizer_laws L" and "owner_laws L" and "distinct (map fst targets)"
    and "exec (applyWorkplacementsForTargetDestinations L wg work targets) t (Returned (Inr misplaced))"
  shows "\<exists>order. mset order = mset targets \<and>
      list_all2 (\<lambda>target. placement_of wg work (fst target) (snd target)) order (made stored_placement t) \<and>
      misplaced = list_ex snd targets"
proof -
  let ?placed = "\<lambda>target. placement_of wg work (fst target) (snd target)"
  have loop: "wpre (after_loop (for_range order False (applyWorkplacementForTargetDestination L wg work)) (\<lambda>c. Ret (Inr c)))
     (\<lambda>t oc. \<forall>b. oc = Returned (Inr b) \<longrightarrow> (\<exists>order. mset order = mset targets \<and>
        list_all2 ?placed order (made stored_placement t) \<and> b = list_ex snd targets))"
    if "mset order = mset targets" for order
  proof -
    have "list_ex snd order = list_ex snd targets"
      using mset_eq_setD [OF that] by (simp add: list_ex_iff)
    then show ?thesis
      unfolding wpre_after_loop
      by (intro wpre_for_range [where I = "\<lambda>pre t s. list_all2 ?placed pre (made stored_placement t) \<and> s = list_ex snd pre"])
        (use that in \<open>auto intro!: wpre_mono [OF applyWorkplacementForTargetDestination_step [OF assms(1,2)]]
            list_all2_appendI exI [of _ order] split: outcome.splits loop.splits\<close>)
  qed
  have "wpre (applyWorkplacementsForTargetDestinations L wg work targets) (\<lambda>t oc. \<forall>b. oc = Returned (Inr b) \<longrightarrow>
      (\<exists>order. mset order = mset targets \<and> list_all2 ?placed order (made stored_placement t) \<and> b = list_ex snd targets))"
    unfolding applyWorkplacementsForTargetDestinations_def wpre_bnd
    by (rule wpre_mono [OF range_map_result [of targets]])
      (use assms(3) in \<open>auto intro!: wpre_mono [OF loop]\<close>)
  from wpreD [OF assms(4) this] show ?thesis by blast
qed

text \<open>The targets of a group: the selected destinations, and those of existing placements as misscheduled.\<close>

lemma AList_update_new: "k \<notin> fst ` set m \<Longrightarrow> AList.update k v m = m @ [(k, v)]"
  by (induction m) auto

lemma map_of_foldl_update_const:
  "map_of (foldl (\<lambda>m d. AList.update d False m) m0 ds) d = (if d \<in> set ds then Some False else map_of m0 d)"
  by (induction ds arbitrary: m0) (auto simp: update_conv')

lemma map_of_foldl_existing:
  "map_of (foldl (\<lambda>m wp. let dest = f wp in if map_of m dest = None then AList.update dest True m else m) m0 wps) d =
     (case map_of m0 d of Some b \<Rightarrow> Some b | None \<Rightarrow> if d \<in> f ` set wps then Some True else None)"
proof (induction wps arbitrary: m0)
  case (Cons wp wps)
  then show ?case by (auto simp: Let_def update_conv' split: option.splits if_splits)
qed (simp split: option.splits)

lemma map_of_targetDestinationMap:
  "map_of (targetDestinationMap ds existing) d =
     (if d \<in> set ds then Some False
      else if d \<in> (\<lambda>wp. wps_TargetDestinationName (wp_Spec wp)) ` set existing then Some True else None)"
  by (simp add: targetDestinationMap_def Let_def map_of_foldl_existing [unfolded Let_def] map_of_foldl_update_const
      split: option.splits)

lemma distinct_foldl_update:
  "distinct (map fst m0) \<Longrightarrow> distinct (map fst (foldl (\<lambda>m d. AList.update d False m) m0 ds))"
  by (induction ds arbitrary: m0) (auto intro: distinct_update)

lemma distinct_foldl_existing:
  "distinct (map fst m0) \<Longrightarrow>
   distinct (map fst (foldl (\<lambda>m wp. let dest = f wp in if map_of m dest = None then AList.update dest True m else m) m0 wps))"
  by (induction wps arbitrary: m0) (auto simp: Let_def intro: distinct_update)

lemma distinct_targetDestinationMap: "distinct (map fst (targetDestinationMap ds existing))"
  unfolding targetDestinationMap_def Let_def
  by (rule distinct_foldl_existing [unfolded Let_def], rule distinct_foldl_update) simp

lemma set_targetDestinationMap:
  "set (targetDestinationMap ds existing) =
     (\<lambda>d. (d, False)) ` set ds \<union>
     (\<lambda>d. (d, True)) ` ((\<lambda>wp. wps_TargetDestinationName (wp_Spec wp)) ` set existing - set ds)"
proof -
  have "(d, b) \<in> set (targetDestinationMap ds existing) \<longleftrightarrow> map_of (targetDestinationMap ds existing) d = Some b" for d b
    by (simp add: map_of_eq_Some_iff [OF distinct_targetDestinationMap])
  then show ?thesis by (auto simp: map_of_targetDestinationMap split: if_splits)
qed

text \<open>C1. Scheduling a dependency, or a resource request without placements yet: when reconciling the group
  succeeds, the destinations that get a placement are exactly the chosen ones, as scheduled, and those of existing
  placements that are no longer chosen, as misplaced; the group counts as unscheduled exactly when there is
  no such destination, and then nothing is written.\<close>

theorem reconcileWorkloadGroup_places:
  assumes "finalizer_laws L" and "owner_laws L"
    and "exec (reconcileWorkloadGroup L wg work) ((q0, r0) # t) (Returned (Inr status))"
    and "as_list un_wp r0 = Inr existing" and "\<not> IsResourceRequest work \<or> existing = []"
  shows "\<exists>t1 t2 names. t = t1 @ t2 \<and>
    exec (getTargetDestinationNames L (resolveDestinationSelectorsForWorkloadGroup wg) work) t1 (Returned names) \<and>
    (let old = (\<lambda>wp. wps_TargetDestinationName (wp_Spec wp)) ` set existing - set names in
     (status = unscheduledStatus \<longleftrightarrow> names = [] \<and> existing = []) \<and>
     (status = misplacedStatus \<longleftrightarrow> old \<noteq> {}) \<and>
     (status = unscheduledStatus \<longrightarrow> (\<forall>x\<in>set t2. \<not> is_write (fst x))) \<and>
     (\<exists>order. distinct (map fst order) \<and> set order = (\<lambda>d. (d, False)) ` set names \<union> (\<lambda>d. (d, True)) ` old \<and>
        list_all2 (\<lambda>target. placement_of wg work (fst target) (snd target)) order (made stored_placement t2)))"
proof -
  let ?names = "getTargetDestinationNames L (resolveDestinationSelectorsForWorkloadGroup wg) work"
  from assms(3-5) have "exec (bnd ?names (\<lambda>names. scheduleToTargets L wg work (targetDestinationMap names existing)))
      t (Returned (Inr status))"
    by (auto simp: reconcileWorkloadGroup_def getExistingWorkPlacementsForWorkloadGroup_def
        listWorkplacementWithLabels_def exec_bnd_calls Let_def)
  then obtain t1 t2 names where t: "t = t1 @ t2" "exec ?names t1 (Returned names)"
    and rest: "exec (scheduleToTargets L wg work (targetDestinationMap names existing)) t2 (Returned (Inr status))"
    by (elim exec_bndE) auto
  have empty: "targetDestinationMap names existing = [] \<longleftrightarrow> names = [] \<and> existing = []"
    using arg_cong [OF set_targetDestinationMap, of "\<lambda>X. X = {}", of names existing] by auto
  show ?thesis
  proof (cases "targetDestinationMap names existing = []")
    case True
    with rest empty t show ?thesis
      by (intro exI [of _ t1] exI [of _ t2] exI [of _ names])
        (auto simp: scheduleToTargets_def call_event_def exec_Call_iff exec_Ret_iff)
  next
    case False
    with rest obtain misplaced where ap: "exec (applyWorkplacementsForTargetDestinations L wg work
        (targetDestinationMap names existing)) t2 (Returned (Inr misplaced))"
      and st: "status = (if misplaced then misplacedStatus else scheduledStatus)"
      by (auto elim!: exec_bndE simp: scheduleToTargets_def exec_Ret_iff split: sum.splits)
    from applyWorkplacements_stores [OF assms(1,2) distinct_targetDestinationMap ap] obtain order where
      order: "mset order = mset (targetDestinationMap names existing)"
        "list_all2 (\<lambda>target. placement_of wg work (fst target) (snd target)) order (made stored_placement t2)"
        "misplaced = list_ex snd (targetDestinationMap names existing)" by blast
    have "distinct (map fst order)"
      using order(1) distinct_targetDestinationMap by (metis mset_map mset_eq_imp_distinct_iff)
    moreover have "set order = (\<lambda>d. (d, False)) ` set names \<union>
        (\<lambda>d. (d, True)) ` ((\<lambda>wp. wps_TargetDestinationName (wp_Spec wp)) ` set existing - set names)"
      using mset_eq_setD [OF order(1)] by (simp add: set_targetDestinationMap)
    moreover have "misplaced \<longleftrightarrow> (\<lambda>wp. wps_TargetDestinationName (wp_Spec wp)) ` set existing - set names \<noteq> {}"
      by (auto simp: order(3) list_ex_iff set_targetDestinationMap bex_Un ball_Un)
    ultimately show ?thesis
      unfolding Let_def using order(2) False empty t st
      by (intro exI [of _ t1] exI [of _ t2] exI [of _ names] conjI exI [of _ order]) (simp_all split: if_splits)
  qed
qed

lemmas place_eval = applyWorkplacementsForTargetDestinations_def applyWorkplacementForTargetDestination_def
  shortID_def slice_to_def mutateWorkPlacement_def

text \<open>A run that places the example's group on one of two destinations.\<close>

lemma ex_place_run:
  "\<exists>t. exec (reconcileWorkloadGroup plain_lib ex_group (ex_work ''rr'')) t (Returned (Inr scheduledStatus)) \<and>
     (\<exists>q0 t'. t = (q0, RList []) # t')"
  by (rule script_ex [where rs = "[RList [], RList [ODestination (ex_destination ''d1''), ODestination (ex_destination ''d2'')],
      RInt 0, RStrs [''d1''], RErr (EApi ReasonNotFound []), RStored ''created'' (OWorkPlacement (ex_placement ''w'' ''d1'')),
      RObj (OWorkPlacement (ex_placement ''w'' ''d1'')), RTime 7, RTime 7, RTime 7, ROk, ROk]"])
    (simp add: wg_eval place_eval call_defs ex_defs plain_lib_simps mk_cond_def Let_def split_beta)

theorem reconcileWorkloadGroup_places_witness:
  "\<exists>q0 t1 t2 dest wp. exec (reconcileWorkloadGroup plain_lib ex_group (ex_work ''rr''))
       ((q0, RList []) # t1 @ t2) (Returned (Inr scheduledStatus)) \<and>
     made stored_placement t2 = [wp] \<and> placement_of ex_group (ex_work ''rr'') dest False wp"
proof -
  obtain q0 t where e: "exec (reconcileWorkloadGroup plain_lib ex_group (ex_work ''rr'')) ((q0, RList []) # t)
      (Returned (Inr scheduledStatus))"
    using ex_place_run by blast
  from reconcileWorkloadGroup_places [OF plain_finalizer_laws plain_owner_laws e, of "[]"]
  obtain t1 t2 names order where t: "t = t1 @ t2"
    and n: "exec (getTargetDestinationNames plain_lib (resolveDestinationSelectorsForWorkloadGroup ex_group) (ex_work ''rr'')) t1 (Returned names)"
    and ne: "names \<noteq> []" and o: "distinct (map fst order)" "set order = (\<lambda>d. (d, False)) ` set names"
      "list_all2 (\<lambda>target. placement_of ex_group (ex_work ''rr'') (fst target) (snd target)) order (made stored_placement t2)"
    by (auto simp: as_list_def)
  have "length names \<le> 1"
    using wpreD [OF n, of "\<lambda>t oc. \<forall>names. oc = Returned names \<longrightarrow> length names \<le> 1"]
    by (auto simp: getTargetDestinationNames_def wpre_simps ex_work_def IsResourceRequest_def split: resp.splits)
  with ne obtain d where d: "names = [d]" by (cases names) auto
  with o have "order = [(d, False)]"
    by (cases order; cases "tl order") auto
  with o(3) d e t show ?thesis by (auto simp: list_all2_Cons1) blast
qed

subsection \<open>Dangling placements\<close>

fun deleted_placement :: "req \<Rightarrow> WorkPlacement option" where
  "deleted_placement (Delete (OWorkPlacement wp)) = Some wp"
| "deleted_placement q = None"

text \<open>The placements a list response holds.\<close>

definition listed_placements :: "resp \<Rightarrow> WorkPlacement list" where
  "listed_placements r = (case as_list un_wp r of Inl e \<Rightarrow> [] | Inr wps \<Rightarrow> wps)"

definition placement_names :: "gtrace \<Rightarrow> string set" where
  "placement_names t = (\<Union>k\<in>set t. (\<lambda>wp. m_Name (wp_meta wp)) ` set (listed_placements (snd k)))"

lemma deleteDanglingWorkplacements_deletes:
  "wpre (deleteDanglingWorkplacements should wps) (\<lambda>t oc. oc = Returned None \<longrightarrow>
     map fst t = map (\<lambda>wp. Delete (OWorkPlacement wp)) (filter (\<lambda>wp. m_Name (wp_meta wp) \<notin> set should) wps))"
  unfolding deleteDanglingWorkplacements_def wpre_after_loop
  by (rule wpre_for_range [where I = "\<lambda>pre t s. map fst t =
      map (\<lambda>wp. Delete (OWorkPlacement wp)) (filter (\<lambda>wp. m_Name (wp_meta wp) \<notin> set should) pre)"])
    (auto simp: wpre_simps split: option.splits loop.splits)

text \<open>The list requests for the placements of a Work, and of one of its groups.\<close>

definition list_work_placements :: "lib \<Rightarrow> Work \<Rightarrow> req" where
  "list_work_placements L work = ListObjs KWorkPlacement (m_Namespace (w_meta work))
     (selectorOrNil L (fmupd ''kratix.io/work'' (m_Name (w_meta work)) fmempty))"

definition list_group_placements :: "lib \<Rightarrow> Work \<Rightarrow> WorkloadGroup \<Rightarrow> req" where
  "list_group_placements L work wg = ListObjs KWorkPlacement (m_Namespace (w_meta work))
     (selectorOrNil L (fmupd ''kratix.io/workload-group-id'' (wg_ID wg)
       (fmupd ''kratix.io/work'' (m_Name (w_meta work)) fmempty)))"

text \<open>C30. Cleaning up deletes, in order, exactly those placements of the Work that no current workload group has.
  A pass without an error lists the placements labelled with the Work and the group, in the namespace of the Work, once
  per workload group in their order, then those labelled with the Work, and each of these requests is answered with a list;
  every other request deletes a placement of the last list whose name none of the groups' lists has.\<close>

theorem cleanupDanglingWorkplacements_deletes:
  assumes "exec (cleanupDanglingWorkplacements L work) t (Returned None)"
  shows "\<exists>keep r all t'. t = keep @ (list_work_placements L work, r) # t' \<and>
    map fst keep = map (list_group_placements L work) (ws_WorkloadGroups (w_Spec work)) \<and>
    (\<forall>(q, r')\<in>set keep. as_list un_wp r' = Inr (listed_placements r')) \<and> as_list un_wp r = Inr all \<and>
    map fst t' = map (\<lambda>wp. Delete (OWorkPlacement wp)) (filter (\<lambda>wp. m_Name (wp_meta wp) \<notin> placement_names keep) all)"
proof -
  define kept where "kept pre t \<longleftrightarrow> map fst t = map (list_group_placements L work) pre \<and>
    (\<forall>(q, r')\<in>set t. as_list un_wp r' = Inr (listed_placements r'))" for pre and t :: gtrace
  define Q where "Q t oc \<longleftrightarrow> (oc = Returned None \<longrightarrow>
    (\<exists>keep r all t'. t = keep @ (list_work_placements L work, r) # t' \<and> kept (ws_WorkloadGroups (w_Spec work)) keep \<and>
      as_list un_wp r = Inr all \<and>
      map fst t' = map (\<lambda>wp. Delete (OWorkPlacement wp)) (filter (\<lambda>wp. m_Name (wp_meta wp) \<notin> placement_names keep) all)))"
    for t :: gtrace and oc :: "err option outcome"
  have last: "wpre (deleteDanglingWorkplacements should wps) (\<lambda>t'. Q (keep @ (list_work_placements L work, r) # t'))"
    if "kept (ws_WorkloadGroups (w_Spec work)) keep" "set should = placement_names keep" "as_list un_wp r = Inr wps"
    for keep r wps should
    by (rule wpre_mono [OF deleteDanglingWorkplacements_deletes]) (use that in \<open>fastforce simp: Q_def\<close>)
  have snoc: "kept (pre @ [wg]) (t @ [(list_group_placements L work wg, r)]) \<and>
      placement_names (t @ [(list_group_placements L work wg, r)]) = placement_names t \<union> (\<lambda>wp. m_Name (wp_meta wp)) ` set wps"
    if "kept pre t" "as_list un_wp r = Inr wps" for pre t wg r wps
    using that by (auto simp: kept_def listed_placements_def placement_names_def)
  have "wpre (cleanupDanglingWorkplacements L work) Q"
    unfolding cleanupDanglingWorkplacements_def wpre_after_loop
  proof (rule wpre_for_range [where I = "\<lambda>pre t s. kept pre t \<and> set s = placement_names t"], goal_cases)
    case 1
    show ?case by (simp add: kept_def placement_names_def)
  next
    case (2 pre wg post s t)
    then show ?case
      using snoc [of pre t _ _ wg]
      by (auto simp: wpre_bnd wpre_basic wpre_calls getExistingWorkPlacementsForWorkloadGroup_def
        listWorkplacementWithLabels_def list_group_placements_def consts_defs Q_def split: sum.splits)
  next
    case (3 t s)
    then show ?case
      using last [of t s]
      by (auto simp: wpre_bnd wpre_basic wpre_calls listWorkplacementWithLabels_def getExistingWorkPlacementsForWork_def
        list_work_placements_def consts_defs Q_def [of _ "Returned (Some _)"] split: sum.splits)
  qed
  from wpreD [OF assms this] show ?thesis by (simp add: Q_def kept_def)
qed

theorem cleanupDanglingWorkplacements_deletes_witness:
  "\<exists>t keep r t'. exec (cleanupDanglingWorkplacements plain_lib (ex_work ''rr'')) t (Returned None) \<and>
     t = keep @ (list_work_placements plain_lib (ex_work ''rr''), r) # t' \<and>
     map fst keep = [list_group_placements plain_lib (ex_work ''rr'') ex_group] \<and>
     made deleted_placement t = [ex_placement ''old'' ''d1'']"
proof -
  have "\<exists>t. exec (cleanupDanglingWorkplacements plain_lib (ex_work ''rr'')) t (Returned None) \<and>
      made deleted_placement t = [ex_placement ''old'' ''d1'']"
    by (rule script_ex [where rs = "[RList [OWorkPlacement (ex_placement ''w'' ''d1'')],
          RList [OWorkPlacement (ex_placement ''w'' ''d1''), OWorkPlacement (ex_placement ''old'' ''d1'')], ROk]"])
      (simp add: cleanupDanglingWorkplacements_def deleteDanglingWorkplacements_def getExistingWorkPlacementsForWork_def
        wg_eval call_defs ex_defs plain_lib_simps)
  then obtain t where e: "exec (cleanupDanglingWorkplacements plain_lib (ex_work ''rr'')) t (Returned None)"
    "made deleted_placement t = [ex_placement ''old'' ''d1'']" by blast
  from cleanupDanglingWorkplacements_deletes [OF e(1)] obtain keep r t' where
    "t = keep @ (list_work_placements plain_lib (ex_work ''rr''), r) # t'"
    "map fst keep = map (list_group_placements plain_lib (ex_work ''rr'')) (ws_WorkloadGroups (w_Spec (ex_work ''rr'')))"
    by blast
  moreover have "ws_WorkloadGroups (w_Spec (ex_work ''rr'')) = [ex_group]" by (simp add: ex_work_def)
  ultimately show ?thesis using e by (intro exI [of _ t] exI [of _ keep] exI [of _ r] exI [of _ t']) simp
qed

subsection \<open>The status of a Work\<close>

text \<open>
  A status that reports the outcome of scheduling: the counters of groups and of groups placed, and a
  \<open>ScheduleSucceeded\<close> condition that is true when every group is placed where its selectors match.
\<close>

definition schedule_report :: "string list \<Rightarrow> string list \<Rightarrow> string \<times> string" where
  "schedule_report unscheduled misplaced =
     (if unscheduled \<noteq> [] then (ConditionFalse, ''UnscheduledWorkloads'')
      else if misplaced \<noteq> [] then (ConditionFalse, scheduleSucceededConditionMismatchReason)
      else (ConditionTrue, ''AllWorkplacementsScheduled''))"

definition find_cond :: "Work \<Rightarrow> string \<Rightarrow> condition option" where
  "find_cond w ty = find (\<lambda>c. c_Type c = ty) (work_conditions w)"

definition reports :: "string list \<Rightarrow> string list \<Rightarrow> Work \<Rightarrow> bool" where
  "reports unscheduled misplaced w \<longleftrightarrow>
     wst_WorkPlacements (w_Status w) = int (length (ws_WorkloadGroups (w_Spec w))) \<and>
     wst_WorkPlacementsCreated (w_Status w) =
       int (length (ws_WorkloadGroups (w_Spec w))) - int (length unscheduled) \<and>
     (\<exists>c. find_cond w ''ScheduleSucceeded'' = Some c \<and> (c_Status c, c_Reason c) = schedule_report unscheduled misplaced)"

text \<open>The Ready condition follows the schedule: the invariant of a Work's conditions.\<close>

definition ready_follows :: "Work \<Rightarrow> bool" where
  "ready_follows w \<longleftrightarrow> (\<forall>c. find_cond w ''ScheduleSucceeded'' = Some c \<longrightarrow>
     (\<exists>d. find_cond w ''Ready'' = Some d \<and> c_Status d = c_Status c))"

text \<open>Setting two conditions one after the other, as the scheduler does.\<close>

lemma set_two_conditions:
  assumes "condition_laws L" and "c_Type a = ''ScheduleSucceeded''" and "c_Type b = ''Ready''"
  shows "\<exists>c d. find (\<lambda>x. c_Type x = ''ScheduleSucceeded'')
        (fst (L_SetStatusCondition L now' (fst (L_SetStatusCondition L now cs a)) b)) = Some c \<and> same_condition c a \<and>
      find (\<lambda>x. c_Type x = ''Ready'')
        (fst (L_SetStatusCondition L now' (fst (L_SetStatusCondition L now cs a)) b)) = Some d \<and> same_condition d b"
proof -
  have set: "\<exists>d. find (\<lambda>x. c_Type x = c_Type c) (fst (L_SetStatusCondition L now cs c)) = Some d \<and> same_condition d c"
    and keep: "ty \<noteq> c_Type c \<Longrightarrow>
      find (\<lambda>x. c_Type x = ty) (fst (L_SetStatusCondition L now cs c)) = find (\<lambda>x. c_Type x = ty) cs" for now cs c ty
    using assms(1) unfolding condition_laws_def by blast+
  show ?thesis
    using set [of a now cs] set [of b now' "fst (L_SetStatusCondition L now cs a)"]
      keep [of "''ScheduleSucceeded''" b now' "fst (L_SetStatusCondition L now cs a)"] assms(2,3) by auto
qed

lemma set_condition_unchanged:
  assumes "condition_laws L" and "\<not> snd (L_SetStatusCondition L now cs a)"
  shows "\<exists>c. find (\<lambda>x. c_Type x = c_Type a) (fst (L_SetStatusCondition L now cs a)) = Some c \<and> same_condition c a"
    and "\<exists>c. find (\<lambda>x. c_Type x = c_Type a) cs = Some c \<and> same_condition c a"
    and "ty \<noteq> c_Type a \<Longrightarrow> find (\<lambda>x. c_Type x = ty) (fst (L_SetStatusCondition L now cs a)) = find (\<lambda>x. c_Type x = ty) cs"
  using assms unfolding condition_laws_def by blast+

lemma desiredWorkConditions_result:
  "wpre (desiredWorkConditions w unscheduled misplaced) (\<lambda>t oc. \<exists>rc sc. oc = Returned (rc, sc) \<and>
     c_Type rc = ''Ready'' \<and> c_Type sc = ''ScheduleSucceeded'' \<and> c_Status rc = c_Status sc \<and>
     (c_Status sc, c_Reason sc) = schedule_report unscheduled misplaced \<and> (\<forall>x\<in>set t. \<not> is_write (fst x)))"
  by (auto simp: desiredWorkConditions_def wpre_simps schedule_report_def mk_cond_def scheduleSucceededConditionType_def)

text \<open>The two conditions after the update, and what a result of "nothing changed" means.\<close>

lemma setWorkConditions_result:
  assumes "condition_laws L" and "c_Type rc = ''Ready''" and "c_Type sc = ''ScheduleSucceeded''"
    and "c_Status rc = c_Status sc"
  shows "wpre (setWorkConditions L updated w rc sc) (\<lambda>t oc. \<exists>updated' cs. oc = Returned (updated', set_work_conditions w cs) \<and>
     (\<exists>c. find (\<lambda>x. c_Type x = ''ScheduleSucceeded'') cs = Some c \<and> same_condition c sc) \<and>
     (ready_follows w \<longrightarrow> ready_follows (set_work_conditions w cs)) \<and>
     (updated' \<or> \<not> updated \<and> (\<exists>c. find_cond w ''ScheduleSucceeded'' = Some c \<and> same_condition c sc)) \<and>
     (\<forall>x\<in>set t. \<not> is_write (fst x)))"
proof -
  have changed: "(\<exists>c. find (\<lambda>x. c_Type x = ''ScheduleSucceeded'') cs = Some c \<and> same_condition c sc) \<and>
      ready_follows (set_work_conditions w cs)"
    if "cs = fst (L_SetStatusCondition L now' (fst (L_SetStatusCondition L now (work_conditions w) sc)) rc)" for now now' cs
    using set_two_conditions [OF assms(1,3,2), of now' now "work_conditions w"] assms(4) that
    by (auto simp: ready_follows_def find_cond_def work_conditions_def set_work_conditions_def same_condition_def)
  have same: "(\<exists>c. find (\<lambda>x. c_Type x = ''ScheduleSucceeded'') cs = Some c \<and> same_condition c sc) \<and>
      (ready_follows w \<longrightarrow> ready_follows (set_work_conditions w cs)) \<and>
      (\<exists>c. find_cond w ''ScheduleSucceeded'' = Some c \<and> same_condition c sc)"
    if "cs = fst (L_SetStatusCondition L now (work_conditions w) sc)" "\<not> snd (L_SetStatusCondition L now (work_conditions w) sc)"
    for now cs
    using set_condition_unchanged(1,2) [OF assms(1) that(2)] set_condition_unchanged(3) [OF assms(1) that(2), of "''Ready''"]
      assms(3) that(1)
    by (auto simp: ready_follows_def find_cond_def work_conditions_def set_work_conditions_def same_condition_def)
  show ?thesis
    unfolding setWorkConditions_def wpre_bnd wpre_SetStatusCondition
    using changed [OF refl] same [OF refl] by (fastforce simp: wpre_simps split_beta)
qed

lemma countWorkPlacements_result:
  assumes "countWorkPlacements w unscheduled = (updated, w')"
  shows "w_meta w' = w_meta w" "w_Spec w' = w_Spec w" "work_conditions w' = work_conditions w"
    "wst_WorkPlacements (w_Status w') = int (length (ws_WorkloadGroups (w_Spec w)))"
    "wst_WorkPlacementsCreated (w_Status w') = int (length (ws_WorkloadGroups (w_Spec w))) - int (length unscheduled)"
    "\<not> updated \<Longrightarrow> w' = w"
  using assms by (auto simp: countWorkPlacements_def Let_def work_conditions_def split: if_splits)

lemma updateWorkStatus_result:
  assumes "condition_laws L"
  shows "wpre (updateWorkStatus L w unscheduled misplaced) (\<lambda>t oc. \<exists>updated w'. oc = Returned (updated, w') \<and>
     w_meta w' = w_meta w \<and> w_Spec w' = w_Spec w \<and> reports unscheduled misplaced w' \<and>
     (ready_follows w \<longrightarrow> ready_follows w') \<and> (updated \<or> reports unscheduled misplaced w) \<and>
     (\<forall>x\<in>set t. \<not> is_write (fst x)))"
proof (cases "countWorkPlacements w unscheduled")
  case (Pair u w0)
  note cw = countWorkPlacements_result [OF Pair]
  have rf: "ready_follows w0 = ready_follows w" "find_cond w0 = find_cond w"
    using cw(3) by (auto simp: ready_follows_def find_cond_def fun_eq_iff)
  have set_conds: "wpre (setWorkConditions L u w0 rc sc) (\<lambda>t oc. \<exists>updated w'. oc = Returned (updated, w') \<and>
     w_meta w' = w_meta w \<and> w_Spec w' = w_Spec w \<and> reports unscheduled misplaced w' \<and>
     (ready_follows w \<longrightarrow> ready_follows w') \<and> (updated \<or> reports unscheduled misplaced w) \<and>
     (\<forall>x\<in>set t. \<not> is_write (fst x)))"
    if "c_Type rc = ''Ready''" "c_Type sc = ''ScheduleSucceeded''" "c_Status rc = c_Status sc"
      "(c_Status sc, c_Reason sc) = schedule_report unscheduled misplaced" for rc sc
    by (rule wpre_mono [OF setWorkConditions_result [OF assms that(1-3), of u w0]])
      (use that(4) cw rf in \<open>auto simp: reports_def find_cond_def set_work_conditions_def work_conditions_def
        same_condition_def\<close>)
  show ?thesis
    unfolding updateWorkStatus_def Pair prod.case wpre_bnd
    by (rule wpre_mono [OF desiredWorkConditions_result])
      (fastforce intro!: wpre_mono [OF set_conds])
qed

subsection \<open>A scheduling pass\<close>

text \<open>
  The groups of a pass, each with the requests its reconciliation made and its status.
\<close>

type_synonym pass = "(WorkloadGroup \<times> gtrace \<times> schedulingStatus) list"

definition pass_ok :: "lib \<Rightarrow> Work \<Rightarrow> pass \<Rightarrow> bool" where
  "pass_ok L work runs \<longleftrightarrow> (\<forall>(wg, p, st)\<in>set runs. exec (reconcileWorkloadGroup L wg work) p (Returned (Inr st)))"

definition pass_trace :: "pass \<Rightarrow> gtrace" where
  "pass_trace runs = concat (map (\<lambda>(wg, p, st). p) runs)"

definition pass_ids :: "schedulingStatus \<Rightarrow> pass \<Rightarrow> string list" where
  "pass_ids s runs = map (\<lambda>(wg, p, st). wg_ID wg) (filter (\<lambda>(wg, p, st). st = s) runs)"

definition finished :: "lib \<Rightarrow> Work \<Rightarrow> pass \<Rightarrow> gtrace \<Rightarrow> ((err + string list) \<times> Work) outcome \<Rightarrow> bool" where
  "finished L work runs t oc \<longleftrightarrow> map fst runs = ws_WorkloadGroups (w_Spec work) \<and> pass_ok L work runs \<and>
     exec (finishWork L work (pass_ids unscheduledStatus runs) (pass_ids misplacedStatus runs)) t oc"

definition failed_at :: "lib \<Rightarrow> Work \<Rightarrow> pass \<Rightarrow> gtrace \<Rightarrow> ((err + string list) \<times> Work) outcome \<Rightarrow> bool" where
  "failed_at L work runs t oc \<longleftrightarrow> (\<exists>wg rest p e t'. ws_WorkloadGroups (w_Spec work) = map fst runs @ wg # rest \<and>
     pass_ok L work runs \<and> exec (reconcileWorkloadGroup L wg work) p (Returned (Inl e)) \<and>
     t = p @ t' \<and> exec (failWork L work wg) t' oc)"

lemma ReconcileWork_cases:
  "wpre (ReconcileWork L work) (\<lambda>t oc. \<forall>res. oc = Returned res \<longrightarrow>
     (\<exists>runs t'. t = pass_trace runs @ t' \<and> (finished L work runs t' oc \<or> failed_at L work runs t' oc)))"
proof -
  define I where "I pre t s \<longleftrightarrow> (\<exists>runs. map fst runs = pre \<and> pass_ok L work runs \<and> t = pass_trace runs \<and>
      s = (pass_ids unscheduledStatus runs, pass_ids misplacedStatus runs))" for pre t s
  have I_snoc: "I (pre @ [wg]) (t @ p) (u', m')"
    if "I pre t (u, m)" "exec (reconcileWorkloadGroup L wg work) p (Returned (Inr st))"
      "u' = (if st = unscheduledStatus then u @ [wg_ID wg] else u)"
      "m' = (if st = misplacedStatus then m @ [wg_ID wg] else m)" for pre t u m wg p st u' m'
    using that unfolding I_def
    by (elim exE, intro exI [of _ "_ @ [(wg, p, st)]"]) (auto simp: pass_ok_def pass_trace_def pass_ids_def)
  show ?thesis
    unfolding ReconcileWork_def wpre_after_loop
  proof (rule wpre_for_range [where I = I], goal_cases)
    case 1
    show ?case unfolding I_def by (rule exI [of _ "[]"]) (simp add: pass_ok_def pass_trace_def pass_ids_def)
  next
    case (2 pre wg rest s t)
    obtain u m where s: "s = (u, m)" by (cases s)
    show ?case
      unfolding s prod.case wpre_bnd
    proof (rule wpreI, goal_cases)
      case (1 p oc)
      note p = this
      show ?case
      proof (cases oc)
        case (Returned r)
        show ?thesis
        proof (cases r)
          case (Inl e)
          have "failed_at L work runs (p @ t') oc" if "map fst runs = pre" "pass_ok L work runs"
            "exec (failWork L work wg) t' oc" for runs t' oc
            using that p 2(1) by (auto simp: failed_at_def Returned Inl)
          then show ?thesis
            using 2(2) by (auto simp: Returned Inl wpre_simps s I_def intro!: wpreI split: outcome.split) blast
        next
          case (Inr st)
          then show ?thesis
            using I_snoc [OF 2(2) [unfolded s] p [unfolded Returned Inr]]
            by (cases st) (auto simp: Returned wpre_simps)
        qed
      qed simp
    qed
  next
    case (3 t s)
    then show ?case by (auto simp: I_def finished_def intro!: wpreI)
  qed
qed

text \<open>The status written, if it differs from the one the Work already has.\<close>

definition status_recorded :: "Work \<Rightarrow> gtrace \<Rightarrow> (Work \<Rightarrow> bool) \<Rightarrow> bool" where
  "status_recorded work t R \<longleftrightarrow>
     R work \<or> (\<exists>w r. (StatusUpdate (OWork w), r) \<in> set t \<and> w_meta w = w_meta work \<and> w_Spec w = w_Spec work \<and>
       (ready_follows work \<longrightarrow> ready_follows w) \<and> R w)"

lemma finishWork_result:
  assumes "condition_laws L"
  shows "wpre (finishWork L work unscheduled misplaced) (\<lambda>t oc. \<forall>u w'. oc = Returned (Inr u, w') \<longrightarrow>
     u = unscheduled \<and> status_recorded work t (reports unscheduled misplaced))"
  unfolding finishWork_def wpre_bnd status_recorded_def
  by (rule wpre_mono [OF updateWorkStatus_result [OF assms]])
    (auto simp: wpre_simps split: sum.splits option.splits outcome.splits intro!: wpreI, blast+)

definition schedule_failed :: "Work \<Rightarrow> bool" where
  "schedule_failed w \<longleftrightarrow> (\<forall>ty\<in>{''ScheduleSucceeded'', ''Ready''}. \<exists>c. find_cond w ty = Some c \<and>
     c_Status c = ConditionFalse \<and> c_Reason c = ''FailedToScheduleWorkloads'')"

lemma failWork_result:
  assumes "condition_laws L"
  shows "wpre (failWork L work wg) (\<lambda>t oc. \<forall>u w'. oc = Returned (Inr u, w') \<longrightarrow>
     u = [] \<and> (\<exists>w r. (StatusUpdate (OWork w), r) \<in> set t \<and> w_meta w = w_meta work \<and> w_Spec w = w_Spec work \<and>
       schedule_failed w))"
proof -
  let ?s = "mk_cond ''ScheduleSucceeded'' ConditionFalse ''FailedToScheduleWorkloads''
    (''Failed to schedule or update for workloadGroups: ['' @ wg_ID wg @ '']'')"
  let ?r = "mk_cond ''Ready'' ConditionFalse ''FailedToScheduleWorkloads'' ''Pending''"
  have "schedule_failed (set_work_conditions work
      (fst (L_SetStatusCondition L now' (fst (L_SetStatusCondition L now (work_conditions work) ?s)) ?r)))" for now now'
    using set_two_conditions [OF assms, of ?s ?r now' now "work_conditions work"]
    by (auto simp: mk_cond_def schedule_failed_def find_cond_def work_conditions_def set_work_conditions_def same_condition_def)
  then show ?thesis
    unfolding failWork_def wpre_bnd wpre_SetStatusCondition
    by (simp add: wpre_simps split_beta Let_def split: sum.split) (auto simp: set_work_conditions_def)
qed

text \<open>C5. A scheduling pass that returns without an error accounts for every workload group. Either each group was
  reconciled, the returned list is the groups without a destination in the order of the Work, and the Work's
  status (as it was, or as written by a status update) has the counters and the condition that follow from the groups'
  outcomes, with Ready agreeing with it if it did before. Or the groups up to one of them were reconciled, the requests of
  the pass go on with those of that group's reconciliation, which ended in an error, and after them the failure is
  written into the Work's conditions.\<close>

theorem ReconcileWork_reports:
  assumes "condition_laws L" and "exec (ReconcileWork L work) t (Returned (Inr unscheduled, w'))"
  shows "(\<exists>runs t'. t = pass_trace runs @ t' \<and> map fst runs = ws_WorkloadGroups (w_Spec work) \<and> pass_ok L work runs \<and>
      unscheduled = pass_ids unscheduledStatus runs \<and>
      status_recorded work t' (reports unscheduled (pass_ids misplacedStatus runs))) \<or>
    (\<exists>runs wg rest p e t' w r. t = pass_trace runs @ p @ t' \<and> ws_WorkloadGroups (w_Spec work) = map fst runs @ wg # rest \<and>
      pass_ok L work runs \<and> exec (reconcileWorkloadGroup L wg work) p (Returned (Inl e)) \<and> unscheduled = [] \<and>
      (StatusUpdate (OWork w), r) \<in> set t' \<and> w_meta w = w_meta work \<and> w_Spec w = w_Spec work \<and> schedule_failed w)"
proof -
  from wpreD [OF assms(2) ReconcileWork_cases] obtain runs t' where t: "t = pass_trace runs @ t'"
    and "finished L work runs t' (Returned (Inr unscheduled, w')) \<or> failed_at L work runs t' (Returned (Inr unscheduled, w'))"
    by auto
  then show ?thesis
  proof (elim disjE)
    assume fin: "finished L work runs t' (Returned (Inr unscheduled, w'))"
    then have "exec (finishWork L work (pass_ids unscheduledStatus runs) (pass_ids misplacedStatus runs)) t'
        (Returned (Inr unscheduled, w'))"
      by (simp add: finished_def)
    from wpreD [OF this finishWork_result [OF assms(1)]] fin t show ?thesis
      unfolding finished_def by blast
  next
    assume "failed_at L work runs t' (Returned (Inr unscheduled, w'))"
    then obtain wg rest p e t'' where fail: "ws_WorkloadGroups (w_Spec work) = map fst runs @ wg # rest" "pass_ok L work runs"
      "exec (reconcileWorkloadGroup L wg work) p (Returned (Inl e))" "t' = p @ t''"
      and run: "exec (failWork L work wg) t'' (Returned (Inr unscheduled, w'))"
      unfolding failed_at_def by blast
    from wpreD [OF run failWork_result [OF assms(1)]] obtain w r where "unscheduled = []"
      "(StatusUpdate (OWork w), r) \<in> set t''" "w_meta w = w_meta work" "w_Spec w = w_Spec work" "schedule_failed w"
      by blast
    with fail t show ?thesis by (intro disjI2) blast
  qed
qed

theorem ReconcileWork_reports_witness:
  "\<exists>t w'. exec (ReconcileWork plain_lib (ex_work ''rr'')) t (Returned (Inr [''5058f1af8388633f609cadb75a75dc9d''], w')) \<and>
     (\<exists>runs t'. t = pass_trace runs @ t' \<and> map fst runs = [ex_group] \<and>
       status_recorded (ex_work ''rr'') t' (reports [''5058f1af8388633f609cadb75a75dc9d''] (pass_ids misplacedStatus runs)))"
proof -
  have "\<exists>t. exec (ReconcileWork plain_lib (ex_work ''rr'')) t
      (Returned (Inr [''5058f1af8388633f609cadb75a75dc9d''], ex_work ''rr'')) \<and> t \<noteq> []"
    by (rule script_ex [where rs = "[RList [], RList [], ROk, RTime 7, RTime 7, RObj (OWork (ex_work ''rr'')), RList [], RList []]"])
      (simp add: ReconcileWork_def finishWork_def updateWorkStatus_def countWorkPlacements_def desiredWorkConditions_def
        setWorkConditions_def cleanupDanglingWorkplacements_def deleteDanglingWorkplacements_def getExistingWorkPlacementsForWork_def
        work_conditions_def wg_eval call_defs ex_defs plain_lib_simps mk_cond_def Let_def)
  then obtain t where e: "exec (ReconcileWork plain_lib (ex_work ''rr'')) t
      (Returned (Inr [''5058f1af8388633f609cadb75a75dc9d''], ex_work ''rr''))" by blast
  have "ws_WorkloadGroups (w_Spec (ex_work ''rr'')) = [ex_group]" by (simp add: ex_work_def)
  with ReconcileWork_reports [OF plain_condition_laws e] e show ?thesis by (metis not_Cons_self2)
qed

end
