(* ===== verification/StateStores.thy ===== *)
theory StateStores
  imports ResourceUtil Examples
begin

text \<open>
  \<open>src/internal/controller/shared.go\<close> and \<open>state_store.go\<close>, and the two controllers built from them,
  \<open>bucketstatestore_controller.go\<close> and \<open>gitstatestore_controller.go\<close>.

  The Go interface \<open>StateStore\<close> is a record of its methods, of which there is one for each of the two kinds of
  state store; what they have in common is the locale \<open>state_store\<close>. The client, context and logger that the functions are
  given (\<open>opts\<close>) are left out. The registration of the controllers with the manager (\<open>SetupWithManager\<close>) is not
  modelled, but for the functions that map an event to requests. \<open>%q\<close> is modelled for names, which have no character
  to escape.
\<close>

subsection \<open>Constants\<close>

definition promiseReleaseNameLabel :: string where [consts_defs]: "promiseReleaseNameLabel = ''kratix.io/promise-release-name''"
definition workFinalizer :: string where [consts_defs]: "workFinalizer = ''kratix.io/work-cleanup''"
definition removeAllWorkflowJobsFinalizer :: string where
  [consts_defs]: "removeAllWorkflowJobsFinalizer = ''kratix.io/workflows-cleanup''"
definition runDeleteWorkflowsFinalizer :: string where
  [consts_defs]: "runDeleteWorkflowsFinalizer = ''kratix.io/delete-workflows''"
definition secretRefFieldName :: string where [consts_defs]: "secretRefFieldName = ''secretRef''"
definition StatusNotReady :: string where [consts_defs]: "StatusNotReady = ''NotReady''"
definition StatusReady :: string where [consts_defs]: "StatusReady = ''Ready''"
definition StateStoreReadyConditionType :: string where [consts_defs]: "StateStoreReadyConditionType = ''Ready''"
definition StateStoreReadyConditionReason :: string where [consts_defs]: "StateStoreReadyConditionReason = ''StateStoreReady''"
definition StateStoreReadyConditionMessage :: string where
  [consts_defs]: "StateStoreReadyConditionMessage = ''State store is ready''"
definition StateStoreNotReadyErrorInitialisingWriterReason :: string where
  [consts_defs]: "StateStoreNotReadyErrorInitialisingWriterReason = ''ErrorInitialisingWriter''"
definition StateStoreNotReadyErrorInitialisingWriterMessage :: string where
  [consts_defs]: "StateStoreNotReadyErrorInitialisingWriterMessage = ''Error initialising writer''"
definition StateStoreNotReadyErrorValidatingPermissionsReason :: string where
  [consts_defs]: "StateStoreNotReadyErrorValidatingPermissionsReason = ''ErrorValidatingPermissions''"
definition StateStoreNotReadyErrorValidatingPermissionsMessage :: string where
  [consts_defs]: "StateStoreNotReadyErrorValidatingPermissionsMessage = ''Error validating state store permissions''"


text \<open>\<open>%s\<close> of an error, which may be nil.\<close>

definition fmt_err :: "err option \<Rightarrow> string" where
  "fmt_err e = (case e of None \<Rightarrow> ''%!s(<nil>)'' | Some e \<Rightarrow> err_msg e)"

subsection \<open>Shared operations\<close>

text \<open>The result says whether anything may remain to be deleted, beside the error.\<close>

definition deleteAllResourcesWithKindMatchingLabel :: "lib \<Rightarrow> gvk \<Rightarrow> labels \<Rightarrow> (bool \<times> err option) go" where
  "deleteAllResourcesWithKindMatchingLabel L gvk resourceLabels =
     bnd (call_list (ListObjs (KUnstructured gvk) [] (Some (L_SelectorFromSet L resourceLabels))) un_unstructured) (\<lambda>r.
     case r of
       Inl e \<Rightarrow> Ret (True, Some e)
     | Inr items \<Rightarrow>
         if items = [] then Ret (False, None)
         else
           after_loop
             (for_range items () (\<lambda>resource _.
                bnd (call_unit (Delete (OUnstructured resource))) (\<lambda>e.
                Ret (case e of
                       None \<Rightarrow> Next ()
                     | Some e \<Rightarrow> if IsNotFound e then Next () else Leave (True, Some e)))))
             (\<lambda>_. Ret (items \<noteq> [], None)))"

text \<open>The finalizers of the kinds of object they are put on.\<close>

fun map_finalizers :: "(string list \<Rightarrow> string list) \<Rightarrow> kobj \<Rightarrow> kobj" where
  "map_finalizers f (OWork w) = OWork (w\<lparr>w_meta := (w_meta w)\<lparr>m_Finalizers := f (m_Finalizers (w_meta w))\<rparr>\<rparr>)"
| "map_finalizers f (OWorkPlacement w) = OWorkPlacement (w\<lparr>wp_meta := (wp_meta w)\<lparr>m_Finalizers := f (m_Finalizers (wp_meta w))\<rparr>\<rparr>)"
| "map_finalizers f (ODestination d) = ODestination (d\<lparr>d_meta := (d_meta d)\<lparr>m_Finalizers := f (m_Finalizers (d_meta d))\<rparr>\<rparr>)"
| "map_finalizers f (OPromise p) = OPromise (p\<lparr>p_meta := (p_meta p)\<lparr>m_Finalizers := f (m_Finalizers (p_meta p))\<rparr>\<rparr>)"
| "map_finalizers f (OPromiseRelease p) = OPromiseRelease (p\<lparr>prl_meta := (prl_meta p)\<lparr>m_Finalizers := f (m_Finalizers (prl_meta p))\<rparr>\<rparr>)"
| "map_finalizers f (OUnstructured u) = OUnstructured (u\<lparr>u_meta := (u_meta u)\<lparr>m_Finalizers := f (m_Finalizers (u_meta u))\<rparr>\<rparr>)"
| "map_finalizers f x = x"

definition addFinalizers :: "lib \<Rightarrow> kobj \<Rightarrow> string list \<Rightarrow> (ctrl_result \<times> err option) go" where
  "addFinalizers L resource finalizers =
     bnd (call_unit (Update (map_finalizers (\<lambda>fs. foldl (L_AddFinalizer L) fs finalizers) resource))) (\<lambda>e.
     Ret (no_requeue, e))"

subsection \<open>State stores\<close>

record 'a StateStore =
  ss_Kind :: kind
  ss_sel :: "kobj \<Rightarrow> 'a option"
  ss_Object :: "'a \<Rightarrow> kobj"
  ss_GetObjectKind :: "'a \<Rightarrow> string"
  ss_GetName :: "'a \<Rightarrow> string"
  ss_GetStatus :: "'a \<Rightarrow> StateStoreStatus"
  ss_SetStatus :: "'a \<Rightarrow> StateStoreStatus \<Rightarrow> 'a"
  ss_GetSecretRef :: "'a \<Rightarrow> secret_reference option"

definition bucket_store :: "BucketStateStore StateStore" where
  "bucket_store = \<lparr>ss_Kind = KBucketStateStore, ss_sel = un_bucket, ss_Object = OBucketStateStore, ss_GetObjectKind = b_Kind,
     ss_GetName = (\<lambda>b. m_Name (b_meta b)), ss_GetStatus = BucketGetStatus, ss_SetStatus = BucketSetStatus,
     ss_GetSecretRef = BucketGetSecretRef\<rparr>"

definition git_store :: "GitStateStore StateStore" where
  "git_store = \<lparr>ss_Kind = KGitStateStore, ss_sel = un_git, ss_Object = OGitStateStore, ss_GetObjectKind = gt_Kind,
     ss_GetName = (\<lambda>g. m_Name (gt_meta g)), ss_GetStatus = GitGetStatus, ss_SetStatus = GitSetStatus,
     ss_GetSecretRef = GitGetSecretRef\<rparr>"

definition fetchObjectAndSecret :: "'a StateStore \<Rightarrow> string \<Rightarrow> (err + 'a \<times> secret option) go" where
  "fetchObjectAndSecret I stateStoreRef =
     bnd (call_obj (Get (ss_Kind I) [] stateStoreRef) (ss_sel I)) (\<lambda>r.
     case r of
       Inl e \<Rightarrow> Ret (Inl e)
     | Inr stateStore \<Rightarrow>
         (case ss_GetSecretRef I stateStore of
            None \<Rightarrow> Ret (Inr (stateStore, None))
          | Some ref \<Rightarrow>
              let namespace = (if sr_Namespace ref = [] then ''default'' else sr_Namespace ref) in
              bnd (call_obj (Get KSecret namespace (sr_Name ref)) un_secret) (\<lambda>r.
              Ret (case r of
                     Inl e \<Rightarrow>
                       Inl (if IsNotFound e
                            then EStr (''secret '' @ quoted (sr_Name ref) @ '' not found in namespace '' @ quoted namespace)
                            else e)
                   | Inr secret \<Rightarrow> Inr (stateStore, Some secret)))))"

definition newWriter :: "string \<Rightarrow> string \<Rightarrow> string \<Rightarrow> (err + writer) go" where
  "newWriter stateStoreName stateStoreKind destinationPath =
     (if stateStoreKind = ''BucketStateStore'' then
        bnd (fetchObjectAndSecret bucket_store stateStoreName) (\<lambda>r.
        case r of
          Inl e \<Rightarrow> Ret (Inl e)
        | Inr (stateStore, secret) \<Rightarrow>
            call_writer (NewS3Writer (b_Spec stateStore) destinationPath (map_option sec_Data secret)))
      else if stateStoreKind = ''GitStateStore'' then
        bnd (fetchObjectAndSecret git_store stateStoreName) (\<lambda>r.
        case r of
          Inl e \<Rightarrow> Ret (Inl e)
        | Inr (stateStore, secret) \<Rightarrow>
            bnd (deref secret) (\<lambda>secret.
            call_writer (NewGitWriter (gt_Spec stateStore) destinationPath (sec_Data secret))))
      else Ret (Inl (EStr (''unsupported kind '' @ stateStoreKind))))"

definition secretRefIndexKey :: "string \<Rightarrow> string \<Rightarrow> string" where
  "secretRefIndexKey secretName secretNamespace = secretNamespace @ ''.'' @ secretName"

definition updateStateStoreReadyStatusAndCondition ::
  "lib \<Rightarrow> 'a StateStore \<Rightarrow> 'a \<Rightarrow> string \<Rightarrow> string \<Rightarrow> err option \<Rightarrow> (err option) go" where
  "updateStateStoreReadyStatusAndCondition L I stateStore failureReason failureMessage err =
     (let named = ss_GetObjectKind I stateStore @ '' '' @ quoted (ss_GetName I stateStore);
          failed = (failureReason \<noteq> []);
          text = failureMessage @ '': '' @ fmt_err err;
          condition =
            (if failed then mk_cond StateStoreReadyConditionType ConditionFalse failureReason text
             else mk_cond StateStoreReadyConditionType ConditionTrue StateStoreReadyConditionReason StateStoreReadyConditionMessage);
          status = (ss_GetStatus I stateStore)\<lparr>sst_Status := if failed then StatusNotReady else StatusReady\<rparr>
      in bnd (SetStatusCondition L (sst_Conditions status) condition) (\<lambda>(conditions, changed).
         if \<not> changed then Ret None
         else
           bnd (if failed then call_event (ss_Object I stateStore) EventTypeWarning ''NotReady'' (named @ '' is not ready: '' @ text)
                else call_event (ss_Object I stateStore) EventTypeNormal ''Ready'' (named @ '' is ready'')) (\<lambda>_.
           call_unit (StatusUpdate (ss_Object I (ss_SetStatus I stateStore (status\<lparr>sst_Conditions := conditions\<rparr>)))))))"

definition reconcileStateStoreCommon :: "lib \<Rightarrow> 'a StateStore \<Rightarrow> 'a \<Rightarrow> string \<Rightarrow> (ctrl_result \<times> err option) go" where
  "reconcileStateStoreCommon L I stateStore resourceType =
     bnd (newWriter (ss_GetName I stateStore) resourceType []) (\<lambda>r.
     case r of
       Inl e \<Rightarrow>
         bnd (updateStateStoreReadyStatusAndCondition L I stateStore StateStoreNotReadyErrorInitialisingWriterReason
                StateStoreNotReadyErrorInitialisingWriterMessage (Some e)) (\<lambda>_.
         Ret (no_requeue, Some e))
     | Inr writer \<Rightarrow>
         bnd (call_unit (ValidatePermissions writer)) (\<lambda>v.
         case v of
           Some e \<Rightarrow>
             bnd (updateStateStoreReadyStatusAndCondition L I stateStore StateStoreNotReadyErrorValidatingPermissionsReason
                    StateStoreNotReadyErrorValidatingPermissionsMessage (Some e)) (\<lambda>_.
             Ret (no_requeue, Some e))
         | None \<Rightarrow>
             bnd (updateStateStoreReadyStatusAndCondition L I stateStore [] [] None) (\<lambda>e.
             Ret (no_requeue, e))))"

definition constructRequestsForStateStoresReferencingSecret ::
  "'a StateStore \<Rightarrow> object_meta \<Rightarrow> ((string \<times> string) list) go" where
  "constructRequestsForStateStoresReferencingSecret I secret =
     bnd (call_list (ListObjs (ss_Kind I) []
            (Some (MatchField secretRefFieldName (secretRefIndexKey (m_Name secret) (m_Namespace secret))))) (ss_sel I)) (\<lambda>r.
     Ret (case r of
            Inl e \<Rightarrow> []
          | Inr items \<Rightarrow> map (\<lambda>s. (m_Namespace (meta_of (ss_Object I s)), ss_GetName I s)) items))"

subsection \<open>The controllers of the state stores\<close>

definition reconcileStateStore :: "lib \<Rightarrow> 'a StateStore \<Rightarrow> string \<Rightarrow> string \<Rightarrow> (ctrl_result \<times> err option) go" where
  "reconcileStateStore L I resourceType name =
     bnd (call_obj (Get (ss_Kind I) [] name) (ss_sel I)) (\<lambda>r.
     case r of
       Inl e \<Rightarrow> Ret (no_requeue, if IsNotFound e then None else Some e)
     | Inr stateStore \<Rightarrow> reconcileStateStoreCommon L I stateStore resourceType)"

definition BucketStateStoreReconcile :: "lib \<Rightarrow> string \<Rightarrow> (ctrl_result \<times> err option) go" where
  "BucketStateStoreReconcile L name = reconcileStateStore L bucket_store ''BucketStateStore'' name"

definition GitStateStoreReconcile :: "lib \<Rightarrow> string \<Rightarrow> (ctrl_result \<times> err option) go" where
  "GitStateStoreReconcile L name = reconcileStateStore L git_store ''GitStateStore'' name"

text \<open>The index of state stores by their secret; the Git one reads through a nil pointer when there is no secret.\<close>

definition bucketSecretIndex :: "BucketStateStore \<Rightarrow> ('q, 'r, string list) prog" where
  "bucketSecretIndex stateStore =
     (if bs_AuthMethod (b_Spec stateStore) = AuthMethodAccessKey then
        (case ValidateSecretRef stateStore of
           Some e \<Rightarrow> Ret []
         | None \<Rightarrow>
             bnd (deref (bs_SecretRef (b_Spec stateStore))) (\<lambda>ref.
             Ret [secretRefIndexKey (sr_Name ref) (sr_Namespace ref)]))
      else Ret [])"

definition gitSecretIndex :: "GitStateStore \<Rightarrow> ('q, 'r, string list) prog" where
  "gitSecretIndex stateStore =
     bnd (deref (gs_SecretRef (gt_Spec stateStore))) (\<lambda>ref.
     Ret [secretRefIndexKey (sr_Name ref) (sr_Namespace ref)])"

subsection \<open>The interface of a state store\<close>

text \<open>
  What a pass leaves behind: every status it writes, to the object it read, has the given condition and status, and if it
  writes none the object had that condition already.
\<close>

definition store_status :: "kobj \<Rightarrow> StateStoreStatus" where
  "store_status x = (case x of OBucketStateStore b \<Rightarrow> b_Status b | OGitStateStore g \<Rightarrow> gt_Status g
     | _ \<Rightarrow> \<lparr>sst_Status = [], sst_Conditions = []\<rparr>)"

definition store_says :: "condition \<Rightarrow> kobj \<Rightarrow> bool" where
  "store_says c x \<longleftrightarrow>
     (\<exists>d. find (\<lambda>d. c_Type d = c_Type c) (sst_Conditions (store_status x)) = Some d \<and> same_condition d c)"

definition store_recorded :: "condition \<Rightarrow> string \<Rightarrow> kobj \<Rightarrow> gtrace \<Rightarrow> bool" where
  "store_recorded c st x t \<longleftrightarrow>
     (\<forall>y r. (StatusUpdate y, r) \<in> set t \<longrightarrow> store_says c y \<and> sst_Status (store_status y) = st \<and> meta_of y = meta_of x) \<and>
     (store_says c x \<or> (\<exists>y r. (StatusUpdate y, r) \<in> set t))"

definition ready_cond :: condition where
  "ready_cond = mk_cond ''Ready'' ConditionTrue ''StateStoreReady'' ''State store is ready''"

definition not_ready_cond :: "string \<Rightarrow> string \<Rightarrow> err \<Rightarrow> condition" where
  "not_ready_cond reason msg e = mk_cond ''Ready'' ConditionFalse reason (msg @ '': '' @ err_msg e)"

text \<open>
  A pass that reports its check: the writer of the store is set up, its permissions are validated, and the outcome of
  the first of the two that fails, or of both, is what the status says. An error of a check is returned; without
  one, only the error of a status update is.
\<close>

definition check_reported :: "string \<Rightarrow> kobj \<Rightarrow> gtrace \<Rightarrow> err option \<Rightarrow> bool" where
  "check_reported kind x t er \<longleftrightarrow> (\<exists>tw res t'. t = tw @ t' \<and> exec (newWriter (m_Name (meta_of x)) kind []) tw (Returned res) \<and>
     (\<forall>y r. (StatusUpdate y, r) \<notin> set tw) \<and>
     (case res of
        Inl e \<Rightarrow> er = Some e \<and>
          store_recorded (not_ready_cond ''ErrorInitialisingWriter'' ''Error initialising writer'' e) ''NotReady'' x t'
      | Inr w \<Rightarrow> (\<exists>v t''. t' = (ValidatePermissions w, v) # t'' \<and>
          (case as_unit v of
             Some e \<Rightarrow> er = Some e \<and> store_recorded
               (not_ready_cond ''ErrorValidatingPermissions'' ''Error validating state store permissions'' e) ''NotReady'' x t''
           | None \<Rightarrow> store_recorded ready_cond ''Ready'' x t'' \<and>
               (\<forall>e. er = Some e \<longrightarrow> (\<exists>y r. (StatusUpdate y, r) \<in> set t'' \<and> as_unit r = Some e))))))"

lemma newWriter_quiet: "wpre (newWriter n k p) (\<lambda>t oc. \<forall>x r. (StatusUpdate x, r) \<notin> set t)"
  unfolding newWriter_def fetchObjectAndSecret_def Let_def
  by (auto simp: wpre_simps split: sum.split option.split prod.split)

locale state_store = api_kind "ss_sel I" "ss_Object I"
  for I :: "'a StateStore" +
  assumes status_set: "ss_GetStatus I (ss_SetStatus I s status) = status"
    and meta_set: "meta_of (ss_Object I (ss_SetStatus I s status)) = meta_of (ss_Object I s)"
    and name_of: "ss_GetName I s = m_Name (meta_of (ss_Object I s))"
    and status_of: "store_status (ss_Object I s) = ss_GetStatus I s"
begin

text \<open>What is written, if anything: the condition of the outcome, and the status that goes with it.\<close>

lemma update_result:
  assumes "condition_laws L" and "reason = [] \<Longrightarrow> c = ready_cond" and "reason \<noteq> [] \<Longrightarrow> er = Some e \<and> c = not_ready_cond reason msg e"
  shows "wpre (updateStateStoreReadyStatusAndCondition L I s reason msg er) (\<lambda>t oc. \<exists>v. oc = Returned v \<and>
    store_recorded c (if reason = [] then ''Ready'' else ''NotReady'') (ss_Object I s) t \<and>
    (\<forall>e. v = Some e \<longrightarrow> (\<exists>y r. (StatusUpdate y, r) \<in> set t \<and> as_unit r = Some e)))"
proof -
  have laws: "\<exists>d. find (\<lambda>x. c_Type x = c_Type c) (fst (L_SetStatusCondition L now cs c)) = Some d \<and> same_condition d c"
    "\<not> snd (L_SetStatusCondition L now cs c) \<Longrightarrow> \<exists>d. find (\<lambda>x. c_Type x = c_Type c) cs = Some d \<and> same_condition d c" for now cs c
    using assms(1) unfolding condition_laws_def by blast+
  have written: "store_says c (ss_Object I (ss_SetStatus I s (st\<lparr>sst_Conditions := cs'\<rparr>)))"
    if "L_SetStatusCondition L now cs c = (cs', ch)" for now cs c cs' ch st
    using laws(1) [of c now cs] that by (simp add: store_says_def status_of status_set)
  have unchanged: "store_says c (ss_Object I s)"
    if "L_SetStatusCondition L now (sst_Conditions (ss_GetStatus I s)) c = (cs', False)" for now c cs'
    using laws(2) [of now "sst_Conditions (ss_GetStatus I s)" c] that by (simp add: store_says_def status_of)
  show ?thesis
    unfolding updateStateStoreReadyStatusAndCondition_def Let_def
    using assms(2,3)
    by (auto simp: wpre_simps store_recorded_def written unchanged status_of status_set meta_set ready_cond_def not_ready_cond_def
        fmt_err_def consts_defs StatusReady_def StatusNotReady_def split: prod.splits)
qed

lemma common_reports:
  assumes "condition_laws L"
  shows "wpre (reconcileStateStoreCommon L I s kind) (\<lambda>t oc. \<forall>res er. oc = Returned (res, er) \<longrightarrow>
    check_reported kind (ss_Object I s) t er)"
  unfolding reconcileStateStoreCommon_def wpre_bnd
proof (rule wpreI, goal_cases)
  case (1 tw oc)
  note quiet = wpreD [OF 1 newWriter_quiet]
  show ?case
  proof (cases oc)
    case (Returned res)
    note set_up = 1 [unfolded Returned name_of]
    show ?thesis
    proof (cases res)
      case (Inl e)
      have reported: "check_reported kind (ss_Object I s) (tw @ t') (Some e)"
        if "store_recorded (not_ready_cond ''ErrorInitialisingWriter'' ''Error initialising writer'' e) ''NotReady'' (ss_Object I s) t'" for t'
        using set_up quiet Inl that unfolding check_reported_def
        by (intro exI [of _ tw] exI [of _ "Inl e"] exI [of _ t']) auto
      show ?thesis
        unfolding Returned Inl
        by (simp add: wpre_bnd)
          (rule wpre_mono [OF update_result [OF assms, where e = e and
              c = "not_ready_cond ''ErrorInitialisingWriter'' ''Error initialising writer'' e"]],
            auto simp: wpre_basic consts_defs intro!: reported)
    next
      case (Inr w)
      show ?thesis
        unfolding Returned Inr outcome.case sum.case wpre_bnd wpre_calls
      proof (intro allI, goal_cases)
        case (1 v)
        have reported: "check_reported kind (ss_Object I s) (tw @ [(ValidatePermissions w, v)] @ t'') er"
          if "case as_unit v of
             Some e \<Rightarrow> er = Some e \<and> store_recorded
               (not_ready_cond ''ErrorValidatingPermissions'' ''Error validating state store permissions'' e) ''NotReady'' (ss_Object I s) t''
           | None \<Rightarrow> store_recorded ready_cond ''Ready'' (ss_Object I s) t'' \<and>
               (\<forall>e. er = Some e \<longrightarrow> (\<exists>y r. (StatusUpdate y, r) \<in> set t'' \<and> as_unit r = Some e))" for t'' er
          using set_up quiet Inr that unfolding check_reported_def
          by (intro exI [of _ tw] exI [of _ "Inr w"] exI [of _ "(ValidatePermissions w, v) # t''"]) auto
        show ?case
        proof (cases "as_unit v")
          case None
          then show ?thesis
            by (simp add: wpre_bnd)
              (rule wpre_mono [OF update_result [OF assms, where c = ready_cond]],
                auto simp: wpre_basic intro!: reported [simplified])
        next
          case (Some e)
          then show ?thesis
            by (simp add: wpre_bnd)
              (rule wpre_mono [OF update_result [OF assms, where e = e and
                  c = "not_ready_cond ''ErrorValidatingPermissions'' ''Error validating state store permissions'' e"]],
                auto simp: wpre_basic consts_defs intro!: reported [simplified])
        qed
      qed
    qed
  qed simp
qed

lemma reconcile_reports:
  assumes "condition_laws L" and "exec (reconcileStateStore L I kind name) ((q, RObj (ss_Object I s)) # t) (Returned (res, er))"
  shows "q = Get (ss_Kind I) [] name \<and> check_reported kind (ss_Object I s) t er"
  using assms(2) unfolding reconcileStateStore_def
  by (auto simp: call_obj_def exec_Call_iff sel_iff as_obj_def dest: wpreD [OF _ common_reports [OF assms(1)]])

end

interpretation bucket: state_store bucket_store
  by unfold_locales
    (auto simp: bucket_store_def BucketGetStatus_def BucketSetStatus_def store_status_def buckets.sel_iff)

interpretation git: state_store git_store
  by unfold_locales
    (auto simp: git_store_def GitGetStatus_def GitSetStatus_def store_status_def gits.sel_iff)

text \<open>C23. The readiness of a state store is the truth, and every failed check is reported. A pass of the bucket or the Git
  state store controller that has read the store and returns has set up the store's writer and, if that worked, validated
  its permissions. If one of these failed, the pass returns the error, and the store's condition, as it was or as written by a
  status update of the pass, is not ready with that error as its message. If both succeeded, it is ready. No status update
  of the pass says anything else.\<close>

theorem StateStoreReconcile_truthful:
  assumes "condition_laws L"
  shows "(exec (BucketStateStoreReconcile L name) ((q, RObj (OBucketStateStore b)) # t) (Returned (res, er)) \<longrightarrow>
      q = Get KBucketStateStore [] name \<and> check_reported ''BucketStateStore'' (OBucketStateStore b) t er) \<and>
    (exec (GitStateStoreReconcile L name) ((q, RObj (OGitStateStore g)) # t) (Returned (res, er)) \<longrightarrow>
      q = Get KGitStateStore [] name \<and> check_reported ''GitStateStore'' (OGitStateStore g) t er)"
  using bucket.reconcile_reports [OF assms] git.reconcile_reports [OF assms]
  by (simp add: BucketStateStoreReconcile_def GitStateStoreReconcile_def bucket_store_def git_store_def)

subsection \<open>Deleting everything of a kind\<close>

text \<open>
  The listing comes first. When nothing remains, nothing was listed; without an error all that was listed is
  deleted, in order.
\<close>

lemma deleteAllResources_result:
  "wpre (deleteAllResourcesWithKindMatchingLabel L gvk ls) (\<lambda>t oc. \<exists>r t' remaining e.
     t = (ListObjs (KUnstructured gvk) [] (Some (L_SelectorFromSet L ls)), r) # t' \<and> oc = Returned (remaining, e) \<and>
     (\<not> remaining \<longrightarrow> r = RList [] \<and> t' = [] \<and> e = None) \<and>
     (e = None \<longrightarrow> (\<exists>us. r = RList (map OUnstructured us) \<and> made deleted t' = map OUnstructured us)))"
proof -
  have loop: "wpre (for_range us () (\<lambda>resource _.
      bnd (call_unit (Delete (OUnstructured resource))) (\<lambda>e. Ret (case e of None \<Rightarrow> Next ()
        | Some e \<Rightarrow> if IsNotFound e then Next () else Leave (True, Some e)))))
    (\<lambda>t oc. (oc = Returned (Next ()) \<and> made deleted t = map OUnstructured us) \<or> (\<exists>e. oc = Returned (Leave (True, Some e))))" for us
    by (rule wpre_for_range [where I = "\<lambda>pre t s. made deleted t = map OUnstructured pre"])
      (auto simp: wpre_simps split: option.split)
  show ?thesis
    unfolding deleteAllResourcesWithKindMatchingLabel_def
    by (auto simp: wpre_simps unstructureds.as_list_mk split: sum.split intro!: wpre_mono [OF loop])
qed

lemma only_deleteAllResources [only_intros]:
  assumes "\<And>s. P (ListObjs (KUnstructured gvk) [] s)" and "\<And>u. P (Delete (OUnstructured u))"
  shows "only P (deleteAllResourcesWithKindMatchingLabel L gvk ls)"
  unfolding deleteAllResourcesWithKindMatchingLabel_def
  by (auto intro!: only_intros assms split: sum.split option.split)

subsection \<open>A concrete pass\<close>

definition ex_bucket :: BucketStateStore where
  "ex_bucket = \<lparr>b_Kind = [], b_meta = ex_meta ''store'', b_Spec = \<lparr>bs_BucketName = ''b'', bs_Endpoint = ''e'', bs_Path = [],
     bs_SecretRef = None, bs_Insecure = False, bs_AuthMethod = ''IAM''\<rparr>, b_Status = \<lparr>sst_Status = [], sst_Conditions = []\<rparr>\<rparr>"

theorem StateStoreReconcile_truthful_witness:
  "\<exists>t y r. exec (BucketStateStoreReconcile plain_lib ''store'')
       ((Get KBucketStateStore [] ''store'', RObj (OBucketStateStore ex_bucket)) # t) (Returned (no_requeue, Some (EStr ''denied''))) \<and>
     check_reported ''BucketStateStore'' (OBucketStateStore ex_bucket) t (Some (EStr ''denied'')) \<and> (StatusUpdate y, r) \<in> set t"
proof -
  have "\<exists>t y r. script (BucketStateStoreReconcile plain_lib ''store'')
      [RObj (OBucketStateStore ex_bucket), RObj (OBucketStateStore ex_bucket), RWriter (WriterHandle ''w''), RErr (EStr ''denied''),
       RTime 1, ROk, ROk] =
      Some ((Get KBucketStateStore [] ''store'', RObj (OBucketStateStore ex_bucket)) # t,
        Returned (no_requeue, Some (EStr ''denied''))) \<and> (StatusUpdate y, r) \<in> set t"
    by (simp add: BucketStateStoreReconcile_def reconcileStateStore_def reconcileStateStoreCommon_def newWriter_def
        fetchObjectAndSecret_def updateStateStoreReadyStatusAndCondition_def bucket_store_def BucketGetStatus_def BucketSetStatus_def
        BucketGetSecretRef_def ex_bucket_def plain_lib_simps call_defs Let_def)
  then obtain t y r where e: "exec (BucketStateStoreReconcile plain_lib ''store'')
      ((Get KBucketStateStore [] ''store'', RObj (OBucketStateStore ex_bucket)) # t) (Returned (no_requeue, Some (EStr ''denied'')))"
    "(StatusUpdate y, r) \<in> set t" using script_exec by blast
  from StateStoreReconcile_truthful [OF plain_condition_laws] e(1)
  have "check_reported ''BucketStateStore'' (OBucketStateStore ex_bucket) t (Some (EStr ''denied''))" by blast
  with e show ?thesis by blast
qed

end
