(* ===== verification/WorkController.thy ===== *)
theory WorkController
  imports Scheduler StateStores
begin

text \<open>
  \<open>src/internal/controller/work_controller.go\<close>: the controller that has Works scheduled and cleans up after them.

  The scheduler it calls is the Go interface \<open>WorkScheduler\<close>, an argument of the controller; what the controller relies on is
  the locale \<open>work_scheduler\<close>, interpreted with the model's scheduler. The registration with the manager is not modelled.
\<close>

definition workCleanUpFinalizer :: string where [consts_defs]: "workCleanUpFinalizer = ''kratix.io/work-cleanup''"
definition writeSucceededConditionType :: string where [consts_defs]: "writeSucceededConditionType = ''WriteSucceeded''"

type_synonym WorkScheduler = "Work \<Rightarrow> ((err + string list) \<times> Work) go"

definition workplacementGVK :: gvk where
  "workplacementGVK = \<lparr>g_Group = GroupVersionGroup, g_Version = ''v1alpha1'', g_Kind = ''WorkPlacement''\<rparr>"

definition failedWorkPlacements :: "lib \<Rightarrow> WorkPlacement list \<Rightarrow> string list" where
  "failedWorkPlacements L workplacements =
     map (\<lambda>wp. m_Name (wp_meta wp))
       (filter (\<lambda>wp. L_IsStatusConditionFalse L (wp_conditions wp) writeSucceededConditionType) workplacements)"

definition failedToWrite :: "string list \<Rightarrow> string" where
  "failedToWrite failed = ''Workplacements failed to write: ['' @ join failed '','' @ '']''"

definition reportFailedWorkPlacements :: "lib \<Rightarrow> Work \<Rightarrow> string list \<Rightarrow> (ctrl_result \<times> err option) go" where
  "reportFailedWorkPlacements L work failed =
     bnd (SetStatusCondition L (work_conditions work)
            (mk_cond scheduleSucceededConditionType ConditionFalse ''WorkplacementsFailing'' (failedToWrite failed))) (\<lambda>(cs, changed).
     if changed then
       bnd (SetStatusCondition L cs (mk_cond ''Ready'' ConditionFalse ''WorkplacementsFailing'' ''Failing'')) (\<lambda>(cs, _).
       let work = set_work_conditions work cs in
       bnd (call_event (OWork work) EventTypeWarning ''WorkplacementsFailing'' (failedToWrite failed)) (\<lambda>_.
       bnd (call_unit (StatusUpdate (OWork work))) (\<lambda>e.
       Ret (no_requeue, e))))
     else Ret (no_requeue, None))"

definition WorkUpdateWorkStatus :: "lib \<Rightarrow> Work \<Rightarrow> (ctrl_result \<times> err option) go" where
  "WorkUpdateWorkStatus L work =
     bnd (listWorkplacementWithLabels L (m_Namespace (w_meta work)) (fmupd workLabelKey (m_Name (w_meta work)) fmempty)) (\<lambda>r.
     case r of
       Inl e \<Rightarrow> Ret (no_requeue, Some e)
     | Inr workplacements \<Rightarrow>
         let failed = failedWorkPlacements L workplacements in
         if failed \<noteq> [] then reportFailedWorkPlacements L work failed else Ret (no_requeue, None))"

definition deleteWork :: "lib \<Rightarrow> Work \<Rightarrow> (ctrl_result \<times> err option) go" where
  "deleteWork L work =
     bnd (deleteAllResourcesWithKindMatchingLabel L workplacementGVK (fmupd workLabelKey (m_Name (w_meta work)) fmempty))
       (\<lambda>(resourcesRemaining, err).
     case err of
       Some e \<Rightarrow>
         bnd (call_event (OWork work) EventTypeWarning ''FailedDelete'' (''deleting work failed: '' @ err_msg e)) (\<lambda>_.
         Ret (defaultRequeue, Some e))
     | None \<Rightarrow>
         if \<not> resourcesRemaining then
           bnd (call_unit (Update (map_finalizers (\<lambda>fs. L_RemoveFinalizer L fs workCleanUpFinalizer) (OWork work)))) (\<lambda>e.
           Ret (defaultRequeue, e))
         else Ret (defaultRequeue, None))"

definition WorkReconcile :: "lib \<Rightarrow> WorkScheduler \<Rightarrow> string \<times> string \<Rightarrow> (ctrl_result \<times> err option) go" where
  "WorkReconcile L Scheduler req =
     bnd (call_obj (Get KWork (fst req) (snd req)) un_work) (\<lambda>r.
     case r of
       Inl e \<Rightarrow> Ret (no_requeue, if IsNotFound e then None else Some e)
     | Inr work \<Rightarrow>
         if m_DeletionTimestamp (w_meta work) \<noteq> None then deleteWork L work
         else if \<not> L_ContainsFinalizer L (m_Finalizers (w_meta work)) workCleanUpFinalizer then
           addFinalizers L (OWork work) [workFinalizer]
         else
           bnd (Scheduler work) (\<lambda>(r, work).
           case r of
             Inl e \<Rightarrow> if IsConflict e then Ret (fastRequeue, None) else Ret (no_requeue, Some e)
           | Inr unscheduledWorkloadGroupIDs \<Rightarrow>
               if IsResourceRequest work \<and> length unscheduledWorkloadGroupIDs > 0 then
                 bnd (call_event (OWork work) EventTypeNormal ''WaitingDestination''
                        (''waiting for destination for workload group: ['' @ join unscheduledWorkloadGroupIDs '','' @ '']'')) (\<lambda>_.
                 Ret (slowRequeue, None))
               else WorkUpdateWorkStatus L work))"

definition requestReconciliationOfWorksOnDestination :: "Destination \<Rightarrow> ((string \<times> string) list) go" where
  "requestReconciliationOfWorksOnDestination dest =
     (if m_DeletionTimestamp (d_meta dest) \<noteq> None then Ret []
      else
        bnd (call_list (ListObjs KWork [] None) un_work) (\<lambda>r.
        Ret (case r of
               Inl e \<Rightarrow> []
             | Inr allWorks \<Rightarrow> map (\<lambda>w. (m_Namespace (w_meta w), m_Name (w_meta w))) allWorks)))"

subsection \<open>The scheduler's contract\<close>

text \<open>A scheduler leaves the Works as they are, but for their status, and removes none.\<close>

fun spares_works :: "req \<Rightarrow> bool" where
  "spares_works (Update (OWork w)) = False"
| "spares_works (Create (OWork w)) = False"
| "spares_works (Delete (OWork w)) = False"
| "spares_works (Patch (OWork w)) = False"
| "spares_works (CreateOrUpdateStore (OWork w)) = False"
| "spares_works q = True"

fun updated_work :: "req \<Rightarrow> Work option" where
  "updated_work (Update (OWork w)) = Some w"
| "updated_work q = None"

lemma spares_updates: "spares_works q \<Longrightarrow> updated_work q = None"
  by (cases q rule: updated_work.cases) auto

definition with_finalizers :: "(string list \<Rightarrow> string list) \<Rightarrow> Work \<Rightarrow> Work" where
  "with_finalizers f w = w\<lparr>w_meta := (w_meta w)\<lparr>m_Finalizers := f (m_Finalizers (w_meta w))\<rparr>\<rparr>"

lemma deleteWork_update:
  "wpre (deleteWork L work) (\<lambda>t oc. made updated_work t = [] \<or>
     hd t = (ListObjs (KUnstructured workplacementGVK) [] (Some (L_SelectorFromSet L (fmupd workLabelKey (m_Name (w_meta work)) fmempty))), RList []) \<and>
     made updated_work t = [with_finalizers (\<lambda>fs. L_RemoveFinalizer L fs workCleanUpFinalizer) work])"
proof -
  let ?p = "deleteAllResourcesWithKindMatchingLabel L workplacementGVK (fmupd workLabelKey (m_Name (w_meta work)) fmempty)"
  have "only (\<lambda>q. updated_work q = None) ?p"
    by (auto intro!: only_intros)
  then have quiet: "exec ?p t oc \<Longrightarrow> made updated_work t = []" for t oc by (rule only_made)
  show ?thesis
    unfolding deleteWork_def wpre_bnd
  proof (rule wpreI, goal_cases)
    case (1 t oc)
    from wpreD [OF 1 deleteAllResources_result] obtain r t' remaining e where
      "t = (ListObjs (KUnstructured workplacementGVK) [] (Some (L_SelectorFromSet L (fmupd workLabelKey (m_Name (w_meta work)) fmempty))), r) # t'"
      "oc = Returned (remaining, e)" "\<not> remaining \<longrightarrow> r = RList [] \<and> t' = [] \<and> e = None" by blast
    with quiet [OF 1] show ?case by (cases e) (auto simp: wpre_simps with_finalizers_def)
  qed
qed

lemma no_update_parts:
  "only (\<lambda>q. updated_work q = None) (WorkUpdateWorkStatus L work)"
  unfolding WorkUpdateWorkStatus_def reportFailedWorkPlacements_def listWorkplacementWithLabels_def Let_def
  by (auto intro!: only_intros split: sum.split prod.split)

locale work_scheduler =
  fixes schedule :: WorkScheduler
  assumes spares: "only spares_works (schedule work)"
begin

text \<open>
  How the clean-up finalizer of a Work comes and goes: it is added when it is missing and the Work is not being deleted, and
  removed when the Work is being deleted and its placements were listed and found to be none.
\<close>

lemma finalizer_protocol:
  "wpre (WorkReconcile L schedule req) (\<lambda>t oc. made updated_work t = [] \<or> (\<exists>work t'.
     t = (Get KWork (fst req) (snd req), RObj (OWork work)) # t' \<and>
     (m_DeletionTimestamp (w_meta work) = None \<and> \<not> L_ContainsFinalizer L (m_Finalizers (w_meta work)) workCleanUpFinalizer \<and>
        made updated_work t' = [with_finalizers (\<lambda>fs. L_AddFinalizer L fs workCleanUpFinalizer) work] \<or>
      m_DeletionTimestamp (w_meta work) \<noteq> None \<and>
        hd t' = (ListObjs (KUnstructured workplacementGVK) [] (Some (L_SelectorFromSet L (fmupd workLabelKey (m_Name (w_meta work)) fmempty))), RList []) \<and>
        made updated_work t' = [with_finalizers (\<lambda>fs. L_RemoveFinalizer L fs workCleanUpFinalizer) work])))"
proof -
  have sched: "wpre (bnd (schedule work) (\<lambda>(r, work). case r of
      Inl e \<Rightarrow> if IsConflict e then Ret (fastRequeue, None) else Ret (no_requeue, Some e)
    | Inr ids \<Rightarrow>
        if IsResourceRequest work \<and> length ids > 0 then
          bnd (call_event (OWork work) EventTypeNormal ''WaitingDestination''
            (''waiting for destination for workload group: ['' @ join ids '','' @ '']'')) (\<lambda>_. Ret (slowRequeue, None))
        else WorkUpdateWorkStatus L work)) (\<lambda>t oc. made updated_work t = [])" for work
    by (rule wpre_quiet [where Q = "\<lambda>ws oc. ws = []"])
      (auto intro!: only_intros no_update_parts only_mono [OF spares] spares_updates split: sum.split prod.split)
  have added: "wpre (addFinalizers L (OWork work) [workFinalizer]) (\<lambda>t oc.
      made updated_work t = [with_finalizers (\<lambda>fs. L_AddFinalizer L fs workCleanUpFinalizer) work])" for work
    by (simp add: addFinalizers_def wpre_simps with_finalizers_def workFinalizer_def workCleanUpFinalizer_def)
  show ?thesis
    unfolding WorkReconcile_def wpre_bnd [where p = "call_obj _ _"] wpre_calls
    by (auto simp: works.as_obj_mk wpre_basic split: sum.split
        intro!: wpre_mono [OF deleteWork_update] wpre_mono [OF sched] wpre_mono [OF added])
qed

end

lemma ReconcileWork_spares: "only spares_works (ReconcileWork L work)"
  unfolding ReconcileWork_def reconcileWorkloadGroup_def failWork_def finishWork_def cleanupDanglingWorkplacements_def
    deleteDanglingWorkplacements_def scheduleToTargets_def updateExistingWorkPlacements_def
    applyWorkplacementsForTargetDestinations_def applyWorkplacementForTargetDestination_def updateWorkPlacement_def
    updateWorkPlacementStatus_def updateWorkStatus_def setWorkConditions_def
    getExistingWorkPlacementsForWorkloadGroup_def getExistingWorkPlacementsForWork_def listWorkplacementWithLabels_def
    getTargetDestinationNames_def getDestinationsForWorkloadGroup_def
    shortID_def slice_to_def desiredWorkConditions_def Let_def
  by (auto intro!: only_intros split: sum.split prod.split option.split schedulingStatus.split list.split resp.splits)

interpretation scheduler: work_scheduler "ReconcileWork L"
  by unfold_locales (rule ReconcileWork_spares)

text \<open>The clean-up finalizer of a Work: a pass of the Work controller writes the Work itself at most once, and then either to add the
  finalizer to a Work that is not being deleted and lacks it, or to remove it from one that is being deleted after the
  listing of its placements came back empty.\<close>

lemma WorkReconcile_finalizer_protocol:
  assumes "finalizer_laws L" and "exec (WorkReconcile L (ReconcileWork L) req) t oc" and "made updated_work t \<noteq> []"
  shows "\<exists>work w t'. t = (Get KWork (fst req) (snd req), RObj (OWork work)) # t' \<and> made updated_work t = [w] \<and>
    w\<lparr>w_meta := (w_meta w)\<lparr>m_Finalizers := m_Finalizers (w_meta work)\<rparr>\<rparr> = work \<and>
    (if m_DeletionTimestamp (w_meta work) = None
     then workCleanUpFinalizer \<notin> set (m_Finalizers (w_meta work)) \<and>
       set (m_Finalizers (w_meta w)) = insert workCleanUpFinalizer (set (m_Finalizers (w_meta work)))
     else hd t' = (ListObjs (KUnstructured workplacementGVK) [] (Some (L_SelectorFromSet L (fmupd workLabelKey (m_Name (w_meta work)) fmempty))), RList []) \<and>
       set (m_Finalizers (w_meta w)) = set (m_Finalizers (w_meta work)) - {workCleanUpFinalizer})"
proof -
  have same: "(with_finalizers f w)\<lparr>w_meta := (w_meta (with_finalizers f w))\<lparr>m_Finalizers := m_Finalizers (w_meta w)\<rparr>\<rparr> = w" for f w
    by (simp add: with_finalizers_def)
  from wpreD [OF assms(2) scheduler.finalizer_protocol] assms(3) obtain work t' f where
    t: "t = (Get KWork (fst req) (snd req), RObj (OWork work)) # t'" and w: "made updated_work t = [with_finalizers f work]"
    and "m_DeletionTimestamp (w_meta work) = None \<and> \<not> L_ContainsFinalizer L (m_Finalizers (w_meta work)) workCleanUpFinalizer \<and>
        f = (\<lambda>fs. L_AddFinalizer L fs workCleanUpFinalizer) \<or>
      m_DeletionTimestamp (w_meta work) \<noteq> None \<and>
        hd t' = (ListObjs (KUnstructured workplacementGVK) [] (Some (L_SelectorFromSet L (fmupd workLabelKey (m_Name (w_meta work)) fmempty))), RList []) \<and>
        f = (\<lambda>fs. L_RemoveFinalizer L fs workCleanUpFinalizer)"
    by auto
  with same [where f = f and w = work] assms(1) show ?thesis
    by (intro exI [of _ work] exI [of _ "with_finalizers f work"] exI [of _ t'])
      (auto simp: with_finalizers_def finalizer_laws_def)
qed

fun placed :: "req \<Rightarrow> WorkPlacement option" where
  "placed (CreateOrUpdateStore (OWorkPlacement p)) = Some p"
| "placed (Create (OWorkPlacement p)) = Some p"
| "placed q = None"

text \<open>No placement is stored for a Work that is being deleted or that does not carry the clean-up finalizer yet, so every placement
  of a Work is found again when the Work is deleted.\<close>

lemma WorkReconcile_places_with_finalizer:
  assumes "finalizer_laws L" and "exec (WorkReconcile L (ReconcileWork L) req) t oc" and "made placed t \<noteq> []"
  shows "\<exists>work t'. t = (Get KWork (fst req) (snd req), RObj (OWork work)) # t' \<and> m_DeletionTimestamp (w_meta work) = None \<and>
    workCleanUpFinalizer \<in> set (m_Finalizers (w_meta work))"
proof -
  have del: "wpre (deleteWork L work) (\<lambda>t oc. made placed t = [])" for work
    unfolding deleteWork_def by (rule wpre_quiet [where Q = "\<lambda>ps oc. ps = []"]) (auto intro!: only_intros split: prod.split option.split)
  have add: "wpre (addFinalizers L (OWork work) fs) (\<lambda>t oc. made placed t = [])" for work fs
    by (simp add: addFinalizers_def wpre_simps)
  have "wpre (WorkReconcile L (ReconcileWork L) req) (\<lambda>t oc. made placed t = [] \<or> (\<exists>work t'.
      t = (Get KWork (fst req) (snd req), RObj (OWork work)) # t' \<and> m_DeletionTimestamp (w_meta work) = None \<and>
      L_ContainsFinalizer L (m_Finalizers (w_meta work)) workCleanUpFinalizer))"
    unfolding WorkReconcile_def wpre_bnd [where p = "call_obj _ _"] wpre_calls
    by (auto simp: works.as_obj_mk wpre_basic split: sum.split intro!: wpre_mono [OF del] wpre_mono [OF add])
  from wpreD [OF assms(2) this] assms(1,3) show ?thesis by (auto simp: finalizer_laws_def)
qed

text \<open>After scheduling, the Work's status tells about placements that could not be written: when a listed placement has failed to
  write, the Work is stored with the schedule condition False, naming exactly the failed placements, and Ready False, unless the
  schedule condition says so already; without a failed placement nothing is written.\<close>

lemma WorkUpdateWorkStatus_reports:
  assumes "condition_laws L" and "exec (WorkUpdateWorkStatus L work) ((q, RList (map OWorkPlacement wps)) # t) oc"
  defines "failed \<equiv> map (\<lambda>wp. m_Name (wp_meta wp)) (filter (\<lambda>wp. \<exists>c. find (\<lambda>c. c_Type c = writeSucceededConditionType) (wp_conditions wp) = Some c \<and>
      c_Status c = ConditionFalse) wps)"
  defines "says w \<equiv> \<exists>c. find_cond w scheduleSucceededConditionType = Some c \<and> c_Status c = ConditionFalse \<and>
      c_Message c = failedToWrite failed"
  shows "(failed = [] \<longrightarrow> t = []) \<and>
    (failed \<noteq> [] \<longrightarrow> says work \<or> (\<exists>w c r. (StatusUpdate (OWork w), r) \<in> set t \<and> says w \<and>
       find_cond w ''Ready'' = Some c \<and> c_Status c = ConditionFalse))"
proof -
  have f: "failedWorkPlacements L wps = failed"
    using assms(1) by (simp add: failedWorkPlacements_def failed_def condition_laws_def)
  let ?sc = "mk_cond scheduleSucceededConditionType ConditionFalse ''WorkplacementsFailing'' (failedToWrite failed)"
  let ?rc = "mk_cond ''Ready'' ConditionFalse ''WorkplacementsFailing'' ''Failing''"
  have ne: "scheduleSucceededConditionType \<noteq> ''Ready''" by (simp add: scheduleSucceededConditionType_def)
  have set: "\<exists>d. find (\<lambda>x. c_Type x = c_Type c) (fst (L_SetStatusCondition L now cs c)) = Some d \<and> same_condition d c" for now cs c
    using assms(1) unfolding condition_laws_def by blast
  have other: "find (\<lambda>x. c_Type x = ty) (fst (L_SetStatusCondition L now cs c)) = find (\<lambda>x. c_Type x = ty) cs" if "ty \<noteq> c_Type c" for now cs c ty
    using assms(1) that unfolding condition_laws_def by blast
  have unchanged: "says work" if "\<not> snd (L_SetStatusCondition L now (work_conditions work) ?sc)" for now
    using assms(1) that unfolding condition_laws_def says_def find_cond_def
    by (fastforce simp: mk_cond_def same_condition_def)
  define stored where "stored n1 n2 = set_work_conditions work (fst (L_SetStatusCondition L n2 (fst (L_SetStatusCondition L n1 (work_conditions work) ?sc)) ?rc))" for n1 n2
  have stored: "says (stored n1 n2)" "\<exists>c. find_cond (stored n1 n2) ''Ready'' = Some c \<and> c_Status c = ConditionFalse" for n1 n2
    using set [of ?sc n1 "work_conditions work"] set [of ?rc n2 "fst (L_SetStatusCondition L n1 (work_conditions work) ?sc)"]
      other [of scheduleSucceededConditionType ?rc n2 "fst (L_SetStatusCondition L n1 (work_conditions work) ?sc)"] ne
    by (auto simp: says_def find_cond_def stored_def mk_cond_def same_condition_def set_work_conditions_def work_conditions_def)
  have "wpre (reportFailedWorkPlacements L work failed) (\<lambda>t oc. says work \<or> (\<exists>n1 n2 r. (StatusUpdate (OWork (stored n1 n2)), r) \<in> set t))"
    unfolding reportFailedWorkPlacements_def Let_def
    using unchanged by (auto simp: wpre_simps stored_def split: prod.split) (metis fst_conv snd_conv)+
  moreover have "exec (if failed \<noteq> [] then reportFailedWorkPlacements L work failed else Ret (no_requeue, None)) t oc"
    using assms(2) placements.as_list_mk [of "RList (map OWorkPlacement wps)" wps]
    by (simp add: WorkUpdateWorkStatus_def listWorkplacementWithLabels_def exec_bnd_calls f)
  ultimately show ?thesis
    using stored by (auto simp: exec_Ret_iff split: if_splits dest!: wpreD)
qed

subsection \<open>Concrete passes\<close>

text \<open>A new Work gets the finalizer.\<close>

theorem WorkReconcile_finalizer_protocol_witness:
  "\<exists>t w. exec (WorkReconcile plain_lib (ReconcileWork plain_lib) (''default'', ''work'')) t (Returned (no_requeue, None)) \<and>
     made updated_work t = [w] \<and> workCleanUpFinalizer \<in> set (m_Finalizers (w_meta w))"
proof -
  let ?p = "WorkReconcile plain_lib (ReconcileWork plain_lib) (''default'', ''work'')"
  have "\<exists>t'. script ?p [RObj (OWork (ex_work [])), ROk] =
      Some ((Get KWork ''default'' ''work'', RObj (OWork (ex_work []))) # t', Returned (no_requeue, None)) \<and> made updated_work t' \<noteq> []"
    by (simp add: WorkReconcile_def addFinalizers_def call_defs ex_defs plain_lib_def)
  then obtain t' where e: "exec ?p ((Get KWork ''default'' ''work'', RObj (OWork (ex_work []))) # t') (Returned (no_requeue, None))"
    and w: "made updated_work ((Get KWork ''default'' ''work'', RObj (OWork (ex_work []))) # t') \<noteq> []" using script_exec by fastforce
  from WorkReconcile_finalizer_protocol [OF plain_finalizer_laws e w] e show ?thesis
    by (fastforce simp: ex_defs)
qed

text \<open>A Work with the finalizer is placed (the store fails here, which ends the pass).\<close>

definition ex_owned :: Work where
  "ex_owned = with_finalizers (\<lambda>fs. [workCleanUpFinalizer]) (ex_work ''rr'')"

theorem WorkReconcile_places_with_finalizer_witness:
  "\<exists>work t' res. exec (WorkReconcile plain_lib (ReconcileWork plain_lib) (''default'', ''work''))
       ((Get KWork ''default'' ''work'', RObj (OWork work)) # t') (Returned res) \<and>
     made placed t' \<noteq> [] \<and> workCleanUpFinalizer \<in> set (m_Finalizers (w_meta work))"
proof -
  let ?p = "WorkReconcile plain_lib (ReconcileWork plain_lib) (''default'', ''work'')"
  have "\<exists>t res. script ?p [RObj (OWork ex_owned), RList [], RList [ODestination (ex_destination ''d1'')],
      RInt 0, RStrs [''d1''], RErr (EApi ReasonNotFound []), RErr (EStr []), RTime 7, RTime 7, RErr (EStr [])] =
      Some (t, Returned res) \<and> made placed t \<noteq> []"
    by (simp add: WorkReconcile_def ReconcileWork_def failWork_def after_loop_def wg_eval place_eval call_defs ex_owned_def with_finalizers_def
        workCleanUpFinalizer_def ex_defs plain_lib_simps mk_cond_def Let_def split_beta)
  then obtain t res where e: "exec ?p t (Returned res)" and p: "made placed t \<noteq> []" using script_exec by blast
  from WorkReconcile_places_with_finalizer [OF plain_finalizer_laws e p] obtain work t' where
    "t = (Get KWork ''default'' ''work'', RObj (OWork work)) # t'" "workCleanUpFinalizer \<in> set (m_Finalizers (w_meta work))" by auto
  moreover from this p have "made placed t' \<noteq> []" by simp
  ultimately show ?thesis using e by blast
qed

text \<open>A placement that could not be written shows in the Work.\<close>

definition ex_failed_placement :: WorkPlacement where
  "ex_failed_placement = set_wp_conditions (ex_placement ''w'' ''d1'') [mk_cond writeSucceededConditionType ConditionFalse [] []]"

theorem WorkUpdateWorkStatus_reports_witness:
  "\<exists>t w c r. exec (WorkUpdateWorkStatus plain_lib (ex_work ''rr'')) t (Returned (no_requeue, None)) \<and>
     (StatusUpdate (OWork w), r) \<in> set t \<and> find_cond w ''Ready'' = Some c \<and> c_Status c = ConditionFalse"
proof -
  let ?p = "WorkUpdateWorkStatus plain_lib (ex_work ''rr'')"
  let ?r = "RList (map OWorkPlacement [ex_failed_placement])"
  have "\<exists>q t. script ?p [?r, RTime 1, RTime 2, ROk, ROk] = Some ((q, ?r) # t, Returned (no_requeue, None))"
    by (simp add: WorkUpdateWorkStatus_def reportFailedWorkPlacements_def listWorkplacementWithLabels_def failedWorkPlacements_def
        ex_failed_placement_def work_conditions_def wp_conditions_def set_wp_conditions_def call_defs ex_defs plain_lib_simps mk_cond_def
        consts_defs Let_def)
  then obtain q t where e: "exec ?p ((q, ?r) # t) (Returned (no_requeue, None))" using script_exec by blast
  have "find_cond (ex_work ''rr'') scheduleSucceededConditionType = None"
    by (simp add: find_cond_def work_conditions_def ex_work_def)
  with WorkUpdateWorkStatus_reports [OF plain_condition_laws e] e show ?thesis
    by (fastforce simp: ex_failed_placement_def wp_conditions_def set_wp_conditions_def ex_placement_def mk_cond_def)
qed

end
