(* ===== verification/WorkPlacementController.thy ===== *)
theory WorkPlacementController
  imports Filepath WorkController
begin

text \<open>
  \<open>src/internal/controller/workplacement_controller.go\<close>: the controller that writes the workloads of a placement to the state
  store of its destination, and removes them when the placement goes.

  The reconciler's \<open>VersionCache\<close>, the versions whose recording in a status failed, is passed in and returned; a missing entry
  reads as the empty string. The placement is a pointer that the functions write through: the ones after which it is
  still used return it. YAML is a parameter; logging and \<open>SetupWithManager\<close> are left out.
\<close>

subsection \<open>Constants and names\<close>

definition resourcesDir :: string where [consts_defs]: "resourcesDir = ''resources''"
definition dependenciesDir :: string where [consts_defs]: "dependenciesDir = ''dependencies''"
definition kratixFileCleanupWorkPlacementFinalizer :: string where
  [consts_defs]: "kratixFileCleanupWorkPlacementFinalizer = ''finalizers.workplacement.kratix.io/kratix-dot-files-cleanup''"
definition failedDeleteEventReason :: string where [consts_defs]: "failedDeleteEventReason = ''FailedDelete''"

type_synonym VersionCache = labels
type_synonym reconciled = "ctrl_result \<times> err option"

fun IsFileNotFound :: "err \<Rightarrow> bool" where
  "IsFileNotFound EFileNotFound = True"
| "IsFileNotFound (EWrap p e) = IsFileNotFound e"
| "IsFileNotFound e = False"

definition ignoreNotFound :: "err option \<Rightarrow> err option" where
  "ignoreNotFound e = (case e of Some e \<Rightarrow> if IsFileNotFound e then None else Some e | None \<Rightarrow> None)"

definition getDir :: "WorkPlacement \<Rightarrow> ('q, 'r, string) prog" where
  "getDir workPlacement =
     bnd (shortID (wps_ID (wp_Spec workPlacement))) (\<lambda>sid.
     Ret (if wps_ResourceName (wp_Spec workPlacement) = []
          then Join [dependenciesDir, wps_PromiseName (wp_Spec workPlacement), PipelineName workPlacement, sid]
          else Join [resourcesDir, m_Namespace (wp_meta workPlacement), wps_PromiseName (wp_Spec workPlacement),
                     wps_ResourceName (wp_Spec workPlacement), PipelineName workPlacement, sid]))"

definition kratixFilePath :: "WorkPlacement \<Rightarrow> string" where
  "kratixFilePath wp = ''.kratix/'' @ m_Namespace (wp_meta wp) @ ''-'' @ m_Name (wp_meta wp) @ ''.yaml''"

definition workloadsFilenames :: "Workload list \<Rightarrow> string list" where
  "workloadsFilenames works = map Filepath works"

definition cleanupWorkloads :: "string list \<Rightarrow> Workload list \<Rightarrow> string list" where
  "cleanupWorkloads oldWorkloads newWorkloads = filter (\<lambda>w. w \<notin> set (map Filepath newWorkloads)) oldWorkloads"

definition yaml_separator :: string where "yaml_separator = CHR 0x0A # ''---'' @ [CHR 0x0A]"

definition concatenateYAMLs :: "Workload list \<Rightarrow> string" where
  "concatenateYAMLs workloads = join (map Content workloads) yaml_separator"

text \<open>Decompressing the contents one after the other; the first failure ends it.\<close>

fun decompressWorkloads :: "lib \<Rightarrow> Workload list \<Rightarrow> err + Workload list" where
  "decompressWorkloads L [] = Inr []"
| "decompressWorkloads L (w # ws) =
     (case DecompressContent L (Content w) of
        Inl e \<Rightarrow> Inl (EWrap ''unable to decompress file content: '' e)
      | Inr content \<Rightarrow>
          (case decompressWorkloads L ws of
             Inl e \<Rightarrow> Inl e
           | Inr ws' \<Rightarrow> Inr (w\<lparr>Content := content\<rparr> # ws')))"

definition combineWorkloads :: "lib \<Rightarrow> WorkPlacement list \<Rightarrow> err + Workload list" where
  "combineWorkloads L workPlacements = decompressWorkloads L (concat (map (\<lambda>wp. wps_Workloads (wp_Spec wp)) workPlacements))"

definition checkWorkPlacementFinalizers :: "lib \<Rightarrow> WorkPlacement \<Rightarrow> string \<Rightarrow> string list" where
  "checkWorkPlacementFinalizers L workPlacement filepathMode =
     (if \<not> L_ContainsFinalizer L (wp_finalizers workPlacement) repoCleanupWorkPlacementFinalizer
      then [repoCleanupWorkPlacementFinalizer] else []) @
     (if filepathMode = FilepathModeNone \<and> \<not> L_ContainsFinalizer L (wp_finalizers workPlacement) kratixFileCleanupWorkPlacementFinalizer
      then [kratixFileCleanupWorkPlacementFinalizer] else [])"

definition removeFinalizer :: "lib \<Rightarrow> WorkPlacement \<Rightarrow> string \<Rightarrow> WorkPlacement" where
  "removeFinalizer L wp f = set_wp_finalizers wp (L_RemoveFinalizer L (wp_finalizers wp) f)"

definition cleanupDeletionFinalizers :: "lib \<Rightarrow> WorkPlacement \<Rightarrow> WorkPlacement" where
  "cleanupDeletionFinalizers L workPlacement =
     (let wp = (if L_ContainsFinalizer L (wp_finalizers workPlacement) repoCleanupWorkPlacementFinalizer
                then removeFinalizer L workPlacement repoCleanupWorkPlacementFinalizer else workPlacement)
      in if L_ContainsFinalizer L (wp_finalizers wp) kratixFileCleanupWorkPlacementFinalizer
         then removeFinalizer L wp kratixFileCleanupWorkPlacementFinalizer else wp)"

definition requeueIfNotFound :: "err \<Rightarrow> reconciled" where
  "requeueIfNotFound e = (if IsNotFound e then (defaultRequeue, None) else (no_requeue, Some e))"

subsection \<open>Reading\<close>

definition getDestination :: "WorkPlacement \<Rightarrow> (err + Destination) go" where
  "getDestination wp = call_obj (Get KDestination [] (wps_TargetDestinationName (wp_Spec wp))) un_dest"

definition getAllWorkplacementsForDestination :: "lib \<Rightarrow> string \<Rightarrow> (err + WorkPlacement list) go" where
  "getAllWorkplacementsForDestination L destinationName =
     bnd (call_list (ListObjs KWorkPlacement [] (Some (L_SelectorFromSet L (fmupd TargetDestinationNameLabel destinationName fmempty)))) un_wp) (\<lambda>r.
     Ret (case r of
            Inl e \<Rightarrow> Inl (EWrap ''failed to list all WorkPlacements: '' e)
          | Inr items \<Rightarrow> Inr (filter (\<lambda>wp. m_DeletionTimestamp (wp_meta wp) = None) items)))"

definition newDestinationWriter :: "Destination \<Rightarrow> (err + writer) go" where
  "newDestinationWriter destination =
     bnd (deref (d_StateStoreRef destination)) (\<lambda>ref. newWriter (ssr_Name ref) (ssr_Kind ref) (d_Path destination))"

text \<open>The new state file, and the files listed in the old one. A failure to marshal reports a nil error.\<close>

definition generateKratixStateFile :: "lib \<Rightarrow> WorkPlacement \<Rightarrow> writer \<Rightarrow> (err + Workload \<times> string list) go" where
  "generateKratixStateFile L workPlacement writer =
     bnd (call_str (WriterReadFile writer (kratixFilePath workPlacement))) (\<lambda>r.
     case ignoreNotFound (case r of Inl e \<Rightarrow> Some e | Inr s \<Rightarrow> None) of
       Some e \<Rightarrow> Ret (Inl (EWrap ''failed to read .kratix state file: '' e))
     | None \<Rightarrow>
         let kratixFile = (case r of Inl e \<Rightarrow> [] | Inr s \<Rightarrow> s) in
         Ret (case L_UnmarshalStateFile L kratixFile of
                Inl e \<Rightarrow> Inl (EWrap ''failed to unmarshal .kratix state file: '' e)
              | Inr oldFiles \<Rightarrow>
                  (case L_MarshalStateFile L (workloadsFilenames (wps_Workloads (wp_Spec workPlacement))) of
                     Inl e \<Rightarrow> Inl (EStr ''failed to marshal new .kratix state file: %!w(<nil>)'')
                   | Inr content \<Rightarrow> Inr (\<lparr>Filepath = kratixFilePath workPlacement, Content = content\<rparr>, oldFiles))))"

subsection \<open>Aggregated files\<close>

text \<open>The result says whether to requeue; the placement comes back as it is afterwards.\<close>

definition handleAggregatedYAML ::
  "lib \<Rightarrow> WorkPlacement \<Rightarrow> Destination \<Rightarrow> string \<Rightarrow> writer option \<Rightarrow> ((err + Workload \<times> bool) \<times> WorkPlacement) go" where
  "handleAggregatedYAML L workPlacement destination dir writer =
     (let noWorkload = \<lparr>Filepath = [], Content = []\<rparr> in
      bnd (getAllWorkplacementsForDestination L (wps_TargetDestinationName (wp_Spec workPlacement))) (\<lambda>r.
      case r of
        Inl e \<Rightarrow> Ret (Inl e, workPlacement)
      | Inr activeWorkplacements \<Rightarrow>
          if activeWorkplacements = [] then Ret (Inr (noWorkload, False), workPlacement)
          else
            (case combineWorkloads L activeWorkplacements of
               Inl e \<Rightarrow> Ret (Inl e, workPlacement)
             | Inr combinedWorkloads \<Rightarrow>
                 let workload = \<lparr>Filepath = d_FilepathFilename destination, Content = concatenateYAMLs combinedWorkloads\<rparr> in
                 if m_DeletionTimestamp (wp_meta workPlacement) \<noteq> None then
                   bnd (deref writer) (\<lambda>w.
                   bnd (call_str (UpdateFiles w dir (m_Name (wp_meta workPlacement)) [workload] [])) (\<lambda>r.
                   case r of
                     Inl e \<Rightarrow> Ret (Inl (EWrap ''error regenerating aggregated YAML: '' e), workPlacement)
                   | Inr _ \<Rightarrow>
                       let workPlacement = removeFinalizer L workPlacement repoCleanupWorkPlacementFinalizer in
                       bnd (call_obj (Update (OWorkPlacement workPlacement)) un_wp) (\<lambda>r.
                       Ret (case r of Inl e \<Rightarrow> (Inl e, workPlacement) | Inr wp \<Rightarrow> (Inr (workload, True), wp)))))
                 else Ret (Inr (workload, False), workPlacement))))"

subsection \<open>Deleting\<close>

definition deleteError :: "WorkPlacement \<Rightarrow> string \<Rightarrow> unit go" where
  "deleteError workPlacement msg = call_event (OWorkPlacement workPlacement) EventTypeWarning failedDeleteEventReason msg"

definition WorkPlacementDelete :: "lib \<Rightarrow> writer option \<Rightarrow> string \<Rightarrow> WorkPlacement \<Rightarrow> string list \<Rightarrow> string \<Rightarrow> reconciled go" where
  "WorkPlacementDelete L writer dir workPlacement workloadsToDelete finalizerToRemove =
     bnd (deref writer) (\<lambda>w.
     bnd (call_str (UpdateFiles w dir (m_Name (wp_meta workPlacement)) [] workloadsToDelete)) (\<lambda>r.
     case r of
       Inl e \<Rightarrow>
         bnd (deleteError workPlacement (''error removing work from Destination: '' @ wps_TargetDestinationName (wp_Spec workPlacement) @
                ''  with error: '' @ err_msg e)) (\<lambda>_.
         Ret (no_requeue, Some e))
     | Inr _ \<Rightarrow>
         bnd (call_unit (Update (OWorkPlacement (removeFinalizer L workPlacement finalizerToRemove)))) (\<lambda>e.
         Ret (case e of Some e \<Rightarrow> (no_requeue, Some e) | None \<Rightarrow> (fastRequeue, None)))))"

text \<open>The files to delete for the repository clean-up: none but the directory, those of the state file, or the aggregated file.\<close>

definition workloadsToDelete ::
  "lib \<Rightarrow> Destination option \<Rightarrow> writer option \<Rightarrow> WorkPlacement \<Rightarrow> string \<Rightarrow> string \<Rightarrow> (reconciled + string list) go" where
  "workloadsToDelete L destination writer workPlacement filePathMode dir =
     (if filePathMode = FilepathModeNone then
        bnd (deref writer) (\<lambda>w.
        bnd (call_str (WriterReadFile w (kratixFilePath workPlacement))) (\<lambda>r.
        case r of
          Inl e \<Rightarrow>
            bnd (deleteError workPlacement (''failed to read .kratix state file: '' @ err_msg e)) (\<lambda>_.
            Ret (Inl (no_requeue, Some e)))
        | Inr kratixFile \<Rightarrow>
            (case L_UnmarshalStateFile L kratixFile of
               Inl e \<Rightarrow>
                 bnd (deleteError workPlacement (''failed to unmarshal .kratix state file: '' @ err_msg e)) (\<lambda>_.
                 Ret (Inl (defaultRequeue, Some e)))
             | Inr files \<Rightarrow> Ret (Inr files))))
      else if filePathMode = FilepathModeAggregatedYAML then
        bnd (deref destination) (\<lambda>dest.
        bnd (handleAggregatedYAML L workPlacement dest dir writer) (\<lambda>(r, workPlacement).
        case r of
          Inl e \<Rightarrow>
            bnd (deleteError workPlacement (''error removing work from Destination: '' @ wps_TargetDestinationName (wp_Spec workPlacement) @
                   '' with error: '' @ err_msg e)) (\<lambda>_.
            Ret (Inl (no_requeue, Some e)))
        | Inr (_, requeue) \<Rightarrow>
            if requeue then Ret (Inl (fastRequeue, None)) else Ret (Inr [d_FilepathFilename dest])))
      else Ret (Inr []))"

definition deletePlacementFiles :: "lib \<Rightarrow> Destination option \<Rightarrow> writer option \<Rightarrow> WorkPlacement \<Rightarrow> string \<Rightarrow> reconciled go" where
  "deletePlacementFiles L destination writer workPlacement filePathMode =
     (let pendingRepoCleanup = L_ContainsFinalizer L (wp_finalizers workPlacement) repoCleanupWorkPlacementFinalizer;
          pendingKratixFileCleanup = L_ContainsFinalizer L (wp_finalizers workPlacement) kratixFileCleanupWorkPlacementFinalizer in
      bnd (if filePathMode = FilepathModeNestedByMetadata then bnd (getDir workPlacement) (\<lambda>d. Ret (d @ ''/'')) else Ret []) (\<lambda>dir.
      if pendingRepoCleanup then
        bnd (workloadsToDelete L destination writer workPlacement filePathMode dir) (\<lambda>r.
        case r of
          Inl res \<Rightarrow> Ret res
        | Inr files \<Rightarrow> WorkPlacementDelete L writer dir workPlacement files repoCleanupWorkPlacementFinalizer)
      else if pendingKratixFileCleanup then
        WorkPlacementDelete L writer [] workPlacement [kratixFilePath workPlacement] kratixFileCleanupWorkPlacementFinalizer
      else Ret (no_requeue, None)))"

definition deleteWorkPlacement :: "lib \<Rightarrow> Destination option \<Rightarrow> writer option \<Rightarrow> WorkPlacement \<Rightarrow> string \<Rightarrow> reconciled go" where
  "deleteWorkPlacement L destination writer workPlacement filePathMode =
     (case destination of
        None \<Rightarrow>
          bnd (call_obj (Update (OWorkPlacement (cleanupDeletionFinalizers L workPlacement))) un_wp) (\<lambda>r.
          case r of
            Inl e \<Rightarrow> Ret (no_requeue, Some e)
          | Inr workPlacement \<Rightarrow> deletePlacementFiles L destination writer workPlacement filePathMode)
      | Some _ \<Rightarrow> deletePlacementFiles L destination writer workPlacement filePathMode)"

definition handleDeletion :: "lib \<Rightarrow> WorkPlacement \<Rightarrow> err + Destination \<Rightarrow> reconciled go" where
  "handleDeletion L workPlacement destination =
     (case destination of
        Inl e \<Rightarrow>
          if IsNotFound e then deleteWorkPlacement L None None workPlacement [] else Ret (no_requeue, Some e)
      | Inr destination \<Rightarrow>
          bnd (newDestinationWriter destination) (\<lambda>r.
          case r of
            Inl e \<Rightarrow>
              bnd (deleteError workPlacement (''error at creating a writer for Destination: '' @ m_Name (d_meta destination) @
                     '' with error: '' @ err_msg e)) (\<lambda>_.
              Ret (requeueIfNotFound e))
          | Inr writer \<Rightarrow>
              deleteWorkPlacement L (Some destination) (Some writer) workPlacement (GetFilepathMode destination)))"

subsection \<open>Writing\<close>

definition publishWriteEvent :: "WorkPlacement \<Rightarrow> string \<Rightarrow> string \<Rightarrow> err option \<Rightarrow> unit go" where
  "publishWriteEvent workPlacement reason versionID err =
     (let dest = wps_TargetDestinationName (wp_Spec workPlacement) in
      case err of
        None \<Rightarrow>
          call_event (OWorkPlacement workPlacement) EventTypeNormal reason
            (''successfully written to Destination: '' @ dest @ (if versionID \<noteq> [] then '' with versionID: '' @ versionID else []))
      | Some e \<Rightarrow>
          call_event (OWorkPlacement workPlacement) EventTypeWarning reason
            (''failed writing to Destination: '' @ dest @ '' with error: '' @ err_msg e @ ''; check kubectl get destination for more info''))"

definition setWriteFailStatusConditions :: "lib \<Rightarrow> WorkPlacement \<Rightarrow> err \<Rightarrow> (err option) go" where
  "setWriteFailStatusConditions L workPlacement e =
     bnd (SetStatusCondition L (wp_conditions workPlacement)
            (mk_cond writeSucceededConditionType ConditionFalse ''WorkloadsFailedWrite'' (err_msg e))) (\<lambda>(cs, writeSucceededUpdated).
     bnd (SetStatusCondition L cs (mk_cond ''Ready'' ConditionFalse ''WorkloadsFailedWrite'' ''Failing'')) (\<lambda>(cs, readyUpdated).
     if writeSucceededUpdated \<or> readyUpdated then call_unit (StatusUpdate (OWorkPlacement (set_wp_conditions workPlacement cs)))
     else Ret None))"

text \<open>The directory, and the files to create and to delete, for the destination's mode.\<close>

definition filesToWrite ::
  "lib \<Rightarrow> writer \<Rightarrow> WorkPlacement \<Rightarrow> Destination \<Rightarrow> (err + string \<times> Workload list \<times> string list) go" where
  "filesToWrite L writer workPlacement destination =
     bnd (getDir workPlacement) (\<lambda>dir.
     if GetFilepathMode destination = FilepathModeAggregatedYAML then
       bnd (handleAggregatedYAML L workPlacement destination [] (Some writer)) (\<lambda>(r, _).
       Ret (case r of Inl e \<Rightarrow> Inl e | Inr (workload, _) \<Rightarrow> Inr ([], [workload], [])))
     else if GetFilepathMode destination = FilepathModeNone then
       bnd (generateKratixStateFile L workPlacement writer) (\<lambda>r.
       Ret (case r of
              Inl e \<Rightarrow> Inl e
            | Inr (newWorkload, oldFiles) \<Rightarrow>
                (case decompressWorkloads L (wps_Workloads (wp_Spec workPlacement)) of
                   Inl e \<Rightarrow> Inl e
                 | Inr ws \<Rightarrow> Inr ([], newWorkload # ws, cleanupWorkloads oldFiles (wps_Workloads (wp_Spec workPlacement))))))
     else
       Ret (case decompressWorkloads L (wps_Workloads (wp_Spec workPlacement)) of
              Inl e \<Rightarrow> Inl e
            | Inr ws \<Rightarrow> Inr (dir, ws, [])))"

definition writeWorkloadsToStateStore :: "lib \<Rightarrow> writer \<Rightarrow> WorkPlacement \<Rightarrow> Destination \<Rightarrow> (err + string) go" where
  "writeWorkloadsToStateStore L writer workPlacement destination =
     bnd (filesToWrite L writer workPlacement destination) (\<lambda>r.
     case r of
       Inl e \<Rightarrow> Ret (Inl e)
     | Inr (dir, workloadsToCreate, toDelete) \<Rightarrow>
         call_str (UpdateFiles writer dir (m_Name (wp_meta workPlacement)) workloadsToCreate toDelete))"

text \<open>The version that was written, or how to go on; the placement comes back as it is afterwards.\<close>

definition writeToStateStore :: "lib \<Rightarrow> WorkPlacement \<Rightarrow> Destination \<Rightarrow> ((string \<times> reconciled) \<times> WorkPlacement) go" where
  "writeToStateStore L wp destination =
     bnd (newDestinationWriter destination) (\<lambda>r.
     case r of
       Inl e \<Rightarrow> Ret (([], requeueIfNotFound e), wp)
     | Inr writer \<Rightarrow>
         bnd (writeWorkloadsToStateStore L writer wp destination) (\<lambda>r.
         case r of
           Inl e \<Rightarrow>
             bnd (publishWriteEvent wp ''WorkloadsFailedWrite'' [] (Some e)) (\<lambda>_.
             bnd (setWriteFailStatusConditions L wp e) (\<lambda>_.
             Ret (([], defaultRequeue, None), wp)))
         | Inr versionID \<Rightarrow>
             bnd (publishWriteEvent wp ''WorkloadsWrittenToStateStore'' versionID None) (\<lambda>_.
             bnd (SetStatusCondition L (wp_conditions wp)
                    (mk_cond writeSucceededConditionType ConditionTrue ''WorkloadsWrittenToStateStore'' [])) (\<lambda>(cs, changed).
             if changed then
               bnd (call_obj (StatusUpdate (OWorkPlacement (set_wp_conditions wp cs))) un_wp) (\<lambda>r.
               Ret (case r of
                      Inl e \<Rightarrow> (([], defaultRequeue, None), set_wp_conditions wp cs)
                    | Inr wp \<Rightarrow> ((versionID, no_requeue, None), wp)))
             else Ret ((versionID, no_requeue, None), set_wp_conditions wp cs)))))"

subsection \<open>Status\<close>

definition set_version :: "WorkPlacement \<Rightarrow> string \<Rightarrow> WorkPlacement" where
  "set_version wp v = wp\<lparr>wp_Status := (wp_Status wp)\<lparr>wpst_VersionID := v\<rparr>\<rparr>"

definition updateStatus :: "WorkPlacement \<Rightarrow> string \<Rightarrow> VersionCache \<Rightarrow> ((reconciled \<times> WorkPlacement) \<times> VersionCache) go" where
  "updateStatus wp versionID cache =
     (let uid = GetUniqueID wp;
          cached = (versionID = [] \<and> lget cache uid \<noteq> []);
          versionID = (if cached then lget cache uid else versionID);
          cache = (if cached then fmdrop uid cache else cache) in
      if versionID \<noteq> [] \<and> wpst_VersionID (wp_Status wp) \<noteq> versionID then
        let wp = set_version wp versionID in
        bnd (call_obj (StatusUpdate (OWorkPlacement wp)) un_wp) (\<lambda>r.
        Ret (case r of
               Inl e \<Rightarrow>
                 (((if IsConflict e then (fastRequeue, None) else (no_requeue, Some e)), wp), fmupd uid versionID cache)
             | Inr wp \<Rightarrow> (((no_requeue, None), wp), cache)))
      else Ret (((no_requeue, None), wp), cache))"

definition setWorkplacementReady :: "lib \<Rightarrow> WorkPlacement \<Rightarrow> (err option) go" where
  "setWorkplacementReady L workPlacement =
     (let misplaced = list_ex (\<lambda>c. c_Type c = scheduleSucceededConditionType \<and> c_Status c = ConditionFalse) (wp_conditions workPlacement);
          writeSucceeded = list_ex (\<lambda>c. c_Type c = writeSucceededConditionType \<and> c_Status c = ConditionTrue) (wp_conditions workPlacement) in
      if writeSucceeded \<and> \<not> misplaced then
        bnd (SetStatusCondition L (wp_conditions workPlacement)
               (mk_cond ''Ready'' ConditionTrue ''WorkloadsWrittenToTargetDestination'' ''Ready'')) (\<lambda>(cs, changed).
        if changed then call_unit (StatusUpdate (OWorkPlacement (set_wp_conditions workPlacement cs))) else Ret None)
      else Ret None)"

subsection \<open>The controller\<close>

definition finishPlacement :: "lib \<Rightarrow> WorkPlacement \<Rightarrow> Destination \<Rightarrow> reconciled go" where
  "finishPlacement L workPlacement destination =
     (let missingFinalizers = checkWorkPlacementFinalizers L workPlacement (GetFilepathMode destination) in
      if length missingFinalizers > 0 then addFinalizers L (OWorkPlacement workPlacement) missingFinalizers
      else bnd (setWorkplacementReady L workPlacement) (\<lambda>e. Ret (no_requeue, e)))"

definition reconcilePlacement :: "lib \<Rightarrow> WorkPlacement \<Rightarrow> Destination \<Rightarrow> VersionCache \<Rightarrow> (reconciled \<times> VersionCache) go" where
  "reconcilePlacement L workPlacement destination cache =
     bnd (writeToStateStore L workPlacement destination) (\<lambda>((versionID, requeue, err), workPlacement).
     if err \<noteq> None \<or> RequeueAfter requeue > 0 then Ret ((requeue, err), cache)
     else
       bnd (updateStatus workPlacement versionID cache) (\<lambda>(((statusRequeue, statusErr), workPlacement), cache).
       if statusErr \<noteq> None \<or> RequeueAfter statusRequeue > 0 then Ret ((statusRequeue, statusErr), cache)
       else bnd (finishPlacement L workPlacement destination) (\<lambda>res. Ret (res, cache))))"

definition WorkPlacementReconcile :: "lib \<Rightarrow> string \<times> string \<Rightarrow> VersionCache \<Rightarrow> (reconciled \<times> VersionCache) go" where
  "WorkPlacementReconcile L req cache =
     bnd (call_obj (Get KWorkPlacement (fst req) (snd req)) un_wp) (\<lambda>r.
     case r of
       Inl e \<Rightarrow> Ret ((if IsNotFound e then no_requeue else defaultRequeue, None), cache)
     | Inr workPlacement \<Rightarrow>
         bnd (getDestination workPlacement) (\<lambda>d.
         if m_DeletionTimestamp (wp_meta workPlacement) \<noteq> None then
           bnd (handleDeletion L workPlacement d) (\<lambda>res. Ret (res, cache))
         else
           (case d of
              Inl e \<Rightarrow> Ret ((no_requeue, Some e), cache)
            | Inr destination \<Rightarrow> reconcilePlacement L workPlacement destination cache)))"

end
