(* ===== verification/WorkPlacementSafety.thy ===== *)
theory WorkPlacementSafety
  imports WorkPlacementController
begin

text \<open>
  What the controller of placements (\<^verbatim>\<open>WorkPlacementController\<close>) guarantees: a placement is not let go before its files are
  dealt with, no two placements share a directory, versions are not lost, and what is written is what was scheduled.
\<close>

subsection \<open>Directories\<close>

text \<open>The components of a placement's directory.\<close>

definition dir_parts :: "WorkPlacement \<Rightarrow> string list" where
  "dir_parts wp =
     (let spec = wp_Spec wp; pipeline = [PipelineName wp, take 5 (wps_ID spec)] in
      if wps_ResourceName spec = [] then [dependenciesDir, wps_PromiseName spec] @ pipeline
      else [resourcesDir, m_Namespace (wp_meta wp), wps_PromiseName spec, wps_ResourceName spec] @ pipeline)"

lemma getDir_parts: "exec (getDir wp) t (Returned dir) \<Longrightarrow> t = [] \<and> dir = Join (dir_parts wp)"
  unfolding getDir_def shortID_def slice_to_def dir_parts_def Let_def
  by (auto simp: exec_Ret_iff exec_Panic_iff split: if_splits)

subsection \<open>Files first\<close>

text \<open>
  What the writer has to be asked for. \<open>state_listed\<close> and \<open>active_listed\<close> are what the requests so far said of the files in the state
  file of the placement, and of the placements on its destination that are not being deleted.
\<close>

definition state_listed :: "lib \<Rightarrow> WorkPlacement \<Rightarrow> writer \<Rightarrow> gtrace \<Rightarrow> string list \<Rightarrow> bool" where
  "state_listed L wp w t fs \<longleftrightarrow> (\<exists>r c. (WriterReadFile w (kratixFilePath wp), r) \<in> set t \<and> as_str r = Inr c \<and> L_UnmarshalStateFile L c = Inr fs)"

definition no_state_file :: "lib \<Rightarrow> WorkPlacement \<Rightarrow> writer \<Rightarrow> gtrace \<Rightarrow> string list \<Rightarrow> bool" where
  "no_state_file L wp w t fs \<longleftrightarrow> (\<exists>r e. (WriterReadFile w (kratixFilePath wp), r) \<in> set t \<and> as_str r = Inl e \<and> IsFileNotFound e \<and>
     L_UnmarshalStateFile L [] = Inr fs)"

definition active_listed :: "lib \<Rightarrow> WorkPlacement \<Rightarrow> gtrace \<Rightarrow> WorkPlacement list \<Rightarrow> bool" where
  "active_listed L wp t active \<longleftrightarrow> (\<exists>r items.
     (ListObjs KWorkPlacement [] (Some (L_SelectorFromSet L
        (fmupd TargetDestinationNameLabel (wps_TargetDestinationName (wp_Spec wp)) fmempty))), r) \<in> set t \<and>
     as_list un_wp r = Inr items \<and> active = filter (\<lambda>p. m_DeletionTimestamp (wp_meta p) = None) items)"

definition aggregated_file :: "lib \<Rightarrow> Destination \<Rightarrow> WorkPlacement list \<Rightarrow> Workload \<Rightarrow> bool" where
  "aggregated_file L d active file \<longleftrightarrow> (\<exists>ws. decompressWorkloads L (concat (map (\<lambda>p. wps_Workloads (wp_Spec p)) active)) = Inr ws \<and>
     file = \<lparr>Filepath = d_FilepathFilename d, Content = join (map Content ws) yaml_separator\<rparr>)"

text \<open>The directory, the files to create and the files to delete when a placement is written, for each mode of its destination.\<close>

definition to_write ::
  "lib \<Rightarrow> WorkPlacement \<Rightarrow> Destination \<Rightarrow> gtrace \<Rightarrow> writer \<Rightarrow> string \<Rightarrow> Workload list \<Rightarrow> string list \<Rightarrow> bool" where
  "to_write L wp d t w dir cs ds \<longleftrightarrow>
     (if GetFilepathMode d = ''aggregatedYAML'' then dir = [] \<and> ds = [] \<and> (\<exists>active. active_listed L wp t active \<and>
        (if active = [] then cs = [\<lparr>Filepath = [], Content = []\<rparr>] else \<exists>file. aggregated_file L d active file \<and> cs = [file]))
      else if GetFilepathMode d = ''none'' then dir = [] \<and> (\<exists>old s ws. (state_listed L wp w t old \<or> no_state_file L wp w t old) \<and>
        L_MarshalStateFile L (map Filepath (wps_Workloads (wp_Spec wp))) = Inr s \<and> decompressWorkloads L (wps_Workloads (wp_Spec wp)) = Inr ws \<and>
        cs = \<lparr>Filepath = kratixFilePath wp, Content = s\<rparr> # ws \<and>
        ds = filter (\<lambda>f. f \<notin> Filepath ` set (wps_Workloads (wp_Spec wp))) old)
      else dir = Join (dir_parts wp) \<and> decompressWorkloads L (wps_Workloads (wp_Spec wp)) = Inr cs \<and> ds = [])"

text \<open>The same when the placement is being deleted, and the finalizer that goes then.\<close>

definition to_remove ::
  "lib \<Rightarrow> WorkPlacement \<Rightarrow> Destination \<Rightarrow> gtrace \<Rightarrow> writer \<Rightarrow> string \<Rightarrow> Workload list \<Rightarrow> string list \<Rightarrow> string \<Rightarrow> bool" where
  "to_remove L wp d t w dir cs ds f \<longleftrightarrow>
     (if L_ContainsFinalizer L (wp_finalizers wp) repoCleanupWorkPlacementFinalizer then f = repoCleanupWorkPlacementFinalizer \<and>
        (if GetFilepathMode d = ''nestedByMetadata'' then dir = Join (dir_parts wp) @ ''/'' \<and> cs = [] \<and> ds = []
         else if GetFilepathMode d = ''none'' then dir = [] \<and> cs = [] \<and> state_listed L wp w t ds
         else if GetFilepathMode d = ''aggregatedYAML'' then dir = [] \<and> (\<exists>active. active_listed L wp t active \<and>
           (if active = [] then cs = [] \<and> ds = [d_FilepathFilename d] else (\<exists>file. aggregated_file L d active file \<and> cs = [file]) \<and> ds = []))
         else dir = [] \<and> cs = [] \<and> ds = [])
      else f = kratixFileCleanupWorkPlacementFinalizer \<and> dir = [] \<and> cs = [] \<and> ds = [kratixFilePath wp])"

text \<open>The writer was asked for just that, and has done it.\<close>

definition files_settled :: "lib \<Rightarrow> WorkPlacement \<Rightarrow> Destination \<Rightarrow> gtrace \<Rightarrow> WorkPlacement \<Rightarrow> bool" where
  "files_settled L wp d t u \<longleftrightarrow> (\<exists>w dir cs ds r v. (UpdateFiles w dir (m_Name (wp_meta wp)) cs ds, r) \<in> set t \<and> as_str r = Inr v \<and>
     (if m_DeletionTimestamp (wp_meta wp) = None then to_write L wp d t w dir cs ds
      else \<exists>f. to_remove L wp d t w dir cs ds f \<and> u = removeFinalizer L wp f))"

lemma listed_later:
  "state_listed L wp w t fs \<Longrightarrow> state_listed L wp w (t' @ t) fs" "state_listed L wp w t fs \<Longrightarrow> state_listed L wp w (t @ t') fs"
  "no_state_file L wp w t fs \<Longrightarrow> no_state_file L wp w (t' @ t) fs" "no_state_file L wp w t fs \<Longrightarrow> no_state_file L wp w (t @ t') fs"
  "active_listed L wp t active \<Longrightarrow> active_listed L wp (t' @ t) active" "active_listed L wp t active \<Longrightarrow> active_listed L wp (t @ t') active"
  unfolding state_listed_def no_state_file_def active_listed_def set_append by blast+

lemma to_write_later:
  "to_write L wp d t w dir cs ds \<Longrightarrow> to_write L wp d (t' @ t) w dir cs ds" "to_write L wp d t w dir cs ds \<Longrightarrow> to_write L wp d (t @ t') w dir cs ds"
  unfolding to_write_def by (auto split: if_splits intro: listed_later)

lemma to_remove_later:
  "to_remove L wp d t w dir cs ds f \<Longrightarrow> to_remove L wp d (t' @ t) w dir cs ds f"
  "to_remove L wp d t w dir cs ds f \<Longrightarrow> to_remove L wp d (t @ t') w dir cs ds f"
  unfolding to_remove_def by (auto split: if_splits intro: listed_later)

lemma files_settledI:
  assumes "(UpdateFiles w dir (m_Name (wp_meta wp)) cs ds, r) \<in> set t" and "as_str r = Inr v"
    and "m_DeletionTimestamp (wp_meta wp) = None \<Longrightarrow> to_write L wp d t w dir cs ds"
    and "m_DeletionTimestamp (wp_meta wp) \<noteq> None \<Longrightarrow> to_remove L wp d t w dir cs ds f \<and> u = removeFinalizer L wp f"
  shows "files_settled L wp d t u"
  unfolding files_settled_def
  by (intro exI [of _ w] exI [of _ dir] exI [of _ cs] exI [of _ ds] exI [of _ r] exI [of _ v]) (use assms in auto)

lemma files_settled_later: "files_settled L wp d t u \<Longrightarrow> files_settled L wp d (t' @ t) u"
  unfolding files_settled_def set_append using to_write_later(1) to_remove_later(1) by (metis (no_types, lifting) Un_iff)

definition files_ok :: "lib \<Rightarrow> WorkPlacement \<Rightarrow> Destination \<Rightarrow> gtrace \<Rightarrow> req \<times> resp \<Rightarrow> bool" where
  "files_ok L wp d t x \<longleftrightarrow> (\<forall>u. fst x = Update (OWorkPlacement u) \<longrightarrow> files_settled L wp d t u)"

interpretation files: trace_guard "files_ok L wp d" for L wp d
  by unfold_locales (simp add: files_ok_def files_settled_later)

lemma files_quiet: "only (\<lambda>q. \<forall>u. q \<noteq> Update (OWorkPlacement u)) p \<Longrightarrow> files.keeps L wp d p"
  by (rule files.keeps_free) (auto simp: files_ok_def elim!: only_mono)

lemma quiet_guarded: "only (\<lambda>q. \<forall>u. q \<noteq> Update (OWorkPlacement u)) p \<Longrightarrow> exec p t' oc \<Longrightarrow> files.guarded L wp d t \<Longrightarrow> files.guarded L wp d (t @ t')"
  by (erule files.guarded_append) (rule wpreD [OF _ files_quiet [unfolded files.keeps_def]])

lemma guarded_two:
  assumes "files.guarded L wp d t" and "\<And>u. q \<noteq> Update (OWorkPlacement u)" and "files_ok L wp d (t @ [(q, r)]) x"
  shows "files.guarded L wp d (t @ [(q, r), x])"
proof -
  have "files.guarded L wp d (t @ [(q, r)])" using assms(1,2) by (intro files.guarded_snoc) (auto simp: files_ok_def)
  from files.guarded_snoc [OF this assms(3)] show ?thesis by simp
qed

text \<open>Deleting.\<close>

lemma delete_guarded:
  assumes "m_DeletionTimestamp (wp_meta wp) \<noteq> None" and "files.guarded L wp d t" and "to_remove L wp d t w dir [] fs f"
  shows "wpre (WorkPlacementDelete L (Some w) dir wp fs f) (\<lambda>t' oc. files.guarded L wp d (t @ t'))"
proof -
  let ?q = "UpdateFiles w dir (m_Name (wp_meta wp)) [] fs"
  have "files_settled L wp d (t @ [(?q, r)]) (removeFinalizer L wp f)" if "as_str r = Inr v" for r v
    by (rule files_settledI [of w dir wp "[]" fs r]) (use that assms(1,3) in \<open>auto simp: to_remove_later\<close>)
  then show ?thesis
    unfolding WorkPlacementDelete_def deleteError_def
    by (auto simp: wpre_simps files_ok_def split: sum.split option.split intro!: guarded_two [OF assms(2)])
qed


lemma aggregated_guarded:
  assumes "m_DeletionTimestamp (wp_meta wp) \<noteq> None" and "GetFilepathMode d = FilepathModeAggregatedYAML"
    and "L_ContainsFinalizer L (wp_finalizers wp) repoCleanupWorkPlacementFinalizer"
  shows "wpre (handleAggregatedYAML L wp d [] (Some w)) (\<lambda>t oc. files.guarded L wp d t \<and>
    (\<forall>file wp'. oc = Returned (Inr (file, False), wp') \<longrightarrow> active_listed L wp t [] \<and> wp' = wp))"
proof -
  let ?q = "ListObjs KWorkPlacement [] (Some (L_SelectorFromSet L
        (fmupd TargetDestinationNameLabel (wps_TargetDestinationName (wp_Spec wp)) fmempty)))"
  define active where "active items = filter (\<lambda>p. m_DeletionTimestamp (wp_meta p) = None) items" for items :: "WorkPlacement list"
  have listed: "active_listed L wp ((?q, r) # t) (active items)" if "as_list un_wp r = Inr items" for r items t
    using that by (auto simp: active_listed_def active_def)
  have one: "files.guarded L wp d [(?q, r)]" for r by (rule files.guarded_free) (auto simp: files_ok_def)
  have two: "files.guarded L wp d [(?q, r), (UpdateFiles w dir n cs ds, r')]" for r dir n cs ds r'
    by (rule files.guarded_free) (auto simp: files_ok_def)
  have three: "files.guarded L wp d [(?q, r), (UpdateFiles w [] (m_Name (wp_meta wp)) [file] [], r'),
      (Update (OWorkPlacement (removeFinalizer L wp repoCleanupWorkPlacementFinalizer)), r'')]"
    if "as_list un_wp r = Inr items" "active items \<noteq> []" "aggregated_file L d (active items) file" "as_str r' = Inr v"
    for r items "file" r' v r''
  proof -
    let ?t = "[(?q, r), (UpdateFiles w [] (m_Name (wp_meta wp)) [file] [], r')]"
    have "to_remove L wp d ?t w [] [file] [] repoCleanupWorkPlacementFinalizer"
      using assms(2,3) that(2,3) listed [OF that(1)]
      by (auto simp: to_remove_def FilepathModeAggregatedYAML_def FilepathModeNestedByMetadata_def FilepathModeNone_def)
    then have "files_settled L wp d ?t (removeFinalizer L wp repoCleanupWorkPlacementFinalizer)"
      using assms(1) that(4) by (intro files_settledI [of w "[]" wp "[file]" "[]" r']) auto
    then have "files.guarded L wp d (?t @ [(Update (OWorkPlacement (removeFinalizer L wp repoCleanupWorkPlacementFinalizer)), r'')])"
      by (intro files.guarded_snoc two) (simp add: files_ok_def)
    then show ?thesis by simp
  qed
  have combined: "aggregated_file L d items \<lparr>Filepath = d_FilepathFilename d, Content = concatenateYAMLs ws\<rparr>"
    if "combineWorkloads L items = Inr ws" for items ws
    using that by (auto simp: aggregated_file_def combineWorkloads_def concatenateYAMLs_def)
  show ?thesis
    unfolding handleAggregatedYAML_def getAllWorkplacementsForDestination_def Let_def
    using assms(1)
    by (auto simp: wpre_simps active_def [symmetric] one two split: sum.split intro!: three combined dest: listed)
qed

lemma getDir_wpre: "wpre (getDir wp) (\<lambda>t oc. t = [] \<and> (\<forall>dir. oc = Returned dir \<longrightarrow> dir = Join (dir_parts wp)))"
  unfolding getDir_def shortID_def slice_to_def dir_parts_def Let_def by (auto simp: wpre_simps)

lemma repo_cleanup_guarded:
  assumes "m_DeletionTimestamp (wp_meta wp) \<noteq> None" and "L_ContainsFinalizer L (wp_finalizers wp) repoCleanupWorkPlacementFinalizer"
    and "dir = (if GetFilepathMode d = FilepathModeNestedByMetadata then Join (dir_parts wp) @ ''/'' else [])"
  shows "wpre (bnd (workloadsToDelete L (Some d) (Some w) wp (GetFilepathMode d) dir) (\<lambda>r. case r of
      Inl res \<Rightarrow> Ret res | Inr fs \<Rightarrow> WorkPlacementDelete L (Some w) dir wp fs repoCleanupWorkPlacementFinalizer))
    (\<lambda>t oc. files.guarded L wp d t)"
proof -
  let ?f = repoCleanupWorkPlacementFinalizer
  note modes = FilepathModeAggregatedYAML_def FilepathModeNestedByMetadata_def FilepathModeNone_def
  let ?post = "\<lambda>t oc. files.guarded L wp d t \<and> (\<forall>fs. oc = Returned (Inr fs) \<longrightarrow> to_remove L wp d t w dir [] fs ?f)"
  have quiet: "files.guarded L wp d [(WriterReadFile w p, r)]" "files.guarded L wp d [(WriterReadFile w p, r), (Event x a b c, r')]" for p r x a b c r'
    by (rule files.guarded_free; auto simp: files_ok_def)+
  have "wpre (workloadsToDelete L (Some d) (Some w) wp (GetFilepathMode d) dir) ?post"
  proof (cases "GetFilepathMode d = FilepathModeAggregatedYAML")
    case True
    then have d: "dir = []" "GetFilepathMode d \<noteq> FilepathModeNone" using assms(3) by (auto simp: modes)
    have rem: "to_remove L wp d t w [] [] [d_FilepathFilename d] ?f" if "active_listed L wp t []" for t
      using that assms(2) True by (auto simp: to_remove_def modes)
    have err: "wpre (bnd (deleteError wp' m) (\<lambda>_. Ret (Inl res :: reconciled + string list)))
        (\<lambda>t' oc. files.guarded L wp d (t @ t') \<and> oc = Returned (Inl res))" if "files.guarded L wp d t" for wp' m res t
      using files.guarded_snoc [OF that] by (auto simp: wpre_simps deleteError_def files_ok_def)
    show ?thesis
      unfolding workloadsToDelete_def using True d
      by (auto simp: wpre_basic split: prod.split sum.split
          intro!: wpre_seq [OF aggregated_guarded [OF assms(1) True assms(2)]] wpre_mono [OF err] rem)
  next
    case False
    show ?thesis
    proof (cases "GetFilepathMode d = FilepathModeNone")
      case True
      have "to_remove L wp d ((WriterReadFile w (kratixFilePath wp), r) # t) w dir [] fs ?f"
        if "as_str r = Inr c" "L_UnmarshalStateFile L c = Inr fs" for r c fs t
        using that assms(2,3) True by (auto simp: to_remove_def state_listed_def modes)
      then show ?thesis
        unfolding workloadsToDelete_def deleteError_def using True quiet
        by (auto simp: wpre_simps split: sum.split)
    next
      case no: False
      have "to_remove L wp d [] w dir [] [] ?f" using assms(2,3) False no by (auto simp: to_remove_def modes)
      then show ?thesis unfolding workloadsToDelete_def using False no by (simp add: files.guarded_Nil)
    qed
  qed
  then show ?thesis
    by (rule wpre_seq) (auto split: sum.split intro!: delete_guarded assms(1))
qed

lemma deletePlacementFiles_guarded:
  assumes "m_DeletionTimestamp (wp_meta wp) \<noteq> None"
  shows "wpre (deletePlacementFiles L (Some d) (Some w) wp (GetFilepathMode d)) (\<lambda>t oc. files.guarded L wp d t)"
proof -
  let ?repo = "L_ContainsFinalizer L (wp_finalizers wp) repoCleanupWorkPlacementFinalizer"
  have other: "wpre (WorkPlacementDelete L (Some w) [] wp [kratixFilePath wp] kratixFileCleanupWorkPlacementFinalizer) (\<lambda>t oc. files.guarded L wp d t)"
    if "\<not> ?repo"
    using delete_guarded [OF assms files.guarded_Nil, where fs = "[kratixFilePath wp]" and dir = "[]" and L = L and d = d and w = w and
      f = kratixFileCleanupWorkPlacementFinalizer] that
    by (simp add: to_remove_def)
  have rest: "wpre (if ?repo then bnd (workloadsToDelete L (Some d) (Some w) wp (GetFilepathMode d) dir) (\<lambda>r. case r of
        Inl res \<Rightarrow> Ret res | Inr fs \<Rightarrow> WorkPlacementDelete L (Some w) dir wp fs repoCleanupWorkPlacementFinalizer)
      else if L_ContainsFinalizer L (wp_finalizers wp) kratixFileCleanupWorkPlacementFinalizer then
        WorkPlacementDelete L (Some w) [] wp [kratixFilePath wp] kratixFileCleanupWorkPlacementFinalizer
      else Ret (no_requeue, None)) (\<lambda>t oc. files.guarded L wp d t)"
    if "dir = (if GetFilepathMode d = FilepathModeNestedByMetadata then Join (dir_parts wp) @ ''/'' else [])" for dir
    using repo_cleanup_guarded [OF assms _ that] other by (simp add: files.guarded_Nil)
  have dir: "wpre (if GetFilepathMode d = FilepathModeNestedByMetadata then bnd (getDir wp) (\<lambda>d. Ret (d @ ''/'')) else Ret [])
      (\<lambda>t oc. t = [] \<and> (\<forall>dir. oc = Returned dir \<longrightarrow>
        dir = (if GetFilepathMode d = FilepathModeNestedByMetadata then Join (dir_parts wp) @ ''/'' else [])))"
    by (auto simp: wpre_basic intro!: wpre_seq [OF getDir_wpre])
  show ?thesis
    unfolding deletePlacementFiles_def Let_def
  proof (rule wpre_seq [OF dir], goal_cases)
    case (1 t x)
    then have t: "t = []" and x: "x = (if GetFilepathMode d = FilepathModeNestedByMetadata then Join (dir_parts wp) @ ''/'' else [])" by auto
    show ?case unfolding t append_Nil by (rule rest [OF x])
  qed (simp add: files.guarded_Nil)
qed

text \<open>Writing.\<close>

definition files_written :: "lib \<Rightarrow> WorkPlacement \<Rightarrow> Destination \<Rightarrow> gtrace \<Rightarrow> bool" where
  "files_written L wp d t \<longleftrightarrow> (\<exists>w dir cs ds r v. (UpdateFiles w dir (m_Name (wp_meta wp)) cs ds, r) \<in> set t \<and> as_str r = Inr v \<and>
     to_write L wp d t w dir cs ds)"

lemma files_written_later:
  assumes "files_written L wp d t"
  shows "files_written L wp d (t' @ t)" and "files_written L wp d (t @ t')"
  using assms unfolding files_written_def set_append by (metis (no_types, lifting) Un_iff to_write_later(1), metis (no_types, lifting) Un_iff to_write_later(2))

abbreviation no_update :: "req \<Rightarrow> bool" where
  "no_update q \<equiv> \<forall>u. q \<noteq> Update (OWorkPlacement u)"

abbreviation no_updates :: "gtrace \<Rightarrow> bool" where
  "no_updates t \<equiv> list_all (\<lambda>x. no_update (fst x)) t"

lemma filesToWrite_result:
  assumes "m_DeletionTimestamp (wp_meta wp) = None"
  shows "wpre (filesToWrite L w wp d) (\<lambda>t oc. no_updates t \<and>
    (\<forall>dir cs ds. oc = Returned (Inr (dir, cs, ds)) \<longrightarrow> to_write L wp d t w dir cs ds))"
proof -
  note modes = FilepathModeAggregatedYAML_def FilepathModeNestedByMetadata_def FilepathModeNone_def
  have agg: "wpre (handleAggregatedYAML L wp d [] (Some w)) (\<lambda>t oc. no_updates t \<and>
      (\<forall>file b wp'. oc = Returned (Inr (file, b), wp') \<longrightarrow> (\<exists>active. active_listed L wp t active \<and>
        (if active = [] then file = \<lparr>Filepath = [], Content = []\<rparr> else aggregated_file L d active file))))"
    using assms unfolding handleAggregatedYAML_def getAllWorkplacementsForDestination_def Let_def combineWorkloads_def concatenateYAMLs_def
    by (auto simp: wpre_simps active_listed_def aggregated_file_def split: sum.split)
  have state: "wpre (generateKratixStateFile L wp w) (\<lambda>t oc. no_updates t \<and>
      (\<forall>file old. oc = Returned (Inr (file, old)) \<longrightarrow> (state_listed L wp w t old \<or> no_state_file L wp w t old) \<and>
        (\<exists>s. L_MarshalStateFile L (map Filepath (wps_Workloads (wp_Spec wp))) = Inr s \<and> file = \<lparr>Filepath = kratixFilePath wp, Content = s\<rparr>)))"
    unfolding generateKratixStateFile_def Let_def ignoreNotFound_def workloadsFilenames_def
    by (auto simp: wpre_simps state_listed_def no_state_file_def split: sum.splits option.splits if_splits)
  have aggregated: "to_write L wp d t w [] [file] []"
    if "GetFilepathMode d = FilepathModeAggregatedYAML" "active_listed L wp t active"
      "if active = [] then file = \<lparr>Filepath = [], Content = []\<rparr> else aggregated_file L d active file" for t active "file"
  proof -
    from that(2,3) have "active_listed L wp t active \<and> (if active = [] then [file] = [\<lparr>Filepath = [], Content = []\<rparr>]
      else \<exists>file'. aggregated_file L d active file' \<and> [file] = [file'])" by (cases "active = []") simp_all
    with that(1) show ?thesis unfolding to_write_def modes by metis
  qed
  have listed: "to_write L wp d t w [] (file # ws) (cleanupWorkloads old (wps_Workloads (wp_Spec wp)))"
    if "GetFilepathMode d = FilepathModeNone" "state_listed L wp w t old \<or> no_state_file L wp w t old"
      "L_MarshalStateFile L (map Filepath (wps_Workloads (wp_Spec wp))) = Inr s" "file = \<lparr>Filepath = kratixFilePath wp, Content = s\<rparr>"
      "decompressWorkloads L (wps_Workloads (wp_Spec wp)) = Inr ws" for t "file" ws old s
    using that by (auto simp: to_write_def modes cleanupWorkloads_def)
  have nested: "to_write L wp d t w (Join (dir_parts wp)) ws []"
    if "GetFilepathMode d \<noteq> FilepathModeNone" "GetFilepathMode d \<noteq> FilepathModeAggregatedYAML"
      "decompressWorkloads L (wps_Workloads (wp_Spec wp)) = Inr ws" for t ws
    using that by (simp add: to_write_def modes)
  show ?thesis
    unfolding filesToWrite_def
  proof (rule wpre_seq [OF getDir_wpre], goal_cases)
    case (1 t dir)
    then have "t = []" "dir = Join (dir_parts wp)" by auto
    then show ?case
      by (auto simp: wpre_basic wpre_bnd aggregated listed nested split: sum.split prod.split outcome.split
          intro!: wpre_mono [OF agg] wpre_mono [OF state])
  qed auto
qed

lemma writeWorkloads_result:
  assumes "m_DeletionTimestamp (wp_meta wp) = None"
  shows "wpre (writeWorkloadsToStateStore L w wp d) (\<lambda>t oc. no_updates t \<and>
    (\<forall>v. oc = Returned (Inr v) \<longrightarrow> files_written L wp d t))"
  unfolding writeWorkloadsToStateStore_def
proof (rule wpre_seq [OF filesToWrite_result [OF assms]], goal_cases)
  case (1 t x)
  have "files_written L wp d (t @ [(UpdateFiles w dir (m_Name (wp_meta wp)) cs ds, r)])"
    if "x = Inr (dir, cs, ds)" "as_str r = Inr v" for dir cs ds r v
  proof -
    have "to_write L wp d (t @ [(UpdateFiles w dir (m_Name (wp_meta wp)) cs ds, r)]) w dir cs ds"
      using 1 that(1) by (intro to_write_later(2)) auto
    with that(2) show ?thesis unfolding files_written_def by fastforce
  qed
  with 1 show ?case by (auto simp: wpre_simps split: sum.split prod.split)
qed simp

lemma defaultRequeue_pos: "RequeueAfter defaultRequeue > 0"
  by (simp add: defaultRequeue_def second_def)

lemma only_quiet: "only no_update p \<Longrightarrow> wpre p (\<lambda>t oc. no_updates t)"
  unfolding only_def by (erule wpre_mono) (simp add: list_all_iff)

lemma no_wp_update_parts:
  "only no_update (newDestinationWriter d)" "only no_update (publishWriteEvent wp a b e)"
  "only no_update (setWriteFailStatusConditions L wp e')" "only no_update (SetStatusCondition L cs c)"
  unfolding newDestinationWriter_def newWriter_def fetchObjectAndSecret_def publishWriteEvent_def setWriteFailStatusConditions_def Let_def
  by (auto intro!: only_intros split: sum.split option.split prod.split)

lemma writeToStateStore_result:
  assumes "m_DeletionTimestamp (wp_meta wp) = None"
  shows "wpre (writeToStateStore L wp d) (\<lambda>t oc. no_updates t \<and>
    (\<forall>v rq wp'. oc = Returned ((v, rq, None), wp') \<longrightarrow> RequeueAfter rq > 0 \<or> files_written L wp d t))"
  unfolding writeToStateStore_def
proof (rule wpre_seq [OF only_quiet [OF no_wp_update_parts(1)]], goal_cases)
  case (1 t r)
  show ?case
  proof (cases r)
    case (Inl e)
    with 1 show ?thesis by (auto simp: requeueIfNotFound_def defaultRequeue_pos)
  next
    case (Inr w)
    have later: "files_written L wp d (t @ t' @ t'')" if "files_written L wp d t'" for t' t''
      using that by (intro files_written_later)
    show ?thesis
      unfolding Inr sum.case
    proof (rule wpre_seq [OF writeWorkloads_result [OF assms]], goal_cases)
      case (1 t' r')
      show ?case
      proof (cases r')
        case (Inl e)
        show ?thesis
          unfolding Inl sum.case
          using \<open>no_updates t\<close> 1
          by (auto simp: defaultRequeue_pos intro!: wpre_seq [OF only_quiet [OF no_wp_update_parts(2)]] wpre_seq [OF only_quiet [OF no_wp_update_parts(3)]])
      next
        case (Inr v)
        then have "files_written L wp d t'" using 1 by blast
        with Inr \<open>no_updates t\<close> 1 show ?thesis
          by (auto simp: wpre_simps defaultRequeue_pos publishWriteEvent_def Let_def intro!: later split: prod.split sum.split)
      qed
    qed (use 1 in auto)
  qed
qed simp

lemma reconcilePlacement_guarded:
  assumes "m_DeletionTimestamp (wp_meta wp) = None"
  shows "files.keeps L wp d (reconcilePlacement L wp d cache)"
proof -
  have quiet: "files.guarded L wp d t" if "no_updates t" for t
    using that by (intro files.guarded_free) (auto simp: files_ok_def list_all_iff)
  have free: "files.guarded L wp d (t @ t')" if "no_updates t" "files_written L wp d t" for t t'
  proof (rule files.guarded_append_free [OF quiet [OF that(1)]])
    fix u x
    from files_written_later(2) [OF that(2)] assms show "files_ok L wp d (t @ u) x"
      unfolding files_ok_def files_settled_def files_written_def by auto
  qed
  show ?thesis
    unfolding reconcilePlacement_def files.keeps_def
  proof (rule wpre_seq [OF writeToStateStore_result [OF assms]], goal_cases)
    case (1 t x)
    show ?case
    proof (cases "files_written L wp d t")
      case True
      with 1 free show ?thesis by (intro wpreI) auto
    next
      case False
      with 1 quiet show ?thesis by (auto split: prod.split)
    qed
  qed (use quiet in auto)
qed

lemma handleDeletion_guarded:
  assumes "m_DeletionTimestamp (wp_meta wp) \<noteq> None"
  shows "files.keeps L wp d (handleDeletion L wp (Inr d))"
proof -
  have quiet: "files.keeps L wp d (newDestinationWriter d)" "files.keeps L wp d (deleteError wp m)" for m
    by (rule files_quiet, use no_wp_update_parts(1) in \<open>auto simp: deleteError_def intro!: only_intros\<close>)+
  have "files.keeps L wp d (deletePlacementFiles L (Some d) (Some w) wp (GetFilepathMode d))" for w
    using deletePlacementFiles_guarded [OF assms] by (simp add: files.keeps_def)
  then show ?thesis
    unfolding handleDeletion_def deleteWorkPlacement_def
    by (auto intro!: files.keeps_bnd files.keeps_Ret quiet split: sum.split)
qed

text \<open>
  C26. A placement is only updated, to add the clean-up finalizers or to let it go, after the files it stands for were dealt with
  in the same pass, or when it is being deleted and its destination no longer exists. A placement that is not being deleted has had
  its files written by a successful request to the writer: its decompressed workloads to its own directory, or on a
  destination of mode \<open>none\<close> its state file and its workloads, with the files that only the old state file lists to be deleted, or on
  one of mode \<open>aggregatedYAML\<close> the one file made of all placements there. One that is being deleted loses just one finalizer: the
  repository one after its directory was removed, or the files that its state file lists, or the aggregated file was rewritten
  without it or removed as the last; the second one after its state file was removed.
\<close>

theorem WorkPlacement_updated_after_files:
  assumes "exec (WorkPlacementReconcile L req cache) (t1 @ (Update (OWorkPlacement u), r) # t2) oc"
  shows "\<exists>wp x t. t1 = (Get KWorkPlacement (fst req) (snd req), RObj (OWorkPlacement wp)) #
      (Get KDestination [] (wps_TargetDestinationName (wp_Spec wp)), x) # t \<and>
    (m_DeletionTimestamp (wp_meta wp) \<noteq> None \<and> (\<exists>e. as_obj un_dest x = Inl e \<and> IsNotFound e) \<or>
     (\<exists>d. x = RObj (ODestination d) \<and> files_settled L wp d t u))"
proof -
  have two: "\<exists>t. t1 = a # b # t \<and> t' = t @ (Update (OWorkPlacement u), r) # t2"
    if "t1 @ (Update (OWorkPlacement u), r) # t2 = a # b # t'" "fst a \<noteq> Update (OWorkPlacement u)" "fst b \<noteq> Update (OWorkPlacement u)" for a b t'
    using that by (cases t1; cases "tl t1") auto
  from assms obtain x1 t where t: "t1 @ (Update (OWorkPlacement u), r) # t2 = (Get KWorkPlacement (fst req) (snd req), x1) # t"
    and rest: "exec (case as_obj un_wp x1 of
       Inl e \<Rightarrow> Ret ((if IsNotFound e then no_requeue else defaultRequeue, None), cache)
     | Inr wp \<Rightarrow> bnd (getDestination wp) (\<lambda>d. if m_DeletionTimestamp (wp_meta wp) \<noteq> None then bnd (handleDeletion L wp d) (\<lambda>res. Ret (res, cache))
         else (case d of Inl e \<Rightarrow> Ret ((no_requeue, Some e), cache) | Inr destination \<Rightarrow> reconcilePlacement L wp destination cache))) t oc"
    unfolding WorkPlacementReconcile_def exec_bnd_calls by auto
  have "t \<noteq> []" using t by (cases t1) auto
  then obtain wp where x1: "as_obj un_wp x1 = Inr wp" using rest by (cases "as_obj un_wp x1") (auto simp: exec_Ret_iff)
  obtain x t' where t': "t = (Get KDestination [] (wps_TargetDestinationName (wp_Spec wp)), x) # t'"
    and run: "exec (if m_DeletionTimestamp (wp_meta wp) \<noteq> None then bnd (handleDeletion L wp (as_obj un_dest x)) (\<lambda>res. Ret (res, cache))
         else (case as_obj un_dest x of Inl e \<Rightarrow> Ret ((no_requeue, Some e), cache) | Inr destination \<Rightarrow> reconcilePlacement L wp destination cache)) t' oc"
    using rest unfolding x1 sum.case getDestination_def exec_bnd_calls by auto
  from two [OF t [unfolded t']] obtain t0 where t0: "t1 = (Get KWorkPlacement (fst req) (snd req), x1) #
      (Get KDestination [] (wps_TargetDestinationName (wp_Spec wp)), x) # t0" "t' = t0 @ (Update (OWorkPlacement u), r) # t2" by auto
  have "m_DeletionTimestamp (wp_meta wp) \<noteq> None \<and> (\<exists>e. as_obj un_dest x = Inl e \<and> IsNotFound e) \<or>
     (\<exists>d. x = RObj (ODestination d) \<and> files_settled L wp d t0 u)"
  proof (cases "as_obj un_dest x")
    case (Inl e)
    then show ?thesis
      using run t0(2) by (auto simp: exec_Ret_iff handleDeletion_def split: if_splits)
  next
    case (Inr d)
    have "files.keeps L wp d (if m_DeletionTimestamp (wp_meta wp) \<noteq> None then bnd (handleDeletion L wp (Inr d)) (\<lambda>res. Ret (res, cache))
        else reconcilePlacement L wp d cache)"
      by (auto intro!: files.keeps_bnd files.keeps_Ret handleDeletion_guarded reconcilePlacement_guarded)
    from files.keepsD [OF this] run Inr t0(2) have "files_settled L wp d t0 u" by (auto simp: files_ok_def split: if_splits)
    with Inr show ?thesis by (auto simp: destinations.as_obj_mk)
  qed
  with t0(1) x1 show ?thesis by (auto simp: placements.as_obj_mk)
qed

subsection \<open>Directories that do not overlap\<close>

lemma dir_parts_prefix: "prefix (dir_parts a) (dir_parts b @ fs) \<Longrightarrow> dir_parts a = dir_parts b"
  by (auto simp: dir_parts_def Let_def consts_defs split: if_splits)

text \<open>
  The directories of two placements never overlap: when every part of them is a plain path component (as Kubernetes
  names are), a file below one placement's directory is below another's only when both have the same Promise,
  resource, pipeline and workload group. Removing the directory of a placement leaves the others' files alone.
\<close>

lemma placement_dirs_disjoint:
  assumes "list_all plain_name (dir_parts a)" "list_all plain_name (dir_parts b)" and "list_all plain_name file" "file \<noteq> []"
    and "exec (getDir a) ta (Returned da)" "exec (getDir b) tb (Returned db)" and "prefix (da @ ''/'') (db @ ''/'' @ join file ''/'')"
  shows "dir_parts a = dir_parts b"
proof -
  have ne: "dir_parts a \<noteq> []" "dir_parts b \<noteq> []" by (simp_all add: dir_parts_def Let_def)
  with assms have "prefix (join (dir_parts a) ''/'' @ ''/'') (join (dir_parts b @ file) ''/'')"
    by (simp add: getDir_parts [OF assms(5), THEN conjunct2] getDir_parts [OF assms(6), THEN conjunct2] Join_plain join_append list_all_iff)
  with assms ne have "strict_prefix (dir_parts a) (dir_parts b @ file)"
    by (intro join_prefix) (auto simp: plain_name_def list_all_iff)
  then show ?thesis by (auto simp: strict_prefix_def dest: dir_parts_prefix)
qed

subsection \<open>Versions\<close>

fun stored_version :: "req \<times> resp \<Rightarrow> string option" where
  "stored_version (StatusUpdate (OWorkPlacement wp), r) =
     (case as_obj un_wp r of Inr _ \<Rightarrow> Some (wpst_VersionID (wp_Status wp)) | Inl _ \<Rightarrow> None)"
| "stored_version x = None"

text \<open>
  No version is lost. The version to record is the one just written or, when nothing was written, the one kept from
  an earlier pass; afterwards it is in the placement's status, stored successfully if it was not there, or it is in the cache
  and the pass is repeated.
\<close>

lemma updateStatus_no_version_lost:
  assumes "exec (updateStatus wp v cache) t (Returned (((requeue, e), wp'), cache'))"
    and "want = (if v \<noteq> [] then v else lget cache (GetUniqueID wp))" and "want \<noteq> []"
  shows "wpst_VersionID (wp_Status wp) = want \<and> t = [] \<or> map stored_version t = [Some want] \<or>
    lget cache' (GetUniqueID wp) = want \<and> (e \<noteq> None \<or> requeue = fastRequeue)"
  using assms(1,3) unfolding assms(2) updateStatus_def Let_def call_obj_def
  by (auto simp: exec_Ret_iff exec_Call_iff set_version_def split: if_splits sum.splits)

subsection \<open>Contents\<close>

lemma decompress_compressed:
  assumes "gzip_laws L" and "list_all2 (\<lambda>w z. CompressContent L (Content w) = Inr (Content z) \<and> Filepath z = Filepath w) ws zs"
  shows "decompressWorkloads L zs = Inr ws"
  using assms(2)
proof (induction rule: list_all2_induct)
  case (Cons w ws z zs)
  have "DecompressContent L (Content z) = Inr (Content w)"
    using assms(1) Cons(1) unfolding gzip_laws_def CompressContent_def DecompressContent_def
    by (metis (no_types, lifting) b64_decode_encode old.sum.exhaust sum.inject(2) sum.simps(4-6))
  with Cons show ?case by simp
qed simp

text \<open>
  C34. On a destination of mode \<open>nestedByMetadata\<close>, one write asks the writer to replace the placement's directory by exactly
  the files that were compressed into the Work, with their original contents, and its result is the writer's.
\<close>

theorem nested_write_contents:
  assumes "gzip_laws L" and "GetFilepathMode d = FilepathModeNestedByMetadata"
    and "list_all2 (\<lambda>w z. CompressContent L (Content w) = Inr (Content z) \<and> Filepath z = Filepath w) ws (wps_Workloads (wp_Spec wp))"
    and "exec (writeWorkloadsToStateStore L w wp d) t (Returned res)"
  shows "\<exists>r. t = [(UpdateFiles w (Join (dir_parts wp)) (m_Name (wp_meta wp)) ws [], r)] \<and> res = as_str r"
  using assms(4) unfolding writeWorkloadsToStateStore_def filesToWrite_def
  by (auto simp: assms(2) decompress_compressed [OF assms(1,3)] FilepathModeNone_def FilepathModeAggregatedYAML_def
      FilepathModeNestedByMetadata_def call_str_def exec_Ret_iff exec_Call_iff
      dest!: getDir_parts elim!: exec_bndE)

subsection \<open>Examples\<close>

definition ex_loaded :: WorkPlacement where
  "ex_loaded = (ex_placement ''w'' ''d1'')\<lparr>wp_Spec := (wp_Spec (ex_placement ''w'' ''d1''))\<lparr>wps_Workloads :=
     [\<lparr>Filepath = ''a.yaml'', Content = b64_encode ''kind''\<rparr>]\<rparr>\<rparr>"

lemma ex_loaded_content:
  "decompressWorkloads plain_lib (wps_Workloads (wp_Spec ex_loaded)) = Inr [\<lparr>Filepath = ''a.yaml'', Content = ''kind''\<rparr>]"
  by (simp add: ex_loaded_def DecompressContent_def b64_decode_encode plain_lib_def del: b64_encode.simps)

lemma ex_loaded_facts:
  "GetFilepathMode (ex_destination d) = FilepathModeNestedByMetadata" "m_Name (wp_meta ex_loaded) = ''w''"
  "length (wps_ID (wp_Spec ex_loaded)) \<ge> 5"
  by (simp_all add: ex_destination_def GetFilepathMode_def FilepathModeNestedByMetadata_def ex_loaded_def ex_placement_def ex_meta_def)

theorem nested_write_contents_witness:
  "\<exists>t. exec (writeWorkloadsToStateStore plain_lib (WriterHandle ''b'') ex_loaded (ex_destination ''d1'')) t (Returned (Inr ''v1'')) \<and>
     t = [(UpdateFiles (WriterHandle ''b'') (Join (dir_parts ex_loaded)) ''w'' [\<lparr>Filepath = ''a.yaml'', Content = ''kind''\<rparr>] [], RStr ''v1'')]"
proof -
  let ?p = "writeWorkloadsToStateStore plain_lib (WriterHandle ''b'') ex_loaded (ex_destination ''d1'')"
  have "\<exists>t. script ?p [RStr ''v1''] = Some (t, Returned (Inr ''v1'')) \<and> map snd t = [RStr ''v1'']"
    using ex_loaded_facts(3)
    by (simp add: writeWorkloadsToStateStore_def filesToWrite_def getDir_def shortID_def slice_to_def ex_loaded_content ex_loaded_facts(1,2)
        FilepathModeNone_def FilepathModeAggregatedYAML_def FilepathModeNestedByMetadata_def call_defs)
  then obtain t where e: "exec ?p t (Returned (Inr ''v1''))" and r: "map snd t = [RStr ''v1'']"
    by (metis script_exec)
  have "list_all2 (\<lambda>w z. CompressContent plain_lib (Content w) = Inr (Content z) \<and> Filepath z = Filepath w)
      [\<lparr>Filepath = ''a.yaml'', Content = ''kind''\<rparr>] (wps_Workloads (wp_Spec ex_loaded))"
    by (simp add: ex_loaded_def CompressContent_def plain_lib_def)
  from nested_write_contents [OF plain_gzip_laws ex_loaded_facts(1) this e] e r show ?thesis
    by (auto simp: ex_loaded_facts(2))
qed

theorem updateStatus_no_version_lost_witness:
  "\<exists>t cache'. exec (updateStatus (ex_placement ''w'' ''d1'') ''v1'' fmempty) t
       (Returned (((fastRequeue, None), set_version (ex_placement ''w'' ''d1'') ''v1''), cache')) \<and>
     lget cache' (GetUniqueID (ex_placement ''w'' ''d1'')) = ''v1''"
proof -
  let ?wp = "ex_placement ''w'' ''d1''"
  have "\<exists>t c. script (updateStatus ?wp ''v1'' fmempty) [RErr (EApi ReasonConflict [])] =
      Some (t, Returned (((fastRequeue, None), set_version ?wp ''v1''), c)) \<and> map stored_version t = [None]"
    by (simp add: updateStatus_def call_defs Let_def ex_placement_def)
  then obtain t c where e: "exec (updateStatus ?wp ''v1'' fmempty) t (Returned (((fastRequeue, None), set_version ?wp ''v1''), c))"
    and s: "map stored_version t = [None]" by (metis script_exec)
  from updateStatus_no_version_lost [OF e refl] e s show ?thesis by auto
qed

definition ex_piped :: "string \<Rightarrow> WorkPlacement" where
  "ex_piped dest = set_wp_labels (ex_placement ''w'' dest) (fmupd PipelineNameLabel ''deploy'' fmempty)"

theorem placement_dirs_disjoint_witness:
  "\<exists>da db. exec (getDir (ex_piped ''d1'') :: string go) [] (Returned da) \<and> exec (getDir (ex_piped ''d2'') :: string go) [] (Returned db) \<and>
     prefix (da @ ''/'') (db @ ''/'' @ join [''a.yaml''] ''/'') \<and> dir_parts (ex_piped ''d1'') = dir_parts (ex_piped ''d2'')"
proof -
  have parts: "dir_parts (ex_piped d) = [''resources'', ''default'', ''redis'', ''rr'', ''deploy'', ''5058f'']" for d
    by (simp add: dir_parts_def ex_piped_def ex_defs PipelineName_def wp_labels_def set_wp_labels_def consts_defs)
  have ex: "exec (getDir (ex_piped d) :: string go) [] (Returned (Join (dir_parts (ex_piped d))))" for d
    by (simp add: getDir_def shortID_def slice_to_def dir_parts_def ex_piped_def ex_placement_def set_wp_labels_def exec_Ret_iff)
  have "list_all plain_name (dir_parts (ex_piped d))" "list_all plain_name [''a.yaml'']" for d
    by (simp_all add: parts plain_name_def)
  moreover have "prefix (Join (dir_parts (ex_piped ''d1'')) @ ''/'') (Join (dir_parts (ex_piped ''d2'')) @ ''/'' @ join [''a.yaml''] ''/'')"
    by (simp add: parts)
  ultimately show ?thesis using placement_dirs_disjoint [OF _ _ _ _ ex ex] ex by blast
qed

text \<open>A placement on a destination of mode \<open>nestedByMetadata\<close> that is being deleted.\<close>

definition ex_deleted :: WorkPlacement where
  "ex_deleted = (ex_piped ''d1'')\<lparr>wp_meta := (wp_meta (ex_piped ''d1''))\<lparr>m_DeletionTimestamp := Some 3,
     m_Finalizers := [repoCleanupWorkPlacementFinalizer]\<rparr>\<rparr>"

theorem WorkPlacement_updated_after_files_witness:
  "\<exists>t1 u r t2. exec (WorkPlacementReconcile plain_lib (''default'', ''w'') fmempty) (t1 @ (Update (OWorkPlacement u), r) # t2)
       (Returned ((fastRequeue, None), fmempty)) \<and>
     (\<exists>w x v. (UpdateFiles w (Join (dir_parts ex_deleted) @ ''/'') ''w'' [] [], x) \<in> set t1 \<and> as_str x = Inr v) \<and>
     u = removeFinalizer plain_lib ex_deleted repoCleanupWorkPlacementFinalizer"
proof -
  let ?p = "WorkPlacementReconcile plain_lib (''default'', ''w'') fmempty"
  let ?b = "OBucketStateStore ex_bucket"
  let ?rs = "[RObj (OWorkPlacement ex_deleted), RObj (ODestination (ex_destination ''d1'')), RObj ?b, RWriter (WriterHandle ''b''), RStr ''v2'', ROk]"
  have "\<exists>q1 q2 t u. script ?p ?rs = Some (((q1, RObj (OWorkPlacement ex_deleted)) # (q2, RObj (ODestination (ex_destination ''d1''))) # t) @
      [(Update (OWorkPlacement u), ROk)], Returned ((fastRequeue, None), fmempty))"
    by (simp add: WorkPlacementReconcile_def getDestination_def handleDeletion_def deleteWorkPlacement_def deletePlacementFiles_def
        newDestinationWriter_def newWriter_def fetchObjectAndSecret_def bucket_store_def ex_bucket_def BucketGetSecretRef_def
        workloadsToDelete_def WorkPlacementDelete_def getDir_def shortID_def slice_to_def ex_deleted_def ex_piped_def set_wp_labels_def
        GetFilepathMode_def removeFinalizer_def wp_finalizers_def set_wp_finalizers_def consts_defs call_defs ex_defs plain_lib_simps Let_def)
  then obtain q1 q2 t u where e: "exec ?p (((q1, RObj (OWorkPlacement ex_deleted)) # (q2, RObj (ODestination (ex_destination ''d1''))) # t) @
      (Update (OWorkPlacement u), ROk) # []) (Returned ((fastRequeue, None), fmempty))"
    using script_exec by blast
  from WorkPlacement_updated_after_files [OF e] have "files_settled plain_lib ex_deleted (ex_destination ''d1'') t u"
    by (auto simp: as_obj_def)
  moreover have "m_DeletionTimestamp (wp_meta ex_deleted) \<noteq> None" "m_Name (wp_meta ex_deleted) = ''w''"
    "L_ContainsFinalizer plain_lib (wp_finalizers ex_deleted) repoCleanupWorkPlacementFinalizer"
    "GetFilepathMode (ex_destination ''d1'') = ''nestedByMetadata''"
    by (simp_all add: ex_deleted_def ex_piped_def set_wp_labels_def ex_defs plain_lib_def wp_finalizers_def GetFilepathMode_def)
  ultimately have "(\<exists>w x v. (UpdateFiles w (Join (dir_parts ex_deleted) @ ''/'') ''w'' [] [], x) \<in> set t \<and> as_str x = Inr v) \<and>
     u = removeFinalizer plain_lib ex_deleted repoCleanupWorkPlacementFinalizer"
    by (auto simp: files_settled_def to_remove_def)
  with e show ?thesis by (metis list.set_intros(2))
qed

end
