(* ===== verification/StateFiles.thy ===== *)
theory StateFiles
  imports WorkPlacementController
begin

text \<open>
  The state files of placements on destinations of mode \<open>none\<close> (\<open>src/internal/controller/workplacement_controller.go\<close>).
  There a placement has no directory of its own; which files are its own is known only from its state file
  \<open>.kratix/<namespace>-<name>.yaml\<close>. The store is seen as a map from paths to contents that a writer updates at once or not
  at all. This is an assumption on the writer: the git writer satisfies it (\<open>git_writer\<close> in \<^verbatim>\<open>GitWriter\<close>), the bucket writer does
  not, for an update of a bucket that fails midway has written some of its objects and the properties of this theory do not
  hold then (\<open>failed_update_orphans_file\<close> in \<^verbatim>\<open>S3Writer\<close>). The life of a placement's files is a transition system whose steps are passes of the controller and changes by
  others; the invariant is that the state file lists every file of the placement, and it makes the clean-up complete.
\<close>

subsection \<open>A store behind a writer\<close>

type_synonym store = "string \<rightharpoonup> string"

definition update_store :: "store \<Rightarrow> Workload list \<Rightarrow> string list \<Rightarrow> store" where
  "update_store m cs ds = (m |` (- set ds)) ++ map_of (rev (map (\<lambda>w. (Filepath w, Content w)) cs))"

fun file_request :: "req \<Rightarrow> bool" where
  "file_request (WriterReadFile w p) = True"
| "file_request (UpdateFiles w dir n cs ds) = True"
| "file_request q = False"

text \<open>
  A trace of the controller against an atomic store: an update that succeeds is carried out, one that fails changes nothing,
  and a read says that a file is not found only if it is not there.
\<close>

inductive atomically_served :: "writer \<Rightarrow> store \<Rightarrow> gtrace \<Rightarrow> store \<Rightarrow> bool" for w where
  served_Nil: "atomically_served w m [] m"
| served_Read: "as_str r = (case m p of Some c \<Rightarrow> Inr c | None \<Rightarrow> Inl EFileNotFound) \<Longrightarrow> atomically_served w m t m' \<Longrightarrow>
    atomically_served w m ((WriterReadFile w p, r) # t) m'"
| served_Read_fails: "as_str r = Inl e \<Longrightarrow> \<not> IsFileNotFound e \<Longrightarrow> atomically_served w m t m' \<Longrightarrow> atomically_served w m ((WriterReadFile w p, r) # t) m'"
| served_Update: "as_str r = Inr v \<Longrightarrow> atomically_served w (update_store m cs ds) t m' \<Longrightarrow> atomically_served w m ((UpdateFiles w [] n cs ds, r) # t) m'"
| served_Update_fails: "as_str r = Inl e \<Longrightarrow> atomically_served w m t m' \<Longrightarrow> atomically_served w m ((UpdateFiles w [] n cs ds, r) # t) m'"
| served_Other: "\<not> file_request q \<Longrightarrow> atomically_served w m t m' \<Longrightarrow> atomically_served w m ((q, r) # t) m'"

inductive_simps served_Nil_iff [simp]: "atomically_served w m [] m'"
inductive_simps served_Read_iff: "atomically_served w m ((WriterReadFile w p, r) # t) m'"
inductive_simps served_Update_iff: "atomically_served w m ((UpdateFiles w [] n cs ds, r) # t) m'"
inductive_simps served_Cons_iff: "atomically_served w m ((q, r) # t) m'"

lemma served_quiet: "atomically_served w m (t1 @ t2) m' \<Longrightarrow> list_all (\<lambda>x. \<not> file_request (fst x)) t1 \<Longrightarrow> atomically_served w m t2 m'"
  by (induction t1) (auto simp: served_Cons_iff)

text \<open>What the state file lists; without one, nothing.\<close>

definition listing :: "lib \<Rightarrow> store \<Rightarrow> string \<Rightarrow> err + string list" where
  "listing L m p = L_UnmarshalStateFile L (case m p of None \<Rightarrow> [] | Some s \<Rightarrow> s)"

lemma update_store_outside:
  "f \<notin> set ds \<Longrightarrow> f \<notin> set (map Filepath cs) \<Longrightarrow> update_store m cs ds f = m f"
  by (auto simp: update_store_def map_add_def restrict_map_def map_of_eq_None_iff split: option.split dest!: map_of_SomeD)

lemma update_store_first:
  "Filepath c \<notin> set (map Filepath cs) \<Longrightarrow> update_store m (c # cs) ds (Filepath c) = Some (Content c)"
  by (auto simp: update_store_def map_add_def split: option.split dest!: map_of_SomeD)

lemma update_store_dom: "dom (update_store m cs ds) = (dom m - set ds) \<union> set (map Filepath cs)"
  by (auto simp: update_store_def dom_map_of_conv_image_fst image_image)

subsection \<open>Writing\<close>

text \<open>How a pass in mode \<open>none\<close> talks to the writer.\<close>

definition state_file :: "WorkPlacement \<Rightarrow> string \<Rightarrow> Workload" where
  "state_file wp s = \<lparr>Filepath = kratixFilePath wp, Content = s\<rparr>"

lemma write_none_shape:
  assumes "exec (writeWorkloadsToStateStore L w wp d) t (Returned res)" and "GetFilepathMode d = FilepathModeNone"
  shows "\<exists>r. t = [(WriterReadFile w (kratixFilePath wp), r)] \<and> (\<exists>e. res = Inl e) \<or>
    (\<exists>r' old s ws. t = [(WriterReadFile w (kratixFilePath wp), r),
         (UpdateFiles w [] (m_Name (wp_meta wp)) (state_file wp s # ws) (cleanupWorkloads old (wps_Workloads (wp_Spec wp))), r')] \<and>
       res = as_str r' \<and> ((\<exists>e. as_str r = Inl e \<and> IsFileNotFound e \<and> L_UnmarshalStateFile L [] = Inr old) \<or>
         (\<exists>c. as_str r = Inr c \<and> L_UnmarshalStateFile L c = Inr old)) \<and>
       L_MarshalStateFile L (map Filepath (wps_Workloads (wp_Spec wp))) = Inr s \<and> decompressWorkloads L (wps_Workloads (wp_Spec wp)) = Inr ws)"
  using assms unfolding writeWorkloadsToStateStore_def filesToWrite_def generateKratixStateFile_def getDir_def shortID_def slice_to_def
  by (auto simp: exec_bnd_calls exec_Ret_iff exec_Panic_iff call_str_def exec_Call_iff Let_def state_file_def workloadsFilenames_def
      ignoreNotFound_def FilepathModeNone_def FilepathModeAggregatedYAML_def elim!: exec_bndE split: if_splits sum.splits option.splits)

lemma decompress_paths: "decompressWorkloads L ws = Inr ws' \<Longrightarrow> map Filepath ws' = map Filepath ws"
  by (induction ws arbitrary: ws') (auto split: sum.splits)

definition own_names :: "WorkPlacement \<Rightarrow> string set" where
  "own_names wp = Filepath ` set (wps_Workloads (wp_Spec wp))"

lemma write_none_effect:
  assumes run: "exec (writeWorkloadsToStateStore L w wp d) t (Returned res)" and mode: "GetFilepathMode d = FilepathModeNone"
    and srv: "atomically_served w m t m'" and laws: "statefile_laws L" and names: "kratixFilePath wp \<notin> own_names wp"
  shows "(\<exists>e. res = Inl e) \<and> m' = m \<or>
    (\<exists>v old. res = Inr v \<and> listing L m (kratixFilePath wp) = Inr old \<and> dom m' = (dom m - (set old - own_names wp)) \<union> own_names wp \<union> {kratixFilePath wp} \<and>
       (\<exists>fs. listing L m' (kratixFilePath wp) = Inr fs \<and> set fs = own_names wp))"
proof -
  let ?p = "kratixFilePath wp"
  from write_none_shape [OF run mode] obtain r where
    "t = [(WriterReadFile w ?p, r)] \<and> (\<exists>e. res = Inl e) \<or> (\<exists>r' old s ws. t = [(WriterReadFile w ?p, r),
         (UpdateFiles w [] (m_Name (wp_meta wp)) (state_file wp s # ws) (cleanupWorkloads old (wps_Workloads (wp_Spec wp))), r')] \<and>
       res = as_str r' \<and> ((\<exists>e. as_str r = Inl e \<and> IsFileNotFound e \<and> L_UnmarshalStateFile L [] = Inr old) \<or>
         (\<exists>c. as_str r = Inr c \<and> L_UnmarshalStateFile L c = Inr old)) \<and>
       L_MarshalStateFile L (map Filepath (wps_Workloads (wp_Spec wp))) = Inr s \<and> decompressWorkloads L (wps_Workloads (wp_Spec wp)) = Inr ws)"
    (is "?failed \<or> (\<exists>r' old s ws. ?written r' old s ws)") by blast
  then consider "?failed" | r' old s ws where "?written r' old s ws" by blast
  then show ?thesis
  proof cases
    case 1
    then show ?thesis using srv by (auto simp: served_Read_iff)
  next
    case 2
    let ?cs = "state_file wp s # ws" and ?ds = "cleanupWorkloads old (wps_Workloads (wp_Spec wp))"
    have paths: "set (map Filepath ws) = own_names wp"
      using 2 decompress_paths [of L _ ws] by (auto simp: own_names_def simp flip: set_map)
    have listed: "listing L m ?p = Inr old"
      using 2 srv by (auto simp: served_Read_iff listing_def split: option.splits)
    have "as_str r' = Inr v \<Longrightarrow> m' = update_store m ?cs ?ds" and "as_str r' = Inl e \<Longrightarrow> m' = m" for v e
      using 2 srv by (auto simp: served_Read_iff served_Update_iff split: option.splits)
    moreover have "listing L (update_store m ?cs ?ds) ?p = Inr (map Filepath (wps_Workloads (wp_Spec wp)))"
      using update_store_first [of "state_file wp s" ws m ?ds] names paths laws 2
      by (simp add: listing_def statefile_laws_def state_file_def)
    moreover have "dom (update_store m ?cs ?ds) = (dom m - (set old - own_names wp)) \<union> own_names wp \<union> {?p}"
      unfolding update_store_dom using paths by (auto simp: cleanupWorkloads_def own_names_def state_file_def)
    ultimately show ?thesis using listed 2 by (cases "as_str r'") (auto simp: own_names_def)
  qed
qed

subsection \<open>The life of a placement's files\<close>

text \<open>
  The files a placement (with state file \<open>p\<close>) has in an atomic store: it starts with none, passes of the controller that
  return, one after the other, write the workloads of the day to a destination of mode \<open>none\<close>, none of them to the path of
  the state file, and others change the store without touching the placement's files and its state file.
\<close>

inductive owns :: "lib \<Rightarrow> string \<Rightarrow> store \<Rightarrow> string set \<Rightarrow> bool" for L p where
  owns_new: "m p = None \<Longrightarrow> owns L p m {}"
| owns_written: "owns L p m F \<Longrightarrow> kratixFilePath wp = p \<Longrightarrow> p \<notin> own_names wp \<Longrightarrow> GetFilepathMode d = FilepathModeNone \<Longrightarrow>
    exec (writeWorkloadsToStateStore L w wp d) t (Returned res) \<Longrightarrow> atomically_served w m t m' \<Longrightarrow>
    owns L p m' (case res of Inl _ \<Rightarrow> F | Inr _ \<Rightarrow> (F \<inter> dom m') \<union> own_names wp)"
| owns_others: "owns L p m F \<Longrightarrow> (\<And>f. f \<in> insert p F \<Longrightarrow> m' f = m f) \<Longrightarrow> owns L p m' F"

lemma owned_listed:
  assumes "statefile_laws L" and "owns L p m F"
  shows "\<exists>fs. listing L m p = Inr fs \<and> F \<subseteq> set fs \<and> p \<notin> F"
  using assms(2)
proof induction
  case (owns_new m)
  then show ?case using assms(1) by (simp add: listing_def statefile_laws_def)
next
  case (owns_written m F wp d w t res m')
  from write_none_effect [OF owns_written.hyps(5,4,6) assms(1)] owns_written.hyps(2,3) owns_written.IH show ?case
    by (fastforce split: sum.splits)
next
  case (owns_others m F m')
  then show ?case by (simp add: listing_def)
qed

text \<open>
  C4. In a store whose updates happen at once or not at all, the state file of a placement lists every file the placement has
  there: whatever workloads its passes wrote and whichever of their requests failed, provided that the workloads do not include the
  state file itself and that others touch neither these files nor the state file. The git writer is such a store; the
  bucket writer is not when an update fails midway, and then files do go missing from the list
  (\<open>failed_update_orphans_file\<close>).
\<close>

theorem owned_files_listed:
  assumes "statefile_laws L" and "owns L p m F"
  shows "\<exists>fs. listing L m p = Inr fs \<and> F \<subseteq> set fs \<and> p \<notin> F"
  using assms by (rule owned_listed)

subsection \<open>Cleaning up\<close>

lemma delete_shape:
  assumes "exec (WorkPlacementDelete L (Some w) dir wp files f) t (Returned (rq, None))"
  shows "\<exists>r r'. t = [(UpdateFiles w dir (m_Name (wp_meta wp)) [] files, r), (Update (OWorkPlacement (removeFinalizer L wp f)), r')] \<and>
    (\<exists>v. as_str r = Inr v)"
  using assms unfolding WorkPlacementDelete_def deleteError_def
  by (auto simp: exec_bnd_calls exec_Ret_iff call_str_def exec_Call_iff split: sum.splits option.splits) (metis old.sum.exhaust)+

lemma deleted_from_store:
  assumes "exec (WorkPlacementDelete L (Some w) [] wp files f) t (Returned (rq, None))" and "atomically_served w m t m'"
  shows "m' = update_store m [] files"
  using delete_shape [OF assms(1)] assms(2) by (auto simp: served_Cons_iff)

lemma exec_call_str: "exec (call_str q) t (Returned x) \<longleftrightarrow> (\<exists>r. t = [(q, r)] \<and> x = as_str r)"
  by (auto simp: call_str_def exec_Call_iff exec_Ret_iff)

lemma repo_cleanup_shape:
  assumes "exec (deletePlacementFiles L (Some d) (Some w) wp FilepathModeNone) t (Returned (rq, None))"
    and "L_ContainsFinalizer L (wp_finalizers wp) repoCleanupWorkPlacementFinalizer"
  shows "\<exists>r t' c files. t = (WriterReadFile w (kratixFilePath wp), r) # t' \<and> as_str r = Inr c \<and> L_UnmarshalStateFile L c = Inr files \<and>
    exec (WorkPlacementDelete L (Some w) [] wp files repoCleanupWorkPlacementFinalizer) t' (Returned (rq, None))"
  using assms unfolding deletePlacementFiles_def workloadsToDelete_def Let_def deleteError_def
  by (auto simp: exec_bnd_calls exec_Ret_iff exec_Call_iff exec_call_str FilepathModeNone_def FilepathModeNestedByMetadata_def
      elim!: exec_bndE split: sum.splits)

text \<open>
  C12. In a store whose updates happen at once or not at all, the clean-up of a placement in mode \<open>none\<close> is complete. If the
  placement's files came about as in \<open>owns\<close> (passes against such a store, others touching neither them nor the state file), the
  pass that removes the repository finalizer leaves none of them in the store; the pass that removes the second finalizer removes
  the state file itself. In a bucket this fails after an update that failed midway (\<open>failed_update_orphans_file\<close>).
\<close>

theorem placement_cleanup_complete:
  assumes "statefile_laws L" and "owns L (kratixFilePath wp) m F"
    and "exec (deletePlacementFiles L (Some d) (Some w) wp FilepathModeNone) t (Returned (fastRequeue, None))" and "atomically_served w m t m'"
  shows "if L_ContainsFinalizer L (wp_finalizers wp) repoCleanupWorkPlacementFinalizer then F \<inter> dom m' = {}
    else m' (kratixFilePath wp) = None"
proof (cases "L_ContainsFinalizer L (wp_finalizers wp) repoCleanupWorkPlacementFinalizer")
  case True
  from repo_cleanup_shape [OF assms(3) True] obtain r t' c files where t: "t = (WriterReadFile w (kratixFilePath wp), r) # t'"
    and c: "as_str r = Inr c" "L_UnmarshalStateFile L c = Inr files"
    and del: "exec (WorkPlacementDelete L (Some w) [] wp files repoCleanupWorkPlacementFinalizer) t' (Returned (fastRequeue, None))"
    by blast
  from assms(4) t c have srv: "atomically_served w m t' m'" and "listing L m (kratixFilePath wp) = Inr files"
    by (auto simp: served_Read_iff listing_def split: option.splits)
  with owned_listed [OF assms(1,2)] have "F \<subseteq> set files" by simp
  with deleted_from_store [OF del srv] True show ?thesis by (auto simp: update_store_def)
next
  case False
  with assms(3) have "exec (WorkPlacementDelete L (Some w) [] wp [kratixFilePath wp] kratixFileCleanupWorkPlacementFinalizer) t
      (Returned (fastRequeue, None))"
    unfolding deletePlacementFiles_def Let_def
    by (auto simp: exec_Ret_iff FilepathModeNone_def FilepathModeNestedByMetadata_def fastRequeue_def no_requeue_def second_def
        split: if_splits)
  from deleted_from_store [OF this assms(4)] False show ?thesis by (simp add: update_store_def)
qed

subsection \<open>An example\<close>

definition ex_none_destination :: Destination where
  "ex_none_destination = (ex_destination ''d1'')\<lparr>d_FilepathMode := FilepathModeNone\<rparr>"

definition ex_none_placement :: WorkPlacement where
  "ex_none_placement = (ex_placement ''w'' ''d1'')\<lparr>wp_Spec := (wp_Spec (ex_placement ''w'' ''d1''))\<lparr>wps_Workloads :=
     [\<lparr>Filepath = ''a'', Content = []\<rparr>]\<rparr>\<rparr>"

text \<open>The store after the first pass: the placement's file and the state file that lists it.\<close>

definition ex_created :: "Workload list" where
  "ex_created = [state_file ex_none_placement (plain_statefile [''a'']), \<lparr>Filepath = ''a'', Content = []\<rparr>]"

definition ex_store :: store where
  "ex_store = update_store Map.empty ex_created []"

definition ex_writer :: writer where "ex_writer = WriterHandle ''bucket''"

lemma ex_first_pass:
  "exec (writeWorkloadsToStateStore plain_lib ex_writer ex_none_placement ex_none_destination)
     [(WriterReadFile ex_writer (kratixFilePath ex_none_placement), RErr EFileNotFound),
      (UpdateFiles ex_writer [] ''w'' ex_created [], RStr ''v1'')] (Returned (Inr ''v1''))"
  by (rule script_exec [where rs = "[RErr EFileNotFound, RStr ''v1'']"])
    (simp add: writeWorkloadsToStateStore_def filesToWrite_def generateKratixStateFile_def getDir_def shortID_def slice_to_def
      ex_none_placement_def ex_none_destination_def ex_created_def state_file_def cleanupWorkloads_def workloadsFilenames_def ignoreNotFound_def
      GetFilepathMode_def FilepathModeNone_def FilepathModeAggregatedYAML_def DecompressContent_def b64_decode_def
      call_defs ex_defs plain_lib_simps Let_def)

lemma ex_store_owns: "owns plain_lib (kratixFilePath ex_none_placement) ex_store {''a''}"
proof -
  have "atomically_served ex_writer Map.empty [(WriterReadFile ex_writer (kratixFilePath ex_none_placement), RErr EFileNotFound),
      (UpdateFiles ex_writer [] ''w'' ex_created [], RStr ''v1'')] ex_store"
    by (auto simp: served_Read_iff served_Update_iff ex_store_def as_str_def)
  from owns_written [OF owns_new _ _ _ ex_first_pass this, where p = "kratixFilePath ex_none_placement"] show ?thesis
    by (simp add: own_names_def ex_none_placement_def kratixFilePath_def ex_none_destination_def GetFilepathMode_def FilepathModeNone_def)
qed

theorem owned_files_listed_witness:
  "statefile_laws plain_lib \<and> owns plain_lib (kratixFilePath ex_none_placement) ex_store {''a''} \<and>
   (\<exists>fs. listing plain_lib ex_store (kratixFilePath ex_none_placement) = Inr fs \<and> {''a''} \<subseteq> set fs)"
  using owned_files_listed [OF plain_statefile_laws ex_store_owns] plain_statefile_laws ex_store_owns by blast

text \<open>The placement is deleted: the first pass removes its file.\<close>

definition ex_leaving :: WorkPlacement where
  "ex_leaving = set_wp_finalizers ex_none_placement [repoCleanupWorkPlacementFinalizer, kratixFileCleanupWorkPlacementFinalizer]"

theorem placement_cleanup_complete_witness:
  "\<exists>t m'. exec (deletePlacementFiles plain_lib (Some ex_none_destination) (Some ex_writer) ex_leaving FilepathModeNone) t
       (Returned (fastRequeue, None)) \<and> atomically_served ex_writer ex_store t m' \<and> {''a''} \<inter> dom m' = {}"
proof -
  let ?p = "deletePlacementFiles plain_lib (Some ex_none_destination) (Some ex_writer) ex_leaving FilepathModeNone"
  let ?c = "plain_statefile [''a'']"
  let ?t = "[(WriterReadFile ex_writer (kratixFilePath ex_leaving), RStr ?c), (UpdateFiles ex_writer [] ''w'' [] [''a''], RStr ''v2''),
    (Update (OWorkPlacement (removeFinalizer plain_lib ex_leaving repoCleanupWorkPlacementFinalizer)), ROk)]"
  have path: "kratixFilePath ex_leaving = kratixFilePath ex_none_placement"
    by (simp add: ex_leaving_def kratixFilePath_def set_wp_finalizers_def)
  have fin: "L_ContainsFinalizer plain_lib (wp_finalizers ex_leaving) repoCleanupWorkPlacementFinalizer"
    by (simp add: plain_lib_def ex_leaving_def wp_finalizers_def set_wp_finalizers_def)
  have e: "exec ?p ?t (Returned (fastRequeue, None))"
    by (rule script_exec [where rs = "[RStr ?c, RStr ''v2'', ROk]"])
      (simp add: deletePlacementFiles_def workloadsToDelete_def WorkPlacementDelete_def FilepathModeNone_def FilepathModeNestedByMetadata_def
        ex_leaving_def wp_finalizers_def set_wp_finalizers_def ex_none_placement_def plain_statefile_def removeFinalizer_def
        call_defs ex_defs plain_lib_simps consts_defs Let_def)
  have "kratixFilePath ex_none_placement \<noteq> ''a''" by (simp add: kratixFilePath_def)
  then have "ex_store (kratixFilePath ex_none_placement) = Some ?c"
    by (simp add: ex_store_def ex_created_def update_store_def state_file_def)
  then have s: "atomically_served ex_writer ex_store ?t (update_store ex_store [] [''a''])"
    by (auto simp: path served_Read_iff served_Cons_iff as_str_def)
  have "{''a''} \<inter> dom (update_store ex_store [] [''a'']) = {}"
    using placement_cleanup_complete [OF plain_statefile_laws ex_store_owns [folded path] e s] fin by simp
  with e s show ?thesis by blast
qed

end
