(* ===== verification/Writers.thy ===== *)
theory Writers
  imports StateFiles
begin

text \<open>
  The interface \<open>StateStoreWriter\<close> of \<open>src/lib/writers\<close>, as its clients rely on it.

  \<^item> \<open>service\<close>: whatever a writer sends its requests to (an object store, a git server and the local disk) keeps a state;
    a trace of requests and responses takes it from one state to another. A program is then a step between states.
  \<^item> \<open>store_writer\<close>: what an update and a read promise of the files below the writer's path. A read after an update
    gives what the update wrote.
  \<^item> \<open>atomic_writer\<close>: an update that fails changes nothing. The controller of placements is verified against such a
    store (\<^verbatim>\<open>StateFiles\<close>), so all of that holds for a writer of this kind.
\<close>

subsection \<open>Programs as steps of a service\<close>

locale service =
  fixes serves :: "'s \<Rightarrow> ('q \<times> 'r) list \<Rightarrow> 's \<Rightarrow> bool"
  assumes serves_Nil: "serves S [] S' \<longleftrightarrow> S' = S"
    and serves_append: "serves S (t1 @ t2) S' \<Longrightarrow> \<exists>S1. serves S t1 S1 \<and> serves S1 t2 S'"
begin

text \<open>\<open>against p S Q\<close>: started in the state \<open>S\<close>, \<open>p\<close> ends with a state and an outcome that satisfy \<open>Q\<close>.\<close>

definition against :: "('q, 'r, 'a) prog \<Rightarrow> 's \<Rightarrow> ('s \<Rightarrow> 'a outcome \<Rightarrow> bool) \<Rightarrow> bool" where
  "against p S Q \<longleftrightarrow> (\<forall>t oc S'. exec p t oc \<longrightarrow> serves S t S' \<longrightarrow> Q S' oc)"

lemma againstD: "against p S Q \<Longrightarrow> exec p t oc \<Longrightarrow> serves S t S' \<Longrightarrow> Q S' oc"
  by (simp add: against_def)

lemma against_mono: "against p S Q \<Longrightarrow> (\<And>S' oc. Q S' oc \<Longrightarrow> R S' oc) \<Longrightarrow> against p S R"
  by (simp add: against_def)

lemma against_Ret [simp]: "against (Ret x) S Q \<longleftrightarrow> Q S (Returned x)"
  by (auto simp: against_def exec_Ret_iff serves_Nil)

lemma against_Panic [simp]: "against (Panic m) S Q \<longleftrightarrow> Q S (Panicked m)"
  by (auto simp: against_def exec_Panic_iff serves_Nil)

lemma against_Call: "against (Call q k) S Q \<longleftrightarrow> (\<forall>r t oc S'. exec (k r) t oc \<longrightarrow> serves S ((q, r) # t) S' \<longrightarrow> Q S' oc)"
  by (auto simp: against_def exec_Call_iff)

lemma against_bnd:
  assumes "against p S P" and "\<And>S' x. P S' (Returned x) \<Longrightarrow> against (f x) S' Q" and "\<And>S' m. P S' (Panicked m) \<Longrightarrow> Q S' (Panicked m)"
  shows "against (bnd p f) S Q"
  unfolding against_def
proof (intro allI impI)
  fix t oc S'
  assume "exec (bnd p f) t oc" and s: "serves S t S'"
  then show "Q S' oc"
  proof (cases rule: exec_bndE)
    case (Returned t1 t2 x)
    from serves_append [of S t1 t2 S'] s Returned(1) obtain S1 where "serves S t1 S1" "serves S1 t2 S'" by blast
    with Returned assms(1,2) show ?thesis by (meson againstD)
  next
    case (Panicked m)
    with s assms(1,3) show ?thesis by (meson againstD)
  qed
qed

lemma against_if: "(b \<Longrightarrow> against p S Q) \<Longrightarrow> (\<not> b \<Longrightarrow> against p' S Q) \<Longrightarrow> against (if b then p else p') S Q"
  by simp

lemma against_for_range:
  assumes "I [] S s"
    and "\<And>pre x rest S s. xs = pre @ x # rest \<Longrightarrow> I pre S s \<Longrightarrow>
      against (f x s) S (\<lambda>S' oc. case oc of
          Returned (Next s') \<Rightarrow> I (pre @ [x]) S' s'
        | Returned (Leave b) \<Rightarrow> Q S' (Returned (Leave b))
        | Panicked m \<Rightarrow> Q S' (Panicked m))"
    and "\<And>S s. I xs S s \<Longrightarrow> Q S (Returned (Next s))"
  shows "against (for_range xs s f) S Q"
proof -
  have "against (for_range rest s f) S Q" if "xs = pre @ rest" and "I pre S s" for pre rest s S
    using that
  proof (induction rest arbitrary: pre s S)
    case Nil
    then show ?case using assms(3) by simp
  next
    case (Cons x rest)
    show ?case
      unfolding for_range.simps
    proof (rule against_bnd [OF assms(2) [OF Cons.prems]], goal_cases)
      case (1 S' l)
      then show ?case using Cons.prems(1) Cons.IH [of "pre @ [x]"] by (cases l) auto
    qed auto
  qed
  from this [of "[]" xs S s] assms(1) show ?thesis by simp
qed

end

text \<open>A service given by what one request with its response does to the state.\<close>

inductive steps :: "('s \<Rightarrow> 'q \<Rightarrow> 'r \<Rightarrow> 's \<Rightarrow> bool) \<Rightarrow> 's \<Rightarrow> ('q \<times> 'r) list \<Rightarrow> 's \<Rightarrow> bool" for step where
  steps_Nil: "steps step S [] S"
| steps_Cons: "step S q r S1 \<Longrightarrow> steps step S1 t S' \<Longrightarrow> steps step S ((q, r) # t) S'"

inductive_simps steps_Nil_iff [simp]: "steps step S [] S'"
inductive_simps steps_Cons_iff: "steps step S ((q, r) # t) S'"

lemma steps_append: "steps step S (t1 @ t2) S' \<longleftrightarrow> (\<exists>S1. steps step S t1 S1 \<and> steps step S1 t2 S')"
proof (induction t1 arbitrary: S)
  case (Cons x t1)
  then show ?case by (cases x) (auto simp: steps_Cons_iff)
qed auto

interpretation stepwise: service "steps step" for step
  by unfold_locales (auto simp: steps_append)

lemma against_Call_step:
  "stepwise.against step (Call q k) S Q \<longleftrightarrow> (\<forall>r S1. step S q r S1 \<longrightarrow> stepwise.against step (k r) S1 Q)"
  unfolding stepwise.against_Call unfolding stepwise.against_def steps_Cons_iff by blast

subsection \<open>Files below a path\<close>

text \<open>A writer's path: empty, or a relative path of plain names.\<close>

definition base_path :: "string \<Rightarrow> bool" where
  "base_path p \<longleftrightarrow> p = [] \<or> plain_path p"

definition path_under :: "string \<Rightarrow> string \<Rightarrow> string" where
  "path_under p f = (if p = [] then f else p @ ''/'' @ f)"

lemma Join_single: "plain_path f \<Longrightarrow> Join [f] = f"
proof -
  assume f: "plain_path f"
  let ?fs = "split_on (CHR ''/'') f"
  have ne: "?fs \<noteq> []" and plain: "\<forall>x\<in>set ?fs. plain_name x" using f by (auto simp: split_on_nonempty plain_path_def list_all_iff)
  have "f \<noteq> []" using f by (auto simp: plain_path_def plain_name_def)
  moreover have "filter (\<lambda>e. e \<noteq> []) ?fs = ?fs" using plain by (auto simp: filter_id_conv plain_name_def)
  ultimately have "Join [f] = Join ?fs" using ne by (simp add: Join_def join_split_on)
  also have "\<dots> = f" using Join_plain [OF ne plain] by (simp add: join_split_on)
  finally show ?thesis .
qed

lemma Join_path_under:
  assumes "base_path p" and "plain_path f"
  shows "Join [p, f] = path_under p f"
proof (cases "p = []")
  case True
  then show ?thesis using Join_single [OF assms(2)] by (simp add: path_under_def Join_def)
qed (use assms Join_plain_paths in \<open>auto simp: base_path_def path_under_def\<close>)

lemma path_under_inject [simp]: "path_under p f = path_under p g \<longleftrightarrow> f = g"
  by (simp add: path_under_def)

definition below :: "string \<Rightarrow> store \<Rightarrow> store" where
  "below p B f = (if plain_path f then B (Join [p, f]) else None)"

text \<open>An update of the whole store that removes and writes the joined paths is the abstract update of the files below the path.\<close>

definition written :: "store \<Rightarrow> (string \<times> string) list \<Rightarrow> store" where
  "written B kvs = B ++ map_of (rev kvs)"

lemma map_of_rev_keys:
  assumes "inj k"
  shows "map_of (rev (map (\<lambda>w. (k (Filepath w), Content w)) cs)) (k f) = map_of (rev (map (\<lambda>w. (Filepath w, Content w)) cs)) f"
proof -
  have "map_of (map (\<lambda>w. (k (Filepath w), Content w)) ws) (k f) = map_of (map (\<lambda>w. (Filepath w, Content w)) ws) f" for ws
    by (induction ws) (auto simp: inj_eq [OF assms])
  from this [of "rev cs"] show ?thesis by (simp add: rev_map)
qed

lemma below_written:
  assumes "base_path p" and "list_all plain_path (ds @ map Filepath cs)"
    and "\<And>f. plain_path f \<Longrightarrow> B (Join [p, f]) \<noteq> None \<Longrightarrow> Join [p, f] \<in> R \<longleftrightarrow> f \<in> set ds"
  shows "below p (written (B |` (- R)) (map (\<lambda>w. (Join [p, Filepath w], Content w)) cs)) = update_store (below p B) cs ds"
proof
  fix f
  have cs: "map (\<lambda>w. (Join [p, Filepath w], Content w)) cs = map (\<lambda>w. (path_under p (Filepath w), Content w)) cs"
    using assms(1,2) by (auto simp: Join_path_under list_all_iff)
  have "map_of (rev (map (\<lambda>w. (path_under p (Filepath w), Content w)) cs)) (path_under p f) = map_of (rev (map (\<lambda>w. (Filepath w, Content w)) cs)) f"
    by (rule map_of_rev_keys) (simp add: inj_def)
  moreover have "map_of (rev (map (\<lambda>w. (Filepath w, Content w)) cs)) f = None" if "\<not> plain_path f"
    using that assms(2) by (auto simp: map_of_eq_None_iff list_all_iff)
  ultimately show "below p (written (B |` (- R)) (map (\<lambda>w. (Join [p, Filepath w], Content w)) cs)) f = update_store (below p B) cs ds f"
    using assms(3) [of f] assms(1) unfolding cs
    by (cases "B (path_under p f)")
      (auto simp: below_def update_store_def written_def map_add_def restrict_map_def Join_path_under split: option.split)
qed

subsection \<open>What a writer promises\<close>

text \<open>
  \<open>files\<close> are the files below the writer's path; \<open>apt S cs ds\<close> says for which files to create and to delete the promise is made
  (relative paths of plain names, at least), \<open>readable\<close> for which files to read.
\<close>

locale store_writer = service serves for serves :: "'s \<Rightarrow> ('q \<times> 'r) list \<Rightarrow> 's \<Rightarrow> bool" +
  fixes update_files :: "string \<Rightarrow> Workload list \<Rightarrow> string list \<Rightarrow> ('q, 'r, string \<times> err option) prog"
    and read_file :: "string \<Rightarrow> ('q, 'r, err + string) prog"
    and files :: "'s \<Rightarrow> store"
    and apt :: "'s \<Rightarrow> Workload list \<Rightarrow> string list \<Rightarrow> bool"
    and readable :: "string \<Rightarrow> bool"
  assumes updates: "exec (update_files n cs ds) t (Returned (v, None)) \<Longrightarrow> serves S t S' \<Longrightarrow> apt S cs ds \<Longrightarrow>
      files S' = update_store (files S) cs ds"
    and reads: "exec (read_file p) t (Returned res) \<Longrightarrow> serves S t S' \<Longrightarrow> readable p \<Longrightarrow> files S' = files S \<and>
      (\<forall>c. res = Inr c \<longrightarrow> files S p = Some c) \<and> (\<forall>e. res = Inl e \<longrightarrow> IsFileNotFound e \<longrightarrow> e = EFileNotFound \<and> files S p = None)"
begin

lemma read_after_update:
  assumes "exec (update_files n cs ds) t (Returned (v, None))" and "serves S t S1" and "apt S cs ds"
    and "exec (read_file p) t' (Returned res)" and "serves S1 t' S2" and "readable p"
  shows "(\<forall>c. res = Inr c \<longrightarrow> update_store (files S) cs ds p = Some c) \<and>
    (res = Inl EFileNotFound \<longrightarrow> update_store (files S) cs ds p = None)"
  using updates [OF assms(1-3)] reads [OF assms(4-6)] by auto

end

text \<open>
  A trace of the controller of placements in which every request to the writer is carried out by the writer's programs,
  with the state of the service before and after.
\<close>

inductive carried_out ::
  "('s \<Rightarrow> ('q \<times> 'r) list \<Rightarrow> 's \<Rightarrow> bool) \<Rightarrow> (string \<Rightarrow> Workload list \<Rightarrow> string list \<Rightarrow> ('q, 'r, string \<times> err option) prog) \<Rightarrow>
   (string \<Rightarrow> ('q, 'r, err + string) prog) \<Rightarrow> ('s \<Rightarrow> Workload list \<Rightarrow> string list \<Rightarrow> bool) \<Rightarrow> (string \<Rightarrow> bool) \<Rightarrow>
   writer \<Rightarrow> 's \<Rightarrow> gtrace \<Rightarrow> 's \<Rightarrow> bool"
  for serves update_files read_file apt readable w where
  carried_Nil: "carried_out serves update_files read_file apt readable w S [] S"
| carried_Read: "exec (read_file p) t (Returned (as_str r)) \<Longrightarrow> serves S t S1 \<Longrightarrow> readable p \<Longrightarrow>
    carried_out serves update_files read_file apt readable w S1 gt S' \<Longrightarrow>
    carried_out serves update_files read_file apt readable w S ((WriterReadFile w p, r) # gt) S'"
| carried_Update: "exec (update_files n cs ds) t (Returned (v, e)) \<Longrightarrow> serves S t S1 \<Longrightarrow> apt S cs ds \<Longrightarrow>
    as_str r = (case e of None \<Rightarrow> Inr v | Some e \<Rightarrow> Inl e) \<Longrightarrow> carried_out serves update_files read_file apt readable w S1 gt S' \<Longrightarrow>
    carried_out serves update_files read_file apt readable w S ((UpdateFiles w [] n cs ds, r) # gt) S'"
| carried_Other: "\<not> file_request q \<Longrightarrow> carried_out serves update_files read_file apt readable w S gt S' \<Longrightarrow>
    carried_out serves update_files read_file apt readable w S ((q, r) # gt) S'"

locale atomic_writer = store_writer serves update_files read_file files apt readable
  for serves :: "'s \<Rightarrow> ('q \<times> 'r) list \<Rightarrow> 's \<Rightarrow> bool" and update_files read_file files apt readable +
  assumes fails: "exec (update_files n cs ds) t (Returned (v, Some e)) \<Longrightarrow> serves S t S' \<Longrightarrow> apt S cs ds \<Longrightarrow>
      files S' = files S"
begin

lemma carried_out_served: "carried_out serves update_files read_file apt readable w S gt S' \<Longrightarrow> atomically_served w (files S) gt (files S')"
proof (induction rule: carried_out.induct)
  case (carried_Read p t r S S1 gt S')
  from reads [OF carried_Read(1-3)] have r: "files S1 = files S" "as_str r = Inr c \<Longrightarrow> files S p = Some c"
    "as_str r = Inl e \<Longrightarrow> IsFileNotFound e \<Longrightarrow> e = EFileNotFound \<and> files S p = None" for c e
    by auto
  show ?case
  proof (cases "as_str r")
    case (Inl e)
    show ?thesis
    proof (cases "IsFileNotFound e")
      case True
      with Inl r carried_Read.IH show ?thesis by (auto intro!: served_Read)
    next
      case False
      with Inl r carried_Read.IH show ?thesis by (auto intro: served_Read_fails)
    qed
  qed (use r carried_Read.IH in \<open>auto intro!: served_Read\<close>)
next
  case (carried_Update n cs ds t v e S S1 r gt S')
  then show ?case
    using updates [of n cs ds t v S S1] fails [of n cs ds t v _ S S1]
    by (cases e) (auto intro: served_Update served_Update_fails)
qed (auto intro: atomically_served.intros)

end

end
