(* ===== verification/S3Writer.thy ===== *)
theory S3Writer
  imports Writers "HOL-Library.AList"
begin

text \<open>
  \<open>src/lib/writers/s3.go\<close>: the writer for S3 buckets, against the requests it makes of the \<open>minio\<close> client.

  The client is not modelled: its answers are responses. A failed request carries the code that \<open>minio.ToErrorResponse\<close>
  reads from the error. What S3 documents of its answers is the relation \<open>s3_serves\<close>: a bucket is a map from keys to
  contents; \<open>StatObject\<close> tells whether a key exists and gives an ETag that is the MD5 of its content or of no content, \<open>PutObject\<close>
  and \<open>RemoveObject\<close> do what they say when they succeed and nothing when they fail, \<open>ListObjects\<close> gives every key with the
  prefix. The properties say what an update leaves in the bucket and that this implements the store that the state files
  are kept in. SHA-256 is a parameter; logging is left out.
\<close>

subsection \<open>The client's interface\<close>

record ObjectInfo =
  oi_Key :: string
  oi_ETag :: string

datatype s3_creds = NewIAM | NewStaticV4 string string

datatype s3_req =
    MinioNew string bool s3_creds
  | StatObject string string
  | GetObject string string
  | ReadObject string string
  | PutObject string string string
  | S3RemoveObject string string
  | ListObjects string string
  | BucketExists string
  | NewMultipartUpload string string
  | AbortMultipartUpload string string string
  | RangeObjects "string list"

datatype s3_resp =
    SErr string err
  | SInfo ObjectInfo
  | SObjects "(err + ObjectInfo) list"
  | SStr string
  | SBool bool
  | SDone
  | SKeys "string list"

type_synonym 'a s3 = "(s3_req, s3_resp, 'a) prog"
type_synonym s3_trace = "(s3_req \<times> s3_resp) list"

definition as_done :: "s3_resp \<Rightarrow> err option" where
  "as_done r = (case r of SErr c e \<Rightarrow> Some e | _ \<Rightarrow> None)"

definition as_info :: "s3_resp \<Rightarrow> string \<times> err + ObjectInfo" where
  "as_info r = (case r of SErr c e \<Rightarrow> Inl (c, e) | SInfo i \<Rightarrow> Inr i | _ \<Rightarrow> Inl ([], decode_error))"

definition as_string :: "s3_resp \<Rightarrow> err + string" where
  "as_string r = (case r of SErr c e \<Rightarrow> Inl e | SStr s \<Rightarrow> Inr s | _ \<Rightarrow> Inl decode_error)"

definition as_objects :: "s3_resp \<Rightarrow> (err + ObjectInfo) list" where
  "as_objects r = (case r of SErr c e \<Rightarrow> [Inl e] | SObjects os \<Rightarrow> os | _ \<Rightarrow> [Inl decode_error])"

text \<open>The order in which a map is ranged over is the runtime's choice.\<close>

definition range_objects :: "(string \<times> 'v) list \<Rightarrow> ((string \<times> 'v) list) s3" where
  "range_objects m = Call (RangeObjects (map fst m)) (\<lambda>r. Ret
     (case r of
        SKeys ks \<Rightarrow> if mset ks = mset (map fst m) then map (\<lambda>k. (k, the (map_of m k))) ks else m
      | _ \<Rightarrow> m))"

subsection \<open>The writer\<close>

definition AuthMethodIAM :: string where "AuthMethodIAM = ''IAM''"
definition S3AuthMethodAccessKey :: string where "S3AuthMethodAccessKey = ''accessKey''"

record S3Writer =
  s3_BucketName :: string
  s3_Path :: string

definition s3Credentials :: "BucketStateStoreSpec \<Rightarrow> labels option \<Rightarrow> err + s3_creds" where
  "s3Credentials spec creds =
     (if bs_AuthMethod spec = AuthMethodIAM then Inr NewIAM
      else if bs_AuthMethod spec = [] \<or> bs_AuthMethod spec = S3AuthMethodAccessKey then
        (case creds of
           None \<Rightarrow> Inl (EStr ''secret not provided'')
         | Some data \<Rightarrow>
             (case fmlookup data ''accessKeyID'' of
                None \<Rightarrow> Inl (EStr ''secret is missing key: accessKeyID'')
              | Some accessKeyID \<Rightarrow>
                  (case fmlookup data ''secretAccessKey'' of
                     None \<Rightarrow> Inl (EStr ''secret is missing key: secretAccessKey'')
                   | Some secretAccessKey \<Rightarrow> Inr (NewStaticV4 accessKeyID secretAccessKey))))
      else Inl (EStr (''unknown authMethod: '' @ bs_AuthMethod spec)))"

definition S3NewWriter :: "BucketStateStoreSpec \<Rightarrow> string \<Rightarrow> labels option \<Rightarrow> (err + S3Writer) s3" where
  "S3NewWriter stateStoreSpec destinationPath creds =
     (case s3Credentials stateStoreSpec creds of
        Inl e \<Rightarrow> Ret (Inl e)
      | Inr c \<Rightarrow>
          Call (MinioNew (bs_Endpoint stateStoreSpec) (\<not> bs_Insecure stateStoreSpec) c) (\<lambda>r.
          Ret (case as_done r of
                 Some e \<Rightarrow> Inl (EWrap ''error initialising S3 client: '' e)
               | None \<Rightarrow> Inr \<lparr>s3_BucketName = bs_BucketName stateStoreSpec, s3_Path = Join [bs_Path stateStoreSpec, destinationPath]\<rparr>)))"

definition S3ReadFile :: "S3Writer \<Rightarrow> string \<Rightarrow> (err + string) s3" where
  "S3ReadFile b filename =
     (let path = Join [s3_Path b, filename] in
      Call (StatObject (s3_BucketName b) path) (\<lambda>r.
      case as_info r of
        Inl (code, e) \<Rightarrow> Ret (Inl (if code = ''NoSuchKey'' then EFileNotFound else e))
      | Inr _ \<Rightarrow>
          Call (GetObject (s3_BucketName b) path) (\<lambda>r.
          case as_done r of
            Some e \<Rightarrow> Ret (Inl e)
          | None \<Rightarrow> Call (ReadObject (s3_BucketName b) path) (\<lambda>r. Ret (as_string r)))))"

type_synonym objects = "(string \<times> ObjectInfo) list"

definition deleteObjects :: "S3Writer \<Rightarrow> objects \<Rightarrow> (err option) s3" where
  "deleteObjects b oldObjectsToDelete =
     bnd (range_objects oldObjectsToDelete) (\<lambda>objs.
     bnd (for_range objs 0 (\<lambda>(objectName, objectInfo) errCount.
            Call (S3RemoveObject (s3_BucketName b) (oi_Key objectInfo)) (\<lambda>r.
            Ret (Next (case as_done r of None \<Rightarrow> errCount | Some _ \<Rightarrow> errCount + 1))))) (\<lambda>l.
     Ret (case l of
            Next errCount \<Rightarrow> if errCount \<noteq> (0 :: nat) then Some (EStr (''failed to delete '' @ itoa errCount @ '' objects'')) else None
          | Leave e \<Rightarrow> e)))"

text \<open>The objects listed before the first error are collected; the error ends it.\<close>

fun collectObjects :: "(err + ObjectInfo) list \<Rightarrow> objects \<Rightarrow> err + objects" where
  "collectObjects [] m = Inr m"
| "collectObjects (Inl e # os) m = Inl e"
| "collectObjects (Inr obj # os) m = collectObjects os (AList.update (oi_Key obj) obj m)"

definition with_slash :: "string \<Rightarrow> string" where
  "with_slash dir = (if suffix ''/'' dir then dir else dir @ ''/'')"

definition getObjectsInDir :: "S3Writer \<Rightarrow> string \<Rightarrow> (err + objects) s3" where
  "getObjectsInDir b dir =
     Call (ListObjects (s3_BucketName b) (Join [s3_Path b, with_slash dir])) (\<lambda>r. Ret (collectObjects (as_objects r) []))"

definition statObjectsToDelete :: "S3Writer \<Rightarrow> string list \<Rightarrow> (err + objects) s3" where
  "statObjectsToDelete b toDelete =
     bnd (for_range toDelete [] (\<lambda>work m.
            Call (StatObject (s3_BucketName b) (Join [s3_Path b, work])) (\<lambda>r.
            Ret (case as_info r of
                   Inl (code, e) \<Rightarrow> if code \<noteq> ''NoSuchKey'' then Leave e else Next m
                 | Inr objStat \<Rightarrow> Next (AList.update (oi_Key objStat) objStat m))))) (\<lambda>l.
     Ret (case l of Next m \<Rightarrow> Inr m | Leave e \<Rightarrow> Inl e))"

definition putObject ::
  "(string \<Rightarrow> string) \<Rightarrow> S3Writer \<Rightarrow> string \<Rightarrow> string \<Rightarrow> objects \<times> string \<Rightarrow> ((objects \<times> string, string \<times> err option) loop) s3" where
  "putObject sha256hex b objectFullPath content s =
     Call (PutObject (s3_BucketName b) objectFullPath content) (\<lambda>r.
     Ret (case as_string r of
            Inl e \<Rightarrow> Leave ([], Some e)
          | Inr uploadVersion \<Rightarrow> Next (fst s, sha256hex (snd s @ uploadVersion))))"

definition writeObject ::
  "lib \<Rightarrow> (string \<Rightarrow> string) \<Rightarrow> S3Writer \<Rightarrow> string \<Rightarrow> Workload \<Rightarrow> objects \<times> string \<Rightarrow> ((objects \<times> string, string \<times> err option) loop) s3" where
  "writeObject L sha256hex b subDir work s =
     (let objectFullPath = Join [s3_Path b, subDir, Filepath work];
          s = (AList.delete objectFullPath (fst s), snd s) in
      Call (StatObject (s3_BucketName b) objectFullPath) (\<lambda>r.
      case as_info r of
        Inl (code, e) \<Rightarrow> if code \<noteq> ''NoSuchKey'' then Ret (Leave ([], Some e)) else putObject sha256hex b objectFullPath (Content work) s
      | Inr objStat \<Rightarrow>
          if oi_ETag objStat = L_md5hex L (Content work) then Ret (Next s)
          else putObject sha256hex b objectFullPath (Content work) s))"

definition S3Update ::
  "lib \<Rightarrow> (string \<Rightarrow> string) \<Rightarrow> S3Writer \<Rightarrow> string \<Rightarrow> Workload list \<Rightarrow> string list \<Rightarrow> (string \<times> err option) s3" where
  "S3Update L sha256hex b subDir workloadsToCreate toDelete =
     bnd (if subDir \<noteq> [] then getObjectsInDir b subDir else statObjectsToDelete b toDelete) (\<lambda>r.
     case r of
       Inl e \<Rightarrow> Ret ([], Some e)
     | Inr objectsToDeleteMap \<Rightarrow>
         Call (BucketExists (s3_BucketName b)) (\<lambda>_.
         after_loop (for_range workloadsToCreate (objectsToDeleteMap, []) (writeObject L sha256hex b subDir)) (\<lambda>(objs, versionID).
         bnd (deleteObjects b objs) (\<lambda>e. Ret (versionID, e)))))"

definition S3UpdateFiles ::
  "lib \<Rightarrow> (string \<Rightarrow> string) \<Rightarrow> S3Writer \<Rightarrow> string \<Rightarrow> string \<Rightarrow> Workload list \<Rightarrow> string list \<Rightarrow> (string \<times> err option) s3" where
  "S3UpdateFiles L sha256hex b subDir workPlacementName workloadsToCreate toDelete =
     S3Update L sha256hex b subDir workloadsToCreate toDelete"

definition RemoveObject :: "S3Writer \<Rightarrow> string \<Rightarrow> (err option) s3" where
  "RemoveObject b objectName =
     (if suffix ''/'' objectName then
        Call (ListObjects (s3_BucketName b) (Join [s3_Path b, objectName])) (\<lambda>r.
        after_loop (for_range (as_objects r) () (\<lambda>obj _.
            case obj of
              Inl e \<Rightarrow> Ret (Leave (Some e))
            | Inr obj \<Rightarrow>
                Call (S3RemoveObject (s3_BucketName b) (oi_Key obj)) (\<lambda>r.
                Ret (case as_done r of Some e \<Rightarrow> Leave (Some e) | None \<Rightarrow> Next ()))))
          (\<lambda>_. Ret None))
      else Call (S3RemoveObject (s3_BucketName b) (Join [s3_Path b, objectName])) (\<lambda>r. Ret (as_done r)))"

definition S3ValidatePermissions :: "S3Writer \<Rightarrow> (err option) s3" where
  "S3ValidatePermissions b =
     (let testObjectPath = Join [s3_Path b, ''.kratix-write-permission-check''] in
      Call (NewMultipartUpload (s3_BucketName b) testObjectPath) (\<lambda>r.
      case as_string r of
        Inl e \<Rightarrow> Ret (Some (EWrap ''write permission validation failed: '' e))
      | Inr uploadID \<Rightarrow> Call (AbortMultipartUpload (s3_BucketName b) testObjectPath uploadID) (\<lambda>_. Ret None)))"

subsection \<open>What S3 documents of its answers\<close>

text \<open>
  How an answer describes the object with a key and a content. The ETag is the MD5 of the content, or (an object uploaded in
  several parts or encrypted with a key of the user) it is not the MD5 of anything that is written here.
\<close>

definition describes :: "lib \<Rightarrow> string \<Rightarrow> string \<Rightarrow> ObjectInfo \<Rightarrow> bool" where
  "describes L k c i \<longleftrightarrow> oi_Key i = k \<and> (oi_ETag i = L_md5hex L c \<or> (\<forall>c'. oi_ETag i \<noteq> L_md5hex L c'))"

definition object_info :: "lib \<Rightarrow> string \<Rightarrow> string \<Rightarrow> ObjectInfo" where
  "object_info L k c = \<lparr>oi_Key = k, oi_ETag = L_md5hex L c\<rparr>"

lemma object_info_simps [simp]:
  "oi_Key (object_info L k c) = k" "oi_ETag (object_info L k c) = L_md5hex L c" "describes L k c (object_info L k c)"
  by (simp_all add: object_info_def describes_def)

fun bucket_request :: "s3_req \<Rightarrow> bool" where
  "bucket_request (StatObject n k) = True"
| "bucket_request (PutObject n k c) = True"
| "bucket_request (S3RemoveObject n k) = True"
| "bucket_request (ListObjects n p) = True"
| "bucket_request (ReadObject n k) = True"
| "bucket_request q = False"

inductive s3_serves :: "lib \<Rightarrow> string \<Rightarrow> store \<Rightarrow> s3_trace \<Rightarrow> store \<Rightarrow> bool" for L n where
  s3_Nil: "s3_serves L n B [] B"
| s3_Stat: "B k = Some c \<Longrightarrow> describes L k c i \<Longrightarrow> s3_serves L n B t B' \<Longrightarrow> s3_serves L n B ((StatObject n k, SInfo i) # t) B'"
| s3_Stat_none: "B k = None \<Longrightarrow> s3_serves L n B t B' \<Longrightarrow> s3_serves L n B ((StatObject n k, SErr ''NoSuchKey'' e) # t) B'"
| s3_Stat_fails: "code \<noteq> ''NoSuchKey'' \<Longrightarrow> \<not> IsFileNotFound e \<Longrightarrow> s3_serves L n B t B' \<Longrightarrow> s3_serves L n B ((StatObject n k, SErr code e) # t) B'"
| s3_Put: "s3_serves L n (B(k \<mapsto> c)) t B' \<Longrightarrow> s3_serves L n B ((PutObject n k c, SStr v) # t) B'"
| s3_Put_fails: "s3_serves L n B t B' \<Longrightarrow> s3_serves L n B ((PutObject n k c, SErr code e) # t) B'"
| s3_Remove: "s3_serves L n (B(k := None)) t B' \<Longrightarrow> s3_serves L n B ((S3RemoveObject n k, SDone) # t) B'"
| s3_Remove_fails: "s3_serves L n B t B' \<Longrightarrow> s3_serves L n B ((S3RemoveObject n k, SErr code e) # t) B'"
| s3_List: "\<forall>x\<in>set os. \<exists>i. x = Inr i \<Longrightarrow> {oi_Key i |i. Inr i \<in> set os} = {k \<in> dom B. prefix p k} \<Longrightarrow> s3_serves L n B t B' \<Longrightarrow>
    s3_serves L n B ((ListObjects n p, SObjects os) # t) B'"
| s3_List_fails: "Inl e \<in> set os \<Longrightarrow> s3_serves L n B t B' \<Longrightarrow> s3_serves L n B ((ListObjects n p, SObjects os) # t) B'"
| s3_Read: "B k = Some c \<Longrightarrow> s3_serves L n B t B' \<Longrightarrow> s3_serves L n B ((ReadObject n k, SStr c) # t) B'"
| s3_Read_fails: "\<not> IsFileNotFound e \<Longrightarrow> s3_serves L n B t B' \<Longrightarrow> s3_serves L n B ((ReadObject n k, SErr code e) # t) B'"
| s3_Other: "\<not> bucket_request q \<Longrightarrow> (\<And>code e. r = SErr code e \<Longrightarrow> \<not> IsFileNotFound e) \<Longrightarrow> s3_serves L n B t B' \<Longrightarrow>
    s3_serves L n B ((q, r) # t) B'"

inductive_simps s3_Nil_iff [simp]: "s3_serves L n B [] B'"
inductive_simps s3_Cons_iff: "s3_serves L n B ((q, r) # t) B'"

lemma s3_serves_append: "s3_serves L n B (t1 @ t2) B' \<Longrightarrow> \<exists>B1. s3_serves L n B t1 B1 \<and> s3_serves L n B1 t2 B'"
proof (induction t1 arbitrary: B)
  case Nil
  then show ?case by (auto intro: s3_Nil)
next
  case (Cons x t1)
  obtain q r where x: "x = (q, r)" by (cases x)
  from Cons.prems show ?case
    unfolding x append_Cons by (cases rule: s3_serves.cases) (auto dest!: Cons.IH intro: s3_serves.intros)
qed

subsection \<open>Programs against a bucket\<close>

interpretation bucket_service: service "s3_serves L n" for L n
  by unfold_locales (auto dest: s3_serves_append)

abbreviation on_bucket :: "lib \<Rightarrow> string \<Rightarrow> 'a s3 \<Rightarrow> store \<Rightarrow> (store \<Rightarrow> 'a outcome \<Rightarrow> bool) \<Rightarrow> bool" where
  "on_bucket L n p B Q \<equiv> bucket_service.against L n p B Q"

lemmas on_bucketD = bucket_service.againstD
lemmas on_bucket_mono = bucket_service.against_mono
lemmas on_bucket_bnd = bucket_service.against_bnd
lemmas on_bucket_for_range = bucket_service.against_for_range
lemmas on_bucket_def = bucket_service.against_def

inductive_simps s3_Stat_iff: "s3_serves L n B ((StatObject n k, r) # t) B'"
inductive_simps s3_Put_iff: "s3_serves L n B ((PutObject n k c, r) # t) B'"
inductive_simps s3_Remove_iff: "s3_serves L n B ((S3RemoveObject n k, r) # t) B'"
inductive_simps s3_Read_iff: "s3_serves L n B ((ReadObject n k, r) # t) B'"

lemma s3_Other_iff: "\<not> bucket_request q \<Longrightarrow>
    s3_serves L n B ((q, r) # t) B' \<longleftrightarrow> (\<forall>code e. r = SErr code e \<longrightarrow> \<not> IsFileNotFound e) \<and> s3_serves L n B t B'"
  by (cases q) (auto simp: s3_Cons_iff)

lemma on_bucket_Stat:
  "on_bucket L n (Call (StatObject n k) f) B Q \<longleftrightarrow> (\<forall>c i. B k = Some c \<longrightarrow> describes L k c i \<longrightarrow> on_bucket L n (f (SInfo i)) B Q) \<and>
     (\<forall>e. B k = None \<longrightarrow> on_bucket L n (f (SErr ''NoSuchKey'' e)) B Q) \<and> (\<forall>code e. code \<noteq> ''NoSuchKey'' \<longrightarrow> \<not> IsFileNotFound e \<longrightarrow> on_bucket L n (f (SErr code e)) B Q)"
  unfolding bucket_service.against_Call unfolding on_bucket_def s3_Stat_iff by (rule iffI) (auto | metis)

lemma on_bucket_Put:
  "on_bucket L n (Call (PutObject n k c) f) B Q \<longleftrightarrow>
     (\<forall>v. on_bucket L n (f (SStr v)) (B(k \<mapsto> c)) Q) \<and> (\<forall>code e. on_bucket L n (f (SErr code e)) B Q)"
  unfolding bucket_service.against_Call unfolding on_bucket_def s3_Put_iff by (simp add: object_info_def) blast

lemma on_bucket_Remove:
  "on_bucket L n (Call (S3RemoveObject n k) f) B Q \<longleftrightarrow>
     on_bucket L n (f SDone) (B(k := None)) Q \<and> (\<forall>code e. on_bucket L n (f (SErr code e)) B Q)"
  unfolding bucket_service.against_Call unfolding on_bucket_def s3_Remove_iff by (simp add: object_info_def) blast

lemma on_bucket_Other:
  "\<not> bucket_request q \<Longrightarrow> on_bucket L n (Call q f) B Q \<longleftrightarrow> (\<forall>r. (\<forall>code e. r = SErr code e \<longrightarrow> \<not> IsFileNotFound e) \<longrightarrow> on_bucket L n (f r) B Q)"
  unfolding bucket_service.against_Call unfolding on_bucket_def by (simp add: s3_Other_iff) blast

lemma on_bucket_Read:
  "on_bucket L n (Call (ReadObject n k) f) B Q \<longleftrightarrow> (\<forall>c. B k = Some c \<longrightarrow> on_bucket L n (f (SStr c)) B Q) \<and>
     (\<forall>code e. \<not> IsFileNotFound e \<longrightarrow> on_bucket L n (f (SErr code e)) B Q)"
  unfolding bucket_service.against_Call unfolding on_bucket_def s3_Read_iff by (rule iffI) (auto | metis)

lemmas on_bucket_Call = on_bucket_Stat on_bucket_Put on_bucket_Remove on_bucket_Other

lemmas on_bucket_exists = on_bucket_Other [of "BucketExists n" for n, simplified]

lemma on_bucket_List:
  assumes "\<And>os. {oi_Key i |i. Inr i \<in> set os} = {k \<in> dom B. prefix p k} \<Longrightarrow> on_bucket L n (f (SObjects os)) B Q"
    and "\<And>os e. Inl e \<in> set os \<Longrightarrow> on_bucket L n (f (SObjects os)) B Q"
  shows "on_bucket L n (Call (ListObjects n p) f) B Q"
  using assms by (fastforce simp: on_bucket_def exec_Call_iff s3_Cons_iff)

subsection \<open>The effect of an update\<close>

definition objects_ok :: "objects \<Rightarrow> bool" where
  "objects_ok m \<longleftrightarrow> distinct (map fst m) \<and> (\<forall>x\<in>set m. oi_Key (snd x) = fst x)"

lemma set_update: "set (AList.update k v m) \<subseteq> insert (k, v) (set m)"
  by (induction m) auto

lemma objects_ok_Nil [simp]: "objects_ok []"
  by (simp add: objects_ok_def)

lemma objects_ok_update: "objects_ok m \<Longrightarrow> oi_Key i = k \<Longrightarrow> objects_ok (AList.update k i m)"
  unfolding objects_ok_def using set_update [of k i m] by (auto simp: AList.distinct_update)

lemma objects_ok_delete: "objects_ok m \<Longrightarrow> objects_ok (AList.delete k m)"
  by (auto simp: objects_ok_def AList.delete_eq distinct_map_filter)

lemma keys_delete: "fst ` set (AList.delete k m) = fst ` set m - {k}"
  by (force simp: AList.delete_eq)

lemmas keys_update = AList.dom_update

text \<open>
  The keys an update removes, unless it creates them again, and those it creates. The prefix of a directory ends without a
  slash: \<open>Join\<close> drops the one that was added.
\<close>

definition removed_keys :: "S3Writer \<Rightarrow> string \<Rightarrow> string list \<Rightarrow> string set" where
  "removed_keys b subDir ds =
     (if subDir = [] then (\<lambda>f. Join [s3_Path b, f]) ` set ds else {k. prefix (Join [s3_Path b, with_slash subDir]) k})"

definition created_files :: "S3Writer \<Rightarrow> string \<Rightarrow> Workload list \<Rightarrow> (string \<times> string) list" where
  "created_files b subDir ws = map (\<lambda>w. (Join [s3_Path b, subDir, Filepath w], Content w)) ws"

lemma collectObjects_ok:
  "collectObjects os m = Inr m' \<Longrightarrow> objects_ok m \<Longrightarrow> objects_ok m' \<and> (\<forall>x\<in>set os. \<exists>i. x = Inr i) \<and>
     fst ` set m' = fst ` set m \<union> {oi_Key i |i. Inr i \<in> set os}"
  by (induction os m rule: collectObjects.induct) (auto simp: objects_ok_update keys_update)

lemma stat_to_delete:
  "on_bucket L (s3_BucketName b) (statObjectsToDelete b ds) B
     (\<lambda>B' oc. B' = B \<and> (\<exists>r. oc = Returned r \<and> (\<forall>m. r = Inr m \<longrightarrow> objects_ok m \<and> fst ` set m = dom B \<inter> removed_keys b [] ds)))"
  unfolding statObjectsToDelete_def
proof (rule on_bucket_bnd [where P = "\<lambda>B' oc. B' = B \<and> (\<exists>l. oc = Returned l \<and> (\<forall>m. l = Next m \<longrightarrow> objects_ok m \<and>
    fst ` set m = dom B \<inter> removed_keys b [] ds))"], goal_cases)
  case 1
  show ?case
    by (rule on_bucket_for_range [where I = "\<lambda>pre B' m. B' = B \<and> objects_ok m \<and> fst ` set m = dom B \<inter> removed_keys b [] pre"])
      (auto simp: removed_keys_def on_bucket_Call as_info_def keys_update objects_ok_update describes_def)
qed (auto split: loop.split)

lemma list_to_delete:
  "subDir \<noteq> [] \<Longrightarrow> on_bucket L (s3_BucketName b) (getObjectsInDir b subDir) B
     (\<lambda>B' oc. B' = B \<and> (\<exists>r. oc = Returned r \<and> (\<forall>m. r = Inr m \<longrightarrow> objects_ok m \<and> fst ` set m = dom B \<inter> removed_keys b subDir ds)))"
  unfolding getObjectsInDir_def
proof (rule on_bucket_List, goal_cases)
  case (1 os)
  then have "{oi_Key i |i. Inr i \<in> set os} = dom B \<inter> removed_keys b subDir ds"
    by (auto simp: removed_keys_def)
  then show ?case using collectObjects_ok [of os "[]"] by (auto simp: as_objects_def)
next
  case (2 os e)
  then show ?case using collectObjects_ok [of os "[]"] by (fastforce simp: as_objects_def)
qed

lemma written_snoc: "written B (kvs @ [(k, c)]) = (written B kvs)(k \<mapsto> c)"
  by (simp add: written_def)

lemma written_outside: "k \<notin> fst ` set kvs \<Longrightarrow> written B kvs k = B k"
  by (force simp: written_def map_add_def split: option.split dest: map_of_SomeD)

lemma written_ran: "written B kvs k = Some c \<Longrightarrow> c \<in> ran B \<union> snd ` set kvs"
  by (force simp: written_def map_add_Some_iff ran_def dest: map_of_SomeD)

text \<open>MD5 is trusted to tell the contents at hand apart.\<close>

definition collision_free :: "lib \<Rightarrow> store \<Rightarrow> Workload list \<Rightarrow> bool" where
  "collision_free L B ws \<longleftrightarrow> (\<forall>w\<in>set ws. \<forall>c\<in>ran B \<union> Content ` set ws. L_md5hex L c = L_md5hex L (Content w) \<longrightarrow> c = Content w)"

lemma writeObject_effect:
  fixes w b subDir
  defines "k \<equiv> Join [s3_Path b, subDir, Filepath w]"
  assumes "\<And>c. B k = Some c \<Longrightarrow> L_md5hex L c = L_md5hex L (Content w) \<Longrightarrow> c = Content w"
  shows "on_bucket L (s3_BucketName b) (writeObject L sha b subDir w s) B (\<lambda>B' oc. case oc of
      Returned (Next s') \<Rightarrow> B' = B(k \<mapsto> Content w) \<and> fst s' = AList.delete k (fst s)
    | Returned (Leave r) \<Rightarrow> B' = B \<and> snd r \<noteq> None
    | Panicked m \<Rightarrow> False)"
  unfolding writeObject_def putObject_def Let_def k_def [symmetric]
  by (auto simp: on_bucket_Call as_info_def as_string_def describes_def) (metis assms(2) map_upd_triv)

lemma writeObjects_effect:
  assumes "collision_free L B ws" and "objects_ok m"
  shows "on_bucket L (s3_BucketName b) (for_range ws (m, []) (writeObject L sha b subDir)) B (\<lambda>B' oc. case oc of
      Returned (Next s') \<Rightarrow> B' = written B (created_files b subDir ws) \<and> objects_ok (fst s') \<and>
        fst ` set (fst s') = fst ` set m - fst ` set (created_files b subDir ws)
    | Returned (Leave r) \<Rightarrow> (\<forall>k. k \<notin> fst ` set (created_files b subDir ws) \<longrightarrow> B' k = B k) \<and> snd r \<noteq> None
    | Panicked m \<Rightarrow> False)"
proof (rule on_bucket_for_range [where I = "\<lambda>pre B' s. B' = written B (created_files b subDir pre) \<and> objects_ok (fst s) \<and>
    fst ` set (fst s) = fst ` set m - fst ` set (created_files b subDir pre)"], goal_cases)
  case 1
  then show ?case using assms by (simp add: written_def created_files_def)
next
  case (2 pre w rest B' s)
  have "c = Content w" if "B' k = Some c" "L_md5hex L c = L_md5hex L (Content w)" for k c
  proof -
    have "c \<in> ran B \<union> Content ` set ws" using written_ran [of B "created_files b subDir pre"] that 2 by (force simp: created_files_def)
    with assms(1) that(2) 2(1) show ?thesis unfolding collision_free_def by auto
  qed
  then have eff: "on_bucket L (s3_BucketName b) (writeObject L sha b subDir w s) B' (\<lambda>B'' oc. case oc of
      Returned (Next s') \<Rightarrow> B'' = B'(Join [s3_Path b, subDir, Filepath w] \<mapsto> Content w) \<and>
        fst s' = AList.delete (Join [s3_Path b, subDir, Filepath w]) (fst s)
    | Returned (Leave r) \<Rightarrow> B'' = B' \<and> snd r \<noteq> None | Panicked m \<Rightarrow> False)"
    by (rule writeObject_effect)
  have snoc: "created_files b subDir (pre @ [w]) = created_files b subDir pre @ [(Join [s3_Path b, subDir, Filepath w], Content w)]"
    by (simp add: created_files_def)
  have out: "B' k = B k" if "k \<notin> fst ` set (created_files b subDir ws)" for k
    using that 2 by (auto simp: created_files_def image_Un intro!: written_outside)
  have I: "B' = written B (created_files b subDir pre)" "objects_ok (fst s)"
    "fst ` set (fst s) = fst ` set m - fst ` set (created_files b subDir pre)" using 2(2) by auto
  show ?case
  proof (rule on_bucket_mono [OF eff], goal_cases)
    case (1 B'' oc)
    then show ?case
    proof (cases oc)
      case (Returned l)
      show ?thesis
      proof (cases l)
        case (Next s')
        with 1 Returned have "B'' = B'(Join [s3_Path b, subDir, Filepath w] \<mapsto> Content w)"
          and "fst s' = AList.delete (Join [s3_Path b, subDir, Filepath w]) (fst s)" by simp_all
        then show ?thesis
          unfolding Returned Next snoc written_snoc I(1) outcome.case loop.case by (auto simp only: keys_delete objects_ok_delete I set_append set_simps image_Un image_insert fst_conv)
      next
        case (Leave r)
        with 1 Returned show ?thesis using out by auto
      qed
    qed simp
  qed
qed auto

text \<open>The order of removal does not matter.\<close>

lemma range_objects_result:
  assumes "objects_ok m"
  shows "on_bucket L n (range_objects m) B (\<lambda>B' oc. B' = B \<and> (\<exists>m'. oc = Returned m' \<and> set m' = set m))"
proof -
  have "set (map (\<lambda>k. (k, the (map_of m k))) ks) = set m" if "mset ks = mset (map fst m)" for ks
  proof -
    have "set ks = fst ` set m" using that by (metis list.set_map mset_eq_setD)
    moreover have "map_of m (fst x) = Some (snd x)" if "x \<in> set m" for x
      using assms that by (simp add: objects_ok_def)
    ultimately show ?thesis by (force simp: image_def)
  qed
  then show ?thesis unfolding range_objects_def by (auto simp: on_bucket_Call split: s3_resp.split)
qed

lemma deleteObjects_effect:
  assumes "objects_ok m"
  shows "on_bucket L (s3_BucketName b) (deleteObjects b m) B (\<lambda>B' oc. (\<forall>k. k \<notin> fst ` set m \<longrightarrow> B' k = B k) \<and>
    (\<exists>e. oc = Returned e \<and> (e = None \<longrightarrow> B' = B |` (- (fst ` set m)))))"
  unfolding deleteObjects_def
proof (rule on_bucket_bnd [OF range_objects_result [OF assms]], goal_cases)
  case (1 B0 m')
  then have m': "set m' = set m" and B0: "B0 = B" by auto
  show ?case
  proof (rule on_bucket_bnd [where P = "\<lambda>B' oc. (\<forall>k. k \<notin> fst ` set m \<longrightarrow> B' k = B k) \<and>
      (\<exists>c. oc = Returned (Next c) \<and> (c = 0 \<longrightarrow> B' = B |` (- (fst ` set m))))"], goal_cases)
    case 1
    show ?case
    proof (rule on_bucket_for_range [where I = "\<lambda>pre B' c. (\<forall>k. k \<notin> fst ` set m \<longrightarrow> B' k = B k) \<and>
        (c = 0 \<longrightarrow> B' = B |` (- (fst ` set pre)))"], goal_cases)
      case (2 pre x rest B1 c)
      then have "x \<in> set m" "oi_Key (snd x) = fst x" using m' assms by (auto simp: objects_ok_def)
      with 2 show ?case
        by (auto simp: on_bucket_Call as_done_def split_beta restrict_map_def fun_eq_iff)
    qed (use B0 m' in auto)
  qed auto
qed auto

lemma S3Update_effect:
  assumes "collision_free L B cs"
  shows "on_bucket L (s3_BucketName b) (S3Update L sha b subDir cs ds) B (\<lambda>B' oc.
    (\<forall>k. k \<notin> removed_keys b subDir ds \<union> fst ` set (created_files b subDir cs) \<longrightarrow> B' k = B k) \<and>
    (\<exists>v e. oc = Returned (v, e) \<and> (e = None \<longrightarrow> B' = written (B |` (- removed_keys b subDir ds)) (created_files b subDir cs))))"
proof -
  let ?R = "removed_keys b subDir ds" and ?C = "created_files b subDir cs"
  have first: "on_bucket L (s3_BucketName b) (if subDir \<noteq> [] then getObjectsInDir b subDir else statObjectsToDelete b ds) B
     (\<lambda>B' oc. B' = B \<and> (\<exists>r. oc = Returned r \<and> (\<forall>m. r = Inr m \<longrightarrow> objects_ok m \<and> fst ` set m = dom B \<inter> ?R)))"
    using stat_to_delete [of L b ds B] list_to_delete [of subDir L b B ds] by (cases "subDir = []") auto
  have final: "(written B ?C) |` (- (dom B \<inter> ?R - fst ` set ?C)) = written (B |` (- ?R)) ?C"
    using map_of_SomeD [of "rev ?C"]
    by (force simp: written_def restrict_map_def map_add_def fun_eq_iff map_of_eq_None_iff split: option.split)
  show ?thesis
    unfolding S3Update_def
  proof (rule on_bucket_bnd [OF first], goal_cases)
    case (1 B' r)
    show ?case
    proof (cases r)
      case (Inl e)
      then show ?thesis using 1 by simp
    next
      case (Inr m)
      with 1 have m: "objects_ok m" "fst ` set m = dom B \<inter> ?R" and B': "B' = B" by auto
      show ?thesis
        unfolding Inr B' sum.case after_loop_def on_bucket_exists
      proof (intro allI impI, rule on_bucket_bnd [OF writeObjects_effect [OF assms m(1)]], goal_cases)
        case (1 r B1 l)
        then show ?case
        proof (cases l)
          case (Next s)
          with 1 m have s: "B1 = written B ?C" "objects_ok (fst s)" "fst ` set (fst s) = dom B \<inter> ?R - fst ` set ?C" by auto
          show ?thesis
            unfolding Next loop.case split_beta
            by (rule on_bucket_bnd [OF deleteObjects_effect [OF s(2)]])
              (use s final in \<open>auto simp: written_outside\<close>)
        qed auto
      qed auto
    qed
  qed auto
qed

text \<open>
  C8. What an update leaves in the bucket. When it succeeds, exactly the keys to remove are gone, the files to create have their new
  contents, and nothing else has changed. Without a directory the keys to remove are those of the listed files; with one they
  are all keys that start with the string of the directory's path, which has no slash at its end (\<open>filepath.Join\<close> has dropped
  it), and so those of the directory and of every sibling whose name starts with the directory's name. When it fails, at any request,
  no other key has changed either. MD5 tells the contents at hand apart (\<open>collision_free\<close>), and an ETag equals the MD5 of
  a content only if it is the object's content.
\<close>

theorem S3Update_exact:
  assumes "collision_free L B cs" and "exec (S3UpdateFiles L sha b subDir name cs ds) t oc" and "s3_serves L (s3_BucketName b) B t B'"
  shows "(\<forall>k. k \<notin> removed_keys b subDir ds \<union> fst ` set (created_files b subDir cs) \<longrightarrow> B' k = B k) \<and>
    (\<exists>v e. oc = Returned (v, e) \<and> (e = None \<longrightarrow> B' = written (B |` (- removed_keys b subDir ds)) (created_files b subDir cs)))"
  using on_bucketD [OF S3Update_effect [OF assms(1)] assms(2) [unfolded S3UpdateFiles_def] assms(3)] .

subsection \<open>The bucket as the store of the state files\<close>

lemma Join_mid_empty: "Join [p, [], f] = Join [p, f]"
  by (simp add: Join_def)

lemma S3_below:
  assumes "exec (S3UpdateFiles L sha b [] name cs ds) t (Returned (v, None))" and "s3_serves L (s3_BucketName b) B t B'"
    and "collision_free L B cs" and "base_path (s3_Path b)" and "list_all plain_path (ds @ map Filepath cs)"
  shows "below (s3_Path b) B' = update_store (below (s3_Path b) B) cs ds"
proof -
  have "created_files b [] cs = map (\<lambda>w. (Join [s3_Path b, Filepath w], Content w)) cs"
    by (simp add: created_files_def Join_mid_empty)
  moreover have "B' = written (B |` (- removed_keys b [] ds)) (created_files b [] cs)"
    using on_bucketD [OF S3Update_effect [OF assms(3)] assms(1) [unfolded S3UpdateFiles_def] assms(2)] by simp
  moreover have "Join [s3_Path b, f] \<in> removed_keys b [] ds \<longleftrightarrow> f \<in> set ds" if "plain_path f" for f
    using that assms(4,5) by (auto simp: removed_keys_def image_iff list_all_iff Join_path_under)
  ultimately show ?thesis using below_written [OF assms(4,5)] by simp
qed

lemma S3ReadFile_effect:
  "on_bucket L (s3_BucketName b) (S3ReadFile b p) B (\<lambda>B' oc. B' = B \<and>
     (\<forall>c. oc = Returned (Inr c) \<longrightarrow> B (Join [s3_Path b, p]) = Some c) \<and>
     (\<forall>e. oc = Returned (Inl e) \<longrightarrow> IsFileNotFound e \<longrightarrow> e = EFileNotFound \<and> B (Join [s3_Path b, p]) = None))"
proof -
  have "as_done r = Some e \<Longrightarrow> \<exists>code. r = SErr code e" for r e by (cases r) (auto simp: as_done_def)
  then show ?thesis
    unfolding S3ReadFile_def Let_def
    by (auto simp: on_bucket_Stat on_bucket_Read on_bucket_Other as_info_def as_string_def split: option.split)
qed

interpretation s3_writer: store_writer "s3_serves L (s3_BucketName b)" "S3UpdateFiles L sha b []" "S3ReadFile b" "below (s3_Path b)"
  "\<lambda>B cs ds. collision_free L B cs \<and> base_path (s3_Path b) \<and> list_all plain_path (ds @ map Filepath cs)" plain_path for L sha b
proof unfold_locales
  fix p t res S S'
  assume "exec (S3ReadFile b p) t (Returned res)" and "s3_serves L (s3_BucketName b) S t S'" and "plain_path p"
  then show "below (s3_Path b) S' = below (s3_Path b) S \<and> (\<forall>c. res = Inr c \<longrightarrow> below (s3_Path b) S p = Some c) \<and>
      (\<forall>e. res = Inl e \<longrightarrow> IsFileNotFound e \<longrightarrow> e = EFileNotFound \<and> below (s3_Path b) S p = None)"
    using on_bucketD [OF S3ReadFile_effect] by (fastforce simp: below_def)
qed (use S3_below in blast)

text \<open>
  C9. The S3 writer implements the store of the state files: seen through the paths below the writer's path, a successful
  update without a directory is exactly the abstract update. (All paths are relative, of plain components.)
\<close>

theorem S3_refines_update_store:
  assumes "collision_free L B cs" and "exec (S3UpdateFiles L sha b [] name cs ds) t (Returned (v, None))"
    and "s3_serves L (s3_BucketName b) B t B'"
    and "base_path (s3_Path b)" and "list_all plain_path (ds @ map Filepath cs)"
  shows "below (s3_Path b) B' = update_store (below (s3_Path b) B) cs ds"
  using s3_writer.updates [OF assms(2,3)] assms(1,4,5) by blast

subsection \<open>Concrete updates\<close>

definition ex_s3 :: S3Writer where "ex_s3 = \<lparr>s3_BucketName = ''kratix'', s3_Path = ''p''\<rparr>"

definition ex_bucket_files :: store where "ex_bucket_files = [''p/a'' \<mapsto> ''x'', ''p/c'' \<mapsto> ''z'']"

definition ex_files :: "Workload list" where "ex_files = [\<lparr>Filepath = ''b'', Content = ''y''\<rparr>]"

lemma ex_paths:
  "Join [''p'', ''a''] = ''p/a''" "Join [''p'', [], ''b''] = ''p/b''" "Join [''p'', ''b''] = ''p/b''" "Join [''p'', ''c''] = ''p/c''"
  by (simp_all add: Join_def Clean_def clean_step_def)

definition ex_update_trace :: s3_trace where
  "ex_update_trace = [(StatObject ''kratix'' ''p/a'', SInfo (object_info plain_lib ''p/a'' ''x'')), (BucketExists ''kratix'', SBool True),
     (StatObject ''kratix'' ''p/b'', SErr ''NoSuchKey'' (EStr [])), (PutObject ''kratix'' ''p/b'' ''y'', SStr ''1''),
     (RangeObjects [''p/a''], SDone), (S3RemoveObject ''kratix'' ''p/a'', SDone)]"

lemmas s3_eval = S3UpdateFiles_def S3Update_def statObjectsToDelete_def after_loop_def writeObject_def putObject_def deleteObjects_def
  range_objects_def as_info_def as_string_def as_done_def

lemma ex_update_run:
  "exec (S3UpdateFiles plain_lib id ex_s3 [] ''w'' ex_files [''a'']) ex_update_trace (Returned (''1'', None))"
  by (rule script_exec [where rs = "map snd ex_update_trace"])
    (simp add: s3_eval ex_s3_def ex_files_def ex_update_trace_def ex_paths Let_def)

lemma ex_update_served:
  "s3_serves plain_lib ''kratix'' ex_bucket_files ex_update_trace (ex_bucket_files(''p/b'' \<mapsto> ''y'', ''p/a'' := None))"
  unfolding ex_update_trace_def
  by (rule s3_Stat s3_Other s3_Stat_none s3_Put s3_Remove s3_Nil | simp add: ex_bucket_files_def)+

lemma ex_collision_free: "collision_free plain_lib ex_bucket_files ex_files"
  by (simp add: collision_free_def plain_lib_def)

theorem S3Update_exact_witness:
  "\<exists>B'. exec (S3UpdateFiles plain_lib id ex_s3 [] ''w'' ex_files [''a'']) ex_update_trace (Returned (''1'', None)) \<and>
     s3_serves plain_lib ''kratix'' ex_bucket_files ex_update_trace B' \<and>
     B' = written (ex_bucket_files |` (- removed_keys ex_s3 [] [''a''])) (created_files ex_s3 [] ex_files)"
proof -
  have "s3_BucketName ex_s3 = ''kratix''" by (simp add: ex_s3_def)
  with S3Update_exact [OF ex_collision_free ex_update_run] ex_update_run ex_update_served show ?thesis by fastforce
qed

theorem S3_refines_update_store_witness:
  "\<exists>B'. exec (S3UpdateFiles plain_lib id ex_s3 [] ''w'' ex_files [''a'']) ex_update_trace (Returned (''1'', None)) \<and>
     s3_serves plain_lib ''kratix'' ex_bucket_files ex_update_trace B' \<and>
     below ''p'' B' = update_store (below ''p'' ex_bucket_files) ex_files [''a'']"
proof -
  have "list_all plain_path ([''a''] @ map Filepath ex_files)" "base_path (s3_Path ex_s3)" "s3_Path ex_s3 = ''p''"
    by (simp_all add: ex_s3_def ex_files_def plain_path_def plain_name_def base_path_def)
  moreover have "s3_BucketName ex_s3 = ''kratix''" by (simp add: ex_s3_def)
  ultimately show ?thesis
    using S3_refines_update_store [OF ex_collision_free ex_update_run] ex_update_run ex_update_served by fastforce
qed

text \<open>Replacing the directory \<open>a\<close> removes the objects of the directory \<open>ab\<close> beside it as well.\<close>

lemma removed_keys_sibling: "''p/ab/x'' \<in> removed_keys ex_s3 ''a'' []"
  by (simp add: removed_keys_def ex_s3_def with_slash_def Join_def Clean_def clean_step_def)

text \<open>
  An update that fails half-way. The state file is written first and stale files are removed last: here the upload of the new
  file fails, and the old file stays in the bucket while the state file does not list it any more.
\<close>

definition ex_state :: "string list \<Rightarrow> Workload" where
  "ex_state fs = \<lparr>Filepath = ''s'', Content = plain_statefile fs\<rparr>"

definition ex_orphan_trace :: s3_trace where
  "ex_orphan_trace = [(StatObject ''kratix'' ''p/a'', SInfo (object_info plain_lib ''p/a'' ''x'')), (BucketExists ''kratix'', SBool True),
     (StatObject ''kratix'' ''p/s'', SInfo (object_info plain_lib ''p/s'' (plain_statefile [''a'']))),
     (PutObject ''kratix'' ''p/s'' (plain_statefile [''b'']), SStr ''1''),
     (StatObject ''kratix'' ''p/b'', SErr ''NoSuchKey'' (EStr [])), (PutObject ''kratix'' ''p/b'' ''y'', SErr ''SlowDown'' (EStr ''busy''))]"

lemma failed_update_orphans_file:
  defines "B \<equiv> [''p/a'' \<mapsto> ''x'', ''p/s'' \<mapsto> plain_statefile [''a'']]" and "B' \<equiv> [''p/a'' \<mapsto> ''x'', ''p/s'' \<mapsto> plain_statefile [''b'']]"
  shows "exec (S3UpdateFiles plain_lib id ex_s3 [] ''w'' (ex_state [''b''] # ex_files) [''a'']) ex_orphan_trace (Returned ([], Some (EStr ''busy'')))"
    and "s3_serves plain_lib ''kratix'' B ex_orphan_trace B'"
    and "listing plain_lib B ''p/s'' = Inr [''a'']" "listing plain_lib B' ''p/s'' = Inr [''b'']" "''p/a'' \<in> dom B'"
proof -
  have s: "Join [''p'', [], ''s''] = ''p/s''" by (simp add: Join_def Clean_def clean_step_def)
  show "exec (S3UpdateFiles plain_lib id ex_s3 [] ''w'' (ex_state [''b''] # ex_files) [''a'']) ex_orphan_trace (Returned ([], Some (EStr ''busy'')))"
    by (rule script_exec [where rs = "map snd ex_orphan_trace"])
      (simp add: s3_eval ex_s3_def ex_files_def ex_state_def ex_orphan_trace_def ex_paths s plain_lib_def plain_statefile_def Let_def)
  show "s3_serves plain_lib ''kratix'' B ex_orphan_trace B'"
    unfolding ex_orphan_trace_def B_def B'_def
    by (rule s3_Stat s3_Other s3_Stat_none s3_Put s3_Put_fails s3_Nil | simp)+
qed (simp_all add: B_def B'_def listing_def plain_lib_def plain_statefile_def)

end
