(* ===== verification/GitWriter.thy ===== *)
theory GitWriter
  imports Writers
begin

text \<open>
  \<open>src/lib/writers/git.go\<close>: the writer for git repositories, against the requests it makes of \<open>go-git\<close>, the SSH library
  and the local disk.

  These are not modelled: their answers are responses. What git documents of its answers is the relation \<open>git_serves\<close>: a clone has
  the files of the remote branch in its work tree and its index; removing and adding change the index, a commit records it, and a
  push replaces the remote branch by the last commit; a request that fails changes nothing. The properties say what an update
  leaves on the remote branch, and that it is all or nothing. Concurrent pushes by others are rejected by the remote and so are
  failed pushes here. Logging is left out.

  Two assumptions of \<open>git_serves\<close> are about the local disk and not about git. An Lstat of a path in the clone fails exactly if there
  is nothing at the path; the program takes every failure of it for a missing file, so a failure for another reason would be one
  it does not see (\<open>failed_Lstat_reads_missing\<close>, \<open>failed_Lstat_keeps_directory\<close>). And nothing else changes the clone while it is used,
  although the program itself removes the parent of every clone at the end of an update or a read (\<open>update_removes_parent\<close>), with
  any other clone that is there.
\<close>

subsection \<open>The libraries' interface\<close>

datatype git_auth = AuthNone | AuthSSH string string | AuthBasic string string

datatype git_req =
    NewEndpoint string
  | NewPublicKeys string string
  | CreateTemp string
  | FileWrite string string
  | NewKnownHostsCallback string
  | OsRemove string
  | MkdirTemp string
  | GetUnsupportedCapabilities
  | SetUnsupportedCapabilities "string list"
  | PlainClone string string string git_auth
  | Worktree
  | Lstat string
  | WtRemove string
  | MkdirAll string
  | WriteFile string string
  | WtAdd string
  | WtStatus
  | GitNow
  | Commit string string string time
  | Push git_auth
  | ReadLocalFile string
  | RemoveAll string

text \<open>\<open>GUpToDate\<close> is the error \<open>git.NoErrAlreadyUpToDate\<close>.\<close>

datatype git_resp = GErr err | GUpToDate | GDone | GStr string | GStrs "string list" | GClean bool | GTime time

type_synonym 'a git = "(git_req, git_resp, 'a) prog"
type_synonym git_trace = "(git_req \<times> git_resp) list"

definition NoErrAlreadyUpToDate :: err where "NoErrAlreadyUpToDate = EStr ''already up-to-date''"

definition g_done :: "git_resp \<Rightarrow> err option" where
  "g_done r = (case r of GErr e \<Rightarrow> Some e | GUpToDate \<Rightarrow> Some NoErrAlreadyUpToDate | _ \<Rightarrow> None)"

definition g_str :: "git_resp \<Rightarrow> err + string" where
  "g_str r = (case r of GErr e \<Rightarrow> Inl e | GStr s \<Rightarrow> Inr s | _ \<Rightarrow> Inl decode_error)"

definition g_clean :: "git_resp \<Rightarrow> err + bool" where
  "g_clean r = (case r of GErr e \<Rightarrow> Inl e | GClean b \<Rightarrow> Inr b | _ \<Rightarrow> Inl decode_error)"

definition g_time :: "git_resp \<Rightarrow> time" where
  "g_time r = (case r of GTime t \<Rightarrow> t | _ \<Rightarrow> 0)"

definition g_strs :: "git_resp \<Rightarrow> string list" where
  "g_strs r = (case r of GStrs xs \<Rightarrow> xs | _ \<Rightarrow> [])"

text \<open>\<open>filepath.Dir\<close>: the path up to its last slash.\<close>

definition Dir :: "string \<Rightarrow> string" where
  "Dir path = Clean (rev (dropWhile (\<lambda>c. c \<noteq> CHR ''/'') (rev path)))"

subsection \<open>The writer\<close>

record GitWriter =
  gw_URL :: string
  gw_Branch :: string
  gw_Auth :: git_auth
  gw_AuthorName :: string
  gw_AuthorEmail :: string
  gw_Path :: string

definition sshUsernameFromURL :: "string \<Rightarrow> (err + string) git" where
  "sshUsernameFromURL url =
     Call (NewEndpoint url) (\<lambda>r. Ret
       (case g_str r of
          Inl e \<Rightarrow> Inl (EWrap ''failed to parse Git URL: '' e)
        | Inr user \<Rightarrow> Inr (if user = [] then ''git'' else user)))"

text \<open>An error about a missing key of the secret names the secret: without a reference this is a nil dereference.\<close>

definition missingKey :: "GitStateStoreSpec \<Rightarrow> string \<Rightarrow> (err + 'a) git" where
  "missingKey spec key =
     bnd (deref (gs_SecretRef spec)) (\<lambda>ref.
     Ret (Inl (EStr (key @ '' not found in secret '' @ sr_Namespace ref @ ''/'' @ sr_Name ref))))"

definition sshAuth :: "GitStateStoreSpec \<Rightarrow> labels \<Rightarrow> (err + git_auth) git" where
  "sshAuth spec creds =
     (case fmlookup creds ''sshPrivateKey'' of
        None \<Rightarrow> missingKey spec ''sshKey''
      | Some sshPrivateKey \<Rightarrow>
          (case fmlookup creds ''knownHosts'' of
             None \<Rightarrow> missingKey spec ''knownHosts''
           | Some knownHosts \<Rightarrow>
               bnd (sshUsernameFromURL (gs_URL spec)) (\<lambda>user.
               case user of
                 Inl e \<Rightarrow> Ret (Inl (EWrap ''error parsing GitStateStore url: '' e))
               | Inr sshUser \<Rightarrow>
                   Call (NewPublicKeys sshUser sshPrivateKey) (\<lambda>r.
                   case g_done r of
                     Some e \<Rightarrow> Ret (Inl (EWrap ''error parsing sshKey: '' e))
                   | None \<Rightarrow>
                       Call (CreateTemp ''knownHosts'') (\<lambda>r.
                       case g_str r of
                         Inl e \<Rightarrow> Ret (Inl (EWrap ''error creating knownHosts file: '' e))
                       | Inr knownHostsFile \<Rightarrow>
                           Call (FileWrite knownHostsFile knownHosts) (\<lambda>r.
                           case g_done r of
                             Some e \<Rightarrow> Ret (Inl (EWrap ''error writing knownHosts file: '' e))
                           | None \<Rightarrow>
                               Call (NewKnownHostsCallback knownHostsFile) (\<lambda>r.
                               case g_done r of
                                 Some e \<Rightarrow> Ret (Inl (EWrap ''error parsing known hosts: '' e))
                               | None \<Rightarrow>
                                   Call (OsRemove knownHostsFile) (\<lambda>r. Ret
                                     (case g_done r of
                                        Some e \<Rightarrow> Inl (EWrap ''error removing knownHosts file: '' e)
                                      | None \<Rightarrow> Inr (AuthSSH sshUser sshPrivateKey)))))))))
     )"

definition basicAuth :: "GitStateStoreSpec \<Rightarrow> labels \<Rightarrow> (err + git_auth) git" where
  "basicAuth spec creds =
     (case fmlookup creds ''username'' of
        None \<Rightarrow> missingKey spec ''username''
      | Some username \<Rightarrow>
          (case fmlookup creds ''password'' of
             None \<Rightarrow> missingKey spec ''password''
           | Some password \<Rightarrow> Ret (Inr (AuthBasic username password))))"

definition trim_slash :: "string \<Rightarrow> string" where
  "trim_slash s = (if prefix ''/'' s then tl s else s)"

definition GitNewWriter :: "GitStateStoreSpec \<Rightarrow> string \<Rightarrow> labels \<Rightarrow> (err + GitWriter) git" where
  "GitNewWriter spec destinationPath creds =
     bnd (if gs_AuthMethod spec = ''ssh'' then sshAuth spec creds
          else if gs_AuthMethod spec = ''basicAuth'' then basicAuth spec creds
          else Ret (Inr AuthNone)) (\<lambda>auth.
     Ret (case auth of
            Inl e \<Rightarrow> Inl e
          | Inr authMethod \<Rightarrow> Inr
              \<lparr>gw_URL = gs_URL spec, gw_Branch = gs_Branch spec, gw_Auth = authMethod, gw_AuthorName = gs_AuthorName spec,
               gw_AuthorEmail = gs_AuthorEmail spec, gw_Path = trim_slash (Join [gs_Path spec, destinationPath])\<rparr>))"

definition createLocalDirectory :: "(err + string) git" where
  "createLocalDirectory = Call (MkdirTemp ''kratix-repo'') (\<lambda>r. Ret (g_str r))"

text \<open>The list of unsupported capabilities is a variable of the library, restored after the clone.\<close>

definition cloneRepo :: "GitWriter \<Rightarrow> string \<Rightarrow> (err option) git" where
  "cloneRepo g localRepoFilePath =
     Call GetUnsupportedCapabilities (\<lambda>r.
     let oldUnsupportedCaps = g_strs r in
     bnd (if sublist ''dev.azure.com'' (gw_URL g) then Call (SetUnsupportedCapabilities [''thin-pack'']) (\<lambda>_. Ret ()) else Ret ()) (\<lambda>_.
     Call (PlainClone localRepoFilePath (gw_URL g) (''refs/heads/'' @ gw_Branch g) (gw_Auth g)) (\<lambda>r.
     Call (SetUnsupportedCapabilities oldUnsupportedCaps) (\<lambda>_.
     Ret (g_done r)))))"

definition setupLocalDirectoryWithRepo :: "GitWriter \<Rightarrow> (err + string) git" where
  "setupLocalDirectoryWithRepo g =
     bnd createLocalDirectory (\<lambda>dir.
     case dir of
       Inl e \<Rightarrow> Ret (Inl e)
     | Inr localTmpDir \<Rightarrow>
         bnd (cloneRepo g localTmpDir) (\<lambda>e.
         case e of
           Some e \<Rightarrow> Ret (Inl e)
         | None \<Rightarrow> Call Worktree (\<lambda>r. Ret (case g_done r of Some e \<Rightarrow> Inl e | None \<Rightarrow> Inr localTmpDir))))"

text \<open>One of the files to delete.\<close>

definition deleteFile :: "string \<Rightarrow> string \<Rightarrow> unit \<Rightarrow> ((unit, err option) loop) git" where
  "deleteFile dir file _ =
     (let worktreeFilePath = Join [dir, file] in
      Call (Lstat worktreeFilePath) (\<lambda>r.
      if g_done r \<noteq> None then Ret (Next ())
      else Call (WtRemove worktreeFilePath) (\<lambda>r. Ret (case g_done r of Some e \<Rightarrow> Leave (Some e) | None \<Rightarrow> Next ()))))"

definition deleteExistingFiles :: "bool \<Rightarrow> string \<Rightarrow> string list \<Rightarrow> (err option) git" where
  "deleteExistingFiles removeDirectory dir toDelete =
     (if removeDirectory then
        Call (Lstat dir) (\<lambda>r.
        if g_done r = None then Call (WtRemove dir) (\<lambda>r. Ret (g_done r)) else Ret None)
      else after_loop (for_range toDelete () (deleteFile dir)) (\<lambda>_. Ret None))"

text \<open>One of the files to create. A path that leaves the clone ends the update without an error.\<close>

definition writeFile :: "string \<Rightarrow> string \<Rightarrow> Workload \<Rightarrow> unit \<Rightarrow> ((unit, string \<times> err option) loop) git" where
  "writeFile localTmpDir dirInGitRepo file _ =
     (let worktreeFilePath = Join [dirInGitRepo, Filepath file];
          absoluteFilePath = Join [localTmpDir, worktreeFilePath] in
      if \<not> prefix localTmpDir absoluteFilePath then Ret (Leave ([], None))
      else
        Call (MkdirAll (Dir absoluteFilePath)) (\<lambda>r.
        case g_done r of
          Some e \<Rightarrow> Ret (Leave ([], Some e))
        | None \<Rightarrow>
            Call (WriteFile absoluteFilePath (Content file)) (\<lambda>r.
            case g_done r of
              Some e \<Rightarrow> Ret (Leave ([], Some e))
            | None \<Rightarrow>
                Call (WtAdd worktreeFilePath) (\<lambda>r. Ret (case g_done r of Some e \<Rightarrow> Leave ([], Some e) | None \<Rightarrow> Next ())))))"

definition push :: "GitWriter \<Rightarrow> (err option) git" where
  "push g = Call (Push (gw_Auth g)) (\<lambda>r. Ret (g_done r))"

definition commitAndPush :: "GitWriter \<Rightarrow> string \<Rightarrow> string \<Rightarrow> (string \<times> err option) git" where
  "commitAndPush g action workPlacementName =
     Call WtStatus (\<lambda>r.
     case g_clean r of
       Inl e \<Rightarrow> Ret ([], Some e)
     | Inr True \<Rightarrow> Ret ([], None)
     | Inr False \<Rightarrow>
         Call GitNow (\<lambda>r.
         Call (Commit (action @ '' from: '' @ workPlacementName) (gw_AuthorName g) (gw_AuthorEmail g) (g_time r)) (\<lambda>r.
         case g_str r of
           Inl e \<Rightarrow> Ret ([], Some e)
         | Inr sha \<Rightarrow> bnd (push g) (\<lambda>e. Ret (case e of Some e \<Rightarrow> ([], Some e) | None \<Rightarrow> (sha, None))))))"

text \<open>The part of an update between the clone and its removal.\<close>

definition updateClone :: "GitWriter \<Rightarrow> string \<Rightarrow> string \<Rightarrow> string \<Rightarrow> Workload list \<Rightarrow> string list \<Rightarrow> (string \<times> err option) git" where
  "updateClone g localTmpDir subDir workPlacementName toCreate toDelete =
     (let dirInGitRepo = Join [gw_Path g, subDir] in
      bnd (deleteExistingFiles (subDir \<noteq> []) dirInGitRepo toDelete) (\<lambda>e.
      case e of
        Some e \<Rightarrow> Ret ([], Some e)
      | None \<Rightarrow>
          after_loop (for_range toCreate () (writeFile localTmpDir dirInGitRepo)) (\<lambda>_.
          commitAndPush g (if length toCreate > 0 then ''Update'' else ''Delete'') workPlacementName)))"

definition GitUpdate :: "GitWriter \<Rightarrow> string \<Rightarrow> string \<Rightarrow> Workload list \<Rightarrow> string list \<Rightarrow> (string \<times> err option) git" where
  "GitUpdate g subDir workPlacementName toCreate toDelete =
     (if length toCreate = 0 \<and> length toDelete = 0 \<and> subDir = [] then Ret ([], None)
      else
        bnd (setupLocalDirectoryWithRepo g) (\<lambda>r.
        case r of
          Inl e \<Rightarrow> Ret ([], Some e)
        | Inr localTmpDir \<Rightarrow>
            bnd (updateClone g localTmpDir subDir workPlacementName toCreate toDelete) (\<lambda>res.
            Call (RemoveAll (Dir localTmpDir)) (\<lambda>_. Ret res))))"

definition GitUpdateFiles :: "GitWriter \<Rightarrow> string \<Rightarrow> string \<Rightarrow> Workload list \<Rightarrow> string list \<Rightarrow> (string \<times> err option) git" where
  "GitUpdateFiles g subDir workPlacementName toCreate toDelete = GitUpdate g subDir workPlacementName toCreate toDelete"

definition GitReadFile :: "GitWriter \<Rightarrow> string \<Rightarrow> (err + string) git" where
  "GitReadFile g filePath =
     (let fullPath = Join [gw_Path g, filePath] in
      bnd (setupLocalDirectoryWithRepo g) (\<lambda>r.
      case r of
        Inl e \<Rightarrow> Ret (Inl e)
      | Inr localTmpDir \<Rightarrow>
          bnd (Call (Lstat fullPath) (\<lambda>r.
               if g_done r \<noteq> None then Ret (Inl EFileNotFound)
               else Call (ReadLocalFile (Join [localTmpDir, fullPath])) (\<lambda>r. Ret (g_str r)))) (\<lambda>res.
          Call (RemoveAll (Dir localTmpDir)) (\<lambda>_. Ret res))))"

definition validatePush :: "GitWriter \<Rightarrow> (err option) git" where
  "validatePush g =
     Call (Push (gw_Auth g)) (\<lambda>r. Ret
       (case r of
          GUpToDate \<Rightarrow> None
        | _ \<Rightarrow> (case g_done r of Some e \<Rightarrow> Some (EWrap ''write permission validation failed: '' e) | None \<Rightarrow> None)))"

definition GitValidatePermissions :: "GitWriter \<Rightarrow> (err option) git" where
  "GitValidatePermissions g =
     bnd (setupLocalDirectoryWithRepo g) (\<lambda>r.
     case r of
       Inl e \<Rightarrow> Ret (Some (EWrap ''failed to set up local directory with repo: '' e))
     | Inr localTmpDir \<Rightarrow> bnd (validatePush g) (\<lambda>e. Call (RemoveAll localTmpDir) (\<lambda>_. Ret e)))"

subsection \<open>What git documents of its answers\<close>

text \<open>
  The files of the remote branch, of the clone's last commit, of its index and of its work tree (by their paths in the
  repository), and where the clone is.
\<close>

record git_state =
  gst_remote :: store
  gst_head :: store
  gst_index :: store
  gst_disk :: store
  gst_dir :: string

definition at_or_below :: "string \<Rightarrow> string \<Rightarrow> bool" where
  "at_or_below p f \<longleftrightarrow> f = p \<or> prefix (p @ ''/'') f"

definition without :: "string \<Rightarrow> store \<Rightarrow> store" where
  "without p m = m |` {f. \<not> at_or_below p f}"

text \<open>A temporary directory: an absolute path of plain names.\<close>

definition tmp_dir :: "string \<Rightarrow> bool" where
  "tmp_dir d \<longleftrightarrow> (\<exists>xs. xs \<noteq> [] \<and> list_all plain_name xs \<and> d = rooted xs)"

definition git_fails :: "git_resp \<Rightarrow> bool" where
  "git_fails r \<longleftrightarrow> r = GUpToDate \<or> (\<exists>e. r = GErr e \<and> \<not> IsFileNotFound e)"

fun git_request :: "git_req \<Rightarrow> bool" where
  "git_request (MkdirTemp n) = True"
| "git_request (PlainClone d u b a) = True"
| "git_request (Lstat p) = True"
| "git_request (WtRemove p) = True"
| "git_request (WriteFile p c) = True"
| "git_request (WtAdd p) = True"
| "git_request WtStatus = True"
| "git_request (Commit m a e t) = True"
| "git_request (Push a) = True"
| "git_request (ReadLocalFile p) = True"
| "git_request (RemoveAll p) = True"
| "git_request q = False"

definition in_clone :: "git_state \<Rightarrow> string \<Rightarrow> string" where
  "in_clone S f = gst_dir S @ ''/'' @ f"

inductive git_step :: "git_state \<Rightarrow> git_req \<Rightarrow> git_resp \<Rightarrow> git_state \<Rightarrow> bool" where
  git_Mkdir: "tmp_dir d \<Longrightarrow> git_step S (MkdirTemp n) (GStr d) (S\<lparr>gst_dir := d\<rparr>)"
| git_Clone: "git_step S (PlainClone (gst_dir S) u b a) GDone (S\<lparr>gst_head := gst_remote S, gst_index := gst_remote S, gst_disk := gst_remote S\<rparr>)"
| git_Lstat: "\<exists>f\<in>dom (gst_disk S). at_or_below p f \<Longrightarrow> git_step S (Lstat p) GDone S"
| git_Lstat_none: "\<not> (\<exists>f\<in>dom (gst_disk S). at_or_below p f) \<Longrightarrow> git_step S (Lstat p) (GErr e) S"
| git_Remove: "git_step S (WtRemove p) GDone (S\<lparr>gst_index := without p (gst_index S), gst_disk := without p (gst_disk S)\<rparr>)"
| git_Write: "git_step S (WriteFile (in_clone S f) c) GDone (S\<lparr>gst_disk := (gst_disk S)(f \<mapsto> c)\<rparr>)"
| git_Write_elsewhere: "(\<And>f. p \<noteq> in_clone S f) \<Longrightarrow> git_step S (WriteFile p c) GDone S"
| git_Add: "gst_disk S p = Some c \<Longrightarrow> git_step S (WtAdd p) GDone (S\<lparr>gst_index := (gst_index S)(p \<mapsto> c)\<rparr>)"
| git_Status: "git_step S WtStatus (GClean (gst_index S = gst_head S \<and> gst_disk S = gst_index S)) S"
| git_Commit: "git_step S (Commit m a e now) (GStr sha) (S\<lparr>gst_head := gst_index S\<rparr>)"
| git_Push: "git_step S (Push a) GDone (S\<lparr>gst_remote := gst_head S\<rparr>)"
| git_Read: "gst_disk S f = Some c \<Longrightarrow> git_step S (ReadLocalFile (in_clone S f)) (GStr c) S"
| git_RemoveAll: "git_step S (RemoveAll p) r (S\<lparr>gst_disk := m\<rparr>)"
| git_Fails: "git_request q \<Longrightarrow> git_fails r \<Longrightarrow> (\<And>p. q \<noteq> Lstat p) \<Longrightarrow> git_step S q r S"
| git_Other: "\<not> git_request q \<Longrightarrow> (\<And>e. r = GErr e \<Longrightarrow> \<not> IsFileNotFound e) \<Longrightarrow> git_step S q r S"

inductive_simps git_step_simps:
  "git_step S (MkdirTemp n) r S'" "git_step S (PlainClone d u b a) r S'" "git_step S (Lstat p) r S'" "git_step S (WtRemove p) r S'"
  "git_step S (WriteFile p c) r S'" "git_step S (WtAdd p) r S'" "git_step S WtStatus r S'" "git_step S (Commit m a e now) r S'"
  "git_step S (Push a) r S'" "git_step S (ReadLocalFile p) r S'" "git_step S (RemoveAll p) r S'"
  "git_step S GetUnsupportedCapabilities r S'" "git_step S (SetUnsupportedCapabilities cs) r S'" "git_step S Worktree r S'"
  "git_step S (MkdirAll p) r S'" "git_step S GitNow r S'"

abbreviation git_serves :: "git_state \<Rightarrow> git_trace \<Rightarrow> git_state \<Rightarrow> bool" where
  "git_serves \<equiv> steps git_step"

abbreviation on_repo :: "'a git \<Rightarrow> git_state \<Rightarrow> (git_state \<Rightarrow> 'a outcome \<Rightarrow> bool) \<Rightarrow> bool" where
  "on_repo \<equiv> stepwise.against git_step"

lemmas on_repo_bnd = stepwise.against_bnd [where step = git_step]
lemmas on_repo_mono = stepwise.against_mono [where step = git_step]
lemmas on_repoD = stepwise.againstD [where step = git_step]
lemmas on_repo_for_range = stepwise.against_for_range [where step = git_step]

lemma git_fails_done: "git_fails r \<Longrightarrow> g_done r \<noteq> None"
  by (auto simp: git_fails_def g_done_def)

lemma git_fails_str: "git_fails r \<Longrightarrow> \<exists>e. g_str r = Inl e \<and> \<not> IsFileNotFound e"
  by (auto simp: git_fails_def g_str_def decode_error_def)

subsection \<open>The effect of an update\<close>

definition cloned :: "git_state \<Rightarrow> bool" where
  "cloned S \<longleftrightarrow> gst_head S = gst_remote S \<and> gst_index S = gst_remote S \<and> gst_disk S = gst_remote S"

lemma setup_effect:
  "on_repo (setupLocalDirectoryWithRepo g) S (\<lambda>S' oc. gst_remote S' = gst_remote S \<and> (\<exists>r. oc = Returned r \<and>
     (\<forall>d. r = Inr d \<longrightarrow> tmp_dir d \<and> gst_dir S' = d \<and> cloned S') \<and> (\<forall>e. r = Inl e \<longrightarrow> \<not> IsFileNotFound e)))"
proof -
  have str: "g_str r = Inl e \<Longrightarrow> \<not> IsFileNotFound e" if "git_fails r" for r e using git_fails_str [OF that] by auto
  have don: "\<not> IsFileNotFound e" if "g_done r = Some e" "\<forall>e. r = GErr e \<longrightarrow> \<not> IsFileNotFound e" for r e
    using that by (cases r) (auto simp: g_done_def NoErrAlreadyUpToDate_def)
  have fail: "g_done r = Some e \<Longrightarrow> \<not> IsFileNotFound e" if "git_fails r" for r e
    using that by (auto simp: git_fails_def g_done_def NoErrAlreadyUpToDate_def)
  have clone: "on_repo (cloneRepo g (gst_dir S)) S (\<lambda>S' oc. gst_remote S' = gst_remote S \<and> gst_dir S' = gst_dir S \<and>
      (\<exists>e. oc = Returned e \<and> (e = None \<longrightarrow> cloned S') \<and> (\<forall>x. e = Some x \<longrightarrow> \<not> IsFileNotFound x)))" for S
    unfolding cloneRepo_def Let_def
    by (auto simp: against_Call_step git_step_simps cloned_def g_done_def dest: git_fails_done fail)
  have dir: "on_repo createLocalDirectory S (\<lambda>S' oc. gst_remote S' = gst_remote S \<and> (\<exists>r. oc = Returned r \<and>
      (\<forall>d. r = Inr d \<longrightarrow> tmp_dir d \<and> gst_dir S' = d) \<and> (\<forall>e. r = Inl e \<longrightarrow> \<not> IsFileNotFound e)))"
    unfolding createLocalDirectory_def by (auto simp: against_Call_step git_step_simps g_str_def dest: git_fails_str str)
  show ?thesis
    unfolding setupLocalDirectoryWithRepo_def
  proof (rule on_repo_bnd [OF dir], goal_cases)
    case (1 S1 r)
    show ?case
    proof (cases r)
      case (Inr d)
      with 1 have d: "tmp_dir d" "gst_dir S1 = d" "gst_remote S1 = gst_remote S" by auto
      show ?thesis
        unfolding Inr sum.case
        by (rule on_repo_bnd [OF clone [of S1, unfolded d(2)]])
          (auto simp: against_Call_step git_step_simps d cloned_def split: option.split dest: don)
    qed (use 1 in auto)
  qed auto
qed

text \<open>The work tree has the files \<open>m\<close>, all of them staged; the last commit, the remote branch and the place of the clone are those of \<open>S\<close>.\<close>

definition staged :: "git_state \<Rightarrow> store \<Rightarrow> git_state \<Rightarrow> bool" where
  "staged S m S' \<longleftrightarrow> S' = S\<lparr>gst_index := m, gst_disk := m\<rparr>"

lemma staged_self: "gst_index S = m \<Longrightarrow> gst_disk S = m \<Longrightarrow> staged S m S"
  by (simp add: staged_def)

lemma staged_trans: "staged S m S' \<Longrightarrow> staged S' m' S'' \<Longrightarrow> staged S m' S''"
  by (simp add: staged_def)

lemma without_none: "\<not> (\<exists>f\<in>dom m. at_or_below p f) \<Longrightarrow> without p m = m"
  by (rule ext) (force simp: without_def restrict_map_def dom_def)

text \<open>What an update removes from the repository, unless it creates it again, and what it creates.\<close>

definition git_removed :: "GitWriter \<Rightarrow> string \<Rightarrow> string list \<Rightarrow> string set" where
  "git_removed g subDir ds =
     (let dir = Join [gw_Path g, subDir] in
      if subDir \<noteq> [] then {f. at_or_below dir f} else {f. \<exists>d\<in>set ds. at_or_below (Join [dir, d]) f})"

definition git_created :: "GitWriter \<Rightarrow> string \<Rightarrow> Workload list \<Rightarrow> (string \<times> string) list" where
  "git_created g subDir cs = map (\<lambda>w. (Join [Join [gw_Path g, subDir], Filepath w], Content w)) cs"

lemma delete_effect:
  assumes "staged S m S1"
  shows "on_repo (deleteExistingFiles (subDir \<noteq> []) (Join [gw_Path g, subDir]) ds) S1 (\<lambda>S' oc. gst_remote S' = gst_remote S \<and>
    (\<exists>e. oc = Returned e \<and> (e = None \<longrightarrow> staged S (m |` (- git_removed g subDir ds)) S')))"
proof (cases "subDir = []")
  case False
  then have "git_removed g subDir ds = {f. at_or_below (Join [gw_Path g, subDir]) f}" by (simp add: git_removed_def Let_def)
  then have w: "m |` (- git_removed g subDir ds) = without (Join [gw_Path g, subDir]) m" by (simp add: without_def Compl_eq)
  show ?thesis
    unfolding w using False assms
    by (auto simp: deleteExistingFiles_def against_Call_step git_step_simps staged_def without_none g_done_def dest: git_fails_done)
next
  case True
  let ?dir = "Join [gw_Path g, []]"
  have one: "on_repo (deleteFile dir d u) S1 (\<lambda>S' oc. case oc of
      Returned (Next u') \<Rightarrow> staged S (without (Join [dir, d]) m) S'
    | Returned (Leave e) \<Rightarrow> gst_remote S' = gst_remote S \<and> e \<noteq> None
    | Panicked x \<Rightarrow> False)" if "staged S m S1" for dir d u m S1
    using that unfolding deleteFile_def Let_def
    by (auto simp: against_Call_step git_step_simps staged_def without_none g_done_def git_fails_def split: option.split)
  have snoc: "m |` (- git_removed g [] (pre @ [d])) = without (Join [?dir, d]) (m |` (- git_removed g [] pre))" for pre d
    by (auto simp: git_removed_def without_def restrict_map_def fun_eq_iff Let_def)
  show ?thesis
    unfolding True deleteExistingFiles_def after_loop_def simp_thms if_False
  proof (rule on_repo_bnd [where P = "\<lambda>S' oc. (case oc of Returned (Next u) \<Rightarrow> staged S (m |` (- git_removed g [] ds)) S'
        | Returned (Leave e) \<Rightarrow> gst_remote S' = gst_remote S \<and> e \<noteq> None | Panicked x \<Rightarrow> False)"], goal_cases)
    case 1
    show ?case
    proof (rule on_repo_for_range [where I = "\<lambda>pre S' u. staged S (m |` (- git_removed g [] pre)) S'"], goal_cases)
      case (2 pre d rest S2 u)
      show ?case
        by (rule on_repo_mono [OF one [OF 2(2)]]) (auto split: outcome.splits loop.splits simp: snoc)
    qed (use assms in \<open>auto simp: git_removed_def staged_def restrict_map_def\<close>)
  qed (auto split: loop.splits simp: staged_def)
qed

lemma Join_tmp_dir:
  assumes "tmp_dir d" and "plain_path f"
  shows "Join [d, f] = d @ ''/'' @ f"
proof -
  from assms(1) obtain xs where xs: "xs \<noteq> []" "list_all plain_name xs" "d = rooted xs" unfolding tmp_dir_def by blast
  let ?fs = "split_on (CHR ''/'') f"
  have fs: "?fs \<noteq> []" "list_all plain_name ?fs" using assms(2) by (auto simp: plain_path_def split_on_nonempty)
  have r: "d @ ''/'' @ f = rooted (xs @ ?fs)" using xs(1,3) fs(1) by (simp add: rooted_append join_split_on)
  have "d \<noteq> []" "f \<noteq> []" using xs assms(2) by (auto simp: rooted_def plain_path_def plain_name_def)
  then have "Join [d, f] = Clean (d @ ''/'' @ f)" by (simp add: Join_def)
  also have "\<dots> = d @ ''/'' @ f" unfolding r using xs fs by (intro Clean_rooted) auto
  finally show ?thesis .
qed

lemma write_effect:
  assumes "staged S m S1" and "tmp_dir (gst_dir S)" and "plain_path (Join [dir, Filepath w])"
  shows "on_repo (writeFile (gst_dir S) dir w u) S1 (\<lambda>S' oc. case oc of
      Returned (Next u') \<Rightarrow> staged S (m(Join [dir, Filepath w] \<mapsto> Content w)) S'
    | Returned (Leave r) \<Rightarrow> gst_remote S' = gst_remote S \<and> snd r \<noteq> None
    | Panicked x \<Rightarrow> False)"
proof -
  have "gst_dir S1 = gst_dir S" using assms(1) by (simp add: staged_def)
  then have p: "Join [gst_dir S, Join [dir, Filepath w]] = in_clone S1 (Join [dir, Filepath w])"
    using Join_tmp_dir [OF assms(2,3)] by (simp add: in_clone_def)
  have inj: "in_clone S' f = in_clone S' f' \<longleftrightarrow> f = f'" for S' f f' by (simp add: in_clone_def)
  have pre: "prefix (gst_dir S) (in_clone S1 f)" for f using \<open>gst_dir S1 = _\<close> by (simp add: in_clone_def)
  show ?thesis
    unfolding writeFile_def Let_def p using assms(1) pre
    by (auto simp: against_Call_step git_step_simps staged_def g_done_def git_fails_def inj split: git_resp.splits option.split)
qed

lemma writes_effect:
  assumes "staged S m S1" and "tmp_dir (gst_dir S)" and "list_all (\<lambda>w. plain_path (Join [Join [gw_Path g, subDir], Filepath w])) cs"
  shows "on_repo (for_range cs u (writeFile (gst_dir S) (Join [gw_Path g, subDir]))) S1 (\<lambda>S' oc. case oc of
      Returned (Next u') \<Rightarrow> staged S (written m (git_created g subDir cs)) S'
    | Returned (Leave r) \<Rightarrow> gst_remote S' = gst_remote S \<and> snd r \<noteq> None
    | Panicked x \<Rightarrow> False)"
proof (rule on_repo_for_range [where I = "\<lambda>pre S' u. staged S (written m (git_created g subDir pre)) S'"], goal_cases)
  case (2 pre w rest S2 u)
  have w: "plain_path (Join [Join [gw_Path g, subDir], Filepath w])" using assms(3) 2(1) by simp
  have "written m (git_created g subDir (pre @ [w])) = (written m (git_created g subDir pre))(Join [Join [gw_Path g, subDir], Filepath w] \<mapsto> Content w)"
    by (simp add: written_def git_created_def)
  then show ?case
    by (auto intro!: on_repo_mono [OF write_effect [OF 2(2) assms(2) w]] split: outcome.splits loop.splits)
qed (use assms(1) in \<open>auto simp: written_def git_created_def\<close>)

text \<open>
  A path that is not plain after joining: the guard stops the update, or the file is written and adding it fails, for the work
  tree has no file of such a name. The place a file is written to, if it is in the clone, has a plain path there.
\<close>

lemma in_clone_plain:
  assumes "tmp_dir (gst_dir S)" and "Join [gst_dir S, p] = in_clone S f"
  shows "plain_path f"
proof -
  from assms(1) obtain ds where ds: "ds \<noteq> []" "list_all plain_name ds" "gst_dir S = rooted ds" unfolding tmp_dir_def by blast
  have "prefix ''/'' (join (filter (\<lambda>e. e \<noteq> []) [gst_dir S, p]) ''/'')" using ds(3) by (auto simp: rooted_def)
  with Clean_absolute obtain xs where xs: "list_all plain_name xs" "Join [gst_dir S, p] = rooted xs"
    by (fastforce simp: Join_def rooted_def ds(3))
  have eq: "rooted xs = rooted ds @ ''/'' @ f" using assms(2) xs(2) ds(3) by (simp add: in_clone_def)
  then have "xs \<noteq> []" by (auto simp: rooted_def)
  then have "[] # xs = ([] # ds) @ split_on (CHR ''/'') f"
    using eq split_on_rooted [OF ds(1,2)] split_on_rooted [OF _ xs(1)] split_on_slash [of "CHR ''/''" "rooted ds" f] by simp
  with xs(1) show ?thesis by (auto simp: plain_path_def)
qed

lemma write_odd_effect:
  assumes "staged S m S1" and "tmp_dir (gst_dir S)" and "\<not> plain_path (Join [dir, Filepath w])" and "\<forall>f\<in>dom m. plain_path f"
  shows "on_repo (writeFile (gst_dir S) dir w u) S1 (\<lambda>S' oc. gst_remote S' = gst_remote S \<and> (\<exists>r. oc = Returned (Leave r)))"
proof -
  let ?p = "Join [dir, Filepath w]"
  have d: "gst_dir S1 = gst_dir S" using assms(1) by (simp add: staged_def)
  have "m ?p = None" using assms(3,4) by auto
  moreover have "Join [gst_dir S, ?p] \<noteq> in_clone S1 ?p"
    using in_clone_plain [of S1 ?p ?p] assms(2,3) d by auto
  ultimately show ?thesis
    unfolding writeFile_def Let_def using assms(1)
    by (auto simp: against_Call_step git_step_simps staged_def g_done_def git_fails_def split: git_resp.splits option.split)
qed

lemma updateClone_odd_effect:
  assumes "cloned S" and "tmp_dir (gst_dir S)" and "\<forall>f\<in>dom (gst_remote S). plain_path f"
    and "\<not> list_all (\<lambda>w. plain_path (Join [Join [gw_Path g, subDir], Filepath w])) cs"
  shows "on_repo (updateClone g (gst_dir S) subDir name cs ds) S (\<lambda>S' oc. gst_remote S' = gst_remote S \<and> (\<exists>r. oc = Returned r))"
proof -
  let ?dir = "Join [gw_Path g, subDir]"
  let ?plain = "\<lambda>w. plain_path (Join [?dir, Filepath w])"
  have loop: "on_repo (for_range cs () (writeFile (gst_dir S) ?dir)) S1
      (\<lambda>S' oc. gst_remote S' = gst_remote S \<and> (\<exists>r. oc = Returned (Leave r)))"
    if "staged S m S1" and "\<forall>f\<in>dom m. plain_path f" for m S1
  proof (rule on_repo_for_range [where I = "\<lambda>pre S' u. list_all ?plain pre \<and> (\<exists>m. staged S m S' \<and> (\<forall>f\<in>dom m. plain_path f))"], goal_cases)
    case (2 pre w rest S2 u)
    then obtain m' where m': "staged S m' S2" "\<forall>f\<in>dom m'. plain_path f" by blast
    show ?case
    proof (cases "?plain w")
      case True
      have "\<exists>m. staged S m S' \<and> (\<forall>f\<in>dom m. plain_path f)" if "staged S (m'(Join [?dir, Filepath w] \<mapsto> Content w)) S'" for S'
        using that m'(2) True by (intro exI [of _ "m'(Join [?dir, Filepath w] \<mapsto> Content w)"]) auto
      then show ?thesis
        using 2 True by (intro on_repo_mono [OF write_effect [OF m'(1) assms(2) True]]) (auto split: outcome.splits loop.splits)
    next
      case False
      show ?thesis
        by (rule on_repo_mono [OF write_odd_effect [OF m'(1) assms(2) False m'(2)]]) auto
    qed
  qed (use that assms(4) in auto)
  show ?thesis
    unfolding updateClone_def Let_def
  proof (rule on_repo_bnd [OF delete_effect [where S = S and m = "gst_remote S"]], goal_cases)
    case (2 S1 e)
    show ?case
    proof (cases e)
      case None
      with 2 have s: "staged S (gst_remote S |` (- git_removed g subDir ds)) S1" by simp
      show ?thesis
        unfolding None option.case after_loop_def
        by (rule on_repo_bnd [OF loop [OF s]]) (use assms(3) in auto)
    qed (use 2 in auto)
  qed (use assms(1) in \<open>auto simp: cloned_def staged_def\<close>)
qed

text \<open>The remote branch is updated and there is no error, or there is one and nothing has changed.\<close>

definition all_or_nothing :: "store \<Rightarrow> store \<Rightarrow> git_state \<Rightarrow> (string \<times> err option) outcome \<Rightarrow> bool" where
  "all_or_nothing m m' S' oc \<longleftrightarrow> (\<exists>v. oc = Returned (v, None) \<and> gst_remote S' = m') \<or> (\<exists>v e. oc = Returned (v, Some e) \<and> gst_remote S' = m)"

lemma commit_effect:
  assumes "staged S m S1" and "cloned S"
  shows "on_repo (commitAndPush g action name) S1 (all_or_nothing (gst_remote S) m)"
  using assms unfolding commitAndPush_def push_def staged_def cloned_def
  by (cases "m = gst_remote S") (auto simp: all_or_nothing_def against_Call_step git_step_simps g_clean_def g_str_def g_done_def git_fails_def split: option.split)

lemma updateClone_effect:
  assumes "cloned S" and "tmp_dir (gst_dir S)" and "list_all (\<lambda>w. plain_path (Join [Join [gw_Path g, subDir], Filepath w])) cs"
  shows "on_repo (updateClone g (gst_dir S) subDir name cs ds) S (all_or_nothing (gst_remote S)
    (written (gst_remote S |` (- git_removed g subDir ds)) (git_created g subDir cs)))"
  unfolding updateClone_def Let_def
proof (rule on_repo_bnd [OF delete_effect [where S = S and m = "gst_remote S"]], goal_cases)
  case (2 S1 e)
  show ?case
  proof (cases e)
    case None
    with 2 have s: "staged S (gst_remote S |` (- git_removed g subDir ds)) S1" by simp
    show ?thesis
      unfolding None option.case after_loop_def
      apply (rule on_repo_bnd [OF writes_effect [OF s assms(2,3)]])
      subgoal for S2 l by (cases l) (auto intro!: commit_effect [OF _ assms(1)] simp: all_or_nothing_def)
      subgoal by simp
      done
  qed (use 2 in \<open>auto simp: all_or_nothing_def\<close>)
qed (use assms(1) in \<open>auto simp: cloned_def staged_def\<close>)

text \<open>
  \<open>pushed\<close>: what the remote branch has after a successful update. It is unchanged if a path to create is not plain.
\<close>

definition plain_files :: "GitWriter \<Rightarrow> string \<Rightarrow> Workload list \<Rightarrow> bool" where
  "plain_files g subDir cs \<longleftrightarrow> list_all (\<lambda>w. plain_path (Join [Join [gw_Path g, subDir], Filepath w])) cs"

definition pushed :: "GitWriter \<Rightarrow> string \<Rightarrow> Workload list \<Rightarrow> string list \<Rightarrow> store \<Rightarrow> store" where
  "pushed g subDir cs ds m =
     (if plain_files g subDir cs then written (m |` (- git_removed g subDir ds)) (git_created g subDir cs) else m)"

lemma GitUpdate_effect:
  assumes "plain_files g subDir cs \<or> (\<forall>f\<in>dom (gst_remote S). plain_path f)"
  shows "on_repo (GitUpdateFiles g subDir name cs ds) S (all_or_nothing (gst_remote S) (pushed g subDir cs ds (gst_remote S)))"
proof (cases "cs = [] \<and> ds = [] \<and> subDir = []")
  case True
  then show ?thesis
    by (simp add: all_or_nothing_def GitUpdateFiles_def GitUpdate_def git_removed_def git_created_def written_def restrict_map_def pushed_def)
next
  case False
  then have u: "GitUpdateFiles g subDir name cs ds = bnd (setupLocalDirectoryWithRepo g) (\<lambda>r. case r of
      Inl e \<Rightarrow> Ret ([], Some e) | Inr localTmpDir \<Rightarrow> bnd (updateClone g localTmpDir subDir name cs ds) (\<lambda>res.
        Call (RemoveAll (Dir localTmpDir)) (\<lambda>_. Ret res)))"
    by (auto simp: GitUpdateFiles_def GitUpdate_def)
  show ?thesis
    unfolding u
  proof (rule on_repo_bnd [OF setup_effect], goal_cases)
    case (1 S1 r)
    show ?case
    proof (cases r)
      case (Inr d)
      with 1 have d: "gst_remote S1 = gst_remote S" "tmp_dir (gst_dir S1)" "d = gst_dir S1" "cloned S1" by auto
      have "on_repo (updateClone g (gst_dir S1) subDir name cs ds) S1 (all_or_nothing (gst_remote S) (pushed g subDir cs ds (gst_remote S)))"
      proof (cases "plain_files g subDir cs")
        case True
        with updateClone_effect [OF d(4,2)] show ?thesis by (simp add: plain_files_def pushed_def d(1))
      next
        case False
        have ends: "all_or_nothing (gst_remote S) (gst_remote S) S' (Returned r)" if "gst_remote S' = gst_remote S" for S' r
          using that by (cases r, cases "snd r") (auto simp: all_or_nothing_def)
        from False assms d(1) show ?thesis
          by (intro on_repo_mono [OF updateClone_odd_effect [OF d(4,2), of g subDir cs]]) (auto simp: plain_files_def pushed_def ends)
      qed
      then show ?thesis
        unfolding Inr sum.case d(3)
        by (rule on_repo_bnd) (auto simp: against_Call_step git_step_simps all_or_nothing_def)
    qed (use 1 in \<open>auto simp: all_or_nothing_def\<close>)
  qed auto
qed

subsection \<open>The remote branch as the store of the state files\<close>

lemma Join_base: "base_path p \<Longrightarrow> Join [p, []] = p"
  using Join_single [of p] by (auto simp: base_path_def Join_def)

lemma plain_path_under: "base_path p \<Longrightarrow> plain_path f \<Longrightarrow> plain_path (path_under p f)"
  using plain_path_append [of p f] by (auto simp: base_path_def path_under_def)

lemma GitReadFile_effect:
  assumes "base_path (gw_Path g)" and "plain_path p"
  shows "on_repo (GitReadFile g p) S (\<lambda>S' oc. gst_remote S' = gst_remote S \<and>
     (\<forall>c. oc = Returned (Inr c) \<longrightarrow> gst_remote S (Join [gw_Path g, p]) = Some c) \<and>
     (\<forall>e. oc = Returned (Inl e) \<longrightarrow> IsFileNotFound e \<longrightarrow> e = EFileNotFound \<and> gst_remote S (Join [gw_Path g, p]) = None))"
  unfolding GitReadFile_def Let_def
proof (rule on_repo_bnd [OF setup_effect], goal_cases)
  case (1 S1 r)
  show ?case
  proof (cases r)
    case (Inr d)
    let ?f = "Join [gw_Path g, p]"
    have f: "plain_path ?f" using assms by (simp add: Join_path_under plain_path_under)
    from 1 Inr have d: "tmp_dir d" "gst_dir S1 = d" "gst_disk S1 = gst_remote S" "gst_remote S1 = gst_remote S" by (auto simp: cloned_def)
    have abs: "Join [d, ?f] = in_clone S1 ?f" using Join_tmp_dir [OF d(1) f] d(2) by (simp add: in_clone_def)
    have inj: "in_clone S1 a = in_clone S1 b \<longleftrightarrow> a = b" for a b by (simp add: in_clone_def)
    have no: "\<not> (\<exists>g\<in>dom (gst_remote S). at_or_below ?f g) \<Longrightarrow> gst_remote S ?f = None" by (force simp: at_or_below_def)
    show ?thesis
      unfolding Inr sum.case abs using d no
      by (auto simp: against_Call_step git_step_simps inj g_done_def g_str_def git_fails_def decode_error_def)
  qed (use 1 in auto)
qed auto

text \<open>A listed file is a file of the repository, not a directory.\<close>

definition git_apt :: "GitWriter \<Rightarrow> git_state \<Rightarrow> Workload list \<Rightarrow> string list \<Rightarrow> bool" where
  "git_apt g S cs ds \<longleftrightarrow> base_path (gw_Path g) \<and> list_all plain_path (ds @ map Filepath cs) \<and>
     (\<forall>d\<in>set ds. \<forall>f\<in>dom (gst_remote S). at_or_below (Join [gw_Path g, d]) f \<longrightarrow> f = Join [gw_Path g, d])"

lemma Git_below:
  assumes "git_apt g S cs ds"
  shows "below (gw_Path g) (pushed g [] cs ds (gst_remote S)) = update_store (below (gw_Path g) (gst_remote S)) cs ds"
    and "plain_files g [] cs"
proof -
  from assms have p: "base_path (gw_Path g)" "list_all plain_path (ds @ map Filepath cs)"
    and dir: "\<And>d f. d \<in> set ds \<Longrightarrow> gst_remote S f \<noteq> None \<Longrightarrow> at_or_below (Join [gw_Path g, d]) f \<Longrightarrow> f = Join [gw_Path g, d]"
    unfolding git_apt_def by blast+
  have "Join [gw_Path g, f] \<in> git_removed g [] ds \<longleftrightarrow> f \<in> set ds"
    if "plain_path f" "gst_remote S (Join [gw_Path g, f]) \<noteq> None" for f
  proof -
    have "Join [gw_Path g, f] = Join [gw_Path g, d] \<longleftrightarrow> f = d" if "d \<in> set ds" for d
      using that p \<open>plain_path f\<close> by (auto simp: Join_path_under list_all_iff)
    moreover have "at_or_below x x" for x by (simp add: at_or_below_def)
    ultimately show ?thesis
      using dir [OF _ that(2)] unfolding git_removed_def Let_def Join_base [OF p(1)] by auto
  qed
  note below_written [OF p(1,2) this]
  moreover show "plain_files g [] cs"
    using p by (auto simp: plain_files_def Join_base Join_path_under plain_path_under list_all_iff)
  ultimately show "below (gw_Path g) (pushed g [] cs ds (gst_remote S)) = update_store (below (gw_Path g) (gst_remote S)) cs ds"
    by (simp add: pushed_def git_created_def Join_base [OF p(1)])
qed

interpretation git_writer: atomic_writer git_serves "GitUpdateFiles g []" "GitReadFile g" "\<lambda>S. below (gw_Path g) (gst_remote S)" "git_apt g"
  "\<lambda>p. base_path (gw_Path g) \<and> plain_path p" for g
proof unfold_locales
  fix p t res S S'
  assume "exec (GitReadFile g p) t (Returned res)" and "git_serves S t S'" and "base_path (gw_Path g) \<and> plain_path p"
  then show "below (gw_Path g) (gst_remote S') = below (gw_Path g) (gst_remote S) \<and> (\<forall>c. res = Inr c \<longrightarrow> below (gw_Path g) (gst_remote S) p = Some c) \<and>
      (\<forall>e. res = Inl e \<longrightarrow> IsFileNotFound e \<longrightarrow> e = EFileNotFound \<and> below (gw_Path g) (gst_remote S) p = None)"
    using on_repoD [OF GitReadFile_effect [of g p S]] by (fastforce simp: below_def)
next
  fix n cs ds t v S S'
  assume "exec (GitUpdateFiles g [] n cs ds) t (Returned (v, None))" and "git_serves S t S'" and "git_apt g S cs ds"
  then show "below (gw_Path g) (gst_remote S') = update_store (below (gw_Path g) (gst_remote S)) cs ds"
    using on_repoD [OF GitUpdate_effect [OF disjI1 [OF Git_below(2)]]] Git_below(1) by (fastforce simp: all_or_nothing_def)
next
  fix n cs ds t v e S S'
  assume "exec (GitUpdateFiles g [] n cs ds) t (Returned (v, Some e))" and "git_serves S t S'" and "git_apt g S cs ds"
  then show "below (gw_Path g) (gst_remote S') = below (gw_Path g) (gst_remote S)"
    using on_repoD [OF GitUpdate_effect [OF disjI1 [OF Git_below(2)]]] by (fastforce simp: all_or_nothing_def)
qed

text \<open>
  C10. An update of a git repository is all or nothing, for any paths. When it returns an error, from whichever request, the remote
  branch has not changed. When it returns none and every file to create has, joined to the writer's path and the directory, a
  relative path of plain names, the remote branch has lost exactly what was to be removed (the listed paths, or all of the
  directory, and whatever is below them), has the new files with their contents, and is otherwise as it was. When it returns
  none and the path of some file is not of that kind (it leaves the repository and the guard on paths has stopped the update
  with success), the remote branch has not changed either. It always returns. Assumed of git and the local disk: the paths of the
  remote branch are plain, and Lstat fails only on a path that is not there.
\<close>

theorem Git_update_atomic:
  assumes "exec (GitUpdateFiles g subDir name cs ds) t oc" and "git_serves S t S'" and "\<forall>f\<in>dom (gst_remote S). plain_path f"
  shows "(\<exists>v. oc = Returned (v, None) \<and> gst_remote S' =
      (if \<forall>w\<in>set cs. plain_path (Join [Join [gw_Path g, subDir], Filepath w])
       then written (gst_remote S |` (- git_removed g subDir ds)) (git_created g subDir cs) else gst_remote S)) \<or>
    (\<exists>v e. oc = Returned (v, Some e) \<and> gst_remote S' = gst_remote S)"
  using on_repoD [OF GitUpdate_effect [OF disjI2 [OF assms(3)]] assms(1,2)]
  unfolding all_or_nothing_def pushed_def plain_files_def list_all_iff .

text \<open>
  A read after an update gives what the update wrote: the content of the file as the abstract update of the files below the
  writer's path has it, and \<open>ErrFileNotFound\<close> only for a file that is not there then.
\<close>

theorem Git_read_after_update:
  assumes "git_apt g S cs ds" and "exec (GitUpdateFiles g [] name cs ds) t (Returned (v, None))" and "git_serves S t S1"
    and "plain_path p" and "exec (GitReadFile g p) t' (Returned res)" and "git_serves S1 t' S2"
  shows "(\<forall>c. res = Inr c \<longrightarrow> update_store (below (gw_Path g) (gst_remote S)) cs ds p = Some c) \<and>
    (res = Inl EFileNotFound \<longrightarrow> update_store (below (gw_Path g) (gst_remote S)) cs ds p = None)"
proof -
  have "base_path (gw_Path g)" using assms(1) by (simp add: git_apt_def)
  with git_writer.read_after_update [OF assms(2,3,1,5,6)] assms(4) show ?thesis by blast
qed

text \<open>
  C11. Placements kept in a git repository. The repository may have come about by earlier passes over the placement that happened at
  once or not at all, and by changes of others that touch neither its files nor its state file (\<open>owns\<close>). When the controller's
  pass over a placement of mode \<open>none\<close> is carried out by the git writer, then whichever request of the pass or of the writer fails,
  an Lstat of an existing file apart, the state file on the remote branch afterwards lists every file the placement has there. The
  paths of the writer, of the files to create and of those to delete are plain, a file to delete is not a directory (\<open>git_apt\<close>),
  the placement's workloads do not include its state file, and nothing else removes the clone while the pass runs. Lstat
  is left out because the writer takes any failure of it for a missing file (\<open>failed_Lstat_reads_missing\<close>), and a pass would
  then write a new state file without the files listed in the old one.
\<close>

theorem placement_files_listed_in_git:
  assumes "statefile_laws L" and "owns L (kratixFilePath wp) (below (gw_Path g) (gst_remote S)) F"
    and "kratixFilePath wp \<notin> own_names wp" and "GetFilepathMode d = FilepathModeNone"
    and "exec (writeWorkloadsToStateStore L w wp d) t (Returned res)"
    and "carried_out git_serves (GitUpdateFiles g []) (GitReadFile g) (git_apt g) (\<lambda>p. base_path (gw_Path g) \<and> plain_path p) w S t S'"
  defines "files \<equiv> below (gw_Path g) (gst_remote S')"
  shows "\<exists>fs. listing L files (kratixFilePath wp) = Inr fs \<and> (case res of Inl _ \<Rightarrow> F | Inr _ \<Rightarrow> (F \<inter> dom files) \<union> own_names wp) \<subseteq> set fs"
  using owned_listed [OF assms(1) owns_written [OF assms(2) refl assms(3-5) git_writer.carried_out_served [OF assms(6)]]]
  unfolding files_def by blast

subsection \<open>Concrete updates\<close>

definition ex_git :: GitWriter where
  "ex_git = \<lparr>gw_URL = ''u'', gw_Branch = ''main'', gw_Auth = AuthNone, gw_AuthorName = ''kratix'', gw_AuthorEmail = [], gw_Path = ''p''\<rparr>"

definition ex_repo :: "store \<Rightarrow> git_state" where
  "ex_repo m = \<lparr>gst_remote = m, gst_head = Map.empty, gst_index = Map.empty, gst_disk = Map.empty, gst_dir = []\<rparr>"

definition ex_clone_trace :: git_trace where
  "ex_clone_trace = [(MkdirTemp ''kratix-repo'', GStr ''/tmp/r''), (GetUnsupportedCapabilities, GStrs []),
     (PlainClone ''/tmp/r'' ''u'' ''refs/heads/main'' AuthNone, GDone), (SetUnsupportedCapabilities [], GDone), (Worktree, GDone)]"

definition ex_write_trace :: "string \<Rightarrow> string \<Rightarrow> git_trace" where
  "ex_write_trace f c = [(MkdirAll (Dir (''/tmp/r/'' @ f)), GDone), (WriteFile (''/tmp/r/'' @ f) c, GDone), (WtAdd f, GDone)]"

definition ex_push_trace :: "string \<Rightarrow> git_trace" where
  "ex_push_trace n = [(WtStatus, GClean False), (GitNow, GTime 5), (Commit (''Update from: '' @ n) ''kratix'' [] 5, GStr ''sha''), (Push AuthNone, GDone),
     (RemoveAll ''/tmp'', GDone)]"

lemmas git_eval = GitUpdateFiles_def GitUpdate_def setupLocalDirectoryWithRepo_def createLocalDirectory_def cloneRepo_def updateClone_def
  deleteExistingFiles_def deleteFile_def writeFile_def commitAndPush_def push_def GitReadFile_def after_loop_def
  g_done_def g_str_def g_strs_def g_clean_def g_time_def ex_git_def ex_clone_trace_def ex_write_trace_def ex_push_trace_def Let_def

lemma ex_dirs: "Dir ''/tmp/r'' = ''/tmp''" "tmp_dir ''/tmp/r''" "\<not> sublist ''dev.azure.com'' ''u''"
proof -
  show "Dir ''/tmp/r'' = ''/tmp''" by (simp add: Dir_def Clean_def clean_step_def)
  show "tmp_dir ''/tmp/r''" unfolding tmp_dir_def by (rule exI [of _ "[''tmp'', ''r'']"]) (simp add: plain_name_def rooted_def)
  show "\<not> sublist ''dev.azure.com'' ''u''" by (auto dest: sublist_length_le)
qed

lemma ex_git_paths:
  "Join [''p'', []] = ''p''" "Join [''p'', ''a''] = ''p/a''" "Join [''p'', ''b''] = ''p/b''"
  "Join [''/tmp/r'', ''p/a''] = ''/tmp/r/p/a''" "Join [''/tmp/r'', ''p/b''] = ''/tmp/r/p/b''"
  by (simp_all add: Join_def Clean_def clean_step_def)

definition ex_git_trace :: git_trace where
  "ex_git_trace = ex_clone_trace @ [(Lstat ''p/a'', GDone), (WtRemove ''p/a'', GDone)] @ ex_write_trace ''p/b'' ''y'' @ ex_push_trace ''w''"

definition ex_git_files :: "Workload list" where "ex_git_files = [\<lparr>Filepath = ''b'', Content = ''y''\<rparr>]"

lemma ex_git_run: "exec (GitUpdateFiles ex_git [] ''w'' ex_git_files [''a'']) ex_git_trace (Returned (''sha'', None))"
  by (rule script_exec [where rs = "map snd ex_git_trace"])
    (simp add: git_eval ex_git_trace_def ex_git_files_def ex_dirs ex_git_paths)

lemmas git_Cons = steps_Cons [where step = git_step]
lemmas git_Nil = steps_Nil [where step = git_step]

lemma git_append: "git_serves S t1 S1 \<Longrightarrow> git_serves S1 t2 S' \<Longrightarrow> git_serves S (t1 @ t2) S'"
  by (auto simp: steps_append)

text \<open>The clone of a remote branch with the files \<open>m\<close>, once the files \<open>m'\<close> are staged.\<close>

definition ex_clone :: "store \<Rightarrow> store \<Rightarrow> git_state" where
  "ex_clone m m' = \<lparr>gst_remote = m, gst_head = m, gst_index = m', gst_disk = m', gst_dir = ''/tmp/r''\<rparr>"

lemma ex_clone_steps: "gst_remote S = m \<Longrightarrow> git_serves S ex_clone_trace (ex_clone m m)"
proof -
  assume "gst_remote S = m"
  then have c: "git_step (S\<lparr>gst_dir := ''/tmp/r''\<rparr>) (PlainClone ''/tmp/r'' ''u'' ''refs/heads/main'' AuthNone) GDone (ex_clone m m)"
    using git_Clone [of "S\<lparr>gst_dir := ''/tmp/r''\<rparr>"] by (cases S) (simp add: ex_clone_def)
  show ?thesis
    unfolding ex_clone_trace_def
    by (rule git_Cons [OF git_Mkdir [OF ex_dirs(2)]] git_Cons [OF c] git_Cons [OF git_Other] git_Nil | simp)+
qed

lemma ex_write_steps: "git_serves (ex_clone m m') (ex_write_trace f c) (ex_clone m (m'(f \<mapsto> c)))"
proof -
  have w: "git_step (ex_clone m m') (WriteFile (''/tmp/r/'' @ f) c) GDone ((ex_clone m m')\<lparr>gst_disk := m'(f \<mapsto> c)\<rparr>)"
    using git_Write [of "ex_clone m m'" f c] by (simp add: in_clone_def ex_clone_def)
  have a: "git_step ((ex_clone m m')\<lparr>gst_disk := m'(f \<mapsto> c)\<rparr>) (WtAdd f) GDone (ex_clone m (m'(f \<mapsto> c)))"
    using git_Add [of "(ex_clone m m')\<lparr>gst_disk := m'(f \<mapsto> c)\<rparr>" f c] by (simp add: ex_clone_def)
  show ?thesis
    unfolding ex_write_trace_def by (rule git_Cons [OF git_Other] git_Cons [OF w] git_Cons [OF a] git_Nil | simp)+
qed

lemma ex_push_steps:
  assumes "m \<noteq> m'"
  shows "git_serves (ex_clone m m') (ex_push_trace n) (ex_clone m' m')"
proof -
  have st: "git_step (ex_clone m m') WtStatus (GClean False) (ex_clone m m')"
    using git_Status [of "ex_clone m m'"] assms by (simp add: ex_clone_def)
  have c: "git_step (ex_clone m m') (Commit msg x y now) (GStr z) ((ex_clone m m')\<lparr>gst_head := m'\<rparr>)" for msg x y now z
    using git_Commit [of "ex_clone m m'"] by (simp add: ex_clone_def)
  have pu: "git_step ((ex_clone m m')\<lparr>gst_head := m'\<rparr>) (Push AuthNone) GDone (ex_clone m' m')"
    using git_Push [of "(ex_clone m m')\<lparr>gst_head := m'\<rparr>"] by (simp add: ex_clone_def)
  have re: "git_step (ex_clone m' m') (RemoveAll p) GDone (ex_clone m' m')" for p
    using git_RemoveAll [of "ex_clone m' m'" p GDone m'] by (simp add: ex_clone_def)
  show ?thesis
    unfolding ex_push_trace_def
    by (rule git_Cons [OF st] git_Cons [OF c] git_Cons [OF pu] git_Cons [OF re] git_Cons [OF git_Other] git_Nil | simp)+
qed

lemma ex_git_served: "git_serves (ex_repo [''p/a'' \<mapsto> ''x'']) ex_git_trace (ex_clone [''p/b'' \<mapsto> ''y''] [''p/b'' \<mapsto> ''y''])"
proof -
  let ?m = "[''p/a'' \<mapsto> ''x'']"
  have l: "git_step (ex_clone ?m ?m) (Lstat ''p/a'') GDone (ex_clone ?m ?m)"
    by (rule git_Lstat) (simp add: ex_clone_def at_or_below_def)
  have "without ''p/a'' ?m = Map.empty" by (auto simp: without_def at_or_below_def restrict_map_def fun_eq_iff)
  then have r: "git_step (ex_clone ?m ?m) (WtRemove ''p/a'') GDone (ex_clone ?m Map.empty)"
    using git_Remove [of "ex_clone ?m ?m" "''p/a''"] by (simp add: ex_clone_def)
  have c: "git_serves (ex_repo ?m) ex_clone_trace (ex_clone ?m ?m)" by (rule ex_clone_steps) (simp add: ex_repo_def)
  have "?m \<noteq> [''p/b'' \<mapsto> ''y'']" by (auto simp: fun_eq_iff)
  from git_append [OF c git_append [OF git_Cons [OF l git_Cons [OF r git_Nil]] git_append [OF ex_write_steps ex_push_steps [OF this]]]]
  show ?thesis unfolding ex_git_trace_def .
qed

lemma ex_git_plain: "list_all (\<lambda>w. plain_path (Join [Join [gw_Path ex_git, []], Filepath w])) ex_git_files"
  by (simp add: ex_git_def ex_git_files_def ex_git_paths plain_path_def plain_name_def)

theorem Git_update_atomic_witness:
  "exec (GitUpdateFiles ex_git [] ''w'' ex_git_files [''a'']) ex_git_trace (Returned (''sha'', None)) \<and>
   git_serves (ex_repo [''p/a'' \<mapsto> ''x'']) ex_git_trace (ex_clone [''p/b'' \<mapsto> ''y''] [''p/b'' \<mapsto> ''y'']) \<and>
   [''p/b'' \<mapsto> ''y''] = written ([''p/a'' \<mapsto> ''x''] |` (- git_removed ex_git [] [''a''])) (git_created ex_git [] ex_git_files)"
proof -
  have "\<forall>f\<in>dom (gst_remote (ex_repo [''p/a'' \<mapsto> ''x''])). plain_path f" by (simp add: ex_repo_def plain_path_def plain_name_def)
  from Git_update_atomic [OF ex_git_run ex_git_served this] ex_git_plain ex_git_run ex_git_served show ?thesis
    by (simp add: ex_clone_def ex_repo_def list_all_iff)
qed

text \<open>The file is read back.\<close>

definition ex_read_trace :: "string \<Rightarrow> git_resp list \<Rightarrow> git_trace" where
  "ex_read_trace f rs = ex_clone_trace @ zip [Lstat f, ReadLocalFile (''/tmp/r/'' @ f)] rs @ [(RemoveAll ''/tmp'', GDone)]"

theorem Git_read_after_update_witness:
  "\<exists>S2. exec (GitReadFile ex_git ''b'') (ex_read_trace ''p/b'' [GDone, GStr ''y'']) (Returned (Inr ''y'')) \<and>
     git_serves (ex_clone [''p/b'' \<mapsto> ''y''] [''p/b'' \<mapsto> ''y'']) (ex_read_trace ''p/b'' [GDone, GStr ''y'']) S2 \<and>
     update_store (below ''p'' [''p/a'' \<mapsto> ''x'']) ex_git_files [''a''] ''b'' = Some ''y''"
proof -
  let ?m = "[''p/b'' \<mapsto> ''y'']"
  have e: "exec (GitReadFile ex_git ''b'') (ex_read_trace ''p/b'' [GDone, GStr ''y'']) (Returned (Inr ''y''))"
    by (rule script_exec [where rs = "map snd (ex_read_trace ''p/b'' [GDone, GStr ''y''])"]) (simp add: git_eval ex_read_trace_def ex_dirs ex_git_paths)
  have l: "git_step (ex_clone ?m ?m) (Lstat ''p/b'') GDone (ex_clone ?m ?m)"
    by (rule git_Lstat) (simp add: ex_clone_def at_or_below_def)
  have r: "git_step (ex_clone ?m ?m) (ReadLocalFile ''/tmp/r/p/b'') (GStr ''y'') (ex_clone ?m ?m)"
    using git_Read [of "ex_clone ?m ?m" "''p/b''" "''y''"] by (simp add: ex_clone_def in_clone_def)
  have s: "git_serves (ex_clone ?m ?m) (ex_read_trace ''p/b'' [GDone, GStr ''y'']) ((ex_clone ?m ?m)\<lparr>gst_disk := ?m\<rparr>)"
    unfolding ex_read_trace_def
    using git_append [OF ex_clone_steps [of "ex_clone ?m ?m" ?m] git_Cons [OF l git_Cons [OF r git_Cons [OF git_RemoveAll git_Nil]]]]
    by (simp add: ex_clone_def)
  have apt: "git_apt ex_git (ex_repo [''p/a'' \<mapsto> ''x'']) ex_git_files [''a'']"
    by (simp add: git_apt_def ex_git_def ex_git_files_def ex_repo_def ex_git_paths plain_path_def plain_name_def base_path_def)
  have "plain_path ''b''" by (simp add: plain_path_def plain_name_def)
  with Git_read_after_update [OF apt ex_git_run ex_git_served _ e s]
  have "update_store (below ''p'' [''p/a'' \<mapsto> ''x'']) ex_git_files [''a''] ''b'' = Some ''y''" by (simp add: ex_git_def ex_repo_def)
  with e s show ?thesis by blast
qed

text \<open>The first pass over a placement, carried out on an empty branch.\<close>

abbreviation "ex_state_path \<equiv> ''.kratix/default-w.yaml''"

lemma ex_kratix: "kratixFilePath ex_none_placement = ex_state_path"
  by (simp add: kratixFilePath_def ex_none_placement_def ex_defs)

lemma ex_plain: "plain_path ex_state_path" "plain_path ''a''" "base_path ''p''"
  by (simp_all add: plain_path_def plain_name_def base_path_def)

lemma ex_placement_paths:
  "Join [''p'', ex_state_path] = ''p/'' @ ex_state_path"
  "Join [''/tmp/r'', ''p/'' @ ex_state_path] = ''/tmp/r/p/'' @ ex_state_path"
proof -
  show j: "Join [''p'', ex_state_path] = ''p/'' @ ex_state_path" using Join_path_under [OF ex_plain(3,1)] by (simp add: path_under_def)
  have "plain_path (''p/'' @ ex_state_path)" using plain_path_under [OF ex_plain(3,1)] by (simp add: path_under_def)
  from Join_tmp_dir [OF ex_dirs(2) this] show "Join [''/tmp/r'', ''p/'' @ ex_state_path] = ''/tmp/r/p/'' @ ex_state_path" by simp
qed

definition ex_branch :: store where
  "ex_branch = [''p/.kratix/default-w.yaml'' \<mapsto> plain_statefile [''a''], ''p/a'' \<mapsto> []]"

definition ex_pass_trace :: git_trace where
  "ex_pass_trace = ex_clone_trace @ ex_write_trace (''p/'' @ ex_state_path) (plain_statefile [''a'']) @ ex_write_trace ''p/a'' [] @ ex_push_trace ''w''"

lemma ex_pass_run: "exec (GitUpdateFiles ex_git [] ''w'' ex_created []) ex_pass_trace (Returned (''sha'', None))"
  using ex_placement_paths
  by (intro script_exec [where rs = "map snd ex_pass_trace"])
    (simp add: git_eval ex_pass_trace_def ex_created_def state_file_def ex_kratix ex_dirs ex_git_paths)

lemma ex_pass_served: "git_serves (ex_clone Map.empty Map.empty) ex_pass_trace (ex_clone ex_branch ex_branch)"
proof -
  have c: "git_serves (ex_clone Map.empty Map.empty) ex_clone_trace (ex_clone Map.empty Map.empty)" by (rule ex_clone_steps) (simp add: ex_clone_def)
  have "Map.empty \<noteq> ex_branch" by (auto simp: ex_branch_def fun_eq_iff)
  from git_append [OF c git_append [OF ex_write_steps git_append [OF ex_write_steps ex_push_steps]]] this show ?thesis
    unfolding ex_pass_trace_def ex_branch_def by simp
qed

theorem placement_files_listed_in_git_witness:
  "\<exists>t S'. exec (writeWorkloadsToStateStore plain_lib ex_writer ex_none_placement ex_none_destination) t (Returned (Inr ''sha'')) \<and>
     carried_out git_serves (GitUpdateFiles ex_git []) (GitReadFile ex_git) (git_apt ex_git) (\<lambda>p. base_path (gw_Path ex_git) \<and> plain_path p)
       ex_writer (ex_repo Map.empty) t S' \<and>
     (\<exists>fs. listing plain_lib (below ''p'' (gst_remote S')) (kratixFilePath ex_none_placement) = Inr fs \<and> ''a'' \<in> set fs)"
proof -
  let ?t = "[(WriterReadFile ex_writer (kratixFilePath ex_none_placement), RErr EFileNotFound), (UpdateFiles ex_writer [] ''w'' ex_created [], RStr ''sha'')]"
  let ?S = "ex_repo Map.empty" and ?C = "ex_clone Map.empty Map.empty" and ?rt = "ex_read_trace (''p/'' @ ex_state_path) [GErr EOsNotExist]"
  have run: "exec (writeWorkloadsToStateStore plain_lib ex_writer ex_none_placement ex_none_destination) ?t (Returned (Inr ''sha''))"
    by (rule script_exec [where rs = "[RErr EFileNotFound, RStr ''sha'']"])
      (simp add: writeWorkloadsToStateStore_def filesToWrite_def generateKratixStateFile_def getDir_def shortID_def slice_to_def
        ex_none_placement_def ex_none_destination_def ex_created_def state_file_def cleanupWorkloads_def workloadsFilenames_def ignoreNotFound_def
        GetFilepathMode_def FilepathModeNone_def FilepathModeAggregatedYAML_def DecompressContent_def b64_decode_def
        call_defs ex_defs plain_lib_simps Let_def)
  have read: "exec (GitReadFile ex_git ex_state_path) ?rt (Returned (as_str (RErr EFileNotFound)))"
    using ex_placement_paths(1)
    by (intro script_exec [where rs = "map snd ?rt"]) (simp add: git_eval ex_read_trace_def ex_dirs as_str_def)
  have l: "git_step ?C (Lstat (''p/'' @ ex_state_path)) (GErr EOsNotExist) ?C" by (rule git_Lstat_none) (simp add: ex_clone_def)
  have r: "git_step ?C (RemoveAll ''/tmp'') GDone ?C" using git_RemoveAll [of ?C _ _ Map.empty] by (simp add: ex_clone_def)
  have c: "git_serves ?S ex_clone_trace ?C" by (rule ex_clone_steps) (simp add: ex_repo_def)
  have rs: "git_serves ?S ?rt ?C" using git_append [OF c git_Cons [OF l git_Cons [OF r git_Nil]]] by (simp add: ex_read_trace_def)
  have apt: "git_apt ex_git ?C ex_created []"
    using ex_plain by (simp add: git_apt_def ex_git_def ex_created_def state_file_def ex_kratix)
  have base: "base_path (gw_Path ex_git) \<and> plain_path ex_state_path" using ex_plain by (simp add: ex_git_def)
  have car: "carried_out git_serves (GitUpdateFiles ex_git []) (GitReadFile ex_git) (git_apt ex_git) (\<lambda>p. base_path (gw_Path ex_git) \<and> plain_path p)
      ex_writer ?S ?t (ex_clone ex_branch ex_branch)"
    unfolding ex_kratix
  proof (rule carried_Read)
    show "carried_out git_serves (GitUpdateFiles ex_git []) (GitReadFile ex_git) (git_apt ex_git) (\<lambda>p. base_path (gw_Path ex_git) \<and> plain_path p)
        ex_writer ?C [(UpdateFiles ex_writer [] ''w'' ex_created [], RStr ''sha'')] (ex_clone ex_branch ex_branch)"
      by (rule carried_Update, rule ex_pass_run, rule ex_pass_served, rule apt, simp add: as_str_def, rule carried_Nil)
  qed (fact read rs base)+
  have own: "owns plain_lib (kratixFilePath ex_none_placement) (below (gw_Path ex_git) (gst_remote ?S)) {}"
    by (rule owns_new) (simp add: below_def ex_repo_def)
  have names: "own_names ex_none_placement = {''a''}" by (simp add: own_names_def ex_none_placement_def)
  have "kratixFilePath ex_none_placement \<notin> own_names ex_none_placement" unfolding names ex_kratix by simp
  from placement_files_listed_in_git [OF plain_statefile_laws own this _ run car] names run car show ?thesis
    by (auto simp: ex_git_def ex_none_destination_def GetFilepathMode_def FilepathModeNone_def)
qed

subsection \<open>What an update does to the local disk\<close>

text \<open>
  The clone is meant to be removed at the end. What is removed is the directory that it was made in, here \<open>/tmp\<close>, with
  everything else in it, such as the clones of other updates that are under way.
\<close>

lemma update_removes_parent:
  "exec (GitUpdateFiles ex_git [] ''w'' ex_git_files [''a'']) ex_git_trace (Returned (''sha'', None))"
  "(PlainClone ''/tmp/r'' ''u'' ''refs/heads/main'' AuthNone, GDone) \<in> set ex_git_trace" "(RemoveAll ''/tmp'', GDone) \<in> set ex_git_trace"
  using ex_git_run by (simp_all add: ex_git_trace_def ex_clone_trace_def ex_push_trace_def)

text \<open>
  The guard against paths that leave the clone compares strings: a path with dots reaches a directory beside the clone whose
  name starts like the clone's, and the file is written there.
\<close>

lemma write_leaves_clone:
  "exec (writeFile ''/tmp/r'' ''p'' \<lparr>Filepath = ''../../rx/f'', Content = c\<rparr> ())
     [(MkdirAll ''/tmp/rx'', GDone), (WriteFile ''/tmp/rx/f'' c, GDone), (WtAdd ''../rx/f'', GErr (EStr ''outside''))]
     (Returned (Leave ([], Some (EStr ''outside''))))"
  by (rule script_exec [where rs = "[GDone, GDone, GErr (EStr ''outside'')]"])
    (simp add: writeFile_def g_done_def Join_def Clean_def clean_step_def Dir_def Let_def)

text \<open>
  Any failure of Lstat counts as a missing file: a read then reports a file that may exist as not found, and an update leaves
  the directory it was to remove.
\<close>

lemma failed_Lstat_reads_missing:
  "exec (GitReadFile ex_git ''b'') (ex_read_trace ''p/b'' [GErr (EStr ''input/output error'')]) (Returned (Inl EFileNotFound))"
  by (rule script_exec [where rs = "map snd (ex_read_trace ''p/b'' [GErr (EStr ''input/output error'')])"])
    (simp add: git_eval ex_read_trace_def ex_dirs ex_git_paths)

lemma failed_Lstat_keeps_directory:
  "exec (deleteExistingFiles True ''p/dir'' []) [(Lstat ''p/dir'', GErr (EStr ''input/output error''))] (Returned None)"
  by (rule script_exec [where rs = "[GErr (EStr ''input/output error'')]"]) (simp add: deleteExistingFiles_def g_done_def)

text \<open>A path that the guard catches ends the update as if it had succeeded, and nothing is written.\<close>

lemma caught_path_succeeds:
  "exec (writeFile ''/tmp/r'' ''p'' \<lparr>Filepath = ''../../f'', Content = c\<rparr> ()) [] (Returned (Leave ([], None)))"
  by (rule script_exec [where rs = "[]"]) (simp add: writeFile_def Join_def Clean_def clean_step_def Let_def)

end
