(* ===== verification/DestinationController.thy ===== *)
theory DestinationController
  imports WorkPlacementController
begin

text \<open>
  \<open>src/internal/controller/destination_controller.go\<close>: the controller of destinations writes test documents through the
  destination's state store, reports whether that worked, and clears the store when a destination with cleanup goes.

  \<open>yaml.Marshal\<close> of the test documents is the library's; its error is ignored, as in the source (the documents are then
  empty). \<open>metav1.Now()\<close> in a condition is the clock reading of \<open>SetStatusCondition\<close>. The registration is left
  out but for the index of destinations by state store and the mapping of its events.
\<close>

subsection \<open>Constants\<close>

definition canaryWorkload :: string where [consts_defs]: "canaryWorkload = ''kratix-canary''"
definition canaryNamespacePath :: string where [consts_defs]: "canaryNamespacePath = ''kratix-canary-namespace.yaml''"
definition canaryConfigMapPath :: string where [consts_defs]: "canaryConfigMapPath = ''kratix-canary-configmap.yaml''"
definition destinationCleanupFinalizer :: string where [consts_defs]: "destinationCleanupFinalizer = ''kratix.io/destination-cleanup''"
definition stateStoreReference :: string where [consts_defs]: "stateStoreReference = ''stateStoreRef''"
definition destinationNotReadyReason :: string where [consts_defs]: "destinationNotReadyReason = ''DestinationNotReady''"
definition destinationReadyReason :: string where [consts_defs]: "destinationReadyReason = ''DestinationReady''"

subsection \<open>Status\<close>

definition DestinationUpdateStatus ::
  "lib \<Rightarrow> Destination \<Rightarrow> condition \<Rightarrow> string \<Rightarrow> string \<Rightarrow> string \<Rightarrow> (err option) go" where
  "DestinationUpdateStatus L destination condition eventType eventReason eventMessage =
     bnd (SetStatusCondition L (d_Conditions destination) condition) (\<lambda>(cs, changed).
     if \<not> changed then Ret None
     else
       let destination = destination\<lparr>d_Conditions := cs\<rparr> in
       bnd (call_event (ODestination destination) eventType eventReason eventMessage) (\<lambda>_.
       call_unit (StatusUpdate (ODestination destination))))"

definition updateReadyCondition :: "lib \<Rightarrow> Destination \<Rightarrow> err option \<Rightarrow> (err option) go" where
  "updateReadyCondition L destination err =
     (let name = quoted (m_Name (d_meta destination)) in
      case err of
        None \<Rightarrow>
          DestinationUpdateStatus L destination
            (mk_cond ''Ready'' ConditionTrue ''TestDocumentsWritten'' ''Test documents written to State Store'')
            EventTypeNormal destinationReadyReason (''Destination '' @ name @ '' is ready'')
      | Some e \<Rightarrow>
          DestinationUpdateStatus L destination
            (mk_cond ''Ready'' ConditionFalse ''StateStoreWriteFailed'' ''Unable to write test documents to State Store'')
            EventTypeWarning destinationNotReadyReason (''Failed to write test documents to Destination '' @ name @ '': '' @ err_msg e))"

definition setConditionReadyInitWorkloads :: "lib \<Rightarrow> Destination \<Rightarrow> (err option) go" where
  "setConditionReadyInitWorkloads L destination =
     DestinationUpdateStatus L destination
       (mk_cond ''Ready'' ConditionTrue ''ReconciledSuccessfully'' ''Reconciled successfully, no init workloads were written'')
       EventTypeNormal destinationReadyReason
       (''Destination '' @ quoted (m_Name (d_meta destination)) @ '' is ready, skipped writing of the init workloads'')"

subsection \<open>Test documents\<close>

definition marshalled :: "err + string \<Rightarrow> string" where
  "marshalled r = (case r of Inl _ \<Rightarrow> [] | Inr s \<Rightarrow> s)"

definition kratixConfigMap :: config_map where
  "kratixConfigMap = \<lparr>cm_meta = empty_meta\<lparr>m_Name := ''kratix-info'', m_Namespace := ''kratix-worker-system''\<rparr>,
     cm_Data = fmupd ''canary'' ''this confirms your infrastructure is reading from Kratix state stores'' fmempty\<rparr>"

definition errorOf :: "err + 'a \<Rightarrow> err option" where
  "errorOf r = (case r of Inl e \<Rightarrow> Some e | Inr _ \<Rightarrow> None)"

definition createResourcePathWithExample :: "lib \<Rightarrow> writer \<Rightarrow> string \<Rightarrow> (err option) go" where
  "createResourcePathWithExample L writer filePathMode =
     (let content = marshalled (L_MarshalYAML L (OConfigMap kratixConfigMap));
          filePath = (if filePathMode = FilepathModeNestedByMetadata then Join [resourcesDir, canaryConfigMapPath] else canaryConfigMapPath) in
      bnd (call_str (UpdateFiles writer [] canaryWorkload [\<lparr>Filepath = filePath, Content = content\<rparr>] [])) (\<lambda>r. Ret (errorOf r)))"

definition createDependenciesPathWithExample :: "lib \<Rightarrow> writer \<Rightarrow> string \<Rightarrow> (err option) go" where
  "createDependenciesPathWithExample L writer filePathMode =
     (let content = marshalled (L_MarshalYAML L (ONamespace (empty_meta\<lparr>m_Name := ''kratix-worker-system''\<rparr>)));
          filePath = (if filePathMode = FilepathModeNestedByMetadata then Join [dependenciesDir, canaryNamespacePath] else canaryNamespacePath) in
      bnd (call_str (UpdateFiles writer [] canaryWorkload [\<lparr>Filepath = filePath, Content = content\<rparr>] [])) (\<lambda>r. Ret (errorOf r)))"

definition writeTestFiles :: "lib \<Rightarrow> writer \<Rightarrow> string \<Rightarrow> (err option) go" where
  "writeTestFiles L writer filePathMode =
     bnd (createDependenciesPathWithExample L writer filePathMode) (\<lambda>e.
     case e of
       Some e \<Rightarrow> Ret (Some e)
     | None \<Rightarrow> createResourcePathWithExample L writer filePathMode)"

definition deleteInitWorkloads :: "writer \<Rightarrow> (err option) go" where
  "deleteInitWorkloads writer =
     bnd (call_str (UpdateFiles writer [] canaryWorkload [] [canaryNamespacePath, canaryConfigMapPath])) (\<lambda>r.
     Ret (case r of
            Inl e \<Rightarrow> Some (EWrap (''error deleting canary resources ['' @ canaryNamespacePath @ '' '' @ canaryConfigMapPath @ '']: '') e)
          | Inr _ \<Rightarrow> None))"

subsection \<open>Deletion\<close>

definition deleteDestinationWorkplacements :: "lib \<Rightarrow> Destination \<Rightarrow> (bool \<times> err option) go" where
  "deleteDestinationWorkplacements L destination =
     bnd (deleteAllResourcesWithKindMatchingLabel L workplacementGVK (fmupd TargetDestinationNameLabel (m_Name (d_meta destination)) fmempty))
       (\<lambda>(resourcesRemaining, e).
     Ret (if e \<noteq> None then (False, e) else if resourcesRemaining then (False, None) else (True, None)))"

definition deleteStateStoreContents :: "writer \<Rightarrow> (err option) go" where
  "deleteStateStoreContents writer =
     bnd (call_str (UpdateFiles writer dependenciesDir canaryWorkload [] [])) (\<lambda>r.
     case r of
       Inl e \<Rightarrow> Ret (Some e)
     | Inr _ \<Rightarrow> bnd (call_str (UpdateFiles writer resourcesDir canaryWorkload [] [])) (\<lambda>r. Ret (errorOf r)))"

definition map_d_finalizers :: "(string list \<Rightarrow> string list) \<Rightarrow> Destination \<Rightarrow> Destination" where
  "map_d_finalizers f d = d\<lparr>d_meta := (d_meta d)\<lparr>m_Finalizers := f (m_Finalizers (d_meta d))\<rparr>\<rparr>"

definition deleteDestination :: "lib \<Rightarrow> Destination \<Rightarrow> writer \<Rightarrow> reconciled go" where
  "deleteDestination L destination writer =
     (if L_ContainsFinalizer L (m_Finalizers (d_meta destination)) destinationCleanupFinalizer then
        bnd (deleteDestinationWorkplacements L destination) (\<lambda>(success, e).
        if \<not> success \<or> e \<noteq> None then Ret (defaultRequeue, None)
        else
          bnd (deleteStateStoreContents writer) (\<lambda>e.
          if e \<noteq> None then Ret (defaultRequeue, None)
          else
            bnd (call_unit (Update (ODestination
                   (map_d_finalizers (\<lambda>fs. L_RemoveFinalizer L fs destinationCleanupFinalizer) destination)))) (\<lambda>e.
            Ret (no_requeue, e))))
      else Ret (no_requeue, None))"

subsection \<open>The controller\<close>

text \<open>The destination with the finalizer it should have, when that is a change.\<close>

definition needsFinalizerUpdate :: "lib \<Rightarrow> Destination \<Rightarrow> Destination option" where
  "needsFinalizerUpdate L destination =
     (let hasFinalizer = L_ContainsFinalizer L (m_Finalizers (d_meta destination)) destinationCleanupFinalizer in
      if GetCleanup destination = DestinationCleanupAll then
        (if \<not> hasFinalizer then Some (map_d_finalizers (\<lambda>fs. L_AddFinalizer L fs destinationCleanupFinalizer) destination) else None)
      else if GetCleanup destination = DestinationCleanupNone then
        (if hasFinalizer then Some (map_d_finalizers (\<lambda>fs. L_RemoveFinalizer L fs destinationCleanupFinalizer) destination) else None)
      else None)"

definition reconcileDestination :: "lib \<Rightarrow> Destination \<Rightarrow> writer \<Rightarrow> reconciled go" where
  "reconcileDestination L destination writer =
     (if m_DeletionTimestamp (d_meta destination) \<noteq> None then deleteDestination L destination writer
      else if \<not> d_InitWorkloadsEnabled destination then
        bnd (deleteInitWorkloads writer) (\<lambda>e.
        case e of
          Some e \<Rightarrow> Ret (no_requeue, Some e)
        | None \<Rightarrow> bnd (setConditionReadyInitWorkloads L destination) (\<lambda>e. Ret (no_requeue, e)))
      else
        bnd (writeTestFiles L writer (GetFilepathMode destination)) (\<lambda>writeErr.
        bnd (updateReadyCondition L destination writeErr) (\<lambda>condErr.
        Ret (no_requeue, if condErr \<noteq> None then condErr else writeErr))))"

definition DestinationReconcile :: "lib \<Rightarrow> string \<Rightarrow> reconciled go" where
  "DestinationReconcile L name =
     bnd (call_obj (Get KDestination [] name) un_dest) (\<lambda>r.
     case r of
       Inl e \<Rightarrow> Ret (no_requeue, if IsNotFound e then None else Some e)
     | Inr destination \<Rightarrow>
         (case needsFinalizerUpdate L destination of
            Some d \<Rightarrow> bnd (call_unit (Update (ODestination d))) (\<lambda>e. Ret (no_requeue, e))
          | None \<Rightarrow>
              bnd (newDestinationWriter destination) (\<lambda>r.
              case r of
                Inl e \<Rightarrow>
                  bnd (updateReadyCondition L destination (Some e)) (\<lambda>condErr.
                  Ret (no_requeue, Some (case condErr of Some c \<Rightarrow> c | None \<Rightarrow> e)))
              | Inr writer \<Rightarrow> reconcileDestination L destination writer)))"

subsection \<open>Events of state stores\<close>

definition stateStoreRefKey :: "string \<Rightarrow> string \<Rightarrow> string" where
  "stateStoreRefKey stateStoreKind stateStoreName = stateStoreKind @ ''.'' @ stateStoreName"

definition destinationIndex :: "Destination \<Rightarrow> ('q, 'r, string list) prog" where
  "destinationIndex destination =
     bnd (deref (d_StateStoreRef destination)) (\<lambda>ref. Ret [stateStoreRefKey (ssr_Kind ref) (ssr_Name ref)])"

definition findDestinationsForStateStore :: "string \<Rightarrow> object_meta \<Rightarrow> ((string \<times> string) list) go" where
  "findDestinationsForStateStore stateStoreType stateStore =
     bnd (call_list (ListObjs KDestination [] (Some (MatchField stateStoreReference (stateStoreRefKey stateStoreType (m_Name stateStore))))) un_dest)
       (\<lambda>r. Ret (case r of
                    Inl e \<Rightarrow> []
                  | Inr items \<Rightarrow> map (\<lambda>d. (m_Namespace (d_meta d), m_Name (d_meta d))) items))"

subsection \<open>Letting a destination go\<close>

definition placements_query :: "lib \<Rightarrow> Destination \<Rightarrow> req" where
  "placements_query L d = ListObjs (KUnstructured workplacementGVK) [] (Some (L_SelectorFromSet L (fmupd TargetDestinationNameLabel (m_Name (d_meta d)) fmempty)))"

fun clears :: "string \<Rightarrow> req \<times> resp \<Rightarrow> bool" where
  "clears dir (UpdateFiles w d n cs ds, r) = (d = dir \<and> cs = [] \<and> (\<exists>v. as_str r = Inr v))"
| "clears dir x = False"

definition cleaned :: "lib \<Rightarrow> Destination \<Rightarrow> gtrace \<Rightarrow> bool" where
  "cleaned L d t \<longleftrightarrow> (placements_query L d, RList []) \<in> set t \<and> list_ex (clears dependenciesDir) t \<and> list_ex (clears resourcesDir) t"

definition dest_ok :: "lib \<Rightarrow> gtrace \<Rightarrow> req \<times> resp \<Rightarrow> bool" where
  "dest_ok L t x \<longleftrightarrow> (\<forall>d. fst x = Update (ODestination d) \<longrightarrow> GetCleanup d = DestinationCleanupAll \<longrightarrow>
     destinationCleanupFinalizer \<in> set (m_Finalizers (d_meta d)) \<or> cleaned L d t)"

interpretation dest: trace_guard "dest_ok L" for L
  by unfold_locales (auto simp: dest_ok_def cleaned_def)

lemma dest_keeps_quiet: "only (\<lambda>q. \<forall>d. q \<noteq> Update (ODestination d)) p \<Longrightarrow> dest.keeps L p"
  by (rule dest.keeps_free) (auto simp: dest_ok_def elim!: only_mono)

lemma dest_keeps_parts:
  "dest.keeps L (newDestinationWriter d)" "dest.keeps L (updateReadyCondition L d e)" "dest.keeps L (setConditionReadyInitWorkloads L d)"
  "dest.keeps L (writeTestFiles L w m)" "dest.keeps L (deleteInitWorkloads w)" "dest.keeps L (call_obj (Get KDestination ns n) un_dest)"
  unfolding newDestinationWriter_def newWriter_def fetchObjectAndSecret_def updateReadyCondition_def setConditionReadyInitWorkloads_def
    DestinationUpdateStatus_def writeTestFiles_def createDependenciesPathWithExample_def createResourcePathWithExample_def
    deleteInitWorkloads_def Let_def
  by (auto intro!: dest_keeps_quiet only_intros split: option.split)

lemma dest_guarded_quiet: "only (\<lambda>q. \<forall>d. q \<noteq> Update (ODestination d)) p \<Longrightarrow> wpre p (\<lambda>t oc. dest.guarded L t)"
  using dest_keeps_quiet [of p L] by (simp add: dest.keeps_def)

lemma deleteDestinationWorkplacements_result:
  "wpre (deleteDestinationWorkplacements L d) (\<lambda>t oc. dest.guarded L t \<and>
     (\<forall>e. oc = Returned (True, e) \<longrightarrow> (placements_query L d, RList []) \<in> set t))"
proof -
  have "wpre (deleteDestinationWorkplacements L d) (\<lambda>t oc. \<forall>e. oc = Returned (True, e) \<longrightarrow> (placements_query L d, RList []) \<in> set t)"
    unfolding deleteDestinationWorkplacements_def placements_query_def by (rule wpre_seq [OF deleteAllResources_result]) (auto split: if_splits)
  moreover have "wpre (deleteDestinationWorkplacements L d) (\<lambda>t oc. dest.guarded L t)"
    unfolding deleteDestinationWorkplacements_def by (rule dest_guarded_quiet) (auto intro!: only_intros)
  ultimately show ?thesis by (simp add: wpre_conj)
qed

lemma deleteStateStoreContents_result:
  "wpre (deleteStateStoreContents w) (\<lambda>t oc. dest.guarded L t \<and>
     (oc = Returned None \<longrightarrow> list_ex (clears dependenciesDir) t \<and> list_ex (clears resourcesDir) t))"
proof -
  have "wpre (deleteStateStoreContents w) (\<lambda>t oc. oc = Returned None \<longrightarrow> list_ex (clears dependenciesDir) t \<and> list_ex (clears resourcesDir) t)"
    unfolding deleteStateStoreContents_def by (auto simp: wpre_simps errorOf_def split: sum.split)
  moreover have "wpre (deleteStateStoreContents w) (\<lambda>t oc. dest.guarded L t)"
    unfolding deleteStateStoreContents_def by (rule dest_guarded_quiet) (auto intro!: only_intros)
  ultimately show ?thesis by (simp add: wpre_conj)
qed

lemma dest_removed_cleaned: "cleaned L (map_d_finalizers f d) t = cleaned L d t"
  by (simp add: cleaned_def placements_query_def map_d_finalizers_def)

lemma dest_keeps_deleteDestination: "dest.keeps L (deleteDestination L d w)"
proof -
  let ?d = "map_d_finalizers (\<lambda>fs. L_RemoveFinalizer L fs destinationCleanupFinalizer) d"
  have upd: "wpre (bnd (call_unit (Update (ODestination ?d))) (\<lambda>e. Ret (no_requeue, e))) (\<lambda>t' oc. dest.guarded L (t @ t'))"
    if "dest.guarded L t" "cleaned L d t" for t
    using that by (auto simp: wpre_simps dest_ok_def dest_removed_cleaned intro!: dest.guarded_snoc)
  have rest: "wpre (bnd (deleteStateStoreContents w) (\<lambda>e. if e \<noteq> None then Ret (defaultRequeue, None)
      else bnd (call_unit (Update (ODestination ?d))) (\<lambda>e. Ret (no_requeue, e)))) (\<lambda>t' oc. dest.guarded L (t @ t'))"
    if "dest.guarded L t" "(placements_query L d, RList []) \<in> set t" for t
  proof (rule wpre_seq [OF deleteStateStoreContents_result [of w L]], goal_cases)
    case (1 t' e)
    with that have "dest.guarded L (t @ t')" by (simp add: dest.guarded_append)
    with 1 that upd [of "t @ t'"] show ?case by (simp add: cleaned_def)
  qed (use that in \<open>simp add: dest.guarded_append\<close>)
  show ?thesis
    unfolding deleteDestination_def dest.keeps_def
    by (auto intro!: wpre_seq [OF deleteDestinationWorkplacements_result] rest [simplified] simp: dest.guarded_Nil)
qed

lemma map_d_finalizers_simps [simp]:
  "GetCleanup (map_d_finalizers f d) = GetCleanup d" "m_Finalizers (d_meta (map_d_finalizers f d)) = f (m_Finalizers (d_meta d))"
  by (simp_all add: GetCleanup_def map_d_finalizers_def)

lemma needsFinalizerUpdate_keeps:
  assumes "finalizer_laws L" and "needsFinalizerUpdate L d = Some d'" and "GetCleanup d' = DestinationCleanupAll"
  shows "destinationCleanupFinalizer \<in> set (m_Finalizers (d_meta d'))"
proof -
  have "DestinationCleanupNone \<noteq> DestinationCleanupAll" by (simp add: consts_defs)
  then show ?thesis
    using assms unfolding needsFinalizerUpdate_def Let_def by (auto simp: finalizer_laws_def split: if_splits)
qed

lemma dest_keeps_needsFinalizerUpdate:
  assumes "finalizer_laws L" and "needsFinalizerUpdate L d = Some d'"
  shows "dest.keeps L (call_unit (Update (ODestination d')))"
  using needsFinalizerUpdate_keeps [OF assms] unfolding dest.keeps_def
  by (auto simp: wpre_simps dest.guarded_def dest_ok_def append_eq_Cons_conv Cons_eq_append_conv)

lemma dest_keeps_Reconcile: "finalizer_laws L \<Longrightarrow> dest.keeps L (DestinationReconcile L name)"
  unfolding DestinationReconcile_def reconcileDestination_def
  by (auto intro!: dest.keeps_bnd dest.keeps_Ret dest_keeps_parts dest_keeps_deleteDestination dest_keeps_needsFinalizerUpdate
      split: sum.split option.split)

text \<open>
  C22. A destination that asks for cleanup is let go only when it is clean: the cleanup finalizer is taken off only after, in
  the same pass, the listing of the destination's placements came back empty and the directories of dependencies and of resources
  were both removed from its state store.
\<close>

theorem Destination_let_go_clean:
  assumes "finalizer_laws L" and "exec (DestinationReconcile L name) (t1 @ (Update (ODestination d), r) # t2) oc"
    and "GetCleanup d = DestinationCleanupAll" and "destinationCleanupFinalizer \<notin> set (m_Finalizers (d_meta d))"
  shows "(placements_query L d, RList []) \<in> set t1 \<and> list_ex (clears dependenciesDir) t1 \<and> list_ex (clears resourcesDir) t1"
  using dest.keepsD [OF dest_keeps_Reconcile [OF assms(1)] assms(2)] assms(3,4) by (simp add: dest_ok_def cleaned_def)

subsection \<open>Readiness\<close>

fun file_update :: "req \<times> resp \<Rightarrow> bool" where
  "file_update (UpdateFiles w d n cs ds, r) = True"
| "file_update x = False"

fun succeeded :: "req \<times> resp \<Rightarrow> bool" where
  "succeeded (UpdateFiles w d n cs ds, r) = (\<exists>v. as_str r = Inr v)"
| "succeeded x = False"

definition dest_ready :: "Destination \<Rightarrow> bool" where
  "dest_ready d \<longleftrightarrow> (\<exists>c. find (\<lambda>c. c_Type c = ''Ready'') (d_Conditions d) = Some c \<and> c_Status c = ConditionTrue)"

definition all_written :: "gtrace \<Rightarrow> bool" where
  "all_written t \<longleftrightarrow> filter file_update t \<noteq> [] \<and> list_all succeeded (filter file_update t)"

definition tells :: "bool \<Rightarrow> gtrace \<Rightarrow> bool" where
  "tells b t \<longleftrightarrow> filter file_update t = [] \<and> (\<forall>d r. (StatusUpdate (ODestination d), r) \<in> set t \<longrightarrow> (dest_ready d \<longleftrightarrow> b))"

lemma DestinationUpdateStatus_tells:
  assumes "condition_laws L" and "c_Type c = ''Ready''"
  shows "wpre (DestinationUpdateStatus L d c ty rs ms) (\<lambda>t oc. tells (c_Status c = ConditionTrue) t)"
proof -
  have found: "\<exists>x. find (\<lambda>x. c_Type x = ''Ready'') (fst (L_SetStatusCondition L now cs c)) = Some x \<and> c_Status x = c_Status c" for now cs
    using assms unfolding condition_laws_def same_condition_def by metis
  have "dest_ready (d\<lparr>d_Conditions := cs'\<rparr>) \<longleftrightarrow> c_Status c = ConditionTrue"
    if cs': "L_SetStatusCondition L now cs c = (cs', ch)" for now cs cs' ch
  proof -
    from found [of now cs] obtain x where "find (\<lambda>x. c_Type x = ''Ready'') cs' = Some x" "c_Status x = c_Status c"
      unfolding cs' by auto
    then show ?thesis by (simp add: dest_ready_def)
  qed
  then show ?thesis
    unfolding DestinationUpdateStatus_def Let_def by (auto simp: wpre_simps tells_def split: prod.split)
qed

definition silent :: "req \<Rightarrow> bool" where
  "silent q \<longleftrightarrow> (\<forall>r. \<not> file_update (q, r)) \<and> (\<forall>d. q \<noteq> StatusUpdate (ODestination d))"

lemma silentD: "only silent p \<Longrightarrow> wpre p (\<lambda>t oc. filter file_update t = [] \<and> (\<forall>d r. (StatusUpdate (ODestination d), r) \<notin> set t))"
  unfolding only_def silent_def by (erule wpre_mono) (fastforce simp: filter_empty_conv)

lemma silent_newDestinationWriter: "only silent (newDestinationWriter d)"
  unfolding newDestinationWriter_def newWriter_def fetchObjectAndSecret_def Let_def
  by (auto intro!: only_intros split: option.split simp: silent_def)

definition truthful_dest :: "gtrace \<Rightarrow> bool" where
  "truthful_dest t \<longleftrightarrow> (\<forall>d r. (StatusUpdate (ODestination d), r) \<in> set t \<longrightarrow> (dest_ready d \<longleftrightarrow> all_written t))"

text \<open>Files first, then a status that tells how it went.\<close>

definition checks :: "(err option) go \<Rightarrow> bool" where
  "checks p \<longleftrightarrow> wpre p (\<lambda>t oc. (\<forall>d r. (StatusUpdate (ODestination d), r) \<notin> set t) \<and> filter file_update t \<noteq> [] \<and>
     (\<exists>e. oc = Returned e \<and> (e = None \<longleftrightarrow> list_all succeeded (filter file_update t))))"

lemma checks_parts: "checks (writeTestFiles L w m)" "checks (deleteInitWorkloads w)"
  unfolding checks_def writeTestFiles_def createDependenciesPathWithExample_def createResourcePathWithExample_def deleteInitWorkloads_def Let_def
  by (auto simp: wpre_simps errorOf_def split: sum.split option.split)

lemma checks_then_tells:
  assumes "checks p" and "\<And>e. wpre (f e) (\<lambda>t oc. tells (e = None) t)"
  shows "wpre (bnd p f) (\<lambda>t oc. truthful_dest t)"
proof (rule wpre_seq [OF assms(1) [unfolded checks_def]], goal_cases)
  case (1 t e)
  show ?case
    by (rule wpre_mono [OF assms(2) [of e]]) (use 1 in \<open>auto simp: truthful_dest_def tells_def all_written_def\<close>)
qed (auto simp: truthful_dest_def)

lemma tells_Ret: "wpre p (\<lambda>t oc. tells b t) \<Longrightarrow> wpre (bnd p (\<lambda>x. Ret (g x))) (\<lambda>t oc. tells b t)"
  by (rule wpre_seq) auto

lemma tells_conditions:
  assumes "condition_laws L"
  shows "wpre (updateReadyCondition L d e) (\<lambda>t oc. tells (e = None) t)" "wpre (setConditionReadyInitWorkloads L d) (\<lambda>t oc. tells True t)"
proof -
  note T = DestinationUpdateStatus_tells [OF assms, of "mk_cond ''Ready'' _ _ _"]
  show "wpre (updateReadyCondition L d e) (\<lambda>t oc. tells (e = None) t)"
  proof (cases e)
    case None
    then show ?thesis
      unfolding updateReadyCondition_def Let_def None option.case by (intro wpre_mono [OF T]) (simp_all add: mk_cond_def)
  next
    case (Some x)
    then show ?thesis
      unfolding updateReadyCondition_def Let_def Some option.case
      by (intro wpre_mono [OF T]) (simp_all add: mk_cond_def ConditionTrue_def ConditionFalse_def)
  qed
  show "wpre (setConditionReadyInitWorkloads L d) (\<lambda>t oc. tells True t)"
    unfolding setConditionReadyInitWorkloads_def by (rule wpre_mono [OF T]) (auto simp: mk_cond_def)
qed

lemma truthful_silent:
  assumes "only silent p" and "\<And>x. wpre (f x) (\<lambda>t oc. truthful_dest t)"
  shows "wpre (bnd p f) (\<lambda>t oc. truthful_dest t)"
proof (rule wpre_seq [OF silentD [OF assms(1)]], goal_cases)
  case (1 t x)
  show ?case
    by (rule wpre_mono [OF assms(2) [of x]]) (use 1 in \<open>auto simp: truthful_dest_def all_written_def\<close>)
qed (auto simp: truthful_dest_def)

lemma truthful_quiet: "only (\<lambda>q. \<forall>d. q \<noteq> StatusUpdate (ODestination d)) p \<Longrightarrow> wpre p (\<lambda>t oc. truthful_dest t)"
  unfolding only_def by (erule wpre_mono) (fastforce simp: truthful_dest_def)

lemma reconcileDestination_truthful:
  assumes "condition_laws L"
  shows "wpre (reconcileDestination L d w) (\<lambda>t oc. truthful_dest t)"
proof -
  have "wpre (deleteDestination L d w) (\<lambda>t oc. truthful_dest t)"
    unfolding deleteDestination_def deleteDestinationWorkplacements_def deleteStateStoreContents_def
    by (rule truthful_quiet) (auto intro!: only_intros)
  moreover have "tells b []" for b by (simp add: tells_def)
  ultimately show ?thesis
    unfolding reconcileDestination_def
    by (auto intro!: checks_then_tells [OF checks_parts(1)] checks_then_tells [OF checks_parts(2)] tells_Ret
        intro: tells_conditions [OF assms] split: option.split)
qed

lemma DestinationReconcile_truthful:
  assumes "condition_laws L"
  shows "wpre (DestinationReconcile L name) (\<lambda>t oc. truthful_dest t)"
proof -
  have failed: "wpre (bnd (updateReadyCondition L d (Some e)) (\<lambda>c. Ret (g c))) (\<lambda>t oc. truthful_dest t)" for d e and g :: "err option \<Rightarrow> reconciled"
    by (rule wpre_mono [OF tells_Ret [OF tells_conditions(1) [OF assms]]]) (auto simp: truthful_dest_def tells_def all_written_def)
  have "wpre (bnd (call_unit (Update (ODestination d))) (\<lambda>e. Ret (no_requeue, e))) (\<lambda>t oc. truthful_dest t)" for d
    by (rule truthful_quiet) (auto intro!: only_intros)
  moreover have "truthful_dest []" by (simp add: truthful_dest_def)
  ultimately show ?thesis
    unfolding DestinationReconcile_def
    by (auto intro!: truthful_silent silent_newDestinationWriter only_intros failed reconcileDestination_truthful [OF assms]
        simp: silent_def split: sum.split option.split)
qed

text \<open>
  The readiness of a destination is the truth: a status that a pass writes says ready exactly when the pass asked the writer
  for at least one update of files (the test documents, or the removal of old ones) and every such update succeeded.
\<close>

lemma Destination_ready_truthful:
  assumes "condition_laws L" and "exec (DestinationReconcile L name) t oc" and "(StatusUpdate (ODestination d), r) \<in> set t"
  shows "dest_ready d \<longleftrightarrow> filter file_update t \<noteq> [] \<and> list_all succeeded (filter file_update t)"
  using wpreD [OF assms(2) DestinationReconcile_truthful [OF assms(1)]] assms(3) by (auto simp: truthful_dest_def all_written_def)

subsection \<open>Test documents that stay\<close>

text \<open>
  The test documents of a destination of mode \<open>nestedByMetadata\<close> are written below \<open>dependencies\<close> and \<open>resources\<close>, but
  switching the init workloads off removes paths without these directories: the documents are not among them.
\<close>

lemma nested_canaries_not_deleted:
  assumes "exec (writeTestFiles L w FilepathModeNestedByMetadata) t oc" and "exec (deleteInitWorkloads w) t' oc'"
    and "(UpdateFiles w d n cs ds, r) \<in> set t" and "(UpdateFiles w d' n' cs' ds', r') \<in> set t'"
  shows "Filepath ` set cs \<inter> set ds' = {}"
proof -
  have "wpre (writeTestFiles L w FilepathModeNestedByMetadata) (\<lambda>t oc. \<forall>d n cs ds r. (UpdateFiles w d n cs ds, r) \<in> set t \<longrightarrow>
      Filepath ` set cs \<subseteq> {Join [dependenciesDir, canaryNamespacePath], Join [resourcesDir, canaryConfigMapPath]})"
    unfolding writeTestFiles_def createDependenciesPathWithExample_def createResourcePathWithExample_def Let_def
    by (auto simp: wpre_simps split: option.split)
  from wpreD [OF assms(1) this] assms(3)
  have "Filepath ` set cs \<subseteq> {Join [dependenciesDir, canaryNamespacePath], Join [resourcesDir, canaryConfigMapPath]}" by blast
  moreover have "wpre (deleteInitWorkloads w) (\<lambda>t oc. \<forall>d n cs ds r. (UpdateFiles w d n cs ds, r) \<in> set t \<longrightarrow>
      ds = [canaryNamespacePath, canaryConfigMapPath])"
    unfolding deleteInitWorkloads_def by (auto simp: wpre_simps)
  with assms(2,4) have "ds' = [canaryNamespacePath, canaryConfigMapPath]" by (blast dest: wpreD)
  ultimately show ?thesis by (auto simp: consts_defs Join_def Clean_def clean_step_def)
qed

subsection \<open>Concrete passes\<close>

lemmas dest_eval = DestinationReconcile_def needsFinalizerUpdate_def GetCleanup_def newDestinationWriter_def newWriter_def fetchObjectAndSecret_def
  bucket_store_def BucketGetSecretRef_def reconcileDestination_def ex_bucket_def ex_defs plain_lib_simps call_defs Let_def consts_defs

theorem Destination_ready_truthful_witness:
  "\<exists>t d r. exec (DestinationReconcile plain_lib ''d1'') t (Returned (no_requeue, None)) \<and> (StatusUpdate (ODestination d), r) \<in> set t \<and> dest_ready d"
proof -
  let ?p = "DestinationReconcile plain_lib ''d1''"
  let ?rs = "[RObj (ODestination (ex_destination ''d1'')), RObj (OBucketStateStore ex_bucket), RWriter (WriterHandle ''w''),
      RStr ''v1'', RStr ''v2'', RTime 1, ROk, ROk]"
  have "\<exists>t d r. script ?p ?rs = Some (t, Returned (no_requeue, None)) \<and> (StatusUpdate (ODestination d), r) \<in> set t \<and>
      filter file_update t \<noteq> [] \<and> list_all succeeded (filter file_update t)"
    by (simp add: dest_eval writeTestFiles_def createDependenciesPathWithExample_def createResourcePathWithExample_def errorOf_def
        updateReadyCondition_def DestinationUpdateStatus_def mk_cond_def)
  then obtain t d r where e: "exec ?p t (Returned (no_requeue, None))" and d: "(StatusUpdate (ODestination d), r) \<in> set t"
    and w: "filter file_update t \<noteq> []" "list_all succeeded (filter file_update t)" by (metis script_exec)
  from Destination_ready_truthful [OF plain_condition_laws e d] e d w show ?thesis by blast
qed

definition ex_leaving_destination :: Destination where
  "ex_leaving_destination = (ex_destination ''d1'')\<lparr>d_Cleanup := DestinationCleanupAll,
     d_meta := (ex_meta ''d1'')\<lparr>m_DeletionTimestamp := Some 3, m_Finalizers := [destinationCleanupFinalizer]\<rparr>\<rparr>"

theorem Destination_let_go_clean_witness:
  "\<exists>t1 d r. exec (DestinationReconcile plain_lib ''d1'') (t1 @ [(Update (ODestination d), r)]) (Returned (no_requeue, None)) \<and>
     GetCleanup d = DestinationCleanupAll \<and> m_Finalizers (d_meta d) = [] \<and> (placements_query plain_lib d, RList []) \<in> set t1"
proof -
  let ?p = "DestinationReconcile plain_lib ''d1''"
  let ?rs = "[RObj (ODestination ex_leaving_destination), RObj (OBucketStateStore ex_bucket), RWriter (WriterHandle ''w''), RList [],
      RStr ''v1'', RStr ''v2'', ROk]"
  have "\<exists>t1 d r. script ?p ?rs = Some (t1 @ [(Update (ODestination d), r)], Returned (no_requeue, None)) \<and>
      GetCleanup d = DestinationCleanupAll \<and> m_Finalizers (d_meta d) = []"
    by (simp add: dest_eval ex_leaving_destination_def deleteDestination_def deleteDestinationWorkplacements_def
        deleteAllResourcesWithKindMatchingLabel_def deleteStateStoreContents_def errorOf_def map_d_finalizers_def)
  then obtain t1 d r where e: "exec ?p (t1 @ (Update (ODestination d), r) # []) (Returned (no_requeue, None))"
    and d: "GetCleanup d = DestinationCleanupAll" "m_Finalizers (d_meta d) = []" by (metis script_exec)
  from Destination_let_go_clean [OF plain_finalizer_laws e d(1)] e d show ?thesis by (metis empty_iff list.set(1))
qed

end
