(* ===== verification/WorkCreator.thy ===== *)
theory WorkCreator
  imports PipelineFactory WorkPlacementSafety
begin

text \<open>
  \<open>src/work-creator/pipeline/work_creator.go\<close>: the last container of a pipeline, which turns the files the pipeline has
  written into a Work.

  The file system answers requests. Reading a directory recurses into its subdirectories, as deep as the responses say: the
  first argument of \<open>getWorkloadsFromDir\<close> bounds the depth (running out of it is a panic that the source does not
  have), and \<open>output_collected\<close> shows that the depth of the tree is enough. How Go prints the list of selectors in one error message is
  the parameter \<open>sprint\<close>. Logging is left out.
\<close>

definition call_dir :: "req \<Rightarrow> (err + (string \<times> bool) list) go" where
  "call_dir q = Call q (\<lambda>r. Ret (case r of RErr e \<Rightarrow> Inl e | RDir xs \<Rightarrow> Inr xs | _ \<Rightarrow> Inl decode_error))"

fun IsNotExist :: "err \<Rightarrow> bool" where
  "IsNotExist EOsNotExist = True"
| "IsNotExist (EWrap p e) = IsNotExist e"
| "IsNotExist e = False"

subsection \<open>Files\<close>

definition readWorkload :: "lib \<Rightarrow> string \<Rightarrow> string \<Rightarrow> (err + Workload) go" where
  "readWorkload L prefixToTrimFromWorkloadFilepath filePath =
     bnd (call_unit (OsOpen filePath)) (\<lambda>e.
     case e of
       Some e \<Rightarrow> Ret (Inl e)
     | None \<Rightarrow>
         bnd (call_str (IoReadAll filePath)) (\<lambda>r.
         Ret (case r of
                Inl e \<Rightarrow> Inl e
              | Inr byteValue \<Rightarrow>
                  (case Rel prefixToTrimFromWorkloadFilepath filePath of
                     None \<Rightarrow> Inl (EStr (''Rel: can't make '' @ filePath @ '' relative to '' @ prefixToTrimFromWorkloadFilepath))
                   | Some path \<Rightarrow>
                       (case CompressContent L byteValue of
                          Inl e \<Rightarrow> Inl e
                        | Inr content \<Rightarrow> Inr \<lparr>Filepath = path, Content = content\<rparr>)))))"

primrec getWorkloadsFromDir :: "nat \<Rightarrow> lib \<Rightarrow> string \<Rightarrow> string \<Rightarrow> string list \<Rightarrow> (err + Workload list) go" where
  "getWorkloadsFromDir 0 L prefixToTrim rootDir directoriesToIgnore = Panic ''out of depth''"
| "getWorkloadsFromDir (Suc depth) L prefixToTrim rootDir directoriesToIgnore =
     bnd (call_dir (OsReadDir rootDir)) (\<lambda>r.
     case r of
       Inl e \<Rightarrow> Ret (Inl e)
     | Inr filesAndDirs \<Rightarrow>
         after_loop
           (for_range filesAndDirs [] (\<lambda>(name, isDir) workloads.
              if isDir then
                (if name \<notin> set directoriesToIgnore then
                   bnd (getWorkloadsFromDir depth L prefixToTrim (Join [rootDir, name]) []) (\<lambda>r.
                   Ret (case r of Inl e \<Rightarrow> Leave (Inl e) | Inr newWorkloads \<Rightarrow> Next (workloads @ newWorkloads)))
                 else Ret (Next workloads))
              else
                bnd (readWorkload L prefixToTrim (Join [rootDir, name])) (\<lambda>r.
                Ret (case r of Inl e \<Rightarrow> Leave (Inl e) | Inr workload \<Rightarrow> Next (workloads @ [workload])))))
           (\<lambda>workloads. Ret (Inr workloads)))"

subsection \<open>Selectors\<close>

fun containsSubDirectory :: "WorkflowDestinationSelectors list \<Rightarrow> string option" where
  "containsSubDirectory [] = None"
| "containsSubDirectory (s # ss) = (if Base (wds_Directory s) \<noteq> wds_Directory s then Some (wds_Directory s) else containsSubDirectory ss)"

fun seenDuplicate :: "string list \<Rightarrow> WorkflowDestinationSelectors list \<Rightarrow> bool" where
  "seenDuplicate directoriesSeen [] = False"
| "seenDuplicate directoriesSeen (s # ss) =
     (if wds_Directory s \<in> set directoriesSeen then True else seenDuplicate (directoriesSeen @ [wds_Directory s]) ss)"

definition containsDuplicateScheduling :: "WorkflowDestinationSelectors list \<Rightarrow> bool" where
  "containsDuplicateScheduling schedulingConfig = seenDuplicate [] schedulingConfig"

fun firstWithoutSelectors :: "nat \<Rightarrow> WorkflowDestinationSelectors list \<Rightarrow> nat option" where
  "firstWithoutSelectors i [] = None"
| "firstWithoutSelectors i (s # ss) = (if wds_MatchLabels s = fmempty then Some i else firstWithoutSelectors (Suc i) ss)"

definition ParseDestinationSelectors ::
  "lib \<Rightarrow> (WorkflowDestinationSelectors list \<Rightarrow> string) \<Rightarrow> string \<Rightarrow> err + WorkflowDestinationSelectors list" where
  "ParseDestinationSelectors L sprint bytes =
     (case L_UnmarshalDestinationSelectors L bytes of
        Inl e \<Rightarrow> Inl (EWrap ''invalid destination-selectors.yaml: '' e)
      | Inr schedulingConfig \<Rightarrow>
          let schedulingConfig = map (\<lambda>s. s\<lparr>wds_Directory := Clean (wds_Directory s)\<rparr>) schedulingConfig in
          case firstWithoutSelectors 0 schedulingConfig of
            Some i \<Rightarrow> Inl (EStr (''invalid destination-selectors.yaml: entry with index '' @ itoa i @ '' has no selectors''))
          | None \<Rightarrow>
              if containsDuplicateScheduling schedulingConfig
              then Inl (EStr (''duplicate entries in destination-selectors.yaml: '' @ [CHR 0x0A] @ sprint schedulingConfig))
              else case containsSubDirectory schedulingConfig of
                Some path \<Rightarrow> Inl (EStr (''invalid directory in destination-selectors.yaml: '' @ path @ '', sub-directories are not allowed''))
              | None \<Rightarrow> Inr schedulingConfig)"

definition isRootDirectory :: "string \<Rightarrow> bool" where
  "isRootDirectory dir \<longleftrightarrow> dir = DefaultWorkloadGroupDirectory"

definition getWorkflowScheduling ::
  "lib \<Rightarrow> (WorkflowDestinationSelectors list \<Rightarrow> string) \<Rightarrow> string \<Rightarrow> (err + WorkflowDestinationSelectors list) go" where
  "getWorkflowScheduling L sprint rootDirectory =
     bnd (call_str (OsReadFile (Join [rootDirectory, ''metadata'', ''destination-selectors.yaml'']))) (\<lambda>r.
     Ret (case r of
            Inl e \<Rightarrow> if IsNotExist e then Inr [] else Inl e
          | Inr fileContents \<Rightarrow> ParseDestinationSelectors L sprint fileContents))"

definition getPromiseScheduling :: "lib \<Rightarrow> string \<Rightarrow> (err + WorkloadGroupScheduling list) go" where
  "getPromiseScheduling L rootDirectory =
     bnd (call_str (OsReadFile (Join [Join [rootDirectory, ''kratix-system''], ''promise-scheduling'']))) (\<lambda>r.
     Ret (case r of
            Inl e \<Rightarrow> if IsNotExist e then Inr [] else Inl e
          | Inr fileContents \<Rightarrow> L_UnmarshalScheduling L fileContents))"

subsection \<open>Groups of workloads\<close>

record scheduled =
  sch_Groups :: "WorkloadGroup list"
  sch_Ignore :: "string list"
  sch_Default :: "labels option"

definition workflowSource :: "string \<Rightarrow> string" where
  "workflowSource workflowType = workflowType @ ''-'' @ ''workflow''"

text \<open>One entry of the selectors file: a group of its own for a directory, or the selectors of the rest.\<close>

definition scheduleDirectory ::
  "nat \<Rightarrow> lib \<Rightarrow> string \<Rightarrow> string \<Rightarrow> WorkflowDestinationSelectors \<Rightarrow> scheduled \<Rightarrow> ((scheduled, err + scheduled) loop) go" where
  "scheduleDirectory depth L pipelineOutputDir workflowType selector s =
     (let directory = wds_Directory selector in
      if \<not> isRootDirectory directory then
        bnd (getWorkloadsFromDir depth L pipelineOutputDir (Join [pipelineOutputDir, directory]) []) (\<lambda>r.
        Ret (case r of
               Inl e \<Rightarrow> Leave (Inl e)
             | Inr workloads \<Rightarrow>
                 Next (s\<lparr>sch_Groups := sch_Groups s @
                          [\<lparr>wg_Workloads = workloads, wg_Directory = directory, wg_ID = L_md5hex L directory,
                            wg_DestinationSelectors = [\<lparr>wgs_MatchLabels = wds_MatchLabels selector, wgs_Source = workflowSource workflowType\<rparr>]\<rparr>],
                         sch_Ignore := sch_Ignore s @ [directory]\<rparr>)))
      else Ret (Next (s\<lparr>sch_Default := Some (wds_MatchLabels selector)\<rparr>)))"

definition squashed :: "WorkloadGroupScheduling list \<Rightarrow> string \<Rightarrow> WorkloadGroupScheduling list" where
  "squashed selectors source =
     (let ps = map (\<lambda>s. \<lparr>ps_MatchLabels = wgs_MatchLabels s\<rparr>) (filter (\<lambda>s. wgs_Source s = source) selectors) in
      case SquashPromiseScheduling ps of
        None \<Rightarrow> []
      | Some ls \<Rightarrow> [\<lparr>wgs_MatchLabels = ls, wgs_Source = source\<rparr>])"

definition defaultWorkloadGroup ::
  "lib \<Rightarrow> string \<Rightarrow> Workload list \<Rightarrow> labels option \<Rightarrow> WorkloadGroupScheduling list \<Rightarrow> WorkloadGroup" where
  "defaultWorkloadGroup L workflowType workloads defaultDestinationSelectors destinationSelectors =
     \<lparr>wg_Workloads = workloads, wg_Directory = DefaultWorkloadGroupDirectory, wg_ID = ComputeHash L DefaultWorkloadGroupDirectory,
      wg_DestinationSelectors =
        (case defaultDestinationSelectors of
           None \<Rightarrow> []
         | Some ls \<Rightarrow> [\<lparr>wgs_MatchLabels = ls, wgs_Source = workflowSource workflowType\<rparr>]) @
        squashed destinationSelectors ''promise-workflow'' @ squashed destinationSelectors ''promise''\<rparr>"

definition workloadGroups ::
  "nat \<Rightarrow> lib \<Rightarrow> (WorkflowDestinationSelectors list \<Rightarrow> string) \<Rightarrow> string \<Rightarrow> string \<Rightarrow> (err + WorkloadGroup list) go" where
  "workloadGroups depth L sprint rootDirectory workflowType =
     bnd (getWorkflowScheduling L sprint rootDirectory) (\<lambda>r.
     case r of
       Inl e \<Rightarrow> Ret (Inl e)
     | Inr workflowScheduling \<Rightarrow>
         let pipelineOutputDir = Join [rootDirectory, ''input''] in
         bnd (after_loop
                (for_range workflowScheduling \<lparr>sch_Groups = [], sch_Ignore = [], sch_Default = None\<rparr>
                   (scheduleDirectory depth L pipelineOutputDir workflowType))
                (\<lambda>s. Ret (Inr s))) (\<lambda>r.
         case r of
           Inl e \<Rightarrow> Ret (Inl e)
         | Inr s \<Rightarrow>
             bnd (getWorkloadsFromDir depth L pipelineOutputDir pipelineOutputDir (sch_Ignore s)) (\<lambda>r.
             case r of
               Inl e \<Rightarrow> Ret (Inl e)
             | Inr workloads \<Rightarrow>
                 if length workloads > 0 then
                   bnd (getPromiseScheduling L rootDirectory) (\<lambda>r.
                   Ret (case r of
                          Inl e \<Rightarrow> Inl e
                        | Inr destinationSelectors \<Rightarrow>
                            Inr (sch_Groups s @ [defaultWorkloadGroup L workflowType workloads (sch_Default s) destinationSelectors])))
                 else Ret (Inr (sch_Groups s)))))"

subsection \<open>The Work\<close>

definition isResourceWorkflow :: "string \<Rightarrow> bool" where
  "isResourceWorkflow workflowType \<longleftrightarrow> prefix WorkflowTypeResource workflowType"

definition Execute ::
  "nat \<Rightarrow> lib \<Rightarrow> (WorkflowDestinationSelectors list \<Rightarrow> string) \<Rightarrow> string \<Rightarrow> string \<Rightarrow> string \<Rightarrow> string \<Rightarrow> string \<Rightarrow> string \<Rightarrow> (err option) go" where
  "Execute depth L sprint rootDirectory promiseName namespace resourceName workflowType pipelineName =
     (let identifier = (if isResourceWorkflow workflowType then promiseName @ ''-'' @ resourceName @ ''-'' @ pipelineName
                        else promiseName @ ''-'' @ pipelineName);
          namespace = (if namespace = [] then ''kratix-platform-system'' else namespace) in
      bnd (workloadGroups depth L sprint rootDirectory workflowType) (\<lambda>r.
      case r of
        Inl e \<Rightarrow> Ret (Some e)
      | Inr groups \<Rightarrow>
          bnd (GenerateObjectName identifier) (\<lambda>name.
          let labels = L_MergeLabels L (if isResourceWorkflow workflowType then fmempty else GenerateSharedLabelsForPromise promiseName)
                         (GetWorkLabels promiseName resourceName pipelineName workflowType);
              spec = \<lparr>ws_WorkloadGroups = groups, ws_PromiseName = promiseName, ws_ResourceName = resourceName\<rparr>;
              work = \<lparr>w_meta = empty_meta\<lparr>m_Name := name,
                        m_Namespace := if isResourceWorkflow workflowType then namespace else SystemNamespace, m_Labels := labels\<rparr>,
                      w_Spec = spec, w_Status = \<lparr>wst_Conditions = [], wst_WorkPlacements = 0, wst_WorkPlacementsCreated = 0\<rparr>\<rparr> in
          bnd (GetWork L namespace labels) (\<lambda>r.
          case r of
            Inl e \<Rightarrow> Ret (Some e)
          | Inr None \<Rightarrow> call_unit (Create (OWork work))
          | Inr (Some currentWork) \<Rightarrow> call_unit (Update (OWork (currentWork\<lparr>w_Spec := spec\<rparr>)))))))"

subsection \<open>Running against fixed answers\<close>

text \<open>While files are only read, every request has a fixed answer, and the program a single outcome.\<close>

primrec run :: "('q \<Rightarrow> 'r) \<Rightarrow> ('q, 'r, 'a) prog \<Rightarrow> 'a outcome" where
  "run ans (Ret x) = Returned x"
| "run ans (Panic m) = Panicked m"
| "run ans (Call q k) = run ans (k (ans q))"

lemma run_bnd [simp]: "run ans (bnd p f) = (case run ans p of Returned x \<Rightarrow> run ans (f x) | Panicked m \<Rightarrow> Panicked m)"
  by (induction p) auto

lemma run_exec: "exec p t oc \<Longrightarrow> (\<And>q r. (q, r) \<in> set t \<Longrightarrow> r = ans q) \<Longrightarrow> oc = run ans p"
  by (induction rule: exec.induct) auto

lemma run_after_loop [simp]:
  "run ans (after_loop p k) = (case run ans p of Returned (Next s) \<Rightarrow> run ans (k s) | Returned (Leave b) \<Rightarrow> Returned b | Panicked m \<Rightarrow> Panicked m)"
  by (auto simp: after_loop_def split: outcome.split loop.split)

subsection \<open>Files on disk\<close>

datatype node = FileNode string string | DirNode string "node list"

primrec entry :: "node \<Rightarrow> string \<times> bool" where
  "entry (FileNode n c) = (n, False)"
| "entry (DirNode n ns) = (n, True)"

text \<open>The files of a tree: their paths, as components after those given, and contents.\<close>

fun files_of :: "string list \<Rightarrow> node \<Rightarrow> (string list \<times> string) list" where
  "files_of pre (FileNode n c) = [(pre @ [n], c)]"
| "files_of pre (DirNode n ns) = concat (map (files_of (pre @ [n])) ns)"

fun levels :: "node \<Rightarrow> nat" where
  "levels (FileNode n c) = 0"
| "levels (DirNode n ns) = Suc (foldr max (map levels ns) 0)"

fun on_disk :: "(req \<Rightarrow> resp) \<Rightarrow> string list \<Rightarrow> node \<Rightarrow> bool" where
  "on_disk ans d (FileNode n c) =
     (plain_name n \<and> as_unit (ans (OsOpen (rooted (d @ [n])))) = None \<and> ans (IoReadAll (rooted (d @ [n]))) = RStr c)"
| "on_disk ans d (DirNode n ns) =
     (plain_name n \<and> ans (OsReadDir (rooted (d @ [n]))) = RDir (map entry ns) \<and> list_all (on_disk ans (d @ [n])) ns)"

definition pack :: "lib \<Rightarrow> string list \<times> string \<Rightarrow> Workload" where
  "pack L f = \<lparr>Filepath = join (fst f) ''/'', Content = (case CompressContent L (snd f) of Inr z \<Rightarrow> z | Inl _ \<Rightarrow> [])\<rparr>"

definition kept :: "string list \<Rightarrow> node list \<Rightarrow> node list" where
  "kept ign ns = filter (\<lambda>x. \<not> (snd (entry x) \<and> fst (entry x) \<in> set ign)) ns"

lemma levels_member: "x \<in> set ns \<Longrightarrow> levels x \<le> foldr max (map levels ns) 0"
  by (induction ns) (auto simp: le_max_iff_disj)

lemma run_readWorkload:
  assumes "gzip_laws L" and "on_disk ans (p @ rel) (FileNode n c)" and "p \<noteq> []" "list_all plain_name (p @ rel)"
  shows "run ans (readWorkload L (rooted p) (Join [rooted (p @ rel), n])) = Returned (Inr (pack L (rel @ [n], c)))"
proof -
  have n: "plain_name n" using assms(2) by simp
  have "Join [rooted (p @ rel), n] = rooted (p @ rel @ [n])" using assms n Join_rooted [of "p @ rel" n] by simp
  moreover have "Rel (rooted p) (rooted (p @ rel @ [n])) = Some (join (rel @ [n]) ''/'')"
    using assms(3,4) n by (intro Rel_rooted) auto
  moreover obtain z where "CompressContent L c = Inr z" using assms(1) unfolding gzip_laws_def CompressContent_def by (metis sum.simps(6))
  ultimately show ?thesis using assms(2) by (simp add: readWorkload_def call_unit_def call_str_def as_str_def pack_def)
qed

lemma run_getWorkloadsFromDir:
  assumes "gzip_laws L" and "p \<noteq> []"
  shows "list_all plain_name (p @ rel) \<Longrightarrow> ans (OsReadDir (rooted (p @ rel))) = RDir (map entry ns) \<Longrightarrow> list_all (on_disk ans (p @ rel)) ns \<Longrightarrow>
    foldr max (map levels ns) 0 < depth \<Longrightarrow>
    run ans (getWorkloadsFromDir depth L (rooted p) (rooted (p @ rel)) ign) = Returned (Inr (map (pack L) (concat (map (files_of rel) (kept ign ns)))))"
proof (induction depth arbitrary: rel ns ign)
  case (Suc depth)
  let ?body = "\<lambda>(name, isDir) workloads.
    if isDir then
      (if name \<notin> set ign then
         bnd (getWorkloadsFromDir depth L (rooted p) (Join [rooted (p @ rel), name]) []) (\<lambda>r.
         Ret (case r of Inl e \<Rightarrow> Leave (Inl e) | Inr newWorkloads \<Rightarrow> Next (workloads @ newWorkloads)))
       else Ret (Next workloads))
    else
      bnd (readWorkload L (rooted p) (Join [rooted (p @ rel), name])) (\<lambda>r.
      Ret (case r of Inl e \<Rightarrow> Leave (Inl e) | Inr workload \<Rightarrow> Next (workloads @ [workload])))"
  have step: "run ans (?body (entry x) acc) = Returned (Next (acc @ map (pack L) (concat (map (files_of rel) (kept ign [x])))) :: (Workload list, err + Workload list) loop)"
    if "x \<in> set ns" for x acc
  proof (cases x)
    case (FileNode n c)
    then have "on_disk ans (p @ rel) (FileNode n c)" using Suc.prems(3) that by (auto simp: list_all_iff)
    from run_readWorkload [OF assms(1) this assms(2) Suc.prems(1)] FileNode show ?thesis by (simp add: kept_def)
  next
    case (DirNode n ms)
    then have d: "on_disk ans (p @ rel) (DirNode n ms)" using Suc.prems(3) that by (auto simp: list_all_iff)
    then have n: "plain_name n" by simp
    have "Join [rooted (p @ rel), n] = rooted (p @ rel @ [n])"
      using Suc.prems(1) assms(2) n Join_rooted [of "p @ rel" n] by simp
    moreover have "foldr max (map levels ms) 0 < depth" using levels_member [OF that] Suc.prems(4) DirNode by simp
    ultimately have "run ans (getWorkloadsFromDir depth L (rooted p) (Join [rooted (p @ rel), n]) []) =
        Returned (Inr (map (pack L) (concat (map (files_of (rel @ [n])) ms))))"
      using Suc.IH [of "rel @ [n]" ms "[]"] d Suc.prems(1) n by (simp add: kept_def)
    then show ?thesis using DirNode by (simp add: kept_def)
  qed
  have "run ans (for_range (map entry ms) acc ?body) =
      Returned (Next (acc @ map (pack L) (concat (map (files_of rel) (kept ign ms)))) :: (Workload list, err + Workload list) loop)"
    if "set ms \<subseteq> set ns" for ms acc
    using that
  proof (induction ms arbitrary: acc)
    case (Cons x ms)
    from Cons.prems step [of x acc] Cons.IH show ?case by (simp add: kept_def)
  qed (simp add: kept_def)
  from this [of ns "[]"] Suc.prems(2) show ?case by (simp add: call_dir_def)
qed simp

subsection \<open>Valid selectors\<close>

lemma seenDuplicate_iff: "seenDuplicate seen ss \<longleftrightarrow> \<not> (distinct (map wds_Directory ss) \<and> set (map wds_Directory ss) \<inter> set seen = {})"
  by (induction seen ss rule: seenDuplicate.induct) auto

lemma containsSubDirectory_None: "containsSubDirectory ss = None \<longleftrightarrow> (\<forall>s\<in>set ss. Base (wds_Directory s) = wds_Directory s)"
  by (induction ss) auto

lemma firstWithoutSelectors_None: "firstWithoutSelectors i ss = None \<longleftrightarrow> (\<forall>s\<in>set ss. wds_MatchLabels s \<noteq> fmempty)"
  by (induction i ss rule: firstWithoutSelectors.induct) auto

text \<open>
  The selectors file is accepted exactly when it can be decoded, every entry has selectors, and the cleaned directories are
  pairwise different and single path components; the result is the entries with their directories cleaned.
\<close>

lemma ParseDestinationSelectors_accepts:
  "ParseDestinationSelectors L sprint bytes = Inr cfg \<longleftrightarrow>
     (\<exists>raw. L_UnmarshalDestinationSelectors L bytes = Inr raw \<and> cfg = map (\<lambda>s. s\<lparr>wds_Directory := Clean (wds_Directory s)\<rparr>) raw \<and>
        list_all (\<lambda>s. wds_MatchLabels s \<noteq> fmempty \<and> Base (wds_Directory s) = wds_Directory s) cfg \<and> distinct (map wds_Directory cfg))"
proof (cases "L_UnmarshalDestinationSelectors L bytes")
  case (Inr raw)
  let ?c = "map (\<lambda>s. s\<lparr>wds_Directory := Clean (wds_Directory s)\<rparr>) raw"
  show ?thesis
    using Inr firstWithoutSelectors_None [of 0 ?c] containsSubDirectory_None [of ?c]
    unfolding ParseDestinationSelectors_def containsDuplicateScheduling_def seenDuplicate_iff Let_def
    by (cases "firstWithoutSelectors 0 ?c"; cases "containsSubDirectory ?c") (auto simp: list_all_iff)
qed (simp add: ParseDestinationSelectors_def)

subsection \<open>Groups\<close>

definition files_under :: "node list \<Rightarrow> (string list \<times> string) list" where
  "files_under ns = concat (map (files_of []) ns)"

definition subtree :: "node list \<Rightarrow> string \<Rightarrow> node option" where
  "subtree ns d = find (\<lambda>x. entry x = (d, True)) ns"

lemma find_SomeD: "find P xs = Some x \<Longrightarrow> x \<in> set xs \<and> P x"
  by (metis find_Some_iff nth_mem)

lemma subtree_SomeD: "subtree ns d = Some x \<Longrightarrow> x \<in> set ns \<and> (\<exists>ms. x = DirNode d ms)"
  unfolding subtree_def by (drule find_SomeD, cases x) auto

definition group_for :: "lib \<Rightarrow> string \<Rightarrow> node list \<Rightarrow> WorkflowDestinationSelectors \<Rightarrow> WorkloadGroup" where
  "group_for L workflowType ns s =
     \<lparr>wg_Workloads = map (pack L) (files_under (case subtree ns (wds_Directory s) of Some x \<Rightarrow> [x] | None \<Rightarrow> [])),
      wg_Directory = wds_Directory s, wg_ID = L_md5hex L (wds_Directory s),
      wg_DestinationSelectors = [\<lparr>wgs_MatchLabels = wds_MatchLabels s, wgs_Source = workflowSource workflowType\<rparr>]\<rparr>"

lemma run_scheduleDirectory:
  assumes "gzip_laws L" and p: "p \<noteq> []" "list_all plain_name p" and disk: "list_all (on_disk ans p) ns" "foldr max (map levels ns) 0 < depth"
    and sel: "isRootDirectory (wds_Directory s) \<or> subtree ns (wds_Directory s) \<noteq> None"
  shows "run ans (scheduleDirectory depth L (rooted p) wt s st) = Returned (Next (if isRootDirectory (wds_Directory s)
      then st\<lparr>sch_Default := Some (wds_MatchLabels s)\<rparr>
      else st\<lparr>sch_Groups := sch_Groups st @ [group_for L wt ns s], sch_Ignore := sch_Ignore st @ [wds_Directory s]\<rparr>))"
proof (cases "isRootDirectory (wds_Directory s)")
  case False
  let ?d = "wds_Directory s"
  from False sel obtain x where x: "subtree ns ?d = Some x" by auto
  then obtain ms where ms: "x = DirNode ?d ms" and mem: "x \<in> set ns" by (auto dest: subtree_SomeD)
  with disk(1) have d: "plain_name ?d" "ans (OsReadDir (rooted (p @ [?d]))) = RDir (map entry ms)" "list_all (on_disk ans (p @ [?d])) ms"
    by (auto simp: list_all_iff)
  have "foldr max (map levels ms) 0 < depth" using levels_member [OF mem] disk(2) ms by simp
  with run_getWorkloadsFromDir [OF assms(1) p(1), of "[?d]" ans ms depth "[]"] d p(2)
  have "run ans (getWorkloadsFromDir depth L (rooted p) (rooted (p @ [?d])) []) = Returned (Inr (map (pack L) (files_of [] x)))"
    by (simp add: ms kept_def)
  moreover have "Join [rooted p, ?d] = rooted (p @ [?d])" using Join_rooted p d(1) by simp
  ultimately show ?thesis using False x by (simp add: scheduleDirectory_def group_for_def files_under_def Let_def)
qed (simp add: scheduleDirectory_def Let_def)

definition own_dirs :: "WorkflowDestinationSelectors list \<Rightarrow> WorkflowDestinationSelectors list" where
  "own_dirs cfg = filter (\<lambda>s. \<not> isRootDirectory (wds_Directory s)) cfg"

lemma run_schedule:
  assumes "gzip_laws L" "p \<noteq> []" "list_all plain_name p" "list_all (on_disk ans p) ns" "foldr max (map levels ns) 0 < depth"
    and "list_all (\<lambda>s. subtree ns (wds_Directory s) \<noteq> None) (own_dirs cfg)"
  shows "\<exists>dflt. run ans (for_range cfg st (scheduleDirectory depth L (rooted p) wt)) = Returned (Next
    \<lparr>sch_Groups = sch_Groups st @ map (group_for L wt ns) (own_dirs cfg), sch_Ignore = sch_Ignore st @ map wds_Directory (own_dirs cfg),
     sch_Default = dflt\<rparr>)"
  using assms(6)
proof (induction cfg arbitrary: st)
  case Nil
  then show ?case by (cases st) (simp add: own_dirs_def)
next
  case (Cons s cfg)
  let ?st = "if isRootDirectory (wds_Directory s) then st\<lparr>sch_Default := Some (wds_MatchLabels s)\<rparr>
      else st\<lparr>sch_Groups := sch_Groups st @ [group_for L wt ns s], sch_Ignore := sch_Ignore st @ [wds_Directory s]\<rparr>"
  have "run ans (scheduleDirectory depth L (rooted p) wt s st) = Returned (Next ?st)"
    using Cons.prems by (intro run_scheduleDirectory [OF assms(1-5)]) (auto simp: own_dirs_def split: if_splits)
  moreover have "list_all (\<lambda>s. subtree ns (wds_Directory s) \<noteq> None) (own_dirs cfg)"
    using Cons.prems by (auto simp: own_dirs_def split: if_splits)
  note Cons.IH [OF this, of ?st]
  ultimately show ?case by (auto simp: own_dirs_def)
qed

text \<open>Every file is below exactly one of the directories or not below any.\<close>

lemma mset_files_under: "mset (files_under ns) = (\<Sum>x\<in>#mset ns. mset (files_of [] x))"
  unfolding files_under_def by (induction ns) auto

lemma files_partition:
  assumes "distinct (map (fst \<circ> entry) ns)" and "distinct ds" and "list_all (\<lambda>d. subtree ns d \<noteq> None) ds"
  shows "mset (files_under (map (\<lambda>d. the (subtree ns d)) ds)) + mset (files_under (kept ds ns)) = mset (files_under ns)"
proof -
  let ?D = "map (\<lambda>d. the (subtree ns d)) ds" and ?P = "\<lambda>x. snd (entry x) \<and> fst (entry x) \<in> set ds"
  have sub: "\<exists>ms. the (subtree ns d) = DirNode d ms \<and> DirNode d ms \<in> set ns" if "d \<in> set ds" for d
    using assms(3) that subtree_SomeD [of ns d] by (fastforce simp: list_all_iff)
  have "fst (entry (the (subtree ns d))) = d" if "d \<in> set ds" for d using sub [OF that] by auto
  then have "map (fst \<circ> entry) ?D = ds" by (simp add: comp_def map_idI)
  then have "distinct ?D" using assms(2) by (metis distinct_map)
  moreover have "distinct ns" using assms(1) by (metis distinct_map)
  moreover have "set ?D = {x \<in> set ns. ?P x}"
  proof
    show "set ?D \<subseteq> {x \<in> set ns. ?P x}" using sub by fastforce
    show "{x \<in> set ns. ?P x} \<subseteq> set ?D"
    proof
      fix x assume "x \<in> {x \<in> set ns. ?P x}"
      then have x: "x \<in> set ns" "snd (entry x)" "fst (entry x) \<in> set ds" by auto
      then obtain ms where "the (subtree ns (fst (entry x))) = DirNode (fst (entry x)) ms" "DirNode (fst (entry x)) ms \<in> set ns" using sub by blast
      moreover have "inj_on (fst \<circ> entry) (set ns)" using assms(1) by (simp add: distinct_map)
      ultimately have "the (subtree ns (fst (entry x))) = x" using x(1) by (auto elim: inj_onD)
      with x(3) show "x \<in> set ?D" by force
    qed
  qed
  ultimately have "set ?D = set (filter ?P ns)" "distinct ?D" "distinct (filter ?P ns)" by simp_all
  then have D: "mset ?D = mset (filter ?P ns)" by (simp only: set_eq_iff_mset_eq_distinct)
  have ns: "mset ns = mset ?D + mset (kept ds ns)" unfolding D kept_def mset_filter by (rule multiset_partition)
  show ?thesis by (simp only: mset_files_under ns image_mset_union sum_mset.union)
qed

text \<open>
  The output of a pipeline on disk: a tree of files below \<open>input\<close> of the root directory, each entry once in its directory,
  every directory of the selectors file in it, and the two files of selectors as they are decoded.
\<close>

definition pipeline_output ::
  "lib \<Rightarrow> (WorkflowDestinationSelectors list \<Rightarrow> string) \<Rightarrow> (req \<Rightarrow> resp) \<Rightarrow> string list \<Rightarrow> node list \<Rightarrow> WorkflowDestinationSelectors list \<Rightarrow> bool" where
  "pipeline_output L sprint ans top_dir ns cfg \<longleftrightarrow>
     top_dir \<noteq> [] \<and> list_all plain_name top_dir \<and> ans (OsReadDir (rooted (top_dir @ [''input'']))) = RDir (map entry ns) \<and>
     list_all (on_disk ans (top_dir @ [''input''])) ns \<and> distinct (map (fst \<circ> entry) ns) \<and>
     run ans (getWorkflowScheduling L sprint (rooted top_dir)) = Returned (Inr cfg) \<and> distinct (map wds_Directory cfg) \<and>
     list_all (\<lambda>s. subtree ns (wds_Directory s) \<noteq> None) (own_dirs cfg) \<and>
     (\<exists>sel. run ans (getPromiseScheduling L (rooted top_dir)) = Returned (Inr sel))"

lemma run_workloadGroups:
  assumes "gzip_laws L" and "pipeline_output L sprint ans top_dir ns cfg" and "foldr max (map levels ns) 0 < depth"
  shows "\<exists>rest. run ans (workloadGroups depth L sprint (rooted top_dir) wt) = Returned (Inr (map (group_for L wt ns) (own_dirs cfg) @ rest)) \<and>
    concat (map wg_Workloads rest) = map (pack L) (files_under (kept (map wds_Directory (own_dirs cfg)) ns)) \<and>
    length rest \<le> 1 \<and> list_all (\<lambda>g. wg_Directory g = DefaultWorkloadGroupDirectory) rest"
proof -
  let ?p = "top_dir @ [''input'']" and ?ign = "map wds_Directory (own_dirs cfg)" and ?st = "\<lparr>sch_Groups = [], sch_Ignore = [], sch_Default = None\<rparr>"
  have top_dir: "top_dir \<noteq> []" "list_all plain_name top_dir" "plain_name ''input''" using assms(2) by (auto simp: pipeline_output_def plain_name_def)
  then have p: "?p \<noteq> []" "list_all plain_name ?p" "Join [rooted top_dir, ''input''] = rooted ?p" by (simp_all add: Join_rooted)
  from assms(2) have out: "ans (OsReadDir (rooted ?p)) = RDir (map entry ns)" "list_all (on_disk ans ?p) ns"
    "list_all (\<lambda>s. subtree ns (wds_Directory s) \<noteq> None) (own_dirs cfg)"
    and cfg: "run ans (getWorkflowScheduling L sprint (rooted top_dir)) = Returned (Inr cfg)" by (auto simp: pipeline_output_def)
  from run_schedule [OF assms(1) p(1,2) out(2) assms(3) out(3), of ?st wt] obtain dflt where
    loop: "run ans (for_range cfg ?st (scheduleDirectory depth L (rooted ?p) wt)) =
      Returned (Next \<lparr>sch_Groups = map (group_for L wt ns) (own_dirs cfg), sch_Ignore = ?ign, sch_Default = dflt\<rparr>)" by auto
  from run_getWorkloadsFromDir [OF assms(1) p(1), of "[]" ans ns depth ?ign] p(2) out assms(3)
  have base: "run ans (getWorkloadsFromDir depth L (rooted ?p) (rooted ?p) ?ign) = Returned (Inr (map (pack L) (files_under (kept ?ign ns))))"
    by (simp add: files_under_def)
  from assms(2) obtain sel where sel: "run ans (getPromiseScheduling L (rooted top_dir)) = Returned (Inr sel)" by (auto simp: pipeline_output_def)
  let ?w = "map (pack L) (files_under (kept ?ign ns))"
  have "run ans (workloadGroups depth L sprint (rooted top_dir) wt) = Returned (Inr (map (group_for L wt ns) (own_dirs cfg) @
      (if ?w = [] then [] else [defaultWorkloadGroup L wt ?w dflt sel])))"
    unfolding workloadGroups_def Let_def p(3) by (auto simp: cfg loop base sel)
  moreover have "concat (map wg_Workloads (if ?w = [] then [] else [defaultWorkloadGroup L wt ?w dflt sel])) = ?w \<and>
      length (if ?w = [] then [] else [defaultWorkloadGroup L wt ?w dflt sel]) \<le> 1 \<and>
      list_all (\<lambda>g. wg_Directory g = DefaultWorkloadGroupDirectory) (if ?w = [] then [] else [defaultWorkloadGroup L wt ?w dflt sel])"
    by (simp add: defaultWorkloadGroup_def)
  ultimately show ?thesis by blast
qed

text \<open>The files of a directory at the top of the output, and those of no such directory, by the first component of their paths.\<close>

lemma files_of_path: "f \<in> set (files_of rel x) \<Longrightarrow> \<exists>q. fst f = rel @ fst (entry x) # q"
  by (induction rel x rule: files_of.induct) fastforce+

lemma hd_files_of: "f \<in> set (files_of [] x) \<Longrightarrow> hd (fst f) = fst (entry x)"
  using files_of_path [of f "[]" x] by auto

lemma filter_files_of: "filter (\<lambda>f. P (hd (fst f))) (files_of [] x) = (if P (fst (entry x)) then files_of [] x else [])"
  by (auto simp: filter_id_conv filter_empty_conv dest: hd_files_of)

lemma files_under_filter: "filter (\<lambda>f. P (hd (fst f))) (files_under ns) = files_under (filter (\<lambda>x. P (fst (entry x))) ns)"
  by (induction ns) (auto simp: files_under_def filter_files_of)

lemma files_under_dir:
  assumes "distinct (map (fst \<circ> entry) ns)" and "subtree ns d = Some x"
  shows "files_under [x] = filter (\<lambda>f. hd (fst f) = d) (files_under ns)"
proof -
  from subtree_SomeD [OF assms(2)] have x: "x \<in> set ns" "fst (entry x) = d" by auto
  then have "filter (\<lambda>y. fst (entry y) = d) ns = [x]" using assms(1)
    by (induction ns) (auto simp: filter_empty_conv image_iff)
  with files_under_filter [of "\<lambda>n. n = d" ns] show ?thesis by simp
qed

lemma files_under_kept:
  assumes "distinct (map (fst \<circ> entry) ns)" and "list_all (\<lambda>d. subtree ns d \<noteq> None) ds"
  shows "files_under (kept ds ns) = filter (\<lambda>f. hd (fst f) \<notin> set ds) (files_under ns)"
proof -
  have "snd (entry y)" if y: "y \<in> set ns" "fst (entry y) \<in> set ds" for y
  proof -
    from y(2) assms(2) obtain x where "subtree ns (fst (entry y)) = Some x" by (auto simp: list_all_iff)
    from subtree_SomeD [OF this] have x: "x \<in> set ns" "fst (entry x) = fst (entry y)" "snd (entry x)" by auto
    with assms(1) y(1) have "x = y" by (auto simp: distinct_map inj_on_def)
    with x show ?thesis by simp
  qed
  then have "kept ds ns = filter (\<lambda>y. fst (entry y) \<notin> set ds) ns" unfolding kept_def by (intro filter_cong) auto
  then show ?thesis using files_under_filter [of "\<lambda>n. n \<notin> set ds" ns] by simp
qed

text \<open>A file of the output as it is handed to a destination: its path relative to the output directory, and its content.\<close>

definition plain_file :: "string list \<times> string \<Rightarrow> Workload" where
  "plain_file f = \<lparr>Filepath = join (fst f) ''/'', Content = snd f\<rparr>"

lemma decompress_packed:
  assumes "gzip_laws L"
  shows "decompressWorkloads L (map (pack L) fs) = Inr (map plain_file fs)"
proof (rule decompress_compressed [OF assms])
  have "CompressContent L (snd f) = Inr (Content (pack L f))" for f
  proof -
    obtain z where "L_gzip L (snd f) = Inr z" using assms unfolding gzip_laws_def by blast
    then show ?thesis by (simp add: pack_def CompressContent_def)
  qed
  then show "list_all2 (\<lambda>w z. CompressContent L (Content w) = Inr (Content z) \<and> Filepath z = Filepath w) (map plain_file fs) (map (pack L) fs)"
    by (simp add: list_all2_map1 list_all2_map2 list_all2_same plain_file_def) (simp add: pack_def)
qed

text \<open>
  C27. The Work holds the whole output, and nothing twice, each file in the group of its directory. When the output directory and the
  two files of selectors can be read, the names in it are plain and distinct, and every directory with selectors of its own is there
  and has only one set of them (\<open>pipeline_output\<close>), collecting the output of a pipeline ends without an error; a depth above that of the
  tree is enough. There is one group for each directory with selectors of its own, in their order, with these selectors,
  whose workloads are the files below that directory; and at most one more group, of the default directory, whose
  workloads are the other files. Every workload has the file's path relative to the output directory and a content that decompresses
  to the file's. Together they are each file of the output exactly once.
\<close>

theorem output_collected:
  assumes "gzip_laws L" and "pipeline_output L sprint ans top_dir ns cfg" and "foldr max (map levels ns) 0 < depth"
  shows "\<exists>own rest. run ans (workloadGroups depth L sprint (rooted top_dir) workflowType) = Returned (Inr (own @ rest)) \<and>
    list_all2 (\<lambda>s g. wg_Directory g = wds_Directory s \<and>
       wg_DestinationSelectors g = [\<lparr>wgs_MatchLabels = wds_MatchLabels s, wgs_Source = workflowSource workflowType\<rparr>] \<and>
       decompressWorkloads L (wg_Workloads g) = Inr (map plain_file (filter (\<lambda>f. hd (fst f) = wds_Directory s) (files_under ns))))
      (own_dirs cfg) own \<and>
    length rest \<le> 1 \<and> list_all (\<lambda>g. wg_Directory g = ''.'') rest \<and>
    decompressWorkloads L (concat (map wg_Workloads rest)) =
      Inr (map plain_file (filter (\<lambda>f. hd (fst f) \<notin> wds_Directory ` set (own_dirs cfg)) (files_under ns))) \<and>
    (\<exists>fs. decompressWorkloads L (concat (map wg_Workloads (own @ rest))) = Inr fs \<and> mset fs = mset (map plain_file (files_under ns)))"
proof -
  let ?D = "own_dirs cfg" and ?ds = "map wds_Directory (own_dirs cfg)"
  from run_workloadGroups [OF assms, of workflowType] obtain rest where
    run: "run ans (workloadGroups depth L sprint (rooted top_dir) workflowType) = Returned (Inr (map (group_for L workflowType ns) ?D @ rest))"
    and rest: "concat (map wg_Workloads rest) = map (pack L) (files_under (kept ?ds ns))" "length rest \<le> 1"
      "list_all (\<lambda>g. wg_Directory g = DefaultWorkloadGroupDirectory) rest" by blast
  from assms(2) have ds: "list_all (\<lambda>d. subtree ns d \<noteq> None) ?ds" "distinct ?ds" "distinct (map (fst \<circ> entry) ns)"
    by (auto simp: pipeline_output_def list_all_iff own_dirs_def distinct_map_filter)
  let ?fs = "files_under (map (\<lambda>d. the (subtree ns d)) ?ds) @ files_under (kept ?ds ns)"
  have "concat (map wg_Workloads (map (group_for L workflowType ns) D)) = map (pack L) (files_under (map (\<lambda>d. the (subtree ns d)) (map wds_Directory D)))"
    if "list_all (\<lambda>d. subtree ns d \<noteq> None) (map wds_Directory D)" for D
    using that by (induction D) (auto simp: group_for_def files_under_def)
  from this [OF ds(1)] rest have "concat (map wg_Workloads (map (group_for L workflowType ns) ?D @ rest)) = map (pack L) ?fs" by simp
  moreover have "mset (map plain_file ?fs) = mset (map plain_file (files_under ns))"
    unfolding mset_map mset_append files_partition [OF ds(3,2,1)] ..
  ultimately have all: "\<exists>fs. decompressWorkloads L (concat (map wg_Workloads (map (group_for L workflowType ns) ?D @ rest))) = Inr fs \<and>
      mset fs = mset (map plain_file (files_under ns))"
    by (metis decompress_packed [OF assms(1)])
  have "list_all2 (\<lambda>s g. wg_Directory g = wds_Directory s \<and>
       wg_DestinationSelectors g = [\<lparr>wgs_MatchLabels = wds_MatchLabels s, wgs_Source = workflowSource workflowType\<rparr>] \<and>
       decompressWorkloads L (wg_Workloads g) = Inr (map plain_file (filter (\<lambda>f. hd (fst f) = wds_Directory s) (files_under ns))))
      ?D (map (group_for L workflowType ns) ?D)"
    unfolding list_all2_map2 list_all2_same
    using ds(1) files_under_dir [OF ds(3)] by (auto simp: group_for_def list_all_iff decompress_packed [OF assms(1)] split: option.split)
  moreover have "decompressWorkloads L (concat (map wg_Workloads rest)) =
      Inr (map plain_file (filter (\<lambda>f. hd (fst f) \<notin> wds_Directory ` set ?D) (files_under ns)))"
    unfolding rest(1) decompress_packed [OF assms(1)] files_under_kept [OF ds(3,1)] by simp
  ultimately show ?thesis
    using run rest(2,3) all
    by (intro exI [of _ "map (group_for L workflowType ns) ?D"] exI [of _ rest]) (simp add: DefaultWorkloadGroupDirectory_def)
qed

subsection \<open>Directories that select too much\<close>

text \<open>
  The check for sub-directories lets two directories pass that are not below the output: with \<open>/\<close> the group reads the whole
  output, which the default group then reads again, since no entry of that name is left out; with \<open>..\<close> the group
  reads the directory that holds the output, the selectors and the scheduling of the Promise.
\<close>

lemma selectors_outside_output:
  assumes "p \<noteq> []" "list_all plain_name p" "plain_name n"
  shows "Base (Clean ''/'') = Clean ''/''" "Join [rooted p, Clean ''/''] = rooted p"
    and "Base (Clean ''..'') = Clean ''..''" "Join [rooted (p @ [n]), Clean ''..''] = rooted p"
proof -
  have c: "Clean ''/'' = ''/''" "Clean ''..'' = ''..''" by (simp_all add: Clean_def clean_step_def)
  then show "Base (Clean ''/'') = Clean ''/''" "Base (Clean ''..'') = Clean ''..''" by (simp_all add: Base_def)
  have "rooted p \<noteq> []" "rooted (p @ [n]) \<noteq> []" by (simp_all add: rooted_def)
  then have "Join [rooted p, ''/''] = Clean ((rooted p @ ''/'') @ ''/'')" "Join [rooted (p @ [n]), ''..''] = Clean (rooted (p @ [n] @ [''..'']))"
    using join_append [of "p @ [n]" "[''..'']" "''/''"] by (simp_all add: Join_def rooted_def)
  moreover have "Clean ((rooted p @ ''/'') @ ''/'') = rooted p"
    using Clean_slash [of "rooted p @ ''/''"] Clean_slash [of "rooted p"] \<open>rooted p \<noteq> []\<close> assms by (simp add: Clean_rooted)
  moreover have "Clean (rooted (p @ [n] @ [''..''])) = rooted p"
  proof -
    have "split_on (CHR ''/'') (join (p @ [n] @ [''..'']) ''/'') = p @ [n] @ [''..'']"
      using assms by (intro split_on_join) (auto simp: list_all_iff plain_name_def)
    then have "split_on (CHR ''/'') (rooted (p @ [n] @ [''..''])) = [] # p @ [n] @ [''..'']" by (simp add: rooted_def)
    moreover have "foldl (clean_step True) [] p = rev p" using clean_plain [of p True "[]"] assms(2) by (simp add: list_all_iff)
    moreover have "prefix ''/'' (rooted (p @ [n] @ [''..'']))" by (simp add: rooted_def)
    ultimately show ?thesis using assms(3) by (auto simp: Clean_def clean_step_def plain_name_def Let_def) (auto simp: rooted_def)
  qed
  ultimately show "Join [rooted p, Clean ''/''] = rooted p" "Join [rooted (p @ [n]), Clean ''..''] = rooted p" by (simp_all add: c)
qed

subsection \<open>A concrete output\<close>

definition ex_nodes :: "node list" where
  "ex_nodes = [FileNode ''a'' ''x'', DirNode ''d'' [FileNode ''b'' ''y'']]"

definition ex_cfg :: "WorkflowDestinationSelectors list" where
  "ex_cfg = [\<lparr>wds_MatchLabels = fmupd ''env'' ''dev'' fmempty, wds_Directory = ''d''\<rparr>]"

definition ex_selector_lib :: lib where
  "ex_selector_lib = plain_lib\<lparr>L_UnmarshalDestinationSelectors := \<lambda>_. Inr ex_cfg\<rparr>"

fun ex_disk :: "req \<Rightarrow> resp" where
  "ex_disk (OsReadDir p) = RDir (if p = ''/w/input'' then [(''a'', False), (''d'', True)] else [(''b'', False)])"
| "ex_disk (IoReadAll p) = RStr (if p = ''/w/input/a'' then ''x'' else ''y'')"
| "ex_disk (OsReadFile p) = RStr []"
| "ex_disk q = ROk"

lemma ex_pipeline_output: "pipeline_output ex_selector_lib (\<lambda>_. []) ex_disk [''w''] ex_nodes ex_cfg"
proof -
  have "Clean ''d'' = ''d''" "Base ''d'' = ''d''" by (simp_all add: Clean_def clean_step_def Base_def)
  then have "ParseDestinationSelectors ex_selector_lib (\<lambda>_. []) [] = Inr ex_cfg"
    by (simp add: ParseDestinationSelectors_def containsDuplicateScheduling_def ex_selector_lib_def ex_cfg_def)
  then have "run ex_disk (getWorkflowScheduling ex_selector_lib (\<lambda>_. []) (rooted [''w''])) = Returned (Inr ex_cfg)"
    by (simp add: getWorkflowScheduling_def call_str_def as_str_def)
  moreover have "own_dirs ex_cfg = ex_cfg" by (simp add: own_dirs_def ex_cfg_def isRootDirectory_def consts_defs)
  moreover have "run ex_disk (getPromiseScheduling ex_selector_lib (rooted [''w''])) = Returned (Inr [])"
    by (simp add: getPromiseScheduling_def call_str_def as_str_def ex_selector_lib_def plain_lib_def)
  ultimately show ?thesis
    by (simp add: pipeline_output_def ex_nodes_def ex_cfg_def subtree_def plain_name_def rooted_def as_unit_def)
qed

theorem output_collected_witness:
  "\<exists>g rest. run ex_disk (workloadGroups 2 ex_selector_lib (\<lambda>_. []) (rooted [''w'']) ''resource'') = Returned (Inr (g # rest)) \<and>
     wg_Directory g = ''d'' \<and> decompressWorkloads ex_selector_lib (wg_Workloads g) = Inr [\<lparr>Filepath = ''d/b'', Content = ''y''\<rparr>] \<and>
     decompressWorkloads ex_selector_lib (concat (map wg_Workloads rest)) = Inr [\<lparr>Filepath = ''a'', Content = ''x''\<rparr>]"
proof -
  have "gzip_laws ex_selector_lib" by (simp add: ex_selector_lib_def gzip_laws_def plain_lib_def)
  moreover have "foldr max (map levels ex_nodes) 0 < 2" by (simp add: ex_nodes_def)
  moreover have "own_dirs ex_cfg = ex_cfg" by (simp add: own_dirs_def ex_cfg_def isRootDirectory_def consts_defs)
  moreover have "files_under ex_nodes = [([''a''], ''x''), ([''d'', ''b''], ''y'')]" by (simp add: files_under_def ex_nodes_def)
  ultimately show ?thesis
    using output_collected [OF _ ex_pipeline_output, where depth = 2 and workflowType = "''resource''"]
    by (auto simp: ex_cfg_def list_all2_Cons1 plain_file_def)
qed

end
