(* ===== verification/ResourceRequestController.thy ===== *)
theory ResourceRequestController
  imports Workflow StateStores
begin

text \<open>
  \<open>src/internal/controller/dynamic_resource_request_controller.go\<close>: the controller that is started for each Promise
  and runs the workflows of the resource requests made of it, keeps their status, and cleans up after them.

  The fields of the controller that are shared with the promise controller by pointer (\<open>Enabled\<close>,
  \<open>CanCreateResources\<close>) are read once per pass. The request is an unstructured object that the functions write
  through a pointer: the ones after which it is still used return it.
  Logging is left out.
\<close>

subsection \<open>Constants and the controller\<close>

definition pauseReconciliationLabel :: string where [consts_defs]: "pauseReconciliationLabel = ''kratix.io/paused''"
definition PipelinesExecutedSuccessfully :: string where
  [consts_defs]: "PipelinesExecutedSuccessfully = ''PipelinesExecutedSuccessfully''"

definition rrFinalizers :: "string list" where
  "rrFinalizers = [workFinalizer, removeAllWorkflowJobsFinalizer, runDeleteWorkflowsFinalizer]"

type_synonym reconcile_result = "ctrl_result \<times> err option"

definition u_labels :: "unstructured \<Rightarrow> labels" where "u_labels u = m_Labels (u_meta u)"

definition set_u_labels :: "unstructured \<Rightarrow> labels \<Rightarrow> unstructured" where
  "set_u_labels u ls = u\<lparr>u_meta := (u_meta u)\<lparr>m_Labels := ls\<rparr>\<rparr>"

definition u_finalizers :: "unstructured \<Rightarrow> string list" where "u_finalizers u = m_Finalizers (u_meta u)"

definition without_finalizer :: "lib \<Rightarrow> unstructured \<Rightarrow> string \<Rightarrow> unstructured" where
  "without_finalizer L u f = u\<lparr>u_meta := (u_meta u)\<lparr>m_Finalizers := L_RemoveFinalizer L (m_Finalizers (u_meta u)) f\<rparr>\<rparr>"

definition status_update :: "unstructured \<Rightarrow> reconcile_result go" where
  "status_update rr = bnd (call_unit (StatusUpdate (OUnstructured rr))) (\<lambda>e. Ret (no_requeue, e))"

subsection \<open>Deletion\<close>

definition RRDeleteWork :: "lib \<Rightarrow> DynamicResourceRequestController \<Rightarrow> unstructured \<Rightarrow> string \<Rightarrow> (err option) go" where
  "RRDeleteWork L r resourceRequest finalizer =
     bnd (GetAllWorksForResource L (m_Namespace (u_meta resourceRequest)) (rc_PromiseIdentifier r) (m_Name (u_meta resourceRequest))) (\<lambda>res.
     case res of
       Inl e \<Rightarrow> Ret (Some e)
     | Inr works \<Rightarrow>
         if works = [] then call_unit (Update (OUnstructured (without_finalizer L resourceRequest finalizer)))
         else
           after_loop
             (for_range works () (\<lambda>work _.
                bnd (call_unit (Delete (OWork work))) (\<lambda>e.
                Ret (case e of None \<Rightarrow> Next () | Some e \<Rightarrow> Leave (Some e)))))
             (\<lambda>_. Ret None))"

definition jobGVK :: gvk where "jobGVK = \<lparr>g_Group = ''batch'', g_Version = ''v1'', g_Kind = ''Job''\<rparr>"

definition rrJobLabels :: "DynamicResourceRequestController \<Rightarrow> unstructured \<Rightarrow> labels" where
  "rrJobLabels r resourceRequest =
     fmupd WorkflowTypeLabel WorkflowTypeResource (fmupd ResourceNameLabel (m_Name (u_meta resourceRequest))
       (fmupd PromiseNameLabel (rc_PromiseIdentifier r) fmempty))"

definition rrJobLegacyLabels :: "DynamicResourceRequestController \<Rightarrow> unstructured \<Rightarrow> labels" where
  "rrJobLegacyLabels r resourceRequest =
     fmupd WorkTypeLabel WorkTypeResource (fmupd ResourceNameLabel (m_Name (u_meta resourceRequest))
       (fmupd PromiseNameLabel (rc_PromiseIdentifier r) fmempty))"

definition RRDeleteWorkflows :: "lib \<Rightarrow> DynamicResourceRequestController \<Rightarrow> unstructured \<Rightarrow> string \<Rightarrow> (err option) go" where
  "RRDeleteWorkflows L r resourceRequest finalizer =
     bnd (deleteAllResourcesWithKindMatchingLabel L jobGVK (rrJobLabels r resourceRequest)) (\<lambda>(resourcesRemaining, e).
     if e \<noteq> None then Ret e
     else
       bnd (deleteAllResourcesWithKindMatchingLabel L jobGVK (rrJobLegacyLabels r resourceRequest)) (\<lambda>(legacyResourcesRemaining, e).
       if e \<noteq> None then Ret e
       else if \<not> resourcesRemaining \<or> \<not> legacyResourcesRemaining
       then call_unit (Update (OUnstructured (without_finalizer L resourceRequest finalizer)))
       else Ret None))"

text \<open>The delete workflow of the request.\<close>

definition runDeleteWorkflows ::
  "lib \<Rightarrow> PipelineDefaults \<Rightarrow> DynamicResourceRequestController \<Rightarrow> Promise \<Rightarrow> unstructured \<Rightarrow> reconcile_result go" where
  "runDeleteWorkflows L D r promise resourceRequest =
     bnd (GenerateResourcePipelines L D promise WorkflowActionDelete resourceRequest) (\<lambda>res.
     case res of
       Inl e \<Rightarrow> Ret (no_requeue, Some e)
     | Inr pipelineResources \<Rightarrow>
         bnd (ReconcileDelete L (NewOpts resourceRequest pipelineResources ''resource'' (rc_NumberOfJobsToKeep r)))
           (\<lambda>((requeue, err), resourceRequest).
         case err of
           Some e \<Rightarrow>
             if e = ErrDeletePipelineFailed then
               bnd (call_event (OUnstructured resourceRequest) ''Warning'' ''Failed Pipeline'' ''The Delete Pipeline has failed'') (\<lambda>_.
               bnd (MarkDeleteWorkflowAsFailed L resourceRequest) (\<lambda>resourceRequest.
               bnd (call_unit (StatusUpdate (OUnstructured resourceRequest))) (\<lambda>_.
               Ret (no_requeue, Some e))))
             else Ret (no_requeue, Some e)
         | None \<Rightarrow>
             if requeue then Ret (defaultRequeue, None)
             else
               bnd (call_unit (Update (OUnstructured (without_finalizer L resourceRequest runDeleteWorkflowsFinalizer)))) (\<lambda>e.
               Ret (no_requeue, e))))"

definition RRDeleteResources ::
  "lib \<Rightarrow> PipelineDefaults \<Rightarrow> DynamicResourceRequestController \<Rightarrow> Promise \<Rightarrow> unstructured \<Rightarrow> reconcile_result go" where
  "RRDeleteResources L D r promise resourceRequest =
     (let finalizers = u_finalizers resourceRequest in
      if FinalizersAreDeleted L finalizers rrFinalizers then Ret (no_requeue, None)
      else if L_ContainsFinalizer L finalizers runDeleteWorkflowsFinalizer then runDeleteWorkflows L D r promise resourceRequest
      else if L_ContainsFinalizer L finalizers workFinalizer then
        bnd (RRDeleteWork L r resourceRequest workFinalizer) (\<lambda>e.
        Ret (case e of Some e \<Rightarrow> (no_requeue, Some e) | None \<Rightarrow> (fastRequeue, None)))
      else if L_ContainsFinalizer L finalizers removeAllWorkflowJobsFinalizer then
        bnd (RRDeleteWorkflows L r resourceRequest removeAllWorkflowJobsFinalizer) (\<lambda>e.
        Ret (case e of Some e \<Rightarrow> (no_requeue, Some e) | None \<Rightarrow> (fastRequeue, None)))
      else Ret (fastRequeue, None))"

subsection \<open>Status\<close>

record works_status =
  wk_failed :: "string list"
  wk_misplaced :: "string list"
  wk_pending :: "string list"
  wk_ready :: "string list"

definition classify :: "lib \<Rightarrow> Work \<Rightarrow> works_status \<Rightarrow> ((works_status, 'b) loop) go" where
  "classify L work s =
     bnd (deref (L_FindStatusCondition L (wst_Conditions (w_Status work)) ''Ready'')) (\<lambda>readyCond.
     let m = c_Message readyCond; name = m_Name (w_meta work) in
     Ret (Next (if m = ''Failing'' then s\<lparr>wk_failed := wk_failed s @ [name]\<rparr>
                else if m = ''Misplaced'' then s\<lparr>wk_misplaced := wk_misplaced s @ [name]\<rparr>
                else if m = ''Pending'' then s\<lparr>wk_pending := wk_pending s @ [name]\<rparr>
                else if m = ''Ready'' then s\<lparr>wk_ready := wk_ready s @ [name]\<rparr>
                else s)))"

definition getWorksStatus :: "lib \<Rightarrow> DynamicResourceRequestController \<Rightarrow> unstructured \<Rightarrow> (err + works_status) go" where
  "getWorksStatus L r rr =
     (case L_ParseSelector L (L_FormatLabels L (GetWorkLabels (rc_PromiseIdentifier r) (m_Name (u_meta rr)) [] WorkTypeResource)) of
        Inl e \<Rightarrow> Ret (Inl e)
      | Inr selector \<Rightarrow>
          bnd (call_list (ListObjs KWork (m_Namespace (u_meta rr)) (Some selector)) un_work) (\<lambda>res.
          case res of
            Inl e \<Rightarrow> Ret (Inl e)
          | Inr works \<Rightarrow>
              after_loop (for_range works \<lparr>wk_failed = [], wk_misplaced = [], wk_pending = [], wk_ready = []\<rparr> (classify L))
                (\<lambda>s. Ret (Inr s))))"

definition updateWorksSucceededCondition :: "lib \<Rightarrow> unstructured \<Rightarrow> works_status \<Rightarrow> (bool \<times> unstructured) go" where
  "updateWorksSucceededCondition L rr s =
     (let cond = GetCondition L rr WorksSucceededCondition in
      if length (wk_failed s) > 0 then
        (if (case cond of None \<Rightarrow> True | Some c \<Rightarrow> c_Status c = ConditionTrue) then
           bnd (MarkResourceRequestAsWorksFailed L rr (wk_failed s)) (\<lambda>rr.
           bnd (call_event (OUnstructured rr) EventTypeWarning ''WorksFailing''
                  (''Some works associated with this resource failed: ['' @ join (wk_failed s) '','' @ '']'')) (\<lambda>_.
           Ret (True, rr)))
         else Ret (False, rr))
      else if length (wk_pending s) > 0 then
        (if (case cond of None \<Rightarrow> True | Some c \<Rightarrow> c_Status c \<noteq> ConditionUnknown) then
           bnd (MarkResourceRequestAsWorksPending L rr (wk_pending s)) (\<lambda>rr. Ret (True, rr))
         else Ret (False, rr))
      else if length (wk_misplaced s) > 0 then
        (if (case cond of None \<Rightarrow> True | Some c \<Rightarrow> c_Status c \<noteq> ConditionFalse \<or> c_Reason c \<noteq> ''WorksMisplaced'') then
           bnd (MarkResourceRequestAsWorksMisplaced L rr (wk_misplaced s)) (\<lambda>rr.
           bnd (call_event (OUnstructured rr) EventTypeWarning ''WorksMisplaced''
                  (''Some works associated with this resource are misplaced: ['' @ join (wk_misplaced s) '','' @ '']'')) (\<lambda>_.
           Ret (True, rr)))
         else Ret (False, rr))
      else if (case cond of None \<Rightarrow> True | Some c \<Rightarrow> c_Status c \<noteq> ConditionTrue) then
        bnd (MarkResourceRequestAsWorksSucceeded L rr) (\<lambda>rr.
        bnd (call_event (OUnstructured rr) EventTypeNormal ''WorksSucceeded'' ''All works associated with this resource are ready'') (\<lambda>_.
        Ret (True, rr)))
      else Ret (False, rr))"

definition has_status :: "condition option \<Rightarrow> string \<Rightarrow> bool" where
  "has_status c st = (case c of None \<Rightarrow> False | Some c \<Rightarrow> c_Status c = st)"

definition updateReconciledCondition :: "lib \<Rightarrow> unstructured \<Rightarrow> (bool \<times> unstructured) go" where
  "updateReconciledCondition L rr =
     (let worksSucceeded = GetCondition L rr WorksSucceededCondition;
          workflowCompleted = GetCondition L rr ConfigureWorkflowCompletedCondition;
          reconciled = GetCondition L rr ReconciledCondition in
      if has_status workflowCompleted ConditionFalse \<and> c_Reason (the workflowCompleted) = ''PipelinesInProgress'' then
        (if \<not> has_status reconciled ConditionUnknown
         then bnd (MarkReconciledPending L rr ''WorkflowPending'') (\<lambda>rr. Ret (True, rr)) else Ret (False, rr))
      else if has_status workflowCompleted ConditionFalse then
        (if \<not> has_status reconciled ConditionFalse \<or> c_Reason (the reconciled) \<noteq> ConfigureWorkflowCompletedFailedReason
         then bnd (MarkReconciledFailing L rr ConfigureWorkflowCompletedFailedReason) (\<lambda>rr. Ret (True, rr)) else Ret (False, rr))
      else if has_status worksSucceeded ConditionUnknown then
        (if \<not> has_status reconciled ConditionUnknown
         then bnd (MarkReconciledPending L rr ''WorksPending'') (\<lambda>rr. Ret (True, rr)) else Ret (False, rr))
      else if has_status worksSucceeded ConditionFalse then
        (if \<not> has_status reconciled ConditionFalse
         then bnd (MarkReconciledFailing L rr ''WorksFailing'') (\<lambda>rr. Ret (True, rr)) else Ret (False, rr))
      else if has_status workflowCompleted ConditionTrue \<and> has_status worksSucceeded ConditionTrue then
        (if \<not> has_status reconciled ConditionTrue then
           bnd (MarkReconciledTrue L rr) (\<lambda>rr.
           bnd (call_event (OUnstructured rr) EventTypeNormal ''ReconcileSucceeded'' ''Successfully reconciled'') (\<lambda>_.
           Ret (True, rr)))
         else Ret (False, rr))
      else Ret (False, rr))"

definition generateWorkflowsCounterStatus :: "lib \<Rightarrow> unstructured \<Rightarrow> int \<Rightarrow> (bool \<times> unstructured) go" where
  "generateWorkflowsCounterStatus L rr numOfPipelines =
     (let desiredWorkflowsSucceeded =
            (if has_status (GetCondition L rr ConfigureWorkflowCompletedCondition) ConditionTrue then numOfPipelines else 0) in
      bnd (GetWorkflowsCounterStatus rr ''workflows'') (\<lambda>workflows.
      bnd (if workflows \<noteq> numOfPipelines then Ret True
           else bnd (GetWorkflowsCounterStatus rr ''workflowsSucceeded'') (\<lambda>n. Ret (n \<noteq> desiredWorkflowsSucceeded))) (\<lambda>differ.
      if differ then
        bnd (SetStatus rr [JStr ''workflows'', JInt numOfPipelines, JStr ''workflowsSucceeded'', JInt desiredWorkflowsSucceeded,
               JStr ''workflowsFailed'', JInt 0]) (\<lambda>rr. Ret (True, rr))
      else Ret (False, rr))))"

definition generateResourceStatus ::
  "lib \<Rightarrow> DynamicResourceRequestController \<Rightarrow> unstructured \<Rightarrow> int \<Rightarrow> (err + bool \<times> unstructured) go" where
  "generateResourceStatus L r rr numberOfPipelines =
     bnd (getWorksStatus L r rr) (\<lambda>res.
     case res of
       Inl e \<Rightarrow> Ret (Inl e)
     | Inr s \<Rightarrow>
         bnd (updateWorksSucceededCondition L rr s) (\<lambda>(worksSucceededUpdate, rr).
         bnd (updateReconciledCondition L rr) (\<lambda>(reconciledUpdate, rr).
         bnd (generateWorkflowsCounterStatus L rr numberOfPipelines) (\<lambda>(workflowsCounterStatusUpdate, rr).
         Ret (Inr (worksSucceededUpdate \<or> reconciledUpdate \<or> workflowsCounterStatusUpdate, rr))))))"

definition updateWorkflowStatusCountersToZero :: "unstructured \<Rightarrow> (err option) go" where
  "updateWorkflowStatusCountersToZero rr =
     bnd (GetWorkflowsCounterStatus rr ''workflows'') (\<lambda>a.
     bnd (if a \<noteq> 0 then Ret True
          else bnd (GetWorkflowsCounterStatus rr ''workflowsSucceeded'') (\<lambda>b.
               if b \<noteq> 0 then Ret True else bnd (GetWorkflowsCounterStatus rr ''workflowsFailed'') (\<lambda>c. Ret (c \<noteq> 0)))) (\<lambda>differ.
     if differ then
       bnd (SetStatus rr [JStr ''workflows'', JInt 0, JStr ''workflowsSucceeded'', JInt 0, JStr ''workflowsFailed'', JInt 0]) (\<lambda>rr.
       call_unit (StatusUpdate (OUnstructured rr)))
     else Ret None))"

definition setPausedReconciliationStatusConditions :: "lib \<Rightarrow> unstructured \<Rightarrow> (err option) go" where
  "setPausedReconciliationStatusConditions L rr =
     (let reconciled = GetCondition L rr ReconciledCondition in
      if (case reconciled of None \<Rightarrow> True | Some c \<Rightarrow> c_Status c \<noteq> ''Unknown'' \<or> c_Message c \<noteq> ''Paused'') then
        bnd (MarkReconciledPaused L rr) (\<lambda>rr. call_unit (StatusUpdate (OUnstructured rr)))
      else Ret None)"

definition workflowsCompletedSuccessfully :: "condition option \<Rightarrow> bool" where
  "workflowsCompletedSuccessfully c =
     (case c of None \<Rightarrow> False | Some c \<Rightarrow> c_Status c = ConditionTrue \<and> c_Reason c = PipelinesExecutedSuccessfully)"

definition nextReconciliation :: "DynamicResourceRequestController \<Rightarrow> ctrl_result" where
  "nextReconciliation r = \<lparr>RequeueAfter = rc_ReconciliationInterval r\<rparr>"

definition manualReconciliationLabelSet :: "unstructured \<Rightarrow> bool" where
  "manualReconciliationLabelSet rr \<longleftrightarrow> lget (u_labels rr) ManualReconciliationLabel = ''true''"

definition updateManualReconciliationLabel :: "unstructured \<Rightarrow> reconcile_result go" where
  "updateManualReconciliationLabel rr =
     bnd (call_unit (Update (OUnstructured (set_u_labels rr (fmupd ManualReconciliationLabel ''true'' (u_labels rr)))))) (\<lambda>e.
     Ret (no_requeue, e))"

definition ensurePromiseIsUnavailable :: "lib \<Rightarrow> unstructured \<Rightarrow> reconcile_result go" where
  "ensurePromiseIsUnavailable L rr =
     (if \<not> IsPromiseMarkedAsUnavailable L rr then bnd (MarkPromiseConditionAsNotAvailable L rr) status_update
      else Ret (slowRequeue, None))"

definition ensurePromiseIsAvailable :: "lib \<Rightarrow> unstructured \<Rightarrow> reconcile_result go" where
  "ensurePromiseIsAvailable L rr = bnd (MarkPromiseConditionAsAvailable L rr) status_update"

definition updateObservedGeneration :: "unstructured \<Rightarrow> (err option) go" where
  "updateObservedGeneration rr =
     bnd (SetStatus rr [JStr ''observedGeneration'', JInt (m_Generation (u_meta rr))]) (\<lambda>rr.
     call_unit (StatusUpdate (OUnstructured rr)))"

definition shouldForcePipelineRun :: "condition option \<Rightarrow> duration \<Rightarrow> bool go" where
  "shouldForcePipelineRun completedCond reconciliationInterval =
     (case completedCond of
        None \<Rightarrow> Ret False
      | Some c \<Rightarrow>
          if c_Status c = ConditionTrue
          then bnd call_now (\<lambda>now. Ret (now - c_LastTransitionTime c > reconciliationInterval))
          else Ret False)"

definition setPromiseLabels :: "string \<Rightarrow> unstructured \<Rightarrow> reconcile_result go" where
  "setPromiseLabels promiseName rr =
     bnd (call_unit (Update (OUnstructured (set_u_labels rr (fmupd PromiseNameLabel promiseName (u_labels rr)))))) (\<lambda>e.
     Ret (no_requeue, e))"

definition shouldUpdateLastSuccessfulConfigureWorkflowTime ::
  "lib \<Rightarrow> condition \<Rightarrow> unstructured \<Rightarrow> bool go" where
  "shouldUpdateLastSuccessfulConfigureWorkflowTime L c rr =
     bnd (GetStatus rr ''lastSuccessfulConfigureWorkflowTime'') (\<lambda>lastSuccessfulTime.
     Ret (L_RFC3339 L (c_LastTransitionTime c) \<noteq> lastSuccessfulTime))"

definition updateLastSuccessfulConfigureWorkflowTime ::
  "lib \<Rightarrow> condition \<Rightarrow> unstructured \<Rightarrow> reconcile_result go" where
  "updateLastSuccessfulConfigureWorkflowTime L c rr =
     bnd (SetStatus rr [JStr ''lastSuccessfulConfigureWorkflowTime'', JStr (L_RFC3339 L (c_LastTransitionTime c))]) status_update"

subsection \<open>The controller's pass\<close>

text \<open>After the workflow: observed generation, counters and conditions, the time of the last success.\<close>

definition finishRequest ::
  "lib \<Rightarrow> DynamicResourceRequestController \<Rightarrow> Promise \<Rightarrow> nat \<Rightarrow> unstructured \<Rightarrow> reconcile_result go" where
  "finishRequest L r promise numberOfPipelines rr =
     bnd (GetObservedGeneration rr) (\<lambda>observed.
     if m_Generation (u_meta rr) \<noteq> observed then bnd (updateObservedGeneration rr) (\<lambda>e. Ret (no_requeue, e))
     else if \<not> HasPipeline promise WorkflowTypeResource WorkflowActionConfigure then
       bnd (updateWorkflowStatusCountersToZero rr) (\<lambda>e. Ret (nextReconciliation r, e))
     else
       bnd (generateResourceStatus L r rr (int numberOfPipelines)) (\<lambda>res.
       case res of
         Inl e \<Rightarrow> Ret (no_requeue, Some e)
       | Inr (statusUpdate, rr) \<Rightarrow>
           if statusUpdate then status_update rr
           else
             (let c = GetCondition L rr ConfigureWorkflowCompletedCondition in
              if workflowsCompletedSuccessfully c then
                bnd (shouldUpdateLastSuccessfulConfigureWorkflowTime L (the c) rr) (\<lambda>u.
                if u then updateLastSuccessfulConfigureWorkflowTime L (the c) rr else Ret (nextReconciliation r, None))
              else Ret (no_requeue, None))))"

definition configureRequest ::
  "lib \<Rightarrow> PipelineDefaults \<Rightarrow> DynamicResourceRequestController \<Rightarrow> Promise \<Rightarrow> unstructured \<Rightarrow> reconcile_result go" where
  "configureRequest L D r promise rr =
     bnd (GenerateResourcePipelines L D promise WorkflowActionConfigure rr) (\<lambda>res.
     case res of
       Inl e \<Rightarrow> Ret (no_requeue, Some e)
     | Inr pipelineResources \<Rightarrow>
         bnd (GetWorkflowsCounterStatus rr ''workflows'') (\<lambda>workflows.
         if workflows \<noteq> int (length pipelineResources) then
           bnd (SetStatus rr [JStr ''workflows'', JInt (int (length pipelineResources))]) status_update
         else
           bnd (ReconcileConfigure L (NewOpts rr pipelineResources ''resource'' (rc_NumberOfJobsToKeep r))) (\<lambda>((abort, err), rr).
           if err \<noteq> None \<or> abort then Ret (no_requeue, err)
           else finishRequest L r promise (length pipelineResources) rr)))"

definition reconcileRequest ::
  "lib \<Rightarrow> PipelineDefaults \<Rightarrow> DynamicResourceRequestController \<Rightarrow> Promise \<Rightarrow> unstructured \<Rightarrow> reconcile_result go" where
  "reconcileRequest L D r promise rr =
     (if m_DeletionTimestamp (u_meta rr) \<noteq> None then RRDeleteResources L D r promise rr
      else if \<not> rc_CanCreateResources r then ensurePromiseIsUnavailable L rr
      else if IsPromiseMarkedAsUnavailable L rr then ensurePromiseIsAvailable L rr
      else if FinalizersAreMissing L (u_finalizers rr) rrFinalizers then addFinalizers L (OUnstructured rr) rrFinalizers
      else
        bnd (shouldForcePipelineRun (GetCondition L rr ConfigureWorkflowCompletedCondition) (rc_ReconciliationInterval r)) (\<lambda>force.
        if force \<and> \<not> manualReconciliationLabelSet rr then updateManualReconciliationLabel rr
        else configureRequest L D r promise rr))"

definition ResourceRequestReconcile ::
  "lib \<Rightarrow> PipelineDefaults \<Rightarrow> DynamicResourceRequestController \<Rightarrow> string \<times> string \<Rightarrow> reconcile_result go" where
  "ResourceRequestReconcile L D r req =
     (if \<not> rc_Enabled r then Ret (no_requeue, None)
      else
        bnd (call_obj (Get KPromise [] (rc_PromiseIdentifier r)) un_promise) (\<lambda>res.
        case res of
          Inl e \<Rightarrow> Ret (no_requeue, Some e)
        | Inr promise \<Rightarrow>
            bnd (call_obj (Get (KUnstructured (rc_GVK r)) (fst req) (snd req)) un_unstructured) (\<lambda>res.
            case res of
              Inl e \<Rightarrow> Ret (if IsNotFound e then no_requeue else defaultRequeue, None)
            | Inr rr \<Rightarrow>
                if fmlookup (m_Labels (p_meta promise)) pauseReconciliationLabel = Some ''true'' then
                  bnd (setPausedReconciliationStatusConditions L rr) (\<lambda>e. Ret (no_requeue, e))
                else if lget (u_labels rr) PromiseNameLabel \<noteq> rc_PromiseIdentifier r then setPromiseLabels (m_Name (p_meta promise)) rr
                else reconcileRequest L D r promise rr)))"

end
