(* ===== verification/PromiseController.thy ===== *)
theory PromiseController
  imports ResourceRequestController
begin

text \<open>
  \<open>src/internal/controller/promise_controller.go\<close>: the controller of Promises. It evaluates the Promises that a Promise
  requires, installs its API as a custom resource definition, schedules its dependencies, runs its workflows, starts the controller
  of its resource requests, keeps its status, and takes all of it away again when the Promise is deleted.

  The Promise is written through a pointer: functions after which it is still used return it; a successful update replaces
  it by the object of the response. The map \<open>StartedDynamicControllers\<close> and the controllers in it are shared with the
  running controllers of resource requests, so reading and writing it are requests (\<open>LoadController\<close>,
  \<open>StoreController\<close>), as are starting a controller and restarting the manager. Logging and the registration with the
  manager are left out, but for the functions that map an event to requests.
\<close>

subsection \<open>Constants and the controller\<close>

definition PromiseStatusAvailable :: string where [consts_defs]: "PromiseStatusAvailable = ''Available''"
definition PromiseStatusUnavailable :: string where [consts_defs]: "PromiseStatusUnavailable = ''Unavailable''"
definition PromiseAvailableConditionType :: string where [consts_defs]: "PromiseAvailableConditionType = ''Available''"
definition PromiseAvailableConditionTrueReason :: string where
  [consts_defs]: "PromiseAvailableConditionTrueReason = ''PromiseAvailable''"
definition PromiseAvailableConditionFalseReason :: string where
  [consts_defs]: "PromiseAvailableConditionFalseReason = ''PromiseUnavailable''"
definition PromiseWorksSucceededCondition :: string where [consts_defs]: "PromiseWorksSucceededCondition = ''WorksSucceeded''"
definition PromiseReconciledCondition :: string where [consts_defs]: "PromiseReconciledCondition = ''Reconciled''"

definition resourceRequestCleanupFinalizer :: string where
  [consts_defs]: "resourceRequestCleanupFinalizer = ''kratix.io/resource-request-cleanup''"
definition dynamicControllerDependantResourcesCleanupFinalizer :: string where
  [consts_defs]: "dynamicControllerDependantResourcesCleanupFinalizer = ''kratix.io/dynamic-controller-dependant-resources-cleanup''"
definition crdCleanupFinalizer :: string where [consts_defs]: "crdCleanupFinalizer = ''kratix.io/api-crd-cleanup''"
definition dependenciesCleanupFinalizer :: string where
  [consts_defs]: "dependenciesCleanupFinalizer = ''kratix.io/dependencies-cleanup''"
definition lastUpdatedAtAnnotation :: string where [consts_defs]: "lastUpdatedAtAnnotation = ''kratix.io/last-updated-at''"
definition requirementStateInstalled :: string where [consts_defs]: "requirementStateInstalled = ''Requirement installed''"
definition requirementStateNotInstalled :: string where
  [consts_defs]: "requirementStateNotInstalled = ''Requirement not installed''"
definition requirementStateNotInstalledAtSpecifiedVersion :: string where
  [consts_defs]: "requirementStateNotInstalledAtSpecifiedVersion = ''Requirement not installed at the specified version''"
definition requirementStateNotAvailable :: string where
  [consts_defs]: "requirementStateNotAvailable = ''Requirement not available''"
definition requirementUnknownInstallationState :: string where
  [consts_defs]: "requirementUnknownInstallationState = ''Requirement state unknown''"

definition promiseFinalizers :: "string list" where
  "promiseFinalizers =
     [resourceRequestCleanupFinalizer, dynamicControllerDependantResourcesCleanupFinalizer, crdCleanupFinalizer,
      dependenciesCleanupFinalizer, removeAllWorkflowJobsFinalizer, runDeleteWorkflowsFinalizer]"

record PromiseReconciler =
  pc_NumberOfJobsToKeep :: int
  pc_ReconciliationInterval :: duration

definition p_finalizers :: "Promise \<Rightarrow> string list" where "p_finalizers p = m_Finalizers (p_meta p)"

definition p_labels :: "Promise \<Rightarrow> labels" where "p_labels p = m_Labels (p_meta p)"

definition set_p_labels :: "Promise \<Rightarrow> labels \<Rightarrow> Promise" where
  "set_p_labels p ls = p\<lparr>p_meta := (p_meta p)\<lparr>m_Labels := ls\<rparr>\<rparr>"

definition p_without_finalizer :: "lib \<Rightarrow> Promise \<Rightarrow> string \<Rightarrow> Promise" where
  "p_without_finalizer L p f = p\<lparr>p_meta := (p_meta p)\<lparr>m_Finalizers := L_RemoveFinalizer L (p_finalizers p) f\<rparr>\<rparr>"

definition on_status :: "(PromiseStatus \<Rightarrow> PromiseStatus) \<Rightarrow> Promise \<Rightarrow> Promise" where
  "on_status f p = p\<lparr>p_Status := f (p_Status p)\<rparr>"

definition p_conditions :: "Promise \<Rightarrow> condition list" where "p_conditions p = pst_Conditions (p_Status p)"

subsection \<open>Conditions\<close>

text \<open>A condition literal whose \<open>LastTransitionTime\<close> is the current time; \<open>%s\<close> of a list of strings.\<close>

definition condition_now :: "string \<Rightarrow> string \<Rightarrow> string \<Rightarrow> string \<Rightarrow> condition go" where
  "condition_now ty st ms rs = bnd call_now (\<lambda>t.
     Ret \<lparr>c_Type = ty, c_Status = st, c_Reason = rs, c_Message = ms, c_LastTransitionTime = t\<rparr>)"

definition fmt_strings :: "string list \<Rightarrow> string" where "fmt_strings xs = ''['' @ join xs '' '' @ '']''"

definition promiseAvailableStatusCondition :: "time \<Rightarrow> condition" where
  "promiseAvailableStatusCondition lastTransitionTime =
     \<lparr>c_Type = PromiseAvailableConditionType, c_Status = ConditionTrue, c_Reason = PromiseAvailableConditionTrueReason,
      c_Message = ''Ready to fulfil resource requests'', c_LastTransitionTime = lastTransitionTime\<rparr>"

definition promiseUnavailableStatusCondition :: "condition go" where
  "promiseUnavailableStatusCondition =
     condition_now PromiseAvailableConditionType ConditionFalse ''Cannot fulfil resource requests'' PromiseAvailableConditionFalseReason"

definition promiseAvailablePausedStatusCondition :: "condition go" where
  "promiseAvailablePausedStatusCondition =
     condition_now PromiseAvailableConditionType ConditionFalse ''Paused'' pausedReconciliationReason"

definition promiseWorksSucceededStatusCondition :: "condition go" where
  "promiseWorksSucceededStatusCondition =
     condition_now PromiseWorksSucceededCondition ConditionTrue ''All works associated with this promise are ready'' ''WorksSucceeded''"

definition promiseWorksSucceededUnknownCondition :: "string list \<Rightarrow> condition go" where
  "promiseWorksSucceededUnknownCondition pendingWorks =
     condition_now PromiseWorksSucceededCondition ConditionUnknown
       (''Some works associated with this promise are not ready: '' @ fmt_strings pendingWorks) ''WorksPending''"

definition promiseWorksSucceededFailedCondition :: "string list \<Rightarrow> condition go" where
  "promiseWorksSucceededFailedCondition failedWorks =
     condition_now PromiseWorksSucceededCondition ConditionFalse
       (''Some works associated with this promise are not ready: '' @ fmt_strings failedWorks) ''WorksFailing''"

definition promiseWorksSucceededMisplacedCondition :: "string list \<Rightarrow> condition go" where
  "promiseWorksSucceededMisplacedCondition misplacedWorks =
     condition_now PromiseWorksSucceededCondition ConditionFalse
       (''Some works associated with this promise are misplaced: '' @ fmt_strings misplacedWorks) ''WorksMisplaced''"

definition promiseReconciledFailingCondition :: "string \<Rightarrow> condition go" where
  "promiseReconciledFailingCondition reason = condition_now PromiseReconciledCondition ConditionFalse ''Failing'' reason"

definition promiseReconciledPendingCondition :: "string \<Rightarrow> condition go" where
  "promiseReconciledPendingCondition reason = condition_now PromiseReconciledCondition ConditionUnknown ''Pending'' reason"

definition promiseReconciledPausedCondition :: "condition go" where
  "promiseReconciledPausedCondition =
     condition_now PromiseReconciledCondition ConditionUnknown ''Paused'' pausedReconciliationReason"

definition promiseReconciledCondition :: "condition go" where
  "promiseReconciledCondition = condition_now PromiseReconciledCondition ConditionTrue ''Reconciled'' ''Reconciled''"

text \<open>The first condition of the type is replaced when its status differs; a missing one is appended.\<close>

fun updateCondition :: "condition list \<Rightarrow> condition \<Rightarrow> condition list \<times> bool" where
  "updateCondition [] latestCondition = ([latestCondition], True)"
| "updateCondition (c # cs) latestCondition =
     (if c_Type c = c_Type latestCondition
      then if c_Status c \<noteq> c_Status latestCondition then (latestCondition # cs, True) else (c # cs, False)
      else let (cs', changed) = updateCondition cs latestCondition in (c # cs', changed))"

definition updateConditionOnPromise :: "Promise \<Rightarrow> condition \<Rightarrow> Promise \<times> bool" where
  "updateConditionOnPromise promise latestCondition =
     (let (cs, changed) = updateCondition (p_conditions promise) latestCondition
      in (on_status (\<lambda>s. s\<lparr>pst_Conditions := cs\<rparr>) promise, changed))"

text \<open>Most callers ignore the result and only use the Promise.\<close>

definition set_condition :: "Promise \<Rightarrow> condition go \<Rightarrow> Promise go" where
  "set_condition promise mk = bnd mk (\<lambda>c. Ret (fst (updateConditionOnPromise promise c)))"

definition PromiseUpdate :: "Promise \<Rightarrow> (err option) go" where
  "PromiseUpdate promise = call_unit (Update (OPromise promise))"

definition PromiseStatusUpdate :: "Promise \<Rightarrow> (err option) go" where
  "PromiseStatusUpdate promise = call_unit (StatusUpdate (OPromise promise))"

definition updatePromiseStatus :: "Promise \<Rightarrow> (reconcile_result \<times> Promise) go" where
  "updatePromiseStatus promise =
     bnd (call_obj (StatusUpdate (OPromise promise)) un_promise) (\<lambda>res.
     Ret (case res of
            Inl e \<Rightarrow> (if IsConflict e then (fastRequeue, None) else (no_requeue, Some e), promise)
          | Inr promise \<Rightarrow> ((no_requeue, None), promise)))"

definition PromiseSetPausedReconciliationStatusConditions :: "Promise \<Rightarrow> (err option) go" where
  "PromiseSetPausedReconciliationStatusConditions promise =
     (let available = PromiseGetCondition promise PromiseStatusAvailable;
          pause = (case available of None \<Rightarrow> True | Some c \<Rightarrow> c_Status c = ''True'') in
      bnd (if pause
           then bnd (set_condition promise promiseAvailablePausedStatusCondition) (\<lambda>promise.
                Ret (on_status (\<lambda>s. s\<lparr>pst_Status := PromiseStatusUnavailable\<rparr>) promise))
           else Ret promise) (\<lambda>promise.
      let reconciled = PromiseGetCondition promise ''Reconciled'';
          mark = (case reconciled of None \<Rightarrow> True | Some c \<Rightarrow> c_Status c \<noteq> ''Unknown'' \<or> c_Message c \<noteq> ''Paused'') in
      bnd (if mark then set_condition promise promiseReconciledPausedCondition else Ret promise) (\<lambda>promise.
      if pause \<or> mark then PromiseStatusUpdate promise else Ret None)))"

subsection \<open>Required Promises\<close>

definition updateConditionNotFulfilled :: "condition \<Rightarrow> string \<Rightarrow> string \<Rightarrow> condition" where
  "updateConditionNotFulfilled condition reason message =
     condition\<lparr>c_Status := (if c_Status condition \<noteq> ConditionUnknown then ConditionFalse else c_Status condition),
       c_Reason := reason, c_Message := message\<rparr>"

definition generateRequirementState :: "string \<Rightarrow> string \<Rightarrow> string \<Rightarrow> string \<times> string" where
  "generateRequirementState fetchedVersion requiredVersion availability =
     (if fetchedVersion \<noteq> requiredVersion then (''RequirementsNotInstalled'', requirementStateNotInstalledAtSpecifiedVersion)
      else if availability \<noteq> PromiseStatusAvailable then (''RequirementsNotAvailable'', requirementStateNotAvailable)
      else ([], []))"

definition markRequiredPromiseAsRequired :: "string \<Rightarrow> Promise \<Rightarrow> Promise \<Rightarrow> unit go" where
  "markRequiredPromiseAsRequired version promise requiredPromise =
     (let requiredBy = \<lparr>rby_PromiseName = promise_name promise, rby_PromiseVersion = pst_Version (p_Status promise),
                         rby_RequiredVersion = version\<rparr>;
          existing = pst_RequiredBy (p_Status requiredPromise);
          isThis = (\<lambda>r. rby_PromiseName r = promise_name promise);
          replaced = map (\<lambda>r. if isThis r then requiredBy else r) existing;
          result = (if list_ex isThis existing then replaced else replaced @ [requiredBy])
      in bnd (PromiseStatusUpdate (on_status (\<lambda>s. s\<lparr>pst_RequiredBy := result\<rparr>) requiredPromise)) (\<lambda>_. Ret ()))"

definition evaluateRequirement :: "Promise \<Rightarrow> RequiredPromise \<Rightarrow> condition \<Rightarrow> (RequiredPromiseStatus \<times> condition) go" where
  "evaluateRequirement promise req condition =
     bnd (call_obj (Get KPromise [] (rp_Name req)) un_promise) (\<lambda>res.
     bnd (case res of
            Inl e \<Rightarrow>
              if IsNotFound e then
                bnd (call_event (OPromise promise) EventTypeNormal ''RequirementsNotInstalled''
                       (''Required Promise '' @ rp_Name req @ '' not installed or unknown state'')) (\<lambda>_.
                Ret (requirementStateNotInstalled,
                     updateConditionNotFulfilled condition ''RequirementsNotInstalled'' ''Requirements not fulfilled''))
              else
                bnd (call_event (OPromise promise) EventTypeNormal ''RequirementsNotInstalled''
                       (''Required Promise  not installed or unknown state'')) (\<lambda>_.
                Ret (requirementUnknownInstallationState,
                     updateConditionNotFulfilled condition ''RequirementsNotInstalled''
                       ''Unable to determine if requirements are fulfilled''))
          | Inr required \<Rightarrow>
              let status = p_Status required in
              bnd (if pst_Version status \<noteq> rp_Version req \<or> pst_Status status \<noteq> PromiseStatusAvailable then
                     (let (reason, state) = generateRequirementState (pst_Version status) (rp_Version req) (pst_Status status);
                          condition = updateConditionNotFulfilled condition reason ''Requirements not fulfilled'' in
                      bnd (call_event (OPromise promise) EventTypeNormal reason
                             (''Waiting for required Promise '' @ promise_name required @ '': '' @ state @ '' '')) (\<lambda>_.
                      Ret (state, condition)))
                   else Ret (requirementStateInstalled, condition)) (\<lambda>(state, condition).
              bnd (markRequiredPromiseAsRequired (rp_Version req) promise required) (\<lambda>_.
              Ret (state, condition)))) (\<lambda>(state, condition).
     Ret (\<lparr>rps_Name = rp_Name req, rps_Version = rp_Version req, rps_State = state\<rparr>, condition)))"

definition generateStatusAndMarkRequirements :: "Promise \<Rightarrow> (condition \<times> RequiredPromiseStatus list) go" where
  "generateStatusAndMarkRequirements promise =
     bnd (condition_now ''RequirementsFulfilled'' ConditionTrue ''Requirements fulfilled'' ''RequirementsInstalled'') (\<lambda>condition.
     after_loop
       (for_range (psp_RequiredPromises (p_Spec promise)) (condition, []) (\<lambda>req (condition, requirements).
          bnd (evaluateRequirement promise req condition) (\<lambda>(requirement, condition).
          Ret (Next (condition, requirements @ [requirement])))))
       (\<lambda>(condition, requirements).
        bnd (if c_Status condition = ConditionTrue \<and> length (psp_RequiredPromises (p_Spec promise)) > 0
             then call_event (OPromise promise) EventTypeNormal ''RequirementsFulfilled'' ''All required promises are available''
             else Ret ()) (\<lambda>_.
        Ret (condition, requirements))))"

definition updateRequirementsStatusOnPromise ::
  "Promise \<Rightarrow> RequiredPromiseStatus list \<Rightarrow> RequiredPromiseStatus list \<Rightarrow> bool \<times> Promise" where
  "updateRequirementsStatusOnPromise promise oldReqs newReqs =
     (if length oldReqs + length newReqs = 0 \<or> oldReqs = newReqs then (False, promise)
      else (True, on_status (\<lambda>s. s\<lparr>pst_RequiredPromises := newReqs\<rparr>) promise))"

definition hasPromiseRequirementsChanged :: "Promise \<Rightarrow> (bool \<times> Promise) go" where
  "hasPromiseRequirementsChanged promise =
     bnd (generateStatusAndMarkRequirements promise) (\<lambda>(latestCondition, latestRequirements).
     let (requirementsFieldChanged, promise) =
           updateRequirementsStatusOnPromise promise (pst_RequiredPromises (p_Status promise)) latestRequirements;
         (promise, conditionsFieldChanged) = updateConditionOnPromise promise latestCondition
     in Ret (conditionsFieldChanged \<or> requirementsFieldChanged, promise))"

text \<open>A change of the requirements is written, and the pass ends.\<close>

definition requirementsChanged :: "lib \<Rightarrow> string \<Rightarrow> Promise \<Rightarrow> reconcile_result go" where
  "requirementsChanged L originalStatus promise =
     bnd (if L_IsStatusConditionFalse L (p_conditions promise) ''RequirementsFulfilled''
          then set_condition promise (promiseReconciledPendingCondition ''RequirementsNotFulfilled'') else Ret promise) (\<lambda>promise.
     bnd (updatePromiseStatus promise) (\<lambda>((result, statusUpdateErr), promise).
     if statusUpdateErr \<noteq> None \<or> result \<noteq> no_requeue then Ret (result, statusUpdateErr)
     else
       bnd (if originalStatus = PromiseStatusAvailable
            then call_event (OPromise promise) ''Warning'' ''Unavailable'' ''Promise no longer available: Requirements have changed''
            else Ret ()) (\<lambda>_.
       Ret (no_requeue, None))))"

subsection \<open>The API of a Promise\<close>

text \<open>The status fields every version of the API gets. The schema of a version and its properties have to be there.\<close>

definition statusSchema :: schema_props where
  "statusSchema =
     with_Properties
       [(''message'', schema_of ''string''),
        (''observedGeneration'', with_Format ''int64'' (schema_of ''integer'')),
        (''workflows'', with_Format ''int64'' (schema_of ''integer'')),
        (''workflowsSucceeded'', with_Format ''int64'' (schema_of ''integer'')),
        (''workflowsFailed'', with_Format ''int64'' (schema_of ''integer'')),
        (''conditions'', with_Items
           (with_Properties
              [(''lastTransitionTime'', with_Format ''datetime'' (schema_of ''string'')),
               (''message'', schema_of ''string''),
               (''reason'', schema_of ''string''),
               (''status'', schema_of ''string''),
               (''type'', schema_of ''string'')] (schema_of ''object''))
           (schema_of ''array''))]
       (with_PreserveUnknownFields True (schema_of ''object''))"

definition defaultPrinterColumns :: "crd_column list" where
  "defaultPrinterColumns =
     [\<lparr>col_Name = ''message'', col_Type = ''string'', col_JSONPath = ''.status.message''\<rparr>,
      \<lparr>col_Name = ''status'', col_Type = ''string'',
       col_JSONPath = ''.status.conditions[?(@.type=='' @ [CHR 0x22] @ ''Reconciled'' @ [CHR 0x22] @ '')].message''\<rparr>]"

definition setStatusFields :: "crd_version \<Rightarrow> ('q, 'r, crd_version) prog" where
  "setStatusFields v =
     (let v = v\<lparr>cv_Subresources := Some \<lparr>csr_Status = True, csr_Scale = None\<rparr>\<rparr>;
          v = (if length (cv_AdditionalPrinterColumns v) = 0 then v\<lparr>cv_AdditionalPrinterColumns := defaultPrinterColumns\<rparr> else v) in
      bnd (deref (cv_Schema v)) (\<lambda>schema.
      case sp_Properties schema of
        None \<Rightarrow> Panic ''assignment to entry in nil map''
      | Some props \<Rightarrow> Ret (v\<lparr>cv_Schema := Some (with_Properties (AList.update ''status'' statusSchema props) schema)\<rparr>)))"

definition setStatusFieldsOnCRD :: "crd \<Rightarrow> ('q, 'r, crd) prog" where
  "setStatusFieldsOnCRD rrCRD =
     after_loop
       (for_range (crd_Versions rrCRD) [] (\<lambda>v vs. bnd (setStatusFields v) (\<lambda>v. Ret (Next (vs @ [v])))))
       (\<lambda>vs. Ret (rrCRD\<lparr>crd_Versions := vs\<rparr>))"

definition set_crd_labels :: "crd \<Rightarrow> labels \<Rightarrow> crd" where
  "set_crd_labels c ls = c\<lparr>crd_meta := (crd_meta c)\<lparr>m_Labels := ls\<rparr>\<rparr>"

definition generateCRDAndGVK :: "lib \<Rightarrow> Promise \<Rightarrow> (err + crd \<times> gvk) go" where
  "generateCRDAndGVK L promise =
     bnd (GetAPI L promise) (\<lambda>res.
     case res of
       Inl e \<Rightarrow> Ret (Inl e)
     | Inr (rrGVK, rrCRD) \<Rightarrow>
         bnd (setStatusFieldsOnCRD (set_crd_labels rrCRD (L_MergeLabels L (m_Labels (crd_meta rrCRD)) (GenerateSharedLabels promise)))) (\<lambda>rrCRD.
         Ret (Inr (rrCRD, rrGVK))))"

definition PromiseUpdateStatus :: "Promise \<Rightarrow> string \<Rightarrow> string \<Rightarrow> string \<Rightarrow> (bool \<times> err option) go" where
  "PromiseUpdateStatus promise kind grp version =
     (let apiVersion = to_lower (grp @ ''/'' @ version) in
      if pst_Kind (p_Status promise) = kind \<and> pst_APIVersion (p_Status promise) = apiVersion then Ret (False, None)
      else
        bnd (PromiseStatusUpdate (on_status (\<lambda>s. s\<lparr>pst_Kind := kind, pst_APIVersion := apiVersion\<rparr>) promise)) (\<lambda>e.
        Ret (True, e)))"

definition storageVersion :: "crd_version list \<Rightarrow> string" where
  "storageVersion vs = (case find cv_Storage vs of None \<Rightarrow> [] | Some v \<Rightarrow> cv_Name v)"

definition Established :: string where [consts_defs]: "Established = ''Established''"

text \<open>The CRD that is there takes the versions, the conversion and the labels of the wanted one.\<close>

definition updateExistingCRD :: "lib \<Rightarrow> crd \<Rightarrow> crd \<Rightarrow> crd" where
  "updateExistingCRD L existingCRD rrCRD =
     set_crd_labels
       (existingCRD\<lparr>crd_Versions := crd_Versions rrCRD, crd_Conversion := crd_Conversion rrCRD,
          crd_PreserveUnknownFields := crd_PreserveUnknownFields rrCRD\<rparr>)
       (L_MergeLabels L (m_Labels (crd_meta existingCRD)) (m_Labels (crd_meta rrCRD)))"

definition ensureCRDExists :: "lib \<Rightarrow> Promise \<Rightarrow> crd \<Rightarrow> (ctrl_result option \<times> err option) go" where
  "ensureCRDExists L promise rrCRD =
     (let name = m_Name (crd_meta rrCRD) in
      bnd (call_unit (Create (OCRD rrCRD))) (\<lambda>err.
      case err of
        None \<Rightarrow> Ret (Some fastRequeue, None)
      | Some e \<Rightarrow>
          if \<not> IsAlreadyExists e then Ret (None, Some (EWrap ''Error creating crd: '' e))
          else
            bnd (call_obj (Get KCRD [] name) un_crd) (\<lambda>res.
            case res of
              Inl e \<Rightarrow> Ret (None, Some e)
            | Inr existingCRD \<Rightarrow>
                bnd (call_unit (Update (OCRD (updateExistingCRD L existingCRD rrCRD)))) (\<lambda>err.
                if err \<noteq> None then Ret (None, err)
                else
                  bnd (PromiseUpdateStatus promise (crd_Kind rrCRD) (crd_Group rrCRD) (storageVersion (crd_Versions rrCRD))) (\<lambda>(statusUpdated, err).
                  if err \<noteq> None then Ret (None, err)
                  else if statusUpdated then Ret (Some fastRequeue, None)
                  else
                    bnd (call_obj (Get KCRD [] name) un_crd) (\<lambda>res.
                    case res of
                      Inl e \<Rightarrow> Ret (None, Some e)
                    | Inr updatedCRD \<Rightarrow>
                        if list_ex (\<lambda>cond. jc_Type cond = Established \<and> jc_Status cond = ConditionTrue) (crd_Conditions updatedCRD)
                        then Ret (None, None)
                        else Ret (Some fastRequeue, None)))))))"

subsection \<open>The controller of resource requests\<close>

definition set_role_labels :: "lib \<Rightarrow> labels \<Rightarrow> role \<Rightarrow> role" where
  "set_role_labels L ls r = r\<lparr>ro_meta := (ro_meta r)\<lparr>m_Labels := L_MergeLabels L (m_Labels (ro_meta r)) ls\<rparr>\<rparr>"

definition set_binding_labels :: "lib \<Rightarrow> labels \<Rightarrow> role_binding \<Rightarrow> role_binding" where
  "set_binding_labels L ls r = r\<lparr>rb_meta := (rb_meta r)\<lparr>m_Labels := L_MergeLabels L (m_Labels (rb_meta r)) ls\<rparr>\<rparr>"

definition createResourcesForDynamicControllerIfTheyDontExist :: "lib \<Rightarrow> Promise \<Rightarrow> crd \<Rightarrow> gvk \<Rightarrow> (err option) go" where
  "createResourcesForDynamicControllerIfTheyDontExist L promise rrCRD rrGVK =
     (let meta = empty_meta\<lparr>m_Name := GetControllerResourceName promise\<rparr> in
      bnd (CreateOrUpdate un_clusterrole OClusterRole \<lparr>ro_meta = meta, ro_Rules = []\<rparr> (\<lambda>cr.
             Inr (set_role_labels L (GenerateSharedLabels promise)
               (cr\<lparr>ro_Rules := GenerateFullAccessForRR (g_Group rrGVK) (crd_Plural rrCRD)\<rparr>)))) (\<lambda>res.
      case res of
        Inl e \<Rightarrow> Ret (Some (EWrap ''Error creating/updating cluster role: '' e))
      | Inr (_, cr) \<Rightarrow>
          bnd (CreateOrUpdate un_clusterrolebinding OClusterRoleBinding
                 \<lparr>rb_meta = meta, rb_RoleRef = \<lparr>rr_Kind = [], rr_APIGroup = [], rr_Name = []\<rparr>, rb_Subjects = []\<rparr> (\<lambda>crb.
                 Inr (set_binding_labels L (GenerateSharedLabels promise)
                   (crb\<lparr>rb_RoleRef := \<lparr>rr_Kind = ''ClusterRole'', rr_APIGroup = ''rbac.authorization.k8s.io'', rr_Name = m_Name (ro_meta cr)\<rparr>,
                      rb_Subjects := [\<lparr>sb_Kind = ''ServiceAccount'', sb_Namespace = SystemNamespace,
                        sb_Name = ''kratix-platform-controller-manager''\<rparr>]\<rparr>)))) (\<lambda>res.
          Ret (case res of
                 Inl e \<Rightarrow> Some (EWrap ''Error creating/updating cluster role binding: '' e)
               | Inr _ \<Rightarrow> None))))"

definition load_controller :: "string \<Rightarrow> (DynamicResourceRequestController option) go" where
  "load_controller name = Call (LoadController name) (\<lambda>r. Ret (case r of RController c \<Rightarrow> Some c | _ \<Rightarrow> None))"

definition store_controller :: "string \<Rightarrow> DynamicResourceRequestController \<Rightarrow> unit go" where
  "store_controller name c = Call (StoreController name c) (\<lambda>r. Ret ())"

definition dynamicControllerHasAlreadyStarted :: "lib \<Rightarrow> Promise \<Rightarrow> bool go" where
  "dynamicControllerHasAlreadyStarted L promise =
     bnd (GetDynamicControllerName L promise) (\<lambda>name.
     bnd (load_controller name) (\<lambda>c. Ret (c \<noteq> None)))"

text \<open>A controller that was started already only takes over the API and the selectors.\<close>

definition ensureDynamicControllerIsStarted ::
  "lib \<Rightarrow> PromiseReconciler \<Rightarrow> Promise \<Rightarrow> crd \<Rightarrow> gvk \<Rightarrow> bool \<Rightarrow> (err option) go" where
  "ensureDynamicControllerIsStarted L r promise rrCRD rrGVK canCreateResources =
     bnd (dynamicControllerHasAlreadyStarted L promise) (\<lambda>started.
     if started then
       bnd (GetDynamicControllerName L promise) (\<lambda>name.
       bnd (load_controller name) (\<lambda>c.
       bnd (deref c) (\<lambda>dynamicController.
       bnd (store_controller name (dynamicController\<lparr>rc_GVK := rrGVK, rc_CRD := rrCRD, rc_CanCreateResources := canCreateResources,
              rc_PromiseDestinationSelectors := psp_DestinationSelectors (p_Spec promise)\<rparr>)) (\<lambda>_.
       Ret None))))
     else
       bnd (slice_to (m_UID (p_meta promise)) 5) (\<lambda>uid.
       bnd (GetDynamicControllerName L promise) (\<lambda>name.
       let dynamicResourceRequestController =
             \<lparr>rc_GVK = rrGVK, rc_CRD = rrCRD, rc_PromiseIdentifier = promise_name promise,
              rc_PromiseDestinationSelectors = psp_DestinationSelectors (p_Spec promise), rc_UID = uid, rc_Enabled = True,
              rc_CanCreateResources = canCreateResources, rc_NumberOfJobsToKeep = pc_NumberOfJobsToKeep r,
              rc_ReconciliationInterval = pc_ReconciliationInterval r\<rparr> in
       bnd (store_controller name dynamicResourceRequestController) (\<lambda>_.
       call_unit (StartController dynamicResourceRequestController)))))"

text \<open>A Work's event is a request for the resource request it was made for; a Promise's one for the Promises that require it.\<close>

definition requestsForWork :: "Promise \<Rightarrow> Work \<Rightarrow> (string \<times> string) list" where
  "requestsForWork promise work =
     (case fmlookup (m_Labels (w_meta work)) ResourceNameLabel of
        None \<Rightarrow> []
      | Some rrName \<Rightarrow>
          if lget (m_Labels (w_meta work)) PromiseNameLabel \<noteq> promise_name promise then []
          else [(m_Namespace (w_meta work), rrName)])"

definition requestsForPromise :: "Promise \<Rightarrow> (string \<times> string) list" where
  "requestsForPromise promise = map (\<lambda>req. ([], rby_PromiseName req)) (pst_RequiredBy (p_Status promise))"

definition reconcileAllRRs :: "gvk \<Rightarrow> (err option) go" where
  "reconcileAllRRs rrGVK =
     bnd (call_list (ListObjs (KUnstructured (rrGVK\<lparr>g_Kind := g_Kind rrGVK @ ''List''\<rparr>)) [] None) un_unstructured) (\<lambda>res.
     case res of
       Inl e \<Rightarrow> Ret (Some e)
     | Inr rrs \<Rightarrow>
         after_loop
           (for_range rrs () (\<lambda>rr _.
              bnd (call_unit (Update (OUnstructured (set_u_labels rr (fmupd ManualReconciliationLabel ''true'' (u_labels rr)))))) (\<lambda>e.
              Ret (case e of None \<Rightarrow> Next () | Some e \<Rightarrow> Leave (Some e)))))
           (\<lambda>_. Ret None))"

definition shouldReconcileResources :: "Promise \<Rightarrow> bool" where
  "shouldReconcileResources promise \<longleftrightarrow>
     lget (p_labels promise) ReconcileResourcesLabel = ''true'' \<or>
     m_Generation (p_meta promise) \<noteq> pst_ObservedGeneration (p_Status promise) \<and> m_Generation (p_meta promise) \<noteq> 1"

definition removeReconcileResourcesLabel :: "Promise \<Rightarrow> (err option) go" where
  "removeReconcileResourcesLabel promise = PromiseUpdate (set_p_labels promise (fmdrop ReconcileResourcesLabel (p_labels promise)))"

definition reconcileResources :: "Promise \<Rightarrow> gvk \<Rightarrow> reconcile_result go" where
  "reconcileResources promise rrGVK =
     bnd (reconcileAllRRs rrGVK) (\<lambda>err.
     if err \<noteq> None then Ret (no_requeue, err)
     else
       bnd (call_event (OPromise promise) ''Normal'' ''ReconcilingResources'' ''Reconciling all resource requests'') (\<lambda>_.
       if fmlookup (p_labels promise) ReconcileResourcesLabel \<noteq> None
       then bnd (removeReconcileResourcesLabel promise) (\<lambda>e. Ret (no_requeue, e))
       else
         bnd (updatePromiseStatus (on_status (\<lambda>s. s\<lparr>pst_ObservedGeneration := m_Generation (p_meta promise)\<rparr>) promise)) (\<lambda>(result, _).
         Ret result)))"

subsection \<open>Dependencies and workflows\<close>

text \<open>\<open>src/api/v1alpha1/work_types.go\<close>: the Work with the dependencies of a Promise.\<close>

definition NewPromiseDependenciesWork :: "lib \<Rightarrow> Promise \<Rightarrow> string \<Rightarrow> err + Work" where
  "NewPromiseDependenciesWork L promise name =
     (case L_MarshalDependencies L (psp_Dependencies (p_Spec promise)) of
        Inl e \<Rightarrow> Inl e
      | Inr yamlBytes \<Rightarrow>
          (case CompressContent L yamlBytes of
             Inl e \<Rightarrow> Inl e
           | Inr workContent \<Rightarrow>
               Inr \<lparr>w_meta = empty_meta\<lparr>m_Name := name, m_Namespace := SystemNamespace, m_Labels := GenerateSharedLabels promise\<rparr>,
                 w_Spec = \<lparr>ws_WorkloadGroups =
                     [\<lparr>wg_Workloads = [\<lparr>Filepath = ''static/'' @ promise_name promise @ ''-dependencies.yaml'', Content = workContent\<rparr>],
                       wg_Directory = DefaultWorkloadGroupDirectory, wg_ID = ComputeHash L DefaultWorkloadGroupDirectory,
                       wg_DestinationSelectors =
                         (case SquashPromiseScheduling (psp_DestinationSelectors (p_Spec promise)) of
                            None \<Rightarrow> []
                          | Some ls \<Rightarrow> [\<lparr>wgs_MatchLabels = ls, wgs_Source = ''promise''\<rparr>])\<rparr>],
                   ws_PromiseName = promise_name promise, ws_ResourceName = []\<rparr>,
                 w_Status = \<lparr>wst_Conditions = [], wst_WorkPlacements = 0, wst_WorkPlacementsCreated = 0\<rparr>\<rparr>))"

definition applyWorkForStaticDependencies :: "lib \<Rightarrow> Promise \<Rightarrow> (err option) go" where
  "applyWorkForStaticDependencies L promise =
     bnd (GenerateObjectName (promise_name promise @ ''-static-deps'')) (\<lambda>name.
     case NewPromiseDependenciesWork L promise name of
       Inl e \<Rightarrow> Ret (Some e)
     | Inr work \<Rightarrow>
         let labels = L_MergeLabels L (m_Labels (w_meta work)) (GetWorkLabels (promise_name promise) [] [] WorkTypeStaticDependency);
             work = work\<lparr>w_meta := (w_meta work)\<lparr>m_Labels := labels\<rparr>\<rparr> in
         bnd (GetWork L SystemNamespace labels) (\<lambda>res.
         case res of
           Inl e \<Rightarrow> Ret (Some e)
         | Inr None \<Rightarrow> call_unit (Create (OWork work))
         | Inr (Some existingWork) \<Rightarrow>
             bnd call_now (\<lambda>now.
             let ann = fmupd lastUpdatedAtAnnotation (L_TimeString L now) (m_Annotations (w_meta existingWork)) in
             call_unit (Update (OWork (existingWork\<lparr>w_Spec := w_Spec work,
               w_meta := (w_meta existingWork)\<lparr>m_Annotations := ann\<rparr>\<rparr>))))))"

definition deleteWorkForStaticDependencies :: "lib \<Rightarrow> Promise \<Rightarrow> (err option) go" where
  "deleteWorkForStaticDependencies L promise =
     bnd (GetWork L SystemNamespace (GetWorkLabels (promise_name promise) [] [] WorkTypeStaticDependency)) (\<lambda>res.
     case res of
       Inl e \<Rightarrow> Ret (Some e)
     | Inr None \<Rightarrow> Ret None
     | Inr (Some existingWork) \<Rightarrow> call_unit (Delete (OWork existingWork)))"

definition getWorkflowsCount :: "Promise \<Rightarrow> int" where
  "getWorkflowsCount promise =
     (if \<not> HasPipeline promise WorkflowTypePromise WorkflowActionConfigure then 0
      else int (length (wt_Configure (psp_WorkflowsPromise (p_Spec promise)))))"

text \<open>An update that succeeds replaces the Promise by the stored one.\<close>

definition refreshing :: "req \<Rightarrow> Promise \<Rightarrow> (err option \<times> Promise) go" where
  "refreshing q promise =
     bnd (call_obj q un_promise) (\<lambda>res. Ret (case res of Inl e \<Rightarrow> (Some e, promise) | Inr promise \<Rightarrow> (None, promise)))"

definition PromiseUpdateWorkflowStatusCountersToZero :: "Promise \<Rightarrow> (err option \<times> Promise) go" where
  "PromiseUpdateWorkflowStatusCountersToZero p =
     (let s = p_Status p in
      if pst_Workflows s \<noteq> 0 \<or> pst_WorkflowsSucceeded s \<noteq> 0 \<or> pst_WorkflowsFailed s \<noteq> 0 then
        let p = on_status (\<lambda>s. s\<lparr>pst_Workflows := 0, pst_WorkflowsSucceeded := 0, pst_WorkflowsFailed := 0\<rparr>) p
        in refreshing (StatusUpdate (OPromise p)) p
      else Ret (None, p))"

text \<open>The workflow that configures the Promise.\<close>

definition runPromiseConfigure ::
  "lib \<Rightarrow> PipelineDefaults \<Rightarrow> PromiseReconciler \<Rightarrow> Promise \<Rightarrow> unstructured \<Rightarrow> ((ctrl_result option \<times> err option) \<times> Promise) go" where
  "runPromiseConfigure L D r promise unstructuredPromise =
     bnd (GeneratePromisePipelines L D promise WorkflowActionConfigure) (\<lambda>res.
     case res of
       Inl e \<Rightarrow> Ret ((None, Some e), promise)
     | Inr pipelineResources \<Rightarrow>
         bnd (ReconcileConfigure L (NewOpts unstructuredPromise pipelineResources ''promise'' (pc_NumberOfJobsToKeep r)))
           (\<lambda>((abort, err), _).
         Ret ((if err \<noteq> None then (None, err) else if abort then (Some no_requeue, None) else (None, None)), promise)))"

definition reconcilePromiseWorkflow ::
  "lib \<Rightarrow> PipelineDefaults \<Rightarrow> PromiseReconciler \<Rightarrow> Promise \<Rightarrow> unstructured \<Rightarrow> ((ctrl_result option \<times> err option) \<times> Promise) go" where
  "reconcilePromiseWorkflow L D r promise unstructuredPromise =
     (if DoesNotContainFinalizer L (p_finalizers promise) removeAllWorkflowJobsFinalizer then
        bnd (addFinalizers L (OPromise promise) [removeAllWorkflowJobsFinalizer]) (\<lambda>(result, err). Ret ((Some result, err), promise))
      else
        bnd (shouldForcePipelineRun (PromiseGetCondition promise ConfigureWorkflowCompletedCondition) (pc_ReconciliationInterval r)) (\<lambda>forcePipelineRun.
        if forcePipelineRun \<and> lget (p_labels promise) ManualReconciliationLabel \<noteq> ''true'' then
          (let promise = set_p_labels promise (fmupd ManualReconciliationLabel ''true'' (p_labels promise)) in
           bnd (PromiseUpdate promise) (\<lambda>e. Ret ((Some no_requeue, e), promise)))
        else
          (let reconciledCond = PromiseGetCondition promise ReconciledCondition;
               unpaused = (case reconciledCond of None \<Rightarrow> False
                           | Some c \<Rightarrow> c_Status c = ConditionUnknown \<and> c_Reason c = pausedReconciliationReason);
               promise = (if unpaused
                          then set_p_labels promise (fmupd ReconcileResourcesLabel ''true''
                                 (fmupd ManualReconciliationLabel ''true'' (p_labels promise)))
                          else promise) in
           runPromiseConfigure L D r promise unstructuredPromise)))"

definition reconcileDependenciesAndPromiseWorkflows ::
  "lib \<Rightarrow> PipelineDefaults \<Rightarrow> PromiseReconciler \<Rightarrow> Promise \<Rightarrow> unstructured \<Rightarrow> ((ctrl_result option \<times> err option) \<times> Promise) go" where
  "reconcileDependenciesAndPromiseWorkflows L D r promise unstructuredPromise =
     bnd (if length (psp_Dependencies (p_Spec promise)) > 0 then applyWorkForStaticDependencies L promise
          else deleteWorkForStaticDependencies L promise) (\<lambda>err.
     if err \<noteq> None then Ret ((None, err), promise)
     else
       (let pipelineCount = getWorkflowsCount promise in
        if pipelineCount = 0 then
          bnd (PromiseUpdateWorkflowStatusCountersToZero promise) (\<lambda>(e, promise). Ret ((None, e), promise))
        else if pst_Workflows (p_Status promise) \<noteq> pipelineCount then
          (let promise = on_status (\<lambda>s. s\<lparr>pst_Workflows := pipelineCount\<rparr>) promise in
           bnd (refreshing (Update (OPromise promise)) promise) (\<lambda>(e, promise). Ret ((None, e), promise)))
        else reconcilePromiseWorkflow L D r promise unstructuredPromise))"

subsection \<open>Status\<close>

definition PromiseGetWorksStatus :: "lib \<Rightarrow> Promise \<Rightarrow> (err + works_status) go" where
  "PromiseGetWorksStatus L promise =
     (case L_ParseSelector L (L_FormatLabels L (GetWorkLabels (promise_name promise) [] [] WorkTypePromise)) of
        Inl e \<Rightarrow> Ret (Inl e)
      | Inr selector \<Rightarrow>
          bnd (call_list (ListObjs KWork (m_Namespace (p_meta promise)) (Some selector)) un_work) (\<lambda>res.
          case res of
            Inl e \<Rightarrow> Ret (Inl e)
          | Inr works \<Rightarrow>
              after_loop (for_range works \<lparr>wk_failed = [], wk_misplaced = [], wk_pending = [], wk_ready = []\<rparr> (classify L))
                (\<lambda>s. Ret (Inr s))))"

definition PromiseUpdateWorksSucceededCondition :: "Promise \<Rightarrow> works_status \<Rightarrow> (bool \<times> Promise) go" where
  "PromiseUpdateWorksSucceededCondition promise s =
     (let cond = PromiseGetCondition promise WorksSucceededCondition in
      if length (wk_failed s) > 0 then
        (if (case cond of None \<Rightarrow> True | Some c \<Rightarrow> c_Status c = ConditionTrue) then
           bnd (set_condition promise (promiseWorksSucceededFailedCondition (wk_failed s))) (\<lambda>promise.
           bnd (call_event (OPromise promise) EventTypeWarning ''WorksFailing''
                  (''Some works associated with this promise has failed: ['' @ join (wk_failed s) '','' @ '']'')) (\<lambda>_.
           Ret (True, promise)))
         else Ret (False, promise))
      else if length (wk_pending s) > 0 then
        (if (case cond of None \<Rightarrow> True | Some c \<Rightarrow> c_Status c \<noteq> ConditionUnknown) then
           bnd (set_condition promise (promiseWorksSucceededUnknownCondition (wk_pending s))) (\<lambda>promise. Ret (True, promise))
         else Ret (False, promise))
      else if length (wk_misplaced s) > 0 then
        (if (case cond of None \<Rightarrow> True | Some c \<Rightarrow> c_Status c \<noteq> ConditionFalse \<or> c_Reason c \<noteq> ''WorksMisplaced'') then
           bnd (set_condition promise (promiseWorksSucceededMisplacedCondition (wk_misplaced s))) (\<lambda>promise.
           bnd (call_event (OPromise promise) EventTypeWarning ''WorksMisplaced''
                  (''Some works associated with this promise are misplaced: ['' @ join (wk_misplaced s) '','' @ '']'')) (\<lambda>_.
           Ret (True, promise)))
         else Ret (False, promise))
      else if (case cond of None \<Rightarrow> True | Some c \<Rightarrow> c_Status c \<noteq> ConditionTrue) then
        bnd (set_condition promise promiseWorksSucceededStatusCondition) (\<lambda>promise.
        bnd (call_event (OPromise promise) EventTypeNormal ''WorksSucceeded'' ''All works associated with this promise are ready'') (\<lambda>_.
        Ret (True, promise)))
      else Ret (False, promise))"

definition PromiseUpdateReconciledCondition :: "Promise \<Rightarrow> (bool \<times> Promise) go" where
  "PromiseUpdateReconciledCondition promise =
     (let worksSucceeded = PromiseGetCondition promise WorksSucceededCondition;
          workflowCompleted = PromiseGetCondition promise ConfigureWorkflowCompletedCondition;
          reconciled = PromiseGetCondition promise ReconciledCondition;
          marked = (\<lambda>mk. bnd (set_condition promise mk) (\<lambda>promise. Ret (True, promise))) in
      if has_status workflowCompleted ConditionFalse \<and> c_Reason (the workflowCompleted) = ''PipelinesInProgress'' then
        (if \<not> has_status reconciled ConditionUnknown then marked (promiseReconciledPendingCondition ''WorkflowPending'')
         else Ret (False, promise))
      else if has_status workflowCompleted ConditionFalse then
        (if \<not> has_status reconciled ConditionFalse \<or> c_Reason (the reconciled) \<noteq> ConfigureWorkflowCompletedFailedReason
         then marked (promiseReconciledFailingCondition ConfigureWorkflowCompletedFailedReason) else Ret (False, promise))
      else if has_status worksSucceeded ConditionUnknown then
        (if \<not> has_status reconciled ConditionUnknown then marked (promiseReconciledPendingCondition ''WorksPending'')
         else Ret (False, promise))
      else if has_status worksSucceeded ConditionFalse then
        (if \<not> has_status reconciled ConditionFalse then marked (promiseReconciledFailingCondition ''WorksFailing'')
         else Ret (False, promise))
      else if has_status workflowCompleted ConditionTrue \<and> has_status worksSucceeded ConditionTrue then
        (if \<not> has_status reconciled ConditionTrue then
           bnd (set_condition promise promiseReconciledCondition) (\<lambda>promise.
           bnd (call_event (OPromise promise) EventTypeNormal ''ReconcileSucceeded'' ''Successfully reconciled'') (\<lambda>_.
           Ret (True, promise)))
         else Ret (False, promise))
      else Ret (False, promise))"

definition PromiseGenerateWorkflowsCounterStatus :: "Promise \<Rightarrow> int \<Rightarrow> bool \<times> Promise" where
  "PromiseGenerateWorkflowsCounterStatus promise numOfPipelines =
     (let desiredWorkflowsSucceeded =
            (if has_status (PromiseGetCondition promise ConfigureWorkflowCompletedCondition) ConditionTrue then numOfPipelines else 0);
          s = p_Status promise in
      if pst_Workflows s \<noteq> numOfPipelines \<or> pst_WorkflowsSucceeded s \<noteq> desiredWorkflowsSucceeded then
        (True, on_status (\<lambda>s. s\<lparr>pst_Workflows := numOfPipelines, pst_WorkflowsSucceeded := desiredWorkflowsSucceeded,
           pst_WorkflowsFailed := 0\<rparr>) promise)
      else (False, promise))"

definition generateConditions :: "lib \<Rightarrow> Promise \<Rightarrow> int \<Rightarrow> (err + bool \<times> Promise) go" where
  "generateConditions L promise numberOfPipelines =
     bnd (PromiseGetWorksStatus L promise) (\<lambda>res.
     case res of
       Inl e \<Rightarrow> Ret (Inl e)
     | Inr s \<Rightarrow>
         bnd (PromiseUpdateWorksSucceededCondition promise s) (\<lambda>(worksSucceededUpdate, promise).
         bnd (PromiseUpdateReconciledCondition promise) (\<lambda>(reconciledUpdate, promise).
         let (workflowsCounterStatusUpdate, promise) = PromiseGenerateWorkflowsCounterStatus promise numberOfPipelines
         in Ret (Inr (worksSucceededUpdate \<or> reconciledUpdate \<or> workflowsCounterStatusUpdate, promise)))))"

definition setPromiseStatusToAvailable :: "Promise \<Rightarrow> reconcile_result go" where
  "setPromiseStatusToAvailable promise =
     bnd call_now (\<lambda>timestamp.
     let promise = on_status (\<lambda>s. s\<lparr>pst_Status := PromiseStatusAvailable, pst_LastAvailableTime := Some timestamp\<rparr>) promise;
         promise = fst (updateConditionOnPromise promise (promiseAvailableStatusCondition timestamp)) in
     bnd (call_event (OPromise promise) ''Normal'' ''Available'' ''Promise is available'') (\<lambda>_.
     bnd (updatePromiseStatus promise) (\<lambda>(result, _). Ret result)))"

definition PromiseNextReconciliation :: "PromiseReconciler \<Rightarrow> ctrl_result" where
  "PromiseNextReconciliation r = \<lparr>RequeueAfter = pc_ReconciliationInterval r\<rparr>"

subsection \<open>Deletion\<close>

definition promiseJobLabels :: "Promise \<Rightarrow> labels" where
  "promiseJobLabels promise = fmupd WorkflowTypeLabel WorkflowTypePromise (fmupd PromiseNameLabel (promise_name promise) fmempty)"

definition promiseJobLegacyLabels :: "Promise \<Rightarrow> labels" where
  "promiseJobLegacyLabels promise = fmupd WorkTypeLabel WorkTypePromise (fmupd PromiseNameLabel (promise_name promise) fmempty)"

definition deletePromiseWorkflowJobs :: "lib \<Rightarrow> Promise \<Rightarrow> string \<Rightarrow> (err option) go" where
  "deletePromiseWorkflowJobs L promise finalizer =
     bnd (deleteAllResourcesWithKindMatchingLabel L jobGVK (promiseJobLabels promise)) (\<lambda>(resourcesRemaining, e).
     if e \<noteq> None then Ret e
     else
       bnd (deleteAllResourcesWithKindMatchingLabel L jobGVK (promiseJobLegacyLabels promise)) (\<lambda>(legacyResourcesRemaining, e).
       if e \<noteq> None then Ret e
       else if \<not> resourcesRemaining \<or> \<not> legacyResourcesRemaining then PromiseUpdate (p_without_finalizer L promise finalizer)
       else Ret None))"

definition resourcesToDelete :: "(string \<times> gvk list) list" where
  "resourcesToDelete =
     [(''rbac.authorization.k8s.io/v1'',
       map (\<lambda>k. \<lparr>g_Group = ''rbac.authorization.k8s.io'', g_Version = ''v1'', g_Kind = k\<rparr>)
         [''ClusterRoleBinding'', ''ClusterRole'', ''RoleBinding'', ''Role'']),
      (''v1'', map (\<lambda>k. \<lparr>g_Group = [], g_Version = ''v1'', g_Kind = k\<rparr>) [''ServiceAccount'', ''ConfigMap''])]"

definition deleteDynamicControllerAndWorkflowResources :: "lib \<Rightarrow> Promise \<Rightarrow> (err option) go" where
  "deleteDynamicControllerAndWorkflowResources L promise =
     bnd (range_map resourcesToDelete) (\<lambda>toDelete.
     after_loop
       (for_range toDelete () (\<lambda>(_, gvks) _.
          for_range gvks () (\<lambda>gvk _.
            bnd (deleteAllResourcesWithKindMatchingLabel L gvk (GenerateSharedLabels promise)) (\<lambda>(resourcesRemaining, e).
            Ret (if e \<noteq> None then Leave e else if resourcesRemaining then Leave None else Next ())))))
       (\<lambda>_. PromiseUpdate (p_without_finalizer L promise dynamicControllerDependantResourcesCleanupFinalizer)))"

definition deleteResourceRequests :: "lib \<Rightarrow> PromiseReconciler \<Rightarrow> Promise \<Rightarrow> (err option) go" where
  "deleteResourceRequests L r promise =
     bnd (generateCRDAndGVK L promise) (\<lambda>res.
     case res of
       Inl e \<Rightarrow> Ret (Some e)
     | Inr (rrCRD, rrGVK) \<Rightarrow>
         bnd (deleteAllResourcesWithKindMatchingLabel L rrGVK fmempty) (\<lambda>(resourcesRemaining, e).
         if e \<noteq> None then Ret e
         else
           bnd (ensureDynamicControllerIsStarted L r promise rrCRD rrGVK False) (\<lambda>e.
           if e \<noteq> None then Ret e
           else if \<not> resourcesRemaining then PromiseUpdate (p_without_finalizer L promise resourceRequestCleanupFinalizer)
           else Ret None)))"

definition deleteCRDs :: "lib \<Rightarrow> Promise \<Rightarrow> (err option) go" where
  "deleteCRDs L promise =
     bnd (GetAPI L promise) (\<lambda>res.
     case res of
       Inl e \<Rightarrow> PromiseUpdate (p_without_finalizer L promise crdCleanupFinalizer)
     | Inr (_, rrCRD) \<Rightarrow>
         bnd (call_obj (Get KCRD [] (m_Name (crd_meta rrCRD))) un_crd) (\<lambda>res.
         if (case res of Inl e \<Rightarrow> IsNotFound e | Inr _ \<Rightarrow> False)
         then PromiseUpdate (p_without_finalizer L promise crdCleanupFinalizer)
         else call_unit (Delete (OCRD rrCRD))))"

definition workGVK :: gvk where "workGVK = \<lparr>g_Group = GroupVersionGroup, g_Version = ''v1alpha1'', g_Kind = ''Work''\<rparr>"

definition PromiseDeleteWork :: "lib \<Rightarrow> Promise \<Rightarrow> (err option) go" where
  "PromiseDeleteWork L promise =
     bnd (deleteAllResourcesWithKindMatchingLabel L workGVK (GenerateSharedLabels promise)) (\<lambda>(resourcesRemaining, e).
     if e \<noteq> None then Ret e
     else if \<not> resourcesRemaining then PromiseUpdate (p_without_finalizer L promise dependenciesCleanupFinalizer)
     else Ret None)"

definition runPromiseDeleteWorkflows :: "lib \<Rightarrow> PipelineDefaults \<Rightarrow> PromiseReconciler \<Rightarrow> Promise \<Rightarrow> reconcile_result go" where
  "runPromiseDeleteWorkflows L D r promise =
     (case L_ToUnstructured L promise of
        Inl e \<Rightarrow> Ret (no_requeue, Some e)
      | Inr unstructuredPromise \<Rightarrow>
          bnd (GeneratePromisePipelines L D promise WorkflowActionDelete) (\<lambda>res.
          case res of
            Inl e \<Rightarrow> Ret (no_requeue, Some e)
          | Inr pipelines \<Rightarrow>
              bnd (ReconcileDelete L (NewOpts unstructuredPromise pipelines ''promise'' (pc_NumberOfJobsToKeep r))) (\<lambda>((requeue, err), _).
              if err \<noteq> None then Ret (no_requeue, err)
              else if requeue then Ret (defaultRequeue, None)
              else bnd (PromiseUpdate (p_without_finalizer L promise runDeleteWorkflowsFinalizer)) (\<lambda>e. Ret (no_requeue, e)))))"

text \<open>The controller of the resource requests is disabled, since it cannot be stopped.\<close>

definition disableDynamicController :: "lib \<Rightarrow> Promise \<Rightarrow> unit go" where
  "disableDynamicController L promise =
     bnd (GetDynamicControllerName L promise) (\<lambda>name.
     bnd (load_controller name) (\<lambda>c.
     case c of
       None \<Rightarrow> Ret ()
     | Some d \<Rightarrow> Call RestartManager (\<lambda>_. store_controller name (d\<lparr>rc_Enabled := False\<rparr>))))"

definition or_requeue :: "ctrl_result \<Rightarrow> err option \<Rightarrow> reconcile_result" where
  "or_requeue res e = (case e of Some e \<Rightarrow> (no_requeue, Some e) | None \<Rightarrow> (res, None))"

definition deletePromise :: "lib \<Rightarrow> PipelineDefaults \<Rightarrow> PromiseReconciler \<Rightarrow> Promise \<Rightarrow> reconcile_result go" where
  "deletePromise L D r promise =
     (let has = L_ContainsFinalizer L (p_finalizers promise) in
      if FinalizersAreDeleted L (p_finalizers promise) promiseFinalizers then Ret (no_requeue, None)
      else if has runDeleteWorkflowsFinalizer then runPromiseDeleteWorkflows L D r promise
      else if has removeAllWorkflowJobsFinalizer then
        bnd (deletePromiseWorkflowJobs L promise removeAllWorkflowJobsFinalizer) (\<lambda>e. Ret (or_requeue fastRequeue e))
      else if has resourceRequestCleanupFinalizer then
        bnd (deleteResourceRequests L r promise) (\<lambda>e. Ret (or_requeue fastRequeue e))
      else
        bnd (disableDynamicController L promise) (\<lambda>_.
        if has dynamicControllerDependantResourcesCleanupFinalizer then
          bnd (deleteDynamicControllerAndWorkflowResources L promise) (\<lambda>e. Ret (if e \<noteq> None then defaultRequeue else fastRequeue, None))
        else if has dependenciesCleanupFinalizer then
          bnd (PromiseDeleteWork L promise) (\<lambda>e. Ret (or_requeue fastRequeue e))
        else if has crdCleanupFinalizer then
          bnd (deleteCRDs L promise) (\<lambda>e. Ret (or_requeue fastRequeue e))
        else Ret (fastRequeue, None)))"

subsection \<open>The controller's pass\<close>

definition ensurePromiseDeleteWorkflowFinalizer :: "lib \<Rightarrow> Promise \<Rightarrow> bool \<Rightarrow> (ctrl_result option \<times> err option) go" where
  "ensurePromiseDeleteWorkflowFinalizer L promise promiseDeletePipelineExists =
     (let containsDelete = L_ContainsFinalizer L (p_finalizers promise) runDeleteWorkflowsFinalizer;
          containsJobs = L_ContainsFinalizer L (p_finalizers promise) removeAllWorkflowJobsFinalizer in
      if promiseDeletePipelineExists \<and> (\<not> containsDelete \<or> \<not> containsJobs) then
        bnd (addFinalizers L (OPromise promise) [runDeleteWorkflowsFinalizer, removeAllWorkflowJobsFinalizer]) (\<lambda>(result, err).
        Ret (Some result, err))
      else if \<not> promiseDeletePipelineExists \<and> containsDelete then
        bnd (PromiseUpdate (p_without_finalizer L promise runDeleteWorkflowsFinalizer)) (\<lambda>e. Ret (Some no_requeue, e))
      else Ret (None, None))"

text \<open>What the end of a pass needs of its beginning: the status and the condition that were stored.\<close>

record pass_start =
  s_Status :: string
  s_Available :: "condition option"

text \<open>
  \<open>originalAvailableCondition\<close> points into the Promise's conditions, so it is read as it is now, not as it was.
\<close>

definition availableTime :: "pass_start \<Rightarrow> Promise \<Rightarrow> time \<Rightarrow> time" where
  "availableTime s promise now =
     (case s_Available s of
        None \<Rightarrow> now
      | Some c \<Rightarrow>
          (case PromiseGetCondition promise PromiseAvailableConditionType of
             None \<Rightarrow> c_LastTransitionTime c
           | Some c \<Rightarrow> c_LastTransitionTime c))"

definition finishPromise :: "lib \<Rightarrow> PromiseReconciler \<Rightarrow> pass_start \<Rightarrow> Promise \<Rightarrow> reconcile_result go" where
  "finishPromise L r start promise =
     (if s_Status start \<noteq> PromiseStatusAvailable then setPromiseStatusToAvailable promise
      else
        bnd call_now (\<lambda>now.
        let promise = on_status (\<lambda>s. s\<lparr>pst_Status := s_Status start\<rparr>) promise;
            promise = fst (updateConditionOnPromise promise (promiseAvailableStatusCondition (availableTime start promise now))) in
        bnd (generateConditions L promise (getWorkflowsCount promise)) (\<lambda>res.
        case res of
          Inl e \<Rightarrow> Ret (no_requeue, Some e)
        | Inr (statusUpdate, promise) \<Rightarrow>
            if statusUpdate then bnd (PromiseStatusUpdate promise) (\<lambda>e. Ret (no_requeue, e))
            else
              (let completedCond = PromiseGetCondition promise ConfigureWorkflowCompletedCondition in
               if \<not> HasPipeline promise WorkflowTypePromise WorkflowActionConfigure \<or> has_status completedCond ConditionTrue then
                 bnd (if completedCond \<noteq> None
                      then call_event (OPromise promise) EventTypeNormal ''ConfigureWorkflowCompleted'' ''All workflows completed''
                      else Ret ()) (\<lambda>_.
                 Ret (PromiseNextReconciliation r, None))
               else Ret (no_requeue, None)))))"

text \<open>
  The controller of the resource requests, once the workflows let the pass go on. (A Promise that gained an API through the
  response of an update within the pass is a nil dereference.)
\<close>

definition serveRequests ::
  "lib \<Rightarrow> PromiseReconciler \<Rightarrow> pass_start \<Rightarrow> (crd \<times> gvk) option \<Rightarrow> Promise \<Rightarrow> reconcile_result go" where
  "serveRequests L r start api promise =
     (if \<not> ContainsAPI promise then finishPromise L r start promise
      else
        bnd (deref api) (\<lambda>(rrCRD, rrGVK).
        let dynamicControllerCanCreateResources =
              list_all (\<lambda>req. rps_State req = requirementStateInstalled) (pst_RequiredPromises (p_Status promise)) in
        bnd (ensureDynamicControllerIsStarted L r promise rrCRD rrGVK dynamicControllerCanCreateResources) (\<lambda>err.
        if err \<noteq> None then Ret (no_requeue, err)
        else if DoesNotContainFinalizer L (p_finalizers promise) resourceRequestCleanupFinalizer
        then addFinalizers L (OPromise promise) [resourceRequestCleanupFinalizer]
        else if \<not> dynamicControllerCanCreateResources then Ret (slowRequeue, None)
        else if shouldReconcileResources promise then reconcileResources promise rrGVK
        else finishPromise L r start promise)))"

definition installPromiseWorkflows ::
  "lib \<Rightarrow> PipelineDefaults \<Rightarrow> PromiseReconciler \<Rightarrow> pass_start \<Rightarrow> (crd \<times> gvk) option \<Rightarrow> Promise \<Rightarrow> reconcile_result go" where
  "installPromiseWorkflows L D r start api promise =
     (if DoesNotContainFinalizer L (p_finalizers promise) dependenciesCleanupFinalizer
      then addFinalizers L (OPromise promise) [dependenciesCleanupFinalizer]
      else
        (case L_ToUnstructured L promise of
           Inl e \<Rightarrow> Ret (no_requeue, Some (EWrap ''Error converting Promise to Unstructured: '' e))
         | Inr usPromise \<Rightarrow>
             bnd (reconcileDependenciesAndPromiseWorkflows L D r promise usPromise) (\<lambda>((ctrlResult, err), promise).
             if err \<noteq> None then Ret (no_requeue, err)
             else
               (case ctrlResult of
                  Some result \<Rightarrow> Ret (result, None)
                | None \<Rightarrow> serveRequests L r start api promise))))"

definition installAPI ::
  "lib \<Rightarrow> PipelineDefaults \<Rightarrow> PromiseReconciler \<Rightarrow> pass_start \<Rightarrow> Promise \<Rightarrow> reconcile_result go" where
  "installAPI L D r start promise =
     (if \<not> ContainsAPI promise then installPromiseWorkflows L D r start None promise
      else
        bnd (generateCRDAndGVK L promise) (\<lambda>res.
        case res of
          Inl e \<Rightarrow> Ret (no_requeue, Some e)
        | Inr (rrCRD, rrGVK) \<Rightarrow>
            bnd (ensureCRDExists L promise rrCRD) (\<lambda>(requeue, err).
            if err \<noteq> None then Ret (no_requeue, err)
            else
              (case requeue of
                 Some result \<Rightarrow> Ret (result, None)
               | None \<Rightarrow>
                   if DoesNotContainFinalizer L (p_finalizers promise) crdCleanupFinalizer
                   then addFinalizers L (OPromise promise) [crdCleanupFinalizer]
                   else
                     bnd (createResourcesForDynamicControllerIfTheyDontExist L promise rrCRD rrGVK) (\<lambda>err.
                     if err \<noteq> None then Ret (no_requeue, err)
                     else if DoesNotContainFinalizer L (p_finalizers promise) dynamicControllerDependantResourcesCleanupFinalizer
                     then addFinalizers L (OPromise promise) [dynamicControllerDependantResourcesCleanupFinalizer]
                     else installPromiseWorkflows L D r start (Some (rrCRD, rrGVK)) promise)))))"

definition reconcilePromise :: "lib \<Rightarrow> PipelineDefaults \<Rightarrow> PromiseReconciler \<Rightarrow> Promise \<Rightarrow> reconcile_result go" where
  "reconcilePromise L D r promise =
     (let start = \<lparr>s_Status = pst_Status (p_Status promise), s_Available = PromiseGetCondition promise PromiseAvailableConditionType\<rparr> in
      bnd (set_condition (on_status (\<lambda>s. s\<lparr>pst_Status := PromiseStatusUnavailable\<rparr>) promise) promiseUnavailableStatusCondition) (\<lambda>promise.
      bnd (hasPromiseRequirementsChanged promise) (\<lambda>(changed, promise).
      if changed then requirementsChanged L (s_Status start) promise
      else
        bnd (ensurePromiseDeleteWorkflowFinalizer L promise (HasPipeline promise WorkflowTypePromise WorkflowActionDelete)) (\<lambda>(requeue, err).
        if err \<noteq> None then Ret (no_requeue, err)
        else (case requeue of Some result \<Rightarrow> Ret (result, None) | None \<Rightarrow> installAPI L D r start promise)))))"

definition pausedMessage :: string where
  "pausedMessage = CHR 0x27 # pauseReconciliationLabel @ CHR 0x27 # '' label set to '' @ CHR 0x27 # ''true'' @ CHR 0x27 #
     '' for promise; pausing reconciliation''"

definition PromiseReconcile :: "lib \<Rightarrow> PipelineDefaults \<Rightarrow> PromiseReconciler \<Rightarrow> string \<Rightarrow> reconcile_result go" where
  "PromiseReconcile L D r name =
     bnd (call_obj (Get KPromise [] name) un_promise) (\<lambda>res.
     case res of
       Inl e \<Rightarrow> Ret (if IsNotFound e then no_requeue else defaultRequeue, None)
     | Inr promise \<Rightarrow>
         if fmlookup (p_labels promise) pauseReconciliationLabel = Some ''true'' then
           bnd (call_event (OPromise promise) EventTypeWarning pausedReconciliationReason pausedMessage) (\<lambda>_.
           bnd (PromiseSetPausedReconciliationStatusConditions promise) (\<lambda>e. Ret (no_requeue, e)))
         else if m_DeletionTimestamp (p_meta promise) \<noteq> None then deletePromise L D r promise
         else
           (case fmlookup (p_labels promise) PromiseVersionLabel of
              Some value \<Rightarrow>
                if pst_Version (p_Status promise) \<noteq> value then
                  bnd (updatePromiseStatus (on_status (\<lambda>s. s\<lparr>pst_Version := value\<rparr>) promise)) (\<lambda>(result, _). Ret result)
                else reconcilePromise L D r promise
            | None \<Rightarrow> reconcilePromise L D r promise))"

end
