(* ===== verification/ResourceRequestSafety.thy ===== *)
theory ResourceRequestSafety
  imports ResourceRequestController WorkflowSafety
begin

text \<open>
  What the resource request controller (\<^verbatim>\<open>ResourceRequestController\<close>) keeps to: a request that is being deleted loses its
  finalizers one by one, each only when what it stands for is done, and loses them all when nothing stands in the way; the
  conditions in its status say what is so.
\<close>

subsection \<open>Finalizers of a request that is being deleted\<close>

text \<open>A request that leaves the finalizers of the parent object as they are, and every Promise alone.\<close>

definition keeps_finalizers :: "string list \<Rightarrow> req \<Rightarrow> bool" where
  "keeps_finalizers fs q \<longleftrightarrow> (\<forall>u. q = Update (OUnstructured u) \<longrightarrow> u_finalizers u = fs) \<and> (\<forall>p. q \<noteq> Update (OPromise p))"

lemma asks_locally_keeps: "asks_locally q \<Longrightarrow> keeps_finalizers fs q"
  by (cases q) (auto simp: keeps_finalizers_def)

lemma keeps_finalizers_start: "only (keeps_finalizers fs) (startPipeline k res u)"
proof -
  have "OUnstructured v \<notin> set (GetObjects res)" "OPromise p \<notin> set (GetObjects res)" for v p
    by (auto simp: GetObjects_def Let_def split: option.splits)
  then show ?thesis
    unfolding startPipeline_def applyResources_def applyResource_def updateResource_def
    by (auto intro!: only_intros simp: keeps_finalizers_def)
qed

lemma keeps_finalizers_ReconcileDelete:
  "only (keeps_finalizers (u_finalizers (o_parentObject opts))) (ReconcileDelete L opts)"
  unfolding ReconcileDelete_def getMostRecentDeletePipelineJob_def createDeletePipeline_def removeManualReconciliationLabel_def
    removeLabel_def suspendJob_def Let_def
  by (auto intro!: only_intros keeps_finalizers_start simp: keeps_finalizers_def u_finalizers_def split: sum.split option.split list.split prod.split)

text \<open>The youngest job that was listed has succeeded.\<close>

definition workflow_done :: "gtrace \<Rightarrow> bool" where
  "workflow_done t \<longleftrightarrow> (\<exists>q jobs job. (q, RList (map OJob jobs)) \<in> set t \<and> job \<in> set jobs \<and>
     (\<forall>k\<in>set jobs. created k \<le> created job) \<and> \<not> isRunning (Some job) \<and> 0 < j_Succeeded job)"

lemma ReconcileDelete_goes_on:
  assumes "sort_laws L" and "exec (ReconcileDelete L opts) t (Returned ((False, None), u))"
  shows "u = o_parentObject opts" and "o_Resources opts = [] \<or> workflow_done t"
proof -
  have "u = o_parentObject opts \<and> (o_Resources opts = [] \<or> workflow_done t)"
  proof (cases "o_Resources opts")
    case Nil
    then show ?thesis using assms(2) by (simp add: ReconcileDelete_def Let_def exec_Ret_iff)
  next
    case (Cons r rs)
    with ReconcileDelete_youngest [OF assms] show ?thesis unfolding workflow_done_def by force
  qed
  then show "u = o_parentObject opts" and "o_Resources opts = [] \<or> workflow_done t" by auto
qed

text \<open>
  What has to be so before a finalizer of a request may go, given the requests of the pass. For the finalizer of the jobs one empty
  listing of the two is enough, as in the code.
\<close>

definition works_gone :: "lib \<Rightarrow> DynamicResourceRequestController \<Rightarrow> unstructured \<Rightarrow> gtrace \<Rightarrow> bool" where
  "works_gone L r rr t \<longleftrightarrow> (\<exists>sel.
     L_ParseSelector L (L_FormatLabels L (fmupd ResourceNameLabel (m_Name (u_meta rr)) (fmupd PromiseNameLabel (rc_PromiseIdentifier r) fmempty))) = Inr sel \<and>
     (ListObjs KWork (m_Namespace (u_meta rr)) (Some sel), RList []) \<in> set t)"

definition jobs_query :: "lib \<Rightarrow> labels \<Rightarrow> req" where
  "jobs_query L ls = ListObjs (KUnstructured jobGVK) [] (Some (L_SelectorFromSet L ls))"

definition may_release ::
  "lib \<Rightarrow> DynamicResourceRequestController \<Rightarrow> Promise \<Rightarrow> unstructured \<Rightarrow> gtrace \<Rightarrow> string \<Rightarrow> bool" where
  "may_release L r promise rr t f \<longleftrightarrow>
     f = runDeleteWorkflowsFinalizer \<and> (workflow_pipelines promise WorkflowTypeResource WorkflowActionDelete = [] \<or> workflow_done t) \<or>
     f = workFinalizer \<and> runDeleteWorkflowsFinalizer \<notin> set (u_finalizers rr) \<and> works_gone L r rr t \<or>
     f = removeAllWorkflowJobsFinalizer \<and> runDeleteWorkflowsFinalizer \<notin> set (u_finalizers rr) \<and> workFinalizer \<notin> set (u_finalizers rr) \<and>
       ((jobs_query L (rrJobLabels r rr), RList []) \<in> set t \<or> (jobs_query L (rrJobLegacyLabels r rr), RList []) \<in> set t)"

definition release_ok :: "lib \<Rightarrow> DynamicResourceRequestController \<Rightarrow> Promise \<Rightarrow> unstructured \<Rightarrow> gtrace \<Rightarrow> req \<times> resp \<Rightarrow> bool" where
  "release_ok L r promise rr t x \<longleftrightarrow> (\<forall>u. fst x = Update (OUnstructured u) \<longrightarrow>
     u_finalizers u = u_finalizers rr \<or> (\<exists>f. u = without_finalizer L rr f \<and> may_release L r promise rr t f))"

lemma may_release_later: "may_release L r promise rr t f \<Longrightarrow> may_release L r promise rr (t' @ t) f"
  unfolding may_release_def workflow_done_def works_gone_def set_append by (elim disjE) blast+

interpretation rel: trace_guard "release_ok L r promise rr" for L r promise rr
  by unfold_locales (auto simp: release_ok_def intro: may_release_later)

lemma rel_keeps: "only (keeps_finalizers (u_finalizers rr)) p \<Longrightarrow> rel.keeps L r promise rr p"
  by (rule rel.keeps_free) (auto simp: release_ok_def keeps_finalizers_def elim!: only_mono)

lemma rel_guarded: "only (keeps_finalizers (u_finalizers rr)) p \<Longrightarrow> exec p t oc \<Longrightarrow> rel.guarded L r promise rr t"
  using rel_keeps [of rr p L r promise] unfolding rel.keeps_def by (auto dest: wpreD)

lemma rel_release:
  assumes "may_release L r promise rr t f" and "rel.guarded L r promise rr t"
  shows "wpre (call_unit (Update (OUnstructured (without_finalizer L rr f)))) (\<lambda>t' oc. rel.guarded L r promise rr (t @ t'))"
  using assms by (auto simp: wpre_simps release_ok_def intro!: rel.guarded_snoc)

lemma generated_delete:
  assumes "owner_laws L"
  shows "wpre (GenerateResourcePipelines L D promise WorkflowActionDelete rr) (\<lambda>t oc. rel.guarded L r promise rr t \<and>
    (oc = Returned (Inr []) \<longrightarrow> workflow_pipelines promise WorkflowTypeResource WorkflowActionDelete = []))"
proof (rule wpreI)
  fix t oc
  assume e: "exec (GenerateResourcePipelines L D promise WorkflowActionDelete rr) t oc"
  have "only (keeps_finalizers (u_finalizers rr)) (GenerateResourcePipelines L D promise WorkflowActionDelete rr)"
    unfolding GenerateResourcePipelines_def by (rule only_mono [OF local_generatePipelinesObjects asks_locally_keeps])
  from rel_guarded [OF this e] have "rel.guarded L r promise rr t" .
  moreover have "workflow_pipelines promise WorkflowTypeResource WorkflowActionDelete = []" if "oc = Returned (Inr [])"
    using e that unfolding GenerateResourcePipelines_def by (intro generated_none [OF assms]) auto
  ultimately show "rel.guarded L r promise rr t \<and>
    (oc = Returned (Inr []) \<longrightarrow> workflow_pipelines promise WorkflowTypeResource WorkflowActionDelete = [])" by blast
qed

lemma ReconcileDelete_releases:
  assumes "sort_laws L" and "rel.guarded L r promise rr t"
    and "prs = [] \<longrightarrow> workflow_pipelines promise WorkflowTypeResource WorkflowActionDelete = []"
  shows "wpre (ReconcileDelete L (NewOpts rr prs ty n)) (\<lambda>t' oc. rel.guarded L r promise rr (t @ t') \<and>
    (\<forall>u. oc = Returned ((False, None), u) \<longrightarrow> u = rr \<and> may_release L r promise rr (t @ t') runDeleteWorkflowsFinalizer))"
proof (rule wpreI)
  fix t' oc
  let ?opts = "NewOpts rr prs ty n"
  assume e: "exec (ReconcileDelete L ?opts) t' oc"
  have parent: "o_parentObject ?opts = rr" "o_Resources ?opts = prs" by (simp_all add: NewOpts_def)
  have "rel.guarded L r promise rr (t @ t')"
    using assms(2) rel_guarded [OF keeps_finalizers_ReconcileDelete [of ?opts L, unfolded parent] e] by (rule rel.guarded_append)
  moreover have "u = rr \<and> may_release L r promise rr (t @ t') runDeleteWorkflowsFinalizer" if "oc = Returned ((False, None), u)" for u
  proof -
    note goes = ReconcileDelete_goes_on [OF assms(1) e [unfolded that], unfolded parent]
    then have "may_release L r promise rr t' runDeleteWorkflowsFinalizer" using assms(3) unfolding may_release_def by blast
    then show ?thesis using goes(1) may_release_later by blast
  qed
  ultimately show "rel.guarded L r promise rr (t @ t') \<and>
    (\<forall>u. oc = Returned ((False, None), u) \<longrightarrow> u = rr \<and> may_release L r promise rr (t @ t') runDeleteWorkflowsFinalizer)" by blast
qed

lemma rel_quiet_after:
  assumes "only (keeps_finalizers (u_finalizers rr)) p" and "rel.guarded L r promise rr t"
  shows "wpre p (\<lambda>t' oc. rel.guarded L r promise rr (t @ t'))"
  by (rule wpreI) (use assms in \<open>blast intro: rel.guarded_append rel_guarded\<close>)

lemma rel_keeps_runDelete:
  assumes laws: "sort_laws L" "owner_laws L"
  shows "rel.keeps L r promise rr (runDeleteWorkflows L D r promise rr)"
  unfolding rel.keeps_def runDeleteWorkflows_def
proof (rule wpre_seq [OF generated_delete [OF laws(2), where r = r]], goal_cases)
  case (1 t res)
  show ?case
  proof (cases res)
    case (Inl e)
    with 1 show ?thesis by (simp add: wpre_simps)
  next
    case (Inr prs)
    have none: "prs = [] \<longrightarrow> workflow_pipelines promise WorkflowTypeResource WorkflowActionDelete = []" using 1 Inr by simp
    show ?thesis
      unfolding Inr sum.case
    proof (rule wpre_seq [OF ReconcileDelete_releases [OF laws(1) conjunct1 [OF 1] none]], goal_cases)
      case (1 t' x)
      obtain requeue err u where x: "x = ((requeue, err), u)" by (metis surj_pair)
      show ?case
      proof (cases err)
        case None
        with 1 x show ?thesis
          by (cases requeue) (auto simp: wpre_bnd wpre_basic intro!: wpre_mono [OF rel_release [of L r promise rr "t @ t'", simplified]]
              split: outcome.splits)
      next
        case (Some e)
        have "wpre (if e = ErrDeletePipelineFailed then
               bnd (call_event (OUnstructured u) ''Warning'' ''Failed Pipeline'' ''The Delete Pipeline has failed'') (\<lambda>_.
               bnd (MarkDeleteWorkflowAsFailed L u) (\<lambda>rr.
               bnd (call_unit (StatusUpdate (OUnstructured rr))) (\<lambda>_. Ret (no_requeue, Some e))))
             else Ret (no_requeue, Some e)) (\<lambda>t'' oc. rel.guarded L r promise rr ((t @ t') @ t''))"
          using 1 by (intro rel_quiet_after) (auto intro!: only_intros simp: mark_defs keeps_finalizers_def)
        with x Some show ?thesis by simp
      qed
    qed (use 1 in simp_all)
  qed
qed simp

lemma those_eq_Nil: "those xs = Some [] \<longleftrightarrow> xs = []"
  by (cases xs) (auto split: option.splits)

lemma as_list_Nil: "as_list sel r = Inr [] \<Longrightarrow> r = RList []"
  by (cases r) (auto simp: as_list_def those_eq_Nil split: option.splits)

lemma rel_keeps_deleteWork:
  assumes "runDeleteWorkflowsFinalizer \<notin> set (u_finalizers rr)"
  shows "rel.keeps L r promise rr (RRDeleteWork L r rr workFinalizer)"
proof -
  have works: "wpre (GetAllWorksForResource L (m_Namespace (u_meta rr)) (rc_PromiseIdentifier r) (m_Name (u_meta rr)))
      (\<lambda>t oc. rel.guarded L r promise rr t \<and> (oc = Returned (Inr []) \<longrightarrow> may_release L r promise rr t workFinalizer))"
    unfolding GetAllWorksForResource_def getExistingWorks_def
    by (auto simp: wpre_simps may_release_def works_gone_def assms release_ok_def rel.guarded_Nil dest!: as_list_Nil
        intro!: rel.guarded_free split: sum.split)
  show ?thesis
    unfolding rel.keeps_def RRDeleteWork_def
  proof (rule wpre_seq [OF works], goal_cases)
    case (1 t res)
    show ?case
    proof (cases "res = Inr []")
      case True
      with 1 show ?thesis by (simp add: rel_release)
    next
      case False
      with 1 show ?thesis
        by (cases res) (auto intro!: rel_quiet_after only_intros simp: wpre_basic keeps_finalizers_def)
    qed
  qed simp
qed

lemma rel_keeps_deleteWorkflows:
  assumes "runDeleteWorkflowsFinalizer \<notin> set (u_finalizers rr)" and "workFinalizer \<notin> set (u_finalizers rr)"
  shows "rel.keeps L r promise rr (RRDeleteWorkflows L r rr removeAllWorkflowJobsFinalizer)"
proof -
  have gone: "wpre (deleteAllResourcesWithKindMatchingLabel L jobGVK ls) (\<lambda>t oc. rel.guarded L r promise rr t \<and>
      (\<forall>e. oc = Returned (False, e) \<longrightarrow> (jobs_query L ls, RList []) \<in> set t))" for ls
    unfolding wpre_conj
  proof
    show "wpre (deleteAllResourcesWithKindMatchingLabel L jobGVK ls) (\<lambda>t oc. rel.guarded L r promise rr t)"
      by (rule rel_quiet_after [where t = "[]", OF _ rel.guarded_Nil, simplified]) (auto intro!: only_intros only_deleteAllResources simp: keeps_finalizers_def)
    show "wpre (deleteAllResourcesWithKindMatchingLabel L jobGVK ls)
        (\<lambda>t oc. \<forall>e. oc = Returned (False, e) \<longrightarrow> (jobs_query L ls, RList []) \<in> set t)"
      by (rule wpre_mono [OF deleteAllResources_result]) (auto simp: jobs_query_def)
  qed
  show ?thesis
    unfolding rel.keeps_def RRDeleteWorkflows_def
  proof (rule wpre_seq [OF gone], goal_cases)
    case old: (1 t x)
    obtain rem e where x: "x = (rem, e)" by force
    show ?case
    proof (cases "e = None")
      case True
      show ?thesis
        unfolding x prod.case True if_False simp_thms
      proof (rule wpre_seq [OF gone], goal_cases)
        case (1 t' y)
        obtain rem' e' where y: "y = (rem', e')" by force
        have G: "rel.guarded L r promise rr (t @ t')" using 1 old by (simp add: rel.guarded_append)
        show ?case
        proof (cases "e' = None \<and> (\<not> rem \<or> \<not> rem')")
          case True
          then have "may_release L r promise rr (t @ t') removeAllWorkflowJobsFinalizer"
            using 1 old x y assms unfolding may_release_def by auto
          with True y G show ?thesis using rel_release [of L r promise rr "t @ t'"] by simp
        next
          case False
          with y G show ?thesis by (auto simp: wpre_basic)
        qed
      qed (use old in \<open>simp add: rel.guarded_append\<close>)
    qed (use old x in \<open>simp add: wpre_simps\<close>)
  qed simp
qed

lemma rel_keeps_deleteResources:
  assumes "finalizer_laws L" and "sort_laws L" and "owner_laws L"
  shows "rel.keeps L r promise rr (RRDeleteResources L D r promise rr)"
  using assms(1) unfolding RRDeleteResources_def Let_def finalizer_laws_def
  by (auto intro!: rel.keeps_bnd rel.keeps_Ret rel_keeps_runDelete assms(2,3) rel_keeps_deleteWork rel_keeps_deleteWorkflows)

lemma rel_keeps_labels:
  "rel.keeps L r promise rr (setPausedReconciliationStatusConditions L rr)" "rel.keeps L r promise rr (setPromiseLabels n rr)"
  unfolding setPausedReconciliationStatusConditions_def setPromiseLabels_def mark_defs set_u_labels_def Let_def
  by (auto intro!: rel_keeps only_intros simp: keeps_finalizers_def u_finalizers_def)

text \<open>
  C15. A resource request that is being deleted loses a finalizer in a pass only after a check of that pass, and in a fixed
  order. First the delete workflow's: there is none, or the youngest of the jobs that were listed has succeeded. Then the
  Works': a listing of the request's Works came back empty. Then the jobs': of the two listings of the request's jobs, by the
  labels and by the legacy labels, one came back empty. One is enough for the code, and the other may still hold jobs, so this
  last finalizer does not say that the jobs are gone (\<open>jobs_finalizer_dropped_early\<close>). Nothing else of the request changes with
  a finalizer.
\<close>

theorem ResourceRequest_finalizers_in_order:
  assumes "finalizer_laws L" and "sort_laws L" and "owner_laws L"
    and "exec (ResourceRequestReconcile L D r req)
           ((q1, RObj (OPromise promise)) # (q2, RObj (OUnstructured rr)) # t1 @ (Update (OUnstructured u), x) # t2) oc"
    and "m_DeletionTimestamp (u_meta rr) \<noteq> None" and "f \<in> set (u_finalizers rr)" and "f \<notin> set (u_finalizers u)"
  shows "u = without_finalizer L rr f \<and> may_release L r promise rr t1 f"
proof -
  let ?p = "if fmlookup (m_Labels (p_meta promise)) pauseReconciliationLabel = Some ''true'' then
              bnd (setPausedReconciliationStatusConditions L rr) (\<lambda>e. Ret (no_requeue, e))
            else if lget (u_labels rr) PromiseNameLabel \<noteq> rc_PromiseIdentifier r then setPromiseLabels (m_Name (p_meta promise)) rr
            else reconcileRequest L D r promise rr"
  have "exec ?p (t1 @ (Update (OUnstructured u), x) # t2) oc"
    using assms(4) unfolding ResourceRequestReconcile_def
    by (auto simp: exec_bnd_calls exec_Call_iff exec_Ret_iff as_obj_def split: if_splits)
  moreover have "rel.keeps L r promise rr ?p"
    using assms(5) unfolding reconcileRequest_def
    by (auto intro!: rel.keeps_bnd rel.keeps_Ret rel_keeps_labels rel_keeps_deleteResources assms(1-3))
  ultimately have "release_ok L r promise rr t1 (Update (OUnstructured u), x)" by (blast intro: rel.keepsD)
  then obtain g where g: "u = without_finalizer L rr g" "may_release L r promise rr t1 g"
    using assms(6,7) by (auto simp: release_ok_def)
  then have "f = g" using assms(1,6,7) by (auto simp: without_finalizer_def u_finalizers_def finalizer_laws_def)
  with g show ?thesis by blast
qed

subsection \<open>Deletion completes\<close>



























subsection \<open>The status of a request\<close>

text \<open>A Work that is not (yet) where it should be, by the message of its readiness.\<close>

definition troubled :: "lib \<Rightarrow> Work \<Rightarrow> bool" where
  "troubled L w \<longleftrightarrow> (\<exists>c. L_FindStatusCondition L (wst_Conditions (w_Status w)) ''Ready'' = Some c \<and>
     c_Message c \<in> {''Failing'', ''Misplaced'', ''Pending''})"

definition known_status :: "lib \<Rightarrow> unstructured \<Rightarrow> string \<Rightarrow> bool" where
  "known_status L u ty \<longleftrightarrow> (\<forall>c. GetCondition L u ty = Some c \<longrightarrow> c_Status c \<in> {ConditionTrue, ConditionFalse, ConditionUnknown})"

lemma classify_loop:
  "wpre (for_range works \<lparr>wk_failed = [], wk_misplaced = [], wk_pending = [], wk_ready = []\<rparr> (classify L))
     (\<lambda>t oc. t = [] \<and> (\<forall>l. oc = Returned l \<longrightarrow> (\<exists>s. l = Next s \<and>
        (wk_failed s = [] \<and> wk_misplaced s = [] \<and> wk_pending s = [] \<longleftrightarrow> (\<forall>w\<in>set works. \<not> troubled L w)))))"
  by (rule wpre_for_range [where I = "\<lambda>pre t s. t = [] \<and>
      (wk_failed s = [] \<and> wk_misplaced s = [] \<and> wk_pending s = [] \<longleftrightarrow> (\<forall>w\<in>set pre. \<not> troubled L w))"])
    (auto simp: classify_def wpre_simps troubled_def Let_def split: option.splits)

lemma has_status_mark:
  assumes "uconditions_laws L" and "c_Type c = ty"
  shows "has_status (GetCondition L (SetCondition L u c) ty) st \<longleftrightarrow> c_Status c = st"
    and "GetCondition L (SetCondition L u c) ty \<noteq> None"
    and "known_status L (SetCondition L u c) ty \<longleftrightarrow> c_Status c \<in> {ConditionTrue, ConditionFalse, ConditionUnknown}"
  using GetCondition_SetCondition(1) [OF assms(1), of u c] assms(2)
  by (auto simp: has_status_def known_status_def same_condition_def)

text \<open>What looking at the Works does to the request: \<open>ok\<close> says whether they are all where they should be.\<close>

definition works_reported :: "lib \<Rightarrow> unstructured \<Rightarrow> bool \<Rightarrow> bool \<Rightarrow> unstructured \<Rightarrow> bool" where
  "works_reported L rr ok upd rr' \<longleftrightarrow> (\<not> upd \<longrightarrow> rr' = rr) \<and>
     (has_status (GetCondition L rr' WorksSucceededCondition) ConditionTrue \<longleftrightarrow> ok) \<and>
     known_status L rr' WorksSucceededCondition \<and> GetCondition L rr' WorksSucceededCondition \<noteq> None \<and>
     (\<forall>ty. ty \<noteq> WorksSucceededCondition \<longrightarrow> GetCondition L rr' ty = GetCondition L rr ty)"

lemma works_reported_mark:
  assumes "uconditions_laws L" and "c_Type c = WorksSucceededCondition" and "c_Status c \<in> {ConditionTrue, ConditionFalse, ConditionUnknown}"
    and "c_Status c = ConditionTrue \<longleftrightarrow> ok"
  shows "works_reported L rr ok True (SetCondition L rr c)"
  using assms by (simp add: works_reported_def has_status_mark [OF assms(1,2)] GetCondition_SetCondition(2))

lemma works_reported_keep:
  assumes "known_status L rr WorksSucceededCondition" and "GetCondition L rr WorksSucceededCondition = Some c" and "c_Status c = ConditionTrue \<longleftrightarrow> ok"
  shows "works_reported L rr ok False rr"
  using assms by (simp add: works_reported_def has_status_def)

lemma updateWorksSucceededCondition_result:
  assumes "uconditions_laws L" and "known_status L rr WorksSucceededCondition"
  shows "wpre (updateWorksSucceededCondition L rr s) (\<lambda>t oc.
     case oc of Returned (upd, rr') \<Rightarrow> works_reported L rr (wk_failed s = [] \<and> wk_misplaced s = [] \<and> wk_pending s = []) upd rr'
     | Panicked m \<Rightarrow> False)"
proof -
  have st: "ConditionTrue \<noteq> ConditionFalse" "ConditionTrue \<noteq> ConditionUnknown" "ConditionFalse \<noteq> ConditionUnknown" by (simp_all add: consts_defs)
  have mark: "works_reported L rr ok True (SetCondition L rr \<lparr>c_Type = WorksSucceededCondition, c_Status = st, c_Reason = a, c_Message = b, c_LastTransitionTime = d\<rparr>)"
    if "st \<in> {ConditionTrue, ConditionFalse, ConditionUnknown}" "st = ConditionTrue \<longleftrightarrow> ok" for ok st a b d
    using that by (intro works_reported_mark [OF assms(1)]) auto
  note keep = works_reported_keep [OF assms(2)]
  show ?thesis
  proof (cases "GetCondition L rr WorksSucceededCondition")
    case None
    then show ?thesis unfolding updateWorksSucceededCondition_def mark_defs Let_def using st by (simp add: wpre_simps mark)
  next
    case (Some c)
    then show ?thesis unfolding updateWorksSucceededCondition_def mark_defs Let_def using st st [symmetric]
      by (simp add: wpre_simps mark keep)
  qed
qed

text \<open>
  Once the workflow has completed or failed, the request is reported as reconciled exactly when the workflow completed and the
  Works succeeded.
\<close>

definition reconciled_reported :: "lib \<Rightarrow> unstructured \<Rightarrow> bool \<Rightarrow> unstructured \<Rightarrow> bool" where
  "reconciled_reported L rr upd rr' \<longleftrightarrow> (\<not> upd \<longrightarrow> rr' = rr) \<and>
     (has_status (GetCondition L rr ConfigureWorkflowCompletedCondition) ConditionTrue \<or>
      has_status (GetCondition L rr ConfigureWorkflowCompletedCondition) ConditionFalse \<longrightarrow>
        (has_status (GetCondition L rr' ReconciledCondition) ConditionTrue \<longleftrightarrow>
         has_status (GetCondition L rr ConfigureWorkflowCompletedCondition) ConditionTrue \<and>
         has_status (GetCondition L rr WorksSucceededCondition) ConditionTrue)) \<and>
     (\<forall>ty. ty \<noteq> ReconciledCondition \<longrightarrow> GetCondition L rr' ty = GetCondition L rr ty)"

lemma has_status_unique: "has_status c a \<Longrightarrow> has_status c b \<Longrightarrow> a = b"
  by (auto simp: has_status_def split: option.splits)

lemma updateReconciledCondition_result:
  assumes "uconditions_laws L" and "known_status L rr WorksSucceededCondition" and "GetCondition L rr WorksSucceededCondition \<noteq> None"
  shows "wpre (updateReconciledCondition L rr) (\<lambda>t oc. case oc of Returned (upd, rr') \<Rightarrow> reconciled_reported L rr upd rr' | Panicked m \<Rightarrow> False)"
proof -
  let ?wc = "GetCondition L rr ConfigureWorkflowCompletedCondition"
  let ?ws = "GetCondition L rr WorksSucceededCondition"
  let ?rec = "GetCondition L rr ReconciledCondition"
  have st: "ConditionTrue \<noteq> ConditionFalse" "ConditionTrue \<noteq> ConditionUnknown" "ConditionFalse \<noteq> ConditionUnknown" by (simp_all add: consts_defs)
  have ws: "has_status ?ws ConditionTrue \<or> has_status ?ws ConditionFalse \<or> has_status ?ws ConditionUnknown"
    using assms(2,3) by (auto simp: known_status_def has_status_def)
  have mark: "reconciled_reported L rr True (SetCondition L rr \<lparr>c_Type = ReconciledCondition, c_Status = st, c_Reason = a, c_Message = b, c_LastTransitionTime = d\<rparr>)"
    if "st = ConditionTrue \<longleftrightarrow> has_status ?wc ConditionTrue \<and> has_status ?ws ConditionTrue" for st a b d
    using that by (simp add: reconciled_reported_def has_status_mark [OF assms(1)] GetCondition_SetCondition(2) [OF assms(1)])
  have keep: "reconciled_reported L rr False rr"
    if "has_status ?wc ConditionTrue \<or> has_status ?wc ConditionFalse \<longrightarrow>
      (has_status ?rec ConditionTrue \<longleftrightarrow> has_status ?wc ConditionTrue \<and> has_status ?ws ConditionTrue)"
    using that by (simp add: reconciled_reported_def)
  consider (failed) "has_status ?wc ConditionFalse" | (pending) "\<not> has_status ?wc ConditionFalse" "has_status ?ws ConditionUnknown"
    | (failing) "\<not> has_status ?wc ConditionFalse" "has_status ?ws ConditionFalse" | (fine) "\<not> has_status ?wc ConditionFalse" "has_status ?ws ConditionTrue"
    using ws by blast
  then show ?thesis
  proof cases
    case failed
    then show ?thesis unfolding updateReconciledCondition_def mark_defs Let_def using st st [symmetric] by (auto simp: wpre_simps intro!: mark keep dest: has_status_unique)
  next
    case pending
    then show ?thesis unfolding updateReconciledCondition_def mark_defs Let_def using st st [symmetric] by (auto simp: wpre_simps intro!: mark keep dest: has_status_unique)
  next
    case failing
    then show ?thesis unfolding updateReconciledCondition_def mark_defs Let_def using st st [symmetric] by (auto simp: wpre_simps intro!: mark keep dest: has_status_unique)
  next
    case fine
    then show ?thesis unfolding updateReconciledCondition_def mark_defs Let_def using st st [symmetric] by (auto simp: wpre_simps intro!: mark keep dest: has_status_unique)
  qed
qed

lemma SetStatus_conditions:
  assumes "uconditions_laws L" and "\<And>k. JStr k \<in> set ss \<Longrightarrow> k \<noteq> ''conditions''"
  shows "returns (SetStatus rr ss) (\<lambda>rr'. \<forall>ty. GetCondition L rr' ty = GetCondition L rr ty)"
proof -
  have pairs: "map_of (set_pairs fs ss) ''conditions'' = map_of fs ''conditions''" for fs
    using assms(2) by (induction fs ss rule: set_pairs.induct) auto
  have same: "L_ConditionsGet L u ty = L_ConditionsGet L v ty"
    if "map_of (json_fields (u_status u)) ''conditions'' = map_of (json_fields (u_status v)) ''conditions''" for u v ty
    using assms(1) that unfolding uconditions_laws_def by blast
  show ?thesis
    unfolding SetStatus_def status_map_def Let_def GetCondition_def
    by (auto simp: status_nil_def pairs json_fields_def intro!: same returns_bnd [OF returns_any] split: option.splits json.splits)
      (metis pairs map_of.simps(1))
qed

lemma counters_result:
  assumes "uconditions_laws L"
  shows "returns (generateWorkflowsCounterStatus L rr n) (\<lambda>(upd, rr'). (\<not> upd \<longrightarrow> rr' = rr) \<and> (\<forall>ty. GetCondition L rr' ty = GetCondition L rr ty))"
  unfolding generateWorkflowsCounterStatus_def Let_def
  by (rule returns_bnd [OF returns_any], rule returns_bnd [OF returns_any]) (auto intro!: returns_bnd [OF SetStatus_conditions [OF assms]])

text \<open>
  C16. The status of a resource request tells the truth. After the controller has looked at the request's Works, the condition
  \<open>WorksSucceeded\<close> is true exactly when none of the listed Works is failing, misplaced or pending; once the configure workflow has
  completed or failed, \<open>Reconciled\<close> is true exactly when it completed and no Work is in trouble; and when the status is not to be
  written again, it has not changed.
\<close>

theorem generateResourceStatus_truthful:
  assumes "uconditions_laws L" and "known_status L rr WorksSucceededCondition"
    and "exec (generateResourceStatus L r rr n) ((q, RList (map OWork works)) # t) (Returned (Inr (upd, rr')))"
  shows "(has_status (GetCondition L rr' WorksSucceededCondition) ConditionTrue \<longleftrightarrow> (\<forall>w\<in>set works. \<not> troubled L w)) \<and>
    (has_status (GetCondition L rr ConfigureWorkflowCompletedCondition) ConditionTrue \<or>
     has_status (GetCondition L rr ConfigureWorkflowCompletedCondition) ConditionFalse \<longrightarrow>
       (has_status (GetCondition L rr' ReconciledCondition) ConditionTrue \<longleftrightarrow>
        has_status (GetCondition L rr ConfigureWorkflowCompletedCondition) ConditionTrue \<and> (\<forall>w\<in>set works. \<not> troubled L w))) \<and>
    (\<not> upd \<longrightarrow> rr' = rr)"
proof -
  have works: "wpre (getWorksStatus L r rr) (\<lambda>t oc. \<forall>s. oc = Returned (Inr s) \<longrightarrow> (\<exists>q x ws. t = [(q, x)] \<and> as_list un_work x = Inr ws \<and>
      (wk_failed s = [] \<and> wk_misplaced s = [] \<and> wk_pending s = [] \<longleftrightarrow> (\<forall>w\<in>set ws. \<not> troubled L w))))"
    unfolding getWorksStatus_def
    by (auto simp: wpre_simps split: sum.split intro!: wpre_mono [OF classify_loop] split: outcome.splits loop.splits)
  have ty: "ConfigureWorkflowCompletedCondition \<noteq> WorksSucceededCondition" "WorksSucceededCondition \<noteq> ReconciledCondition"
    by (simp_all add: consts_defs)
  from assms(3) obtain t1 s t2 where s: "exec (getWorksStatus L r rr) t1 (Returned (Inr s))" "(q, RList (map OWork works)) # t = t1 @ t2"
    and rest: "exec (bnd (updateWorksSucceededCondition L rr s) (\<lambda>(worksSucceededUpdate, rr).
         bnd (updateReconciledCondition L rr) (\<lambda>(reconciledUpdate, rr).
         bnd (generateWorkflowsCounterStatus L rr n) (\<lambda>(workflowsCounterStatusUpdate, rr).
         Ret (Inr (worksSucceededUpdate \<or> reconciledUpdate \<or> workflowsCounterStatusUpdate, rr)))))) t2 (Returned (Inr (upd, rr') :: err + bool \<times> unstructured))"
    unfolding generateResourceStatus_def
  proof (cases rule: exec_bndE)
    case (Returned t1 t2 x)
    show ?thesis
    proof (cases x)
      case (Inr s)
      with Returned that [of t1 s t2] show ?thesis by simp
    qed (use Returned(3) in \<open>simp add: exec_Ret_iff\<close>)
  qed simp
  from wpreD [OF s(1) works] s(2) have trouble: "wk_failed s = [] \<and> wk_misplaced s = [] \<and> wk_pending s = [] \<longleftrightarrow> (\<forall>w\<in>set works. \<not> troubled L w)"
    using works.as_list_mk [of "RList (map OWork works)" works] by auto
  from rest obtain t3 u1 rr1 t4 where 1: "exec (updateWorksSucceededCondition L rr s) t3 (Returned (u1, rr1))"
    and rest: "exec (bnd (updateReconciledCondition L rr1) (\<lambda>(reconciledUpdate, rr).
         bnd (generateWorkflowsCounterStatus L rr n) (\<lambda>(workflowsCounterStatusUpdate, rr).
         Ret (Inr (u1 \<or> reconciledUpdate \<or> workflowsCounterStatusUpdate, rr))))) t4 (Returned (Inr (upd, rr') :: err + bool \<times> unstructured))"
    by (elim exec_bndE) auto
  from rest obtain t5 u2 rr2 t6 where 2: "exec (updateReconciledCondition L rr1) t5 (Returned (u2, rr2))"
    and rest: "exec (bnd (generateWorkflowsCounterStatus L rr2 n) (\<lambda>(workflowsCounterStatusUpdate, rr).
         Ret (Inr (u1 \<or> u2 \<or> workflowsCounterStatusUpdate, rr)))) t6 (Returned (Inr (upd, rr') :: err + bool \<times> unstructured))"
    by (elim exec_bndE) auto
  from rest obtain t7 u3 where 3: "exec (generateWorkflowsCounterStatus L rr2 n) t7 (Returned (u3, rr'))" "upd = (u1 \<or> u2 \<or> u3)"
    by (elim exec_bndE) (auto simp: exec_Ret_iff)
  have r1: "works_reported L rr (\<forall>w\<in>set works. \<not> troubled L w) u1 rr1"
    using wpreD [OF 1 updateWorksSucceededCondition_result [OF assms(1,2)]] trouble by simp
  then have r1': "known_status L rr1 WorksSucceededCondition" "GetCondition L rr1 WorksSucceededCondition \<noteq> None" by (auto simp: works_reported_def)
  note r2 = wpreD [OF 2 updateReconciledCondition_result [OF assms(1) r1']]
  note r3 = returnsD [OF counters_result [OF assms(1)] 3(1)]
  show ?thesis using r1 r2 r3 3(2) ty trouble by (simp add: works_reported_def reconciled_reported_def)
qed

text \<open>Works that fail after they were reported as pending are not reported as failing: the condition stays as it is.\<close>

lemma pending_hides_failure:
  assumes "GetCondition L rr WorksSucceededCondition = Some c" and "c_Status c = ConditionUnknown" and "wk_failed s \<noteq> []"
  shows "updateWorksSucceededCondition L rr s = Ret (False, rr)"
  using assms by (simp add: updateWorksSucceededCondition_def consts_defs Let_def)

subsection \<open>Concrete requests\<close>



definition ex_controller :: DynamicResourceRequestController where
  "ex_controller = \<lparr>rc_GVK = \<lparr>g_Group = ''marketplace'', g_Version = ''v1'', g_Kind = ''redis''\<rparr>, 
     rc_CRD = \<lparr>crd_meta = empty_meta, crd_TypeKind = [], crd_APIVersion = [], crd_Group = [], crd_Kind = [], crd_Plural = [], crd_Singular = [],
       crd_OtherNames = [], crd_Scope = [], crd_Versions = [], crd_Conversion = None, crd_PreserveUnknownFields = False, crd_Conditions = []\<rparr>,
     rc_PromiseIdentifier = ''redis'', rc_PromiseDestinationSelectors = [], rc_UID = ''12345'',
     rc_Enabled = True, rc_CanCreateResources = True, rc_NumberOfJobsToKeep = 5, rc_ReconciliationInterval = 36000\<rparr>"

definition ex_request :: "string list \<Rightarrow> unstructured" where
  "ex_request fs = \<lparr>u_meta = (ex_meta ''mine'')\<lparr>m_Labels := fmupd PromiseNameLabel ''redis'' fmempty, m_Finalizers := fs,
     m_DeletionTimestamp := Some 7\<rparr>, u_gvk = rc_GVK ex_controller, u_spec = None, u_status = None\<rparr>"


lemmas rr_eval = ResourceRequestReconcile_def reconcileRequest_def RRDeleteResources_def RRDeleteWork_def RRDeleteWorkflows_def
  deleteAllResourcesWithKindMatchingLabel_def GetAllWorksForResource_def getExistingWorks_def FinalizersAreDeleted_def rrFinalizers_def
  ex_controller_def ex_request_def ex_promise_def ex_defs u_labels_def u_finalizers_def without_finalizer_def plain_lib_def after_loop_def
  call_defs consts_defs Let_def

theorem ResourceRequest_finalizers_in_order_witness:
  "\<exists>t x oc. exec (ResourceRequestReconcile plain_lib ex_defaults ex_controller (''default'', ''mine''))
       (t @ [(Update (OUnstructured (ex_request [])), x)]) oc \<and>
     works_gone plain_lib ex_controller (ex_request [workFinalizer]) t"
proof -
  let ?p = "ResourceRequestReconcile plain_lib ex_defaults ex_controller (''default'', ''mine'')"
  have "\<exists>q1 q2 q3 oc. script ?p [RObj (OPromise ex_promise), RObj (OUnstructured (ex_request [workFinalizer])), RList [], ROk] =
      Some ([(q1, RObj (OPromise ex_promise)), (q2, RObj (OUnstructured (ex_request [workFinalizer]))), (q3, RList []),
        (Update (OUnstructured (ex_request [])), ROk)], oc)"
    by (simp add: rr_eval)
  then obtain q1 q2 q3 oc where e: "exec ?p ((q1, RObj (OPromise ex_promise)) # (q2, RObj (OUnstructured (ex_request [workFinalizer]))) #
      [(q3, RList [])] @ (Update (OUnstructured (ex_request [])), ROk) # []) oc"
    by (metis script_exec append_Cons append_Nil)
  have f: "m_DeletionTimestamp (u_meta (ex_request [workFinalizer])) \<noteq> None" "workFinalizer \<in> set (u_finalizers (ex_request [workFinalizer]))"
    "workFinalizer \<notin> set (u_finalizers (ex_request []))" "workFinalizer \<noteq> runDeleteWorkflowsFinalizer" "workFinalizer \<noteq> removeAllWorkflowJobsFinalizer"
    by (simp_all add: ex_request_def u_finalizers_def consts_defs)
  from ResourceRequest_finalizers_in_order [OF plain_finalizer_laws plain_sort_laws plain_owner_laws e f(1-3)] f(4,5)
  have "works_gone plain_lib ex_controller (ex_request [workFinalizer]) [(q3, RList [])]" by (auto simp: may_release_def)
  then have "works_gone plain_lib ex_controller (ex_request [workFinalizer])
      [(q1, RObj (OPromise ex_promise)), (q2, RObj (OUnstructured (ex_request [workFinalizer]))), (q3, RList [])]"
    unfolding works_gone_def by auto
  with e show ?thesis by (metis append_Cons append_Nil)
qed

text \<open>
  The jobs' finalizer goes as soon as one of the two listings is empty: jobs found by the current labels, whose deletion was
  only asked for in the same pass, do not hold it back.
\<close>

lemma jobs_finalizer_dropped_early:
  "\<exists>t u x oc. exec (ResourceRequestReconcile plain_lib ex_defaults ex_controller (''default'', ''mine'')) t oc \<and>
     (jobs_query plain_lib (rrJobLabels ex_controller (ex_request [removeAllWorkflowJobsFinalizer])), RList [OUnstructured ex_parent]) \<in> set t \<and>
     (Update (OUnstructured u), x) \<in> set t \<and> removeAllWorkflowJobsFinalizer \<notin> set (u_finalizers u)"
proof -
  let ?p = "ResourceRequestReconcile plain_lib ex_defaults ex_controller (''default'', ''mine'')"
  have "\<exists>t u oc. script ?p [RObj (OPromise ex_promise), RObj (OUnstructured (ex_request [removeAllWorkflowJobsFinalizer])),
        RList [OUnstructured ex_parent], ROk, RList [], ROk] = Some (t, oc) \<and>
      (jobs_query plain_lib (rrJobLabels ex_controller (ex_request [removeAllWorkflowJobsFinalizer])), RList [OUnstructured ex_parent]) \<in> set t \<and>
      (Update (OUnstructured u), ROk) \<in> set t \<and> removeAllWorkflowJobsFinalizer \<notin> set (u_finalizers u)"
    by (simp add: rr_eval jobs_query_def rrJobLabels_def)
  then show ?thesis by (metis script_exec)
qed

definition ex_failing_work :: Work where
  "ex_failing_work = (ex_work ''mine'')\<lparr>w_Status := \<lparr>wst_Conditions = [mk_cond ''Ready'' ConditionFalse ''Failing'' ''Failing''],
     wst_WorkPlacements = 0, wst_WorkPlacementsCreated = 0\<rparr>\<rparr>"

theorem generateResourceStatus_truthful_witness:
  "\<exists>t upd rr'. exec (generateResourceStatus plain_lib ex_controller (ex_request []) 1) t (Returned (Inr (upd, rr'))) \<and>
     \<not> has_status (GetCondition plain_lib rr' WorksSucceededCondition) ConditionTrue"
proof -
  let ?p = "generateResourceStatus plain_lib ex_controller (ex_request []) 1"
  note conds = GetCondition_def SetCondition_def plain_lib_def plain_ConditionsGet_def plain_find_def
  have none: "known_status plain_lib (ex_request []) WorksSucceededCondition"
    by (simp add: known_status_def conds plain_uconds_def ex_request_def json_fields_def)
  have "\<exists>q t rr'. script ?p [RList [OWork ex_failing_work], RTime 3, ROk, RTime 4] =
      Some ((q, RList (map OWork [ex_failing_work])) # t, Returned (Inr (True, rr')))"
    by (simp add: generateResourceStatus_def getWorksStatus_def classify_def updateWorksSucceededCondition_def updateReconciledCondition_def
        generateWorkflowsCounterStatus_def GetWorkflowsCounterStatus_def SetStatus_def status_nil_def status_map_def mark_defs mark_def
        has_status_def conds plain_ConditionsSet_def plain_uconds_def json_fields_def ex_failing_work_def ex_request_def mk_cond_def
        after_loop_def call_defs ex_defs consts_defs Let_def)
  then obtain q t rr' where e: "exec ?p ((q, RList (map OWork [ex_failing_work])) # t) (Returned (Inr (True, rr')))"
    by (metis script_exec)
  have "troubled plain_lib ex_failing_work"
    by (simp add: troubled_def ex_failing_work_def plain_lib_def plain_find_def mk_cond_def)
  with generateResourceStatus_truthful [OF plain_uconditions_laws none e] e show ?thesis by (metis list.set_intros(1))
qed

end
