(* ===== verification/PromiseSafety.thy ===== *)
theory PromiseSafety
  imports PromiseController ResourceRequestSafety
begin

text \<open>
  What the promise controller (\<^verbatim>\<open>PromiseController\<close>) keeps to when a Promise is being deleted: its finalizers go in order, each only when
  what it stands for is gone.
\<close>

subsection \<open>The API of a Promise\<close>

lemma only_setStatusFieldsOnCRD: "only P (setStatusFieldsOnCRD c)"
  unfolding setStatusFieldsOnCRD_def setStatusFields_def Let_def by (auto intro!: only_intros)

lemma only_generateCRDAndGVK [only_intros]: "only P (generateCRDAndGVK L p)"
  unfolding generateCRDAndGVK_def by (auto intro!: only_intros local_names only_setStatusFieldsOnCRD)

lemma only_GetDynamicControllerName [only_intros]: "only P (GetDynamicControllerName L p)"
  unfolding GetDynamicControllerName_def by (auto intro!: only_intros local_names)

lemma setStatusFieldsOnCRD_meta: "returns (setStatusFieldsOnCRD c) (\<lambda>d. crd_meta d = crd_meta c)"
  unfolding setStatusFieldsOnCRD_def
  by (intro returns_after_loop) (rule returns_mono [OF returns_for_range [where I = "\<lambda>_ _. True" and R = "\<lambda>l. \<exists>vs. l = Next vs"]],
      auto intro!: returns_bnd [OF returns_any])

lemma generateCRDAndGVK_result:
  assumes "exec (generateCRDAndGVK L p) t (Returned (Inr (crd, gvk)))"
  obtains c where "GetAPI L p = (Ret (Inr (gvk, c)) :: (err + gvk \<times> crd) go)" and "m_Name (crd_meta crd) = m_Name (crd_meta c)"
proof (cases L p rule: GetAPI_cases)
  case (Ret x)
  note api = Ret
  show ?thesis
  proof (cases x)
    case (Inr y)
    obtain g c where y: "y = (g, c)" by (cases y)
    let ?c = "set_crd_labels c (L_MergeLabels L (m_Labels (crd_meta c)) (GenerateSharedLabels p))"
    from assms have "exec (bnd (setStatusFieldsOnCRD ?c) (\<lambda>rrCRD. Ret (Inr (rrCRD, g)))) t (Returned (Inr (crd, gvk) :: err + crd \<times> gvk))"
      unfolding generateCRDAndGVK_def api Inr y by simp
    then have "gvk = g" and "m_Name (crd_meta crd) = m_Name (crd_meta c)"
      by (auto simp: exec_Ret_iff set_crd_labels_def elim!: exec_bndE dest!: returnsD [OF setStatusFieldsOnCRD_meta])
    with that [of c] api Inr y show ?thesis by simp
  qed (use assms api in \<open>simp add: generateCRDAndGVK_def exec_Ret_iff\<close>)
qed (use assms in \<open>simp add: generateCRDAndGVK_def exec_Panic_iff\<close>)

subsection \<open>Finalizers of a Promise that is being deleted\<close>

definition promiseOrder :: "string list" where
  "promiseOrder =
     [runDeleteWorkflowsFinalizer, removeAllWorkflowJobsFinalizer, resourceRequestCleanupFinalizer,
      dynamicControllerDependantResourcesCleanupFinalizer, dependenciesCleanupFinalizer, crdCleanupFinalizer]"

definition none_listed :: "lib \<Rightarrow> gtrace \<Rightarrow> gvk \<Rightarrow> labels \<Rightarrow> bool" where
  "none_listed L t gvk ls \<longleftrightarrow> (ListObjs (KUnstructured gvk) [] (Some (L_SelectorFromSet L ls)), RList []) \<in> set t"

text \<open>The controller of the resource requests does not run, or was disabled.\<close>

definition controller_off :: "lib \<Rightarrow> Promise \<Rightarrow> gtrace \<Rightarrow> bool" where
  "controller_off L p t \<longleftrightarrow> (\<exists>name. GetDynamicControllerName L p = (Ret name :: string go) \<and>
     ((\<exists>x. (LoadController name, x) \<in> set t \<and> (\<forall>d. x \<noteq> RController d)) \<or>
      (\<exists>d x. (StoreController name d, x) \<in> set t \<and> \<not> rc_Enabled d)))"

text \<open>
  What the code checks before it takes a finalizer off, as the answers so far show: for the delete workflow that it has succeeded,
  for the jobs that one of the two listings, by the labels and by the legacy labels, is empty (the code asks for either, not for
  both), for the others that what stands behind the finalizer is gone.
\<close>

definition cleaned :: "lib \<Rightarrow> Promise \<Rightarrow> gtrace \<Rightarrow> string \<Rightarrow> bool" where
  "cleaned L p t f \<longleftrightarrow>
     f = runDeleteWorkflowsFinalizer \<and> (workflow_pipelines p WorkflowTypePromise WorkflowActionDelete = [] \<or> workflow_done t) \<or>
     f = removeAllWorkflowJobsFinalizer \<and> (none_listed L t jobGVK (promiseJobLabels p) \<or> none_listed L t jobGVK (promiseJobLegacyLabels p)) \<or>
     f = resourceRequestCleanupFinalizer \<and> (\<exists>gvk c. GetAPI L p = (Ret (Inr (gvk, c)) :: (err + gvk \<times> crd) go) \<and> none_listed L t gvk fmempty) \<or>
     f = dynamicControllerDependantResourcesCleanupFinalizer \<and> controller_off L p t \<and>
       (\<forall>gvk\<in>set (concat (map snd resourcesToDelete)). none_listed L t gvk (GenerateSharedLabels p)) \<or>
     f = dependenciesCleanupFinalizer \<and> controller_off L p t \<and> none_listed L t workGVK (GenerateSharedLabels p) \<or>
     f = crdCleanupFinalizer \<and> controller_off L p t \<and>
       (\<forall>gvk c. GetAPI L p = (Ret (Inr (gvk, c)) :: (err + gvk \<times> crd) go) \<longrightarrow>
          (\<exists>e. IsNotFound e \<and> (Get KCRD [] (m_Name (crd_meta c)), RErr e) \<in> set t))"

definition promise_release :: "lib \<Rightarrow> Promise \<Rightarrow> gtrace \<Rightarrow> string \<Rightarrow> bool" where
  "promise_release L p t f \<longleftrightarrow> cleaned L p t f \<and> (\<forall>g\<in>set (takeWhile (\<lambda>g. g \<noteq> f) promiseOrder). g \<notin> set (p_finalizers p))"

definition promise_release_ok :: "lib \<Rightarrow> Promise \<Rightarrow> gtrace \<Rightarrow> req \<times> resp \<Rightarrow> bool" where
  "promise_release_ok L p t x \<longleftrightarrow>
     (\<forall>u. fst x = Update (OPromise u) \<longrightarrow> (\<exists>f. u = p_without_finalizer L p f \<and> promise_release L p t f)) \<and>
     (\<forall>u. fst x = Update (OUnstructured u) \<longrightarrow> u_finalizers u = p_finalizers p)"

lemma cleaned_later: "cleaned L p t f \<Longrightarrow> cleaned L p (t' @ t) f"
  unfolding cleaned_def workflow_done_def none_listed_def controller_off_def set_append by (elim disjE) blast+

lemma promise_release_later: "promise_release L p t f \<Longrightarrow> promise_release L p (t' @ t) f"
  by (simp add: promise_release_def cleaned_later)

interpretation prel: trace_guard "promise_release_ok L p" for L p
  by unfold_locales (auto simp: promise_release_ok_def intro: promise_release_later)

lemma prel_quiet: "only (keeps_finalizers (p_finalizers p)) m \<Longrightarrow> only (prel.unguarded L p) m"
  by (erule only_mono) (auto simp: keeps_finalizers_def promise_release_ok_def prel.unguarded_def)

lemma prel_release:
  assumes "prel.guarded L p t" and "promise_release L p t f"
  shows "wpre (PromiseUpdate (p_without_finalizer L p f)) (\<lambda>t' oc. prel.guarded L p (t @ t'))"
  using assms unfolding PromiseUpdate_def
  by (auto simp: wpre_simps promise_release_ok_def intro!: prel.guarded_snoc)

lemma none_listed_deleteAll:
  "exec (deleteAllResourcesWithKindMatchingLabel L gvk ls) t (Returned (False, e)) \<Longrightarrow> none_listed L t gvk ls"
  by (drule wpreD [OF _ deleteAllResources_result]) (auto simp: none_listed_def)

lemma none_listed_later: "none_listed L t gvk ls \<Longrightarrow> none_listed L (t' @ t) gvk ls" "none_listed L t gvk ls \<Longrightarrow> none_listed L (t @ t') gvk ls"
  by (simp_all add: none_listed_def)

lemma quiet_deleteAll [only_intros]: "only (keeps_finalizers (p_finalizers p)) (deleteAllResourcesWithKindMatchingLabel L gvk ls)"
  by (auto intro!: only_intros simp: keeps_finalizers_def)

lemma quiet_controllers [only_intros]:
  "only (keeps_finalizers (p_finalizers p)) (load_controller n)" "only (keeps_finalizers (p_finalizers p)) (store_controller n c)"
  "only (keeps_finalizers (p_finalizers p)) (ensureDynamicControllerIsStarted L r promise crd gvk b)" "only (keeps_finalizers (p_finalizers p)) (disableDynamicController L promise)"
  unfolding load_controller_def store_controller_def ensureDynamicControllerIsStarted_def dynamicControllerHasAlreadyStarted_def
    disableDynamicController_def slice_to_def Let_def
  by (auto intro!: only_intros simp: keeps_finalizers_def)

lemma prel_runDelete:
  assumes laws: "sort_laws L" "owner_laws L" "unstructured_laws L"
  shows "prel.keeps L p (runPromiseDeleteWorkflows L D r p)"
proof (cases "L_ToUnstructured L p")
  case (Inr us)
  have us: "u_finalizers us = p_finalizers p" using laws(3) Inr by (simp add: unstructured_laws_def u_finalizers_def p_finalizers_def)
  have local: "only (keeps_finalizers (p_finalizers p)) (GeneratePromisePipelines L D p WorkflowActionDelete)"
    unfolding GeneratePromisePipelines_def by (rule only_mono [OF local_generatePipelinesObjects asks_locally_keeps])
  have quiet: "only (keeps_finalizers (p_finalizers p)) (ReconcileDelete L (NewOpts us prs ty n))" for prs ty n
    using keeps_finalizers_ReconcileDelete [of "NewOpts us prs ty n" L] by (simp add: NewOpts_def us)
  show ?thesis
    unfolding runPromiseDeleteWorkflows_def Inr sum.case
  proof (rule prel.keepsI, rule prel.guarded_seq [OF prel_quiet [OF local] prel.guarded_Nil], goal_cases)
    case gen: (1 t res)
    show ?case
    proof (cases res)
      case (Inr prs)
      show ?thesis
        unfolding Inr sum.case
      proof (rule prel.guarded_seq [OF prel_quiet [OF quiet] gen(2)], goal_cases)
        case (1 t' x)
        obtain requeue err u where x: "x = ((requeue, err), u)" by (metis surj_pair)
        show ?case
        proof (cases "err = None \<and> \<not> requeue")
          case True
          have "prs = [] \<or> workflow_done t'"
            using ReconcileDelete_goes_on(2) [OF laws(1), of "NewOpts us prs ''promise'' (pc_NumberOfJobsToKeep r)" t' u] 1(1) x True
            by (simp add: NewOpts_def)
          moreover have "workflow_pipelines p WorkflowTypePromise WorkflowActionDelete = []" if "prs = []"
            using gen(1) Inr that unfolding GeneratePromisePipelines_def by (intro generated_none [OF laws(2)]) auto
          ultimately have "cleaned L p t' runDeleteWorkflowsFinalizer" by (auto simp: cleaned_def)
          then have "promise_release L p (([] @ t) @ t') runDeleteWorkflowsFinalizer"
            by (simp add: promise_release_def cleaned_later promiseOrder_def)
          from prel.guarded_end [OF prel_release [OF 1(2) this], where k = "\<lambda>e. Ret (no_requeue, e)"] x True show ?thesis by simp
        qed (use 1(2) x in \<open>auto intro: prel.guarded_Ret\<close>)
      qed
    qed (use gen in \<open>simp add: prel.guarded_Ret\<close>)
  qed
qed (simp add: runPromiseDeleteWorkflows_def prel.keeps_Ret)

lemma prel_deleteJobs:
  assumes "runDeleteWorkflowsFinalizer \<notin> set (p_finalizers p)"
  shows "prel.keeps L p (deletePromiseWorkflowJobs L p removeAllWorkflowJobsFinalizer)"
  unfolding deletePromiseWorkflowJobs_def
proof (rule prel.keepsI, rule prel.guarded_seq [OF prel_quiet [OF quiet_deleteAll] prel.guarded_Nil], goal_cases)
  case first: (1 t x)
  obtain rem e where x: "x = (rem, e)" by force
  show ?case
  proof (cases "e = None")
    case True
    show ?thesis
      unfolding x prod.case True simp_thms if_False
    proof (rule prel.guarded_seq [OF prel_quiet [OF quiet_deleteAll] first(2)], goal_cases)
      case (1 t' y)
      obtain rem' e' where y: "y = (rem', e')" by force
      have "promise_release L p (([] @ t) @ t') removeAllWorkflowJobsFinalizer" if "\<not> rem \<or> \<not> rem'"
        using that first(1) 1(1) x y assms none_listed_deleteAll [of L jobGVK _ _ e] none_listed_deleteAll [of L jobGVK _ _ e']
        by (auto simp: promise_release_def cleaned_def promiseOrder_def consts_defs intro: none_listed_later)
      then show ?case unfolding y prod.case by (intro wpre_ifI prel.guarded_Ret prel_release 1(2)) auto
    qed
  qed (use first(2) x in \<open>auto intro: prel.guarded_Ret\<close>)
qed

lemma prel_deleteRequests:
  assumes "runDeleteWorkflowsFinalizer \<notin> set (p_finalizers p)" "removeAllWorkflowJobsFinalizer \<notin> set (p_finalizers p)"
  shows "prel.keeps L p (deleteResourceRequests L r p)"
  unfolding deleteResourceRequests_def
proof (rule prel.keepsI, rule prel.guarded_seq [OF only_generateCRDAndGVK prel.guarded_Nil], goal_cases)
  case api: (1 t res)
  show ?case
  proof (cases res)
    case (Inr y)
    obtain crd gvk where y: "y = (crd, gvk)" by (cases y)
    obtain c where c: "GetAPI L p = (Ret (Inr (gvk, c)) :: (err + gvk \<times> crd) go)"
      using generateCRDAndGVK_result api(1) Inr y by metis
    show ?thesis
      unfolding Inr y sum.case prod.case
    proof (rule prel.guarded_seq [OF prel_quiet [OF quiet_deleteAll] api(2)], goal_cases)
      case listed: (1 t' z)
      obtain rem e where z: "z = (rem, e)" by force
      show ?case
      proof (cases "e = None")
        case True
        show ?thesis
          unfolding z prod.case True simp_thms if_False
        proof (rule prel.guarded_seq [OF prel_quiet [OF quiet_controllers(3)] listed(2)], goal_cases)
          case (1 t'' e')
          have "promise_release L p ((([] @ t) @ t') @ t'') resourceRequestCleanupFinalizer" if "\<not> rem"
            using none_listed_deleteAll [of L gvk fmempty t' e] listed(1) z that assms c
            by (auto simp: promise_release_def cleaned_def promiseOrder_def consts_defs intro: none_listed_later)
          then show ?case by (intro wpre_ifI prel.guarded_Ret prel_release 1(2)) auto
        qed
      qed (use listed(2) z in \<open>auto intro: prel.guarded_Ret\<close>)
    qed
  qed (use api in \<open>simp add: prel.guarded_Ret\<close>)
qed
lemma controller_off_later: "controller_off L p t \<Longrightarrow> controller_off L p (t @ t')"
  unfolding controller_off_def by auto

lemma controller_off_disabled:
  assumes "exec (disableDynamicController L p) t (Returned x)"
  shows "controller_off L p t"
proof -
  have name: "\<exists>n. GetDynamicControllerName L p = (Ret n :: string go)" if "exec (GetDynamicControllerName L p :: string go) u (Returned m)" for u m
    using that unfolding GetDynamicControllerName_def by (cases L p rule: GetAPI_cases) (auto simp: exec_Panic_iff split: sum.splits)
  from assms obtain n where n: "GetDynamicControllerName L p = (Ret n :: string go)"
    unfolding disableDynamicController_def by (elim exec_bndE) (use name in blast)+
  with assms obtain x' t' where t: "t = (LoadController n, x') # t'"
    and rest: "exec (case (case x' of RController c \<Rightarrow> Some c | _ \<Rightarrow> None) of None \<Rightarrow> Ret ()
       | Some d \<Rightarrow> Call RestartManager (\<lambda>_. store_controller n (d\<lparr>rc_Enabled := False\<rparr>))) t' (Returned x)"
    unfolding disableDynamicController_def load_controller_def by (auto simp: exec_Call_iff)
  show ?thesis
  proof (cases "\<exists>d. x' = RController d")
    case True
    then obtain d where "x' = RController d" by blast
    with rest have "\<exists>y. (StoreController n (d\<lparr>rc_Enabled := False\<rparr>), y) \<in> set t'"
      by (auto simp: store_controller_def exec_Call_iff)
    then show ?thesis unfolding controller_off_def using n t by force
  next
    case False
    then show ?thesis unfolding controller_off_def using n t by auto
  qed
qed

text \<open>The deletion of what a controller and the workflows needed gets to its end only when every kind was listed empty.\<close>

lemma none_listed_loop:
  "wpre (for_range gvks () (\<lambda>gvk _. bnd (deleteAllResourcesWithKindMatchingLabel L gvk ls) (\<lambda>(rem, e).
      Ret (if e \<noteq> None then Leave e else if rem then Leave None else Next ()))))
    (\<lambda>t oc. oc = Returned (Next ()) \<longrightarrow> (\<forall>gvk\<in>set gvks. none_listed L t gvk ls))"
proof (rule wpre_for_range [where I = "\<lambda>pre t s. \<forall>gvk\<in>set pre. none_listed L t gvk ls"], goal_cases)
  case (2 pre gvk rest s t)
  show ?case
    by (rule wpre_seq [OF deleteAllResources_result])
      (use 2 in \<open>auto simp: wpre_basic none_listed_def split: outcome.splits loop.splits if_splits\<close>)
qed auto

lemma none_listed_loops:
  "wpre (for_range groups () (\<lambda>(_, gvks) _. for_range gvks () (\<lambda>gvk _. bnd (deleteAllResourcesWithKindMatchingLabel L gvk ls) (\<lambda>(rem, e).
      Ret (if e \<noteq> None then Leave e else if rem then Leave None else Next ())))))
    (\<lambda>t oc. oc = Returned (Next ()) \<longrightarrow> (\<forall>gvk\<in>set (concat (map snd groups)). none_listed L t gvk ls))"
proof (rule wpre_for_range [where I = "\<lambda>pre t s. \<forall>gvk\<in>set (concat (map snd pre)). none_listed L t gvk ls"], goal_cases)
  case (2 pre x rest s t)
  obtain k gvks where x: "x = (k, gvks)" by (cases x)
  show ?case
    unfolding x prod.case
    by (rule wpre_mono [OF none_listed_loop]) (use 2 in \<open>auto simp: none_listed_def split: outcome.splits loop.splits\<close>)
qed auto

lemma resourcesToDelete_any_order:
  assumes "exec (range_map resourcesToDelete) t (Returned m)"
  shows "set (concat (map snd m)) = set (concat (map snd resourcesToDelete))"
proof -
  have "mset m = mset resourcesToDelete"
    using wpreD [OF assms range_map_result] by (auto simp: resourcesToDelete_def)
  then have "set m = set resourcesToDelete" by (rule mset_eq_setD)
  then show ?thesis by auto
qed

lemma prel_deleteController:
  assumes "prel.guarded L p t" and "controller_off L p t"
    and "\<forall>g\<in>set (takeWhile (\<lambda>g. g \<noteq> dynamicControllerDependantResourcesCleanupFinalizer) promiseOrder). g \<notin> set (p_finalizers p)"
  shows "wpre (deleteDynamicControllerAndWorkflowResources L p) (\<lambda>t' oc. prel.guarded L p (t @ t'))"
  unfolding deleteDynamicControllerAndWorkflowResources_def
proof (rule prel.guarded_seq [OF prel_quiet assms(1)], goal_cases)
  case 1
  show ?case by (rule only_range_map) (simp add: keeps_finalizers_def)
next
  case order: (2 t' m)
  note all = resourcesToDelete_any_order [OF order(1)]
  show ?case
    unfolding after_loop_def
  proof (rule prel.guarded_seq [OF prel_quiet order(2)], goal_cases)
    case 1
    show ?case by (auto intro!: only_intros)
  next
    case (2 t'' l)
    show ?case
    proof (cases l)
      case (Next u)
      have "\<forall>gvk\<in>set (concat (map snd m)). none_listed L t'' gvk (GenerateSharedLabels p)"
        using wpreD [OF 2(1) none_listed_loops] Next by simp
      then have "cleaned L p ((t @ t') @ t'') dynamicControllerDependantResourcesCleanupFinalizer"
        using controller_off_later [OF assms(2), of "t' @ t''"] unfolding all cleaned_def
        by (simp only: append_assoc) (blast intro: none_listed_later)
      with assms(3) have "promise_release L p ((t @ t') @ t'') dynamicControllerDependantResourcesCleanupFinalizer"
        by (simp add: promise_release_def)
      with 2(2) Next show ?thesis by (simp del: append_assoc add: prel_release)
    qed (use 2(2) in \<open>simp add: prel.guarded_Ret\<close>)
  qed
qed

lemma prel_deleteWork:
  assumes "prel.guarded L p t" and "controller_off L p t"
    and "\<forall>g\<in>set (takeWhile (\<lambda>g. g \<noteq> dependenciesCleanupFinalizer) promiseOrder). g \<notin> set (p_finalizers p)"
  shows "wpre (PromiseDeleteWork L p) (\<lambda>t' oc. prel.guarded L p (t @ t'))"
  unfolding PromiseDeleteWork_def
proof (rule prel.guarded_seq [OF prel_quiet [OF quiet_deleteAll] assms(1)], goal_cases)
  case (1 t' x)
  obtain rem e where x: "x = (rem, e)" by force
  have "promise_release L p (t @ t') dependenciesCleanupFinalizer" if "\<not> rem"
    using assms(2,3) 1(1) x that none_listed_deleteAll [of L workGVK _ t' e]
    by (simp add: promise_release_def cleaned_def none_listed_later controller_off_later)
  then show ?case unfolding x prod.case by (intro wpre_ifI prel.guarded_Ret prel_release 1(2)) auto
qed

lemma prel_deleteCRDs:
  assumes "prel.guarded L p t" and "controller_off L p t"
    and order: "\<forall>g\<in>set (takeWhile (\<lambda>g. g \<noteq> crdCleanupFinalizer) promiseOrder). g \<notin> set (p_finalizers p)"
  shows "wpre (deleteCRDs L p) (\<lambda>t' oc. prel.guarded L p (t @ t'))"
proof (cases L p rule: GetAPI_cases)
  case (Panic m)
  with assms(1) show ?thesis by (simp add: deleteCRDs_def)
next
  case (Ret x)
  have release: "promise_release L p (t @ t') crdCleanupFinalizer"
    if "\<And>gvk c. x = Inr (gvk, c) \<Longrightarrow> \<exists>e. IsNotFound e \<and> (Get KCRD [] (m_Name (crd_meta c)), RErr e) \<in> set t'" for t'
    using assms(2) order that Ret by (fastforce simp: promise_release_def cleaned_def controller_off_later)
  show ?thesis
  proof (cases x)
    case (Inl e)
    with prel_release [OF assms(1), of crdCleanupFinalizer] release [of "[]"] Ret show ?thesis by (simp add: deleteCRDs_def)
  next
    case (Inr y)
    obtain gvk c where y: "y = (gvk, c)" by (cases y)
    let ?q = "Get KCRD [] (m_Name (crd_meta c))"
    have "wpre (bnd (call_obj ?q un_crd) (\<lambda>res. if (case res of Inl e \<Rightarrow> IsNotFound e | Inr _ \<Rightarrow> False)
          then PromiseUpdate (p_without_finalizer L p crdCleanupFinalizer) else call_unit (Delete (OCRD c))))
        (\<lambda>t' oc. prel.guarded L p (t @ t'))"
    proof (rule prel.guarded_seq [OF prel_quiet assms(1)], goal_cases)
      case 1
      show ?case by (auto intro!: only_intros simp: keeps_finalizers_def)
    next
      case (2 t' res)
      from 2(1) obtain r where r: "t' = [(?q, r)]" "res = as_obj un_crd r" by (auto simp: call_obj_def exec_Call_iff exec_Ret_iff)
      show ?case
      proof (rule wpre_ifI)
        assume gone: "case res of Inl e \<Rightarrow> IsNotFound e | Inr _ \<Rightarrow> False"
        then obtain e where "r = RErr e" "IsNotFound e"
          using r(2) by (cases r) (auto simp: as_obj_def decode_error_def split: sum.splits option.splits)
        with r(1) Inr y have "promise_release L p (t @ t') crdCleanupFinalizer" by (intro release) auto
        then show "wpre (PromiseUpdate (p_without_finalizer L p crdCleanupFinalizer)) (\<lambda>t'' oc. prel.guarded L p ((t @ t') @ t''))"
          by (rule prel_release [OF 2(2)])
      next
        show "wpre (call_unit (Delete (OCRD c))) (\<lambda>t'' oc. prel.guarded L p ((t @ t') @ t''))"
          by (rule prel.guarded_rest [OF prel_quiet 2(2)]) (auto intro!: only_intros simp: keeps_finalizers_def)
      qed
    qed
    with Ret Inr y show ?thesis by (simp add: deleteCRDs_def)
  qed
qed
lemma prel_deletePromise:
  assumes "finalizer_laws L" and "sort_laws L" and "owner_laws L" and "unstructured_laws L"
  shows "prel.keeps L p (deletePromise L D r p)"
proof -
  have has: "L_ContainsFinalizer L (p_finalizers p) f \<longleftrightarrow> f \<in> set (p_finalizers p)" for f
    using assms(1) by (simp add: finalizer_laws_def)
  note order = promiseOrder_def consts_defs
  have off: "prel.keeps L p (bnd (disableDynamicController L p) k)"
    if "\<And>t u. prel.guarded L p t \<Longrightarrow> controller_off L p t \<Longrightarrow> wpre (k u) (\<lambda>t' oc. prel.guarded L p (t @ t'))" for k :: "unit \<Rightarrow> reconcile_result go"
    by (rule prel.keepsI, rule prel.guarded_seq [OF prel_quiet [OF quiet_controllers(4)] prel.guarded_Nil]) (simp add: controller_off_disabled that)
  show ?thesis
    unfolding deletePromise_def Let_def has
  proof (split if_split, intro conjI impI)
    show "prel.keeps L p (Ret (no_requeue, None))" by (rule prel.keeps_Ret)
  next
    show "prel.keeps L p (if runDeleteWorkflowsFinalizer \<in> set (p_finalizers p) then runPromiseDeleteWorkflows L D r p
      else if removeAllWorkflowJobsFinalizer \<in> set (p_finalizers p)
        then bnd (deletePromiseWorkflowJobs L p removeAllWorkflowJobsFinalizer) (\<lambda>e. Ret (or_requeue fastRequeue e))
      else if resourceRequestCleanupFinalizer \<in> set (p_finalizers p)
        then bnd (deleteResourceRequests L r p) (\<lambda>e. Ret (or_requeue fastRequeue e))
      else bnd (disableDynamicController L p) (\<lambda>_.
        if dynamicControllerDependantResourcesCleanupFinalizer \<in> set (p_finalizers p)
        then bnd (deleteDynamicControllerAndWorkflowResources L p) (\<lambda>e. Ret (if e \<noteq> None then defaultRequeue else fastRequeue, None))
        else if dependenciesCleanupFinalizer \<in> set (p_finalizers p)
        then bnd (PromiseDeleteWork L p) (\<lambda>e. Ret (or_requeue fastRequeue e))
        else if crdCleanupFinalizer \<in> set (p_finalizers p)
        then bnd (deleteCRDs L p) (\<lambda>e. Ret (or_requeue fastRequeue e))
        else Ret (fastRequeue, None)))"
      using prel_runDelete [OF assms(2-4)] prel_deleteJobs prel_deleteRequests
      by (auto intro!: prel.keeps_bnd prel.keeps_Ret off prel.guarded_end prel_deleteController prel_deleteWork prel_deleteCRDs prel.guarded_Ret simp: order)
  qed
qed

text \<open>
  C6. A Promise that is being deleted loses its finalizers one by one and in a fixed order: the one of the delete workflow, of its jobs, of
  the resource requests, of the roles and service accounts of the controller and the workflows, of the Works, and of the API
  itself. A finalizer is taken off only after a check in the same pass. For the delete workflow: there is none, or its youngest listed
  job has succeeded. For the jobs: of the two listings of the jobs, by the labels and by the legacy labels, one is empty; this is
  what the code asks for, the other may still hold jobs. For the rest: what the finalizer stands for was found to be gone and, from
  the fourth on, the controller of the resource requests does not run or was disabled. No other update in the pass touches the
  finalizers.
\<close>

theorem Promise_finalizers_in_order:
  assumes "finalizer_laws L" and "sort_laws L" and "owner_laws L" and "unstructured_laws L"
    and "exec (PromiseReconcile L D r name) ((Get KPromise [] name, RObj (OPromise p)) # t1 @ x # t2) oc"
    and "m_DeletionTimestamp (p_meta p) \<noteq> None"
  shows "(\<forall>u. fst x = Update (OPromise u) \<longrightarrow>
      (\<exists>f. u = p_without_finalizer L p f \<and> cleaned L p t1 f \<and>
         (\<forall>g\<in>set (takeWhile (\<lambda>g. g \<noteq> f) promiseOrder). g \<notin> set (p_finalizers p)))) \<and>
    (\<forall>u. fst x = Update (OUnstructured u) \<longrightarrow> u_finalizers u = p_finalizers p)"
proof -
  let ?rest = "if fmlookup (p_labels p) pauseReconciliationLabel = Some ''true'' then
      bnd (call_event (OPromise p) EventTypeWarning pausedReconciliationReason pausedMessage) (\<lambda>_.
      bnd (PromiseSetPausedReconciliationStatusConditions p) (\<lambda>e. Ret (no_requeue, e))) else deletePromise L D r p"
  have e: "exec ?rest (t1 @ x # t2) oc"
    using assms(5,6) unfolding PromiseReconcile_def exec_bnd_calls by (auto simp: as_obj_def)
  have "prel.keeps L p ?rest"
    using prel_deletePromise [OF assms(1-4)]
    unfolding PromiseSetPausedReconciliationStatusConditions_def set_condition_def condition_now_def promiseAvailablePausedStatusCondition_def
      promiseReconciledPausedCondition_def PromiseStatusUpdate_def Let_def
    by (auto intro!: prel.keeps_free only_intros simp: promise_release_ok_def)
  from prel.keepsD [OF this e] show ?thesis unfolding promise_release_ok_def promise_release_def .
qed
definition ex_leaving_promise :: "string list \<Rightarrow> Promise" where
  "ex_leaving_promise fs = ex_promise\<lparr>p_meta := (p_meta ex_promise)\<lparr>m_Finalizers := fs, m_DeletionTimestamp := Some 7\<rparr>\<rparr>"

lemmas promise_eval = PromiseReconcile_def deletePromise_def disableDynamicController_def load_controller_def store_controller_def
  PromiseDeleteWork_def deleteAllResourcesWithKindMatchingLabel_def FinalizersAreDeleted_def promiseFinalizers_def p_finalizers_def p_labels_def
  GetDynamicControllerName_def promise_name_def GetAPI_def ex_leaving_promise_def ex_promise_def or_requeue_def PromiseUpdate_def p_without_finalizer_def
  ex_defs plain_lib_def after_loop_def consts_defs call_defs Let_def

theorem Promise_finalizers_in_order_witness:
  "\<exists>t x oc. exec (PromiseReconcile plain_lib ex_defaults \<lparr>pc_NumberOfJobsToKeep = 5, pc_ReconciliationInterval = 9\<rparr> ''redis'')
       ((Get KPromise [] ''redis'', RObj (OPromise (ex_leaving_promise [dependenciesCleanupFinalizer]))) # t @ [x]) oc \<and>
     fst x = Update (OPromise (ex_leaving_promise [])) \<and>
     none_listed plain_lib t workGVK (GenerateSharedLabels (ex_leaving_promise [dependenciesCleanupFinalizer]))"
proof -
  let ?r = "\<lparr>pc_NumberOfJobsToKeep = 5, pc_ReconciliationInterval = 9\<rparr>"
  let ?P = "ex_leaving_promise [dependenciesCleanupFinalizer]"
  let ?p = "PromiseReconcile plain_lib ex_defaults ?r ''redis''"
  define q1 q2 where "q1 = LoadController ''redis_crd''"
    and "q2 = ListObjs (KUnstructured workGVK) [] (Some (MatchLabels (GenerateSharedLabels ?P)))"
  have "script ?p [RObj (OPromise ?P), ROk, RList [], ROk] =
      Some ((Get KPromise [] ''redis'', RObj (OPromise ?P)) # [(q1, ROk), (q2, RList [])] @ [(Update (OPromise (ex_leaving_promise [])), ROk)],
        Returned (fastRequeue, None))"
    unfolding q1_def q2_def by (simp add: promise_eval)
  then have e: "exec ?p ((Get KPromise [] ''redis'', RObj (OPromise ?P)) # [(q1, ROk), (q2, RList [])] @ (Update (OPromise (ex_leaving_promise [])), ROk) # [])
      (Returned (fastRequeue, None))" by (rule script_exec)
  have "\<exists>f. ex_leaving_promise [] = p_without_finalizer plain_lib ?P f \<and> cleaned plain_lib ?P [(q1, ROk), (q2, RList [])] f"
    using Promise_finalizers_in_order [OF plain_finalizer_laws plain_sort_laws plain_owner_laws plain_unstructured_laws e]
    by (auto simp: ex_leaving_promise_def)
  moreover have "none_listed plain_lib [(q1, ROk), (q2, RList [])] workGVK (GenerateSharedLabels ?P)"
    by (simp add: none_listed_def q2_def plain_lib_def)
  ultimately show ?thesis using e by (metis fst_conv append.simps)
qed

end
