(* ===== verification/PromiseAvailability.thy ===== *)
theory PromiseAvailability
  imports PromiseSafety
begin

text \<open>
  When a Promise is available (\<^verbatim>\<open>PromiseController\<close>): its requirements are evaluated as they are, the controller of its resource
  requests is started once and for all, and a Promise with an API is announced as available only when its API is
  established, its requirements are met and the controller may serve requests.
\<close>

subsection \<open>Footprints\<close>

text \<open>
  The requests of a workflow and of the parts around it: none of them concerns the controllers of resource requests, and none
  reports on a Promise.
\<close>

fun aside :: "req \<Rightarrow> bool" where
  "aside (LoadController n) = False"
| "aside (StoreController n c) = False"
| "aside (StartController c) = False"
| "aside RestartManager = False"
| "aside (Event (OPromise p) ty rs ms) = (rs \<noteq> ''Available'')"
| "aside q = True"

lemma aside_workflow: "only aside (ReconcileConfigure L opts)" "only aside (ReconcileDelete L opts)"
proof -
  have start: "only aside (startPipeline k res u)" for k res u
    unfolding startPipeline_def applyResources_def applyResource_def updateResource_def
    by (auto intro!: only_intros split: option.split sum.split)
  have parts: "only aside (updateWorkflowCounters u n)" "only aside (markWorkflowFailed L u pl)" "only aside (suspendJob j)"
    "only aside (cleanup L opts' ns)" "only aside (removeManualReconciliationLabel u)" "only aside (setConfigureWorkflowCompletedConditionStatus L opts' b u)"
    "only aside (getObjectsToDelete L pl)" "only aside (deleteResources xs)" for u n pl j ns b xs opts'
    unfolding updateWorkflowCounters_def resetFailedCounter_def setSucceededCounter_def markWorkflowFailed_def suspendJob_def cleanup_def
      removeManualReconciliationLabel_def removeLabel_def setConfigureWorkflowCompletedConditionStatus_def getObjectsToDelete_def append_or_fail_def
      getRolesToDelete_def getClusterRolesToDelete_def getRoleBindingsToDelete_def getClusterRoleBindingsToDelete_def
      objectsToDelete_def deleteResources_def cleanupWorks_def cleanupJobs_def GetWorksByType_def getExistingWorks_def mark_defs Let_def
    by (auto intro!: only_intros split: sum.splits option.splits prod.splits)
  show "only aside (ReconcileConfigure L opts)"
    unfolding ReconcileConfigure_def reconcileConfigureJobs_def reconcilePipeline_def createConfigurePipeline_def Let_def
    by (auto intro!: only_intros parts start split: sum.split option.split prod.split)
  show "only aside (ReconcileDelete L opts)"
    unfolding ReconcileDelete_def getMostRecentDeletePipelineJob_def createDeletePipeline_def Let_def
    by (auto intro!: only_intros parts start split: sum.split option.split list.split prod.split)
qed

lemma aside_local: "asks_locally q \<Longrightarrow> aside q"
  by (cases q) auto


lemma aside_GeneratePromisePipelines: "only aside (GeneratePromisePipelines L D p ac)"
  unfolding GeneratePromisePipelines_def by (rule only_mono [OF local_generatePipelinesObjects aside_local])

lemma aside_conditions:
  "only aside (condition_now ty st ms rs)" "only aside mk \<Longrightarrow> only aside (set_condition p mk)"
  "only aside promiseUnavailableStatusCondition" "only aside promiseAvailablePausedStatusCondition" "only aside promiseWorksSucceededStatusCondition"
  "only aside (promiseWorksSucceededUnknownCondition ws)" "only aside (promiseWorksSucceededFailedCondition ws)"
  "only aside (promiseWorksSucceededMisplacedCondition ws)" "only aside (promiseReconciledFailingCondition rs)"
  "only aside (promiseReconciledPendingCondition rs)" "only aside promiseReconciledPausedCondition" "only aside promiseReconciledCondition"
  unfolding condition_now_def set_condition_def promiseUnavailableStatusCondition_def promiseAvailablePausedStatusCondition_def
    promiseWorksSucceededStatusCondition_def promiseWorksSucceededUnknownCondition_def promiseWorksSucceededFailedCondition_def
    promiseWorksSucceededMisplacedCondition_def promiseReconciledFailingCondition_def promiseReconciledPendingCondition_def
    promiseReconciledPausedCondition_def promiseReconciledCondition_def
  by (auto intro!: only_intros)

lemma aside_updates:
  "only aside (PromiseUpdate p)" "only aside (PromiseStatusUpdate p)" "only aside (updatePromiseStatus p)" "only aside (addFinalizers L x fs)"
  "only aside (refreshing (StatusUpdate x) p)" "only aside (refreshing (Update x) p)"
  "only aside (PromiseUpdateStatus p k g v)" "only aside (PromiseUpdateWorkflowStatusCountersToZero p)"
  "only aside (ensurePromiseDeleteWorkflowFinalizer L p b)"
  unfolding PromiseUpdate_def PromiseStatusUpdate_def updatePromiseStatus_def addFinalizers_def refreshing_def PromiseUpdateStatus_def
    PromiseUpdateWorkflowStatusCountersToZero_def ensurePromiseDeleteWorkflowFinalizer_def Let_def
  by (auto intro!: only_intros)

lemma aside_requirements: "only aside (hasPromiseRequirementsChanged p)"
  unfolding hasPromiseRequirementsChanged_def generateStatusAndMarkRequirements_def evaluateRequirement_def markRequiredPromiseAsRequired_def
    generateRequirementState_def Let_def
  by (auto intro!: only_intros aside_conditions aside_updates split: prod.split sum.split if_splits)

lemma aside_api:
  "only aside (ensureCRDExists L p c)" "only aside (createResourcesForDynamicControllerIfTheyDontExist L p c g)"
  "only aside (requirementsChanged L st p)" "only aside (reconcileResources p g)"
  unfolding ensureCRDExists_def createResourcesForDynamicControllerIfTheyDontExist_def requirementsChanged_def reconcileResources_def
    reconcileAllRRs_def removeReconcileResourcesLabel_def Let_def
  by (auto intro!: only_intros aside_updates aside_conditions split: option.split sum.split)

lemma aside_dependencies_work: "only aside (applyWorkForStaticDependencies L p)" "only aside (deleteWorkForStaticDependencies L p)"
proof -
  have work: "only aside (GetWork L ns ls)" for ns ls
    unfolding GetWork_def getExistingWorks_def by (auto intro!: only_intros)
  have name: "only aside (GenerateObjectName s)" for s
    by (rule only_mono [OF local_names(1) aside_local])
  show "only aside (applyWorkForStaticDependencies L p)"
    unfolding applyWorkForStaticDependencies_def Let_def by (intro only_intros work name) auto
  show "only aside (deleteWorkForStaticDependencies L p)"
    unfolding deleteWorkForStaticDependencies_def by (intro only_intros work) auto
qed

lemma aside_runConfigure: "only aside (runPromiseConfigure L D r p u)"
  unfolding runPromiseConfigure_def
  by (auto intro!: only_intros aside_GeneratePromisePipelines aside_workflow split: prod.split)

lemma aside_dependencies: "only aside (reconcileDependenciesAndPromiseWorkflows L D r p u)"
  unfolding reconcileDependenciesAndPromiseWorkflows_def reconcilePromiseWorkflow_def shouldForcePipelineRun_def Let_def
  by (intro only_intros aside_updates aside_dependencies_work aside_runConfigure) simp_all

lemma aside_status:
  "only aside (generateConditions L p n)" "only aside (PromiseSetPausedReconciliationStatusConditions p)"
  unfolding generateConditions_def PromiseGetWorksStatus_def classify_def PromiseUpdateWorksSucceededCondition_def
    PromiseUpdateReconciledCondition_def PromiseSetPausedReconciliationStatusConditions_def Let_def
  by (auto intro!: only_intros aside_conditions aside_updates split: option.split sum.split prod.split)


subsection \<open>The controller of resource requests is started once\<close>

text \<open>
  A controller was just put into the map, under the name of its Promise's controller, where there was none before; it is started
  only then.
\<close>

definition registered :: "lib \<Rightarrow> gtrace \<Rightarrow> DynamicResourceRequestController \<Rightarrow> string \<Rightarrow> bool" where
  "registered L t c n \<longleftrightarrow> (\<exists>u a b p. t = u @ [(LoadController n, a), (StoreController n c, b)] \<and> (\<forall>d. a \<noteq> RController d) \<and>
     GetDynamicControllerName L p = (Ret n :: string go) \<and> rc_PromiseIdentifier c = promise_name p)"

definition start_ok :: "lib \<Rightarrow> gtrace \<Rightarrow> req \<times> resp \<Rightarrow> bool" where
  "start_ok L t x \<longleftrightarrow> (\<forall>c. fst x = StartController c \<longrightarrow> (\<exists>n. registered L t c n))"

lemma registered_later: "registered L t c n \<Longrightarrow> registered L (t' @ t) c n"
  unfolding registered_def by (metis append_assoc)

interpretation once: trace_guard "start_ok L" for L
  by unfold_locales (auto simp: start_ok_def dest: registered_later)

lemma once_free: "only (\<lambda>q. \<forall>c. q \<noteq> StartController c) m \<Longrightarrow> once.keeps L m"
  by (rule once.keeps_free) (auto simp: start_ok_def elim!: only_mono)

lemma once_aside: "only aside m \<Longrightarrow> once.keeps L m"
  by (rule once_free) (auto elim: only_mono)

lemma GetDynamicControllerName_cases:
  obtains (Panic) m where "GetDynamicControllerName L p = (Panic m :: string go)"
  | (Ret) n where "GetDynamicControllerName L p = (Ret n :: string go)"
proof -
  have "(\<exists>m. GetDynamicControllerName L p = (Panic m :: string go)) \<or> (\<exists>n. GetDynamicControllerName L p = (Ret n :: string go))"
    by (cases L p rule: GetAPI_cases) (auto simp: GetDynamicControllerName_def split: sum.split prod.split)
  with that show ?thesis by blast
qed

lemma once_ensure: "once.keeps L (ensureDynamicControllerIsStarted L r p crd gvk b)"
proof (cases L p rule: GetDynamicControllerName_cases)
  case (Ret n)
  have start: "once.guarded L [(LoadController n, a), (StoreController n c, x), (StartController c, y)]"
    if "\<forall>d. a \<noteq> RController d" and "rc_PromiseIdentifier c = promise_name p" for a c x y
  proof -
    have "registered L [(LoadController n, a), (StoreController n c, x)] c n" unfolding registered_def using that Ret by blast
    then have "start_ok L [(LoadController n, a), (StoreController n c, x)] (StartController c, y)" by (auto simp: start_ok_def)
    then have "once.guarded L ([(LoadController n, a), (StoreController n c, x)] @ [(StartController c, y)])"
      by (intro once.guarded_snoc) (auto simp: once.guarded_def start_ok_def append_eq_Cons_conv Cons_eq_append_conv)
    then show ?thesis by simp
  qed
  have quiet: "once.guarded L [(LoadController n, a), (LoadController n, a'), (StoreController n c, x)]"
     "once.guarded L [(LoadController n, a), (LoadController n, a')]" "once.guarded L [(LoadController n, a)]" for a a' c x
    by (rule once.guarded_free, auto simp: start_ok_def)+
  show ?thesis
    unfolding once.keeps_def ensureDynamicControllerIsStarted_def dynamicControllerHasAlreadyStarted_def load_controller_def store_controller_def
      Ret slice_to_def deref_def Let_def
    by (auto simp: call_unit_def start quiet split: resp.split option.split)
qed (simp add: ensureDynamicControllerIsStarted_def dynamicControllerHasAlreadyStarted_def once.keeps_Panic)


lemmas once_keeps = once.keeps_bnd once.keeps_Ret once.keeps_Panic once_ensure

lemma once_delete: "once.keeps L (deletePromise L D r p)"
proof -
  have parts: "once.keeps L (runPromiseDeleteWorkflows L D r p)" "once.keeps L (deletePromiseWorkflowJobs L p f)"
    "once.keeps L (deleteDynamicControllerAndWorkflowResources L p)" "once.keeps L (PromiseDeleteWork L p)" "once.keeps L (deleteCRDs L p)" for f
    unfolding runPromiseDeleteWorkflows_def deletePromiseWorkflowJobs_def deleteDynamicControllerAndWorkflowResources_def PromiseDeleteWork_def
      deleteCRDs_def
    by (auto intro!: once_aside only_intros aside_GeneratePromisePipelines aside_workflow aside_updates local_names split: prod.split)
  have off: "once.keeps L (disableDynamicController L p)"
    unfolding disableDynamicController_def load_controller_def store_controller_def by (auto intro!: once_free only_intros)
  have requests: "once.keeps L (deleteResourceRequests L r p)"
    unfolding deleteResourceRequests_def
    by (auto intro!: once_keeps once_aside [OF aside_updates(1)] once_aside [OF only_generateCRDAndGVK] once_aside [OF only_deleteAllResources]
        split: sum.split prod.split)
  show ?thesis
    unfolding deletePromise_def Let_def by (auto intro!: once_keeps parts off requests)
qed

lemmas aside_parts = aside_requirements aside_api aside_updates aside_conditions(3-) aside_dependencies aside_status
  aside_conditions(2) [OF aside_conditions(3)] only_calls only_generateCRDAndGVK

lemmas once_parts = aside_parts [THEN once_aside]

lemma once_finish: "once.keeps L (finishPromise L r s p)"
proof -
  have "once.keeps L (setPromiseStatusToAvailable p)"
    unfolding setPromiseStatusToAvailable_def Let_def by (auto intro!: once_keeps once_parts once_free [OF only_calls(7)])
  then show ?thesis
    unfolding finishPromise_def Let_def by (auto intro!: once_keeps once_parts split: prod.split sum.split)
qed

lemma once_reconcile: "once.keeps L (reconcilePromise L D r p)"
proof -
  have serve: "once.keeps L (serveRequests L r s api p)" for s api p
    unfolding serveRequests_def Let_def deref_def
    by (auto intro!: once_keeps once_finish once_parts split: option.split prod.split)
  have flows: "once.keeps L (installPromiseWorkflows L D r s api p)" for s api p
    unfolding installPromiseWorkflows_def
    by (auto intro!: once_keeps serve once_parts split: option.split prod.split sum.split)
  have api: "once.keeps L (installAPI L D r s p)" for s p
    unfolding installAPI_def
    by (auto intro!: once_keeps flows once_parts split: option.split prod.split sum.split)
  show ?thesis
    unfolding reconcilePromise_def Let_def
    by (auto intro!: once_keeps api once_parts split: option.split prod.split)
qed

lemma once_pass: "once.keeps L (PromiseReconcile L D r name)"
  unfolding PromiseReconcile_def
  by (auto intro!: once_keeps once_delete once_reconcile once_parts simp: consts_defs split: option.split sum.split prod.split)

text \<open>A map of controllers that answers the requests of a trace, as the map in the promise controller does.\<close>

fun served_by :: "(string, DynamicResourceRequestController) fmap \<Rightarrow> gtrace \<Rightarrow> bool" where
  "served_by m [] = True"
| "served_by m ((LoadController n, x) # t) \<longleftrightarrow>
     (case fmlookup m n of Some c \<Rightarrow> x = RController c | None \<Rightarrow> \<forall>c. x \<noteq> RController c) \<and> served_by m t"
| "served_by m ((StoreController n c, x) # t) \<longleftrightarrow> served_by (fmupd n c m) t"
| "served_by m (y # t) \<longleftrightarrow> served_by m t"

lemma served_by_append: "served_by m (t @ t') \<Longrightarrow> \<exists>m'. served_by m' t' \<and> fmdom' m \<subseteq> fmdom' m'"
proof (induction m t rule: served_by.induct)
  case (3 m n c x t)
  then show ?case by fastforce
qed auto

lemma served_by_load: "served_by m (t @ (LoadController n, a) # t') \<Longrightarrow> n \<in> fmdom' m \<Longrightarrow> \<exists>d. a = RController d"
proof -
  assume s: "served_by m (t @ (LoadController n, a) # t')" and n: "n \<in> fmdom' m"
  from served_by_append [OF s] n obtain m' where "served_by m' ((LoadController n, a) # t')" "n \<in> fmdom' m'" by auto
  then show ?thesis by (auto simp: fmlookup_dom'_iff)
qed

text \<open>
  C18. The controller of a Promise's resource requests is started once and only once: over all the passes of the promise
  controller, whatever Promises they are for and however they end, two starts are of controllers that were put into the map under
  different names, each the name that belongs to the controller's Promise and its API, and each when the map had none under it.
\<close>

theorem controllers_started_once:
  assumes "\<forall>t\<in>set ts. \<exists>name oc. exec (PromiseReconcile L D r name) t oc" and "served_by m (concat ts)"
    and "concat ts = t1 @ (StartController c, x) # t2 @ (StartController c', x') # t3"
  shows "\<exists>n n'. n \<noteq> n' \<and> registered L t1 c n \<and> registered L (t1 @ (StartController c, x) # t2) c' n'"
proof -
  have "once.guarded L t" if "t \<in> set ts" for t
    using assms(1) that once_pass unfolding once.keeps_def by (metis wpreD)
  then have g: "once.guarded L (concat ts)"
    by (induction ts) (auto intro: once.guarded_append once.guarded_Nil)
  from g assms(3) obtain n where n: "registered L t1 c n" unfolding once.guarded_def start_ok_def by (metis fst_conv)
  have split: "concat ts = (t1 @ (StartController c, x) # t2) @ (StartController c', x') # t3" using assms(3) by simp
  from g split obtain n' where n': "registered L (t1 @ (StartController c, x) # t2) c' n'"
    unfolding once.guarded_def start_ok_def by (metis fst_conv)
  from n obtain u a b where u: "t1 = u @ [(LoadController n, a), (StoreController n c, b)]" by (auto simp: registered_def)
  from n' obtain v a' b' where v: "t1 @ (StartController c, x) # t2 = v @ [(LoadController n', a'), (StoreController n' c', b')]"
    and a': "\<forall>d. a' \<noteq> RController d" by (auto simp: registered_def)
  have "n \<noteq> n'"
  proof
    assume "n = n'"
    obtain w where w: "t2 = w @ [(LoadController n', a'), (StoreController n' c', b')]"
      using v by (auto simp: append_eq_append_conv2 Cons_eq_append_conv append_eq_Cons_conv)
    have "concat ts = u @ (LoadController n, a) # (StoreController n c, b) # ((StartController c, x) # w) @ (LoadController n', a') #
        ((StoreController n' c', b') # (StartController c', x') # t3)"
      using assms(3) u w by simp
    with assms(2) obtain m' where "served_by m' ((LoadController n, a) # (StoreController n c, b) # ((StartController c, x) # w) @
        (LoadController n', a') # ((StoreController n' c', b') # (StartController c', x') # t3))" by (metis served_by_append)
    then have "served_by (fmupd n c m') (((StartController c, x) # w) @ (LoadController n', a') # ((StoreController n' c', b') # (StartController c', x') # t3))"
      by simp
    from served_by_load [OF this] \<open>n = n'\<close> a' show False by auto
  qed
  with n n' show ?thesis by blast
qed


definition ex_served :: "string \<Rightarrow> Promise" where
  "ex_served n = ex_promise\<lparr>p_meta := (p_meta ex_promise)\<lparr>m_Name := n, m_UID := ''0123456789'',
     m_Finalizers := [resourceRequestCleanupFinalizer], m_DeletionTimestamp := Some 7\<rparr>\<rparr>"

definition ex_reconciler :: PromiseReconciler where
  "ex_reconciler = \<lparr>pc_NumberOfJobsToKeep = 5, pc_ReconciliationInterval = 9\<rparr>"

lemmas serve_eval = promise_eval deleteResourceRequests_def generateCRDAndGVK_def setStatusFieldsOnCRD_def setStatusFields_def set_crd_labels_def
  ensureMetadataSchema_def ensureDynamicControllerIsStarted_def dynamicControllerHasAlreadyStarted_def slice_to_def ex_served_def

lemma ex_start:
  "\<exists>k sel c p. script (PromiseReconcile plain_lib ex_defaults ex_reconciler n)
       [RObj (OPromise (ex_served n)), RList [], ROk, ROk, ROk, ROk] =
     Some ([(Get KPromise [] n, RObj (OPromise (ex_served n))), (ListObjs k [] sel, RList []), (LoadController (n @ ''_crd''), ROk),
       (StoreController (n @ ''_crd'') c, ROk), (StartController c, ROk), (Update p, ROk)], Returned (fastRequeue, None)) \<and>
     rc_PromiseIdentifier c = n"
  by (simp add: serve_eval)

theorem controllers_started_once_witness:
  "\<exists>ts t1 c x t2 c' x' t3 n n'. (\<forall>t\<in>set ts. \<exists>name oc. exec (PromiseReconcile plain_lib ex_defaults ex_reconciler name) t oc) \<and>
     concat ts = t1 @ (StartController c, x) # t2 @ (StartController c', x') # t3 \<and>
     rc_PromiseIdentifier c = ''redis'' \<and> rc_PromiseIdentifier c' = ''kafka'' \<and> n \<noteq> n' \<and>
     registered plain_lib t1 c n \<and> registered plain_lib (t1 @ (StartController c, x) # t2) c' n'"
proof -
  let ?pass = "PromiseReconcile plain_lib ex_defaults ex_reconciler"
  obtain k sel c p k' sel' c' p' where
    1: "exec (?pass ''redis'') [(Get KPromise [] ''redis'', RObj (OPromise (ex_served ''redis''))), (ListObjs k [] sel, RList []), (LoadController ''redis_crd'', ROk),
       (StoreController ''redis_crd'' c, ROk), (StartController c, ROk), (Update p, ROk)] (Returned (fastRequeue, None))" and c: "rc_PromiseIdentifier c = ''redis''"
    and 2: "exec (?pass ''kafka'') [(Get KPromise [] ''kafka'', RObj (OPromise (ex_served ''kafka''))), (ListObjs k' [] sel', RList []), (LoadController ''kafka_crd'', ROk),
       (StoreController ''kafka_crd'' c', ROk), (StartController c', ROk), (Update p', ROk)] (Returned (fastRequeue, None))" and c': "rc_PromiseIdentifier c' = ''kafka''"
    using ex_start [of "''redis''"] ex_start [of "''kafka''"] by (auto dest!: script_exec)
  define ts where "ts = [[(Get KPromise [] ''redis'', RObj (OPromise (ex_served ''redis''))), (ListObjs k [] sel, RList []), (LoadController ''redis_crd'', ROk),
       (StoreController ''redis_crd'' c, ROk), (StartController c, ROk), (Update p, ROk)],
     [(Get KPromise [] ''kafka'', RObj (OPromise (ex_served ''kafka''))), (ListObjs k' [] sel', RList []), (LoadController ''kafka_crd'', ROk),
       (StoreController ''kafka_crd'' c', ROk), (StartController c', ROk), (Update p', ROk)]]"
  have passes: "\<forall>t\<in>set ts. \<exists>name oc. exec (?pass name) t oc" using 1 2 by (auto simp: ts_def)
  have served: "served_by fmempty (concat ts)" by (simp add: ts_def)
  have "\<exists>t1 t2 t3. concat ts = t1 @ (StartController c, ROk) # t2 @ (StartController c', ROk) # t3"
    unfolding ts_def by (rule exI [of _ "take 4 (concat ts)"], rule exI [of _ "take 5 (drop 5 (concat ts))"], rule exI [of _ "drop 11 (concat ts)"])
      (simp add: ts_def)
  then obtain t1 t2 t3 where starts: "concat ts = t1 @ (StartController c, ROk) # t2 @ (StartController c', ROk) # t3" by blast
  from controllers_started_once [OF passes served starts] passes starts c c' show ?thesis by blast
qed


subsection \<open>Required Promises\<close>

text \<open>A requirement is met when the API server has the required Promise, at that version, and it is available.\<close>

definition requirement_met :: "RequiredPromise \<Rightarrow> resp \<Rightarrow> bool" where
  "requirement_met req r \<longleftrightarrow> (\<exists>q. r = RObj (OPromise q) \<and> pst_Version (p_Status q) = rp_Version req \<and> pst_Status (p_Status q) = PromiseStatusAvailable)"

fun promise_asked :: "req \<Rightarrow> string option" where
  "promise_asked (Get KPromise ns n) = Some n"
| "promise_asked q = None"

definition required_by :: "Promise \<Rightarrow> RequiredPromise \<Rightarrow> RequiredBy" where
  "required_by p req = \<lparr>rby_PromiseName = promise_name p, rby_PromiseVersion = pst_Version (p_Status p), rby_RequiredVersion = rp_Version req\<rparr>"

text \<open>The required Promise was told by whom it is required, once, and everything else of it was kept.\<close>

definition told :: "Promise \<Rightarrow> RequiredPromise \<Rightarrow> Promise \<Rightarrow> gtrace \<Rightarrow> bool" where
  "told p req q t \<longleftrightarrow> (\<exists>rs x. (StatusUpdate (OPromise (on_status (\<lambda>s. s\<lparr>pst_RequiredBy := rs\<rparr>) q)), x) \<in> set t \<and> required_by p req \<in> set rs \<and>
     filter (\<lambda>r. rby_PromiseName r \<noteq> promise_name p) rs = filter (\<lambda>r. rby_PromiseName r \<noteq> promise_name p) (pst_RequiredBy (p_Status q)))"

definition answered :: "Promise \<Rightarrow> RequiredPromise \<Rightarrow> resp \<Rightarrow> gtrace \<Rightarrow> RequiredPromiseStatus \<Rightarrow> bool" where
  "answered p req r t st \<longleftrightarrow> rps_Name st = rp_Name req \<and> rps_Version st = rp_Version req \<and>
     (rps_State st = requirementStateInstalled \<longleftrightarrow> requirement_met req r) \<and> (\<forall>q. r = RObj (OPromise q) \<longrightarrow> told p req q t)"

lemma told_mono: "told p req q t \<Longrightarrow> set t \<subseteq> set t' \<Longrightarrow> told p req q t'"
  unfolding told_def by blast

lemma answered_mono: "answered p req r t st \<Longrightarrow> set t \<subseteq> set t' \<Longrightarrow> answered p req r t' st"
  unfolding answered_def using told_mono by blast

lemma filter_replaced: "filter (\<lambda>r. f r \<noteq> n) (map (\<lambda>r. if f r = n then y else r) xs) = filter (\<lambda>r. f r \<noteq> n) xs" if "f y = n"
  using that by (induction xs) auto

lemma markRequired_told:
  "wpre (markRequiredPromiseAsRequired v p q) (\<lambda>t oc. oc = Returned () \<and> made promise_asked t = [] \<and> (v = rp_Version req \<longrightarrow> told p req q t))"
proof -
  have "required_by p req \<in> set (map (\<lambda>r. if rby_PromiseName r = promise_name p then required_by p req else r) (pst_RequiredBy (p_Status q)))"
    if "list_ex (\<lambda>r. rby_PromiseName r = promise_name p) (pst_RequiredBy (p_Status q))"
    using that by (auto simp: list_ex_iff)
  then show ?thesis
    unfolding markRequiredPromiseAsRequired_def PromiseStatusUpdate_def Let_def wpre_bnd wpre_calls
    by (auto simp: told_def required_by_def filter_replaced)
qed

lemma evaluateRequirement_result:
  "wpre (evaluateRequirement p req c) (\<lambda>t oc. \<exists>r st c'. oc = Returned (st, c') \<and> made promise_asked t = [rp_Name req] \<and>
     (Get KPromise [] (rp_Name req), r) \<in> set t \<and> answered p req r t st \<and>
     c_Status c' = (if requirement_met req r \<or> c_Status c = ConditionUnknown then c_Status c else ConditionFalse))"
proof -
  have bad: "\<exists>e. as_obj un_promise r = Inl e" if "\<And>q. r \<noteq> RObj (OPromise q)" for r
    using that by (cases "as_obj un_promise r") (auto simp: promises.as_obj_mk)
  have states: "requirementStateNotInstalled \<noteq> requirementStateInstalled" "requirementUnknownInstallationState \<noteq> requirementStateInstalled"
    "requirementStateNotInstalledAtSpecifiedVersion \<noteq> requirementStateInstalled" "requirementStateNotAvailable \<noteq> requirementStateInstalled"
    by (simp_all add: consts_defs)
  have one: "wpre (bnd (markRequiredPromiseAsRequired (rp_Version req) p q) (\<lambda>_. Ret (st, c'))) (\<lambda>t oc. oc = Returned (st, c') \<and> made promise_asked t = [] \<and> told p req q t)"
    for q st c'
    by (rule wpre_seq [OF markRequired_told [where req = req]]) auto
  have get: "wpre (call_obj (Get KPromise [] (rp_Name req)) un_promise)
      (\<lambda>t oc. \<exists>r. t = [(Get KPromise [] (rp_Name req), r)] \<and> oc = Returned (as_obj un_promise r))"
    by (simp add: wpre_calls)
  show ?thesis
    unfolding evaluateRequirement_def
  proof (rule wpre_seq [OF get], goal_cases)
    case (1 t x)
    then obtain r where r: "t = [(Get KPromise [] (rp_Name req), r)]" "x = as_obj un_promise r" by blast
    show ?case
    proof (cases "\<exists>q. r = RObj (OPromise q)")
      case True
      then obtain q where q: "r = RObj (OPromise q)" by blast
      then have x: "x = Inr q" using r(2) by (simp add: as_obj_def)
      let ?s = "p_Status q"
      let ?judge = "if pst_Version ?s \<noteq> rp_Version req \<or> pst_Status ?s \<noteq> PromiseStatusAvailable then
          (let (reason, state) = generateRequirementState (pst_Version ?s) (rp_Version req) (pst_Status ?s);
               condition = updateConditionNotFulfilled c reason ''Requirements not fulfilled'' in
           bnd (call_event (OPromise p) EventTypeNormal reason (''Waiting for required Promise '' @ promise_name q @ '': '' @ state @ '' '')) (\<lambda>_.
           Ret (state, condition)))
        else Ret (requirementStateInstalled, c)"
      have judge: "wpre ?judge (\<lambda>t oc. \<exists>st c'. oc = Returned (st, c') \<and> made promise_asked t = [] \<and> (st = requirementStateInstalled \<longleftrightarrow> requirement_met req r) \<and>
          c_Status c' = (if requirement_met req r \<or> c_Status c = ConditionUnknown then c_Status c else ConditionFalse))"
        using states by (auto simp: generateRequirementState_def Let_def wpre_bnd wpre_calls q requirement_met_def updateConditionNotFulfilled_def)
      have inner: "wpre (bnd ?judge (\<lambda>(state, condition). bnd (markRequiredPromiseAsRequired (rp_Version req) p q) (\<lambda>_. Ret (state, condition))))
          (\<lambda>t oc. \<exists>st c'. oc = Returned (st, c') \<and> made promise_asked t = [] \<and> told p req q t \<and> (st = requirementStateInstalled \<longleftrightarrow> requirement_met req r) \<and>
            c_Status c' = (if requirement_met req r \<or> c_Status c = ConditionUnknown then c_Status c else ConditionFalse))"
      proof (rule wpre_seq [OF judge], goal_cases)
        case (1 t' y)
        obtain st c' where y: "y = (st, c')" by (cases y)
        show ?case
          unfolding y prod.case by (rule wpre_mono [OF one]) (use 1 y in \<open>auto simp: told_def\<close>)
      qed simp
      show ?thesis
        unfolding x sum.case Let_def [of "p_Status q"] r(1)
      proof (rule wpre_seq [OF inner], goal_cases)
        case (1 t' y)
        then obtain st c' where y: "y = (st, c')" "made promise_asked t' = []" "told p req q t'" "st = requirementStateInstalled \<longleftrightarrow> requirement_met req r"
          "c_Status c' = (if requirement_met req r \<or> c_Status c = ConditionUnknown then c_Status c else ConditionFalse)" by auto
        then have "answered p req r ((Get KPromise [] (rp_Name req), r) # t') \<lparr>rps_Name = rp_Name req, rps_Version = rp_Version req, rps_State = st\<rparr>"
          unfolding answered_def told_def q by auto
        with y show ?case by (auto simp: wpre_basic)
      qed simp
    next
      case False
      with bad r(2) obtain e where x: "x = Inl e" by blast
      have "\<not> requirement_met req r" using False by (auto simp: requirement_met_def)
      then show ?thesis
        unfolding x r(1) using False states by (auto simp: wpre_bnd wpre_calls answered_def updateConditionNotFulfilled_def)
    qed
  qed auto
qed


definition judged ::
  "Promise \<Rightarrow> RequiredPromise list \<Rightarrow> resp list \<Rightarrow> gtrace \<Rightarrow> condition \<Rightarrow> RequiredPromiseStatus list \<Rightarrow> bool" where
  "judged p required rs t c sts \<longleftrightarrow> length rs = length required \<and> length sts = length required \<and>
     (\<forall>i<length required. (Get KPromise [] (rp_Name (required ! i)), rs ! i) \<in> set t \<and> answered p (required ! i) (rs ! i) t (sts ! i)) \<and>
     c_Status c = (if \<forall>i<length required. requirement_met (required ! i) (rs ! i) then ConditionTrue else ConditionFalse)"

lemma judged_mono: "judged p pre rs t c sts \<Longrightarrow> set t \<subseteq> set t' \<Longrightarrow> judged p pre rs t' c sts"
  unfolding judged_def using answered_mono by blast

lemma judged_step:
  assumes "judged p pre rs t c sts" and "(Get KPromise [] (rp_Name req), r) \<in> set t'" and "answered p req r t' st"
    and "c_Status c' = (if requirement_met req r \<or> c_Status c = ConditionUnknown then c_Status c else ConditionFalse)"
  shows "judged p (pre @ [req]) (rs @ [r]) (t @ t') c' (sts @ [st])"
proof -
  have "answered p req r (t @ t') st" by (rule answered_mono [OF assms(3)]) simp
  with judged_mono [OF assms(1), of "t @ t'"] assms(2,4) show ?thesis
    unfolding judged_def by (auto simp: nth_append less_Suc_eq consts_defs)
qed

lemma judged_more:
  "\<exists>rs. judged p pre rs t c sts \<Longrightarrow> (Get KPromise [] (rp_Name req), r) \<in> set t' \<Longrightarrow> answered p req r t' st \<Longrightarrow>
   c_Status c' = (if requirement_met req r \<or> c_Status c = ConditionUnknown then c_Status c else ConditionFalse) \<Longrightarrow>
   \<exists>rs. judged p (pre @ [req]) rs (t @ t') c' (sts @ [st])"
  using judged_step by blast

lemma requirements_loop:
  assumes "c_Status c0 = ConditionTrue"
  shows "wpre (for_range required (c0, []) (\<lambda>req (condition, requirements).
        bnd (evaluateRequirement p req condition) (\<lambda>(requirement, condition). Ret (Next (condition, requirements @ [requirement])))))
      (\<lambda>t oc. \<exists>c sts rs. oc = Returned (Next (c, sts)) \<and> made promise_asked t = map rp_Name required \<and> judged p required rs t c sts)"
proof (rule wpre_for_range [where I = "\<lambda>pre t (c, sts). made promise_asked t = map rp_Name pre \<and> (\<exists>rs. judged p pre rs t c sts)"], goal_cases)
  case 1
  then show ?case using assms by (simp add: judged_def)
next
  case (2 pre req rest s t)
  obtain c sts where s: "s = (c, sts)" by (cases s)
  show ?case
    unfolding s prod.case by (rule wpre_seq [OF evaluateRequirement_result]) (use 2 s in \<open>auto simp: wpre_basic intro!: judged_more\<close>)
qed auto

text \<open>
  C17. The requirements of a Promise are reported as they are. Each required Promise is asked for once, in order; the state
  recorded for it is \<open>installed\<close> exactly when the answer is that Promise, at the required version and available; a required Promise that
  was found is told who requires it. The condition \<open>RequirementsFulfilled\<close> is true exactly when every requirement is met, and
  false otherwise.
\<close>

theorem requirements_reported:
  assumes "exec (generateStatusAndMarkRequirements p) t (Returned (c, sts))"
  defines "required \<equiv> psp_RequiredPromises (p_Spec p)"
  shows "made promise_asked t = map rp_Name required \<and> (\<exists>rs. length rs = length required \<and> length sts = length required \<and>
    (\<forall>i<length required. (Get KPromise [] (rp_Name (required ! i)), rs ! i) \<in> set t \<and> answered p (required ! i) (rs ! i) t (sts ! i)) \<and>
    c_Status c = (if \<forall>i<length required. requirement_met (required ! i) (rs ! i) then ConditionTrue else ConditionFalse))"
proof -
  let ?ok = "\<lambda>t c sts. made promise_asked t = map rp_Name required \<and> (\<exists>rs. judged p required rs t c sts)"
  have start: "wpre (condition_now ty ConditionTrue ms rn) (\<lambda>t oc. \<exists>c x. oc = Returned c \<and> c_Status c = ConditionTrue \<and> t = [(Now, x)])" for ty ms rn
    by (simp add: condition_now_def wpre_bnd wpre_calls)
  have loop: "wpre (after_loop (for_range required (c0, []) (\<lambda>req (condition, requirements).
        bnd (evaluateRequirement p req condition) (\<lambda>(requirement, condition). Ret (Next (condition, requirements @ [requirement])))))
       (\<lambda>(condition, requirements). bnd (if c_Status condition = ConditionTrue \<and> length required > 0
          then call_event (OPromise p) EventTypeNormal ''RequirementsFulfilled'' ''All required promises are available'' else Ret ()) (\<lambda>_.
        Ret (condition, requirements)))) (\<lambda>t oc. \<forall>c sts. oc = Returned (c, sts) \<longrightarrow> ?ok t c sts)" if "c_Status c0 = ConditionTrue" for c0
    unfolding after_loop_def
  proof (rule wpre_seq [OF requirements_loop [OF that]], goal_cases)
    case (1 t l)
    then obtain c sts rs where l: "l = Next (c, sts)" and made: "made promise_asked t = map rp_Name required" and j: "judged p required rs t c sts" by blast
    have "judged p required rs (t @ t') c sts" for t' by (rule judged_mono [OF j]) simp
    with j made show ?case unfolding l by (auto simp: wpre_simps)
  qed simp
  have "wpre (generateStatusAndMarkRequirements p) (\<lambda>t oc. \<forall>c sts. oc = Returned (c, sts) \<longrightarrow> ?ok t c sts)"
    unfolding generateStatusAndMarkRequirements_def required_def [symmetric]
  proof (rule wpre_seq [OF start], goal_cases)
    case (1 t c0)
    then obtain x where t: "t = [(Now, x)]" and "c_Status c0 = ConditionTrue" by blast
    have "\<exists>rs. judged p required rs ((Now, x) # t') c sts" if "judged p required rs t' c sts" for rs t' c sts
      using judged_mono [OF that] by (meson set_subset_Cons)
    with loop [OF \<open>c_Status c0 = ConditionTrue\<close>] show ?case by (elim wpre_mono) (auto simp: t)
  qed simp
  from wpreD [OF assms(1) this] show ?thesis unfolding judged_def by blast
qed


definition ex_requiring :: Promise where
  "ex_requiring = ex_promise\<lparr>p_Spec := (p_Spec ex_promise)\<lparr>psp_RequiredPromises := [\<lparr>rp_Name = ''postgres'', rp_Version = ''v2''\<rparr>]\<rparr>\<rparr>"

definition ex_required :: "string \<Rightarrow> Promise" where
  "ex_required v = on_status (\<lambda>s. s\<lparr>pst_Version := v, pst_Status := PromiseStatusAvailable\<rparr>) ex_promise"

theorem requirements_reported_witness:
  "\<exists>t c st. exec (generateStatusAndMarkRequirements ex_requiring) t (Returned (c, [st])) \<and> c_Status c = ConditionFalse \<and>
     rps_State st \<noteq> requirementStateInstalled"
proof -
  let ?old = "RObj (OPromise (ex_required ''v1''))"
  have "\<exists>t c st. script (generateStatusAndMarkRequirements ex_requiring) [RTime 3, ?old, ROk, ROk] = Some (t, Returned (c, [st])) \<and>
      made promise_asked t = [''postgres''] \<and> (\<forall>r. (Get KPromise [] ''postgres'', r) \<in> set t \<longrightarrow> r = ?old)"
    by (simp add: generateStatusAndMarkRequirements_def condition_now_def evaluateRequirement_def markRequiredPromiseAsRequired_def PromiseStatusUpdate_def
        generateRequirementState_def updateConditionNotFulfilled_def ex_requiring_def ex_required_def ex_promise_def on_status_def ex_defs after_loop_def call_defs consts_defs Let_def)
  then obtain t c st where e: "exec (generateStatusAndMarkRequirements ex_requiring) t (Returned (c, [st]))"
    and r: "\<forall>r. (Get KPromise [] ''postgres'', r) \<in> set t \<longrightarrow> r = ?old" by (metis script_exec)
  have req: "psp_RequiredPromises (p_Spec ex_requiring) = [\<lparr>rp_Name = ''postgres'', rp_Version = ''v2''\<rparr>]" by (simp add: ex_requiring_def)
  have "\<not> requirement_met \<lparr>rp_Name = ''postgres'', rp_Version = ''v2''\<rparr> ?old"
    by (simp add: requirement_met_def ex_required_def on_status_def)
  with requirements_reported [OF e] r have "c_Status c = ConditionFalse \<and> rps_State st \<noteq> requirementStateInstalled"
    by (auto simp: req answered_def)
  with e show ?thesis by blast
qed

subsection \<open>Announcing a Promise as available\<close>

definition announces :: "req \<Rightarrow> Promise \<Rightarrow> bool" where
  "announces q p \<longleftrightarrow> q = Event (OPromise p) ''Normal'' ''Available'' ''Promise is available''"

definition established_seen :: "gtrace \<Rightarrow> bool" where
  "established_seen t \<longleftrightarrow> (\<exists>n c. (Get KCRD [] n, RObj (OCRD c)) \<in> set t \<and>
     list_ex (\<lambda>cond. jc_Type cond = Established \<and> jc_Status cond = ConditionTrue) (crd_Conditions c))"

definition controller_serving :: "gtrace \<Rightarrow> bool" where
  "controller_serving t \<longleftrightarrow> (\<exists>n c x. (StoreController n c, x) \<in> set t \<and> rc_CanCreateResources c)"

definition all_installed :: "Promise \<Rightarrow> bool" where
  "all_installed p \<longleftrightarrow> (\<forall>st\<in>set (pst_RequiredPromises (p_Status p)). rps_State st = requirementStateInstalled)"

definition available_ok :: "gtrace \<Rightarrow> req \<times> resp \<Rightarrow> bool" where
  "available_ok t x \<longleftrightarrow> (\<forall>p. announces (fst x) p \<and> ContainsAPI p \<longrightarrow> established_seen t \<and> controller_serving t \<and> all_installed p)"

lemma seen_later: "established_seen t \<Longrightarrow> established_seen (t' @ t)" "established_seen t \<Longrightarrow> established_seen (t @ t')"
  "controller_serving t \<Longrightarrow> controller_serving (t' @ t)" "controller_serving t \<Longrightarrow> controller_serving (t @ t')"
  unfolding established_seen_def controller_serving_def set_append by blast+

interpretation avail: trace_guard available_ok
  by unfold_locales (auto simp: available_ok_def intro: seen_later)

lemma avail_aside: "only aside m \<Longrightarrow> only avail.unguarded m"
  by (erule only_mono) (auto simp: avail.unguarded_def available_ok_def announces_def)

lemma avail_ensure: "only avail.unguarded (ensureDynamicControllerIsStarted L r p c g b)"
  unfolding ensureDynamicControllerIsStarted_def dynamicControllerHasAlreadyStarted_def load_controller_def store_controller_def slice_to_def Let_def
  by (auto intro!: only_intros simp: avail.unguarded_def available_ok_def announces_def)

lemma ensure_serving:
  assumes "exec (ensureDynamicControllerIsStarted L r p c g b) t (Returned e)" and "b"
  shows "controller_serving t"
proof -
  have "wpre (ensureDynamicControllerIsStarted L r p c g True) (\<lambda>t oc. \<forall>e. oc = Returned e \<longrightarrow> controller_serving t)"
    by (cases L p rule: GetDynamicControllerName_cases)
      (auto simp: ensureDynamicControllerIsStarted_def dynamicControllerHasAlreadyStarted_def load_controller_def store_controller_def slice_to_def
        deref_def call_unit_def controller_serving_def Let_def split: resp.split option.split)
  moreover from assms have "exec (ensureDynamicControllerIsStarted L r p c g True) t (Returned e)" by simp
  ultimately show ?thesis by (blast dest: wpreD)
qed

lemma ensureCRD_established:
  assumes "exec (ensureCRDExists L p c) t (Returned (None, None))"
  shows "established_seen t"
proof -
  have "wpre (ensureCRDExists L p c) (\<lambda>t oc. oc = Returned (None, None) \<longrightarrow> established_seen t)"
    unfolding ensureCRDExists_def PromiseUpdateStatus_def PromiseStatusUpdate_def Let_def
    by (auto simp: wpre_bnd wpre_calls wpre_basic established_seen_def crds.as_obj_mk split: option.split sum.split prod.split outcome.splits)
  from wpreD [OF assms this] show ?thesis by blast
qed


lemmas avail_parts = aside_parts [THEN avail_aside]

lemma updateConditionOnPromise_keeps:
  "ContainsAPI (fst (updateConditionOnPromise p c)) = ContainsAPI p" "all_installed (fst (updateConditionOnPromise p c)) = all_installed p"
  by (simp_all add: updateConditionOnPromise_def on_status_def ContainsAPI_def DoesNotContainAPI_def all_installed_def split: prod.split)

lemma avail_finish:
  assumes "avail.guarded t" and "ContainsAPI p \<Longrightarrow> established_seen t \<and> controller_serving t \<and> all_installed p"
  shows "wpre (finishPromise L r s p) (\<lambda>t' oc. avail.guarded (t @ t'))"
proof -
  have set: "wpre (setPromiseStatusToAvailable p) (\<lambda>t' oc. avail.guarded (t @ t'))"
    unfolding setPromiseStatusToAvailable_def Let_def
  proof (rule avail.guarded_seq [OF _ assms(1)], goal_cases)
    case 1
    show ?case by (rule avail_aside) (auto intro: only_intros)
  next
    case (2 t' now)
    let ?p = "fst (updateConditionOnPromise (on_status (\<lambda>s. s\<lparr>pst_Status := PromiseStatusAvailable, pst_LastAvailableTime := Some now\<rparr>) p)
        (promiseAvailableStatusCondition now))"
    have "ContainsAPI ?p = ContainsAPI p" "all_installed ?p = all_installed p"
      by (simp_all only: updateConditionOnPromise_keeps) (simp_all add: on_status_def ContainsAPI_def DoesNotContainAPI_def all_installed_def)
    then have ok: "available_ok (t @ t') (Event (OPromise ?p) ''Normal'' ''Available'' ''Promise is available'', x)" for x
      using assms(2) by (auto simp: available_ok_def announces_def intro: seen_later)
    have "wpre (bnd (updatePromiseStatus ?p) (\<lambda>(result, _). Ret result)) (\<lambda>t'' oc. avail.guarded (((t @ t') @ [y]) @ t''))"
      if "avail.guarded ((t @ t') @ [y])" for y
      by (rule avail.guarded_rest [OF avail_aside that]) (auto intro!: only_intros aside_updates)
    then show ?case
      unfolding wpre_bnd [of "call_event _ _ _ _"] wpre_calls using avail.guarded_snoc [OF 2(2) ok] by simp
  qed
  show ?thesis
    unfolding finishPromise_def Let_def
    by (rule wpre_ifI, rule set, rule avail.guarded_rest [OF avail_aside assms(1)])
      (auto intro!: only_intros aside_status aside_updates split: prod.split)
qed

lemma avail_serve:
  assumes "avail.guarded t" and "api \<noteq> None \<longrightarrow> established_seen t"
  shows "wpre (serveRequests L r s api p) (\<lambda>t' oc. avail.guarded (t @ t'))"
proof (cases "ContainsAPI p \<and> api \<noteq> None")
  case True
  then obtain c g where api: "api = Some (c, g)" by force
  let ?can = "list_all (\<lambda>req. rps_State req = requirementStateInstalled) (pst_RequiredPromises (p_Status p))"
  have can: "?can \<longleftrightarrow> all_installed p" by (simp add: all_installed_def list_all_iff)
  show ?thesis
    unfolding serveRequests_def api deref_Some bnd.simps prod.case Let_def
  proof (rule wpre_ifI, use True in simp, rule avail.guarded_seq [OF avail_ensure assms(1)], goal_cases)
    case old: (1 t' e)
    note 1 = old(2,3)
    have fin: "wpre (finishPromise L r s p) (\<lambda>t'' oc. avail.guarded ((t @ t') @ t''))" if "?can"
      using assms(2) ensure_serving [OF 1(1) that] that can api by (intro avail_finish [OF 1(2)]) (auto intro: seen_later)
    show ?case
      by (intro wpre_ifI avail.guarded_Ret [OF 1(2)] avail.guarded_rest [OF _ 1(2)] fin avail_parts) auto
  qed
next
  case False
  then show ?thesis
    unfolding serveRequests_def using assms(1) by (cases api) (auto intro!: avail_finish simp: deref_def)
qed

lemma avail_workflows:
  assumes "avail.guarded t" and "api \<noteq> None \<longrightarrow> established_seen t"
  shows "wpre (installPromiseWorkflows L D r s api p) (\<lambda>t' oc. avail.guarded (t @ t'))"
proof -
  have run: "wpre (bnd (reconcileDependenciesAndPromiseWorkflows L D r p u) (\<lambda>((ctrlResult, err), promise).
      if err \<noteq> None then Ret (no_requeue, err) else (case ctrlResult of Some result \<Rightarrow> Ret (result, None) | None \<Rightarrow> serveRequests L r s api promise)))
    (\<lambda>t' oc. avail.guarded (t @ t'))" for u
  proof (rule avail.guarded_seq [OF avail_aside [OF aside_dependencies] assms(1)], goal_cases)
    case (1 t' x)
    have "wpre (serveRequests L r s api q) (\<lambda>t'' oc. avail.guarded ((t @ t') @ t''))" for q
      using assms(2) by (intro avail_serve [OF 1(2)]) (auto intro: seen_later)
    then show ?case using 1(2) by (auto simp: wpre_basic split: prod.split option.split)
  qed
  show ?thesis
    unfolding installPromiseWorkflows_def
  proof (rule wpre_ifI)
    show "wpre (addFinalizers L (OPromise p) [dependenciesCleanupFinalizer]) (\<lambda>t' oc. avail.guarded (t @ t'))"
      by (intro avail.guarded_rest [OF _ assms(1)] avail_parts)
  qed (use run assms(1) in \<open>auto simp: wpre_basic split: sum.split\<close>)
qed

lemma avail_api:
  assumes "avail.guarded t"
  shows "wpre (installAPI L D r s p) (\<lambda>t' oc. avail.guarded (t @ t'))"
  unfolding installAPI_def
proof (rule wpre_ifI, rule avail_workflows [OF assms], simp, rule avail.guarded_seq [OF only_generateCRDAndGVK assms], goal_cases)
  case gen: (1 t' res)
  show ?case
  proof (cases res)
    case (Inr y)
    obtain c g where y: "y = (c, g)" by (cases y)
    show ?thesis
      unfolding Inr y sum.case prod.case
    proof (rule avail.guarded_seq [OF avail_aside [OF aside_api(1)] gen(3)], goal_cases)
      case crd: (1 t'' z)
      obtain requeue err where z: "z = (requeue, err)" by (cases z)
      have rest: "wpre (bnd (createResourcesForDynamicControllerIfTheyDontExist L p c g) (\<lambda>err.
           if err \<noteq> None then Ret (no_requeue, err)
           else if DoesNotContainFinalizer L (p_finalizers p) dynamicControllerDependantResourcesCleanupFinalizer
           then addFinalizers L (OPromise p) [dynamicControllerDependantResourcesCleanupFinalizer]
           else installPromiseWorkflows L D r s (Some (c, g)) p)) (\<lambda>u oc. avail.guarded (((t @ t') @ t'') @ u))"
        if "requeue = None" and "err = None"
      proof (rule avail.guarded_seq [OF avail_aside [OF aside_api(2)] crd(2)], goal_cases)
        case (1 u e)
        have "established_seen t''" using ensureCRD_established crd(1) that z by simp
        then have "established_seen ((((t @ t') @ t'') @ u))" by (intro seen_later)
        then show ?case by (intro wpre_ifI avail.guarded_Ret [OF 1(2)] avail.guarded_rest [OF _ 1(2)] avail_workflows [OF 1(2)] avail_parts) auto
      qed
      show ?case
        unfolding z prod.case
        by (cases requeue; simp only: option.case; intro wpre_ifI avail.guarded_Ret [OF crd(2)] avail.guarded_rest [OF _ crd(2)] rest avail_parts)
          auto
    qed
  qed (use gen(3) in \<open>simp add: avail.guarded_Ret\<close>)
qed

text \<open>
  C3. A Promise with an API is announced as available only when it can serve requests: in the pass that announces it, the custom
  resource definition of its API was found established, the controller of its resource requests was told that it may create
  resources, and every requirement in the status that is written is recorded as installed.
\<close>

theorem Promise_available_when_served:
  assumes "exec (PromiseReconcile L D r name) (t1 @ x # t2) oc"
    and "announces (fst x) p" and "ContainsAPI p"
  shows "established_seen t1 \<and> controller_serving t1 \<and> all_installed p"
proof -
  have quiet: "avail.unguarded q" if "\<And>p. \<not> announces q p" for q using that by (simp add: avail.unguarded_def available_ok_def)
  have delete: "only avail.unguarded (deletePromise L D r q)" for q
    unfolding deletePromise_def runPromiseDeleteWorkflows_def deletePromiseWorkflowJobs_def deleteDynamicControllerAndWorkflowResources_def
      PromiseDeleteWork_def deleteCRDs_def deleteResourceRequests_def disableDynamicController_def load_controller_def store_controller_def Let_def
    by (auto intro!: only_intros avail_parts avail_ensure avail_aside [OF aside_GeneratePromisePipelines] avail_aside [OF aside_workflow(2)] local_names quiet
        simp: announces_def split: prod.split)
  have rec: "wpre (reconcilePromise L D r q) (\<lambda>t' oc. avail.guarded ([] @ t'))" for q
    unfolding reconcilePromise_def Let_def
  proof (rule avail.guarded_seq [OF _ avail.guarded_Nil], goal_cases)
    case (2 t q)
    note start = 2(2)
    show ?case
    proof (rule avail.guarded_seq [OF avail_aside [OF aside_requirements] start], goal_cases)
      case (1 t' x)
      obtain changed q' where x: "x = (changed, q')" by (cases x)
      show ?case
        unfolding x prod.case
      proof (rule wpre_ifI, rule avail.guarded_rest [OF _ 1(2)], rule avail_parts, rule avail.guarded_seq [OF _ 1(2)], goal_cases)
        case (2 t'' y)
        then show ?case by (auto simp: wpre_basic split: prod.split option.split intro!: avail_api [of "t @ t' @ t''", simplified])
      qed (rule avail_parts)
    qed
  qed (rule avail_parts)
  have paused: "only avail.unguarded (bnd (call_event (OPromise q) EventTypeWarning pausedReconciliationReason pausedMessage) (\<lambda>_.
      bnd (PromiseSetPausedReconciliationStatusConditions q) (\<lambda>e. Ret (no_requeue, e))))" for q
    by (auto intro!: only_intros avail_parts quiet simp: announces_def consts_defs)
  have free: "only avail.unguarded m \<Longrightarrow> avail.keeps m" for m :: "'a go"
    by (rule avail.keepsI, rule avail.guarded_rest [OF _ avail.guarded_Nil])
  have keep: "avail.keeps (updatePromiseStatus q)" "avail.keeps (call_obj (Get k ns n) sel)" for q k ns n and sel :: "kobj \<Rightarrow> Promise option"
    by (rule avail.keepsI, rule avail.guarded_rest [OF _ avail.guarded_Nil], rule avail_aside, auto intro: only_intros aside_updates)+
  have "avail.keeps (PromiseReconcile L D r name)"
    unfolding PromiseReconcile_def
    by (auto intro!: avail.keeps_bnd [OF keep(1)] avail.keeps_bnd [OF keep(2)] avail.keeps_Ret avail.keepsI [OF rec] free [OF delete] free [OF paused]
        split: sum.split option.split prod.split)
  from avail.keepsD [OF this assms(1)] assms(2,3) show ?thesis by (auto simp: available_ok_def)
qed


subsection \<open>Concrete passes\<close>

definition ex_crd :: crd where
  "ex_crd = \<lparr>crd_meta = empty_meta\<lparr>m_Name := ''crd''\<rparr>, crd_TypeKind = [], crd_APIVersion = [], crd_Group = [], crd_Kind = [], crd_Plural = [], crd_Singular = [],
     crd_OtherNames = [], crd_Scope = [], crd_Versions = [], crd_Conversion = None, crd_PreserveUnknownFields = False,
     crd_Conditions = [\<lparr>jc_Type = ''Established'', jc_Status = ''True''\<rparr>]\<rparr>"

text \<open>A Promise with everything in place, but for what differs: its API, its requirements, its workflow.\<close>

definition ex_ready :: "string option \<Rightarrow> RequiredPromise list \<Rightarrow> RequiredPromiseStatus list \<Rightarrow> string \<Rightarrow> unstructured list \<Rightarrow> Promise" where
  "ex_ready api required sts fulfilled flow = \<lparr>p_meta = (ex_meta ''redis'')\<lparr>m_UID := ''0123456789'', m_Finalizers := butlast promiseFinalizers, m_Generation := 1\<rparr>,
     p_gvk = p_gvk ex_promise,
     p_Spec = \<lparr>psp_API = api, psp_WorkflowsResource = \<lparr>wt_Configure = [], wt_Delete = []\<rparr>,
       psp_WorkflowsPromise = \<lparr>wt_Configure = flow, wt_Delete = []\<rparr>,
       psp_RequiredPromises = required, psp_Dependencies = [], psp_DestinationSelectors = []\<rparr>,
     p_Status = \<lparr>pst_Conditions = [mk_cond ''RequirementsFulfilled'' fulfilled [] [], mk_cond ''Available'' ''False'' [] []], pst_Version = [], pst_ObservedGeneration = 1,
       pst_Kind = ''Redis'', pst_APIVersion = ''example.com/v1'', pst_Status = ''Unavailable'', pst_Workflows = 0, pst_WorkflowsSucceeded = 0, pst_WorkflowsFailed = 0,
       pst_RequiredPromises = sts, pst_RequiredBy = [], pst_LastAvailableTime = None\<rparr>\<rparr>"

lemmas pass_eval = serve_eval reconcilePromise_def set_condition_def promiseUnavailableStatusCondition_def condition_now_def updateConditionOnPromise_def
  p_conditions_def on_status_def hasPromiseRequirementsChanged_def generateStatusAndMarkRequirements_def evaluateRequirement_def
  updateRequirementsStatusOnPromise_def updateConditionNotFulfilled_def ensurePromiseDeleteWorkflowFinalizer_def HasPipeline_def installAPI_def ContainsAPI_def
  DoesNotContainAPI_def ensureCRDExists_def PromiseUpdateStatus_def storageVersion_def DoesNotContainFinalizer_def
  createResourcesForDynamicControllerIfTheyDontExist_def installPromiseWorkflows_def reconcileDependenciesAndPromiseWorkflows_def
  deleteWorkForStaticDependencies_def GetWork_def getExistingWorks_def getWorkflowsCount_def PromiseUpdateWorkflowStatusCountersToZero_def refreshing_def
  serveRequests_def shouldReconcileResources_def finishPromise_def setPromiseStatusToAvailable_def updatePromiseStatus_def ex_ready_def ex_crd_def mk_cond_def
  to_lower_def

theorem Promise_available_when_served_witness:
  "\<exists>t1 x t2 oc p. exec (PromiseReconcile plain_lib ex_defaults ex_reconciler ''redis'') (t1 @ x # t2) oc \<and> announces (fst x) p \<and>
     established_seen t1 \<and> controller_serving t1"
proof -
  let ?p = "ex_ready (Some ''crd'') [] [] ''True'' []"
  have "\<exists>t p. script (PromiseReconcile plain_lib ex_defaults ex_reconciler ''redis'')
      [RObj (OPromise ?p), RTime 3, RTime 3, RErr (EApi ReasonAlreadyExists []), RObj (OCRD ex_crd), ROk, RObj (OCRD ex_crd),
       RErr (EApi ReasonNotFound []), RStored ''created'' (OClusterRole \<lparr>ro_meta = empty_meta, ro_Rules = []\<rparr>),
       RErr (EApi ReasonNotFound []), RStored ''created'' (OClusterRoleBinding \<lparr>rb_meta = empty_meta, rb_RoleRef = \<lparr>rr_Kind = [], rr_APIGroup = [], rr_Name = []\<rparr>, rb_Subjects = []\<rparr>),
       RList [], ROk, ROk, ROk, RTime 4, ROk, RObj (OPromise ?p)] = Some (t @ [(Event (OPromise p) ''Normal'' ''Available'' ''Promise is available'', ROk), (StatusUpdate (OPromise p), RObj (OPromise ?p))],
        Returned (no_requeue, None)) \<and> ContainsAPI p"
    by (simp add: pass_eval)
  then obtain t p where e: "exec (PromiseReconcile plain_lib ex_defaults ex_reconciler ''redis'')
      (t @ (Event (OPromise p) ''Normal'' ''Available'' ''Promise is available'', ROk) # [(StatusUpdate (OPromise p), RObj (OPromise ?p))])
      (Returned (no_requeue, None))" and "ContainsAPI p" by (auto dest!: script_exec)
  with Promise_available_when_served [OF e, of p] have "announces (fst (Event (OPromise p) ''Normal'' ''Available'' ''Promise is available'', ROk :: resp)) p \<and>
      established_seen t \<and> controller_serving t" by (simp add: announces_def)
  with e show ?thesis by blast
qed

text \<open>
  Without an API the requirements are not looked at again: a Promise whose requirement is not installed is announced as available
  and reported so, the second time it is looked at.
\<close>

lemma available_without_requirements:
  "\<exists>t p x oc. exec (PromiseReconcile plain_lib ex_defaults ex_reconciler ''redis'') t oc \<and>
     (Get KPromise [] ''postgres'', RErr (EApi ReasonNotFound [])) \<in> set t \<and> (StatusUpdate (OPromise p), x) \<in> set t \<and>
     psp_RequiredPromises (p_Spec p) = [\<lparr>rp_Name = ''postgres'', rp_Version = ''v2''\<rparr>] \<and> pst_Status (p_Status p) = PromiseStatusAvailable"
proof -
  let ?p = "ex_ready None [\<lparr>rp_Name = ''postgres'', rp_Version = ''v2''\<rparr>]
      [\<lparr>rps_Name = ''postgres'', rps_Version = ''v2'', rps_State = requirementStateNotInstalled\<rparr>] ''False'' []"
  have "\<exists>t p. script (PromiseReconcile plain_lib ex_defaults ex_reconciler ''redis'')
      [RObj (OPromise ?p), RTime 3, RTime 3, RErr (EApi ReasonNotFound []), ROk, RList [], RTime 4, ROk, RObj (OPromise ?p)] = Some (t, Returned (no_requeue, None)) \<and>
      (Get KPromise [] ''postgres'', RErr (EApi ReasonNotFound [])) \<in> set t \<and> (StatusUpdate (OPromise p), RObj (OPromise ?p)) \<in> set t \<and>
      psp_RequiredPromises (p_Spec p) = [\<lparr>rp_Name = ''postgres'', rp_Version = ''v2''\<rparr>] \<and> pst_Status (p_Status p) = PromiseStatusAvailable"
    by (simp add: pass_eval)
  then show ?thesis by (metis script_exec)
qed

text \<open>A Promise is reported as available before the first job of its configure workflow was looked for.\<close>

lemma available_before_workflow:
  "\<exists>t p x oc. exec (PromiseReconcile plain_lib ex_defaults ex_reconciler ''redis'') t oc \<and>
     (StatusUpdate (OPromise p), x) \<in> set t \<and> pst_Status (p_Status p) = PromiseStatusAvailable \<and>
     HasPipeline p WorkflowTypePromise WorkflowActionConfigure \<and> (\<forall>ns sel y. (ListObjs KJob ns sel, y) \<notin> set t)"
proof -
  let ?p = "ex_ready None [] [] ''True'' (wt_Configure (psp_WorkflowsPromise (p_Spec ex_promise)))"
  have "\<exists>t p. script (PromiseReconcile plain_lib ex_defaults ex_reconciler ''redis'')
      [RObj (OPromise ?p), RTime 3, RTime 3, RList [], RObj (OPromise ?p), RTime 4, ROk, RObj (OPromise ?p)] = Some (t, Returned (no_requeue, None)) \<and>
      (StatusUpdate (OPromise p), RObj (OPromise ?p)) \<in> set t \<and> pst_Status (p_Status p) = PromiseStatusAvailable \<and>
      HasPipeline p WorkflowTypePromise WorkflowActionConfigure \<and> (\<forall>ns sel y. (ListObjs KJob ns sel, y) \<notin> set t)"
    by (simp add: pass_eval)
  then show ?thesis by (metis script_exec)
qed

end
