(* ===== verification/PromiseReleaseController.thy ===== *)
theory PromiseReleaseController
  imports PromiseController
begin

text \<open>
  \<open>src/internal/controller/promiserelease_controller.go\<close>: the controller of promise releases, which fetches a Promise
  from a URL and installs it; \<open>src/lib/fetchers/url.go\<close>: the fetcher; and the secret of a release
  (\<open>src/api/v1alpha1/promiserelease_types.go\<close>).

  The HTTP client, the YAML decoder and the conversion of an unstructured object are outside the sources; the decoder gives the
  documents of a body by their number. Logging and the registration with the manager are left out.
\<close>

subsection \<open>Fetching a Promise\<close>

definition TypeHTTP :: string where [consts_defs]: "TypeHTTP = ''http''"

definition StatusOK :: int where "StatusOK = 200"

definition as_http :: "resp \<Rightarrow> err + int \<times> string" where
  "as_http r = (case r of RErr e \<Rightarrow> Inl e | RHttp code body \<Rightarrow> Inr (code, body) | _ \<Rightarrow> Inl decode_error)"

text \<open>The body has to be one document, a Promise.\<close>

definition decodePromise :: "lib \<Rightarrow> string \<Rightarrow> err + Promise" where
  "decodePromise L body =
     (case L_DecodeDocument L body 0 of
        Inl e \<Rightarrow> Inl (EStr (''failed to unmarshal into Kubernetes object: '' @ err_msg e))
      | Inr unstructuredPromise \<Rightarrow>
          if g_Kind (u_gvk unstructuredPromise) \<noteq> ''Promise''
          then Inl (EStr (''expected single Promise object but found object of kind: '' @ g_Kind (u_gvk unstructuredPromise)))
          else
            (case L_PromiseFromUnstructured L unstructuredPromise of
               Inl e \<Rightarrow> Inl (EWrap ''failed to unmarshal into Promise: '' e)
             | Inr promise \<Rightarrow>
                 (case L_DecodeDocument L body 1 of
                    Inr _ \<Rightarrow> Inl (EStr ''expected single document yaml, but found multiple documents'')
                  | Inl _ \<Rightarrow> Inr promise)))"

definition FromURL :: "lib \<Rightarrow> string \<Rightarrow> string \<Rightarrow> (err + Promise) go" where
  "FromURL L urlString authHeader =
     (case L_NewRequest L urlString of
        Some e \<Rightarrow> Ret (Inl e)
      | None \<Rightarrow>
          Call (HttpGet urlString authHeader) (\<lambda>r. Ret
            (case as_http r of
               Inl e \<Rightarrow> Inl (EWrap ''failed to get url: '' e)
             | Inr (statusCode, body) \<Rightarrow>
                 if statusCode \<noteq> StatusOK
                 then Inl (EStr (''failed to get Promise from URL: status code '' @ itoa (nat statusCode)))
                 else decodePromise L body)))"

definition FetchSecretFromReference :: "PromiseRelease \<Rightarrow> (err + labels option) go" where
  "FetchSecretFromReference pr =
     (case src_SecretRef (prl_SourceRef pr) of
        None \<Rightarrow> Ret (Inr None)
      | Some ref \<Rightarrow>
          let ns = (if sr_Namespace ref \<noteq> [] then sr_Namespace ref else m_Namespace (prl_meta pr)) in
          bnd (call_obj (Get KSecret ns (sr_Name ref)) un_secret) (\<lambda>res.
          Ret (case res of Inl e \<Rightarrow> Inl e | Inr secret \<Rightarrow> Inr (Some (sec_Data secret)))))"

subsection \<open>The controller\<close>

definition promiseCleanupFinalizer :: string where [consts_defs]: "promiseCleanupFinalizer = ''kratix.io/promise-cleanup''"
definition statusInstalled :: string where [consts_defs]: "statusInstalled = ''Installed''"
definition statusErrorInstalling :: string where [consts_defs]: "statusErrorInstalling = ''Error installing''"
definition conditionMessageInstalled :: string where [consts_defs]: "conditionMessageInstalled = ''Installed successfully''"
definition conditionReasonInstalled :: string where [consts_defs]: "conditionReasonInstalled = ''InstalledSuccessfully''"

definition releaseQuery :: "PromiseRelease \<Rightarrow> req" where
  "releaseQuery promiseRelease =
     ListObjs KPromise [] (Some (MatchLabels (fmupd promiseReleaseNameLabel (m_Name (prl_meta promiseRelease)) fmempty)))"

text \<open>The error of the update is logged, no more.\<close>

definition updateStatusAndConditions :: "lib \<Rightarrow> PromiseRelease \<Rightarrow> string \<Rightarrow> string \<Rightarrow> string \<Rightarrow> unit go" where
  "updateStatusAndConditions L pr status conditionMessage conditionReason =
     (let existingCondition = L_FindStatusCondition L (prs_Conditions (prl_Status pr)) ''Installed'' in
      if (case existingCondition of
            None \<Rightarrow> False
          | Some c \<Rightarrow> c_Message c = conditionMessage \<and> c_Reason c = conditionReason)
      then Ret ()
      else
        (let conditionStatus = (if conditionMessage = conditionMessageInstalled then ConditionTrue else ConditionFalse) in
         bnd (SetStatusCondition L (prs_Conditions (prl_Status pr))
                (mk_cond ''Installed'' conditionStatus conditionReason conditionMessage)) (\<lambda>(conditions, _).
         bnd (call_unit (StatusUpdate (OPromiseRelease (pr\<lparr>prl_Status := \<lparr>prs_Status = status, prs_Conditions = conditions\<rparr>\<rparr>)))) (\<lambda>_.
         Ret ()))))"

definition validateVersion :: "lib \<Rightarrow> PromiseRelease \<Rightarrow> Promise \<Rightarrow> (err + bool) go" where
  "validateVersion L promiseRelease promise =
     (case fmlookup (m_Labels (p_meta promise)) PromiseVersionLabel of
        None \<Rightarrow>
          bnd (updateStatusAndConditions L promiseRelease statusErrorInstalling ''Version label not found on Promise'' ''VersionLabelNotFound'') (\<lambda>_.
          Ret (Inl (EStr (''version label ('' @ PromiseVersionLabel @ '') not found on promise; refusing to install''))))
      | Some promiseVersion \<Rightarrow>
          if prl_Version promiseRelease = [] then
            bnd (call_unit (Update (OPromiseRelease (promiseRelease\<lparr>prl_Version := promiseVersion\<rparr>)))) (\<lambda>e.
            Ret (case e of
                   Some e \<Rightarrow> Inl (EWrap ''failed to set promise release version: '' e)
                 | None \<Rightarrow> Inr True))
          else if promiseVersion \<noteq> prl_Version promiseRelease then
            bnd (updateStatusAndConditions L promiseRelease statusErrorInstalling
                   (''Version labels do not match, found: '' @ promiseVersion @ '', expected: '' @ prl_Version promiseRelease) ''VersionNotMatching'') (\<lambda>_.
            Ret (Inl (EStr (''version label on promise ('' @ promiseVersion @ '') does not match version on promise release ('' @
              prl_Version promiseRelease @ ''); refusing to install''))))
          else Ret (Inr False))"

text \<open>What is stored as the Promise, given the one that is there already (or an empty one).\<close>

definition installedPromise :: "lib \<Rightarrow> PromiseRelease \<Rightarrow> Promise \<Rightarrow> Promise \<Rightarrow> err + Promise" where
  "installedPromise L promiseRelease promise existingPromise =
     (let m = p_meta existingPromise;
          ls = fmupd promiseReleaseNameLabel (m_Name (prl_meta promiseRelease)) (L_MergeLabels L (m_Labels m) (m_Labels (p_meta promise)));
          m = m\<lparr>m_Labels := ls, m_Annotations := L_AddAnnotations L (m_Annotations m) (m_Annotations (p_meta promise))\<rparr> in
      case L_SetControllerReference L (prl_meta promiseRelease) m of
        Inl e \<Rightarrow> Inl e
      | Inr m \<Rightarrow> Inr (existingPromise\<lparr>p_meta := m, p_Spec := p_Spec promise\<rparr>))"

definition emptyPromise :: "string \<Rightarrow> Promise" where
  "emptyPromise name =
     \<lparr>p_meta = empty_meta\<lparr>m_Name := name\<rparr>, p_gvk = \<lparr>g_Group = [], g_Version = [], g_Kind = []\<rparr>,
      p_Spec = \<lparr>psp_API = None, psp_WorkflowsResource = \<lparr>wt_Configure = [], wt_Delete = []\<rparr>,
        psp_WorkflowsPromise = \<lparr>wt_Configure = [], wt_Delete = []\<rparr>, psp_RequiredPromises = [], psp_Dependencies = [], psp_DestinationSelectors = []\<rparr>,
      p_Status = \<lparr>pst_Conditions = [], pst_Version = [], pst_ObservedGeneration = 0, pst_Kind = [], pst_APIVersion = [], pst_Status = [], pst_Workflows = 0,
        pst_WorkflowsSucceeded = 0, pst_WorkflowsFailed = 0, pst_RequiredPromises = [], pst_RequiredBy = [], pst_LastAvailableTime = None\<rparr>\<rparr>"

definition installPromise :: "lib \<Rightarrow> PromiseRelease \<Rightarrow> Promise \<Rightarrow> (err option) go" where
  "installPromise L promiseRelease promise =
     bnd (CreateOrUpdate un_promise OPromise (emptyPromise (m_Name (p_meta promise))) (installedPromise L promiseRelease promise)) (\<lambda>res.
     case res of
       Inl e \<Rightarrow>
         bnd (call_event (OPromiseRelease promiseRelease) ''Warning'' (if IsInvalid e then ''Invalid Promise'' else ''Failed'')
                (''Failed to install Promise '' @ quoted (m_Name (p_meta promise)) @ '': '' @ err_msg e)) (\<lambda>_.
         Ret (Some e))
     | Inr _ \<Rightarrow> Ret None)"

definition ReleaseDelete :: "lib \<Rightarrow> PromiseRelease \<Rightarrow> reconcile_result go" where
  "ReleaseDelete L promiseRelease =
     (if \<not> L_ContainsFinalizer L (m_Finalizers (prl_meta promiseRelease)) promiseCleanupFinalizer then Ret (no_requeue, None)
      else
        bnd (call_list (releaseQuery promiseRelease) un_promise) (\<lambda>res.
        case res of
          Inl e \<Rightarrow> Ret (no_requeue, Some (EWrap ''failed to list promises: '' e))
        | Inr promises \<Rightarrow>
            if length promises = 0 then
              bnd (call_unit (Update (map_finalizers (\<lambda>fs. L_RemoveFinalizer L fs promiseCleanupFinalizer) (OPromiseRelease promiseRelease)))) (\<lambda>e.
              Ret (no_requeue, case e of Some e \<Rightarrow> Some (EWrap ''failed to remove finalizer: '' e) | None \<Rightarrow> None))
            else
              after_loop
                (for_range promises () (\<lambda>promise _.
                   if m_DeletionTimestamp (p_meta promise) = None then
                     bnd (call_unit (Delete (OPromise promise))) (\<lambda>e.
                     Ret (case e of Some e \<Rightarrow> Leave (no_requeue, Some (EWrap ''failed to delete Promise: '' e)) | None \<Rightarrow> Next ()))
                   else Ret (Next ())))
                (\<lambda>_. Ret (defaultRequeue, None))))"

definition promiseExistsAtDesiredVersion :: "PromiseRelease \<Rightarrow> (err + bool) go" where
  "promiseExistsAtDesiredVersion promiseRelease =
     bnd (call_list (releaseQuery promiseRelease) un_promise) (\<lambda>res.
     Ret (case res of
            Inl e \<Rightarrow> Inl (EWrap ''failed to list promises: '' e)
          | Inr [] \<Rightarrow> Inr False
          | Inr [promise] \<Rightarrow> Inr (lget (m_Labels (p_meta promise)) PromiseVersionLabel = prl_Version promiseRelease)
          | Inr promises \<Rightarrow> Inl (EStr (''expected 0 or 1 promises, got '' @ itoa (length promises)))))"

text \<open>From the fetched Promise to the installed one.\<close>

definition installFetched :: "lib \<Rightarrow> PromiseRelease \<Rightarrow> string \<Rightarrow> reconcile_result go" where
  "installFetched L promiseRelease authHeader =
     (if src_Type (prl_SourceRef promiseRelease) \<noteq> TypeHTTP then Ret (no_requeue, None)
      else
        bnd (FromURL L (src_URL (prl_SourceRef promiseRelease)) authHeader) (\<lambda>res.
        case res of
          Inl e \<Rightarrow>
            bnd (updateStatusAndConditions L promiseRelease statusErrorInstalling ''Failed to fetch Promise from URL'' ''FailedToFetchPromise'') (\<lambda>_.
            Ret (no_requeue, Some (EWrap ''failed to fetch promise from url: '' e)))
        | Inr promise \<Rightarrow>
            bnd (validateVersion L promiseRelease promise) (\<lambda>res.
            case res of
              Inl e \<Rightarrow> Ret (no_requeue, Some e)
            | Inr updated \<Rightarrow>
                if updated then Ret (no_requeue, None)
                else
                  bnd (installPromise L promiseRelease promise) (\<lambda>e.
                  case e of
                    Some e \<Rightarrow>
                      bnd (updateStatusAndConditions L promiseRelease statusErrorInstalling ''Failed to create or update Promise'' ''FailedToCreateOrUpdatePromise'') (\<lambda>_.
                      Ret (no_requeue, Some (EWrap ''failed to create or update promise: '' e)))
                  | None \<Rightarrow>
                      bnd (updateStatusAndConditions L promiseRelease statusInstalled conditionMessageInstalled conditionReasonInstalled) (\<lambda>_.
                      Ret (no_requeue, None))))))"

definition PromiseReleaseReconcile :: "lib \<Rightarrow> string \<Rightarrow> string \<Rightarrow> reconcile_result go" where
  "PromiseReleaseReconcile L ns name =
     bnd (call_obj (Get KPromiseRelease ns name) un_release) (\<lambda>res.
     case res of
       Inl e \<Rightarrow> Ret (if IsNotFound e then no_requeue else defaultRequeue, None)
     | Inr promiseRelease \<Rightarrow>
         if m_DeletionTimestamp (prl_meta promiseRelease) \<noteq> None then ReleaseDelete L promiseRelease
         else if DoesNotContainFinalizer L (m_Finalizers (prl_meta promiseRelease)) promiseCleanupFinalizer
         then addFinalizers L (OPromiseRelease promiseRelease) [promiseCleanupFinalizer]
         else
           bnd (promiseExistsAtDesiredVersion promiseRelease) (\<lambda>res.
           case res of
             Inl e \<Rightarrow> Ret (no_requeue, Some (EWrap ''failed to check if promise exists: '' e))
           | Inr exists \<Rightarrow>
               if exists then
                 bnd (updateStatusAndConditions L promiseRelease statusInstalled conditionMessageInstalled conditionReasonInstalled) (\<lambda>_.
                 Ret (no_requeue, None))
               else
                 bnd (FetchSecretFromReference promiseRelease) (\<lambda>res.
                 case res of
                   Inl e \<Rightarrow> Ret (no_requeue, Some (EWrap ''failed to fetch data from secretRef: '' e))
                 | Inr secretRefData \<Rightarrow>
                     installFetched L promiseRelease
                       (case secretRefData of None \<Rightarrow> [] | Some data \<Rightarrow> lget data ''authorizationHeader''))))"

subsection \<open>A release follows its Promise\<close>

text \<open>The Promise of the release was found at the release's version, or was stored with it.\<close>

definition promise_there :: "PromiseRelease \<Rightarrow> gtrace \<Rightarrow> bool" where
  "promise_there pr t \<longleftrightarrow>
     (\<exists>p. (releaseQuery pr, RList [OPromise p]) \<in> set t \<and> lget (m_Labels (p_meta p)) PromiseVersionLabel = prl_Version pr) \<or>
     (\<exists>p op z. (CreateOrUpdateStore (OPromise p), RStored op (OPromise z)) \<in> set t \<and>
        fmlookup (m_Labels (p_meta p)) PromiseVersionLabel = Some (prl_Version pr) \<and>
        fmlookup (m_Labels (p_meta p)) promiseReleaseNameLabel = Some (m_Name (prl_meta pr)))"

definition release_without :: "lib \<Rightarrow> PromiseRelease \<Rightarrow> kobj" where
  "release_without L pr = map_finalizers (\<lambda>fs. L_RemoveFinalizer L fs promiseCleanupFinalizer) (OPromiseRelease pr)"

definition follows :: "lib \<Rightarrow> PromiseRelease \<Rightarrow> gtrace \<Rightarrow> req \<times> resp \<Rightarrow> bool" where
  "follows L pr t x \<longleftrightarrow>
     (\<forall>u. fst x = StatusUpdate (OPromiseRelease u) \<longrightarrow> prs_Status (prl_Status u) = statusInstalled \<longrightarrow> promise_there pr t) \<and>
     (\<forall>u. fst x = Update u \<longrightarrow> m_DeletionTimestamp (prl_meta pr) \<noteq> None \<longrightarrow> u = release_without L pr \<and> (releaseQuery pr, RList []) \<in> set t)"

interpretation follow: trace_guard "follows L pr" for L pr
  by unfold_locales (fastforce simp: follows_def promise_there_def)

lemma promise_there_later: "promise_there pr t \<Longrightarrow> promise_there pr (t @ t')" "promise_there pr t' \<Longrightarrow> promise_there pr (t @ t')"
  by (auto simp: promise_there_def)

lemma release_statuses: "statusErrorInstalling \<noteq> statusInstalled"
  by (simp add: consts_defs)

lemma follow_status:
  assumes "follow.guarded L pr t" and "status = statusInstalled \<Longrightarrow> promise_there pr t"
  shows "wpre (updateStatusAndConditions L pr status ms rn) (\<lambda>t' oc. follow.guarded L pr (t @ t'))"
proof -
  have ok: "follow.guarded L pr (t @ [(Now, r), (StatusUpdate (OPromiseRelease (pr\<lparr>prl_Status := \<lparr>prs_Status = status, prs_Conditions = cs\<rparr>\<rparr>)), x)])" for r cs x
  proof -
    have "follow.guarded L pr (t @ [(Now, r)])" by (rule follow.guarded_snoc [OF assms(1)]) (simp add: follows_def)
    then have "follow.guarded L pr ((t @ [(Now, r)]) @ [(StatusUpdate (OPromiseRelease (pr\<lparr>prl_Status := \<lparr>prs_Status = status, prs_Conditions = cs\<rparr>\<rparr>)), x)])"
      by (rule follow.guarded_snoc) (use assms(2) in \<open>auto simp: follows_def intro: promise_there_later\<close>)
    then show ?thesis by simp
  qed
  show ?thesis
    using assms(1) ok by (auto simp: updateStatusAndConditions_def wpre_simps Let_def split: option.split prod.split)
qed

lemma calm_status: "status \<noteq> statusInstalled \<Longrightarrow> only (follow.unguarded L pr) (updateStatusAndConditions L u status ms rn)"
  unfolding updateStatusAndConditions_def SetStatusCondition_def Let_def
  by (auto intro!: only_intros simp: follow.unguarded_def follows_def split: option.split prod.split)

lemma calm_version:
  assumes "m_DeletionTimestamp (prl_meta pr) = None"
  shows "only (follow.unguarded L pr) (validateVersion L pr p)"
  unfolding validateVersion_def using assms
  by (auto intro!: only_intros calm_status simp: release_statuses follow.unguarded_def follows_def split: option.split sum.split)

lemma calm_install:
  "only (follow.unguarded L pr) (installPromise L pr p)"
  "only (follow.unguarded L pr) (FromURL L url header)"
  "only (follow.unguarded L pr) (FetchSecretFromReference pr)"
  "only (follow.unguarded L pr) (promiseExistsAtDesiredVersion pr)"
  unfolding installPromise_def FromURL_def FetchSecretFromReference_def promiseExistsAtDesiredVersion_def releaseQuery_def Let_def
  by (auto intro!: only_intros simp: follow.unguarded_def follows_def split: option.split sum.split)

lemma validateVersion_same:
  assumes "exec (validateVersion L pr p) t (Returned (Inr False))"
  shows "fmlookup (m_Labels (p_meta p)) PromiseVersionLabel = Some (prl_Version pr)"
proof -
  have "wpre (validateVersion L pr p) (\<lambda>t oc. oc = Returned (Inr False) \<longrightarrow> fmlookup (m_Labels (p_meta p)) PromiseVersionLabel = Some (prl_Version pr))"
    unfolding validateVersion_def by (auto simp: wpre_simps split: option.splits outcome.splits intro!: wpreI)
  from wpreD [OF assms this] show ?thesis by simp
qed

lemma installedPromise_labels:
  assumes "merge_laws L" and "owner_laws L" and "installedPromise L pr p q = Inr p'" and "fmlookup (m_Labels (p_meta p)) PromiseVersionLabel = Some v"
  shows "fmlookup (m_Labels (p_meta p')) PromiseVersionLabel = Some v" "fmlookup (m_Labels (p_meta p')) promiseReleaseNameLabel = Some (m_Name (prl_meta pr))"
  using assms by (fastforce simp: installedPromise_def merge_laws_def owner_laws_def consts_defs Let_def split: sum.splits)+

lemma installPromise_stores:
  assumes laws: "merge_laws L" "owner_laws L" and v: "fmlookup (m_Labels (p_meta p)) PromiseVersionLabel = Some (prl_Version pr)"
    and "exec (installPromise L pr p) t (Returned None)"
  shows "promise_there pr t"
proof -
  have "wpre (installPromise L pr p) (\<lambda>t oc. oc = Returned None \<longrightarrow> promise_there pr t)"
    using installedPromise_labels [OF laws _ v]
    by (auto simp: installPromise_def CreateOrUpdate_def wpre_simps promises.sel_iff Let_def promise_there_def split: sum.splits option.splits resp.splits if_splits)
  from wpreD [OF assms(4) this] show ?thesis by simp
qed

lemma promiseExists_there:
  assumes "exec (promiseExistsAtDesiredVersion pr) t (Returned (Inr True))"
  shows "promise_there pr t"
proof -
  have "wpre (promiseExistsAtDesiredVersion pr) (\<lambda>t oc. oc = Returned (Inr True) \<longrightarrow> promise_there pr t)"
    by (auto simp: promiseExistsAtDesiredVersion_def wpre_simps promises.as_list_mk promise_there_def split: sum.split list.split)
  from wpreD [OF assms this] show ?thesis by simp
qed

lemma follow_fetched:
  assumes laws: "merge_laws L" "owner_laws L" and live: "m_DeletionTimestamp (prl_meta pr) = None" and "follow.guarded L pr t"
  shows "wpre (installFetched L pr header) (\<lambda>t' oc. follow.guarded L pr (t @ t'))"
  unfolding installFetched_def
proof (rule wpre_ifI, rule follow.guarded_Ret [OF assms(4)], rule follow.guarded_seq [OF calm_install(2) assms(4)], goal_cases)
  case fetched: (1 t1 res)
  have failed: "wpre (bnd (updateStatusAndConditions L pr statusErrorInstalling ms rn) (\<lambda>_. Ret y)) (\<lambda>t' oc. follow.guarded L pr (u @ t'))"
    if "follow.guarded L pr u" for ms rn y u
    by (rule follow.guarded_end [OF follow_status [OF that]]) (auto simp: release_statuses)
  show ?case
  proof (cases res)
    case (Inl e)
    then show ?thesis using failed [OF fetched(3)] by simp
  next
    case (Inr p)
    have "wpre (bnd (validateVersion L pr p) (\<lambda>res. case res of Inl e \<Rightarrow> Ret (no_requeue, Some e) | Inr updated \<Rightarrow>
        if updated then Ret (no_requeue, None) else bnd (installPromise L pr p) (\<lambda>e. case e of
          Some e \<Rightarrow> bnd (updateStatusAndConditions L pr statusErrorInstalling ''Failed to create or update Promise'' ''FailedToCreateOrUpdatePromise'')
            (\<lambda>_. Ret (no_requeue, Some (EWrap ''failed to create or update promise: '' e)))
        | None \<Rightarrow> bnd (updateStatusAndConditions L pr statusInstalled conditionMessageInstalled conditionReasonInstalled) (\<lambda>_. Ret (no_requeue, None)))))
      (\<lambda>t' oc. follow.guarded L pr ((t @ t1) @ t'))"
    proof (rule follow.guarded_seq [OF calm_version [OF live] fetched(3)], goal_cases)
      case checked: (1 t2 res)
      have "wpre (bnd (installPromise L pr p) (\<lambda>e. case e of
          Some e \<Rightarrow> bnd (updateStatusAndConditions L pr statusErrorInstalling ''Failed to create or update Promise'' ''FailedToCreateOrUpdatePromise'')
            (\<lambda>_. Ret (no_requeue, Some (EWrap ''failed to create or update promise: '' e)))
        | None \<Rightarrow> bnd (updateStatusAndConditions L pr statusInstalled conditionMessageInstalled conditionReasonInstalled) (\<lambda>_. Ret (no_requeue, None))))
        (\<lambda>t' oc. follow.guarded L pr (((t @ t1) @ t2) @ t'))" if "res = Inr False"
      proof (rule follow.guarded_seq [OF calm_install(1) checked(2)], goal_cases)
        case (1 t3 e)
        note there = installPromise_stores [OF laws validateVersion_same [OF checked(1) [unfolded that]]]
        show ?case
        proof (cases e)
          case None
          show ?thesis
            unfolding None option.case
            by (rule follow.guarded_end [OF follow_status [OF 1(2) promise_there_later(2) [OF there [OF 1(1) [unfolded None]]]]]) auto
        next
          case (Some x)
          then show ?thesis using failed [OF 1(2)] by simp
        qed
      qed
      then show ?case using checked(2) by (auto split: sum.split)
    qed
    then show ?thesis using Inr by simp
  qed
qed

lemma follow_delete:
  assumes "follow.guarded L pr t"
  shows "wpre (ReleaseDelete L pr) (\<lambda>t' oc. follow.guarded L pr (t @ t'))"
  unfolding ReleaseDelete_def
proof (rule wpre_ifI, rule follow.guarded_Ret [OF assms], rule follow.guarded_seq [OF _ assms], goal_cases)
  case 1
  show ?case by (auto intro!: only_intros simp: follow.unguarded_def follows_def releaseQuery_def)
next
  case (2 t1 res)
  have query: "\<exists>r. t1 = [(releaseQuery pr, r)] \<and> res = as_list un_promise r"
    using wpreD [OF 2(2), of "\<lambda>t oc. \<forall>x. oc = Returned x \<longrightarrow> (\<exists>r. t = [(releaseQuery pr, r)] \<and> x = as_list un_promise r)"]
    by (auto simp: wpre_calls)
  have gone: "wpre (bnd (call_unit (Update (map_finalizers (\<lambda>fs. L_RemoveFinalizer L fs promiseCleanupFinalizer) (OPromiseRelease pr)))) (\<lambda>e. Ret (y e)))
      (\<lambda>t' oc. follow.guarded L pr ((t @ t1) @ t'))" if "res = Inr []" for y
  proof -
    from query that have "(releaseQuery pr, RList []) \<in> set t1" by (auto simp: promises.as_list_mk dest!: sym [of "Inr []"])
    then show ?thesis
      unfolding wpre_bnd wpre_calls by (auto intro!: follow.guarded_snoc [OF 2(3), simplified] simp: follows_def release_without_def)
  qed
  show ?case
  proof (cases res)
    case (Inl e)
    then show ?thesis using 2(3) by simp
  next
    case (Inr ps)
    show ?thesis
    proof (cases "ps = []")
      case True
      then show ?thesis using gone Inr by simp
    next
      case False
      then show ?thesis
        unfolding Inr using 2(3)
        by (auto intro!: follow.guarded_rest only_intros simp: follow.unguarded_def follows_def simp del: append_assoc)
    qed
  qed
qed

lemma follow_reconcile:
  assumes "merge_laws L" and "owner_laws L"
  shows "wpre (PromiseReleaseReconcile L ns name) (\<lambda>t oc. \<forall>pr t'. t = (Get KPromiseRelease ns name, RObj (OPromiseRelease pr)) # t' \<longrightarrow> follow.guarded L pr t)"
proof -
  have "follow.guarded L pr ([(Get KPromiseRelease ns name, RObj (OPromiseRelease pr))] @ t')"
    if e: "exec (PromiseReleaseReconcile L ns name) ((Get KPromiseRelease ns name, RObj (OPromiseRelease pr)) # t') oc" for pr t' oc
  proof -
    let ?t = "[(Get KPromiseRelease ns name, RObj (OPromiseRelease pr))]"
    have start: "follow.guarded L pr ?t" by (rule follow.guarded_free) (auto simp: follows_def)
    have serve: "wpre (bnd (FetchSecretFromReference pr) (\<lambda>res. case res of
          Inl e \<Rightarrow> Ret (no_requeue, Some (EWrap ''failed to fetch data from secretRef: '' e))
        | Inr secretRefData \<Rightarrow> installFetched L pr (case secretRefData of None \<Rightarrow> [] | Some data \<Rightarrow> lget data ''authorizationHeader'')))
        (\<lambda>t' oc. follow.guarded L pr (u @ t'))"
      if "m_DeletionTimestamp (prl_meta pr) = None" and "follow.guarded L pr u" for u
      using follow_fetched [OF assms that(1)]
      by (intro follow.guarded_seq [OF calm_install(3) that(2)]) (auto split: sum.split simp del: append_assoc)
    have found: "wpre (bnd (updateStatusAndConditions L pr statusInstalled conditionMessageInstalled conditionReasonInstalled) (\<lambda>_. Ret (no_requeue, None)))
        (\<lambda>t' oc. follow.guarded L pr (u @ t'))" if "follow.guarded L pr u" and "promise_there pr u" for u
      by (rule follow.guarded_end [OF follow_status [OF that]]) auto
    have "wpre (bnd (promiseExistsAtDesiredVersion pr) (\<lambda>res. case res of
          Inl e \<Rightarrow> Ret (no_requeue, Some (EWrap ''failed to check if promise exists: '' e))
        | Inr exists \<Rightarrow>
            if exists then bnd (updateStatusAndConditions L pr statusInstalled conditionMessageInstalled conditionReasonInstalled) (\<lambda>_. Ret (no_requeue, None))
            else bnd (FetchSecretFromReference pr) (\<lambda>res. case res of
              Inl e \<Rightarrow> Ret (no_requeue, Some (EWrap ''failed to fetch data from secretRef: '' e))
            | Inr secretRefData \<Rightarrow> installFetched L pr (case secretRefData of None \<Rightarrow> [] | Some data \<Rightarrow> lget data ''authorizationHeader''))))
        (\<lambda>t' oc. follow.guarded L pr (?t @ t'))" if "m_DeletionTimestamp (prl_meta pr) = None"
    proof (rule follow.guarded_seq [OF calm_install(4) start], goal_cases)
      case (1 t1 res)
      then show ?case
        using serve [OF that 1(2)] found [OF 1(2) promise_there_later(2) [OF promiseExists_there]]
        by (cases res) auto
    qed
    moreover have "wpre (addFinalizers L (OPromiseRelease pr) fs) (\<lambda>t' oc. follow.guarded L pr (?t @ t'))"
      if "m_DeletionTimestamp (prl_meta pr) = None" for fs
      using that by (intro follow.guarded_rest [OF _ start])
        (auto simp: addFinalizers_def Let_def follow.unguarded_def follows_def intro!: only_intros split: option.split)
    ultimately show ?thesis
      using e follow_delete [OF start]
      by (auto simp: PromiseReleaseReconcile_def exec_bnd_calls as_obj_def split: if_splits dest: wpreD)
  qed
  then show ?thesis by (auto simp: exec_wpre)
qed

text \<open>
  C19. A promise release is reported as installed only after the Promise with its label was found at the release's version, or after
  the fetched Promise was stored with the release's version and label; and a release that is being deleted is updated only to
  lose its finalizer, after no Promise with its label was found.
\<close>

theorem PromiseRelease_follows_promise:
  assumes "merge_laws L" and "owner_laws L"
    and "exec (PromiseReleaseReconcile L ns name) ((Get KPromiseRelease ns name, RObj (OPromiseRelease pr)) # t1 @ x # t2) oc"
  shows "(fst x = StatusUpdate (OPromiseRelease u) \<and> prs_Status (prl_Status u) = statusInstalled \<longrightarrow>
      promise_there pr ((Get KPromiseRelease ns name, RObj (OPromiseRelease pr)) # t1)) \<and>
    (fst x = Update w \<and> m_DeletionTimestamp (prl_meta pr) \<noteq> None \<longrightarrow> w = release_without L pr \<and> (releaseQuery pr, RList []) \<in> set t1)"
proof -
  have "follow.guarded L pr (((Get KPromiseRelease ns name, RObj (OPromiseRelease pr)) # t1) @ x # t2)"
    using wpreD [OF assms(3) follow_reconcile [OF assms(1,2)]] by simp
  then have "follows L pr ((Get KPromiseRelease ns name, RObj (OPromiseRelease pr)) # t1) x" unfolding follow.guarded_def by blast
  then show ?thesis by (auto simp: follows_def releaseQuery_def)
qed

definition ex_release :: "time option \<Rightarrow> PromiseRelease" where
  "ex_release ts = \<lparr>prl_meta = (ex_meta ''redis-release'')\<lparr>m_Finalizers := [promiseCleanupFinalizer], m_DeletionTimestamp := ts\<rparr>,
     prl_Version = ''v1.0.0'', prl_SourceRef = \<lparr>src_Type = ''http'', src_URL = ''https://example.com/redis.yaml'', src_SecretRef = None\<rparr>,
     prl_Status = \<lparr>prs_Status = [], prs_Conditions = []\<rparr>\<rparr>"

lemmas release_eval = PromiseReleaseReconcile_def ReleaseDelete_def promiseExistsAtDesiredVersion_def installFetched_def FetchSecretFromReference_def FromURL_def
  as_http_def StatusOK_def decodePromise_def validateVersion_def installPromise_def installedPromise_def emptyPromise_def updateStatusAndConditions_def
  SetStatusCondition_def CreateOrUpdate_def DoesNotContainFinalizer_def ex_release_def

theorem PromiseRelease_follows_promise_witness:
  "\<exists>t1 x t2 oc u. exec (PromiseReleaseReconcile plain_lib [] ''redis-release'')
       ((Get KPromiseRelease [] ''redis-release'', RObj (OPromiseRelease (ex_release None))) # t1 @ x # t2) oc \<and>
     fst x = StatusUpdate (OPromiseRelease u) \<and> prs_Status (prl_Status u) = statusInstalled \<and>
     promise_there (ex_release None) ((Get KPromiseRelease [] ''redis-release'', RObj (OPromiseRelease (ex_release None))) # t1)"
proof -
  let ?get = "(Get KPromiseRelease [] ''redis-release'', RObj (OPromiseRelease (ex_release None)))"
  have "\<exists>c u. script (PromiseReleaseReconcile plain_lib [] ''redis-release'') [RObj (OPromiseRelease (ex_release None)), RList [], RHttp 200 ''redis'',
      RErr (EApi ReasonNotFound []), RStored ''created'' (OPromise (emptyPromise ''redis'')), RTime 4, ROk] =
    Some (?get # c @ [(StatusUpdate (OPromiseRelease u), ROk)], Returned (no_requeue, None)) \<and> prs_Status (prl_Status u) = statusInstalled"
    by (simp add: release_eval plain_find_def plain_SetStatusCondition_def mk_cond_def ex_defs plain_lib_def consts_defs call_defs Let_def)
  then obtain c u where e: "exec (PromiseReleaseReconcile plain_lib [] ''redis-release'') (?get # c @ (StatusUpdate (OPromiseRelease u), ROk) # []) (Returned (no_requeue, None))"
    and "prs_Status (prl_Status u) = statusInstalled" by (auto dest!: script_exec)
  with PromiseRelease_follows_promise [OF plain_merge_laws plain_owner_laws e] show ?thesis by (metis fst_conv)
qed

end
