(* ===== verification/Webhooks.thy ===== *)
theory Webhooks
  imports PromiseReleaseController Filepath
begin

text \<open>
  The admission webhooks (\<open>src/internal/webhook/v1alpha1/\<close>): what a Promise, a promise release, a destination and a bucket
  have to satisfy before the API server stores them. A webhook is handed an object of any type; \<open>type_name\<close> is \<open>%T\<close> of it.
  A validator returns its warnings, or an error, which rejects the object. Logging and the registration with the manager are left out.
\<close>

fun type_name :: "kobj \<Rightarrow> string" where
  "type_name (OWork _) = ''*v1alpha1.Work''"
| "type_name (OWorkPlacement _) = ''*v1alpha1.WorkPlacement''"
| "type_name (ODestination _) = ''*v1alpha1.Destination''"
| "type_name (OJob _) = ''*v1.Job''"
| "type_name (OBucketStateStore _) = ''*v1alpha1.BucketStateStore''"
| "type_name (OGitStateStore _) = ''*v1alpha1.GitStateStore''"
| "type_name (OSecret _) = ''*v1.Secret''"
| "type_name (ORole _) = ''*v1.Role''"
| "type_name (ORoleBinding _) = ''*v1.RoleBinding''"
| "type_name (OClusterRole _) = ''*v1.ClusterRole''"
| "type_name (OClusterRoleBinding _) = ''*v1.ClusterRoleBinding''"
| "type_name (OServiceAccount _) = ''*v1.ServiceAccount''"
| "type_name (OConfigMap _) = ''*v1.ConfigMap''"
| "type_name (OPromise _) = ''*v1alpha1.Promise''"
| "type_name (OPromiseRelease _) = ''*v1alpha1.PromiseRelease''"
| "type_name (OHealthRecord _) = ''*v1alpha1.HealthRecord''"
| "type_name (OCRD _) = ''*v1.CustomResourceDefinition''"
| "type_name (ONamespace _) = ''*v1.Namespace''"
| "type_name (OUnstructured _) = ''*unstructured.Unstructured''"

definition expected_type :: "string \<Rightarrow> kobj \<Rightarrow> err" where
  "expected_type want obj = EStr (''expected '' @ want @ '' but got '' @ type_name obj)"

subsection \<open>Promises\<close>

text \<open>The first error of the keys and values of a pipeline's labels, in the order of the runtime.\<close>

definition labelError :: "lib \<Rightarrow> string \<Rightarrow> string \<Rightarrow> string \<Rightarrow> string \<Rightarrow> err option" where
  "labelError L workflowType workflowAction key value =
     (let errors = L_IsValidLabelValue L value in
      if length errors > 0
      then Some (EStr (''invalid label value '' @ quoted value @ '' for key '' @ quoted key @ '' in workflow '' @ quoted workflowType @
        '' action '' @ quoted workflowAction @ '': '' @ join errors '',''))
      else
        let errors = L_IsQualifiedName L key in
        if length errors > 0
        then Some (EStr (''invalid label key '' @ quoted key @ '' in workflow '' @ quoted workflowType @
          '' action '' @ quoted workflowAction @ '': '' @ join errors '',''))
        else None)"

definition validatePipelineLabels :: "lib \<Rightarrow> Pipeline \<Rightarrow> string \<Rightarrow> string \<Rightarrow> (err option) go" where
  "validatePipelineLabels L pipeline workflowType workflowAction =
     bnd (range_map (sorted_list_of_fmap (m_Labels (pi_meta pipeline)))) (\<lambda>ls.
     after_loop
       (for_range ls () (\<lambda>x _. case x of (key, value) \<Rightarrow>
          Ret (case labelError L workflowType workflowAction key value of Some e \<Rightarrow> Leave (Some e) | None \<Rightarrow> Next ())))
       (\<lambda>_. Ret None))"

definition exampleResourceRequest :: "Promise \<Rightarrow> unstructured go" where
  "exampleResourceRequest p =
     bnd (call_str NewUUID) (\<lambda>uid.
     Ret \<lparr>u_meta = empty_meta\<lparr>m_Name := ''webhook-dry-run'', m_Namespace := ''default'', m_UID := (case uid of Inl _ \<Rightarrow> [] | Inr u \<Rightarrow> u)\<rparr>,
       u_gvk = p_gvk p, u_spec = None, u_status = None\<rparr>)"

definition dryRunPipeline :: "lib \<Rightarrow> PipelineDefaults \<Rightarrow> Promise \<Rightarrow> unstructured \<Rightarrow> string \<Rightarrow> string \<Rightarrow> Pipeline \<Rightarrow> (err option) go" where
  "dryRunPipeline L D p unstructuredResourceRequest workflowType workflowAction pipeline =
     bnd (if workflowType = WorkflowTypeResource then ForResource L pipeline p workflowAction unstructuredResourceRequest
          else Ret (ForPromise pipeline p workflowAction)) (\<lambda>factory.
     if length (pf_ID factory) > 60
     then Ret (Some (EStr (workflowType @ ''.'' @ workflowAction @ '' pipeline with name '' @ quoted (pipeline_name pipeline) @
       '' is too long. The name is used when generating resources '' @
       ''for the pipeline,including the ServiceAccount which follows the format of '' @
       quoted (promise_name p @ ''-'' @ workflowType @ ''-'' @ workflowAction @ ''-'' @ pipeline_name pipeline) @
       '', which cannot be longer than 60 characters in total'')))
     else
       bnd (Resources L D factory []) (\<lambda>res.
       case res of
         Inl e \<Rightarrow> Ret (Some (EWrap ''failed to generate pipeline resources '' e))
       | Inr jobResources \<Rightarrow>
           bnd (call_unit (DryRunCreate (OJob (pj_Job jobResources)))) (\<lambda>err.
           Ret (case err of
                  Some e \<Rightarrow> Some (EStr (CHR 0x0A # workflowType @ ''.'' @ workflowAction @ '' pipeline with name '' @ pipeline_name pipeline @
                    '' failed to generate Job definition: '' @ CHR 0x0A # err_msg e))
                | None \<Rightarrow> None))))"

text \<open>
  The body of the innermost loop: one pipeline of a workflow. The loop's state is the set of the names met so far; the
  error leaves all three loops.
\<close>

definition validatePipeline :: "lib \<Rightarrow> PipelineDefaults \<Rightarrow> Promise \<Rightarrow> unstructured \<Rightarrow> string \<Rightarrow> string \<Rightarrow> Pipeline \<Rightarrow> string list \<Rightarrow>
    ((string list, err option) loop) go" where
  "validatePipeline L D p unstructuredResourceRequest workflowType workflowAction pipeline pipelineNamesMap =
     bnd (validatePipelineLabels L pipeline workflowType workflowAction) (\<lambda>err.
     if err \<noteq> None then Ret (Leave err)
     else if pipeline_name pipeline \<in> set pipelineNamesMap
     then Ret (Leave (Some (EStr (''duplicate pipeline name '' @ quoted (pipeline_name pipeline) @ '' in workflow '' @ quoted workflowType @
       '' action '' @ quoted workflowAction))))
     else
       bnd (dryRunPipeline L D p unstructuredResourceRequest workflowType workflowAction pipeline) (\<lambda>err.
       Ret (if err \<noteq> None then Leave err else Next (pipelineNamesMap @ [pipeline_name pipeline]))))"

definition validateWorkflowAction :: "lib \<Rightarrow> PipelineDefaults \<Rightarrow> Promise \<Rightarrow> unstructured \<Rightarrow> string \<Rightarrow> string \<times> Pipeline list \<Rightarrow> unit \<Rightarrow>
    ((unit, err option) loop) go" where
  "validateWorkflowAction L D p rr workflowType x _ =
     (case x of (workflowAction, pipelines) \<Rightarrow>
      bnd (for_range pipelines [] (validatePipeline L D p rr workflowType workflowAction)) (\<lambda>l.
      Ret (case l of Next _ \<Rightarrow> Next () | Leave e \<Rightarrow> Leave e)))"

definition validateWorkflowType :: "lib \<Rightarrow> PipelineDefaults \<Rightarrow> Promise \<Rightarrow> unstructured \<Rightarrow> string \<times> (string \<times> Pipeline list) list \<Rightarrow> unit \<Rightarrow>
    ((unit, err option) loop) go" where
  "validateWorkflowType L D p rr x _ =
     (case x of (workflowType, actionToPipelineMap) \<Rightarrow>
      bnd (range_map actionToPipelineMap) (\<lambda>actions. for_range actions () (validateWorkflowAction L D p rr workflowType)))"

definition validatePipelines :: "lib \<Rightarrow> PipelineDefaults \<Rightarrow> Promise \<Rightarrow> (err option) go" where
  "validatePipelines L D p =
     bnd (NewPipelinesMap L p) (\<lambda>res.
     case res of
       Inl e \<Rightarrow> Ret (Some e)
     | Inr promisePipelines \<Rightarrow>
         bnd (exampleResourceRequest p) (\<lambda>unstructuredResourceRequest.
         bnd (range_map (map (\<lambda>(typ, actions). (typ, map (\<lambda>(action, _). (action, promisePipelines typ action)) actions)) (unstructuredMap p))) (\<lambda>types.
         after_loop (for_range types () (validateWorkflowType L D p unstructuredResourceRequest)) (\<lambda>_. Ret None))))"

definition validateCRD :: "lib \<Rightarrow> Promise \<Rightarrow> (err option) go" where
  "validateCRD L p =
     bnd (GetAPI L p) (\<lambda>res.
     case res of
       Inl e \<Rightarrow> Ret (if e = ErrNoAPI then None else Some e)
     | Inr (_, newCrd) \<Rightarrow>
         bnd (call_unit (DryRunCreate (OCRD newCrd))) (\<lambda>err.
         case err of
           Some e \<Rightarrow>
             if IsAlreadyExists e then
               bnd (call_obj (Get KCRD [] (m_Name (crd_meta newCrd))) un_crd) (\<lambda>res.
               case res of
                 Inl e \<Rightarrow> Ret (Some e)
               | Inr existingCrd \<Rightarrow>
                   bnd (call_unit (DryRunUpdate (OCRD (newCrd\<lparr>crd_meta := crd_meta existingCrd, crd_TypeKind := crd_TypeKind existingCrd,
                          crd_APIVersion := crd_APIVersion existingCrd, crd_Conditions := crd_Conditions existingCrd\<rparr>)))) (\<lambda>err.
                   Ret (case err of Some e \<Rightarrow> Some (EWrap ''invalid CRD changes: '' e) | None \<Rightarrow> None)))
             else Ret (Some (EWrap ''invalid CRD: '' e))
         | None \<Rightarrow>
             Ret (if crd_Scope newCrd \<noteq> ''Namespaced''
                  then Some (EStr (''promise api needs to be namespace scoped; spec.api.spec.scope cannot be: '' @ crd_Scope newCrd))
                  else None)))"

definition validateRequirement :: "Promise \<Rightarrow> RequiredPromise \<Rightarrow> string list \<Rightarrow> ((string list, string list) loop) go" where
  "validateRequirement p requirement warnings =
     bnd (call_obj (Get KPromise (m_Namespace (p_meta p)) (rp_Name requirement)) un_promise) (\<lambda>res.
     Ret (Next (case res of
       Inl e \<Rightarrow>
         if IsNotFound e
         then warnings @ [''Required Promise '' @ quoted (rp_Name requirement) @ '' at version '' @ quoted (rp_Version requirement) @ '' not installed'']
         else warnings
     | Inr promise \<Rightarrow>
         if pst_Version (p_Status promise) \<noteq> rp_Version requirement
         then warnings @ [''Required Promise '' @ quoted (rp_Name requirement) @ '' installed but not at a compatible version, want: '' @
           quoted (rp_Version requirement) @ '' have: '' @ quoted (pst_Version (p_Status promise))]
         else warnings)))"

definition validateRequiredPromisesAreAvailable :: "Promise \<Rightarrow> (string list) go" where
  "validateRequiredPromisesAreAvailable p =
     after_loop (for_range (psp_RequiredPromises (p_Spec p)) [] (validateRequirement p)) (\<lambda>warnings.
     Ret (if length warnings \<noteq> 0 then warnings @ [''Promise will not be available until the above issue(s) is resolved''] else warnings))"

definition validatePromise :: "lib \<Rightarrow> PipelineDefaults \<Rightarrow> Promise \<Rightarrow> (string list \<times> err option) go" where
  "validatePromise L D p =
     bnd (validateCRD L p) (\<lambda>err.
     if err \<noteq> None then Ret ([], err)
     else
       bnd (validatePipelines L D p) (\<lambda>err.
       if err \<noteq> None then Ret ([], err)
       else bnd (validateRequiredPromisesAreAvailable p) (\<lambda>warnings. Ret (warnings, None))))"

text \<open>The definition of a Promise with no (readable) API is nil, and reading its name is a panic.\<close>

definition crdOrNil :: "err + gvk \<times> crd \<Rightarrow> crd option" where
  "crdOrNil r = (case r of Inl _ \<Rightarrow> None | Inr (_, c) \<Rightarrow> Some c)"

definition crdChanges :: "crd \<Rightarrow> crd \<Rightarrow> string list" where
  "crdChanges oldCrd newCrd =
     (if m_Name (crd_meta oldCrd) \<noteq> m_Name (crd_meta newCrd)
      then [''* spec.api.metadata.name: Invalid value: '' @ quoted (m_Name (crd_meta newCrd)) @ '': field is immutable''] else []) @
     (if crd_TypeKind oldCrd \<noteq> crd_TypeKind newCrd
      then [''* spec.api.kind: Invalid value: '' @ quoted (crd_TypeKind newCrd) @ '': field is immutable''] else []) @
     (if crd_APIVersion oldCrd \<noteq> crd_APIVersion newCrd
      then [''* spec.api.apiVersion: Invalid value: '' @ quoted (crd_APIVersion newCrd) @ '': field is immutable''] else []) @
     (if (crd_Plural oldCrd, crd_Singular oldCrd, crd_Kind oldCrd, crd_OtherNames oldCrd) \<noteq> (crd_Plural newCrd, crd_Singular newCrd, crd_Kind newCrd, crd_OtherNames newCrd)
      then [''* spec.api.spec.names: Invalid value: {'' @ quoted ''plural'' @ '': '' @ quoted (crd_Plural newCrd) @ '', '' @ quoted ''singular'' @ '': '' @
        quoted (crd_Singular newCrd) @ '', '' @ quoted ''kind'' @ '': '' @ quoted (crd_Kind newCrd) @ ''}: field is immutable''] else [])"

definition validateCRDChanges :: "lib \<Rightarrow> Promise \<Rightarrow> Promise \<Rightarrow> (err option) go" where
  "validateCRDChanges L p oldPromise =
     bnd (GetAPI L oldPromise) (\<lambda>old.
     bnd (GetAPI L p) (\<lambda>new.
     if old = Inl ErrNoAPI then Ret None
     else if new = Inl ErrNoAPI then Ret (Some (EStr ''cannot remove API from existing promise''))
     else
       bnd (deref (crdOrNil old)) (\<lambda>oldCrd.
       bnd (deref (crdOrNil new)) (\<lambda>newCrd.
       Ret (if length (crdChanges oldCrd newCrd) > 0
            then Some (EStr (''promises.platform.kratix.io '' @ quoted (promise_name p) @ '' was not valid:'' @ CHR 0x0A # join (crdChanges oldCrd newCrd) [CHR 0x0A]))
            else None)))))"

definition PromiseValidateCreate :: "lib \<Rightarrow> PipelineDefaults \<Rightarrow> kobj \<Rightarrow> (string list \<times> err option) go" where
  "PromiseValidateCreate L D obj =
     (case un_promise obj of
        None \<Rightarrow> Ret ([], Some (expected_type ''a Promise object'' obj))
      | Some promise \<Rightarrow> validatePromise L D promise)"

definition PromiseValidateUpdate :: "lib \<Rightarrow> PipelineDefaults \<Rightarrow> kobj \<Rightarrow> kobj \<Rightarrow> (string list \<times> err option) go" where
  "PromiseValidateUpdate L D oldObj newObj =
     (case un_promise newObj of
        None \<Rightarrow> Ret ([], Some (expected_type ''a Promise object'' newObj))
      | Some promise \<Rightarrow>
          (case un_promise oldObj of
             None \<Rightarrow> Ret ([], Some (expected_type ''a Promise object'' oldObj))
           | Some oldPromise \<Rightarrow>
               bnd (validatePromise L D promise) (\<lambda>(warnings, err).
               if err \<noteq> None then Ret ([], err)
               else
                 bnd (validateCRDChanges L promise oldPromise) (\<lambda>err.
                 if err \<noteq> None then Ret ([], err) else Ret (warnings, None)))))"

subsection \<open>Promise releases\<close>

definition validateRelease :: "PromiseRelease \<Rightarrow> err option" where
  "validateRelease r = (if src_URL (prl_SourceRef r) = [] then Some (EStr ''sourceRef.url must be set'') else None)"

definition ReleaseValidateCreate :: "lib \<Rightarrow> kobj \<Rightarrow> (string list \<times> err option) go" where
  "ReleaseValidateCreate L obj =
     (case un_release obj of
        None \<Rightarrow> Ret ([], Some (expected_type ''a PromiseRelease object'' obj))
      | Some r \<Rightarrow>
          (case validateRelease r of
             Some e \<Rightarrow> Ret ([], Some e)
           | None \<Rightarrow>
               bnd (FetchSecretFromReference r) (\<lambda>res.
               case res of
                 Inl e \<Rightarrow> Ret ([], Some (EWrap ''failed to fetch data from secretRef: '' e))
               | Inr secretRefData \<Rightarrow>
                   let authHeader = (case secretRefData of None \<Rightarrow> [] | Some data \<Rightarrow> lget data ''authorizationHeader'') in
                   bnd (FromURL L (src_URL (prl_SourceRef r)) authHeader) (\<lambda>res.
                   Ret (case res of
                          Inl e \<Rightarrow> ([], Some (EWrap ''failed to fetch promise: '' e))
                        | Inr promise \<Rightarrow>
                            (case fmlookup (m_Labels (p_meta promise)) PromiseVersionLabel of
                               None \<Rightarrow> ([''Warning: version label ('' @ PromiseVersionLabel @ '') not found on promise, installation will fail''], None)
                             | Some promiseVersion \<Rightarrow>
                                 if promiseVersion \<noteq> prl_Version r
                                 then ([''Warning: version labels do not match, found: '' @ promiseVersion @ '', expected: '' @ prl_Version r @
                                   '', installation will fail''], None)
                                 else ([], None)))))))"

definition ReleaseValidateUpdate :: "kobj \<Rightarrow> string list \<times> err option" where
  "ReleaseValidateUpdate newObj =
     (case un_release newObj of
        None \<Rightarrow> ([], Some (expected_type ''a PromiseRelease object'' newObj))
      | Some r \<Rightarrow> ([], validateRelease r))"

subsection \<open>Destinations and buckets\<close>

text \<open>The current destination is fetched and only an error of that is looked at.\<close>

definition DestinationDefault :: "kobj \<Rightarrow> (err + Destination) go" where
  "DestinationDefault obj =
     (case un_dest obj of
        None \<Rightarrow> Ret (Inl (expected_type ''Destination'' obj))
      | Some desiredDestination \<Rightarrow>
          bnd (call_obj (Get KDestination [] (m_Name (d_meta desiredDestination))) un_dest) (\<lambda>res.
          Ret (case res of
                 Inl e \<Rightarrow>
                   if \<not> IsNotFound e then Inl e
                   else Inr (if d_FilepathMode desiredDestination = FilepathModeAggregatedYAML \<and> d_FilepathFilename desiredDestination = []
                             then desiredDestination\<lparr>d_FilepathFilename := ''aggregated.yaml''\<rparr> else desiredDestination)
               | Inr _ \<Rightarrow>
                   Inr (if d_FilepathMode desiredDestination = FilepathModeAggregatedYAML \<and> d_FilepathFilename desiredDestination = []
                        then desiredDestination\<lparr>d_FilepathFilename := ''aggregated.yaml''\<rparr> else desiredDestination))))"

definition DestinationValidateCreate :: "kobj \<Rightarrow> (err option) go" where
  "DestinationValidateCreate obj =
     (case un_dest obj of
        None \<Rightarrow> Ret (Some (expected_type ''Destination'' obj))
      | Some destination \<Rightarrow>
          if d_Path destination = [] then Ret (Some (EStr ''path field is required''))
          else
            bnd (deref (d_StateStoreRef destination)) (\<lambda>ref.
            bnd (call_list (ListObjs KDestination [] (Some (MatchField ''stateStoreRef'' (ssr_Kind ref @ ''.'' @ ssr_Name ref)))) un_dest) (\<lambda>res.
            case res of
              Inl e \<Rightarrow> Ret (Some (EWrap ''failed to list destinations: '' e))
            | Inr destinationList \<Rightarrow>
                after_loop
                  (for_range destinationList () (\<lambda>existingDest _. Ret
                     (if m_Name (d_meta existingDest) = m_Name (d_meta destination) then Next ()
                      else if d_Path existingDest = d_Path destination
                      then Leave (Some (EStr (''destination path '' @ CHR 0x27 # d_Path destination @ CHR 0x27 # '' already exists for state store '' @
                        CHR 0x27 # ssr_Name ref @ [CHR 0x27])))
                      else Next ())))
                  (\<lambda>_. Ret None))))"

definition DestinationValidateUpdate :: "kobj \<Rightarrow> (err option) go" where
  "DestinationValidateUpdate newObj = DestinationValidateCreate newObj"

definition BucketValidateCreate :: "kobj \<Rightarrow> err option" where
  "BucketValidateCreate obj =
     (case un_bucket obj of
        None \<Rightarrow> Some (expected_type ''a BucketStateStore object'' obj)
      | Some bucket \<Rightarrow> ValidateSecretRef bucket)"

definition BucketValidateUpdate :: "kobj \<Rightarrow> err option" where
  "BucketValidateUpdate newObj =
     (case un_bucket newObj of
        None \<Rightarrow> Some (expected_type ''a BucketStateStore object for the newObj'' newObj)
      | Some bucket \<Rightarrow> ValidateSecretRef bucket)"

text \<open>Deletions are not looked at.\<close>

definition ValidateDelete :: "kobj \<Rightarrow> string list \<times> err option" where
  "ValidateDelete obj = ([], None)"

subsection \<open>What an accepted Promise satisfies\<close>

text \<open>A pipeline that was let through: its labels are valid, its identifier is short enough, and its job was accepted in a dry run.\<close>

definition pipeline_admitted :: "lib \<Rightarrow> PipelineDefaults \<Rightarrow> Promise \<Rightarrow> gtrace \<Rightarrow> string \<Rightarrow> string \<Rightarrow> Pipeline \<Rightarrow> bool" where
  "pipeline_admitted L D p t typ action pipe \<longleftrightarrow>
     (\<forall>k v. fmlookup (m_Labels (pi_meta pipe)) k = Some v \<longrightarrow> L_IsValidLabelValue L v = [] \<and> L_IsQualifiedName L k = []) \<and>
     length (promise_name p @ ''-'' @ typ @ ''-'' @ action @ ''-'' @ pipeline_name pipe) \<le> 60 \<and>
     (\<exists>f j r. pf_Pipeline f = pipe \<and> pf_WorkflowType f = typ \<and> pf_WorkflowAction f = action \<and> pf_Promise f = p \<and>
        job_shape D f (factoryServiceAccount f) [] j \<and> (DryRunCreate (OJob j), r) \<in> set t \<and> as_unit r = None)"

lemma pipeline_admitted_later: "pipeline_admitted L D p t2 typ action pipe \<Longrightarrow> pipeline_admitted L D p (t1 @ t2 @ t3) typ action pipe"
  by (fastforce simp: pipeline_admitted_def)

lemma labelError_None: "labelError L typ action k v = None \<longleftrightarrow> L_IsValidLabelValue L v = [] \<and> L_IsQualifiedName L k = []"
  by (auto simp: labelError_def Let_def)

lemma validatePipelineLabels_valid:
  assumes "exec (validatePipelineLabels L pipe typ action) t (Returned None)" and "fmlookup (m_Labels (pi_meta pipe)) k = Some v"
  shows "L_IsValidLabelValue L v = [] \<and> L_IsQualifiedName L k = []"
proof -
  let ?ls = "sorted_list_of_fmap (m_Labels (pi_meta pipe))"
  have "returns (validatePipelineLabels L pipe typ action) (\<lambda>e. e = None \<longrightarrow> (\<forall>x\<in>set ?ls. labelError L typ action (fst x) (snd x) = None))"
    unfolding validatePipelineLabels_def
  proof (rule returns_bnd [OF range_map_set], goal_cases)
    case 1
    show ?case by (simp add: sorted_list_of_fmap_def comp_def sorted_list_of_fset.rep_eq)
  next
    case (2 ls)
    show ?case
      by (rule returns_after_loop, rule returns_for_range [where I = "\<lambda>pre _. \<forall>x\<in>set pre. labelError L typ action (fst x) (snd x) = None"])
        (use 2 in \<open>auto split: option.split prod.split\<close>)
  qed
  from returnsD [OF this assms(1)] have "\<forall>x\<in>set ?ls. labelError L typ action (fst x) (snd x) = None" by simp
  moreover from assms(2) have "(k, v) \<in> set ?ls"
    by (auto simp: sorted_list_of_fmap_def sorted_list_of_fset.rep_eq fmdomI intro!: image_eqI [of _ _ k])
  ultimately show ?thesis by (force simp: labelError_None)
qed

lemma webhook_factory:
  assumes "exec (if typ = WorkflowTypeResource then ForResource L pipe p action rr else Ret (ForPromise pipe p action)) t (Returned f)"
    and "typ = WorkflowTypeResource \<or> typ = WorkflowTypePromise"
  shows "pf_ID f = promise_name p @ ''-'' @ typ @ ''-'' @ action @ ''-'' @ pipeline_name pipe \<and> pf_Pipeline f = pipe \<and> pf_Promise f = p \<and>
    pf_WorkflowType f = typ \<and> pf_WorkflowAction f = action"
  using assms by (auto simp: ForResource_def ForPromise_def exec_Ret_iff consts_defs split_beta Let_def elim!: exec_bndE split: if_splits)

lemma dryRunPipeline_accepted:
  assumes "owner_laws L" and "typ = WorkflowTypeResource \<or> typ = WorkflowTypePromise"
    and "exec (dryRunPipeline L D p rr typ action pipe) t (Returned None)"
  shows "length (promise_name p @ ''-'' @ typ @ ''-'' @ action @ ''-'' @ pipeline_name pipe) \<le> 60 \<and>
    (\<exists>f j r. pf_Pipeline f = pipe \<and> pf_WorkflowType f = typ \<and> pf_WorkflowAction f = action \<and> pf_Promise f = p \<and>
       job_shape D f (factoryServiceAccount f) [] j \<and> (DryRunCreate (OJob j), r) \<in> set t \<and> as_unit r = None)"
proof -
  from assms(3) obtain f t2 res t3 r where f: "exec (if typ = WorkflowTypeResource then ForResource L pipe p action rr else Ret (ForPromise pipe p action)) t2 (Returned f)"
    and short: "length (pf_ID f) \<le> 60" and res: "exec (Resources L D f []) t3 (Returned (Inr res))"
    and t: "t = t2 @ t3 @ [(DryRunCreate (OJob (pj_Job res)), r)]" and r: "as_unit r = None"
    unfolding dryRunPipeline_def
    by (elim exec_bndE [of "if _ then _ else _"]) (force simp: exec_Ret_iff exec_bnd_calls elim!: exec_bndE [of "Resources _ _ _ _"] split: if_splits sum.splits option.splits)+
  show ?thesis
    using webhook_factory [OF f assms(2)] short r returnsD [OF Resources_job [OF assms(1)] res] by (auto simp: t)
qed

lemma validatePipeline_admits:
  assumes "owner_laws L" and "typ = WorkflowTypeResource \<or> typ = WorkflowTypePromise"
    and "exec (validatePipeline L D p rr typ action pipe seen) t (Returned (Next seen'))"
  shows "pipeline_admitted L D p t typ action pipe \<and> pipeline_name pipe \<notin> set seen \<and> seen' = seen @ [pipeline_name pipe]"
proof -
  from assms(3) obtain t1 t2 where t: "t = t1 @ t2" and labels: "exec (validatePipelineLabels L pipe typ action) t1 (Returned None)"
    and new: "pipeline_name pipe \<notin> set seen" "seen' = seen @ [pipeline_name pipe]" and dry: "exec (dryRunPipeline L D p rr typ action pipe) t2 (Returned None)"
    unfolding validatePipeline_def by (auto simp: exec_Ret_iff elim!: exec_bndE split: if_splits)
  show ?thesis
    using validatePipelineLabels_valid [OF labels] dryRunPipeline_accepted [OF assms(1,2) dry] new by (auto simp: pipeline_admitted_def t)
qed

lemma validateWorkflowAction_admits:
  assumes "owner_laws L" and "typ = WorkflowTypeResource \<or> typ = WorkflowTypePromise"
    and "exec (validateWorkflowAction L D p rr typ (action, pipes) u) t (Returned (Next v))"
  shows "distinct (map pipeline_name pipes) \<and> (\<forall>pipe\<in>set pipes. pipeline_admitted L D p t typ action pipe)"
proof -
  from assms(3) obtain names where e: "exec (for_range pipes [] (validatePipeline L D p rr typ action)) t (Returned (Next names))"
    by (auto simp: validateWorkflowAction_def exec_Ret_iff elim!: exec_bndE split: loop.splits)
  have "returns (for_range pipes [] (validatePipeline L D p rr typ action)) (\<lambda>l. \<forall>names. l = Next names \<longrightarrow> names = map pipeline_name pipes \<and> distinct names)"
  proof (rule returns_for_range [where I = "\<lambda>pre names. names = map pipeline_name pre \<and> distinct names"], goal_cases)
    case (2 pre pipe rest names)
    show ?case
      unfolding returns_def by (rule wpreI) (use 2 in \<open>auto split: loop.splits dest!: validatePipeline_admits [OF assms(1,2)]\<close>)
  qed auto
  from returnsD [OF this e] have "distinct (map pipeline_name pipes)" by auto
  moreover have "pipeline_admitted L D p t typ action pipe" if "pipe \<in> set pipes" for pipe
    using for_range_every [OF e that] by (auto dest!: validatePipeline_admits [OF assms(1,2)] intro: pipeline_admitted_later)
  ultimately show ?thesis by blast
qed

lemma validateWorkflowType_admits:
  assumes "owner_laws L" and "typ = WorkflowTypeResource \<or> typ = WorkflowTypePromise" and "distinct (map fst actions)"
    and "exec (validateWorkflowType L D p rr (typ, actions) u) t (Returned (Next v))" and "(action, pipes) \<in> set actions"
  shows "distinct (map pipeline_name pipes) \<and> (\<forall>pipe\<in>set pipes. pipeline_admitted L D p t typ action pipe)"
proof -
  from assms(4) obtain t1 t2 order where t: "t = t1 @ t2" and order: "exec (range_map actions) t1 (Returned order)"
    and e: "exec (for_range order () (validateWorkflowAction L D p rr typ)) t2 (Returned (Next v))"
    by (auto simp: validateWorkflowType_def elim!: exec_bndE)
  from returnsD [OF range_map_set [OF assms(3)] order] assms(5) have "(action, pipes) \<in> set order" by blast
  from for_range_every [OF e this] obtain u1 u2 u3 a b where t2: "t2 = u1 @ u2 @ u3"
    and one: "exec (validateWorkflowAction L D p rr typ (action, pipes) a) u2 (Returned (Next b))" by blast
  show ?thesis
    using validateWorkflowAction_admits [OF assms(1,2) one] pipeline_admitted_later [of L D p u2 "typ" "action" _ "t1 @ u1" u3] by (auto simp: t t2)
qed

text \<open>The loops are left only with an error.\<close>

lemma validatePipelines_left:
  "returns (for_range types () (validateWorkflowType L D p rr)) (\<lambda>l. \<forall>b. l = Leave b \<longrightarrow> b \<noteq> None)"
proof -
  have pipe: "returns (validatePipeline L D p rr ty ac pipe seen) (\<lambda>l. \<forall>b. l = Leave b \<longrightarrow> b \<noteq> None)" for ty ac pipe seen
    unfolding validatePipeline_def by (auto intro!: returns_bnd [OF returns_any])
  have act: "returns (validateWorkflowAction L D p rr ty x u) (\<lambda>l. \<forall>b. l = Leave b \<longrightarrow> b \<noteq> None)" for ty x u
    unfolding validateWorkflowAction_def
    by (cases x) (auto intro!: returns_bnd [OF returns_for_range_left [OF pipe]] split: loop.split)
  have "returns (validateWorkflowType L D p rr x u) (\<lambda>l. \<forall>b. l = Leave b \<longrightarrow> b \<noteq> None)" for x u
    unfolding validateWorkflowType_def by (cases x, simp del: not_None_eq) (intro returns_bnd [OF returns_any] returns_for_range_left act)
  then show ?thesis by (rule returns_for_range_left)
qed

lemma validatePipelines_admits:
  assumes "owner_laws L" and "exec (validatePipelines L D p) t (Returned None)"
    and "typ = WorkflowTypeResource \<or> typ = WorkflowTypePromise" and "action = WorkflowActionConfigure \<or> action = WorkflowActionDelete"
  shows "\<exists>pipes. PipelinesFromUnstructured L (workflow_pipelines p typ action) = Inr pipes \<and> distinct (map pipeline_name pipes) \<and>
    (\<forall>pipe\<in>set pipes. pipeline_admitted L D p t typ action pipe)"
proof -
  let ?types = "\<lambda>m. map (\<lambda>(typ, actions). (typ, map (\<lambda>(action, _). (action, m typ action)) actions)) (unstructuredMap p)"
  from assms(2) obtain t1 t2 t3 t4 m rr order where t: "t = t1 @ t2 @ t3 @ t4" and m: "exec (NewPipelinesMap L p) t1 (Returned (Inr m))"
    and order: "exec (range_map (?types m)) t3 (Returned order)"
    and loop: "exec (after_loop (for_range order () (validateWorkflowType L D p rr)) (\<lambda>_. Ret None)) t4 (Returned None)"
    unfolding validatePipelines_def by (auto simp: exec_Ret_iff elim!: exec_bndE split: sum.splits)
  from after_loop_done [OF loop] returnsD [OF validatePipelines_left] obtain u where
    e: "exec (for_range order () (validateWorkflowType L D p rr)) t4 (Returned (Next u))" by blast
  let ?actions = "[(WorkflowActionConfigure, m typ WorkflowActionConfigure), (WorkflowActionDelete, m typ WorkflowActionDelete)]"
  have "(typ, ?actions) \<in> set (?types m)" using assms(3) by (auto simp: unstructuredMap_def)
  moreover have "distinct (map fst (?types m))" by (simp add: unstructuredMap_def consts_defs)
  ultimately have "(typ, ?actions) \<in> set order" using returnsD [OF range_map_set order] by blast
  from for_range_every [OF e this] obtain u1 u2 u3 a b where t4: "t4 = u1 @ u2 @ u3"
    and one: "exec (validateWorkflowType L D p rr (typ, ?actions) a) u2 (Returned (Next b))" by blast
  have "distinct (map pipeline_name (m typ action)) \<and> (\<forall>pipe\<in>set (m typ action). pipeline_admitted L D p u2 typ action pipe)"
    by (rule validateWorkflowType_admits [OF assms(1,3) _ one]) (use assms(4) in \<open>auto simp: consts_defs\<close>)
  moreover have "PipelinesFromUnstructured L (workflow_pipelines p typ action) = Inr (m typ action)"
    using returnsD [OF NewPipelinesMap_result m] assms(3,4) by (auto simp: unstructuredMap_def parsed_def workflow_pipelines_def consts_defs)
  ultimately show ?thesis
    using pipeline_admitted_later [of L D p u2 "typ" "action" _ "t1 @ t2 @ t3 @ u1" u3] by (auto simp: t t4)
qed

text \<open>
  C14. When a Promise is accepted, then for each of its four workflows the pipelines can be read, their names are distinct, their labels are
  valid, the identifier that names a pipeline's resources has at most 60 characters, and the API server accepted the pipeline's job in a dry run.
\<close>

theorem validatePromise_admits:
  assumes "owner_laws L" and "exec (PromiseValidateCreate L D (OPromise p)) t (Returned (warnings, None))"
    and "typ = WorkflowTypeResource \<or> typ = WorkflowTypePromise" and "action = WorkflowActionConfigure \<or> action = WorkflowActionDelete"
  shows "\<exists>pipes. PipelinesFromUnstructured L (workflow_pipelines p typ action) = Inr pipes \<and> distinct (map pipeline_name pipes) \<and>
    (\<forall>pipe\<in>set pipes. pipeline_admitted L D p t typ action pipe)"
proof -
  from assms(2) obtain t1 t2 t3 where t: "t = t1 @ t2 @ t3" and e: "exec (validatePipelines L D p) t2 (Returned None)"
    unfolding PromiseValidateCreate_def validatePromise_def by (auto simp: exec_Ret_iff elim!: exec_bndE split: if_splits)
  show ?thesis using validatePipelines_admits [OF assms(1) e assms(3,4)] pipeline_admitted_later t by blast
qed

text \<open>
  C38. An update of a Promise with an API is accepted only when the new Promise has an API too, whose definition has the same name, type
  and names; what is served to the users under these names stays.
\<close>

theorem PromiseValidateUpdate_keeps_api:
  assumes "exec (PromiseValidateUpdate L D (OPromise old) (OPromise new)) t (Returned (warnings, None))"
    and "GetAPI L old = (Ret (Inr (g, c)) :: (err + gvk \<times> crd) go)"
  shows "\<exists>g' c'. GetAPI L new = (Ret (Inr (g', c')) :: (err + gvk \<times> crd) go) \<and> m_Name (crd_meta c') = m_Name (crd_meta c) \<and>
    crd_TypeKind c' = crd_TypeKind c \<and> crd_APIVersion c' = crd_APIVersion c \<and>
    crd_Plural c' = crd_Plural c \<and> crd_Singular c' = crd_Singular c \<and> crd_Kind c' = crd_Kind c \<and> crd_OtherNames c' = crd_OtherNames c"
proof -
  from assms(1) obtain t' where "exec (validateCRDChanges L new old) t' (Returned None)"
    by (auto simp: PromiseValidateUpdate_def exec_Ret_iff elim!: exec_bndE split: if_splits)
  then obtain c' g' where new: "GetAPI L new = (Ret (Inr (g', c')) :: (err + gvk \<times> crd) go)" and "crdChanges c c' = []"
    unfolding validateCRDChanges_def assms(2)
    by (cases L new rule: GetAPI_cases) (auto simp: exec_Ret_iff crdOrNil_def deref_def exec_Panic_iff split: if_splits sum.splits elim!: exec_bndE)
  then show ?thesis by (auto simp: crdChanges_def split: if_splits)
qed

text \<open>
  C40. A destination is accepted only with a path, and only when no other destination on its state store, among those listed then, has that path.
\<close>

theorem DestinationValidate_path_free:
  assumes "exec (DestinationValidateUpdate (ODestination d)) t (Returned None)"
  shows "d_Path d \<noteq> [] \<and> (\<exists>ref ds. d_StateStoreRef d = Some ref \<and>
    (ListObjs KDestination [] (Some (MatchField ''stateStoreRef'' (ssr_Kind ref @ ''.'' @ ssr_Name ref))), RList (map ODestination ds)) \<in> set t \<and>
    (\<forall>d'\<in>set ds. m_Name (d_meta d') \<noteq> m_Name (d_meta d) \<longrightarrow> d_Path d' \<noteq> d_Path d))"
proof -
  let ?list = "\<lambda>ref. ListObjs KDestination [] (Some (MatchField ''stateStoreRef'' (ssr_Kind ref @ ''.'' @ ssr_Name ref)))"
  have loop: "returns (after_loop (for_range ds () (\<lambda>x _. Ret (if m_Name (d_meta x) = m_Name (d_meta d) then Next ()
        else if d_Path x = d_Path d then Leave (Some e) else Next ()))) (\<lambda>_. Ret None))
      (\<lambda>r. r = None \<longrightarrow> (\<forall>d'\<in>set ds. m_Name (d_meta d') \<noteq> m_Name (d_meta d) \<longrightarrow> d_Path d' \<noteq> d_Path d))" for ds and e :: err
    by (rule returns_after_loop, rule returns_for_range
        [where I = "\<lambda>pre _. \<forall>d'\<in>set pre. m_Name (d_meta d') \<noteq> m_Name (d_meta d) \<longrightarrow> d_Path d' \<noteq> d_Path d"]) auto
  from assms have path: "d_Path d \<noteq> []"
    by (auto simp: DestinationValidateUpdate_def DestinationValidateCreate_def exec_Ret_iff split: if_splits)
  from assms path obtain ref where ref: "d_StateStoreRef d = Some ref"
    by (cases "d_StateStoreRef d") (auto simp: DestinationValidateUpdate_def DestinationValidateCreate_def deref_def exec_Panic_iff elim!: exec_bndE)
  from assms path ref obtain r t' where t: "t = (?list ref, r) # t'" and rest: "exec (case as_list un_dest r of
        Inl e \<Rightarrow> Ret (Some (EWrap ''failed to list destinations: '' e))
      | Inr ds \<Rightarrow> after_loop (for_range ds () (\<lambda>x _. Ret (if m_Name (d_meta x) = m_Name (d_meta d) then Next ()
          else if d_Path x = d_Path d then Leave (Some (EStr (''destination path '' @ CHR 0x27 # d_Path d @ CHR 0x27 # '' already exists for state store '' @
            CHR 0x27 # ssr_Name ref @ [CHR 0x27]))) else Next ()))) (\<lambda>_. Ret None)) t' (Returned None)"
    by (auto simp: DestinationValidateUpdate_def DestinationValidateCreate_def deref_def exec_bnd_calls)
  then obtain ds where ds: "as_list un_dest r = Inr ds" by (cases "as_list un_dest r") (auto simp: exec_Ret_iff)
  from rest have "\<forall>d'\<in>set ds. m_Name (d_meta d') \<noteq> m_Name (d_meta d) \<longrightarrow> d_Path d' \<noteq> d_Path d"
    unfolding ds sum.case by (auto dest!: returnsD [OF loop])
  with path ref t ds show ?thesis by (auto simp: destinations.as_list_mk)
qed

subsection \<open>Examples\<close>

lemmas webhook_eval = PromiseValidateCreate_def PromiseValidateUpdate_def validatePromise_def validateCRD_def validatePipelines_def exampleResourceRequest_def
  validateWorkflowType_def validateWorkflowAction_def validatePipeline_def validatePipelineLabels_def dryRunPipeline_def validateRequiredPromisesAreAvailable_def
  validateCRDChanges_def crdOrNil_def crdChanges_def GetAPI_def ensureMetadataSchema_def

lemma ex_promise_accepted:
  "\<exists>t. exec (validatePromise plain_lib ex_defaults ex_promise) t (Returned ([], None))"
proof -
  have name: "(processName ''kratix-redis-one'' :: (req, resp, string) prog) = Ret ''kratix-redis-one''"
    by (simp add: processName_def maxNameLength_def trimName.simps isAlphanumeric_def)
  have "sorted_list_of_fmap (fmempty :: labels) = []" by (simp add: sorted_list_of_fmap_def sorted_list_of_fset.rep_eq)
  then have "\<exists>t. script (validatePromise plain_lib ex_defaults ex_promise) [ROk, RStrs [''resource'', ''promise''], RStrs [''configure'', ''delete''],
      RStrs [''configure'', ''delete''], RStr ''u'', RStrs [''resource'', ''promise''], RStrs [''configure'', ''delete''], RStrs [''configure'', ''delete''],
      RStrs [], RStr [], RStr ''img'', RStr ''img'', RStr ''img'', RStr ''0a1b2c3d'', ROk] = Some (t, Returned ([], None))"
    by (simp add: webhook_eval factory_eval ex_promise_def ex_defs plain_lib_def consts_defs call_defs name Let_def)
  then show ?thesis by (metis script_exec)
qed

theorem validatePromise_admits_witness:
  "\<exists>t. exec (PromiseValidateCreate plain_lib ex_defaults (OPromise ex_promise)) t (Returned ([], None)) \<and>
     (\<exists>pipe. pipeline_name pipe = ''one'' \<and> pipeline_admitted plain_lib ex_defaults ex_promise t WorkflowTypePromise WorkflowActionConfigure pipe)"
proof -
  from ex_promise_accepted obtain t where e: "exec (PromiseValidateCreate plain_lib ex_defaults (OPromise ex_promise)) t (Returned ([], None))"
    by (auto simp: PromiseValidateCreate_def)
  obtain pipe where pipe: "PipelinesFromUnstructured plain_lib (workflow_pipelines ex_promise WorkflowTypePromise WorkflowActionConfigure) = Inr [pipe]" "pipeline_name pipe = ''one''"
    by (simp add: workflow_pipelines_def ex_promise_def ex_defs plain_lib_def consts_defs api_version_def pipeline_name_def)
  from validatePromise_admits [OF plain_owner_laws e, of WorkflowTypePromise WorkflowActionConfigure] pipe(1)
  have "pipeline_admitted plain_lib ex_defaults ex_promise t WorkflowTypePromise WorkflowActionConfigure pipe" by auto
  with e pipe(2) show ?thesis by blast
qed

theorem PromiseValidateUpdate_keeps_api_witness:
  "\<exists>t g c. exec (PromiseValidateUpdate plain_lib ex_defaults (OPromise ex_promise) (OPromise ex_promise)) t (Returned ([], None)) \<and>
     GetAPI plain_lib ex_promise = (Ret (Inr (g, c)) :: (err + gvk \<times> crd) go) \<and> m_Name (crd_meta c) = ''crd'' \<and> crd_Kind c = ''Redis''"
proof -
  obtain g c where api: "GetAPI plain_lib ex_promise = (Ret (Inr (g, c)) :: (err + gvk \<times> crd) go)" "m_Name (crd_meta c) = ''crd''" "crd_Kind c = ''Redis''"
    by (simp add: GetAPI_def ensureMetadataSchema_def ex_promise_def plain_lib_def ex_defs Let_def)
  from ex_promise_accepted obtain t where "exec (validatePromise plain_lib ex_defaults ex_promise) t (Returned ([], None))" by blast
  then have e: "exec (PromiseValidateUpdate plain_lib ex_defaults (OPromise ex_promise) (OPromise ex_promise)) (t @ []) (Returned ([], None))"
    unfolding PromiseValidateUpdate_def
    by (simp del: append_Nil2) (erule exec_bndI, simp add: validateCRDChanges_def api crdOrNil_def crdChanges_def ErrNoAPI_def exec_Ret_iff)
  from PromiseValidateUpdate_keeps_api [OF e api(1)] api e show ?thesis by auto
qed

theorem DestinationValidate_path_free_witness:
  "\<exists>t. exec (DestinationValidateUpdate (ODestination (ex_destination ''d1''))) t (Returned None) \<and> d_Path (ex_destination ''d1'') \<noteq> []"
proof -
  have "\<exists>t. script (DestinationValidateUpdate (ODestination (ex_destination ''d1'')))
      [RList [ODestination (ex_destination ''d1''), ODestination ((ex_destination ''d2'')\<lparr>d_Path := ''q''\<rparr>)]] = Some (t, Returned None)"
    by (simp add: DestinationValidateUpdate_def DestinationValidateCreate_def ex_defs call_defs after_loop_def deref_def)
  then obtain t where e: "exec (DestinationValidateUpdate (ODestination (ex_destination ''d1''))) t (Returned None)" by (auto dest!: script_exec)
  from DestinationValidate_path_free [OF e] e show ?thesis by blast
qed

text \<open>The scope of the API is checked only as long as its definition is not there yet.\<close>

lemma validateCRD_existing_scope:
  assumes "GetAPI L p = (Ret (Inr (g, c)) :: (err + gvk \<times> crd) go)" and "crd_Scope c = ''Cluster''"
  shows "\<exists>t. exec (validateCRD L p) t (Returned None)"
proof -
  have "script (validateCRD L p) [RErr (EApi ReasonAlreadyExists []), RObj (OCRD c), ROk] =
      Some ([(DryRunCreate (OCRD c), RErr (EApi ReasonAlreadyExists [])), (Get KCRD [] (m_Name (crd_meta c)), RObj (OCRD c)), (DryRunUpdate (OCRD c), ROk)], Returned None)"
    by (simp add: validateCRD_def assms call_defs)
  then show ?thesis by (metis script_exec)
qed

text \<open>Paths are compared as strings: two destinations on one state store may have the same directory.\<close>

lemma same_directory_accepted:
  "\<exists>t. exec (DestinationValidateCreate (ODestination ((ex_destination ''d1'')\<lparr>d_Path := ''clusters/one/''\<rparr>))) t (Returned None) \<and>
     (\<exists>q ds. (q, RList (map ODestination ds)) \<in> set t \<and> (ex_destination ''d2'')\<lparr>d_Path := ''clusters/one''\<rparr> \<in> set ds) \<and>
     Join [''clusters/one/'', ''resources''] = Join [''clusters/one'', ''resources'']"
proof -
  let ?d2 = "(ex_destination ''d2'')\<lparr>d_Path := ''clusters/one''\<rparr>"
  have "\<exists>t q. script (DestinationValidateCreate (ODestination ((ex_destination ''d1'')\<lparr>d_Path := ''clusters/one/''\<rparr>))) [RList [ODestination ?d2]] =
      Some (t, Returned None) \<and> (q, RList (map ODestination [?d2])) \<in> set t"
    by (simp add: DestinationValidateCreate_def ex_defs call_defs after_loop_def deref_def)
  then obtain t q where "exec (DestinationValidateCreate (ODestination ((ex_destination ''d1'')\<lparr>d_Path := ''clusters/one/''\<rparr>))) t (Returned None)"
    and "(q, RList (map ODestination [?d2])) \<in> set t" by (auto dest!: script_exec)
  moreover have "Join [''clusters/one/'', ''resources''] = Join [''clusters/one'', ''resources'']" by code_simp
  ultimately show ?thesis by (intro exI [of _ t] conjI exI [of _ q] exI [of _ "[?d2]"]) simp_all
qed

end
