(* ===== verification/HealthRecords.thy ===== *)
theory HealthRecords
  imports ResourceRequestController
begin

text \<open>
  \<open>src/internal/controller/healthrecord_controller.go\<close>: a health record names a resource request and the state it was found in;
  the controller copies the record into the status of the request and emits an event when the state changed. Logging and the
  registration with the manager are left out.
\<close>

definition HealthIgnoreNotFound :: "err \<Rightarrow> ctrl_result \<times> err option" where
  "HealthIgnoreNotFound err = (if IsNotFound err then (no_requeue, None) else (defaultRequeue, None))"

definition getResourceRequest :: "gvk \<Rightarrow> HealthRecord \<Rightarrow> (err + unstructured) go" where
  "getResourceRequest gvk healthRecord =
     call_obj (Get (KUnstructured gvk) (hr_ResourceNamespace (hr_Data healthRecord)) (hr_ResourceName (hr_Data healthRecord))) un_unstructured"

definition fireEvent :: "HealthRecord \<Rightarrow> unstructured \<Rightarrow> unit go" where
  "fireEvent healthRecord resReq =
     (let state = hr_State (hr_Data healthRecord) in
      if state \<noteq> ''healthy'' \<and> state \<noteq> ''ready''
      then call_event (OUnstructured resReq) ''Warning'' ''HealthRecord'' (''Health state is '' @ state)
      else call_event (OUnstructured resReq) ''Normal'' ''HealthRecord'' (''Health state is '' @ state))"

text \<open>A status that is no object has no fields; a record there that is no object is a failed type assertion.\<close>

definition getInitialHealthRecordState :: "unstructured \<Rightarrow> ('q, 'r, string) prog" where
  "getInitialHealthRecordState resReq =
     (let statusMap = (case u_status resReq of Some (JObj fs) \<Rightarrow> fs | _ \<Rightarrow> []) in
      case map_of statusMap ''healthRecord'' of
        None \<Rightarrow> Ret []
      | Some (JObj initialHealthData) \<Rightarrow> Ret (case map_of initialHealthData ''state'' of Some (JStr s) \<Rightarrow> s | _ \<Rightarrow> [])
      | Some _ \<Rightarrow> Panic ''interface conversion: interface {} is not map[string]interface {}'')"

definition healthFields :: "HealthRecordData \<Rightarrow> json option \<Rightarrow> (string \<times> json) list" where
  "healthFields d details =
     [(''state'', JStr (hr_State d)), (''lastRun'', JInt (hr_LastRun d))] @ (case details of None \<Rightarrow> [] | Some j \<Rightarrow> [(''details'', j)])"

text \<open>\<open>SetNestedMap\<close> of \<open>status.healthRecord\<close>: an error when the status is there and no object.\<close>

definition setHealthRecord :: "unstructured \<Rightarrow> (string \<times> json) list \<Rightarrow> err + unstructured" where
  "setHealthRecord resReq healthData =
     (case u_status resReq of
        Some (JObj fs) \<Rightarrow> Inr (resReq\<lparr>u_status := Some (JObj (json_update ''healthRecord'' (JObj healthData) fs))\<rparr>)
      | None \<Rightarrow> Inr (resReq\<lparr>u_status := Some (JObj [(''healthRecord'', JObj healthData)])\<rparr>)
      | _ \<Rightarrow> Inl (EStr ''value cannot be set because .status is not a map[string]interface{}''))"

definition decodeDetails :: "lib \<Rightarrow> HealthRecordData \<Rightarrow> err + json option" where
  "decodeDetails L d =
     (case hr_Details d of
        None \<Rightarrow> Inr None
      | Some raw \<Rightarrow> (case L_UnmarshalJSON L raw of Inl e \<Rightarrow> Inl e | Inr details \<Rightarrow> Inr (Some details)))"

definition updateResourceStatus :: "lib \<Rightarrow> unstructured \<Rightarrow> HealthRecord \<Rightarrow> (err option) go" where
  "updateResourceStatus L resReq healthRecord =
     (let resReq = (if status_nil resReq then resReq\<lparr>u_status := Some (JObj [])\<rparr> else resReq) in
      bnd (getInitialHealthRecordState resReq) (\<lambda>initialHealthRecordState.
      case decodeDetails L (hr_Data healthRecord) of
        Inl e \<Rightarrow> Ret (Some e)
      | Inr details \<Rightarrow>
          (case setHealthRecord resReq (healthFields (hr_Data healthRecord) details) of
             Inl e \<Rightarrow> Ret (Some e)
           | Inr resReq \<Rightarrow>
               bnd (if initialHealthRecordState \<noteq> hr_State (hr_Data healthRecord) then fireEvent healthRecord resReq else Ret ()) (\<lambda>_.
               call_unit (StatusUpdate (OUnstructured resReq))))))"

definition HealthRecordReconcile :: "lib \<Rightarrow> string \<Rightarrow> string \<Rightarrow> reconcile_result go" where
  "HealthRecordReconcile L ns name =
     bnd (call_obj (Get KHealthRecord ns name) un_health) (\<lambda>res.
     case res of
       Inl e \<Rightarrow> Ret (HealthIgnoreNotFound e)
     | Inr healthRecord \<Rightarrow>
         bnd (call_obj (Get KPromise [] (hr_PromiseName (hr_Data healthRecord))) un_promise) (\<lambda>res.
         case res of
           Inl e \<Rightarrow> Ret (HealthIgnoreNotFound e)
         | Inr promise \<Rightarrow>
             bnd (GetAPI L promise) (\<lambda>res.
             case res of
               Inl e \<Rightarrow> Ret (defaultRequeue, None)
             | Inr (promiseGVK, _) \<Rightarrow>
                 bnd (getResourceRequest promiseGVK healthRecord) (\<lambda>res.
                 case res of
                   Inl e \<Rightarrow> Ret (defaultRequeue, None)
                 | Inr resReq \<Rightarrow>
                     bnd (updateResourceStatus L resReq healthRecord) (\<lambda>err.
                     Ret (no_requeue, err))))))"

subsection \<open>What is recorded\<close>

text \<open>The state of a request as its status shows it.\<close>

definition shown_health :: "unstructured \<Rightarrow> json option" where
  "shown_health u = map_of (status_fields u) ''healthRecord''"

definition shown_state :: "unstructured \<Rightarrow> string" where
  "shown_state u = (case shown_health u of Some (JObj fs) \<Rightarrow> (case map_of fs ''state'' of Some (JStr s) \<Rightarrow> s | _ \<Rightarrow> []) | _ \<Rightarrow> [])"

text \<open>A request that was found, and its status as it was written.\<close>

definition records_health :: "lib \<Rightarrow> HealthRecord \<Rightarrow> unstructured \<Rightarrow> unstructured \<Rightarrow> gtrace \<Rightarrow> bool" where
  "records_health L hr u w t \<longleftrightarrow>
     (\<exists>fs. shown_health w = Some (JObj fs) \<and> map_of fs ''state'' = Some (JStr (hr_State (hr_Data hr))) \<and>
        map_of fs ''lastRun'' = Some (JInt (hr_LastRun (hr_Data hr))) \<and>
        (case hr_Details (hr_Data hr) of None \<Rightarrow> map_of fs ''details'' = None
         | Some raw \<Rightarrow> \<exists>j. L_UnmarshalJSON L raw = Inr j \<and> map_of fs ''details'' = Some j)) \<and>
     (\<forall>k. k \<noteq> ''healthRecord'' \<longrightarrow> map_of (status_fields w) k = map_of (status_fields u) k) \<and>
     w\<lparr>u_status := u_status u\<rparr> = u \<and>
     [fst x. x \<leftarrow> t, \<exists>o' ty rs ms. fst x = Event o' ty rs ms] =
       (if shown_state u = hr_State (hr_Data hr) then []
        else [Event (OUnstructured w) (if hr_State (hr_Data hr) \<in> {''healthy'', ''ready''} then ''Normal'' else ''Warning'') ''HealthRecord''
          (''Health state is '' @ hr_State (hr_Data hr))])"

lemma records_health_later:
  "records_health L hr u w t \<Longrightarrow> \<forall>o' ty rs ms. q \<noteq> Event o' ty rs ms \<Longrightarrow> records_health L hr u w ((q, r) # t)"
  by (simp add: records_health_def)

lemma setHealthRecord_shown:
  assumes "setHealthRecord u fs = Inr w"
  shows "shown_health w = Some (JObj fs)" "\<forall>k. k \<noteq> ''healthRecord'' \<longrightarrow> map_of (status_fields w) k = map_of (status_fields u) k"
    "w\<lparr>u_status := y\<rparr> = u\<lparr>u_status := y\<rparr>"
  using assms by (auto simp: setHealthRecord_def shown_health_def status_fields_def split: option.splits json.splits)

lemma getInitial_shown:
  assumes "exec (getInitialHealthRecordState u) t (Returned s)"
  shows "t = [] \<and> s = shown_state u"
  using assms by (auto simp: getInitialHealthRecordState_def shown_state_def shown_health_def status_fields_def exec_Ret_iff exec_Panic_iff Let_def
      split: option.splits json.splits)

lemma healthFields_of:
  "map_of (healthFields d details) ''state'' = Some (JStr (hr_State d))" "map_of (healthFields d details) ''lastRun'' = Some (JInt (hr_LastRun d))"
  "map_of (healthFields d details) ''details'' = details"
  by (auto simp: healthFields_def split: option.split)

lemma status_nil_fields: "status_nil u \<Longrightarrow> status_fields u = []"
  by (auto simp: status_nil_def status_fields_def)

lemma updateResourceStatus_records:
  assumes "exec (updateResourceStatus L u hr) t oc" and "(StatusUpdate (OUnstructured w), x) \<in> set t"
  shows "records_health L hr u w t"
proof -
  let ?u = "if status_nil u then u\<lparr>u_status := Some (JObj [])\<rparr> else u"
  have u: "shown_state ?u = shown_state u" "status_fields ?u = status_fields u" "?u\<lparr>u_status := y\<rparr> = u\<lparr>u_status := y\<rparr>" for y
    by (simp_all add: shown_state_def shown_health_def status_nil_fields) (auto simp: status_fields_def status_nil_def)
  from assms(1) consider (go) s t1 t2 where "t = t1 @ t2" and "exec (getInitialHealthRecordState ?u) t1 (Returned s)"
    and "exec (case decodeDetails L (hr_Data hr) of
        Inl e \<Rightarrow> Ret (Some e)
      | Inr details \<Rightarrow>
          (case setHealthRecord ?u (healthFields (hr_Data hr) details) of
             Inl e \<Rightarrow> Ret (Some e)
           | Inr w \<Rightarrow> bnd (if s \<noteq> hr_State (hr_Data hr) then fireEvent hr w else Ret ()) (\<lambda>_. call_unit (StatusUpdate (OUnstructured w))))) t2 oc"
    | (panic) m where "exec (getInitialHealthRecordState ?u) t (Panicked m)"
    unfolding updateResourceStatus_def Let_def by (elim exec_bndE) auto
  then show ?thesis
  proof cases
    case panic
    then have "t = []" by (auto simp: getInitialHealthRecordState_def exec_Ret_iff exec_Panic_iff Let_def split: option.splits json.splits)
    with assms(2) show ?thesis by simp
  next
    case go
    note init = getInitial_shown [OF go(2), unfolded u(1)]
    from go init assms(2) obtain details w' where details: "decodeDetails L (hr_Data hr) = Inr details"
      and set: "setHealthRecord ?u (healthFields (hr_Data hr) details) = Inr w'"
      and e: "exec (bnd (if s \<noteq> hr_State (hr_Data hr) then fireEvent hr w' else Ret ()) (\<lambda>_. call_unit (StatusUpdate (OUnstructured w')))) t oc"
      by (auto simp: exec_Ret_iff split: sum.splits)
    note shown = setHealthRecord_shown [OF set, unfolded u]
    from e assms(2) have "w = w'" and "[fst x. x \<leftarrow> t, \<exists>o' ty rs ms. fst x = Event o' ty rs ms] = (if s = hr_State (hr_Data hr) then []
        else [Event (OUnstructured w) (if hr_State (hr_Data hr) \<in> {''healthy'', ''ready''} then ''Normal'' else ''Warning'') ''HealthRecord''
          (''Health state is '' @ hr_State (hr_Data hr))])"
      by (auto simp: fireEvent_def call_event_def call_unit_def Let_def exec_Ret_iff exec_Call_iff split: if_splits)
    with shown init details show ?thesis
      by (auto simp: records_health_def healthFields_of decodeDetails_def split: option.splits sum.splits)
  qed
qed

text \<open>
  C39. Whenever the status of a resource request is written for a health record, the written status shows the state, the time and the details of that record,
  is otherwise the status that was read, as is the rest of the request; and an event tells the new state, a warning unless it is healthy or ready,
  exactly when the state that was shown before is another one.
\<close>

theorem HealthRecord_recorded:
  assumes "exec (HealthRecordReconcile L ns name) t oc" and "(StatusUpdate (OUnstructured w), x) \<in> set t"
  shows "\<exists>hr p g u. (Get KHealthRecord ns name, RObj (OHealthRecord hr)) \<in> set t \<and>
    (Get KPromise [] (hr_PromiseName (hr_Data hr)), RObj (OPromise p)) \<in> set t \<and>
    (Get (KUnstructured g) (hr_ResourceNamespace (hr_Data hr)) (hr_ResourceName (hr_Data hr)), RObj (OUnstructured u)) \<in> set t \<and>
    records_health L hr u w t"
proof -
  let ?Q = "\<lambda>t oc. (StatusUpdate (OUnstructured w), x) \<in> set t \<longrightarrow> (\<exists>hr p g u. (Get KHealthRecord ns name, RObj (OHealthRecord hr)) \<in> set t \<and>
    (Get KPromise [] (hr_PromiseName (hr_Data hr)), RObj (OPromise p)) \<in> set t \<and>
    (Get (KUnstructured g) (hr_ResourceNamespace (hr_Data hr)) (hr_ResourceName (hr_Data hr)), RObj (OUnstructured u)) \<in> set t \<and>
    records_health L hr u w t)"
  have api: "wpre (GetAPI L p) Q" if "\<And>x. Q [] (Returned x)" "\<And>m. Q [] (Panicked m)" for p and Q :: "gtrace \<Rightarrow> (err + gvk \<times> crd) outcome \<Rightarrow> bool"
    using that by (cases L p rule: GetAPI_cases) auto
  have update: "wpre (updateResourceStatus L u hr) (\<lambda>t oc. case oc of
      Returned err \<Rightarrow> ?Q ([(Get KHealthRecord ns name, RObj (OHealthRecord hr)), (Get KPromise [] (hr_PromiseName (hr_Data hr)), RObj (OPromise p)),
        (Get (KUnstructured g) (hr_ResourceNamespace (hr_Data hr)) (hr_ResourceName (hr_Data hr)), RObj (OUnstructured u))] @ t) oc'
    | Panicked m \<Rightarrow> ?Q ([(Get KHealthRecord ns name, RObj (OHealthRecord hr)), (Get KPromise [] (hr_PromiseName (hr_Data hr)), RObj (OPromise p)),
        (Get (KUnstructured g) (hr_ResourceNamespace (hr_Data hr)) (hr_ResourceName (hr_Data hr)), RObj (OUnstructured u))] @ t) oc')" for hr p g u and oc' :: bool
    by (rule wpreI) (auto split: outcome.split dest!: updateResourceStatus_records intro!: records_health_later)
  have "wpre (HealthRecordReconcile L ns name) ?Q"
    unfolding HealthRecordReconcile_def getResourceRequest_def wpre_bnd wpre_calls
    using update by (auto simp: wpre_bnd wpre_calls health_records.as_obj_mk promises.as_obj_mk unstructureds.as_obj_mk intro!: api split: sum.split)
  from wpreD [OF assms(1) this] assms(2) show ?thesis by simp
qed

definition ex_health :: HealthRecord where
  "ex_health = \<lparr>hr_meta = ex_meta ''redis-health'', hr_Data = \<lparr>hr_PromiseName = ''redis'', hr_ResourceName = ''one'', hr_ResourceNamespace = ''default'',
     hr_State = ''degraded'', hr_LastRun = 7, hr_Details = None\<rparr>\<rparr>"

definition ex_checked :: unstructured where
  "ex_checked = \<lparr>u_meta = ex_meta ''one'', u_gvk = \<lparr>g_Group = ''example.com'', g_Version = ''v1'', g_Kind = ''Redis''\<rparr>, u_spec = None,
     u_status = Some (JObj [(''message'', JStr ''ok''), (''healthRecord'', JObj [(''state'', JStr ''healthy'')])])\<rparr>"

theorem HealthRecord_recorded_witness:
  "\<exists>t w x oc. exec (HealthRecordReconcile plain_lib ''default'' ''redis-health'') t oc \<and> (StatusUpdate (OUnstructured w), x) \<in> set t \<and>
     records_health plain_lib ex_health ex_checked w t"
proof -
  have "\<exists>t w. script (HealthRecordReconcile plain_lib ''default'' ''redis-health'') [RObj (OHealthRecord ex_health), RObj (OPromise ex_promise),
      RObj (OUnstructured ex_checked), ROk, ROk] = Some (t, Returned (no_requeue, None)) \<and> (StatusUpdate (OUnstructured w), ROk) \<in> set t \<and>
      (\<forall>hr g u. (Get KHealthRecord ''default'' ''redis-health'', RObj (OHealthRecord hr)) \<in> set t \<longrightarrow> hr = ex_health) \<and>
      (\<forall>g ns n u. (Get (KUnstructured g) ns n, RObj (OUnstructured u)) \<in> set t \<longrightarrow> u = ex_checked)"
    by (simp add: HealthRecordReconcile_def getResourceRequest_def updateResourceStatus_def getInitialHealthRecordState_def setHealthRecord_def healthFields_def
        decodeDetails_def fireEvent_def status_nil_def GetAPI_def ensureMetadataSchema_def ex_health_def ex_checked_def ex_promise_def ex_defs plain_lib_def call_defs Let_def)
  then obtain t w where e: "exec (HealthRecordReconcile plain_lib ''default'' ''redis-health'') t (Returned (no_requeue, None))"
    and w: "(StatusUpdate (OUnstructured w), ROk) \<in> set t" and only: "\<forall>hr. (Get KHealthRecord ''default'' ''redis-health'', RObj (OHealthRecord hr)) \<in> set t \<longrightarrow> hr = ex_health"
      "\<forall>g ns n u. (Get (KUnstructured g) ns n, RObj (OUnstructured u)) \<in> set t \<longrightarrow> u = ex_checked" by (auto dest!: script_exec)
  from HealthRecord_recorded [OF e w] only e w show ?thesis by metis
qed

end
