(* ===== verification/PipelineAdapter.thy ===== *)
theory PipelineAdapter
  imports PipelineFactory ResourceUtil Filepath
begin

text \<open>
  The other two programs of the pipeline adapter, which run in the containers that Kratix adds to a pipeline's job: the reader
  (\<open>src/work-creator/pipeline/lib/reader.go\<close>), which writes the object to a file before the pipeline runs, and the status
  writer (\<open>src/work-creator/pipeline/cmd/update-status/main.go\<close>, \<open>src/work-creator/pipeline/lib/status_updater.go\<close>), which
  merges what the pipeline left in \<open>status.yaml\<close> into the object's status; and their helpers
  (\<open>src/work-creator/pipeline/lib/helpers/helpers.go\<close>).

  They talk to the environment of their container, its files and the API server by resource name, so they have requests of
  their own. How a time is printed is the parameter \<open>F\<close>; YAML is a parameter of the library \<open>L\<close>. A Go map is an association
  list; where its order shows, in the list that \<open>mergeConditions\<close> builds, the runtime is asked for it.
\<close>

subsection \<open>Requests\<close>

record gvr =
  r_Group :: string
  r_Version :: string
  r_Resource :: string

datatype pod_req =
    EnvVar string
  | InClusterConfig
  | BuildConfigFromFlags string
  | NewForConfig string
  | DynGet gvr string string
  | DynUpdateStatus gvr string unstructured
  | PodStat string
  | PodReadFile string
  | PodWriteFile string string
  | PodPrint string
  | PodNow
  | PodMapOrder "string list"

datatype pod_resp =
    PErr err
  | POk
  | PStr string
  | PObj unstructured
  | PTime time
  | PStrs "string list"

type_synonym 'a pod = "(pod_req, pod_resp, 'a) prog"
type_synonym ptrace = "(pod_req, pod_resp) trace"

definition pod_env :: "string \<Rightarrow> string pod" where
  "pod_env v = Call (EnvVar v) (\<lambda>r. Ret (case r of PStr s \<Rightarrow> s | _ \<Rightarrow> []))"

definition pod_unit :: "pod_req \<Rightarrow> (err option) pod" where
  "pod_unit q = Call q (\<lambda>r. Ret (case r of PErr e \<Rightarrow> Some e | _ \<Rightarrow> None))"

definition pod_str :: "pod_req \<Rightarrow> (err + string) pod" where
  "pod_str q = Call q (\<lambda>r. Ret (case r of PStr s \<Rightarrow> Inr s | PErr e \<Rightarrow> Inl e | _ \<Rightarrow> Inl decode_error))"

definition pod_obj :: "pod_req \<Rightarrow> (err + unstructured) pod" where
  "pod_obj q = Call q (\<lambda>r. Ret (case r of PObj u \<Rightarrow> Inr u | PErr e \<Rightarrow> Inl e | _ \<Rightarrow> Inl decode_error))"

definition pod_now :: "time pod" where
  "pod_now = Call PodNow (\<lambda>r. Ret (case r of PTime t \<Rightarrow> t | _ \<Rightarrow> 0))"

definition pod_range :: "(string \<times> json) list \<Rightarrow> ((string \<times> json) list) pod" where
  "pod_range m = Call (PodMapOrder (map fst m)) (\<lambda>r. Ret
     (case r of
        PStrs ks \<Rightarrow> if mset ks = mset (map fst m) then map (\<lambda>k. (k, the (map_of m k))) ks else m
      | _ \<Rightarrow> m))"

subsection \<open>Helpers\<close>

record Parameters =
  ObjectGroup :: string
  ObjectName :: string
  ObjectVersion :: string
  ObjectNamespace :: string
  PromiseName :: string
  CRDPlural :: string
  ClusterScoped :: bool
  IsLastPipeline :: bool
  InputDir :: string
  OutputDir :: string

definition getParametersFromEnv :: "Parameters pod" where
  "getParametersFromEnv =
     bnd (pod_env KratixObjectGroupEnvVar) (\<lambda>objectGroup.
     bnd (pod_env KratixObjectVersionEnvVar) (\<lambda>objectVersion.
     bnd (pod_env KratixObjectNameEnvVar) (\<lambda>objectName.
     bnd (pod_env KratixObjectNamespaceEnvVar) (\<lambda>objectNamespace.
     bnd (pod_env KratixCrdPluralEnvVar) (\<lambda>crdPlural.
     bnd (pod_env KratixClusterScopedEnvVar) (\<lambda>clusterScoped.
     bnd (pod_env KratixPromiseNameEnvVar) (\<lambda>promiseName.
     bnd (pod_env ''IS_LAST_PIPELINE'') (\<lambda>isLastPipeline.
     bnd (pod_env ''INPUT_DIR'') (\<lambda>inputDir.
     bnd (pod_env ''OUTPUT_DIR'') (\<lambda>outputDir.
     Ret \<lparr>ObjectGroup = objectGroup, ObjectName = objectName, ObjectVersion = objectVersion,
       ObjectNamespace = (if clusterScoped = ''true'' then [] else if objectNamespace = [] then ''default'' else objectNamespace),
       PromiseName = promiseName, CRDPlural = crdPlural, ClusterScoped = (clusterScoped = ''true''), IsLastPipeline = (isLastPipeline = ''true''),
       InputDir = (if inputDir = [] then ''/kratix/input'' else inputDir),
       OutputDir = (if outputDir = [] then ''/kratix/output'' else outputDir)\<rparr>))))))))))"

definition GetPromisePath :: "Parameters \<Rightarrow> string" where
  "GetPromisePath p = Join [InputDir p, ''promise.yaml'']"

definition GetObjectPath :: "Parameters \<Rightarrow> string" where
  "GetObjectPath p = Join [InputDir p, ''object.yaml'']"

definition getK8sClient :: "(err option) pod" where
  "getK8sClient =
     bnd (pod_str InClusterConfig) (\<lambda>res.
     bnd (case res of
            Inr config \<Rightarrow> Ret (Inr config)
          | Inl _ \<Rightarrow>
              bnd (pod_env ''HOME'') (\<lambda>home.
              pod_str (BuildConfigFromFlags (Join [home, ''.kube'', ''config''])))) (\<lambda>res.
     case res of Inl e \<Rightarrow> Ret (Some e) | Inr config \<Rightarrow> pod_unit (NewForConfig config)))"

definition WriteToYaml :: "lib \<Rightarrow> unstructured \<Rightarrow> string \<Rightarrow> (err option) pod" where
  "WriteToYaml L obj objectFilePath =
     (case L_MarshalYAML L (OUnstructured obj) of
        Inl e \<Rightarrow> Ret (Some (EWrap ''failed to marshal object: '' e))
      | Inr objYAML \<Rightarrow>
          bnd (pod_unit (PodWriteFile objectFilePath objYAML)) (\<lambda>err.
          Ret (case err of Some e \<Rightarrow> Some (EWrap ''failed to write object to file: '' e) | None \<Rightarrow> None)))"

definition ObjectGVR :: "Parameters \<Rightarrow> gvr" where
  "ObjectGVR params = \<lparr>r_Group = ObjectGroup params, r_Version = ObjectVersion params, r_Resource = CRDPlural params\<rparr>"

definition PromiseGVR :: gvr where
  "PromiseGVR = \<lparr>r_Group = ''platform.kratix.io'', r_Version = ''v1alpha1'', r_Resource = ''promises''\<rparr>"

definition PrintFileHead :: "string \<Rightarrow> nat \<Rightarrow> (err option) pod" where
  "PrintFileHead filename n =
     bnd (pod_str (PodReadFile filename)) (\<lambda>res.
     case res of
       Inl e \<Rightarrow> Ret (Some e)
     | Inr content \<Rightarrow> bnd (pod_unit (PodPrint (take (min (length content) n) content))) (\<lambda>_. Ret None))"

subsection \<open>The reader\<close>

definition writeObjectToFile :: "lib \<Rightarrow> Parameters \<Rightarrow> (err option) pod" where
  "writeObjectToFile L params =
     bnd (pod_obj (DynGet (ObjectGVR params) (ObjectNamespace params) (ObjectName params))) (\<lambda>res.
     case res of
       Inl e \<Rightarrow> Ret (Some (EWrap ''failed to get object: '' e))
     | Inr obj \<Rightarrow>
         let objectFilePath = GetObjectPath params in
         bnd (WriteToYaml L obj objectFilePath) (\<lambda>err.
         case err of
           Some e \<Rightarrow> Ret (Some (EWrap ''failed to write object to file: '' e))
         | None \<Rightarrow>
             bnd (pod_unit (PodPrint (''Object file written to: '' @ objectFilePath @ '' head of file:'' @ [CHR 0x0A]))) (\<lambda>_.
             bnd (PrintFileHead objectFilePath 500) (\<lambda>err.
             Ret (case err of Some e \<Rightarrow> Some (EWrap ''failed to print file head: '' e) | None \<Rightarrow> None)))))"

definition ReaderRun :: "lib \<Rightarrow> (err option) pod" where
  "ReaderRun L =
     bnd getParametersFromEnv (\<lambda>params.
     bnd getK8sClient (\<lambda>err.
     case err of
       Some e \<Rightarrow> Ret (Some (EWrap ''failed to create Kubernetes client: '' e))
     | None \<Rightarrow> writeObjectToFile L params))"

subsection \<open>Merging statuses\<close>

text \<open>The type of a condition; whatever has none is dropped when lists of conditions are merged.\<close>

definition condType :: "json \<Rightarrow> string option" where
  "condType cond = (case cond of JObj c \<Rightarrow> (case map_of c ''type'' of Some (JStr s) \<Rightarrow> Some s | _ \<Rightarrow> None) | _ \<Rightarrow> None)"

definition addByType :: "json \<Rightarrow> (string \<times> json) list \<Rightarrow> (string \<times> json) list" where
  "addByType cond merged = (case condType cond of Some ty \<Rightarrow> json_update ty cond merged | None \<Rightarrow> merged)"

definition mergeConditions :: "json list \<Rightarrow> json list \<Rightarrow> (json list) pod" where
  "mergeConditions existing incoming =
     bnd (pod_range (fold addByType incoming (fold addByType existing []))) (\<lambda>merged. Ret (map snd merged))"

definition mergeEntry :: "string \<times> json \<Rightarrow> (string \<times> json) list \<Rightarrow> (((string \<times> json) list, unit) loop) pod" where
  "mergeEntry x result =
     (case x of (k, v) \<Rightarrow>
      (case (if k = ''conditions'' then (map_of result k, v) else (None, v)) of
         (Some (JList existingConditions), JList incomingConditions) \<Rightarrow>
           bnd (mergeConditions existingConditions incomingConditions) (\<lambda>cs. Ret (Next (json_update k (JList cs) result)))
       | _ \<Rightarrow> Ret (Next (json_update k v result))))"

definition mergeRecursive :: "(string \<times> json) list \<Rightarrow> (string \<times> json) list \<Rightarrow> ((string \<times> json) list) pod" where
  "mergeRecursive existing incoming =
     bnd (for_range incoming existing mergeEntry) (\<lambda>l. Ret (case l of Next result \<Rightarrow> result | Leave _ \<Rightarrow> []))"

definition MergeStatuses :: "(string \<times> json) list \<Rightarrow> (string \<times> json) list \<Rightarrow> ((string \<times> json) list) pod" where
  "MergeStatuses existing incoming = mergeRecursive existing incoming"

definition completedCondition :: "(time \<Rightarrow> string) \<Rightarrow> time \<Rightarrow> json" where
  "completedCondition F now =
     JObj [(''lastTransitionTime'', JStr (F now)), (''message'', JStr ''Pipelines completed''), (''reason'', JStr ''PipelinesExecutedSuccessfully''),
       (''status'', JStr ConditionTrue), (''type'', JStr ConfigureWorkflowCompletedCondition)]"

fun replaceFirst :: "json \<Rightarrow> json list \<Rightarrow> json list" where
  "replaceFirst new [] = [new]"
| "replaceFirst new (c # cs) = (if condType c = condType new then new # cs else c # replaceFirst new cs)"

definition updateConditions :: "json list option \<Rightarrow> json \<Rightarrow> json list" where
  "updateConditions conditions newCondition = (case conditions of None \<Rightarrow> [newCondition] | Some cs \<Rightarrow> replaceFirst newCondition cs)"

definition MarkAsCompleted :: "(time \<Rightarrow> string) \<Rightarrow> (string \<times> json) list \<Rightarrow> ((string \<times> json) list) pod" where
  "MarkAsCompleted F status =
     (let status = (if map_of status ''message'' = Some (JStr ''Pending'') then json_update ''message'' (JStr ''Resource requested'') status else status);
          existingConditions = (case map_of status ''conditions'' of Some (JList cs) \<Rightarrow> Some cs | _ \<Rightarrow> None) in
      bnd pod_now (\<lambda>now.
      Ret (json_update ''conditions'' (JList (updateConditions existingConditions (completedCondition F now))) status)))"

subsection \<open>The status writer\<close>

definition statusFile :: string where
  "statusFile = Join [''/work-creator-files'', ''metadata'', ''status.yaml'']"

definition readStatusFile :: "lib \<Rightarrow> string \<Rightarrow> (err + (string \<times> json) list) pod" where
  "readStatusFile L file =
     bnd (pod_unit (PodStat file)) (\<lambda>err.
     if err \<noteq> None then Ret (Inr [])
     else
       bnd (pod_str (PodReadFile file)) (\<lambda>res.
       Ret (case res of
              Inl e \<Rightarrow> Inl (EWrap ''failed to read status file: '' e)
            | Inr incomingStatusBytes \<Rightarrow>
                (case L_UnmarshalMap L incomingStatusBytes of
                   Inl e \<Rightarrow> Inl (EWrap ''failed to unmarshal incoming status: '' e)
                 | Inr incomingStatus \<Rightarrow> Inr incomingStatus))))"

text \<open>The three parts of \<open>run\<close>: from the fetched object on, from the parameters on, and all of it.\<close>

definition updateFetched :: "lib \<Rightarrow> (time \<Rightarrow> string) \<Rightarrow> Parameters \<Rightarrow> unstructured \<Rightarrow> (err option) pod" where
  "updateFetched L F params existingObj =
     bnd (if status_nil existingObj then Ret [] else status_map existingObj) (\<lambda>existingStatus.
     bnd (readStatusFile L statusFile) (\<lambda>res.
     case res of
       Inl e \<Rightarrow> Ret (Some (EWrap ''failed to load incoming status: '' e))
     | Inr incomingStatus \<Rightarrow>
         bnd (MergeStatuses existingStatus incomingStatus) (\<lambda>mergedStatus.
         bnd (if IsLastPipeline params then MarkAsCompleted F mergedStatus else Ret mergedStatus) (\<lambda>mergedStatus.
         bnd (pod_unit (DynUpdateStatus (ObjectGVR params) (ObjectNamespace params) (existingObj\<lparr>u_status := Some (JObj mergedStatus)\<rparr>))) (\<lambda>err.
         Ret (case err of Some e \<Rightarrow> Some (EWrap ''failed to update status: '' e) | None \<Rightarrow> None))))))"

definition updateWith :: "lib \<Rightarrow> (time \<Rightarrow> string) \<Rightarrow> Parameters \<Rightarrow> (err option) pod" where
  "updateWith L F params =
     bnd getK8sClient (\<lambda>err.
     case err of
       Some e \<Rightarrow> Ret (Some (EWrap ''failed to create Kubernetes client: '' e))
     | None \<Rightarrow>
         bnd (pod_obj (DynGet (ObjectGVR params) (ObjectNamespace params) (ObjectName params))) (\<lambda>res.
         case res of
           Inl e \<Rightarrow> Ret (Some (EWrap ''failed to get existing object: '' e))
         | Inr existingObj \<Rightarrow> updateFetched L F params existingObj))"

definition updateStatusRun :: "lib \<Rightarrow> (time \<Rightarrow> string) \<Rightarrow> (err option) pod" where
  "updateStatusRun L F = bnd getParametersFromEnv (updateWith L F)"

subsection \<open>What is written\<close>

text \<open>The last condition of a type, the one that counts when a list has several.\<close>

definition last_cond :: "json list \<Rightarrow> string \<Rightarrow> json option" where
  "last_cond cs ty = find (\<lambda>c. condType c = Some ty) (rev cs)"

lemma last_cond_simps: "last_cond [] ty = None" "last_cond (cs @ [c]) ty = (if condType c = Some ty then Some c else last_cond cs ty)"
  by (simp_all add: last_cond_def)

definition by_type :: "(string \<times> json) list \<Rightarrow> bool" where
  "by_type m \<longleftrightarrow> distinct (map fst m) \<and> (\<forall>x\<in>set m. condType (snd x) = Some (fst x))"

lemma json_update_set: "x \<in> set (json_update k v m) \<Longrightarrow> x = (k, v) \<or> x \<in> set m"
  by (induction k v m rule: json_update.induct) (auto split: if_splits)

lemma json_update_keys: "map fst (json_update k v m) = (if k \<in> fst ` set m then map fst m else map fst m @ [k])"
  by (induction k v m rule: json_update.induct) auto

lemma by_type_add: "by_type m \<Longrightarrow> by_type (addByType c m)"
  by (auto simp: by_type_def addByType_def json_update_keys dest!: json_update_set split: option.splits)

lemma fold_addByType:
  "by_type (fold addByType cs []) \<and> (\<forall>ty. map_of (fold addByType cs []) ty = last_cond cs ty)"
proof (induction cs rule: rev_induct)
  case (snoc c cs)
  have "map_of (addByType c m) ty = (if condType c = Some ty then Some c else map_of m ty)" for m ty
    by (auto simp: addByType_def split: option.splits)
  with snoc show ?case by (simp add: by_type_add last_cond_simps)
qed (simp add: by_type_def last_cond_simps)

lemma pod_range_result:
  assumes "exec (pod_range m) t (Returned m')" and "distinct (map fst m)"
  shows "mset m' = mset m"
proof -
  have "wpre (pod_range m) (\<lambda>t oc. \<forall>m'. oc = Returned m' \<longrightarrow> mset m' = mset m)"
    using mset_map_of_keys [of _ m] assms(2) by (auto simp: pod_range_def split: pod_resp.splits)
  from wpreD [OF assms(1) this] show ?thesis by simp
qed

lemma by_type_last_cond:
  assumes "by_type m" and "mset m' = mset m"
  shows "last_cond (map snd m') ty = map_of m ty" "distinct (map condType (map snd m'))" "\<forall>c\<in>set (map snd m'). condType c \<noteq> None"
proof -
  have m': "by_type m'" using assms by (metis by_type_def mset_eq_setD mset_eq_imp_distinct_iff mset_map)
  have "map_of m' ty = map_of m ty"
    using assms m' by (metis by_type_def map_of_eqI map_of_eq_Some_iff mset_eq_setD option.exhaust map_of_eq_None_iff)
  moreover have "last_cond (map snd m') ty = map_of m' ty"
    using m'
  proof (induction m' rule: rev_induct)
    case (snoc x m')
    then have "map_of m' (fst x) = None" by (auto simp: by_type_def map_of_eq_None_iff)
    with snoc show ?case by (auto simp: by_type_def last_cond_simps map_add_def split: option.splits)
  qed (simp add: last_cond_simps)
  ultimately show "last_cond (map snd m') ty = map_of m ty" by simp
  have "map (condType \<circ> snd) m' = map (Some \<circ> fst) m'" using m' by (auto simp: by_type_def)
  then show "distinct (map condType (map snd m'))" using m' by (simp add: by_type_def distinct_map inj_on_def)
  show "\<forall>c\<in>set (map snd m'). condType c \<noteq> None" using m' by (force simp: by_type_def)
qed

lemma mergeConditions_result:
  assumes "exec (mergeConditions ec ic) t (Returned cs)"
  shows "last_cond cs ty = last_cond (ec @ ic) ty" "distinct (map condType cs)" "\<forall>c\<in>set cs. condType c \<noteq> None"
proof -
  let ?m = "fold addByType (ec @ ic) []"
  from assms obtain m' where m': "exec (pod_range ?m) t (Returned m')" and cs: "cs = map snd m'"
    by (auto simp: mergeConditions_def exec_Ret_iff elim!: exec_bndE)
  have m: "by_type ?m" "map_of ?m ty = last_cond (ec @ ic) ty" using fold_addByType [of "ec @ ic"] by blast+
  have "mset m' = mset ?m" using pod_range_result [OF m'] m(1) by (simp add: by_type_def)
  from by_type_last_cond [OF m(1) this] m(2)
  show "last_cond cs ty = last_cond (ec @ ic) ty" "distinct (map condType cs)" "\<forall>c\<in>set cs. condType c \<noteq> None"
    by (simp_all only: cs)
qed

text \<open>
  Merging: two lists of conditions become one list with one condition for each type, the last of that type among the old and
  then the new ones; for everything else the new value counts.
\<close>

fun conditions_merged :: "json option \<Rightarrow> json option \<Rightarrow> json option \<Rightarrow> bool" where
  "conditions_merged (Some (JList ec)) (Some (JList ic)) new \<longleftrightarrow>
     (\<exists>cs. new = Some (JList cs) \<and> distinct (map condType cs) \<and> (\<forall>c\<in>set cs. condType c \<noteq> None) \<and> (\<forall>ty. last_cond cs ty = last_cond (ec @ ic) ty))"
| "conditions_merged old None new \<longleftrightarrow> new = old"
| "conditions_merged old (Some v) new \<longleftrightarrow> new = Some v"

definition statuses_merged :: "(string \<times> json) list \<Rightarrow> (string \<times> json) list \<Rightarrow> (string \<times> json) list \<Rightarrow> bool" where
  "statuses_merged existing incoming m \<longleftrightarrow>
     (\<forall>k. k \<noteq> ''conditions'' \<longrightarrow> map_of m k = (case map_of incoming k of None \<Rightarrow> map_of existing k | Some v \<Rightarrow> Some v)) \<and>
     conditions_merged (map_of existing ''conditions'') (map_of incoming ''conditions'') (map_of m ''conditions'')"

lemma conditions_merged_None: "conditions_merged old None new \<longleftrightarrow> new = old"
  by (cases "(old, None :: json option, new)" rule: conditions_merged.cases) auto

lemma mergeEntry_conditions:
  "returns (mergeEntry (''conditions'', v) m) (\<lambda>l. \<exists>m' new. l = Next m' \<and> conditions_merged (map_of m ''conditions'') (Some v) (Some new) \<and>
     m' = json_update ''conditions'' new m)"
proof (cases "(map_of m ''conditions'', Some v, None :: json option)" rule: conditions_merged.cases)
  case (1 ec ic new)
  have "returns (mergeConditions ec ic) (\<lambda>cs. distinct (map condType cs) \<and> (\<forall>c\<in>set cs. condType c \<noteq> None) \<and> (\<forall>ty. last_cond cs ty = last_cond (ec @ ic) ty))"
    unfolding returns_def by (rule wpreI) (auto dest: mergeConditions_result)
  then have "returns (bnd (mergeConditions ec ic) (\<lambda>cs. Ret (Next (json_update ''conditions'' (JList cs) m) :: ((string \<times> json) list, unit) loop)))
      (\<lambda>l. \<exists>m' new. l = Next m' \<and> conditions_merged (Some (JList ec)) (Some (JList ic)) (Some new) \<and> m' = json_update ''conditions'' new m)"
    by (rule returns_bnd) (simp, blast)
  with 1 show ?thesis by (simp add: mergeEntry_def)
qed (auto simp: mergeEntry_def split: option.split json.split)

lemma mergeEntry_merges:
  assumes "statuses_merged existing pre m" and "fst x \<notin> fst ` set pre"
  shows "returns (mergeEntry x m) (\<lambda>l. \<exists>m'. l = Next m' \<and> statuses_merged existing (pre @ [x]) m')"
proof (cases "fst x = ''conditions''")
  case True
  then obtain v where x: "x = (''conditions'', v)" by (cases x) simp
  then have pre: "map_of pre ''conditions'' = None" using assms(2) by (simp add: map_of_eq_None_iff)
  with assms(1) have "map_of m ''conditions'' = map_of existing ''conditions''" by (simp add: statuses_merged_def conditions_merged_None)
  then show ?thesis
    unfolding x by (intro returns_mono [OF mergeEntry_conditions]) (use assms(1) pre in \<open>auto simp: statuses_merged_def map_add_def split: option.split\<close>)
next
  case False
  moreover have "map_of pre (fst x) = None" using assms(2) by (simp add: map_of_eq_None_iff)
  ultimately show ?thesis
    using assms(1) by (cases x) (auto simp: mergeEntry_def statuses_merged_def map_add_def split: option.split)
qed

lemma MergeStatuses_merges:
  assumes "exec (MergeStatuses existing incoming) t (Returned merged)" and "distinct (map fst incoming)"
  shows "statuses_merged existing incoming merged"
proof -
  have "returns (for_range incoming existing mergeEntry) (\<lambda>l. \<exists>m. l = Next m \<and> statuses_merged existing incoming m)"
  proof (rule returns_for_range [where I = "\<lambda>pre m. statuses_merged existing pre m"], goal_cases)
    case (2 pre x rest m)
    then show ?case using assms(2) by (intro returns_mono [OF mergeEntry_merges [of existing pre m x]]) auto
  qed (auto simp: statuses_merged_def conditions_merged_None)
  then have "returns (MergeStatuses existing incoming) (statuses_merged existing incoming)"
    unfolding MergeStatuses_def mergeRecursive_def by (rule returns_bnd) auto
  from returnsD [OF this assms(1)] show ?thesis .
qed

text \<open>The last pipeline of a workflow reports its completion, in place of an older report if there is one.\<close>

definition completion_marked :: "json \<Rightarrow> (string \<times> json) list \<Rightarrow> (string \<times> json) list \<Rightarrow> bool" where
  "completion_marked c m new \<longleftrightarrow>
     (\<forall>k. k \<noteq> ''message'' \<longrightarrow> k \<noteq> ''conditions'' \<longrightarrow> map_of new k = map_of m k) \<and>
     map_of new ''message'' = (if map_of m ''message'' = Some (JStr ''Pending'') then Some (JStr ''Resource requested'') else map_of m ''message'') \<and>
     (\<exists>cs old. map_of new ''conditions'' = Some (JList cs) \<and> old = (case map_of m ''conditions'' of Some (JList old) \<Rightarrow> old | _ \<Rightarrow> []) \<and>
        c \<in> set cs \<and> set cs \<subseteq> insert c (set old) \<and> {d \<in> set old. condType d \<noteq> condType c} \<subseteq> set cs \<and>
        (distinct (map condType old) \<longrightarrow> distinct (map condType cs)))"

lemma replaceFirst_spec:
  "c \<in> set (replaceFirst c cs)" "set (replaceFirst c cs) \<subseteq> insert c (set cs)" "{d \<in> set cs. condType d \<noteq> condType c} \<subseteq> set (replaceFirst c cs)"
  "distinct (map condType cs) \<Longrightarrow> distinct (map condType (replaceFirst c cs))"
proof -
  have "condType ` set (replaceFirst c cs) \<subseteq> insert (condType c) (condType ` set cs)" for cs by (induction c cs rule: replaceFirst.induct) auto
  then show "distinct (map condType cs) \<Longrightarrow> distinct (map condType (replaceFirst c cs))"
    by (induction c cs rule: replaceFirst.induct) fastforce+
qed (induction c cs rule: replaceFirst.induct; auto)+

lemma MarkAsCompleted_marks:
  assumes "exec (MarkAsCompleted F m) t (Returned new)"
  shows "\<exists>now. completion_marked (completedCondition F now) m new"
proof -
  let ?m = "if map_of m ''message'' = Some (JStr ''Pending'') then json_update ''message'' (JStr ''Resource requested'') m else m"
  let ?cs = "case map_of ?m ''conditions'' of Some (JList cs) \<Rightarrow> Some cs | _ \<Rightarrow> None"
  from assms obtain now where new: "new = json_update ''conditions'' (JList (updateConditions ?cs (completedCondition F now))) ?m"
    by (auto simp: MarkAsCompleted_def pod_now_def exec_Call_iff exec_Ret_iff Let_def elim!: exec_bndE)
  define old where "old = (case map_of m ''conditions'' of Some (JList old) \<Rightarrow> old | _ \<Rightarrow> [])"
  have "updateConditions ?cs c = replaceFirst c old" for c
    by (auto simp: updateConditions_def old_def split: option.split json.split)
  with new have "map_of new ''conditions'' = Some (JList (replaceFirst (completedCondition F now) old))" by simp
  then show ?thesis
    unfolding completion_marked_def old_def [symmetric] using replaceFirst_spec [where c = "completedCondition F now" and cs = old] new
    by (intro exI [of _ now]) auto
qed

text \<open>A status that may be written for an object: what was there, merged with what the pipeline has left, if it has.\<close>

definition left_by_pipeline :: "lib \<Rightarrow> ptrace \<Rightarrow> (string \<times> json) list \<Rightarrow> bool" where
  "left_by_pipeline L t incoming \<longleftrightarrow>
     (\<exists>s. (PodReadFile statusFile, PStr s) \<in> set t \<and> L_UnmarshalMap L s = Inr incoming) \<or> (\<exists>e. (PodStat statusFile, PErr e) \<in> set t \<and> incoming = [])"

definition status_due :: "lib \<Rightarrow> (time \<Rightarrow> string) \<Rightarrow> Parameters \<Rightarrow> ptrace \<Rightarrow> unstructured \<Rightarrow> bool" where
  "status_due L F params t w \<longleftrightarrow>
     (\<exists>u incoming m new. (DynGet (ObjectGVR params) (ObjectNamespace params) (ObjectName params), PObj u) \<in> set t \<and>
        w = u\<lparr>u_status := Some (JObj new)\<rparr> \<and> left_by_pipeline L t incoming \<and> statuses_merged (status_fields u) incoming m \<and>
        (if IsLastPipeline params then \<exists>now. completion_marked (completedCondition F now) m new else new = m))"

definition writes_due :: "lib \<Rightarrow> (time \<Rightarrow> string) \<Rightarrow> Parameters \<Rightarrow> ptrace \<Rightarrow> pod_req \<times> pod_resp \<Rightarrow> bool" where
  "writes_due L F params t x \<longleftrightarrow>
     (\<forall>g ns w. fst x = DynUpdateStatus g ns w \<longrightarrow> g = ObjectGVR params \<and> ns = ObjectNamespace params \<and> status_due L F params t w)"

lemma status_due_later: "status_due L F params t w \<Longrightarrow> status_due L F params (t' @ t) w"
  unfolding status_due_def left_by_pipeline_def by (elim exE conjE) (intro exI conjI; (assumption | auto))

interpretation due: trace_guard "writes_due L F params" for L F params
  by unfold_locales (auto simp: writes_due_def intro: status_due_later)

text \<open>What a YAML document decodes to has each key once.\<close>

definition yaml_keys :: "lib \<Rightarrow> bool" where
  "yaml_keys L \<longleftrightarrow> (\<forall>s m. L_UnmarshalMap L s = Inr m \<longrightarrow> distinct (map fst m))"

lemma due_quiet: "only (\<lambda>q. \<forall>g ns w. q \<noteq> DynUpdateStatus g ns w) m \<Longrightarrow> only (due.unguarded L F params) m"
  by (erule only_mono) (simp add: due.unguarded_def writes_due_def)

lemmas pod_calls = pod_env_def pod_unit_def pod_str_def pod_obj_def pod_now_def pod_range_def

lemma due_parts:
  "only (due.unguarded L F params) getParametersFromEnv" "only (due.unguarded L F params) getK8sClient"
  "only (due.unguarded L F params) (readStatusFile L' file)" "only (due.unguarded L F params) (mergeConditions ec ic)"
  "only (due.unguarded L F params) (MarkAsCompleted F' m)" "only (due.unguarded L F params) (status_map u)"
  unfolding getParametersFromEnv_def getK8sClient_def readStatusFile_def mergeConditions_def MarkAsCompleted_def status_map_def pod_calls Let_def
  by (rule due_quiet; auto intro!: only_intros split: sum.split option.split json.split)+

lemma due_merge: "only (due.unguarded L F params) (MergeStatuses existing incoming)"
  unfolding MergeStatuses_def mergeRecursive_def
proof (intro only_intros)
  fix x m
  show "only (due.unguarded L F params) (mergeEntry x m)"
    unfolding mergeEntry_def by (auto intro!: only_intros due_parts split: prod.split option.split json.split)
qed

lemma readStatusFile_left:
  assumes "exec (readStatusFile L statusFile) t (Returned (Inr incoming))"
  shows "left_by_pipeline L t incoming"
proof -
  have "wpre (readStatusFile L statusFile) (\<lambda>t oc. \<forall>m. oc = Returned (Inr m) \<longrightarrow> left_by_pipeline L t m)"
    by (auto simp: readStatusFile_def pod_calls left_by_pipeline_def split: pod_resp.split sum.split)
  from wpreD [OF assms this] show ?thesis by simp
qed

lemma distinct_left: "yaml_keys L \<Longrightarrow> left_by_pipeline L t incoming \<Longrightarrow> distinct (map fst incoming)"
  by (auto simp: left_by_pipeline_def yaml_keys_def)

lemma existing_fields:
  assumes "exec (if status_nil u then Ret [] else status_map u) t (Returned fs)"
  shows "t = [] \<and> fs = status_fields u"
  using assms by (auto simp: status_map_def status_fields_def status_nil_def exec_Ret_iff exec_Panic_iff split: if_splits option.splits json.splits)

lemma marked_due:
  assumes "exec (if IsLastPipeline params then MarkAsCompleted F m else Ret m) t (Returned new)"
  shows "if IsLastPipeline params then \<exists>now. completion_marked (completedCondition F now) m new else new = m"
  using assms by (auto simp: exec_Ret_iff dest: MarkAsCompleted_marks split: if_splits)

text \<open>The rest of the status writer's run, once the object was fetched.\<close>

lemma due_written:
  assumes "yaml_keys L" and "due.guarded L F params t"
    and u: "(DynGet (ObjectGVR params) (ObjectNamespace params) (ObjectName params), PObj u) \<in> set t"
  shows "wpre (updateFetched L F params u) (\<lambda>t' oc. due.guarded L F params (t @ t'))"
  unfolding updateFetched_def
proof (rule due.guarded_seq [OF _ assms(2)], goal_cases)
  case 1
  show ?case by (auto intro: only_intros due_parts)
next
  case had: (2 t1 fs)
  note fs = existing_fields [OF had(1)]
  show ?case
  proof (rule due.guarded_seq [OF due_parts(3) had(2)], goal_cases)
    case left: (1 t2 res)
    show ?case
    proof (cases res)
      case (Inl e)
      then show ?thesis using left(2) by simp
    next
      case (Inr incoming)
      note inc = readStatusFile_left [OF left(1) [unfolded Inr]]
      show ?thesis
        unfolding Inr sum.case
      proof (rule due.guarded_seq [OF due_merge left(2)], goal_cases)
        case merged: (1 t3 m)
        note m = MergeStatuses_merges [OF merged(1) distinct_left [OF assms(1) inc], unfolded conjunct2 [OF fs]]
        show ?case
        proof (rule due.guarded_seq [OF _ merged(2)], goal_cases)
          case 1
          show ?case by (auto intro: only_intros due_parts)
        next
          case new: (2 t4 new)
          have "status_due L F params ((((t @ t1) @ t2) @ t3) @ t4) (u\<lparr>u_status := Some (JObj new)\<rparr>)"
            unfolding status_due_def using u m marked_due [OF new(1)] inc
            by (intro exI [of _ u] exI [of _ incoming] exI [of _ m] exI [of _ new]) (auto simp: left_by_pipeline_def)
          then have "due.guarded L F params (((((t @ t1) @ t2) @ t3) @ t4) @
              [(DynUpdateStatus (ObjectGVR params) (ObjectNamespace params) (u\<lparr>u_status := Some (JObj new)\<rparr>), x)])" for x
            by (intro due.guarded_snoc [OF new(2)]) (simp add: writes_due_def)
          then show ?case by (simp add: pod_unit_def)
        qed
      qed
    qed
  qed
qed

lemma due_rest:
  assumes "yaml_keys L" and "due.guarded L F params t"
  shows "wpre (updateWith L F params) (\<lambda>t' oc. due.guarded L F params (t @ t'))"
  unfolding updateWith_def
proof (rule due.guarded_seq [OF due_parts(2) assms(2)], goal_cases)
  case (1 t2 err)
  have fetched: "due.guarded L F params ((t @ t2) @ [(DynGet (ObjectGVR params) (ObjectNamespace params) (ObjectName params), r)])" for r
    by (rule due.guarded_snoc [OF 1(2)]) (simp add: writes_due_def)
  show ?case
  proof (cases err)
    case None
    show ?thesis
      unfolding None option.case pod_obj_def bnd.simps wpre.simps
    proof (intro allI, goal_cases)
      case (1 r)
      show ?case
        using fetched [of r] due_written [OF assms(1) fetched [of r]] by (cases r) auto
    qed
  qed (use 1(2) in simp)
qed

lemma getParametersFromEnv_returns: "\<not> exec getParametersFromEnv t (Panicked m)"
proof -
  have "wpre getParametersFromEnv (\<lambda>t oc. \<exists>params. oc = Returned params)"
    by (simp add: getParametersFromEnv_def pod_calls)
  then show ?thesis by (auto dest: wpreD)
qed

lemma due_run:
  assumes "yaml_keys L" and "exec (updateStatusRun L F) t oc"
  shows "\<exists>t1 t2 params. t = t1 @ t2 \<and> exec getParametersFromEnv t1 (Returned params) \<and> due.guarded L F params t"
proof -
  from assms(2) obtain t1 t2 params where t: "t = t1 @ t2" and p: "exec getParametersFromEnv t1 (Returned params)"
    and k: "exec (updateWith L F params) t2 oc" unfolding updateStatusRun_def by (elim exec_bndE) (auto simp: getParametersFromEnv_returns)
  have "due.guarded L F params t1" using due.guarded_quiet [OF due_parts(1) p due.guarded_Nil] by simp
  from wpreD [OF k due_rest [OF assms(1) this]] t p show ?thesis by blast
qed

subsection \<open>The status writer in its container\<close>

text \<open>The environment of a container: of several values for a variable the last one counts.\<close>

definition env_value :: "env_var list \<Rightarrow> string \<Rightarrow> string" where
  "env_value envs v = (case find (\<lambda>e. ev_Name e = v) (rev envs) of Some e \<Rightarrow> ev_Value e | None \<Rightarrow> [])"

definition runs_in :: "k8s_container \<Rightarrow> ptrace \<Rightarrow> bool" where
  "runs_in c t \<longleftrightarrow> (\<forall>v r. (EnvVar v, r) \<in> set t \<longrightarrow> r = PStr (env_value (k_Env c) v))"

lemma runs_in_simps: "runs_in c []" "runs_in c ((q, r) # t) \<longleftrightarrow> (\<forall>v. q = EnvVar v \<longrightarrow> r = PStr (env_value (k_Env c) v)) \<and> runs_in c t"
  by (auto simp: runs_in_def)

lemma find_app: "find P (xs @ ys) = (case find P xs of None \<Rightarrow> find P ys | Some x \<Rightarrow> Some x)"
  by (induction xs) auto

lemma env_value_append: "env_value (a @ b) v = (if v \<in> ev_Name ` set b then env_value b v else env_value a v)"
proof (cases "v \<in> ev_Name ` set b")
  case True
  then obtain e where "find (\<lambda>e. ev_Name e = v) (rev b) = Some e" by (cases "find (\<lambda>e. ev_Name e = v) (rev b)") (auto simp: find_None_iff)
  with True show ?thesis by (simp add: env_value_def find_app)
next
  case False
  then have "find (\<lambda>e. ev_Name e = v) (rev b) = None" by (auto simp: find_None_iff)
  with False show ?thesis by (simp add: env_value_def find_app)
qed

lemma parameters_in_container:
  assumes "exec getParametersFromEnv t (Returned params)" and "runs_in c t"
  shows "ObjectGroup params = env_value (k_Env c) KratixObjectGroupEnvVar \<and> ObjectVersion params = env_value (k_Env c) KratixObjectVersionEnvVar \<and>
    ObjectName params = env_value (k_Env c) KratixObjectNameEnvVar \<and> CRDPlural params = env_value (k_Env c) KratixCrdPluralEnvVar \<and>
    ObjectNamespace params = (if env_value (k_Env c) KratixClusterScopedEnvVar = ''true'' then []
      else if env_value (k_Env c) KratixObjectNamespaceEnvVar = [] then ''default'' else env_value (k_Env c) KratixObjectNamespaceEnvVar) \<and>
    (IsLastPipeline params \<longleftrightarrow> env_value (k_Env c) ''IS_LAST_PIPELINE'' = ''true'')"
proof -
  have "wpre getParametersFromEnv (\<lambda>t oc. \<forall>params. oc = Returned params \<longrightarrow> runs_in c t \<longrightarrow>
    ObjectGroup params = env_value (k_Env c) KratixObjectGroupEnvVar \<and> ObjectVersion params = env_value (k_Env c) KratixObjectVersionEnvVar \<and>
    ObjectName params = env_value (k_Env c) KratixObjectNameEnvVar \<and> CRDPlural params = env_value (k_Env c) KratixCrdPluralEnvVar \<and>
    ObjectNamespace params = (if env_value (k_Env c) KratixClusterScopedEnvVar = ''true'' then []
      else if env_value (k_Env c) KratixObjectNamespaceEnvVar = [] then ''default'' else env_value (k_Env c) KratixObjectNamespaceEnvVar) \<and>
    (IsLastPipeline params \<longleftrightarrow> env_value (k_Env c) ''IS_LAST_PIPELINE'' = ''true''))"
    unfolding getParametersFromEnv_def pod_env_def bnd.simps wpre.simps
    by (intro allI impI) (simp add: runs_in_simps)
  from wpreD [OF assms(1) this] assms(2) show ?thesis by simp
qed

lemma status_writer_env:
  assumes "exec (statusWriterContainer D p obj envs) t0 (Returned c)"
  shows "env_value (k_Env c) KratixObjectGroupEnvVar = g_Group (u_gvk obj)" "env_value (k_Env c) KratixObjectVersionEnvVar = g_Version (u_gvk obj)"
    "env_value (k_Env c) KratixObjectNameEnvVar = m_Name (u_meta obj)" "env_value (k_Env c) KratixCrdPluralEnvVar = pf_CRDPlural p"
    "env_value (k_Env c) KratixClusterScopedEnvVar = formatBool (pf_ClusterScoped p)" "env_value (k_Env c) KratixObjectNamespaceEnvVar = pf_Namespace p"
    "env_value (k_Env c) ''IS_LAST_PIPELINE'' = env_value envs ''IS_LAST_PIPELINE''"
proof -
  have "k_Env c = envs @ [env KratixObjectKindEnvVar (to_lower (g_Kind (u_gvk obj))), env KratixObjectGroupEnvVar (g_Group (u_gvk obj)),
      env KratixObjectVersionEnvVar (g_Version (u_gvk obj)), env KratixObjectNameEnvVar (u_name obj), env KratixObjectNamespaceEnvVar (pf_Namespace p),
      env KratixCrdPluralEnvVar (pf_CRDPlural p), env KratixClusterScopedEnvVar (formatBool (pf_ClusterScoped p))]"
    using assms by (auto simp: statusWriterContainer_def getenv_def exec_Ret_iff exec_Call_iff)
  then show "env_value (k_Env c) KratixObjectGroupEnvVar = g_Group (u_gvk obj)" "env_value (k_Env c) KratixObjectVersionEnvVar = g_Version (u_gvk obj)"
    "env_value (k_Env c) KratixObjectNameEnvVar = m_Name (u_meta obj)" "env_value (k_Env c) KratixCrdPluralEnvVar = pf_CRDPlural p"
    "env_value (k_Env c) KratixClusterScopedEnvVar = formatBool (pf_ClusterScoped p)" "env_value (k_Env c) KratixObjectNamespaceEnvVar = pf_Namespace p"
    "env_value (k_Env c) ''IS_LAST_PIPELINE'' = env_value envs ''IS_LAST_PIPELINE''"
    by (simp_all only: env_value_append) (simp_all add: env_value_def env_def consts_defs u_name_def)
qed

text \<open>
  C13. In the container the pipeline factory makes for it, the status writer updates the status of the object of the workflow and of no other. What it
  writes is the object as it was fetched but for the status: the status left by the pipeline merged into the fetched one, where a new value
  replaces an old one and of the conditions there is one for each type, the newest; and if the container was told that this is the
  last pipeline, with the completion reported.
\<close>

theorem status_writer_updates:
  assumes "yaml_keys L" and "exec (statusWriterContainer D p obj envs) t0 (Returned c)"
    and "exec (updateStatusRun L F) (t @ (DynUpdateStatus g ns w, x) # t') oc" and "runs_in c (t @ (DynUpdateStatus g ns w, x) # t')"
  shows "g = \<lparr>r_Group = g_Group (u_gvk obj), r_Version = g_Version (u_gvk obj), r_Resource = pf_CRDPlural p\<rparr> \<and>
    ns = (if pf_ClusterScoped p then [] else if pf_Namespace p = [] then ''default'' else pf_Namespace p) \<and>
    (\<exists>u incoming m new. (DynGet g ns (m_Name (u_meta obj)), PObj u) \<in> set t \<and> w = u\<lparr>u_status := Some (JObj new)\<rparr> \<and> left_by_pipeline L t incoming \<and>
       statuses_merged (status_fields u) incoming m \<and>
       (if env_value envs ''IS_LAST_PIPELINE'' = ''true'' then \<exists>now. completion_marked (completedCondition F now) m new else new = m))"
proof -
  from due_run [OF assms(1,3)] obtain t1 t2 params where t: "t @ (DynUpdateStatus g ns w, x) # t' = t1 @ t2"
    and p: "exec getParametersFromEnv t1 (Returned params)" and "due.guarded L F params (t @ (DynUpdateStatus g ns w, x) # t')" by blast
  then have due: "writes_due L F params t (DynUpdateStatus g ns w, x)" unfolding due.guarded_def by blast
  have "runs_in c t1" using assms(4) unfolding t by (auto simp: runs_in_def)
  from parameters_in_container [OF p this] status_writer_env [OF assms(2)]
  have "ObjectGVR params = \<lparr>r_Group = g_Group (u_gvk obj), r_Version = g_Version (u_gvk obj), r_Resource = pf_CRDPlural p\<rparr>"
    "ObjectName params = m_Name (u_meta obj)" "IsLastPipeline params \<longleftrightarrow> env_value envs ''IS_LAST_PIPELINE'' = ''true''"
    "ObjectNamespace params = (if pf_ClusterScoped p then [] else if pf_Namespace p = [] then ''default'' else pf_Namespace p)"
    by (simp_all add: ObjectGVR_def formatBool_def)
  with due show ?thesis by (simp add: writes_due_def status_due_def)
qed

lemma plain_yaml_keys: "yaml_keys plain_lib"
  by (auto simp: yaml_keys_def plain_lib_def)

definition ex_promise_object :: "json option \<Rightarrow> unstructured" where
  "ex_promise_object st = \<lparr>u_meta = ex_meta ''redis'', u_gvk = \<lparr>g_Group = ''platform.kratix.io'', g_Version = ''v1alpha1'', g_Kind = ''Promise''\<rparr>, u_spec = None, u_status = st\<rparr>"

lemmas adapter_eval = updateStatusRun_def updateWith_def updateFetched_def getParametersFromEnv_def getK8sClient_def readStatusFile_def MergeStatuses_def mergeRecursive_def
  mergeEntry_def MarkAsCompleted_def updateConditions_def completedCondition_def ObjectGVR_def status_nil_def status_map_def pod_calls

theorem status_writer_updates_witness:
  "\<exists>c t w x t' oc. exec (updateStatusRun plain_lib (\<lambda>t. ''now'')) (t @ (DynUpdateStatus PromiseGVR [] w, x) # t') oc \<and>
     runs_in c (t @ (DynUpdateStatus PromiseGVR [] w, x) # t') \<and>
     (\<exists>u m new now. w = u\<lparr>u_status := Some (JObj new)\<rparr> \<and> completion_marked (completedCondition (\<lambda>t. ''now'') now) m new)"
proof -
  let ?p = "ForPromise ex_pipeline ex_promise WorkflowActionConfigure"
  let ?envs = "[env ''IS_LAST_PIPELINE'' ''true'']"
  have "\<exists>t0 c. script (statusWriterContainer ex_defaults ?p (ex_promise_object None) ?envs) [RStr ''img''] = Some (t0, Returned c)"
    by (simp add: statusWriterContainer_def getenv_def)
  then obtain t0 c where c: "exec (statusWriterContainer ex_defaults ?p (ex_promise_object None) ?envs) t0 (Returned c)" by (auto dest!: script_exec)
  have prom: "env_value (k_Env c) KratixPromiseNameEnvVar = []" "env_value (k_Env c) ''INPUT_DIR'' = []" "env_value (k_Env c) ''OUTPUT_DIR'' = []"
    using c by (simp_all add: statusWriterContainer_def getenv_def exec_Call_iff exec_Ret_iff env_value_def env_def consts_defs, auto simp: consts_defs)
  have "\<exists>t w. script (updateStatusRun plain_lib (\<lambda>t. ''now'')) [PStr ''platform.kratix.io'', PStr ''v1alpha1'', PStr ''redis'', PStr SystemNamespace, PStr ''promises'', PStr ''true'', PStr [],
      PStr ''true'', PStr [], PStr [], PStr ''config'', POk, PObj (ex_promise_object (Some (JObj [(''message'', JStr ''Pending'')]))), POk, PStr ''done'', PTime 5, POk] =
      Some (t @ [(DynUpdateStatus PromiseGVR [] w, POk)], Returned None) \<and> runs_in c (t @ [(DynUpdateStatus PromiseGVR [] w, POk)])"
    using status_writer_env [OF c] prom
    by (simp add: adapter_eval runs_in_simps ForPromise_def formatBool_def ex_promise_object_def PromiseGVR_def ex_defs plain_lib_def env_value_def [of "[_]"] env_def Let_def)
  then obtain t w where e: "exec (updateStatusRun plain_lib (\<lambda>t. ''now'')) (t @ (DynUpdateStatus PromiseGVR [] w, POk) # []) (Returned None)"
    and r: "runs_in c (t @ (DynUpdateStatus PromiseGVR [] w, POk) # [])" by (auto dest!: script_exec)
  from status_writer_updates [OF plain_yaml_keys c e r] e r show ?thesis
    by (auto simp: env_value_def env_def) blast
qed

text \<open>A condition whose type is missing is lost when a list of conditions is merged with another one, even an empty one.\<close>

lemma mergeConditions_drops_untyped:
  assumes "condType c = None"
  shows "\<exists>t. exec (mergeConditions [c] []) t (Returned [])"
proof -
  have "script (mergeConditions [c] []) [POk] = Some ([(PodMapOrder [], POk)], Returned [])"
    using assms by (simp add: mergeConditions_def addByType_def pod_range_def)
  then show ?thesis by (metis script_exec)
qed

end
