(* ===== verification/ManagerConfig.thy ===== *)
theory ManagerConfig
  imports PromiseController
begin

text \<open>
  The configuration of the manager (\<open>src/cmd/main.go\<close>): the config map with the options of Kratix, and how they reach the pipeline
  factory and the promise controller. The decoder of the map's YAML is the parameter \<open>U\<close>. The rest of \<open>main\<close> parses flags,
  builds the manager and registers the controllers and webhooks with it, all of which is code of libraries.
\<close>

record LeaderElectionConfig =
  le_LeaseDuration :: "duration option"
  le_RenewDeadline :: "duration option"
  le_RetryPeriod :: "duration option"

record KratixConfig =
  kc_DefaultContainerSecurityContext :: security_context
  kc_DefaultImagePullPolicy :: string
  kc_DefaultBackoffLimit :: "int option"
  kc_NumberOfJobsToKeep :: int
  kc_ControllerLeaderElection :: "LeaderElectionConfig option"
  kc_SelectiveCache :: bool
  kc_ReconciliationInterval :: "duration option"

definition numJobsToKeepDefault :: int where "numJobsToKeepDefault = 5"

definition DefaultReconciliationInterval :: duration where "DefaultReconciliationInterval = 10 * 60 * 60 * second"

fun un_config :: "kobj \<Rightarrow> config_map option" where "un_config (OConfigMap x) = Some x" | "un_config _ = None"

interpretation config_maps: api_kind un_config OConfigMap
  by unfold_locales (auto elim: un_config.elims)

definition readKratixConfig :: "(string \<Rightarrow> err + KratixConfig) \<Rightarrow> (err + KratixConfig option) go" where
  "readKratixConfig U =
     bnd (call_obj (Get KConfigMap ''kratix-platform-system'' ''kratix'') un_config) (\<lambda>res.
     Ret (case res of
            Inl e \<Rightarrow>
              if IsNotFound e then Inr None
              else Inl (EWrap ''failed to get kratix-platform-system/kratix configmap: '' e)
          | Inr cm \<Rightarrow>
              (case fmlookup (cm_Data cm) ''config'' of
                 None \<Rightarrow> Inl (EStr (''configmap kratix-platform-system/kratix does not contain a '' @ CHR 0x27 # ''config'' @ CHR 0x27 # '' key''))
               | Some config \<Rightarrow>
                   (case U config of
                      Inl e \<Rightarrow> Inl (EWrap ''failed to unmarshal ConfigMap kratix-platform-system/kratix into Kratix config: '' e)
                    | Inr kratixConfig \<Rightarrow> Inr (Some kratixConfig)))))"

definition getNumJobsToKeep :: "KratixConfig option \<Rightarrow> int" where
  "getNumJobsToKeep kratixConfig =
     (case kratixConfig of
        None \<Rightarrow> numJobsToKeepDefault
      | Some c \<Rightarrow>
          if kc_NumberOfJobsToKeep c = 0 then numJobsToKeepDefault
          else if kc_NumberOfJobsToKeep c < 1 then numJobsToKeepDefault
          else kc_NumberOfJobsToKeep c)"

definition getRegularReconciliationInterval :: "KratixConfig option \<Rightarrow> duration" where
  "getRegularReconciliationInterval kratixConfig =
     (case kratixConfig of
        None \<Rightarrow> DefaultReconciliationInterval
      | Some c \<Rightarrow> (case kc_ReconciliationInterval c of None \<Rightarrow> DefaultReconciliationInterval | Some d \<Rightarrow> d))"

text \<open>The part of \<open>main\<close> that sets the package variables of the pipeline factory.\<close>

definition setDefaults :: "KratixConfig option \<Rightarrow> PipelineDefaults \<Rightarrow> PipelineDefaults" where
  "setDefaults kratixConfig D =
     (case kratixConfig of
        None \<Rightarrow> D
      | Some c \<Rightarrow>
          D\<lparr>DefaultUserProvidedContainersSecurityContext := Some (kc_DefaultContainerSecurityContext c),
            DefaultImagePullPolicy := kc_DefaultImagePullPolicy c,
            DefaultJobBackoffLimit := (case kc_DefaultBackoffLimit c of None \<Rightarrow> DefaultJobBackoffLimit D | Some b \<Rightarrow> Some b)\<rparr>)"

text \<open>The options of the leader election, which are a part of the manager's.\<close>

definition setLeaderElectConfig :: "LeaderElectionConfig \<Rightarrow> LeaderElectionConfig \<Rightarrow> LeaderElectionConfig" where
  "setLeaderElectConfig mgrOptions k =
     (let set = (\<lambda>old new. case new of None \<Rightarrow> old | Some d \<Rightarrow> Some d) in
      \<lparr>le_LeaseDuration = set (le_LeaseDuration mgrOptions) (le_LeaseDuration k),
       le_RenewDeadline = set (le_RenewDeadline mgrOptions) (le_RenewDeadline k),
       le_RetryPeriod = set (le_RetryPeriod mgrOptions) (le_RetryPeriod k)\<rparr>)"

definition configuredReconciler :: "KratixConfig option \<Rightarrow> PromiseReconciler" where
  "configuredReconciler kratixConfig =
     \<lparr>pc_NumberOfJobsToKeep = getNumJobsToKeep kratixConfig, pc_ReconciliationInterval = getRegularReconciliationInterval kratixConfig\<rparr>"

subsection \<open>A configuration never loses the last job\<close>

lemma getNumJobsToKeep_positive: "1 \<le> getNumJobsToKeep c"
  by (auto simp: getNumJobsToKeep_def numJobsToKeepDefault_def split: option.split)

text \<open>
  Whatever the configuration says: when jobs of a pipeline are cleaned up with the number the promise controller is given, one of the youngest
  is kept.
\<close>

lemma configured_cleanup_keeps_youngest:
  assumes "sort_laws L" and "exec (cleanupJobs L opts jobs) t oc" and "mild t" and "jobs \<noteq> []"
    and "o_numberOfJobsToKeep opts = pc_NumberOfJobsToKeep (configuredReconciler c)"
  shows "\<exists>gone kept. made deleted t = map OJob gone \<and> mset jobs = mset gone + mset kept \<and> kept \<noteq> [] \<and>
    (\<forall>g\<in>set gone. \<forall>k\<in>set kept. created g \<le> created k)"
proof -
  have n: "1 \<le> o_numberOfJobsToKeep opts" using assms(5) getNumJobsToKeep_positive by (simp add: configuredReconciler_def)
  then obtain gone kept where "made deleted t = map OJob gone" "mset jobs = mset gone + mset kept"
    "length kept = min (length jobs) (nat (o_numberOfJobsToKeep opts))" "\<forall>g\<in>set gone. \<forall>k\<in>set kept. created g \<le> created k"
    using cleanupJobs_keeps_youngest [OF assms(1) _ assms(2,3)] by auto
  moreover from this(3) n assms(4) have "kept \<noteq> []" by (auto simp: min_def split: if_splits)
  ultimately show ?thesis by blast
qed

end
