(* ===== verification/Spec2Isabelle.thy ===== *)
theory Spec2Isabelle
  imports WorkflowSafety WorkPlacementSafety S3Writer GitWriter DestinationController WorkCreator PromiseAvailability
    Webhooks HealthRecords PipelineAdapter ManagerConfig
begin

text \<open>
  Kratix in Isabelle/HOL.

  \<^bold>\<open>The program.\<close> Kratix is a Kubernetes operator. A \<^emph>\<open>Promise\<close> offers an API to users; a \<^emph>\<open>resource request\<close> is an object of that
  API. For both Kratix runs \<^emph>\<open>workflows\<close>: sequences of pipelines, each a Kubernetes job. The last container of a
  job (the work creator) collects the files the pipeline wrote into a \<^emph>\<open>Work\<close>. The scheduler turns the workload groups of a Work into
  \<^emph>\<open>WorkPlacements\<close>, one for each chosen \<^emph>\<open>Destination\<close>; the controller of placements writes the files to the \<^emph>\<open>state store\<close>
  of the destination, a bucket or a git repository. Deleting anything is a protocol of finalizers that runs backwards through this
  chain. \<^emph>\<open>Promise releases\<close> install Promises from a URL, \<^emph>\<open>health records\<close> report on resource requests, and admission webhooks
  check what users create.

  \<^bold>\<open>How the code is modelled.\<close> Every function of the sources that talks to the outside is a program \<open>('q, 'r, 'a) prog\<close>
  (\<^verbatim>\<open>Prelude\<close>): it returns, panics, or makes a request and continues with the response. \<open>exec p t oc\<close> is the relation
  between a program, the trace of its requests and responses, and its outcome; nothing is assumed of the responses, so a
  property over all executions covers every failure of the API server and every interleaving with other
  clients. Errors are values (\<open>err + 'a\<close>), a dereferenced nil pointer and an index out of range are \<open>Panic\<close>, loops with an early return are
  \<open>for_range\<close>, and iterating over a Go map asks the runtime for the order. Pure functions are HOL functions. Go's \<open>int\<close> is
  \<open>int\<close>, which is exact here: the sources add and compare lengths and counters far below its bounds. Definitions have the names of the code; a
  name that several Go types share carries a prefix (\<open>GitUpdate\<close>, \<open>PromiseValidateCreate\<close>).

  \<^bold>\<open>What is outside.\<close> \<^verbatim>\<open>World\<close> holds the requests, the objects of the API server, and the record \<open>lib\<close> of the functions of third-party
  packages that are called for their value (conditions, finalizers, label merging, YAML and JSON codecs, MD5, gzip). They are parameters.
  What a property needs of them is a named law that states their documentation: \<open>condition_laws\<close>, \<open>finalizer_laws\<close>, \<open>merge_laws\<close>, \<open>owner_laws\<close>,
  \<open>sort_laws\<close>, \<open>statefile_laws\<close>, \<open>gzip_laws\<close>, \<open>uconditions_laws\<close>, \<open>unstructured_laws\<close>, \<open>yaml_keys\<close>; \<open>plain_lib\<close> satisfies them all, and the
  witnesses run on it (objects in \<^verbatim>\<open>Examples\<close>). \<open>CreateOrUpdate\<close> of controller-runtime reads an object, has it changed by a function of the sources,
  and then compares and writes; the last half is the library's and is one request, \<open>CreateOrUpdateStore\<close>, whose answer also covers the case that nothing
  had to be written.

  \<^bold>\<open>The theories.\<close>

  \<^item> \<^verbatim>\<open>Prelude\<close>: programs, executions, weakest preconditions (\<open>wpre\<close>, \<open>wpre_simps\<close>), footprints (\<open>only\<close>, \<open>only_intros\<close>), results (\<open>returns\<close>), scripts,
    and the locale \<open>trace_guard\<close> for properties of the form: a request of a certain kind is made only after something was seen. The
    safety properties of the controllers are its interpretations.
  \<^item> \<^verbatim>\<open>ApiTypes\<close>, \<^verbatim>\<open>V1alpha1\<close>, \<^verbatim>\<open>PromiseTypes\<close>: the types of Kubernetes that are used and those of \<^verbatim>\<open>src/api/v1alpha1\<close>.
  \<^item> \<^verbatim>\<open>Filepath\<close>: \<open>path/filepath\<close> of Go, with the laws of \<open>Clean\<close>, \<open>Join\<close> and \<open>Rel\<close> that the paths of files rest on.
  \<^item> \<^verbatim>\<open>ObjectUtil\<close>: \<^verbatim>\<open>src/lib/objectutil\<close>, \<^verbatim>\<open>src/lib/hash\<close>, \<^verbatim>\<open>src/lib/compression\<close>. Names keep to the limit of 63 characters; compression round trip.
  \<^item> \<^verbatim>\<open>ResourceUtil\<close>: \<^verbatim>\<open>src/lib/resourceutil\<close>, the status and conditions of resource requests.
  \<^item> \<^verbatim>\<open>PipelineFactory\<close>: \<^verbatim>\<open>src/api/v1alpha1/pipeline_factory.go\<close>, \<^verbatim>\<open>pipeline_types.go\<close> and the API of \<^verbatim>\<open>promise_types.go\<close>. The jobs of a workflow are in the
    order of its pipelines, and the permissions of a pipeline stay in their namespaces.
  \<^item> \<^verbatim>\<open>Workflow\<close>, \<^verbatim>\<open>WorkflowSafety\<close>: \<^verbatim>\<open>src/lib/workflow\<close>. Pipelines run one after the other, none after a failed one, a workflow is done only when its last
    job succeeded; only what is no longer wanted is removed; foreign service accounts are left alone.
  \<^item> \<^verbatim>\<open>Scheduler\<close>: \<^verbatim>\<open>src/internal/controller/scheduler.go\<close>. Selectors by priority, the choice of destinations, the placements that are made, kept and
    removed, and the report in the Work's status.
  \<^item> \<^verbatim>\<open>WorkController\<close>: \<^verbatim>\<open>work_controller.go\<close>, as a client of the interface \<open>work_scheduler\<close>, which the scheduler interprets.
  \<^item> \<^verbatim>\<open>StateStores\<close>: \<^verbatim>\<open>shared.go\<close>, \<^verbatim>\<open>state_store.go\<close> and the controllers of the two kinds of state store, which interpret the locale \<open>state_store\<close>.
    A store is ready only when its permissions were validated, and a failed check is returned and recorded.
  \<^item> \<^verbatim>\<open>WorkPlacementController\<close>, \<^verbatim>\<open>WorkPlacementSafety\<close>, \<^verbatim>\<open>StateFiles\<close>: \<^verbatim>\<open>workplacement_controller.go\<close>. Files come before status and finalizers, and which
    files these are is part of the statement; in the file mode \<open>none\<close> the life of a placement's files is a transition system whose invariant is that the state
    file lists them all, from which a complete clean-up follows. The transition system is that of a store whose updates happen at once or not at all
    (\<open>atomically_served\<close>): git is one, a bucket is not.
  \<^item> \<^verbatim>\<open>Writers\<close>, \<^verbatim>\<open>S3Writer\<close>, \<^verbatim>\<open>GitWriter\<close>: \<^verbatim>\<open>src/lib/writers\<close>. The locales \<open>service\<close>, \<open>store_writer\<close> and \<open>atomic_writer\<close> say what the placement controller
    relies on. Both writers interpret the first two, against a bucket and against a remote branch with a local clone; only the git writer interprets
    \<open>atomic_writer\<close>, since an update of a bucket that fails midway has changed a part of it. The invariant of \<^verbatim>\<open>StateFiles\<close> is carried over to git
    through the refinement. Of the bucket it is assumed that an ETag equals the MD5 of a content only if it is the object's content, and that MD5 tells the
    contents at hand apart; ETags that are no MD5 at all are allowed. Of the local disk it is assumed that Lstat fails only on a path that is not there, and
    that nothing else removes the clone (updates of other passes remove its parent directory, which is a finding); what happens when Lstat fails otherwise is
    shown by \<open>failed_Lstat_reads_missing\<close> and \<open>failed_Lstat_keeps_directory\<close>.
  \<^item> \<^verbatim>\<open>DestinationController\<close>: \<^verbatim>\<open>destination_controller.go\<close>. A destination is let go only when it is clean.
  \<^item> \<^verbatim>\<open>WorkCreator\<close>: \<^verbatim>\<open>src/work-creator/pipeline/work_creator.go\<close>. The recursion over directories has the depth as fuel; a depth above that of the tree is enough
    (\<open>output_collected\<close>), so collecting the output ends, with each file in exactly one group, that of its directory.
  \<^item> \<^verbatim>\<open>PipelineAdapter\<close>: the other programs of the adapter image, the reader and the status writer (\<^verbatim>\<open>src/work-creator/pipeline/lib\<close>, \<^verbatim>\<open>cmd/update-status\<close>), run in
    the containers that \<^verbatim>\<open>PipelineFactory\<close> makes for them.
  \<^item> \<^verbatim>\<open>ResourceRequestController\<close>, \<^verbatim>\<open>ResourceRequestSafety\<close>: \<^verbatim>\<open>dynamic_resource_request_controller.go\<close>. Finalizers go in order, every run of deletion passes
    takes off one of them in each pass and ends when nothing stands in its way, and the conditions say what is so.
  \<^item> \<^verbatim>\<open>PromiseController\<close>, \<^verbatim>\<open>PromiseSafety\<close>, \<^verbatim>\<open>PromiseAvailability\<close>: \<^verbatim>\<open>promise_controller.go\<close>. Finalizers in order, requirements reported as they are, availability only
    when requests are served, one controller for each Promise.
  \<^item> \<^verbatim>\<open>PromiseReleaseController\<close>: \<^verbatim>\<open>promiserelease_controller.go\<close> and \<^verbatim>\<open>src/lib/fetchers/url.go\<close>. A release is installed only with its Promise at its version.
  \<^item> \<^verbatim>\<open>HealthRecords\<close>: \<^verbatim>\<open>healthrecord_controller.go\<close>. \<^verbatim>\<open>Webhooks\<close>: \<^verbatim>\<open>src/internal/webhook/v1alpha1\<close>. \<^verbatim>\<open>ManagerConfig\<close>: the configuration in \<^verbatim>\<open>src/cmd/main.go\<close>.

  \<^bold>\<open>Where the code does not do what it says.\<close> The lemmas after some of the properties show executions of this kind, among them: an upload to a bucket that fails
  half way leaves files that no state file lists; a git update removes the directory that holds its clone; a Promise is announced as available before
  its workflow ran; the jobs finalizer goes while jobs remain; two destinations of one store may share a directory.

  \<^bold>\<open>Not modelled.\<close> The main functions (flags, construction of the manager and its restart, registration of controllers and webhooks): they only call
  libraries and start what is modelled. Generated code (deep copies) and the fakes of the tests. Logging, and the indexes that \<open>SetupWithManager\<close> asks the cache
  to keep (a list request with a field selector is a request like any other). Two clients at once are not interleaved explicitly: each program runs against
  arbitrary responses, which includes what others do between two requests.
\<close>

end
